(* ===== verification/Harness_Prelude.thy ===== *)
theory Harness_Prelude
  imports Main "HOL-Library.Word" "HOL-Library.Char_ord" "HOL-Library.List_Lexorder"
begin

text \<open>
  Shared vocabulary of the development: result values, the state-and-error
  computations in which the vault operations are written, byte strings and the
  standard-library string functions the sources call, ordered maps as sorted
  association lists, and JSON values. Every other theory imports this one.

  A Rust \<open>String\<close> or \<open>&str\<close> is its UTF-8 byte sequence, a \<open>string\<close> (a list of
  8-bit characters); \<open>len\<close> is then \<open>length\<close>, and ordering by \<open>BTreeMap\<close> is the
  bytewise lexicographic order of \<open>List_Lexorder\<close>. A \<open>Vec<u8>\<close> is the same type.
  A \<open>DateTime<Utc>\<close> is the number of nanoseconds since the Unix epoch.
\<close>

section \<open>Collections of rules\<close>

named_theorems sx_simps \<open>unfolding of state-and-error computations\<close>
named_theorems tbl_simps \<open>laws of sorted association lists\<close>
named_theorems str_simps \<open>evaluation of the string functions\<close>

section \<open>Types and results\<close>

type_synonym bytes = string
type_synonym time = int
type_synonym u8 = "8 word"
type_synonym u32 = "32 word"
type_synonym u64 = "64 word"

abbreviation Err :: "'e \<Rightarrow> 'e + 'a" where "Err \<equiv> Inl"
abbreviation Ok :: "'a \<Rightarrow> 'e + 'a" where "Ok \<equiv> Inr"

definition is_ok :: "'e + 'a \<Rightarrow> bool" where
  "is_ok r = (case r of Inl _ \<Rightarrow> False | Inr _ \<Rightarrow> True)"

lemma is_ok_simps [simp]: "is_ok (Inr x)" "\<not> is_ok (Inl e)"
  by (simp_all add: is_ok_def)

lemma is_ok_iff: "is_ok r \<longleftrightarrow> (\<exists>x. r = Inr x)"
  by (cases r) simp_all

definition res_bind :: "'e + 'a \<Rightarrow> ('a \<Rightarrow> 'e + 'b) \<Rightarrow> 'e + 'b" where
  "res_bind r f = (case r of Inl e \<Rightarrow> Inl e | Inr x \<Rightarrow> f x)"

lemma res_bind_simps [simp]:
  "res_bind (Inl e) f = Inl e" "res_bind (Inr x) f = f x"
  by (simp_all add: res_bind_def)

lemma res_bind_Ok_iff: "res_bind r f = Inr y \<longleftrightarrow> (\<exists>x. r = Inr x \<and> f x = Inr y)"
  by (cases r) simp_all

definition ok_or :: "'e \<Rightarrow> 'a option \<Rightarrow> 'e + 'a" where
  "ok_or e x = (case x of None \<Rightarrow> Inl e | Some v \<Rightarrow> Inr v)"

lemma ok_or_simps [simp]: "ok_or e None = Inl e" "ok_or e (Some v) = Inr v"
  by (simp_all add: ok_or_def)

lemma ok_or_Ok_iff: "ok_or e x = Inr v \<longleftrightarrow> x = Some v"
  by (cases x) simp_all

definition map_err :: "('e \<Rightarrow> 'f) \<Rightarrow> 'e + 'a \<Rightarrow> 'f + 'a" where
  "map_err g r = (case r of Inl e \<Rightarrow> Inl (g e) | Inr x \<Rightarrow> Inr x)"

lemma map_err_simps [simp]: "map_err g (Inl e) = Inl (g e)" "map_err g (Inr x) = Inr x"
  by (simp_all add: map_err_def)

lemma map_err_Ok_iff: "map_err g r = Inr x \<longleftrightarrow> r = Inr x"
  by (cases r) simp_all

text \<open>\<open>for x in xs { f(x)?; }\<close> and \<open>collect::<Result<Vec<_>, _>>\<close>: stop at the first error.\<close>

fun res_map :: "('a \<Rightarrow> 'e + 'b) \<Rightarrow> 'a list \<Rightarrow> 'e + 'b list" where
  "res_map f [] = Inr []"
| "res_map f (x # xs) = res_bind (f x) (\<lambda>y. res_bind (res_map f xs) (\<lambda>ys. Inr (y # ys)))"

lemma res_map_cong [fundef_cong]:
  "xs = ys \<Longrightarrow> (\<And>x. x \<in> set ys \<Longrightarrow> f x = g x) \<Longrightarrow> res_map f xs = res_map g ys"
  by (induction ys arbitrary: xs) auto

lemma res_map_Ok: "(\<And>x. x \<in> set xs \<Longrightarrow> f x = Inr (g x)) \<Longrightarrow> res_map f xs = Inr (map g xs)"
  by (induction xs) simp_all

text \<open>What \<open>find\<close> found.\<close>

lemma find_member: "find P xs = Some x \<Longrightarrow> P x \<and> x \<in> set xs"
  by (induction xs) (auto split: if_splits)

section \<open>State-and-error computations\<close>

text \<open>
  A fallible operation on a mutable store. The state reached when the operation fails is
  part of the result: a Rust method that writes and then returns \<open>Err\<close> keeps its writes.
\<close>

type_synonym ('s, 'e, 'a) sx = "'s \<Rightarrow> ('e + 'a) \<times> 's"

definition sx_return :: "'a \<Rightarrow> ('s, 'e, 'a) sx" where
  "sx_return x s = (Inr x, s)"

definition sx_raise :: "'e \<Rightarrow> ('s, 'e, 'a) sx" where
  "sx_raise e s = (Inl e, s)"

definition sx_bind :: "('s, 'e, 'a) sx \<Rightarrow> ('a \<Rightarrow> ('s, 'e, 'b) sx) \<Rightarrow> ('s, 'e, 'b) sx" where
  "sx_bind m f s = (case m s of (Inl e, t) \<Rightarrow> (Inl e, t) | (Inr x, t) \<Rightarrow> f x t)"

text \<open>A read-only query of the state, and a pure fallible computation.\<close>

definition sx_read :: "('s \<Rightarrow> 'e + 'a) \<Rightarrow> ('s, 'e, 'a) sx" where
  "sx_read f s = (f s, s)"

definition sx_lift :: "'e + 'a \<Rightarrow> ('s, 'e, 'a) sx" where
  "sx_lift r s = (r, s)"

definition sx_require :: "bool \<Rightarrow> 'e \<Rightarrow> ('s, 'e, unit) sx" where
  "sx_require b e s = (if b then Inr () else Inl e, s)"

declare sx_return_def [sx_simps] sx_raise_def [sx_simps] sx_bind_def [sx_simps]
  sx_read_def [sx_simps] sx_lift_def [sx_simps] sx_require_def [sx_simps]

lemma sx_bind_Ok:
  "sx_bind m f s = (Inr y, u) \<longleftrightarrow> (\<exists>x t. m s = (Inr x, t) \<and> f x t = (Inr y, u))"
  by (auto simp: sx_bind_def split: prod.splits sum.splits)

lemma sx_read_Ok: "sx_read f s = (Inr y, u) \<longleftrightarrow> f s = Inr y \<and> u = s"
  by (auto simp: sx_read_def)

lemma sx_lift_Ok: "sx_lift r s = (Inr y, u) \<longleftrightarrow> r = Inr y \<and> u = s"
  by (auto simp: sx_lift_def)

lemma sx_return_Ok: "sx_return x s = (Inr y, u) \<longleftrightarrow> y = x \<and> u = s"
  by (auto simp: sx_return_def)

lemma sx_raise_Ok: "\<not> sx_raise e s = (Inr y, u)"
  by (simp add: sx_raise_def)

lemma sx_require_Ok: "sx_require b e s = (Inr y, u) \<longleftrightarrow> b \<and> u = s"
  by (auto simp: sx_require_def)

lemma sx_bind_require_ok:
  "is_ok (fst (sx_bind (sx_require b e) f s)) \<longleftrightarrow> b \<and> is_ok (fst (f () s))"
  by (simp add: sx_bind_def sx_require_def)

lemma sx_bind_lift_ok:
  "is_ok (fst (sx_bind (sx_lift r) f s)) \<longleftrightarrow> (\<exists>x. r = Inr x \<and> is_ok (fst (f x s)))"
  by (cases r) (simp_all add: sx_bind_def sx_lift_def)

lemmas sx_Ok = sx_bind_Ok sx_read_Ok sx_lift_Ok sx_return_Ok sx_raise_Ok sx_require_Ok

text \<open>
  \<open>sx_keeps P m Q\<close>: running \<open>m\<close> keeps \<open>P\<close> of the state, whether it succeeds or fails, and a
  value it returns satisfies \<open>Q\<close>. The rules of \<open>sx_keeps_intros\<close> reduce such a statement
  about an operation to the same about its primitive reads and writes, each of which comes
  with the strongest \<open>Q\<close> its clients need.
\<close>

definition sx_keeps :: "('s \<Rightarrow> bool) \<Rightarrow> ('s, 'e, 'a) sx \<Rightarrow> ('a \<Rightarrow> bool) \<Rightarrow> bool" where
  "sx_keeps P m Q \<longleftrightarrow>
     (\<forall>s. P s \<longrightarrow> P (snd (m s)) \<and> (case fst (m s) of Inl _ \<Rightarrow> True | Inr x \<Rightarrow> Q x))"

named_theorems sx_keeps_intros \<open>preservation of a state predicate by a computation\<close>

lemma sx_keepsI:
  "(\<And>s. P s \<Longrightarrow> P (snd (m s))) \<Longrightarrow> (\<And>s x. P s \<Longrightarrow> fst (m s) = Inr x \<Longrightarrow> Q x) \<Longrightarrow> sx_keeps P m Q"
  by (auto simp: sx_keeps_def split: sum.split)

lemma sx_keeps_state: "sx_keeps P m Q \<Longrightarrow> P s \<Longrightarrow> P (snd (m s))"
  by (simp add: sx_keeps_def)

lemma sx_keeps_value: "sx_keeps P m Q \<Longrightarrow> P s \<Longrightarrow> m s = (Inr x, t) \<Longrightarrow> P t \<and> Q x"
  unfolding sx_keeps_def by (metis fst_conv snd_conv sum.simps(6))

lemma sx_keeps_return [sx_keeps_intros]: "sx_keeps P (sx_return x) (\<lambda>_. True)"
  and sx_keeps_raise [sx_keeps_intros]: "sx_keeps P (sx_raise e) (\<lambda>_. True)"
  and sx_keeps_lift [sx_keeps_intros]: "sx_keeps P (sx_lift r) (\<lambda>x. r = Inr x)"
  and sx_keeps_require [sx_keeps_intros]: "sx_keeps P (sx_require b e) (\<lambda>_. b)"
  by (simp_all add: sx_keeps_def sx_simps split: sum.split)

lemma sx_keeps_bind [sx_keeps_intros]:
  assumes "sx_keeps P m Q" and "\<And>x. Q x \<Longrightarrow> sx_keeps P (f x) R"
  shows "sx_keeps P (sx_bind m f) R"
  using assms by (fastforce simp: sx_keeps_def sx_bind_def split: prod.splits sum.splits)

lemma sx_keeps_if [sx_keeps_intros]:
  "(b \<Longrightarrow> sx_keeps P m Q) \<Longrightarrow> (\<not> b \<Longrightarrow> sx_keeps P n Q) \<Longrightarrow> sx_keeps P (if b then m else n) Q"
  by simp

lemma sx_keeps_prod [sx_keeps_intros]:
  "(\<And>a b. x = (a, b) \<Longrightarrow> sx_keeps P (f a b) Q) \<Longrightarrow> sx_keeps P (case x of (a, b) \<Rightarrow> f a b) Q"
  by (simp split: prod.split)

lemma sx_keeps_option [sx_keeps_intros]:
  "(x = None \<Longrightarrow> sx_keeps P m Q) \<Longrightarrow> (\<And>a. x = Some a \<Longrightarrow> sx_keeps P (f a) Q) \<Longrightarrow>
   sx_keeps P (case x of None \<Rightarrow> m | Some a \<Rightarrow> f a) Q"
  by (simp split: option.split)

text \<open>A computation that changes nothing keeps everything.\<close>

lemma sx_keeps_unchanged: "(\<And>s. snd (m s) = s) \<Longrightarrow> sx_keeps P m (\<lambda>_. True)"
  by (auto simp: sx_keeps_def split: sum.split)

lemma sx_keeps_weaken: "sx_keeps P m Q \<Longrightarrow> (\<And>x. Q x \<Longrightarrow> R x) \<Longrightarrow> sx_keeps P m R"
  by (auto simp: sx_keeps_def split: sum.splits)

section \<open>Ordered maps\<close>

text \<open>
  A \<open>BTreeMap<String, V>\<close> (and a table with a text primary key read in key order) is an
  association list sorted by key. Insertion replaces the value of a present key. The keys
  are strings almost everywhere; a table of the versions of a secret has number keys.
\<close>

type_synonym 'v table = "(string \<times> 'v) list"

definition tbl_ok :: "('k::linorder \<times> 'v) list \<Rightarrow> bool" where
  "tbl_ok t \<longleftrightarrow> sorted_wrt (<) (map fst t)"

definition tbl_get :: "'k \<Rightarrow> ('k \<times> 'v) list \<Rightarrow> 'v option" where
  "tbl_get k t = map_of t k"

fun tbl_put :: "'k::linorder \<Rightarrow> 'v \<Rightarrow> ('k \<times> 'v) list \<Rightarrow> ('k \<times> 'v) list" where
  "tbl_put k v [] = [(k, v)]"
| "tbl_put k v ((a, b) # t) =
     (if k < a then (k, v) # (a, b) # t
      else if k = a then (k, v) # t
      else (a, b) # tbl_put k v t)"

definition tbl_del :: "'k \<Rightarrow> ('k \<times> 'v) list \<Rightarrow> ('k \<times> 'v) list" where
  "tbl_del k t = filter (\<lambda>e. fst e \<noteq> k) t"

definition tbl_has :: "'k \<Rightarrow> ('k \<times> 'v) list \<Rightarrow> bool" where
  "tbl_has k t = (tbl_get k t \<noteq> None)"

definition tbl_map :: "('v \<Rightarrow> 'w) \<Rightarrow> ('k \<times> 'v) list \<Rightarrow> ('k \<times> 'w) list" where
  "tbl_map f t = map (\<lambda>e. (fst e, f (snd e))) t"

lemma tbl_ok_Nil [simp]: "tbl_ok []"
  by (simp add: tbl_ok_def)

lemma tbl_ok_Cons: "tbl_ok ((a, b) # t) \<longleftrightarrow> (\<forall>k \<in> fst ` set t. a < k) \<and> tbl_ok t"
  by (simp add: tbl_ok_def)

lemma tbl_get_Nil [simp]: "tbl_get k [] = None"
  by (simp add: tbl_get_def)

lemma tbl_get_Cons: "tbl_get k ((a, b) # t) = (if k = a then Some b else tbl_get k t)"
  by (simp add: tbl_get_def)

lemma tbl_get_put [tbl_simps]:
  "tbl_get k' (tbl_put k v t) = (if k' = k then Some v else tbl_get k' t)"
  by (induction k v t rule: tbl_put.induct) (auto simp: tbl_get_Cons)

lemma keys_tbl_put: "fst ` set (tbl_put k v t) = insert k (fst ` set t)"
  by (induction k v t rule: tbl_put.induct) auto

lemma tbl_ok_put [tbl_simps, intro]: "tbl_ok t \<Longrightarrow> tbl_ok (tbl_put k v t)"
  by (induction k v t rule: tbl_put.induct) (auto simp: tbl_ok_Cons keys_tbl_put)

lemma tbl_ok_del [tbl_simps, intro]: "tbl_ok t \<Longrightarrow> tbl_ok (tbl_del k t)"
  by (induction t) (auto simp: tbl_del_def tbl_ok_Cons)

lemma tbl_get_del [tbl_simps]:
  "tbl_get k' (tbl_del k t) = (if k' = k then None else tbl_get k' t)"
  by (induction t) (auto simp: tbl_del_def tbl_get_Cons)

lemma tbl_get_map [tbl_simps]: "tbl_get k (tbl_map f t) = map_option f (tbl_get k t)"
  by (induction t) (auto simp: tbl_map_def tbl_get_Cons)

lemma tbl_ok_map [tbl_simps, intro]: "tbl_ok t \<Longrightarrow> tbl_ok (tbl_map f t)"
  by (induction t) (force simp: tbl_map_def tbl_ok_Cons)+

lemma tbl_get_set: "tbl_get k t = Some v \<Longrightarrow> (k, v) \<in> set t"
  by (simp add: tbl_get_def map_of_SomeD)

lemma tbl_set_get: "tbl_ok t \<Longrightarrow> (k, v) \<in> set t \<Longrightarrow> tbl_get k t = Some v"
  by (induction t) (force simp: tbl_ok_Cons tbl_get_Cons)+

lemma set_tbl_put: "set (tbl_put k v t) \<subseteq> insert (k, v) (set t)"
  by (induction k v t rule: tbl_put.induct) auto

lemma set_tbl_del: "set (tbl_del k t) \<subseteq> set t"
  by (auto simp: tbl_del_def)

lemma tbl_keys_get: "k \<in> fst ` set t \<longleftrightarrow> tbl_get k t \<noteq> None"
  by (induction t) (auto simp: tbl_get_Cons)

lemma length_tbl_put:
  "length (tbl_put k v t) = (if tbl_get k t = None then Suc (length t) else length t)"
  if "tbl_ok t"
  using that
proof (induction k v t rule: tbl_put.induct)
  case (2 k v a b t)
  have "tbl_get k t = None" if "k < a"
    using 2(2) that tbl_keys_get [of k t] by (auto simp: tbl_ok_Cons)
  with 2 show ?case by (auto simp: tbl_get_Cons tbl_ok_Cons)
qed simp

text \<open>Two ordered maps with the same lookups are the same list.\<close>

lemma tbl_ext:
  "tbl_ok s \<Longrightarrow> tbl_ok t \<Longrightarrow> (\<And>k. tbl_get k s = tbl_get k t) \<Longrightarrow> s = t"
proof -
  assume s: "tbl_ok s" and t: "tbl_ok t" and eq: "\<And>k. tbl_get k s = tbl_get k t"
  have set: "set s = set t"
    using s t eq by (metis tbl_get_set tbl_set_get subsetI subset_antisym surj_pair)
  have inj: "inj_on fst (set t)"
    by (rule inj_onI) (metis option.inject prod.collapse t tbl_set_get)
  show "s = t"
    using s t set inj
    by (intro map_sorted_distinct_set_unique [where f = fst])
      (auto simp: tbl_ok_def strict_sorted_iff)
qed

end
