(* ===== verification/Rust_Strings.thy ===== *)
theory Rust_Strings
  imports Harness_Prelude
begin

text \<open>
  The functions of Rust's \<open>str\<close>, \<open>char\<close> and \<open>format!\<close> that the modelled sources call, on
  UTF-8 byte strings: ASCII case mapping, prefix, suffix and substring tests, \<open>trim\<close> over
  the Unicode White\_Space characters, character boundaries and character counts, and the
  decimal and hexadecimal formats. They are the standard library, so no map entry names
  them.
\<close>

section \<open>ASCII case\<close>

definition ascii_up :: "char \<Rightarrow> char" where
  "ascii_up c = (if 97 \<le> (of_char c :: nat) \<and> (of_char c :: nat) \<le> 122
                 then char_of ((of_char c :: nat) - 32) else c)"

definition ascii_down :: "char \<Rightarrow> char" where
  "ascii_down c = (if 65 \<le> (of_char c :: nat) \<and> (of_char c :: nat) \<le> 90
                   then char_of ((of_char c :: nat) + 32) else c)"

definition to_ascii_uppercase :: "string \<Rightarrow> string" where
  "to_ascii_uppercase = map ascii_up"

definition to_ascii_lowercase :: "string \<Rightarrow> string" where
  "to_ascii_lowercase = map ascii_down"

definition eq_ignore_ascii_case :: "string \<Rightarrow> string \<Rightarrow> bool" where
  "eq_ignore_ascii_case s t = (to_ascii_lowercase s = to_ascii_lowercase t)"

definition is_ascii_digit :: "char \<Rightarrow> bool" where
  "is_ascii_digit c = (48 \<le> (of_char c :: nat) \<and> (of_char c :: nat) \<le> 57)"

definition is_ascii_alnum :: "char \<Rightarrow> bool" where
  "is_ascii_alnum c = (is_ascii_digit c \<or> (65 \<le> (of_char c :: nat) \<and> (of_char c :: nat) \<le> 90) \<or>
     (97 \<le> (of_char c :: nat) \<and> (of_char c :: nat) \<le> 122))"

section \<open>Prefixes, suffixes, substrings\<close>

definition starts_with :: "string \<Rightarrow> string \<Rightarrow> bool" where
  "starts_with p s = (take (length p) s = p)"

definition ends_with :: "string \<Rightarrow> string \<Rightarrow> bool" where
  "ends_with p s = (length p \<le> length s \<and> drop (length s - length p) s = p)"

fun str_contains :: "string \<Rightarrow> string \<Rightarrow> bool" where
  "str_contains p [] = (p = [])"
| "str_contains p (c # s) = (starts_with p (c # s) \<or> str_contains p s)"

lemma starts_with_iff: "starts_with p s \<longleftrightarrow> (\<exists>r. s = p @ r)"
  unfolding starts_with_def by (metis append_eq_conv_conj)

lemma ends_with_iff: "ends_with p s \<longleftrightarrow> (\<exists>r. s = r @ p)"
proof
  assume "ends_with p s"
  then have "s = take (length s - length p) s @ p"
    unfolding ends_with_def by (metis append_take_drop_id)
  then show "\<exists>r. s = r @ p" ..
qed (auto simp: ends_with_def)

lemma str_contains_iff: "str_contains p s \<longleftrightarrow> (\<exists>l r. s = l @ p @ r)"
proof (induction p s rule: str_contains.induct)
  case (2 p c s)
  have "(\<exists>l r. c # s = l @ p @ r) \<longleftrightarrow> (\<exists>r. c # s = p @ r) \<or> (\<exists>l r. s = l @ p @ r)"
    by (metis append_Cons append_Nil append_eq_Cons_conv)
  with 2 show ?case by (simp add: starts_with_iff)
qed auto

lemma starts_with_append [simp]: "starts_with p (p @ r)"
  by (auto simp: starts_with_iff)

text \<open>\<open>split_once\<close> at a character and \<open>strip_prefix\<close>.\<close>

definition split_once :: "char \<Rightarrow> string \<Rightarrow> (string \<times> string) option" where
  "split_once c s =
     (case dropWhile (\<lambda>x. x \<noteq> c) s of [] \<Rightarrow> None | _ # r \<Rightarrow> Some (takeWhile (\<lambda>x. x \<noteq> c) s, r))"

definition strip_prefix :: "string \<Rightarrow> string \<Rightarrow> string option" where
  "strip_prefix p s = (if starts_with p s then Some (drop (length p) s) else None)"

lemma split_once_append: "c \<notin> set p \<Longrightarrow> split_once c (p @ c # r) = Some (p, r)"
proof -
  assume c: "c \<notin> set p"
  then have "dropWhile (\<lambda>x. x \<noteq> c) (p @ c # r) = c # r" "takeWhile (\<lambda>x. x \<noteq> c) (p @ c # r) = p"
    by (induction p) auto
  then show ?thesis by (simp add: split_once_def)
qed

lemma split_once_None [simp]: "c \<notin> set s \<Longrightarrow> split_once c s = None"
proof -
  assume "c \<notin> set s"
  then have "\<forall>x \<in> set s. x \<noteq> c" by blast
  then have "dropWhile (\<lambda>x. x \<noteq> c) s = []" by (simp only: dropWhile_eq_Nil_conv)
  then show ?thesis by (simp only: split_once_def list.case)
qed

lemma split_once_Some: "split_once c s = Some (p, r) \<Longrightarrow> s = p @ c # r \<and> c \<notin> set p"
proof -
  assume "split_once c s = Some (p, r)"
  then obtain x where d: "dropWhile (\<lambda>x. x \<noteq> c) s = x # r" and p: "takeWhile (\<lambda>x. x \<noteq> c) s = p"
    by (auto simp: split_once_def split: list.splits)
  from d have "x = c" using hd_dropWhile [of "\<lambda>x. x \<noteq> c" s] by (cases "dropWhile (\<lambda>x. x \<noteq> c) s") auto
  with d p takeWhile_dropWhile_id [of "\<lambda>x. x \<noteq> c" s] show ?thesis using set_takeWhileD by fastforce
qed

section \<open>White space and \<open>trim\<close>\<close>

text \<open>The encodings of the 25 characters with the Unicode property White\_Space.\<close>

definition white_space :: "string list" where
  "white_space =
     [[CHR 0x09], [CHR 0x0A], [CHR 0x0B], [CHR 0x0C], [CHR 0x0D], [CHR 0x20],
      [CHR 0xC2, CHR 0x85], [CHR 0xC2, CHR 0xA0], [CHR 0xE1, CHR 0x9A, CHR 0x80],
      [CHR 0xE2, CHR 0x80, CHR 0x80], [CHR 0xE2, CHR 0x80, CHR 0x81],
      [CHR 0xE2, CHR 0x80, CHR 0x82], [CHR 0xE2, CHR 0x80, CHR 0x83],
      [CHR 0xE2, CHR 0x80, CHR 0x84], [CHR 0xE2, CHR 0x80, CHR 0x85],
      [CHR 0xE2, CHR 0x80, CHR 0x86], [CHR 0xE2, CHR 0x80, CHR 0x87],
      [CHR 0xE2, CHR 0x80, CHR 0x88], [CHR 0xE2, CHR 0x80, CHR 0x89],
      [CHR 0xE2, CHR 0x80, CHR 0x8A], [CHR 0xE2, CHR 0x80, CHR 0xA8],
      [CHR 0xE2, CHR 0x80, CHR 0xA9], [CHR 0xE2, CHR 0x80, CHR 0xAF],
      [CHR 0xE2, CHR 0x81, CHR 0x9F], [CHR 0xE3, CHR 0x80, CHR 0x80]]"

lemma white_space_nonempty: "w \<in> set white_space \<Longrightarrow> w \<noteq> []"
  by (auto simp: white_space_def)

definition skip_front :: "string \<Rightarrow> string option" where
  "skip_front s = map_option (\<lambda>w. drop (length w) s) (find (\<lambda>w. starts_with w s) white_space)"

definition skip_back :: "string \<Rightarrow> string option" where
  "skip_back s =
     map_option (\<lambda>w. take (length s - length w) s) (find (\<lambda>w. ends_with w s) white_space)"

lemma skip_front_shorter: "skip_front s = Some r \<Longrightarrow> length r < length s"
proof -
  assume "skip_front s = Some r"
  then obtain w where w: "find (\<lambda>w. starts_with w s) white_space = Some w"
    and r: "r = drop (length w) s" by (auto simp: skip_front_def)
  from w have "w \<in> set white_space" "starts_with w s" by (auto simp: find_Some_iff in_set_conv_nth)
  with r show ?thesis by (auto simp: starts_with_iff dest: white_space_nonempty)
qed

lemma skip_back_shorter: "skip_back s = Some r \<Longrightarrow> length r < length s"
proof -
  assume "skip_back s = Some r"
  then obtain w where w: "find (\<lambda>w. ends_with w s) white_space = Some w"
    and r: "r = take (length s - length w) s" by (auto simp: skip_back_def)
  from w have "w \<in> set white_space" "ends_with w s" by (auto simp: find_Some_iff in_set_conv_nth)
  with r show ?thesis by (auto simp: ends_with_iff dest: white_space_nonempty)
qed

function trim_start :: "string \<Rightarrow> string" where
  "trim_start s = (case skip_front s of None \<Rightarrow> s | Some r \<Rightarrow> trim_start r)"
  by pat_completeness auto
termination by (relation "measure length") (auto dest: skip_front_shorter)

function trim_end :: "string \<Rightarrow> string" where
  "trim_end s = (case skip_back s of None \<Rightarrow> s | Some r \<Rightarrow> trim_end r)"
  by pat_completeness auto
termination by (relation "measure length") (auto dest: skip_back_shorter)

declare trim_start.simps [simp del] trim_end.simps [simp del]

definition trim :: "string \<Rightarrow> string" where
  "trim s = trim_end (trim_start s)"

lemma trim_end_prefix: "\<exists>r. s = trim_end s @ r"
proof (induction s rule: trim_end.induct)
  case (1 s)
  show ?case
  proof (cases "skip_back s")
    case (Some t)
    then obtain n where "t = take n s" by (auto simp: skip_back_def)
    with 1 [OF Some] Some show ?thesis
      by (metis append.assoc append_take_drop_id option.simps(5) trim_end.simps)
  qed (simp add: trim_end.simps [of s])
qed

lemma trim_end_idem [simp]: "trim_end (trim_end s) = trim_end s"
proof (induction s rule: trim_end.induct)
  case (1 s)
  then show ?case by (cases "skip_back s") (simp_all add: trim_end.simps [of s])
qed

text \<open>Plain ASCII words are their own trim.\<close>

lemma trim_id: "skip_front s = None \<Longrightarrow> skip_back s = None \<Longrightarrow> trim s = s"
  by (simp add: trim_def trim_start.simps [of s] trim_end.simps [of s])

lemma trim_Nil [simp]: "trim [] = []"
  by (rule trim_id) (simp_all add: skip_front_def skip_back_def white_space_def
      starts_with_def ends_with_def)

definition plain_char :: "char \<Rightarrow> bool" where
  "plain_char c = (33 \<le> (of_char c :: nat) \<and> (of_char c :: nat) \<le> 126)"

lemma white_space_plain: "w \<in> set white_space \<Longrightarrow> c \<in> set w \<Longrightarrow> \<not> plain_char c"
  by (auto simp: white_space_def plain_char_def)

lemma trim_plain:
  assumes "s \<noteq> [] \<Longrightarrow> plain_char (hd s) \<and> plain_char (last s)"
  shows "trim s = s"
proof (cases "s = []")
  case False
  have "\<not> starts_with w s \<and> \<not> ends_with w s" if w: "w \<in> set white_space" for w
  proof -
    have "hd w \<in> set w" "last w \<in> set w" using white_space_nonempty [OF w] by simp_all
    then have "hd w \<noteq> hd s" "last w \<noteq> last s"
      using assms [OF False] white_space_plain [OF w] by metis+
    with white_space_nonempty [OF w] show ?thesis
      by (auto simp: starts_with_iff ends_with_iff)
  qed
  then show ?thesis
    by (intro trim_id) (auto simp: skip_front_def skip_back_def find_None_iff)
qed simp

text \<open>Words of printable ASCII characters, where most names, flags and labels belong.\<close>

lemma trim_word [simp]: "list_all plain_char s \<Longrightarrow> trim s = s"
  by (rule trim_plain) (simp add: list_all_iff)

text \<open>\<open>items.join(separator)\<close>\<close>

fun join_with :: "string \<Rightarrow> string list \<Rightarrow> string" where
  "join_with d [] = []"
| "join_with d [w] = w"
| "join_with d (w # ws) = w @ d @ join_with d ws"

section \<open>Character boundaries\<close>

text \<open>What \<open>str::from_utf8\<close> accepts: no overlong form, no surrogate, nothing above U+10FFFF.\<close>

definition byte_in :: "nat \<Rightarrow> nat \<Rightarrow> char \<Rightarrow> bool" where
  "byte_in lo hi c = (lo \<le> (of_char c :: nat) \<and> (of_char c :: nat) \<le> hi)"

fun utf8_ok :: "bytes \<Rightarrow> bool" where
  "utf8_ok [] = True"
| "utf8_ok (a # s) =
     (if byte_in 0 127 a then utf8_ok s
      else case s of
        [] \<Rightarrow> False
      | b # s1 \<Rightarrow>
        if byte_in 194 223 a then byte_in 128 191 b \<and> utf8_ok s1
        else case s1 of
          [] \<Rightarrow> False
        | c # s2 \<Rightarrow>
          if byte_in 224 239 a
          then byte_in (if a = char_of (224 :: nat) then 160 else 128) (if a = char_of (237 :: nat) then 159 else 191) b \<and>
            byte_in 128 191 c \<and> utf8_ok s2
          else case s2 of
            [] \<Rightarrow> False
          | d # s3 \<Rightarrow>
            byte_in 240 244 a \<and>
            byte_in (if a = char_of (240 :: nat) then 144 else 128) (if a = char_of (244 :: nat) then 143 else 191) b \<and>
            byte_in 128 191 c \<and> byte_in 128 191 d \<and> utf8_ok s3)"

text \<open>A continuation byte has the form \<open>10xxxxxx\<close>.\<close>

definition is_cont :: "char \<Rightarrow> bool" where
  "is_cont c = (128 \<le> (of_char c :: nat) \<and> (of_char c :: nat) < 192)"

definition is_char_boundary :: "string \<Rightarrow> nat \<Rightarrow> bool" where
  "is_char_boundary s i = (i = 0 \<or> i = length s \<or> (i < length s \<and> \<not> is_cont (s ! i)))"

definition chars_count :: "string \<Rightarrow> nat" where
  "chars_count s = length (filter (\<lambda>c. \<not> is_cont c) s)"

text \<open>\<open>s.chars().take(n).collect()\<close>\<close>

fun take_chars :: "nat \<Rightarrow> string \<Rightarrow> string" where
  "take_chars n [] = []"
| "take_chars n (c # s) =
     (if is_cont c then c # take_chars n s
      else case n of 0 \<Rightarrow> [] | Suc m \<Rightarrow> c # take_chars m s)"

lemma chars_count_take_chars: "chars_count (take_chars n s) \<le> n"
  by (induction n s rule: take_chars.induct) (auto simp: chars_count_def split: nat.splits)

section \<open>Formats\<close>

definition digit_char :: "nat \<Rightarrow> char" where
  "digit_char d = char_of (48 + d)"

fun show_nat :: "nat \<Rightarrow> string" where
  "show_nat n = (if n < 10 then [digit_char n] else show_nat (n div 10) @ [digit_char (n mod 10)])"

declare show_nat.simps [simp del]

text \<open>\<open>{:0w$}\<close>\<close>

definition zero_pad :: "nat \<Rightarrow> string \<Rightarrow> string" where
  "zero_pad w s = replicate (w - length s) (CHR ''0'') @ s"

definition show_int :: "int \<Rightarrow> string" where
  "show_int i = (if i < 0 then CHR ''-'' # show_nat (nat (- i)) else show_nat (nat i))"

definition hex_digit :: "nat \<Rightarrow> char" where
  "hex_digit d = (if d < 10 then char_of (48 + d) else char_of (87 + d))"

definition hex_digit_upper :: "nat \<Rightarrow> char" where
  "hex_digit_upper d = (if d < 10 then char_of (48 + d) else char_of (55 + d))"

text \<open>\<open>{:016x}\<close> of a \<open>u64\<close>, most significant digit first\<close>

definition hex16 :: "u64 \<Rightarrow> string" where
  "hex16 w = map (\<lambda>i. hex_digit (unat w div 16 ^ (15 - i) mod 16)) [0..<16]"

text \<open>Reading a decimal back: the inverse that makes the identifiers distinct.\<close>

definition read_dec :: "string \<Rightarrow> nat" where
  "read_dec s = foldl (\<lambda>n c. 10 * n + ((of_char c :: nat) - 48)) 0 s"

lemma of_digit_char: "d < 10 \<Longrightarrow> (of_char (digit_char d) :: nat) = 48 + d"
  by (simp add: digit_char_def)

lemma read_show_nat: "read_dec (show_nat n) = n"
proof (induction n rule: show_nat.induct)
  case (1 n)
  show ?case
  proof (cases "n < 10")
    case True
    then show ?thesis by (simp add: show_nat.simps read_dec_def of_digit_char)
  next
    case False
    with 1 have "read_dec (show_nat (n div 10)) = n div 10" by simp
    with False show ?thesis
      by (simp add: show_nat.simps [of n] read_dec_def of_digit_char)
  qed
qed

lemma read_zero_pad: "read_dec (zero_pad w s) = read_dec s"
proof -
  have "foldl (\<lambda>n c. 10 * n + ((of_char c :: nat) - 48)) 0 (replicate k (CHR ''0'')) = 0" for k
    by (induction k) simp_all
  then show ?thesis by (simp add: read_dec_def zero_pad_def)
qed

lemma zero_pad_show_inj: "zero_pad w (show_nat m) = zero_pad w (show_nat n) \<Longrightarrow> m = n"
  by (metis read_show_nat read_zero_pad)

lemma show_nat_digits: "c \<in> set (show_nat n) \<Longrightarrow> is_ascii_digit c"
proof (induction n rule: show_nat.induct)
  case (1 n)
  then show ?case
    by (cases "n < 10") (auto simp: show_nat.simps [of n] is_ascii_digit_def of_digit_char)
qed

lemma zero_pad_digits: "c \<in> set (zero_pad w (show_nat n)) \<Longrightarrow> is_ascii_digit c"
  by (auto simp: zero_pad_def is_ascii_digit_def dest: show_nat_digits)

end
