(* ===== verification/Interfaces.thy ===== *)
theory Interfaces
  imports Rust_Strings
begin

text \<open>
  The contracts between components, as locales. A component that provides one interprets
  the locale on its own operations; clients use the lemmas proved here once.

  \<^item> \<open>keyed_store\<close>, \<open>keyed_store_del\<close>: a table looked up by a text key, where a write is
    seen by the next read of its key and by no other (the vault's SQL tables, the ordered
    maps of the task manager, the approval ledger and the control-request registry);
  \<^item> \<open>lifecycle\<close>: entries of a store whose final states no later command changes
    (tasks, control requests, rotation jobs);
  \<^item> \<open>sealed_object\<close>: a value carrying an authentication tag over the rest of it
    (tickets, audit events).
\<close>

section \<open>Runs of commands\<close>

text \<open>
  \<open>legal_run step legal s cs\<close>: each command of \<open>cs\<close> is legal in the state it meets. A
  command is illegal only where an input the program draws at random (an identifier)
  collides with one already in use.
\<close>

fun legal_run :: "('c \<Rightarrow> 's \<Rightarrow> 's) \<Rightarrow> ('s \<Rightarrow> 'c \<Rightarrow> bool) \<Rightarrow> 's \<Rightarrow> 'c list \<Rightarrow> bool" where
  "legal_run step legal s [] = True"
| "legal_run step legal s (c # cs) = (legal s c \<and> legal_run step legal (step c s) cs)"

lemma legal_run_all: "(\<And>s c. legal s c) \<Longrightarrow> legal_run step legal s cs"
  by (induction cs arbitrary: s) simp_all

text \<open>A property kept by every legal command holds at the end of a legal run.\<close>

lemma run_invariant:
  assumes "\<And>s c. P s \<Longrightarrow> legal s c \<Longrightarrow> P (step c s)"
  shows "P s \<Longrightarrow> legal_run step legal s cs \<Longrightarrow> P (fold step cs s)"
  by (induction cs arbitrary: s) (simp_all add: assms)

section \<open>Tables\<close>

locale keyed_store =
  fixes get :: "'s \<Rightarrow> string \<Rightarrow> 'v option"
    and put :: "string \<Rightarrow> 'v \<Rightarrow> 's \<Rightarrow> 's"
  assumes get_put: "get (put k v s) k' = (if k' = k then Some v else get s k')"
begin

lemma get_put_same: "get (put k v s) k = Some v"
  by (simp add: get_put)

lemma get_put_other: "k' \<noteq> k \<Longrightarrow> get (put k v s) k' = get s k'"
  by (simp add: get_put)

lemma get_put_twice: "get (put k v (put k w s)) k' = get (put k v s) k'"
  by (simp add: get_put)

lemma get_put_comm: "k \<noteq> l \<Longrightarrow> get (put k v (put l w s)) k' = get (put l w (put k v s)) k'"
  by (auto simp: get_put)

text \<open>A sequence of writes: the last write of a key is the one read.\<close>

lemma get_fold_put:
  "get (fold (\<lambda>e. put (fst e) (snd e)) es s) k =
     (case map_of (rev es) k of None \<Rightarrow> get s k | Some v \<Rightarrow> Some v)"
proof (induction es arbitrary: s)
  case (Cons e es)
  show ?case
    by (cases e) (auto simp: Cons map_add_def get_put split: option.split)
qed simp

lemma put_preserves_all:
  assumes "\<And>k v. get s k = Some v \<Longrightarrow> P v" and "P w" and "get (put l w s) k = Some v"
  shows "P v"
  using assms by (auto simp: get_put split: if_splits)

end

locale keyed_store_del = keyed_store get put
  for get :: "'s \<Rightarrow> string \<Rightarrow> 'v option" and put :: "string \<Rightarrow> 'v \<Rightarrow> 's \<Rightarrow> 's" +
  fixes del :: "string \<Rightarrow> 's \<Rightarrow> 's"
  assumes get_del: "get (del k s) k' = (if k' = k then None else get s k')"
begin

lemma get_del_same: "get (del k s) k = None"
  by (simp add: get_del)

lemma get_del_put: "get (del k (put k v s)) k' = get (del k s) k'"
  by (simp add: get_del get_put)

lemma get_put_del: "get (put k v (del k s)) k' = get (put k v s) k'"
  by (simp add: get_del get_put)

end

interpretation tbl: keyed_store_del "\<lambda>t k. tbl_get k t" tbl_put tbl_del
  by unfold_locales (simp_all add: tbl_simps)

section \<open>Life cycles\<close>

locale lifecycle =
  fixes step :: "'c \<Rightarrow> 's \<Rightarrow> 's"
    and legal :: "'s \<Rightarrow> 'c \<Rightarrow> bool"
    and ok :: "'s \<Rightarrow> bool"
    and known :: "'s \<Rightarrow> string \<Rightarrow> bool"
    and view :: "'s \<Rightarrow> string \<Rightarrow> 'x option"
    and final :: "'x \<Rightarrow> bool"
  assumes ok_step: "ok s \<Longrightarrow> legal s c \<Longrightarrow> ok (step c s)"
    and view_known: "ok s \<Longrightarrow> view s k = Some x \<Longrightarrow> known s k"
    and known_step: "ok s \<Longrightarrow> legal s c \<Longrightarrow> known s k \<Longrightarrow> known (step c s) k"
    and gone_step: "ok s \<Longrightarrow> legal s c \<Longrightarrow> known s k \<Longrightarrow> view s k = None \<Longrightarrow> view (step c s) k = None"
    and final_step: "ok s \<Longrightarrow> legal s c \<Longrightarrow> view s k = Some x \<Longrightarrow> final x \<Longrightarrow>
           view (step c s) k = None \<or> view (step c s) k = Some x"
begin

lemma ok_run: "ok s \<Longrightarrow> legal_run step legal s cs \<Longrightarrow> ok (fold step cs s)"
  by (rule run_invariant [where P = ok and legal = legal]) (auto intro: ok_step)

lemma gone_forever:
  "ok s \<Longrightarrow> known s k \<Longrightarrow> view s k = None \<Longrightarrow> legal_run step legal s cs \<Longrightarrow>
   view (fold step cs s) k = None"
  by (induction cs arbitrary: s) (auto simp: ok_step known_step gone_step)

text \<open>
  An entry in a final state keeps that state through every run, or is evicted for good:
  it never shows another state under its key.
\<close>

lemma final_forever:
  "ok s \<Longrightarrow> view s k = Some x \<Longrightarrow> final x \<Longrightarrow> legal_run step legal s cs \<Longrightarrow>
   view (fold step cs s) k = None \<or> view (fold step cs s) k = Some x"
proof (induction cs arbitrary: s)
  case (Cons c cs)
  then have ok: "ok (step c s)" and run: "legal_run step legal (step c s) cs"
    and "known (step c s) k"
    using ok_step known_step view_known by auto
  with Cons final_step [of s c k x] show ?case by (auto dest: gone_forever)
qed simp

end

section \<open>Sealed objects\<close>

locale sealed_object =
  fixes payload :: "'t \<Rightarrow> 'p"
    and tag_of :: "'t \<Rightarrow> string"
    and tag :: "'p \<Rightarrow> string"
    and seal :: "'t \<Rightarrow> 't"
  assumes payload_seal: "payload (seal t) = payload t"
    and tag_of_seal: "tag_of (seal t) = tag (payload t)"
begin

text \<open>Sealing makes a value that passes the check, and the check is on the payload alone.\<close>

lemma seal_valid: "tag (payload (seal t)) = tag_of (seal t)"
  by (simp add: payload_seal tag_of_seal)

lemma seal_twice_tag: "tag_of (seal (seal t)) = tag_of (seal t)"
  by (simp add: payload_seal tag_of_seal)

text \<open>
  A value that passes the check and shows the tag of a sealed one has a payload with the
  same tag: where the tag separates the two payloads they are equal.
\<close>

lemma valid_same_tag:
  assumes "tag (payload u) = tag_of u" and "tag_of u = tag_of (seal t)"
    and "inj_on tag {payload u, payload t}"
  shows "payload u = payload t"
  using assms by (auto simp: tag_of_seal dest: inj_onD)

end

end
