(* ===== verification/Runtime_Env.thy ===== *)
theory Runtime_Env
  imports Interfaces
begin

text \<open>
  What the programs take from outside the repository, and the JSON layer between.

  A \<open>serde_json::Value\<close> is a \<open>json\<close>: its map type is a \<open>BTreeMap\<close> (the crate is built
  without \<open>preserve_order\<close> here), so an object is a table in key order. Numbers are
  integers or floats; a float is carried as text, since the code only asks whether a
  number is one.

  The third-party functions are the fields of the record \<open>rt\<close>, an argument of every
  definition that calls one: HMAC and SHA (\<open>hmac\<close>, \<open>sha1\<close>, \<open>sha2\<close>), base64url
  (\<open>base64\<close>), AES-GCM (\<open>aes-gcm\<close>), the text of a JSON value (\<open>serde_json::to_vec\<close>),
  and the formatting, parsing and addition of times (\<open>chrono\<close>). Random draws and clock
  readings are explicit arguments of the operations.

  \<open>rt_json_text\<close> is the text of a \<open>Value\<close>, \<open>rt_struct_text\<close> that of a struct whose fields
  are written in declaration order.

  \<open>normalize_value\<close> and \<open>canonical_json_bytes\<close> translate
  components/HBSE/hbse/src/serialization.rs.
\<close>

section \<open>JSON values\<close>

datatype json =
    JNull
  | JBool bool
  | JInt int
  | JFloat string
  | JStr string
  | JArr "json list"
  | JObj "(string \<times> json) list"

fun as_str :: "json \<Rightarrow> string option" where
  "as_str (JStr s) = Some s"
| "as_str _ = None"

fun as_array :: "json \<Rightarrow> json list option" where
  "as_array (JArr xs) = Some xs"
| "as_array _ = None"

fun as_object :: "json \<Rightarrow> json table option" where
  "as_object (JObj m) = Some m"
| "as_object _ = None"

text \<open>\<open>value.get(key)\<close>\<close>

definition json_get :: "string \<Rightarrow> json \<Rightarrow> json option" where
  "json_get k v = Option.bind (as_object v) (tbl_get k)"

text \<open>The object built by \<open>json!({...})\<close> or by a derived \<open>Serialize\<close>.\<close>

definition json_obj :: "(string \<times> json) list \<Rightarrow> json" where
  "json_obj es = JObj (fold (\<lambda>e. tbl_put (fst e) (snd e)) es [])"

definition json_opt :: "('a \<Rightarrow> json) \<Rightarrow> 'a option \<Rightarrow> json" where
  "json_opt f x = (case x of None \<Rightarrow> JNull | Some v \<Rightarrow> f v)"

definition json_strs :: "string list \<Rightarrow> json" where
  "json_strs xs = JArr (map JStr xs)"

fun float_free :: "json \<Rightarrow> bool" where
  "float_free (JFloat _) = False"
| "float_free (JArr xs) = (\<forall>x \<in> set xs. float_free x)"
| "float_free (JObj m) = (\<forall>e \<in> set m. float_free (snd e))"
| "float_free _ = True"

fun json_ok :: "json \<Rightarrow> bool" where
  "json_ok (JArr xs) = (\<forall>x \<in> set xs. json_ok x)"
| "json_ok (JObj m) = (tbl_ok m \<and> (\<forall>e \<in> set m. json_ok (snd e)))"
| "json_ok _ = True"

lemma fold_tbl_put_ok: "tbl_ok t \<Longrightarrow> tbl_ok (fold (\<lambda>e. tbl_put (fst e) (snd e)) es t)"
  by (induction es arbitrary: t) auto

lemma set_fold_tbl_put:
  "set (fold (\<lambda>e. tbl_put (fst e) (snd e)) es t) \<subseteq> set es \<union> set t"
proof (induction es arbitrary: t)
  case (Cons e es)
  then show ?case using set_tbl_put [of "fst e" "snd e" t] by fastforce
qed simp

lemma float_free_json_obj: "(\<And>e. e \<in> set es \<Longrightarrow> float_free (snd e)) \<Longrightarrow> float_free (json_obj es)"
  unfolding json_obj_def using set_fold_tbl_put [of es "[]"] by auto

lemma json_ok_json_obj: "(\<And>e. e \<in> set es \<Longrightarrow> json_ok (snd e)) \<Longrightarrow> json_ok (json_obj es)"
  unfolding json_obj_def using set_fold_tbl_put [of es "[]"] fold_tbl_put_ok [of "[]" es] by auto

text \<open>The map rebuilt in its own order is itself.\<close>

lemma tbl_put_end: "(\<forall>k \<in> fst ` set t. k < a) \<Longrightarrow> tbl_put a b t = t @ [(a, b)]"
  by (induction a b t rule: tbl_put.induct) auto

lemma fold_tbl_put_sorted:
  "tbl_ok (s @ t) \<Longrightarrow> fold (\<lambda>e. tbl_put (fst e) (snd e)) t s = s @ t"
proof (induction t arbitrary: s)
  case (Cons e t)
  obtain a b where e: "e = (a, b)" by (cases e)
  with Cons.prems have "\<forall>k \<in> fst ` set s. k < a"
    by (auto simp: tbl_ok_def sorted_wrt_append)
  then have "tbl_put a b s = s @ [(a, b)]" by (rule tbl_put_end)
  with Cons e show ?case by simp
qed simp

text \<open>Objects with the same, distinct field names are equal only with equal fields.\<close>

lemma map_of_rev_distinct: "distinct (map fst es) \<Longrightarrow> map_of (rev es) = map_of es"
proof (rule ext)
  fix k assume d: "distinct (map fst es)"
  then have d': "distinct (map fst (rev es))" by (simp add: rev_map [symmetric])
  show "map_of (rev es) k = map_of es k"
  proof (cases "map_of es k")
    case None
    then have "map_of (rev es) k = None" by (simp add: map_of_eq_None_iff)
    with None show ?thesis by simp
  next
    case (Some v)
    then have "(k, v) \<in> set (rev es)" by (simp add: map_of_SomeD)
    with d' Some show ?thesis by (simp add: map_of_is_SomeI del: set_rev)
  qed
qed

lemma tbl_get_fields:
  "distinct (map fst (es :: (string \<times> 'v) list)) \<Longrightarrow>
     tbl_get k (fold (\<lambda>e. tbl_put (fst e) (snd e)) es []) = map_of es k"
  by (simp add: tbl.get_fold_put map_of_rev_distinct split: option.split)

lemma map_of_eq_lists:
  "distinct (map fst es) \<Longrightarrow> map fst es = map fst fs \<Longrightarrow> map_of es = map_of fs \<Longrightarrow> es = fs"
proof -
  assume d: "distinct (map fst es)" and k: "map fst es = map fst fs" and m: "map_of es = map_of fs"
  have len: "length es = length fs" using k by (metis length_map)
  show "es = fs"
  proof (rule nth_equalityI [OF len])
    fix i assume i: "i < length es"
    with len have i': "i < length fs" by simp
    have fst: "fst (es ! i) = fst (fs ! i)" using k i i' by (metis nth_map)
    have "map_of es (fst (es ! i)) = Some (snd (es ! i))"
      using d i by (intro map_of_is_SomeI) auto
    moreover have "map_of fs (fst (fs ! i)) = Some (snd (fs ! i))"
      using d k i' by (intro map_of_is_SomeI) auto
    ultimately show "es ! i = fs ! i" using fst m by (simp add: prod_eq_iff)
  qed
qed

lemma json_obj_eq_iff:
  assumes "distinct (map fst es)" and "map fst es = map fst fs"
  shows "json_obj es = json_obj fs \<longleftrightarrow> es = fs"
proof
  assume "json_obj es = json_obj fs"
  then have "fold (\<lambda>e. tbl_put (fst e) (snd e)) es [] = fold (\<lambda>e. tbl_put (fst e) (snd e)) fs []"
    by (simp add: json_obj_def)
  then have "map_of es = map_of fs"
    using assms by (metis (no_types, lifting) ext tbl_get_fields)
  with assms show "es = fs" by (rule map_of_eq_lists)
qed simp

lemma json_obj_del:
  "JObj (tbl_del k (fold (\<lambda>e. tbl_put (fst e) (snd e)) es [])) = json_obj (filter (\<lambda>e. fst e \<noteq> k) es)"
proof -
  have "tbl_get k' (tbl_del k (fold (\<lambda>e. tbl_put (fst e) (snd e)) es t)) =
      tbl_get k' (fold (\<lambda>e. tbl_put (fst e) (snd e)) (filter (\<lambda>e. fst e \<noteq> k) es) (tbl_del k t))"
    for k' t
  proof (induction es rule: rev_induct)
    case (snoc e es)
    then show ?case by (auto simp: tbl_simps)
  qed simp
  from this [of _ "[]"] show ?thesis
    unfolding json_obj_def
    by (simp add: tbl_del_def [of _ "[]"] tbl_ext tbl_ok_del fold_tbl_put_ok)
qed

lemma json_opt_eq_iff: "inj f \<Longrightarrow> (\<And>x. f x \<noteq> JNull) \<Longrightarrow> json_opt f x = json_opt f y \<longleftrightarrow> x = y"
  by (auto simp: json_opt_def inj_eq split: option.splits) metis+

section \<open>The third-party functions\<close>

record rt =
  rt_hmac_sha256 :: "bytes \<Rightarrow> bytes \<Rightarrow> bytes"
  rt_sha256 :: "bytes \<Rightarrow> bytes"
  rt_hmac_sha1 :: "bytes \<Rightarrow> bytes \<Rightarrow> bytes"
  rt_b64url :: "bytes \<Rightarrow> string"
  rt_b64url_decode :: "string \<Rightarrow> bytes option"
  rt_scrypt :: "nat \<Rightarrow> u32 \<Rightarrow> u32 \<Rightarrow> bytes \<Rightarrow> bytes \<Rightarrow> bytes option"
  rt_json_text :: "json \<Rightarrow> string"
  rt_struct_text :: "(string \<times> json) list \<Rightarrow> string"
  rt_json_parse :: "string \<Rightarrow> json option"
  rt_utc_millis :: "time \<Rightarrow> string"
  rt_rfc3339 :: "time \<Rightarrow> string"
  rt_parse_rfc3339 :: "string \<Rightarrow> time option"
  rt_add_seconds :: "time \<Rightarrow> int \<Rightarrow> time option"
  rt_aes_gcm_encrypt :: "bytes \<Rightarrow> bytes \<Rightarrow> bytes \<Rightarrow> bytes \<Rightarrow> bytes"
  rt_aes_gcm_decrypt :: "bytes \<Rightarrow> bytes \<Rightarrow> bytes \<Rightarrow> bytes \<Rightarrow> bytes option"

text \<open>
  Documented behaviour of \<open>chrono\<close>: a time printed with millisecond precision parses back
  to the time truncated to the millisecond, and adding a duration of \<open>s\<close> seconds moves the
  time by \<open>s\<close> seconds, or panics (\<open>None\<close>) where the result leaves the representable range.
\<close>

definition clock_ok :: "'a rt_scheme \<Rightarrow> bool" where
  "clock_ok X \<longleftrightarrow>
     (\<forall>t. rt_parse_rfc3339 X (rt_utc_millis X t) = Some (t - t mod 1000000)) \<and>
     (\<forall>t s u. rt_add_seconds X t s = Some u \<longrightarrow> u = t + s * 1000000000)"

text \<open>AES-GCM with the same key, nonce and associated data opens what it sealed.\<close>

definition aead_ok :: "'a rt_scheme \<Rightarrow> bool" where
  "aead_ok X \<longleftrightarrow>
     (\<forall>k n p a. rt_aes_gcm_decrypt X k n (rt_aes_gcm_encrypt X k n p a) a = Some p)"

text \<open>base64url decodes what it encoded; the digests have their fixed lengths.\<close>

definition codec_ok :: "'a rt_scheme \<Rightarrow> bool" where
  "codec_ok X \<longleftrightarrow>
     (\<forall>b. rt_b64url_decode X (rt_b64url X b) = Some b) \<and>
     (\<forall>k m. length (rt_hmac_sha256 X k m) = 32) \<and>
     (\<forall>k m. length (rt_hmac_sha1 X k m) = 20)"

text \<open>
  \<open>serde_json\<close> parses the text of a struct back to its fields. \<open>scrypt\<close> fills the 32 bytes
  it is asked for, or refuses its parameters (\<open>None\<close>).
\<close>

definition serde_ok :: "'a rt_scheme \<Rightarrow> bool" where
  "serde_ok X \<longleftrightarrow>
     (\<forall>fs. distinct (map fst fs) \<longrightarrow> rt_json_parse X (rt_struct_text X fs) = Some (json_obj fs))"

text \<open>
  Derived \<open>Deserialize\<close> of a struct without defaults or optional fields: the values of its
  fields, in declaration order, from an object (other keys are ignored) or from an array of
  the same length.
\<close>

definition struct_fields :: "string list \<Rightarrow> json \<Rightarrow> json list option" where
  "struct_fields names v =
     (case v of
        JObj m \<Rightarrow> those (map (\<lambda>n. tbl_get n m) names)
      | JArr xs \<Rightarrow> if length xs = length names then Some xs else None
      | _ \<Rightarrow> None)"

fun as_word :: "json \<Rightarrow> 'w::len word option" where
  "as_word (JInt i) = (if 0 \<le> i \<and> i < 2 ^ LENGTH('w) then Some (word_of_int i) else None)"
| "as_word _ = None"

lemma as_word_uint [simp]: "as_word (JInt (uint w)) = Some w"
  by (simp add: uint_bounded)

lemma those_map_Some: "(\<And>x. x \<in> set xs \<Longrightarrow> f x = Some (g x)) \<Longrightarrow> those (map f xs) = Some (map g xs)"
  by (induction xs) simp_all

lemma struct_fields_obj:
  assumes "distinct (map fst fs)"
  shows "struct_fields (map fst fs) (json_obj fs) = Some (map snd fs)"
proof -
  have "those (map (\<lambda>n. tbl_get n (fold (\<lambda>e. tbl_put (fst e) (snd e)) fs [])) (map fst fs)) =
      those (map (\<lambda>e. map_of fs (fst e)) fs)"
    using assms by (simp add: tbl_get_fields comp_def)
  also have "\<dots> = Some (map snd fs)"
    using assms by (intro those_map_Some) auto
  finally show ?thesis by (simp add: struct_fields_def json_obj_def)
qed

section \<open>Canonical serialization\<close>

datatype ser_error = FloatForbidden | TopLevelMustBeObject

fun normalize_value :: "json \<Rightarrow> ser_error + json" where
  "normalize_value JNull = Ok JNull"
| "normalize_value (JBool b) = Ok (JBool b)"
| "normalize_value (JStr s) = Ok (JStr s)"
| "normalize_value (JInt i) = Ok (JInt i)"
| "normalize_value (JFloat f) = Err FloatForbidden"
| "normalize_value (JArr items) =
     res_bind (res_map normalize_value items) (\<lambda>ys. Ok (JArr ys))"
| "normalize_value (JObj m) =
     res_bind (res_map (\<lambda>e. res_bind (normalize_value (snd e)) (\<lambda>v. Ok (fst e, v))) m)
       (\<lambda>es. Ok (json_obj es))"

definition canonical_json_bytes :: "'a rt_scheme \<Rightarrow> json \<Rightarrow> ser_error + bytes" where
  "canonical_json_bytes X v =
     (case v of
        JObj m \<Rightarrow> res_bind (normalize_value (JObj m)) (\<lambda>n. Ok (rt_json_text X n))
      | _ \<Rightarrow> Err TopLevelMustBeObject)"

lemma normalize_ok:
  "float_free v \<Longrightarrow> json_ok v \<Longrightarrow> normalize_value v = Ok v"
proof (induction v rule: normalize_value.induct)
  case (6 items)
  then have "res_map normalize_value items = Inr (map (\<lambda>x. x) items)"
    by (intro res_map_Ok) auto
  then show ?case by simp
next
  case (7 m)
  then have "res_map (\<lambda>e. res_bind (normalize_value (snd e)) (\<lambda>v. Ok (fst e, v))) m =
      (Inr (map (\<lambda>e. e) m) :: ser_error + _)"
    by (intro res_map_Ok) (auto simp: prod_eq_iff)
  moreover from 7 have "json_obj m = JObj m"
    using fold_tbl_put_sorted [of "[]" m] by (simp add: json_obj_def)
  ultimately show ?case by simp
qed simp_all

lemma res_map_Err: "x \<in> set xs \<Longrightarrow> \<not> is_ok (f x) \<Longrightarrow> \<not> is_ok (res_map f xs)"
  by (induction xs) (auto simp: is_ok_def res_bind_def split: sum.splits)

lemma normalize_float: "\<not> float_free v \<Longrightarrow> \<not> is_ok (normalize_value v)"
proof (induction v rule: normalize_value.induct)
  case (6 items)
  then obtain x where "x \<in> set items" "\<not> is_ok (normalize_value x)" by auto
  then have "\<not> is_ok (res_map normalize_value items)" by (rule res_map_Err)
  then show ?case by (auto simp: is_ok_def split: sum.splits)
next
  case (7 m)
  let ?f = "\<lambda>e. res_bind (normalize_value (snd e)) (\<lambda>v. Ok (fst e, v))"
  from 7 obtain e where e: "e \<in> set m" "\<not> is_ok (normalize_value (snd e))" by auto
  from e(2) have "\<not> is_ok (?f e)" by (auto simp: is_ok_def split: sum.splits)
  with e(1) have "\<not> is_ok (res_map ?f m)" by (rule res_map_Err)
  then show ?case by (auto simp: is_ok_def split: sum.splits)
qed simp_all

end
