(* ===== verification/Hbse_Policy.thy ===== *)
theory Hbse_Policy
  imports Runtime_Env
begin

text \<open>
  The access-policy engine of the Hardware Bound Secrets Enclave,
  components/HBSE/hbse/src/policy.rs: the policies an operator stores, the request a
  consumer makes, and the evaluation that decides it. Each \<open>deny!\<close> of the source is a
  branch of \<open>evaluate_policy\<close> with its reason, in the source's order.

  The lemmas relate the evaluation to \<open>policy_permits\<close>, the condition under which a
  policy allows a request, and characterise \<open>evaluate\<close> as the first permitting policy.
\<close>

section \<open>Data\<close>

datatype delivery_mode =
    BrokeredHttp | BrokeredOperation | Callback | Pipe | Fd | TempFile | ChildEnv | Raw | TerminalPrint

record access_policy =
  ap_policy_id :: string
  ap_secret_refs :: "string list"
  ap_allowed_consumers :: "string list"
  ap_denied_consumers :: "string list"
  ap_allowed_purposes :: "string list"
  ap_denied_purposes :: "string list"
  ap_allowed_delivery_modes :: "delivery_mode list"
  ap_allowed_http_hosts :: "string list"
  ap_denied_http_hosts :: "string list"
  ap_allowed_http_methods :: "string list"
  ap_denied_http_methods :: "string list"
  ap_allowed_http_path_prefixes :: "string list"
  ap_denied_http_path_prefixes :: "string list"
  ap_require_https_for_brokered_http :: bool
  ap_max_http_request_body_bytes :: "u64 option"
  ap_allowed_os_uids :: "u32 list"
  ap_denied_os_uids :: "u32 list"
  ap_allowed_executable_paths :: "string list"
  ap_denied_executable_paths :: "string list"
  ap_allowed_executable_sha256 :: "string list"
  ap_denied_executable_sha256 :: "string list"
  ap_exportable :: bool
  ap_max_ticket_ttl_seconds :: u64
  ap_max_uses :: u32
  ap_minimum_provider_assurance :: string
  ap_require_mfa :: bool
  ap_allow_unbound_plaintext_export :: bool
  ap_expires_at :: "time option"

definition default_ticket_ttl :: u64 where "default_ticket_ttl = 60"
definition default_max_uses :: u32 where "default_max_uses = 1"
definition default_minimum_provider_assurance :: string where
  "default_minimum_provider_assurance = ''A1''"

text \<open>A policy file that names only its id: every other field takes its serde default.\<close>

definition default_policy :: "string \<Rightarrow> access_policy" where
  "default_policy pid =
     \<lparr>ap_policy_id = pid, ap_secret_refs = [], ap_allowed_consumers = [],
      ap_denied_consumers = [], ap_allowed_purposes = [], ap_denied_purposes = [],
      ap_allowed_delivery_modes = [], ap_allowed_http_hosts = [], ap_denied_http_hosts = [],
      ap_allowed_http_methods = [], ap_denied_http_methods = [],
      ap_allowed_http_path_prefixes = [], ap_denied_http_path_prefixes = [],
      ap_require_https_for_brokered_http = False, ap_max_http_request_body_bytes = None,
      ap_allowed_os_uids = [], ap_denied_os_uids = [], ap_allowed_executable_paths = [],
      ap_denied_executable_paths = [], ap_allowed_executable_sha256 = [],
      ap_denied_executable_sha256 = [], ap_exportable = False,
      ap_max_ticket_ttl_seconds = default_ticket_ttl, ap_max_uses = default_max_uses,
      ap_minimum_provider_assurance = default_minimum_provider_assurance,
      ap_require_mfa = False, ap_allow_unbound_plaintext_export = False,
      ap_expires_at = None\<rparr>"

record access_request =
  ar_secret_ref :: string
  ar_consumer :: string
  ar_purpose :: string
  ar_delivery_mode :: delivery_mode
  ar_provider_assurance :: string
  ar_raw_export_requested :: bool
  ar_http_host :: "string option"
  ar_http_scheme :: "string option"
  ar_http_method :: "string option"
  ar_http_path :: "string option"
  ar_http_request_body_bytes :: "u64 option"
  ar_os_uid :: "u32 option"
  ar_executable_path :: "string option"
  ar_executable_sha256 :: "string option"
  ar_mfa_verified :: bool
  ar_broker_session_id :: "string option"
  ar_now :: time

datatype policy_decision = Allow | Deny

record evaluation_result =
  ev_decision :: policy_decision
  ev_reason :: string
  ev_policy :: "access_policy option"

definition eval_allowed :: "evaluation_result \<Rightarrow> bool" where
  "eval_allowed r = (ev_decision r = Allow)"

section \<open>Evaluation\<close>

definition policy_has_peer_binding :: "access_policy \<Rightarrow> bool" where
  "policy_has_peer_binding p =
     (ap_allowed_os_uids p \<noteq> [] \<or> ap_allowed_executable_paths p \<noteq> [] \<or>
      ap_allowed_executable_sha256 p \<noteq> [])"

definition assurance_rank :: "string \<Rightarrow> int" where
  "assurance_rank level =
     (if level = ''A0'' then 0 else if level = ''A1'' then 1 else if level = ''A2'' then 2
      else if level = ''A3'' then 3 else if level = ''A4'' then 4 else if level = ''A5'' then 5
      else -1)"

definition policy_deny :: "access_policy \<Rightarrow> string \<Rightarrow> evaluation_result" where
  "policy_deny p reason = \<lparr>ev_decision = Deny, ev_reason = reason, ev_policy = Some p\<rparr>"

text \<open>\<open>opt.is_some_and(f)\<close>\<close>

definition is_some_and :: "('a \<Rightarrow> bool) \<Rightarrow> 'a option \<Rightarrow> bool" where
  "is_some_and f x = (case x of None \<Rightarrow> False | Some v \<Rightarrow> f v)"

definition evaluate_brokered_http ::
    "access_policy \<Rightarrow> access_request \<Rightarrow> evaluation_result + unit" where
  "evaluate_brokered_http p r =
     (case ar_http_host r of
        None \<Rightarrow> Err (policy_deny p ''HTTP host required for brokered_http'')
      | Some host \<Rightarrow>
        if ap_require_https_for_brokered_http p \<and> ar_http_scheme r \<noteq> Some ''https''
        then Err (policy_deny p ''HTTPS required for brokered_http'')
        else if host \<in> set (ap_denied_http_hosts p)
        then Err (policy_deny p ''HTTP host explicitly denied'')
        else if ap_allowed_http_hosts p \<noteq> [] \<and> host \<notin> set (ap_allowed_http_hosts p) \<and>
                ''*'' \<notin> set (ap_allowed_http_hosts p)
        then Err (policy_deny p ''HTTP host not allowed'')
        else (case ar_http_method r of
          None \<Rightarrow> Err (policy_deny p ''HTTP method required for brokered_http'')
        | Some raw_method \<Rightarrow>
          let meth = to_ascii_uppercase raw_method;
              allowed_methods = map to_ascii_uppercase (ap_allowed_http_methods p);
              denied_methods = map to_ascii_uppercase (ap_denied_http_methods p)
          in if meth \<in> set denied_methods
             then Err (policy_deny p ''HTTP method explicitly denied'')
             else if allowed_methods \<noteq> [] \<and> meth \<notin> set allowed_methods \<and>
                     ''*'' \<notin> set allowed_methods
             then Err (policy_deny p ''HTTP method not allowed'')
             else (case ar_http_path r of
               None \<Rightarrow> Err (policy_deny p ''HTTP path required for brokered_http'')
             | Some path \<Rightarrow>
               if \<exists>prefix \<in> set (ap_denied_http_path_prefixes p). starts_with prefix path
               then Err (policy_deny p ''HTTP path explicitly denied'')
               else if ap_allowed_http_path_prefixes p \<noteq> [] \<and>
                       \<not> (\<exists>prefix \<in> set (ap_allowed_http_path_prefixes p). starts_with prefix path)
               then Err (policy_deny p ''HTTP path not allowed'')
               else (case (ap_max_http_request_body_bytes p, ar_http_request_body_bytes r) of
                 (Some limit, Some sz) \<Rightarrow>
                   if sz > limit then Err (policy_deny p ''HTTP request body too large'') else Ok ()
               | _ \<Rightarrow> Ok ()))))"

definition evaluate_policy :: "access_policy \<Rightarrow> access_request \<Rightarrow> evaluation_result" where
  "evaluate_policy p r =
     (if ar_secret_ref r \<notin> set (ap_secret_refs p) \<and> ''*'' \<notin> set (ap_secret_refs p)
      then policy_deny p ''secret reference not covered''
      else if is_some_and (\<lambda>expires_at. ar_now r > expires_at) (ap_expires_at p)
      then policy_deny p ''policy expired''
      else if ar_consumer r \<in> set (ap_denied_consumers p)
      then policy_deny p ''consumer explicitly denied''
      else if ar_purpose r \<in> set (ap_denied_purposes p)
      then policy_deny p ''purpose explicitly denied''
      else if ar_consumer r \<notin> set (ap_allowed_consumers p) \<and> ''*'' \<notin> set (ap_allowed_consumers p)
      then policy_deny p ''consumer not allowed''
      else if ar_purpose r \<notin> set (ap_allowed_purposes p) \<and> ''*'' \<notin> set (ap_allowed_purposes p)
      then policy_deny p ''purpose not allowed''
      else if ar_delivery_mode r \<notin> set (ap_allowed_delivery_modes p)
      then policy_deny p ''delivery mode not allowed''
      else if is_some_and (\<lambda>uid. uid \<in> set (ap_denied_os_uids p)) (ar_os_uid r)
      then policy_deny p ''OS user explicitly denied''
      else if ap_allowed_os_uids p \<noteq> [] \<and>
              \<not> is_some_and (\<lambda>uid. uid \<in> set (ap_allowed_os_uids p)) (ar_os_uid r)
      then policy_deny p ''OS user not allowed''
      else if is_some_and (\<lambda>path. path \<in> set (ap_denied_executable_paths p)) (ar_executable_path r)
      then policy_deny p ''executable path explicitly denied''
      else if ap_allowed_executable_paths p \<noteq> [] \<and>
              \<not> is_some_and (\<lambda>path. path \<in> set (ap_allowed_executable_paths p)) (ar_executable_path r)
      then policy_deny p ''executable path not allowed''
      else if is_some_and (\<lambda>hash. hash \<in> set (ap_denied_executable_sha256 p)) (ar_executable_sha256 r)
      then policy_deny p ''executable hash explicitly denied''
      else if ap_allowed_executable_sha256 p \<noteq> [] \<and>
              \<not> is_some_and (\<lambda>hash. hash \<in> set (ap_allowed_executable_sha256 p)) (ar_executable_sha256 r)
      then policy_deny p ''executable hash not allowed''
      else (case (if ar_delivery_mode r = BrokeredHttp then evaluate_brokered_http p r else Ok ()) of
        Inl result \<Rightarrow> result
      | Inr _ \<Rightarrow>
        if ar_raw_export_requested r \<and> \<not> ap_exportable p
        then policy_deny p ''raw export not allowed''
        else if ar_raw_export_requested r \<and> ar_delivery_mode r \<in> {Raw, TerminalPrint} \<and>
                \<not> ap_allow_unbound_plaintext_export p \<and> \<not> policy_has_peer_binding p
        then policy_deny p ''raw plaintext export requires a non-spoofable peer binding''
        else if assurance_rank (ar_provider_assurance r) <
                assurance_rank (ap_minimum_provider_assurance p)
        then policy_deny p ''provider assurance too low''
        else if ap_require_mfa p \<and> \<not> ar_mfa_verified r
        then policy_deny p ''MFA required''
        else \<lparr>ev_decision = Allow, ev_reason = ''allowed'', ev_policy = Some p\<rparr>))"

text \<open>\<open>PolicyEngine { policies }\<close> is its list of policies.\<close>

fun evaluate :: "access_policy list \<Rightarrow> access_request \<Rightarrow> evaluation_result" where
  "evaluate [] r = \<lparr>ev_decision = Deny, ev_reason = ''no matching allow policy'', ev_policy = None\<rparr>"
| "evaluate (p # ps) r =
     (let result = evaluate_policy p r
      in if ev_decision result = Allow then result else evaluate ps r)"

section \<open>The condition under which a policy allows\<close>

text \<open>An allow list that is empty restricts nothing; a non-empty one must hold the request's value.\<close>

definition allow_list_ok :: "'a list \<Rightarrow> 'a option \<Rightarrow> bool" where
  "allow_list_ok allowed x \<longleftrightarrow> allowed = [] \<or> is_some_and (\<lambda>v. v \<in> set allowed) x"

definition covers :: "string list \<Rightarrow> string \<Rightarrow> bool" where
  "covers xs x \<longleftrightarrow> x \<in> set xs \<or> ''*'' \<in> set xs"

definition http_permits :: "access_policy \<Rightarrow> access_request \<Rightarrow> bool" where
  "http_permits p r \<longleftrightarrow>
     (\<exists>host raw_method path.
        ar_http_host r = Some host \<and> ar_http_method r = Some raw_method \<and> ar_http_path r = Some path \<and>
        (ap_require_https_for_brokered_http p \<longrightarrow> ar_http_scheme r = Some ''https'') \<and>
        host \<notin> set (ap_denied_http_hosts p) \<and>
        (ap_allowed_http_hosts p = [] \<or> covers (ap_allowed_http_hosts p) host) \<and>
        to_ascii_uppercase raw_method \<notin> set (map to_ascii_uppercase (ap_denied_http_methods p)) \<and>
        (ap_allowed_http_methods p = [] \<or>
         covers (map to_ascii_uppercase (ap_allowed_http_methods p)) (to_ascii_uppercase raw_method)) \<and>
        (\<forall>pre \<in> set (ap_denied_http_path_prefixes p). \<not> starts_with pre path) \<and>
        (ap_allowed_http_path_prefixes p = [] \<or>
         (\<exists>pre \<in> set (ap_allowed_http_path_prefixes p). starts_with pre path)) \<and>
        (\<forall>limit sz. ap_max_http_request_body_bytes p = Some limit \<longrightarrow>
           ar_http_request_body_bytes r = Some sz \<longrightarrow> sz \<le> limit))"

definition not_denied :: "access_policy \<Rightarrow> access_request \<Rightarrow> bool" where
  "not_denied p r \<longleftrightarrow>
     ar_consumer r \<notin> set (ap_denied_consumers p) \<and>
     ar_purpose r \<notin> set (ap_denied_purposes p) \<and>
     \<not> is_some_and (\<lambda>v. v \<in> set (ap_denied_os_uids p)) (ar_os_uid r) \<and>
     \<not> is_some_and (\<lambda>v. v \<in> set (ap_denied_executable_paths p)) (ar_executable_path r) \<and>
     \<not> is_some_and (\<lambda>v. v \<in> set (ap_denied_executable_sha256 p)) (ar_executable_sha256 r)"

definition export_permits :: "access_policy \<Rightarrow> access_request \<Rightarrow> bool" where
  "export_permits p r \<longleftrightarrow>
     (ar_raw_export_requested r \<longrightarrow>
        ap_exportable p \<and>
        (ar_delivery_mode r \<in> {Raw, TerminalPrint} \<longrightarrow>
           ap_allow_unbound_plaintext_export p \<or> policy_has_peer_binding p))"

definition policy_permits :: "access_policy \<Rightarrow> access_request \<Rightarrow> bool" where
  "policy_permits p r \<longleftrightarrow>
     covers (ap_secret_refs p) (ar_secret_ref r) \<and>
     (\<forall>t. ap_expires_at p = Some t \<longrightarrow> ar_now r \<le> t) \<and>
     not_denied p r \<and>
     covers (ap_allowed_consumers p) (ar_consumer r) \<and>
     covers (ap_allowed_purposes p) (ar_purpose r) \<and>
     ar_delivery_mode r \<in> set (ap_allowed_delivery_modes p) \<and>
     allow_list_ok (ap_allowed_os_uids p) (ar_os_uid r) \<and>
     allow_list_ok (ap_allowed_executable_paths p) (ar_executable_path r) \<and>
     allow_list_ok (ap_allowed_executable_sha256 p) (ar_executable_sha256 r) \<and>
     (ar_delivery_mode r = BrokeredHttp \<longrightarrow> http_permits p r) \<and>
     export_permits p r \<and>
     assurance_rank (ap_minimum_provider_assurance p) \<le> assurance_rank (ar_provider_assurance r) \<and>
     (ap_require_mfa p \<longrightarrow> ar_mfa_verified r)"

section \<open>Evaluation decides the condition\<close>

lemma policy_deny_simps [simp]:
  "ev_decision (policy_deny p m) = Deny" "ev_policy (policy_deny p m) = Some p"
  "ev_reason (policy_deny p m) = m"
  by (simp_all add: policy_deny_def)

lemma guard_Allow [simp]:
  "ev_decision (if b then policy_deny p m else x) = Allow \<longleftrightarrow> \<not> b \<and> ev_decision x = Allow"
  by simp

lemma guard_Ok [simp]: "(if b then Err e else x) = Ok y \<longleftrightarrow> \<not> b \<and> x = Ok y"
  by simp

text \<open>Every outcome for a policy is the allowing result or a denial naming the policy.\<close>

definition decided :: "access_policy \<Rightarrow> evaluation_result \<Rightarrow> bool" where
  "decided p res \<longleftrightarrow>
     res = \<lparr>ev_decision = Allow, ev_reason = ''allowed'', ev_policy = Some p\<rparr> \<or>
     (\<exists>m. res = policy_deny p m)"

lemma decided_guard [simp]: "decided p (if b then policy_deny p m else x) \<longleftrightarrow> b \<or> decided p x"
  by (auto simp: decided_def)

lemma decided_allow [simp]:
  "decided p \<lparr>ev_decision = Allow, ev_reason = ''allowed'', ev_policy = Some p\<rparr>"
  by (simp add: decided_def)

lemma http_result_denies:
  "evaluate_brokered_http p r = Err res \<Longrightarrow> \<exists>m. res = policy_deny p m"
  by (auto simp: evaluate_brokered_http_def Let_def split: option.splits if_splits)

lemma evaluate_brokered_http_Ok_iff:
  "evaluate_brokered_http p r = Ok () \<longleftrightarrow> http_permits p r"
  by (cases "ar_http_host r"; cases "ar_http_method r"; cases "ar_http_path r";
      cases "ap_max_http_request_body_bytes p"; cases "ar_http_request_body_bytes r")
    (auto simp: evaluate_brokered_http_def http_permits_def Let_def covers_def not_less)

lemma expiry_guard: "is_some_and (\<lambda>t. (n :: time) > t) x \<longleftrightarrow> \<not> (\<forall>t. x = Some t \<longrightarrow> n \<le> t)"
  by (cases x) (simp_all add: is_some_and_def not_le)

lemma http_branch_Allow:
  "ev_decision (case (if b then evaluate_brokered_http p r else Ok ()) of Inl e \<Rightarrow> e | Inr _ \<Rightarrow> x) = Allow
     \<longleftrightarrow> (b \<longrightarrow> http_permits p r) \<and> ev_decision x = Allow"
  using http_result_denies [of p r] evaluate_brokered_http_Ok_iff [of p r]
  by (cases "evaluate_brokered_http p r") auto

lemma evaluate_policy_Allow_iff:
  "ev_decision (evaluate_policy p r) = Allow \<longleftrightarrow> policy_permits p r"
  unfolding evaluate_policy_def policy_permits_def guard_Allow http_branch_Allow expiry_guard
    covers_def not_denied_def allow_list_ok_def export_permits_def not_less [symmetric]
  by (simp only: evaluation_result.simps simp_thms) argo

lemma evaluate_policy_decided: "decided p (evaluate_policy p r)"
proof (cases "ar_delivery_mode r = BrokeredHttp")
  case True
  then show ?thesis
    using http_result_denies [of p r]
    by (cases "evaluate_brokered_http p r")
      (simp_all only: evaluate_policy_def decided_guard decided_allow sum.case if_True if_False simp_thms,
        auto simp: decided_def)
next
  case False
  then show ?thesis
    by (simp only: evaluate_policy_def decided_guard decided_allow sum.case if_True if_False simp_thms)
qed

lemma evaluate_policy_names_policy: "ev_policy (evaluate_policy p r) = Some p"
  using evaluate_policy_decided [of p r] by (auto simp: decided_def)

lemma evaluate_policy_allowed:
  "ev_decision (evaluate_policy p r) = Allow \<Longrightarrow>
   evaluate_policy p r = \<lparr>ev_decision = Allow, ev_reason = ''allowed'', ev_policy = Some p\<rparr>"
  using evaluate_policy_decided [of p r] by (auto simp: decided_def)

text \<open>The engine is a search for the first permitting policy.\<close>

lemma evaluate_find:
  "evaluate ps r =
     (case find (\<lambda>p. policy_permits p r) ps of
        None \<Rightarrow> \<lparr>ev_decision = Deny, ev_reason = ''no matching allow policy'', ev_policy = None\<rparr>
      | Some p \<Rightarrow> \<lparr>ev_decision = Allow, ev_reason = ''allowed'', ev_policy = Some p\<rparr>)"
  by (induction ps) (auto simp: evaluate_policy_Allow_iff evaluate_policy_allowed Let_def)

lemma evaluate_Allow_D:
  "ev_decision (evaluate ps r) = Allow \<Longrightarrow>
   \<exists>p \<in> set ps. ev_policy (evaluate ps r) = Some p \<and> policy_permits p r"
  by (auto simp: evaluate_find find_Some_iff in_set_conv_nth split: option.splits)

lemma evaluate_policy_Some: "ev_policy (evaluate ps r) = Some p \<longleftrightarrow>
    ev_decision (evaluate ps r) = Allow \<and> find (\<lambda>p. policy_permits p r) ps = Some p"
  by (auto simp: evaluate_find split: option.splits)

lemma permits_bound_peer:
  assumes "policy_permits p r" and "policy_has_peer_binding p"
  shows "(\<exists>u. ar_os_uid r = Some u \<and> u \<in> set (ap_allowed_os_uids p)) \<or>
         (\<exists>x. ar_executable_path r = Some x \<and> x \<in> set (ap_allowed_executable_paths p)) \<or>
         (\<exists>h. ar_executable_sha256 r = Some h \<and> h \<in> set (ap_allowed_executable_sha256 p))"
  using assms
  by (auto simp: policy_permits_def policy_has_peer_binding_def allow_list_ok_def is_some_and_def
      split: option.splits)

end
