(* ===== verification/Hbse_Tickets.thy ===== *)
theory Hbse_Tickets
  imports Hbse_Policy
begin

text \<open>
  Secret-access tickets, components/HBSE/hbse/src/tickets.rs: a MAC-protected record of one
  granted request, with a use budget. \<open>ticket_json\<close> is the derived serialization,
  \<open>ticket_payload\<close> the object the MAC is computed over, and the remaining definitions
  are the methods of \<open>TicketManager\<close>, whose only state is the MAC key.

  The lemmas show that the MAC covers every other field, characterise \<open>validate\<close>, and
  account for the uses a ticket allows.
\<close>

section \<open>Data\<close>

datatype ticket_error =
    MacMismatch
  | Revoked
  | ReplayDenied
  | Expired
  | SecretContextMismatch
  | ConsumerContextMismatch
  | PurposeContextMismatch
  | DeliveryContextMismatch
  | HttpHostContextMismatch
  | HttpSchemeContextMismatch
  | HttpMethodContextMismatch
  | HttpPathContextMismatch
  | HttpRequestBodyContextMismatch
  | OsUserContextMismatch
  | ExecutablePathContextMismatch
  | ExecutableHashContextMismatch
  | PolicyContextMismatch
  | BrokerSessionContextMismatch

record ticket =
  tk_ticket_id :: string
  tk_vault_id :: string
  tk_secret_id :: string
  tk_secret_ref :: string
  tk_secret_version :: u64
  tk_consumer :: string
  tk_purpose :: string
  tk_delivery_mode :: delivery_mode
  tk_http_host :: "string option"
  tk_http_scheme :: "string option"
  tk_http_method :: "string option"
  tk_http_path :: "string option"
  tk_http_request_body_bytes :: "u64 option"
  tk_os_uid :: "u32 option"
  tk_executable_path :: "string option"
  tk_executable_sha256 :: "string option"
  tk_policy_id :: string
  tk_policy_hash :: string
  tk_exportable :: bool
  tk_model_visible :: bool
  tk_shell_visible :: bool
  tk_broker_session_id :: "string option"
  tk_issued_at :: string
  tk_expires_at :: string
  tk_max_uses :: u32
  tk_uses_remaining :: u32
  tk_revoked :: bool
  tk_mac :: string

section \<open>Serialization\<close>

text \<open>\<open>#[serde(rename_all = "snake_case")]\<close>\<close>

fun delivery_mode_string :: "delivery_mode \<Rightarrow> string" where
  "delivery_mode_string BrokeredHttp = ''brokered_http''"
| "delivery_mode_string BrokeredOperation = ''brokered_operation''"
| "delivery_mode_string Callback = ''callback''"
| "delivery_mode_string Pipe = ''pipe''"
| "delivery_mode_string Fd = ''fd''"
| "delivery_mode_string TempFile = ''temp_file''"
| "delivery_mode_string ChildEnv = ''child_env''"
| "delivery_mode_string Raw = ''raw''"
| "delivery_mode_string TerminalPrint = ''terminal_print''"

definition json_word :: "'w::len word \<Rightarrow> json" where
  "json_word w = JInt (uint w)"

definition ticket_fields :: "ticket \<Rightarrow> (string \<times> json) list" where
  "ticket_fields t =
     [(''ticket_id'', JStr (tk_ticket_id t)),
      (''vault_id'', JStr (tk_vault_id t)),
      (''secret_id'', JStr (tk_secret_id t)),
      (''secret_ref'', JStr (tk_secret_ref t)),
      (''secret_version'', json_word (tk_secret_version t)),
      (''consumer'', JStr (tk_consumer t)),
      (''purpose'', JStr (tk_purpose t)),
      (''delivery_mode'', JStr (delivery_mode_string (tk_delivery_mode t))),
      (''http_host'', json_opt JStr (tk_http_host t)),
      (''http_scheme'', json_opt JStr (tk_http_scheme t)),
      (''http_method'', json_opt JStr (tk_http_method t)),
      (''http_path'', json_opt JStr (tk_http_path t)),
      (''http_request_body_bytes'', json_opt json_word (tk_http_request_body_bytes t)),
      (''os_uid'', json_opt json_word (tk_os_uid t)),
      (''executable_path'', json_opt JStr (tk_executable_path t)),
      (''executable_sha256'', json_opt JStr (tk_executable_sha256 t)),
      (''policy_id'', JStr (tk_policy_id t)),
      (''policy_hash'', JStr (tk_policy_hash t)),
      (''exportable'', JBool (tk_exportable t)),
      (''model_visible'', JBool (tk_model_visible t)),
      (''shell_visible'', JBool (tk_shell_visible t)),
      (''broker_session_id'', json_opt JStr (tk_broker_session_id t)),
      (''issued_at'', JStr (tk_issued_at t)),
      (''expires_at'', JStr (tk_expires_at t)),
      (''max_uses'', json_word (tk_max_uses t)),
      (''uses_remaining'', json_word (tk_uses_remaining t)),
      (''revoked'', JBool (tk_revoked t)),
      (''mac'', JStr (tk_mac t))]"

definition ticket_json :: "ticket \<Rightarrow> json" where
  "ticket_json t = json_obj (ticket_fields t)"

text \<open>\<open>SecretAccessTicket::payload\<close>: serialize, then remove \<open>mac\<close>.\<close>

definition ticket_payload :: "ticket \<Rightarrow> json" where
  "ticket_payload t =
     (case ticket_json t of JObj m \<Rightarrow> JObj (tbl_del ''mac'' m) | v \<Rightarrow> v)"

section \<open>The ticket manager\<close>

text \<open>
  \<open>TicketManager::mac\<close>. The \<open>expect\<close> on the canonical bytes is the \<open>Inl\<close> branch,
  which \<open>ticket_payload_canonical\<close> shows is never taken on a ticket.
\<close>

definition ticket_mac :: "'a rt_scheme \<Rightarrow> bytes \<Rightarrow> json \<Rightarrow> string" where
  "ticket_mac X mac_key payload =
     (case canonical_json_bytes X payload of
        Inl _ \<Rightarrow> []
      | Inr bs \<Rightarrow> rt_b64url X (rt_hmac_sha256 X mac_key bs))"

definition ticket_seal :: "'a rt_scheme \<Rightarrow> bytes \<Rightarrow> ticket \<Rightarrow> ticket" where
  "ticket_seal X mac_key t = t\<lparr>tk_mac := ticket_mac X mac_key (ticket_payload t)\<rparr>"

text \<open>
  \<open>TicketManager::issue\<close>. \<open>ticket_id\<close> is the fresh UUID. \<open>None\<close> is the panic of
  \<open>chrono\<close> where the expiry leaves the representable range; the \<open>as i64\<close> cast of the
  lifetime is \<open>sint\<close>.
\<close>

definition issue ::
    "'a rt_scheme \<Rightarrow> bytes \<Rightarrow> string \<Rightarrow> string \<Rightarrow> string \<Rightarrow> u64 \<Rightarrow> access_request \<Rightarrow>
     access_policy \<Rightarrow> string \<Rightarrow> string option \<Rightarrow> ticket option" where
  "issue X mac_key uuid vault_id secret_id secret_version request policy phash session =
     (let issued_at = ar_now request
      in case rt_add_seconds X issued_at (sint (ap_max_ticket_ttl_seconds policy)) of
        None \<Rightarrow> None
      | Some expires_at \<Rightarrow>
        Some (ticket_seal X mac_key
          \<lparr>tk_ticket_id = uuid,
           tk_vault_id = vault_id,
           tk_secret_id = secret_id,
           tk_secret_ref = ar_secret_ref request,
           tk_secret_version = secret_version,
           tk_consumer = ar_consumer request,
           tk_purpose = ar_purpose request,
           tk_delivery_mode = ar_delivery_mode request,
           tk_http_host = ar_http_host request,
           tk_http_scheme = ar_http_scheme request,
           tk_http_method = ar_http_method request,
           tk_http_path = ar_http_path request,
           tk_http_request_body_bytes = ar_http_request_body_bytes request,
           tk_os_uid = ar_os_uid request,
           tk_executable_path = ar_executable_path request,
           tk_executable_sha256 = ar_executable_sha256 request,
           tk_policy_id = ap_policy_id policy,
           tk_policy_hash = phash,
           tk_exportable = ap_exportable policy,
           tk_model_visible = False,
           tk_shell_visible = (ar_delivery_mode request \<in> {ChildEnv, TerminalPrint, Raw}),
           tk_broker_session_id = session,
           tk_issued_at = rt_utc_millis X issued_at,
           tk_expires_at = rt_utc_millis X expires_at,
           tk_max_uses = ap_max_uses policy,
           tk_uses_remaining = ap_max_uses policy,
           tk_revoked = False,
           tk_mac = []\<rparr>))"

fun broker_session_id_matches :: "string option \<Rightarrow> string option \<Rightarrow> bool" where
  "broker_session_id_matches (Some ticket_session) (Some request_session) =
     (ticket_session = request_session)"
| "broker_session_id_matches (Some _) None = False"
| "broker_session_id_matches None _ = True"

definition validate ::
    "'a rt_scheme \<Rightarrow> bytes \<Rightarrow> ticket \<Rightarrow> access_request \<Rightarrow> time \<Rightarrow> ticket_error + unit" where
  "validate X mac_key t request now =
     (if ticket_mac X mac_key (ticket_payload t) \<noteq> tk_mac t then Err MacMismatch
      else if tk_revoked t then Err Revoked
      else if tk_uses_remaining t < 1 then Err ReplayDenied
      else (case rt_parse_rfc3339 X (tk_expires_at t) of
        None \<Rightarrow> Err Expired
      | Some expires_at \<Rightarrow>
        if now > expires_at then Err Expired
        else if tk_secret_ref t \<noteq> ar_secret_ref request then Err SecretContextMismatch
        else if \<not> broker_session_id_matches (tk_broker_session_id t) (ar_broker_session_id request)
        then Err BrokerSessionContextMismatch
        else if tk_consumer t \<noteq> ar_consumer request then Err ConsumerContextMismatch
        else if tk_purpose t \<noteq> ar_purpose request then Err PurposeContextMismatch
        else if tk_delivery_mode t \<noteq> ar_delivery_mode request then Err DeliveryContextMismatch
        else if tk_http_host t \<noteq> ar_http_host request then Err HttpHostContextMismatch
        else if tk_http_scheme t \<noteq> ar_http_scheme request then Err HttpSchemeContextMismatch
        else if tk_http_method t \<noteq> ar_http_method request then Err HttpMethodContextMismatch
        else if tk_http_path t \<noteq> ar_http_path request then Err HttpPathContextMismatch
        else if tk_http_request_body_bytes t \<noteq> ar_http_request_body_bytes request
        then Err HttpRequestBodyContextMismatch
        else if tk_os_uid t \<noteq> ar_os_uid request then Err OsUserContextMismatch
        else if tk_executable_path t \<noteq> ar_executable_path request
        then Err ExecutablePathContextMismatch
        else if tk_executable_sha256 t \<noteq> ar_executable_sha256 request
        then Err ExecutableHashContextMismatch
        else Ok ()))"

definition validate_policy :: "ticket \<Rightarrow> access_policy \<Rightarrow> string \<Rightarrow> ticket_error + unit" where
  "validate_policy t policy current_policy_hash =
     (if tk_policy_id t \<noteq> ap_policy_id policy \<or> tk_policy_hash t \<noteq> current_policy_hash
      then Err PolicyContextMismatch else Ok ())"

definition consume ::
    "'a rt_scheme \<Rightarrow> bytes \<Rightarrow> ticket \<Rightarrow> access_request \<Rightarrow> time \<Rightarrow> ticket_error + ticket" where
  "consume X mac_key t request now =
     res_bind (validate X mac_key t request now) (\<lambda>_.
       Ok (ticket_seal X mac_key (t\<lparr>tk_uses_remaining := tk_uses_remaining t - 1\<rparr>)))"

definition revoke :: "'a rt_scheme \<Rightarrow> bytes \<Rightarrow> ticket \<Rightarrow> ticket_error + ticket" where
  "revoke X mac_key t =
     (if ticket_mac X mac_key (ticket_payload t) \<noteq> tk_mac t then Err MacMismatch
      else Ok (ticket_seal X mac_key (t\<lparr>tk_revoked := True\<rparr>)))"

section \<open>Policy hash\<close>

definition policy_fields :: "'a rt_scheme \<Rightarrow> access_policy \<Rightarrow> (string \<times> json) list" where
  "policy_fields X p =
     [(''policy_id'', JStr (ap_policy_id p)),
      (''secret_refs'', json_strs (ap_secret_refs p)),
      (''allowed_consumers'', json_strs (ap_allowed_consumers p)),
      (''denied_consumers'', json_strs (ap_denied_consumers p)),
      (''allowed_purposes'', json_strs (ap_allowed_purposes p)),
      (''denied_purposes'', json_strs (ap_denied_purposes p)),
      (''allowed_delivery_modes'',
         JArr (map (JStr \<circ> delivery_mode_string) (ap_allowed_delivery_modes p))),
      (''allowed_http_hosts'', json_strs (ap_allowed_http_hosts p)),
      (''denied_http_hosts'', json_strs (ap_denied_http_hosts p)),
      (''allowed_http_methods'', json_strs (ap_allowed_http_methods p)),
      (''denied_http_methods'', json_strs (ap_denied_http_methods p)),
      (''allowed_http_path_prefixes'', json_strs (ap_allowed_http_path_prefixes p)),
      (''denied_http_path_prefixes'', json_strs (ap_denied_http_path_prefixes p)),
      (''require_https_for_brokered_http'', JBool (ap_require_https_for_brokered_http p)),
      (''max_http_request_body_bytes'', json_opt json_word (ap_max_http_request_body_bytes p)),
      (''allowed_os_uids'', JArr (map json_word (ap_allowed_os_uids p))),
      (''denied_os_uids'', JArr (map json_word (ap_denied_os_uids p))),
      (''allowed_executable_paths'', json_strs (ap_allowed_executable_paths p)),
      (''denied_executable_paths'', json_strs (ap_denied_executable_paths p)),
      (''allowed_executable_sha256'', json_strs (ap_allowed_executable_sha256 p)),
      (''denied_executable_sha256'', json_strs (ap_denied_executable_sha256 p)),
      (''exportable'', JBool (ap_exportable p)),
      (''max_ticket_ttl_seconds'', json_word (ap_max_ticket_ttl_seconds p)),
      (''max_uses'', json_word (ap_max_uses p)),
      (''minimum_provider_assurance'', JStr (ap_minimum_provider_assurance p)),
      (''require_mfa'', JBool (ap_require_mfa p)),
      (''allow_unbound_plaintext_export'', JBool (ap_allow_unbound_plaintext_export p)),
      (''expires_at'', json_opt (\<lambda>t. JStr (rt_rfc3339 X t)) (ap_expires_at p))]"

definition policy_hash :: "'a rt_scheme \<Rightarrow> access_policy \<Rightarrow> string" where
  "policy_hash X p =
     (case canonical_json_bytes X (json_obj (policy_fields X p)) of
        Inl _ \<Rightarrow> []
      | Inr bs \<Rightarrow> rt_b64url X (rt_sha256 X bs))"

section \<open>What the MAC and the policy hash cover\<close>

lemma ticket_payload_fields: "ticket_payload t = json_obj (butlast (ticket_fields t))"
proof -
  have "ticket_payload t = json_obj (filter (\<lambda>e. fst e \<noteq> ''mac'') (ticket_fields t))"
    by (simp add: ticket_payload_def ticket_json_def json_obj_def
        json_obj_del [unfolded json_obj_def])
  then show ?thesis by (simp add: ticket_fields_def)
qed

lemma ticket_payload_mac [simp]: "ticket_payload (t\<lparr>tk_mac := m\<rparr>) = ticket_payload t"
  by (simp add: ticket_payload_fields ticket_fields_def)

lemma json_word_eq [simp]: "json_word v = json_word w \<longleftrightarrow> v = w"
  by (auto simp: json_word_def intro: unsigned_word_eqI)

lemma json_opt_JStr [simp]: "json_opt JStr x = json_opt JStr y \<longleftrightarrow> x = y"
  by (rule json_opt_eq_iff) (simp_all add: inj_def)

lemma json_opt_word [simp]: "json_opt json_word x = json_opt json_word y \<longleftrightarrow> x = y"
  by (rule json_opt_eq_iff) (simp_all add: inj_def, simp add: json_word_def)

lemma delivery_mode_string_eq [simp]: "delivery_mode_string a = delivery_mode_string b \<longleftrightarrow> a = b"
  by (cases a; cases b) simp_all

lemma ticket_payload_eq_iff:
  "ticket_payload t = ticket_payload u \<longleftrightarrow> t\<lparr>tk_mac := []\<rparr> = u\<lparr>tk_mac := []\<rparr>"
proof -
  have "ticket_payload t = ticket_payload u \<longleftrightarrow>
      butlast (ticket_fields t) = butlast (ticket_fields u)"
    unfolding ticket_payload_fields by (rule json_obj_eq_iff) (simp_all add: ticket_fields_def)
  also have "\<dots> \<longleftrightarrow> t\<lparr>tk_mac := []\<rparr> = u\<lparr>tk_mac := []\<rparr>"
    by (cases t; cases u) (simp add: ticket_fields_def)
  finally show ?thesis .
qed

lemma float_free_json_opt: "(\<And>x. float_free (f x)) \<Longrightarrow> float_free (json_opt f y)"
  and json_ok_json_opt: "(\<And>x. json_ok (f x)) \<Longrightarrow> json_ok (json_opt f y)"
  by (simp_all add: json_opt_def split: option.split)

lemma ticket_payload_canonical:
  "canonical_json_bytes X (ticket_payload t) = Ok (rt_json_text X (ticket_payload t))"
proof -
  let ?fs = "butlast (ticket_fields t)"
  have "float_free (json_obj ?fs)" "json_ok (json_obj ?fs)"
    by (rule float_free_json_obj json_ok_json_obj;
        auto simp: ticket_fields_def json_word_def float_free_json_opt json_ok_json_opt)+
  then have "normalize_value (json_obj ?fs) = Ok (json_obj ?fs)"
    by (rule normalize_ok)
  then show ?thesis
    by (simp add: ticket_payload_fields canonical_json_bytes_def json_obj_def)
qed

lemma policy_hash_canonical:
  "canonical_json_bytes X (json_obj (policy_fields X p)) = Ok (rt_json_text X (json_obj (policy_fields X p)))"
proof -
  have "float_free (json_obj (policy_fields X p))" "json_ok (json_obj (policy_fields X p))"
    by (rule float_free_json_obj json_ok_json_obj;
        auto simp: policy_fields_def json_word_def json_strs_def float_free_json_opt json_ok_json_opt)+
  then have "normalize_value (json_obj (policy_fields X p)) = Ok (json_obj (policy_fields X p))"
    by (rule normalize_ok)
  then show ?thesis by (simp add: canonical_json_bytes_def json_obj_def)
qed

lemma map_JStr_eq [simp]: "json_strs xs = json_strs ys \<longleftrightarrow> xs = ys"
  by (simp add: json_strs_def inj_map_eq_map inj_def)

lemma map_json_word_eq [simp]: "map json_word xs = map json_word ys \<longleftrightarrow> xs = ys"
  by (simp add: inj_map_eq_map inj_def)

lemma policy_fields_eq:
  assumes "inj (rt_rfc3339 X)" and "json_obj (policy_fields X p) = json_obj (policy_fields X q)"
  shows "p = q"
proof -
  have "policy_fields X p = policy_fields X q"
    using assms(2) by (subst (asm) json_obj_eq_iff) (simp_all add: policy_fields_def)
  moreover have "json_opt (\<lambda>t. JStr (rt_rfc3339 X t)) x = json_opt (\<lambda>t. JStr (rt_rfc3339 X t)) y
      \<longleftrightarrow> x = y" for x y
    using assms(1) by (intro json_opt_eq_iff) (auto simp: inj_def)
  moreover have "inj (JStr \<circ> delivery_mode_string)"
    by (auto simp: inj_def)
  ultimately show ?thesis
    by (cases p; cases q) (simp add: policy_fields_def inj_map_eq_map)
qed

interpretation tk: sealed_object ticket_payload tk_mac "ticket_mac X key" "ticket_seal X key"
  for X :: "'a rt_scheme" and key
  by unfold_locales (simp_all add: ticket_seal_def)

section \<open>Validation\<close>

definition ticket_context_ok :: "ticket \<Rightarrow> access_request \<Rightarrow> bool" where
  "ticket_context_ok t r \<longleftrightarrow>
     tk_secret_ref t = ar_secret_ref r \<and>
     broker_session_id_matches (tk_broker_session_id t) (ar_broker_session_id r) \<and>
     tk_consumer t = ar_consumer r \<and> tk_purpose t = ar_purpose r \<and>
     tk_delivery_mode t = ar_delivery_mode r \<and> tk_http_host t = ar_http_host r \<and>
     tk_http_scheme t = ar_http_scheme r \<and> tk_http_method t = ar_http_method r \<and>
     tk_http_path t = ar_http_path r \<and>
     tk_http_request_body_bytes t = ar_http_request_body_bytes r \<and>
     tk_os_uid t = ar_os_uid r \<and> tk_executable_path t = ar_executable_path r \<and>
     tk_executable_sha256 t = ar_executable_sha256 r"

definition ticket_live :: "'a rt_scheme \<Rightarrow> bytes \<Rightarrow> ticket \<Rightarrow> time \<Rightarrow> bool" where
  "ticket_live X mac_key t now \<longleftrightarrow>
     ticket_mac X mac_key (ticket_payload t) = tk_mac t \<and> \<not> tk_revoked t \<and>
     tk_uses_remaining t \<noteq> 0 \<and>
     (\<exists>expires_at. rt_parse_rfc3339 X (tk_expires_at t) = Some expires_at \<and> now \<le> expires_at)"

lemma word_lt_one: "w < (1 :: 'a::len word) \<longleftrightarrow> w = 0"
  using word_less_1 by blast

lemma validate_Ok_iff:
  "validate X k t r now = Ok () \<longleftrightarrow> ticket_live X k t now \<and> ticket_context_ok t r"
  by (cases "rt_parse_rfc3339 X (tk_expires_at t)")
    (auto simp: validate_def ticket_live_def ticket_context_ok_def word_lt_one not_less)

lemma validate_unit: "is_ok (validate X k t r now) \<longleftrightarrow> validate X k t r now = Ok ()"
  by (auto simp: is_ok_iff)

lemma consume_Ok_iff:
  "consume X k t r now = Ok u \<longleftrightarrow> ticket_live X k t now \<and> ticket_context_ok t r \<and>
     u = ticket_seal X k (t\<lparr>tk_uses_remaining := tk_uses_remaining t - 1\<rparr>)"
  by (auto simp: consume_def res_bind_Ok_iff validate_Ok_iff)

lemma ticket_seal_fields [simp]:
  "tk_uses_remaining (ticket_seal X k t) = tk_uses_remaining t"
  "tk_max_uses (ticket_seal X k t) = tk_max_uses t"
  "tk_revoked (ticket_seal X k t) = tk_revoked t"
  "tk_ticket_id (ticket_seal X k t) = tk_ticket_id t"
  "tk_expires_at (ticket_seal X k t) = tk_expires_at t"
  "tk_policy_id (ticket_seal X k t) = tk_policy_id t"
  "tk_policy_hash (ticket_seal X k t) = tk_policy_hash t"
  "tk_secret_ref (ticket_seal X k t) = tk_secret_ref t"
  "tk_secret_version (ticket_seal X k t) = tk_secret_version t"
  "ticket_context_ok (ticket_seal X k t) r = ticket_context_ok t r"
  by (simp_all add: ticket_seal_def ticket_context_ok_def)

lemma ticket_seal_eqI: "t\<lparr>tk_mac := []\<rparr> = u\<lparr>tk_mac := []\<rparr> \<Longrightarrow> ticket_seal X k t = ticket_seal X k u"
proof -
  assume eq: "t\<lparr>tk_mac := []\<rparr> = u\<lparr>tk_mac := []\<rparr>"
  then have "ticket_payload t = ticket_payload u" by (simp add: ticket_payload_eq_iff)
  moreover have "t\<lparr>tk_mac := m\<rparr> = u\<lparr>tk_mac := m\<rparr>" for m
    using arg_cong [OF eq, of "\<lambda>v. v\<lparr>tk_mac := m\<rparr>"] by simp
  ultimately show ?thesis by (simp add: ticket_seal_def)
qed

lemma ticket_seal_valid: "ticket_mac X k (ticket_payload (ticket_seal X k t)) = tk_mac (ticket_seal X k t)"
  by (rule tk.seal_valid)

lemma uses_decrease:
  "w \<noteq> 0 \<Longrightarrow> unat (w - 1 :: 'w::len word) = unat w - 1"
  by (simp add: unat_minus_one)

text \<open>Presenting one ticket again and again: each success hands on the resealed ticket.\<close>

fun consume_run ::
    "'a rt_scheme \<Rightarrow> bytes \<Rightarrow> ticket \<Rightarrow> (access_request \<times> time) list \<Rightarrow> ticket_error + ticket" where
  "consume_run X k t [] = Ok t"
| "consume_run X k t (p # ps) =
     res_bind (consume X k t (fst p) (snd p)) (\<lambda>u. consume_run X k u ps)"

lemma consume_run_uses:
  "consume_run X k t ps = Ok u \<Longrightarrow>
   unat (tk_uses_remaining u) + length ps = unat (tk_uses_remaining t)"
proof (induction ps arbitrary: t)
  case (Cons p ps)
  then obtain v where v: "consume X k t (fst p) (snd p) = Ok v" and run: "consume_run X k v ps = Ok u"
    by (auto simp: res_bind_Ok_iff)
  from v have nz: "tk_uses_remaining t \<noteq> 0"
    and eq: "tk_uses_remaining v = tk_uses_remaining t - 1"
    by (auto simp: consume_Ok_iff ticket_live_def)
  then have "0 < unat (tk_uses_remaining t)" by (simp add: unat_gt_0)
  with Cons.IH [OF run] nz eq show ?case by (simp add: uses_decrease)
qed simp

lemma consume_exhausted:
  "ticket_mac X k (ticket_payload t) = tk_mac t \<Longrightarrow> \<not> tk_revoked t \<Longrightarrow> tk_uses_remaining t = 0 \<Longrightarrow>
   consume X k t r now = Err ReplayDenied"
  by (simp add: consume_def validate_def)

lemma revoke_Ok_iff:
  "revoke X k t = Ok u \<longleftrightarrow> ticket_mac X k (ticket_payload t) = tk_mac t \<and>
     u = ticket_seal X k (t\<lparr>tk_revoked := True\<rparr>)"
  by (auto simp: revoke_def)

lemma revoked_not_valid: "tk_revoked t \<Longrightarrow> \<not> is_ok (validate X k t r now)"
  by (auto simp: validate_unit validate_Ok_iff ticket_live_def)

lemma issue_Some_D:
  assumes "issue X k uuid vid sid ver r p ph ses = Some t" and "clock_ok X"
  shows "ticket_mac X k (ticket_payload t) = tk_mac t" "\<not> tk_revoked t" "tk_ticket_id t = uuid"
    "tk_uses_remaining t = ap_max_uses p" "tk_max_uses t = ap_max_uses p"
    "tk_policy_id t = ap_policy_id p" "tk_policy_hash t = ph"
    "tk_secret_ref t = ar_secret_ref r" "tk_secret_version t = ver" "tk_broker_session_id t = ses"
    "rt_parse_rfc3339 X (tk_expires_at t) =
       (let e = ar_now r + sint (ap_max_ticket_ttl_seconds p) * 1000000000 in Some (e - e mod 1000000))"
    "ses = ar_broker_session_id r \<Longrightarrow> ticket_context_ok t r"
proof -
  from assms(1) obtain e where e: "rt_add_seconds X (ar_now r) (sint (ap_max_ticket_ttl_seconds p)) = Some e"
    by (auto simp: issue_def Let_def split: option.splits)
  with assms(2) have e': "e = ar_now r + sint (ap_max_ticket_ttl_seconds p) * 1000000000"
    by (auto simp: clock_ok_def)
  obtain u where t: "t = ticket_seal X k u"
    using assms(1) e by (auto simp: issue_def Let_def)
  show "ticket_mac X k (ticket_payload t) = tk_mac t"
    unfolding t by (rule ticket_seal_valid)
  from assms(1) e show "\<not> tk_revoked t" "tk_ticket_id t = uuid"
    "tk_uses_remaining t = ap_max_uses p" "tk_max_uses t = ap_max_uses p"
    "tk_policy_id t = ap_policy_id p" "tk_policy_hash t = ph"
    "tk_secret_ref t = ar_secret_ref r" "tk_secret_version t = ver" "tk_broker_session_id t = ses"
    by (auto simp: issue_def Let_def ticket_seal_def)
  have "tk_expires_at t = rt_utc_millis X e"
    using assms(1) e by (auto simp: issue_def Let_def)
  with assms(2) show "rt_parse_rfc3339 X (tk_expires_at t) =
       (let e = ar_now r + sint (ap_max_ticket_ttl_seconds p) * 1000000000 in Some (e - e mod 1000000))"
    by (simp add: clock_ok_def e' Let_def)
  assume "ses = ar_broker_session_id r"
  moreover have "broker_session_id_matches x x" for x by (cases x) simp_all
  ultimately show "ticket_context_ok t r"
    using assms(1) e by (auto simp: issue_def Let_def ticket_context_ok_def ticket_seal_def)
qed

end
