(* ===== verification/Hbse_Records.thy ===== *)
theory Hbse_Records
  imports Hbse_Tickets
begin

text \<open>
  Secret records and rotation jobs, components/HBSE/hbse/src/records.rs and rotation.rs.
  A secret version number is a \<open>nat\<close>: the store keeps it in an SQLite INTEGER and refuses
  a value of \<open>2^63\<close> or more (\<open>save_secret_record\<close> in \<open>Hbse_Store\<close>), so it never reaches the
  width of the source's \<open>u64\<close>.

  The job states form the machine \<open>rotation_next\<close>.
\<close>

datatype secret_status = Active | Staged | Disabled | Destroyed

datatype secret_type =
    ApiKey | AccessToken | RefreshToken | SsoTokenBundle | Password | Passphrase | Token
  | MnemonicPhrase | SshKey | PrivateKey | Certificate | Credential | JsonCredential | Generic

fun status_string :: "secret_status \<Rightarrow> string" where
  "status_string Active = ''active''"
| "status_string Staged = ''staged''"
| "status_string Disabled = ''disabled''"
| "status_string Destroyed = ''destroyed''"

fun secret_type_string :: "secret_type \<Rightarrow> string" where
  "secret_type_string ApiKey = ''api_key''"
| "secret_type_string AccessToken = ''access_token''"
| "secret_type_string RefreshToken = ''refresh_token''"
| "secret_type_string SsoTokenBundle = ''sso_token_bundle''"
| "secret_type_string Password = ''password''"
| "secret_type_string Passphrase = ''passphrase''"
| "secret_type_string Token = ''token''"
| "secret_type_string MnemonicPhrase = ''mnemonic_phrase''"
| "secret_type_string SshKey = ''ssh_key''"
| "secret_type_string PrivateKey = ''private_key''"
| "secret_type_string Certificate = ''certificate''"
| "secret_type_string Credential = ''credential''"
| "secret_type_string JsonCredential = ''json_credential''"
| "secret_type_string Generic = ''generic''"

record secret_record =
  sr_schema_version :: string
  sr_vault_id :: string
  sr_namespace_id :: string
  sr_secret_id :: string
  sr_secret_ref :: string
  sr_secret_version :: nat
  sr_status :: secret_status
  sr_secret_type :: secret_type
  sr_algorithm_id :: string
  sr_wrap_algorithm_id :: string
  sr_policy_id :: string
  sr_policy_hash :: string
  sr_metadata_hash :: string
  sr_provider_policy_hash :: string
  sr_created_at :: string
  sr_secret_nonce :: string
  sr_ciphertext :: string
  sr_dek_nonce :: string
  sr_wrapped_dek :: string
  sr_secret_aad_hash :: string
  sr_dek_wrap_aad_hash :: string

definition ciphertext_bytes :: "'a rt_scheme \<Rightarrow> secret_record \<Rightarrow> bytes option" where
  "ciphertext_bytes X r = rt_b64url_decode X (sr_ciphertext r)"

definition secret_nonce_bytes :: "'a rt_scheme \<Rightarrow> secret_record \<Rightarrow> bytes option" where
  "secret_nonce_bytes X r = rt_b64url_decode X (sr_secret_nonce r)"

definition dek_nonce_bytes :: "'a rt_scheme \<Rightarrow> secret_record \<Rightarrow> bytes option" where
  "dek_nonce_bytes X r = rt_b64url_decode X (sr_dek_nonce r)"

definition wrapped_dek_bytes :: "'a rt_scheme \<Rightarrow> secret_record \<Rightarrow> bytes option" where
  "wrapped_dek_bytes X r = rt_b64url_decode X (sr_wrapped_dek r)"

section \<open>Rotation jobs\<close>

datatype rotation_status = RStaged | RVerified | RPromoted | RRolledBack | RFailed

fun rotation_state_string :: "rotation_status \<Rightarrow> string" where
  "rotation_state_string RStaged = ''staged''"
| "rotation_state_string RVerified = ''verified''"
| "rotation_state_string RPromoted = ''promoted''"
| "rotation_state_string RRolledBack = ''rolled_back''"
| "rotation_state_string RFailed = ''failed''"

record rotation_job =
  rj_job_id :: string
  rj_vault_id :: string
  rj_secret_ref :: string
  rj_staged_version :: nat
  rj_status :: rotation_status
  rj_created_at :: string
  rj_updated_at :: string
  rj_staged_record :: secret_record
  rj_verifier :: string
  rj_failure_reason :: "string option"

definition default_verifier :: string where
  "default_verifier = ''decrypt-self-test''"

text \<open>\<open>RotationJob::create\<close>, with the drawn UUID and the clock reading as arguments\<close>

definition rotation_create ::
    "'a rt_scheme \<Rightarrow> string \<Rightarrow> time \<Rightarrow> string \<Rightarrow> string \<Rightarrow> nat \<Rightarrow> secret_record \<Rightarrow> rotation_job" where
  "rotation_create X uuid clock vault_id secret_ref staged_version staged_record =
     (let now = rt_utc_millis X clock
      in \<lparr>rj_job_id = uuid, rj_vault_id = vault_id, rj_secret_ref = secret_ref,
          rj_staged_version = staged_version, rj_status = RStaged, rj_created_at = now,
          rj_updated_at = now, rj_staged_record = staged_record, rj_verifier = default_verifier,
          rj_failure_reason = None\<rparr>)"

definition rotation_transition ::
    "'a rt_scheme \<Rightarrow> time \<Rightarrow> rotation_job \<Rightarrow> rotation_status \<Rightarrow> string option \<Rightarrow> rotation_job" where
  "rotation_transition X clock job status failure_reason =
     job\<lparr>rj_status := status, rj_updated_at := rt_utc_millis X clock,
         rj_failure_reason := failure_reason\<rparr>"

text \<open>The transitions the vault makes, and the states it leaves no more.\<close>

inductive rotation_next :: "rotation_status \<Rightarrow> rotation_status \<Rightarrow> bool" where
  rot_verify: "rotation_next RStaged RVerified"
| rot_promote: "rotation_next RVerified RPromoted"
| rot_roll_staged: "rotation_next RStaged RRolledBack"
| rot_roll_verified: "rotation_next RVerified RRolledBack"

code_pred rotation_next .

inductive_simps rotation_next_simps [simp]:
  "rotation_next RStaged x" "rotation_next RVerified x" "rotation_next RPromoted x"
  "rotation_next RRolledBack x" "rotation_next RFailed x"

definition rotation_final :: "rotation_status \<Rightarrow> bool" where
  "rotation_final s \<longleftrightarrow> s \<in> {RPromoted, RRolledBack, RFailed}"

lemma rotation_final_stuck: "rotation_final s \<longleftrightarrow> \<not> (\<exists>t. rotation_next s t)"
  by (cases s) (auto simp: rotation_final_def)

lemma rotation_promote_needs_verify: "rotation_next s RPromoted \<Longrightarrow> s = RVerified"
  by (cases s) auto

end
