(* ===== verification/Hbse_Audit.thy ===== *)
theory Hbse_Audit
  imports Hbse_Records
begin

text \<open>
  The hash-chained audit log, components/HBSE/hbse/src/audit.rs. Each event carries the
  hash of its predecessor, its own hash and a MAC. \<open>audit_append\<close> builds the next event,
  \<open>verify_audit_chain\<close> walks the chain as the source does.

  The lemmas show that appending keeps a chain verifiable, and what two verifiable chains
  ending in the same hash have in common.
\<close>

definition zero_hash :: string where
  "zero_hash = ''AAAAAAAAAAAAAAAAAAAAAAAAAAAAAAAAAAAAAAAAAAA''"

datatype audit_error = PreviousHashMismatch | EventHashMismatch | EventMacMismatch

record audit_event =
  ae_event_id :: string
  ae_timestamp :: string
  ae_vault_id :: string
  ae_namespace_id :: string
  ae_event_type :: string
  ae_severity :: string
  ae_decision :: string
  ae_previous_hash :: string
  ae_event_hash :: string
  ae_event_mac :: string
  ae_metadata :: "json table"

definition audit_event_json :: "audit_event \<Rightarrow> json table" where
  "audit_event_json e =
     fold (\<lambda>f. tbl_put (fst f) (snd f))
      [(''event_id'', JStr (ae_event_id e)),
       (''timestamp'', JStr (ae_timestamp e)),
       (''vault_id'', JStr (ae_vault_id e)),
       (''namespace_id'', JStr (ae_namespace_id e)),
       (''event_type'', JStr (ae_event_type e)),
       (''severity'', JStr (ae_severity e)),
       (''decision'', JStr (ae_decision e)),
       (''previous_hash'', JStr (ae_previous_hash e)),
       (''event_hash'', JStr (ae_event_hash e)),
       (''event_mac'', JStr (ae_event_mac e)),
       (''metadata'', JObj (ae_metadata e))] []"

definition mac_payload :: "audit_event \<Rightarrow> json" where
  "mac_payload e = JObj (tbl_del ''event_mac'' (audit_event_json e))"

definition hash_payload :: "audit_event \<Rightarrow> json" where
  "hash_payload e = JObj (tbl_del ''event_mac'' (tbl_del ''event_hash'' (audit_event_json e)))"

text \<open>\<open>audit_mac\<close>, and the SHA-256 of a canonical value; the \<open>Inl\<close> branches are the \<open>expect\<close>s.\<close>

definition audit_mac :: "'a rt_scheme \<Rightarrow> bytes \<Rightarrow> json \<Rightarrow> string" where
  "audit_mac X mac_key payload =
     (case canonical_json_bytes X payload of
        Inl _ \<Rightarrow> [] | Inr bs \<Rightarrow> rt_b64url X (rt_hmac_sha256 X mac_key bs))"

definition audit_hash :: "'a rt_scheme \<Rightarrow> json \<Rightarrow> string" where
  "audit_hash X payload =
     (case canonical_json_bytes X payload of
        Inl _ \<Rightarrow> [] | Inr bs \<Rightarrow> rt_b64url X (rt_sha256 X bs))"

text \<open>
  \<open>AuditManager::append\<close> on the events already stored, with the drawn UUID and the clock
  reading; the caller appends the result to the store.
\<close>

definition audit_append ::
    "'a rt_scheme \<Rightarrow> bytes \<Rightarrow> audit_event list \<Rightarrow> string \<Rightarrow> time \<Rightarrow> string \<Rightarrow> string \<Rightarrow> string \<Rightarrow>
     string \<Rightarrow> string \<Rightarrow> json table \<Rightarrow> audit_event" where
  "audit_append X mac_key events uuid clock vault_id namespace_id event_type severity decision metadata =
     (let previous_hash = (if events = [] then zero_hash else ae_event_hash (last events));
          timestamp = rt_utc_millis X clock;
          base = fold (\<lambda>f. tbl_put (fst f) (snd f))
            [(''event_id'', JStr uuid),
             (''timestamp'', JStr timestamp),
             (''vault_id'', JStr vault_id),
             (''namespace_id'', JStr namespace_id),
             (''event_type'', JStr event_type),
             (''severity'', JStr severity),
             (''decision'', JStr decision),
             (''previous_hash'', JStr previous_hash),
             (''metadata'', JObj metadata)] [];
          event_hash = audit_hash X (JObj base);
          mac_obj = tbl_put ''event_hash'' (JStr event_hash) base;
          event_mac = audit_mac X mac_key (JObj mac_obj)
      in \<lparr>ae_event_id = uuid, ae_timestamp = timestamp, ae_vault_id = vault_id,
          ae_namespace_id = namespace_id, ae_event_type = event_type, ae_severity = severity,
          ae_decision = decision, ae_previous_hash = previous_hash, ae_event_hash = event_hash,
          ae_event_mac = event_mac, ae_metadata = metadata\<rparr>)"

text \<open>The loop of \<open>verify_audit_chain\<close>, with \<open>previous_hash\<close> as its variable.\<close>

fun verify_from ::
    "'a rt_scheme \<Rightarrow> bytes \<Rightarrow> string \<Rightarrow> audit_event list \<Rightarrow> audit_error + unit" where
  "verify_from X mac_key previous_hash [] = Ok ()"
| "verify_from X mac_key previous_hash (event # events) =
     (if ae_previous_hash event \<noteq> previous_hash then Err PreviousHashMismatch
      else if audit_hash X (hash_payload event) \<noteq> ae_event_hash event then Err EventHashMismatch
      else if audit_mac X mac_key (mac_payload event) \<noteq> ae_event_mac event
      then Err EventMacMismatch
      else verify_from X mac_key (ae_event_hash event) events)"

definition verify_audit_chain ::
    "'a rt_scheme \<Rightarrow> audit_event list \<Rightarrow> bytes \<Rightarrow> audit_error + unit" where
  "verify_audit_chain X events mac_key = verify_from X mac_key zero_hash events"

section \<open>Appending\<close>

definition link_ok :: "'a rt_scheme \<Rightarrow> bytes \<Rightarrow> string \<Rightarrow> audit_event \<Rightarrow> bool" where
  "link_ok X mac_key prev e \<longleftrightarrow>
     ae_previous_hash e = prev \<and> audit_hash X (hash_payload e) = ae_event_hash e \<and>
     audit_mac X mac_key (mac_payload e) = ae_event_mac e"

fun chain_head :: "string \<Rightarrow> audit_event list \<Rightarrow> string" where
  "chain_head prev [] = prev"
| "chain_head prev (e # es) = chain_head (ae_event_hash e) es"

lemma chain_head_last: "chain_head prev es = (if es = [] then prev else ae_event_hash (last es))"
  by (induction prev es rule: chain_head.induct) auto

lemma verify_from_Cons:
  "verify_from X k prev (e # es) = Ok () \<longleftrightarrow>
     link_ok X k prev e \<and> verify_from X k (ae_event_hash e) es = Ok ()"
  by (simp add: link_ok_def)

lemma verify_from_append:
  "verify_from X k prev (es @ fs) = Ok () \<longleftrightarrow>
     verify_from X k prev es = Ok () \<and> verify_from X k (chain_head prev es) fs = Ok ()"
proof (induction es arbitrary: prev)
  case (Cons e es)
  then show ?case by (auto simp: verify_from_Cons simp del: verify_from.simps)
qed simp

text \<open>The event built by \<open>audit_append\<close> serializes to the objects it was hashed over.\<close>

lemma audit_append_link:
  fixes X :: "'a rt_scheme"
  defines "h \<equiv> \<lambda>events. if events = [] then zero_hash else ae_event_hash (last events)"
  shows "link_ok X k (h events) (audit_append X k events uuid clock vid ns ty sev dec meta)"
proof -
  let ?e = "audit_append X k events uuid clock vid ns ty sev dec meta"
  have prev: "ae_previous_hash ?e = h events"
    by (simp add: audit_append_def h_def Let_def)
  have "ae_event_hash ?e = audit_hash X (hash_payload ?e)"
    by (simp add: audit_append_def Let_def hash_payload_def audit_event_json_def tbl_del_def)
  moreover have "ae_event_mac ?e = audit_mac X k (mac_payload ?e)"
    by (simp add: audit_append_def Let_def mac_payload_def audit_event_json_def tbl_del_def)
  ultimately show ?thesis using prev by (simp add: link_ok_def)
qed

lemma verify_append:
  assumes "verify_audit_chain X events k = Ok ()"
  shows "verify_audit_chain X (events @ [audit_append X k events uuid clock vid ns ty sev dec meta]) k = Ok ()"
  using assms audit_append_link [of X k events uuid clock vid ns ty sev dec meta]
  by (simp add: verify_audit_chain_def verify_from_append chain_head_last verify_from_Cons
      del: verify_from.simps) simp

section \<open>What a verifiable chain fixes\<close>

lemma verified_hash: "verify_from X k prev es = Ok () \<Longrightarrow> e \<in> set es \<Longrightarrow>
    ae_event_hash e = audit_hash X (hash_payload e)"
  by (induction es arbitrary: prev) (auto split: if_splits)

lemma hash_payload_previous:
  "hash_payload e = hash_payload f \<Longrightarrow> ae_previous_hash e = ae_previous_hash f"
proof -
  assume "hash_payload e = hash_payload f"
  then have "tbl_get ''previous_hash'' (tbl_del ''event_mac'' (tbl_del ''event_hash'' (audit_event_json e))) =
      tbl_get ''previous_hash'' (tbl_del ''event_mac'' (tbl_del ''event_hash'' (audit_event_json f)))"
    by (simp add: hash_payload_def)
  then show ?thesis by (simp add: tbl_simps audit_event_json_def tbl_get_Cons)
qed

text \<open>
  Two chains that verify and end in the same hash record the same history, where the hash
  separates the payloads in them and none hashes to the start value.
\<close>

lemma verified_histories:
  assumes "verify_from X k zero_hash es = Ok ()" and "verify_from X k zero_hash fs = Ok ()"
    and "chain_head zero_hash es = chain_head zero_hash fs"
    and "inj_on (audit_hash X) (hash_payload ` (set es \<union> set fs))"
    and "zero_hash \<notin> ae_event_hash ` (set es \<union> set fs)"
  shows "map hash_payload es = map hash_payload fs"
  using assms
proof (induction es arbitrary: fs rule: rev_induct)
  case Nil
  then show ?case by (cases fs rule: rev_cases) (auto simp: chain_head_last)
next
  case (snoc e es)
  then obtain f gs where fs: "fs = gs @ [f]"
    by (cases fs rule: rev_cases) (auto simp: chain_head_last)
  have ver: "verify_from X k zero_hash es = Ok ()" "link_ok X k (chain_head zero_hash es) e"
    "verify_from X k zero_hash gs = Ok ()" "link_ok X k (chain_head zero_hash gs) f"
    using snoc.prems(1,2) fs
    by (simp_all add: verify_from_append verify_from_Cons del: verify_from.simps(2))
  have "ae_event_hash e = ae_event_hash f"
    using snoc.prems(3) fs by (simp add: chain_head_last)
  then have "audit_hash X (hash_payload e) = audit_hash X (hash_payload f)"
    using ver by (simp add: link_ok_def)
  then have ef: "hash_payload e = hash_payload f"
    by (rule inj_onD [OF snoc.prems(4)]) (simp_all add: fs)
  then have "chain_head zero_hash es = chain_head zero_hash gs"
    using ver by (auto simp: link_ok_def dest: hash_payload_previous)
  moreover have "inj_on (audit_hash X) (hash_payload ` (set es \<union> set gs))"
    by (rule inj_on_subset [OF snoc.prems(4)]) (auto simp: fs)
  ultimately have "map hash_payload es = map hash_payload gs"
    using snoc.IH [of gs] ver snoc.prems(5) fs by auto
  with ef fs show ?case by simp
qed

lemma verify_prefix:
  "verify_audit_chain X (es @ fs) k = Ok () \<Longrightarrow> verify_audit_chain X es k = Ok ()"
  by (simp add: verify_audit_chain_def verify_from_append)

end
