(* ===== verification/Hbse_Keys.thy ===== *)
theory Hbse_Keys
  imports Hbse_Audit
begin

text \<open>
  The key hierarchy, components/HBSE/hbse/src/keys.rs: a counter-mode KDF over HMAC-SHA256
  and the labelled keys the vault derives from its root key.

  The loop of \<open>counter_kdf_hmac_sha256\<close> runs on fuel 32, one unit per block: it stops once
  32 bytes are there, and every block of HMAC-SHA256 adds 32 (\<open>kdf_length\<close>, from the
  documented digest length in \<open>codec_ok\<close>; any positive length would do).
\<close>

definition key_size :: nat where "key_size = 32"
definition protocol_version :: string where "protocol_version = ''v1''"

datatype key_error = InvalidRootKeyLength | InvalidLabel | MissingProtocolVersion

record key_hierarchy =
  kh_vault_id :: string
  kh_root_key :: bytes

definition key_hierarchy_new :: "string \<Rightarrow> bytes \<Rightarrow> key_error + key_hierarchy" where
  "key_hierarchy_new vault_id root_key =
     (if length root_key \<noteq> key_size then Err InvalidRootKeyLength
      else Ok \<lparr>kh_vault_id = vault_id, kh_root_key = root_key\<rparr>)"

text \<open>\<open>u32::to_be_bytes\<close>\<close>

definition be32 :: "nat \<Rightarrow> bytes" where
  "be32 n = map (\<lambda>i. char_of (n div 256 ^ i)) [3, 2, 1, 0]"

definition kdf_block :: "string \<Rightarrow> nat \<Rightarrow> bytes" where
  "kdf_block label counter = be32 counter @ label @ [CHR 0x00] @ be32 (key_size * 8)"

fun kdf_loop :: "'a rt_scheme \<Rightarrow> bytes \<Rightarrow> string \<Rightarrow> nat \<Rightarrow> nat \<Rightarrow> bytes \<Rightarrow> bytes" where
  "kdf_loop X root_key label 0 counter result = result"
| "kdf_loop X root_key label (Suc fuel) counter result =
     (if length result < key_size
      then kdf_loop X root_key label fuel (counter + 1)
             (result @ rt_hmac_sha256 X root_key (kdf_block label counter))
      else result)"

definition counter_kdf_hmac_sha256 :: "'a rt_scheme \<Rightarrow> bytes \<Rightarrow> string \<Rightarrow> key_error + bytes" where
  "counter_kdf_hmac_sha256 X root_key label =
     (if label = [] \<or> label \<in> {''key'', ''secret'', ''encrypt'', ''default''} then Err InvalidLabel
      else if \<not> str_contains (''HBSE:'' @ protocol_version @ '':'') label
      then Err MissingProtocolVersion
      else Ok (take key_size (kdf_loop X root_key label key_size 1 [])))"

definition derive :: "'a rt_scheme \<Rightarrow> key_hierarchy \<Rightarrow> string \<Rightarrow> key_error + bytes" where
  "derive X keys label = counter_kdf_hmac_sha256 X (kh_root_key keys) label"

text \<open>\<open>.expect("internal label is valid")\<close>; \<open>purpose_key_Ok\<close> shows the branch is not taken.\<close>

definition expect_key :: "key_error + bytes \<Rightarrow> bytes" where
  "expect_key r = (case r of Inl _ \<Rightarrow> [] | Inr k \<Rightarrow> k)"

definition purpose_label :: "string \<Rightarrow> key_hierarchy \<Rightarrow> string" where
  "purpose_label purpose keys = ''HBSE:v1:vault:'' @ kh_vault_id keys @ '':'' @ purpose"

definition metadata_key :: "'a rt_scheme \<Rightarrow> key_hierarchy \<Rightarrow> bytes" where
  "metadata_key X keys = expect_key (derive X keys (purpose_label ''metadata'' keys))"

definition audit_integrity_key :: "'a rt_scheme \<Rightarrow> key_hierarchy \<Rightarrow> bytes" where
  "audit_integrity_key X keys = expect_key (derive X keys (purpose_label ''audit-integrity'' keys))"

definition redaction_fingerprint_key :: "'a rt_scheme \<Rightarrow> key_hierarchy \<Rightarrow> bytes" where
  "redaction_fingerprint_key X keys =
     expect_key (derive X keys (purpose_label ''redaction-fingerprint'' keys))"

definition ticket_mac_key :: "'a rt_scheme \<Rightarrow> key_hierarchy \<Rightarrow> bytes" where
  "ticket_mac_key X keys = expect_key (derive X keys (purpose_label ''ticket-mac'' keys))"

definition secret_kek_label :: "key_hierarchy \<Rightarrow> string \<Rightarrow> nat \<Rightarrow> string" where
  "secret_kek_label keys secret_id version =
     ''HBSE:v1:vault:'' @ kh_vault_id keys @ '':secret:'' @ secret_id @ '':version:'' @
       show_nat version @ '':dek-wrap''"

definition secret_kek :: "'a rt_scheme \<Rightarrow> key_hierarchy \<Rightarrow> string \<Rightarrow> nat \<Rightarrow> bytes" where
  "secret_kek X keys secret_id version =
     expect_key (derive X keys (secret_kek_label keys secret_id version))"

section \<open>Derivation succeeds and separates its labels\<close>

lemma kdf_one_block:
  assumes "codec_ok X"
  shows "kdf_loop X rk label key_size 1 [] = rt_hmac_sha256 X rk (kdf_block label 1)"
proof -
  have len: "length (rt_hmac_sha256 X rk (kdf_block label 1)) = 32"
    using assms by (simp add: codec_ok_def)
  have "kdf_loop X rk label (Suc (Suc n)) 1 [] = rt_hmac_sha256 X rk (kdf_block label 1)" for n
    using len by (simp add: key_size_def)
  from this [of 30] show ?thesis by (simp add: key_size_def)
qed

lemma kdf_loop_reaches:
  "(\<And>k m. rt_hmac_sha256 X k m \<noteq> []) \<Longrightarrow> key_size \<le> length result + fuel \<Longrightarrow>
   key_size \<le> length (kdf_loop X rk label fuel counter result)"
proof (induction fuel arbitrary: counter result)
  case (Suc fuel)
  let ?b = "rt_hmac_sha256 X rk (kdf_block label counter)"
  have "1 \<le> length ?b" using Suc.prems(1) [of rk "kdf_block label counter"] by (cases ?b) auto
  then have "key_size \<le> length (result @ ?b) + fuel" using Suc.prems(2) by simp
  from Suc.IH [OF Suc.prems(1) this] show ?case by simp
qed simp

lemma prefixed_label_Ok:
  "counter_kdf_hmac_sha256 X rk (''HBSE:v1:'' @ rest) =
     Ok (take key_size (kdf_loop X rk (''HBSE:v1:'' @ rest) key_size 1 []))"
proof -
  have "str_contains (''HBSE:'' @ protocol_version @ '':'') (''HBSE:v1:'' @ rest)"
    unfolding str_contains_iff protocol_version_def by (rule exI [of _ "[]"]) simp
  then show ?thesis by (simp add: counter_kdf_hmac_sha256_def)
qed

lemma purpose_key_Ok: "is_ok (derive X keys (purpose_label purpose keys))"
  using prefixed_label_Ok [of X "kh_root_key keys" "''vault:'' @ kh_vault_id keys @ '':'' @ purpose"]
  by (simp add: derive_def purpose_label_def)

lemma secret_kek_Ok: "is_ok (derive X keys (secret_kek_label keys sid ver))"
  using prefixed_label_Ok [of X "kh_root_key keys" "''vault:'' @ kh_vault_id keys @ '':secret:'' @
     sid @ '':version:'' @ show_nat ver @ '':dek-wrap''"]
  by (simp add: derive_def secret_kek_label_def)

lemma kdf_length:
  assumes "codec_ok X" and "derive X keys label = Ok k"
  shows "length k = key_size"
proof -
  from assms(2) have "k = take key_size (kdf_loop X (kh_root_key keys) label key_size 1 [])"
    by (auto simp: derive_def counter_kdf_hmac_sha256_def split: if_splits)
  with assms(1) show ?thesis by (simp only: kdf_one_block) (simp add: codec_ok_def key_size_def)
qed

lemma expect_key_length:
  "codec_ok X \<Longrightarrow> is_ok (derive X keys label) \<Longrightarrow> length (expect_key (derive X keys label)) = key_size"
  by (auto simp: is_ok_iff expect_key_def dest: kdf_length)

lemma kdf_block_inj: "kdf_block l c = kdf_block m c \<longleftrightarrow> l = m"
  by (simp add: kdf_block_def)

text \<open>
  Two version keys of one vault have the same label only for the same identifier and
  version, where identifiers hold no colon (they are base64url).
\<close>

lemma split_at_colon:
  assumes "s @ CHR '':'' # t = u @ CHR '':'' # v" "CHR '':'' \<notin> set s" "CHR '':'' \<notin> set u"
  shows "s = u \<and> t = v"
  using assms by (auto simp: append_eq_append_conv2 append_eq_Cons_conv Cons_eq_append_conv)

lemma show_nat_no_colon: "CHR '':'' \<notin> set (show_nat n)"
  using show_nat_digits [of "CHR '':''" n] by (auto simp: is_ascii_digit_def)

lemma secret_kek_label_inj:
  assumes "CHR '':'' \<notin> set sid" "CHR '':'' \<notin> set sid'"
    and "secret_kek_label keys sid ver = secret_kek_label keys sid' ver'"
  shows "sid = sid' \<and> ver = ver'"
proof -
  from assms(3) have "sid @ CHR '':'' # (''version:'' @ show_nat ver @ '':dek-wrap'') =
      sid' @ CHR '':'' # (''version:'' @ show_nat ver' @ '':dek-wrap'')"
    by (simp add: secret_kek_label_def)
  from split_at_colon [OF this assms(1,2)]
  have "sid = sid'" and "show_nat ver @ CHR '':'' # ''dek-wrap'' = show_nat ver' @ CHR '':'' # ''dek-wrap''"
    by simp_all
  with split_at_colon [OF this(2) show_nat_no_colon show_nat_no_colon]
  show ?thesis by (metis read_show_nat)
qed

end
