(* ===== verification/Hbse_Crypto.thy ===== *)
theory Hbse_Crypto
  imports Hbse_Keys
begin

text \<open>
  Envelope encryption of secrets, components/HBSE/hbse/src/crypto.rs: a random data key
  (DEK) encrypts the plaintext, a key derived per secret version (KEK) wraps the DEK, and
  both ciphertexts are bound to the record's identity by associated data. The DEK, the two
  nonces and the clock reading are arguments of \<open>encrypt_secret\<close>.
\<close>

definition nonce_size :: nat where "nonce_size = 12"

datatype crypto_error =
    WrongVault | SecretAadHashMismatch | DekWrapAadHashMismatch | AuthenticationFailed
  | DecodeError | InvalidNonceLength

definition hash_bytes :: "'a rt_scheme \<Rightarrow> bytes \<Rightarrow> string" where
  "hash_bytes X value = rt_b64url X (rt_sha256 X value)"

text \<open>The bytes of a JSON object whose serialization the source \<open>expect\<close>s to succeed.\<close>

definition expect_bytes :: "ser_error + bytes \<Rightarrow> bytes" where
  "expect_bytes r = (case r of Inl _ \<Rightarrow> [] | Inr b \<Rightarrow> b)"

definition secret_aad ::
    "'a rt_scheme \<Rightarrow> string \<Rightarrow> string \<Rightarrow> string \<Rightarrow> string \<Rightarrow> nat \<Rightarrow> secret_type \<Rightarrow> string \<Rightarrow> string \<Rightarrow>
     string \<Rightarrow> string \<Rightarrow> bytes" where
  "secret_aad X vault_id namespace_id secret_id secret_ref version secret_type policy_id
      phash metadata_hash created_at =
     expect_bytes (canonical_json_bytes X (json_obj
       [(''aad_version'', JStr ''1''),
        (''record_type'', JStr ''secret''),
        (''algorithm_id'', JStr ''AES-256-GCM''),
        (''schema_version'', JStr ''1''),
        (''vault_id'', JStr vault_id),
        (''namespace_id'', JStr namespace_id),
        (''secret_id'', JStr secret_id),
        (''secret_ref'', JStr secret_ref),
        (''version'', JInt (int version)),
        (''secret_type'', JStr (secret_type_string secret_type)),
        (''policy_id'', JStr policy_id),
        (''policy_hash'', JStr phash),
        (''metadata_hash'', JStr metadata_hash),
        (''created_at'', JStr created_at)]))"

definition dek_wrap_aad ::
    "'a rt_scheme \<Rightarrow> string \<Rightarrow> string \<Rightarrow> nat \<Rightarrow> string \<Rightarrow> string \<Rightarrow> string \<Rightarrow> bytes" where
  "dek_wrap_aad X vault_id secret_id version kdf_label provider_policy_hash created_at =
     expect_bytes (canonical_json_bytes X (json_obj
       [(''aad_version'', JStr ''1''),
        (''wrap_algorithm_id'', JStr ''AES-256-GCM''),
        (''vault_id'', JStr vault_id),
        (''secret_id'', JStr secret_id),
        (''version'', JInt (int version)),
        (''kdf_label'', JStr kdf_label),
        (''provider_policy_hash'', JStr provider_policy_hash),
        (''created_at'', JStr created_at)]))"

definition encrypt_secret ::
    "'a rt_scheme \<Rightarrow> time \<Rightarrow> bytes \<Rightarrow> bytes \<Rightarrow> bytes \<Rightarrow> key_hierarchy \<Rightarrow> string \<Rightarrow> string \<Rightarrow> string \<Rightarrow>
     nat \<Rightarrow> bytes \<Rightarrow> secret_type \<Rightarrow> string \<Rightarrow> string \<Rightarrow> string \<Rightarrow> string \<Rightarrow> secret_record" where
  "encrypt_secret X clock dek secret_nonce dek_nonce keys namespace_id secret_id secret_ref
      version plaintext secret_type policy_id phash metadata_hash provider_policy_hash =
     (let created_at = rt_utc_millis X clock;
          kek = secret_kek X keys secret_id version;
          kdf_label = secret_kek_label keys secret_id version;
          aad = secret_aad X (kh_vault_id keys) namespace_id secret_id secret_ref version
                  secret_type policy_id phash metadata_hash created_at;
          wrap_aad = dek_wrap_aad X (kh_vault_id keys) secret_id version kdf_label
                  provider_policy_hash created_at;
          ciphertext = rt_aes_gcm_encrypt X dek secret_nonce plaintext aad;
          wrapped_dek = rt_aes_gcm_encrypt X kek dek_nonce dek wrap_aad
      in \<lparr>sr_schema_version = ''1'',
          sr_vault_id = kh_vault_id keys,
          sr_namespace_id = namespace_id,
          sr_secret_id = secret_id,
          sr_secret_ref = secret_ref,
          sr_secret_version = version,
          sr_status = Active,
          sr_secret_type = secret_type,
          sr_algorithm_id = ''AES-256-GCM'',
          sr_wrap_algorithm_id = ''AES-256-GCM'',
          sr_policy_id = policy_id,
          sr_policy_hash = phash,
          sr_metadata_hash = metadata_hash,
          sr_provider_policy_hash = provider_policy_hash,
          sr_created_at = created_at,
          sr_secret_nonce = rt_b64url X secret_nonce,
          sr_ciphertext = rt_b64url X ciphertext,
          sr_dek_nonce = rt_b64url X dek_nonce,
          sr_wrapped_dek = rt_b64url X wrapped_dek,
          sr_secret_aad_hash = hash_bytes X aad,
          sr_dek_wrap_aad_hash = hash_bytes X wrap_aad\<rparr>)"

definition created_at_aad_candidates :: "'a rt_scheme \<Rightarrow> string \<Rightarrow> string list" where
  "created_at_aad_candidates X created_at =
     created_at # (case rt_parse_rfc3339 X created_at of
        None \<Rightarrow> []
      | Some timestamp \<Rightarrow>
          (let millis = rt_utc_millis X timestamp
           in if millis \<noteq> created_at then [millis] else []))"

definition matching_secret_aad :: "'a rt_scheme \<Rightarrow> secret_record \<Rightarrow> crypto_error + bytes" where
  "matching_secret_aad X r =
     ok_or SecretAadHashMismatch
       (find (\<lambda>aad. hash_bytes X aad = sr_secret_aad_hash r)
         (map (\<lambda>created_at. secret_aad X (sr_vault_id r) (sr_namespace_id r) (sr_secret_id r)
                (sr_secret_ref r) (sr_secret_version r) (sr_secret_type r) (sr_policy_id r)
                (sr_policy_hash r) (sr_metadata_hash r) created_at)
           (created_at_aad_candidates X (sr_created_at r))))"

definition matching_dek_wrap_aad :: "'a rt_scheme \<Rightarrow> secret_record \<Rightarrow> string \<Rightarrow> crypto_error + bytes" where
  "matching_dek_wrap_aad X r kdf_label =
     ok_or DekWrapAadHashMismatch
       (find (\<lambda>aad. hash_bytes X aad = sr_dek_wrap_aad_hash r)
         (map (\<lambda>created_at. dek_wrap_aad X (sr_vault_id r) (sr_secret_id r) (sr_secret_version r)
                kdf_label (sr_provider_policy_hash r) created_at)
           (created_at_aad_candidates X (sr_created_at r))))"

definition to_nonce :: "bytes \<Rightarrow> crypto_error + bytes" where
  "to_nonce value = (if length value = nonce_size then Ok value else Err InvalidNonceLength)"

definition to_key :: "bytes \<Rightarrow> crypto_error + bytes" where
  "to_key value = (if length value = key_size then Ok value else Err AuthenticationFailed)"

definition decrypt_aes_gcm ::
    "'a rt_scheme \<Rightarrow> bytes \<Rightarrow> bytes \<Rightarrow> bytes \<Rightarrow> bytes \<Rightarrow> crypto_error + bytes" where
  "decrypt_aes_gcm X key nonce ciphertext aad =
     ok_or AuthenticationFailed (rt_aes_gcm_decrypt X key nonce ciphertext aad)"

definition decrypt_secret :: "'a rt_scheme \<Rightarrow> key_hierarchy \<Rightarrow> secret_record \<Rightarrow> crypto_error + bytes" where
  "decrypt_secret X keys r =
     (if sr_vault_id r \<noteq> kh_vault_id keys then Err WrongVault
      else
        let kdf_label = secret_kek_label keys (sr_secret_id r) (sr_secret_version r)
        in res_bind (matching_secret_aad X r) (\<lambda>aad.
           res_bind (matching_dek_wrap_aad X r kdf_label) (\<lambda>wrap_aad.
           let kek = secret_kek X keys (sr_secret_id r) (sr_secret_version r)
           in res_bind (ok_or DecodeError (dek_nonce_bytes X r)) (\<lambda>raw_dek_nonce.
              res_bind (to_nonce raw_dek_nonce) (\<lambda>dek_nonce.
              res_bind (ok_or DecodeError (wrapped_dek_bytes X r)) (\<lambda>wrapped.
              res_bind (decrypt_aes_gcm X kek dek_nonce wrapped wrap_aad) (\<lambda>dek.
              res_bind (to_key dek) (\<lambda>key.
              res_bind (ok_or DecodeError (secret_nonce_bytes X r)) (\<lambda>raw_nonce.
              res_bind (to_nonce raw_nonce) (\<lambda>nonce.
              res_bind (ok_or DecodeError (ciphertext_bytes X r)) (\<lambda>ciphertext.
                decrypt_aes_gcm X key nonce ciphertext aad)))))))))))"

section \<open>Round trip and binding\<close>

lemma find_first: "P x \<Longrightarrow> find P (x # xs) = Some x"
  by simp

lemma decrypt_encrypt:
  assumes "aead_ok X" "codec_ok X"
    and "length dek = key_size" "length sn = nonce_size" "length dn = nonce_size"
  shows "decrypt_secret X keys
           (encrypt_secret X clock dek sn dn keys ns sid ref ver pt ty pid ph mh pph) = Ok pt"
  using assms
  by (simp add: decrypt_secret_def encrypt_secret_def Let_def matching_secret_aad_def
      matching_dek_wrap_aad_def created_at_aad_candidates_def find_first dek_nonce_bytes_def
      wrapped_dek_bytes_def secret_nonce_bytes_def ciphertext_bytes_def codec_ok_def aead_ok_def
      to_nonce_def to_key_def decrypt_aes_gcm_def)

text \<open>The status of a record takes no part in decryption: it is not bound by the data.\<close>

lemma decrypt_status [simp]: "decrypt_secret X keys (r\<lparr>sr_status := st\<rparr>) = decrypt_secret X keys r"
  by (simp add: decrypt_secret_def matching_secret_aad_def matching_dek_wrap_aad_def
      dek_nonce_bytes_def wrapped_dek_bytes_def secret_nonce_bytes_def ciphertext_bytes_def)

lemma decrypt_bound:
  assumes "decrypt_secret X keys r = Ok pt"
  shows "sr_vault_id r = kh_vault_id keys"
    and "\<exists>created_at \<in> set (created_at_aad_candidates X (sr_created_at r)).
           sr_secret_aad_hash r = hash_bytes X (secret_aad X (sr_vault_id r) (sr_namespace_id r)
             (sr_secret_id r) (sr_secret_ref r) (sr_secret_version r) (sr_secret_type r)
             (sr_policy_id r) (sr_policy_hash r) (sr_metadata_hash r) created_at)"
proof -
  from assms show "sr_vault_id r = kh_vault_id keys"
    by (auto simp: decrypt_secret_def split: if_splits)
  from assms obtain aad where "matching_secret_aad X r = Ok aad"
    by (auto simp: decrypt_secret_def res_bind_Ok_iff Let_def split: if_splits)
  then show "\<exists>created_at \<in> set (created_at_aad_candidates X (sr_created_at r)).
           sr_secret_aad_hash r = hash_bytes X (secret_aad X (sr_vault_id r) (sr_namespace_id r)
             (sr_secret_id r) (sr_secret_ref r) (sr_secret_version r) (sr_secret_type r)
             (sr_policy_id r) (sr_policy_hash r) (sr_metadata_hash r) created_at)"
    by (auto simp: matching_secret_aad_def ok_or_Ok_iff find_Some_iff in_set_conv_nth) (metis nth_mem)
qed

lemma encrypt_secret_fields [simp]:
  "sr_secret_ref (encrypt_secret X clock dek sn dn keys ns sid ref ver pt ty pid ph mh pph) = ref"
  "sr_secret_version (encrypt_secret X clock dek sn dn keys ns sid ref ver pt ty pid ph mh pph) = ver"
  "sr_status (encrypt_secret X clock dek sn dn keys ns sid ref ver pt ty pid ph mh pph) = Active"
  "sr_secret_id (encrypt_secret X clock dek sn dn keys ns sid ref ver pt ty pid ph mh pph) = sid"
  by (simp_all add: encrypt_secret_def Let_def)

end
