(* ===== verification/Hbse_Provider.thy ===== *)
theory Hbse_Provider
  imports Hbse_Crypto "HOL-Library.Product_Lexorder"
begin

text \<open>
  Wrapping of the vault root key, components/HBSE/hbse/src/provider.rs (a passphrase),
  provider_system.rs (identifiers of the host) and recovery.rs (a recovery package, which
  is a passphrase binding with an identifier added).

  \<open>scrypt\<close> and AES-GCM are fields of \<open>rt\<close>; salts, nonces and identifiers are arguments; the
  files of the host are a function from paths to their UTF-8 contents. A binding is stored
  in the vault header as a JSON value, and read back with \<open>binding_of_json\<close>.

  The lemmas show that a wrapped key comes back with the same passphrase and vault
  identifier (and, for the host provider, the same files).
\<close>

section \<open>Passphrase bindings\<close>

definition passphrase_provider_id :: string where
  "passphrase_provider_id = ''passphrase-scrypt-aesgcm''"

datatype provider_error =
    PvInvalidRootKeyLength | PvEmptyPassphrase | PvUnsupportedProvider | PvInvalidKdfParameters
  | PvDecode | PvUnlockFailed | PvNoUsableComponents | PvFingerprintMismatch

record scrypt_params =
  sp_n :: u32
  sp_r :: u32
  sp_p :: u32

definition default_scrypt :: scrypt_params where
  "default_scrypt = \<lparr>sp_n = push_bit 14 1, sp_r = 8, sp_p = 1\<rparr>"

record passphrase_binding =
  pb_provider_id :: string
  pb_kdf :: string
  pb_kdf_params :: scrypt_params
  pb_salt :: string
  pb_nonce :: string
  pb_wrapped_root_key :: string
  pb_assurance_level :: string
  pb_warning :: string

definition scrypt_json :: "scrypt_params \<Rightarrow> json" where
  "scrypt_json p = json_obj [(''n'', json_word (sp_n p)), (''r'', json_word (sp_r p)), (''p'', json_word (sp_p p))]"

definition scrypt_of_json :: "json \<Rightarrow> scrypt_params option" where
  "scrypt_of_json v =
     (case struct_fields [''n'', ''r'', ''p''] v of
        Some [a, b, c] \<Rightarrow>
          Option.bind (as_word a) (\<lambda>n. Option.bind (as_word b) (\<lambda>r. Option.bind (as_word c) (\<lambda>p.
            Some \<lparr>sp_n = n, sp_r = r, sp_p = p\<rparr>)))
      | _ \<Rightarrow> None)"

definition binding_fields :: "passphrase_binding \<Rightarrow> (string \<times> json) list" where
  "binding_fields b =
     [(''provider_id'', JStr (pb_provider_id b)),
      (''kdf'', JStr (pb_kdf b)),
      (''kdf_params'', scrypt_json (pb_kdf_params b)),
      (''salt'', JStr (pb_salt b)),
      (''nonce'', JStr (pb_nonce b)),
      (''wrapped_root_key'', JStr (pb_wrapped_root_key b)),
      (''assurance_level'', JStr (pb_assurance_level b)),
      (''warning'', JStr (pb_warning b))]"

definition binding_json :: "passphrase_binding \<Rightarrow> json" where
  "binding_json b = json_obj (binding_fields b)"

definition binding_of_json :: "json \<Rightarrow> passphrase_binding option" where
  "binding_of_json v =
     (case struct_fields [''provider_id'', ''kdf'', ''kdf_params'', ''salt'', ''nonce'',
         ''wrapped_root_key'', ''assurance_level'', ''warning''] v of
        Some [a, b, c, d, e, f, g, h] \<Rightarrow>
          Option.bind (as_str a) (\<lambda>pid. Option.bind (as_str b) (\<lambda>kdf.
          Option.bind (scrypt_of_json c) (\<lambda>params. Option.bind (as_str d) (\<lambda>salt.
          Option.bind (as_str e) (\<lambda>nonce. Option.bind (as_str f) (\<lambda>wrapped.
          Option.bind (as_str g) (\<lambda>level. Option.bind (as_str h) (\<lambda>warn.
            Some \<lparr>pb_provider_id = pid, pb_kdf = kdf, pb_kdf_params = params, pb_salt = salt,
                  pb_nonce = nonce, pb_wrapped_root_key = wrapped, pb_assurance_level = level,
                  pb_warning = warn\<rparr>))))))))
      | _ \<Rightarrow> None)"

text \<open>\<open>checked_ilog2\<close> of a non-zero value\<close>

fun ilog2 :: "nat \<Rightarrow> nat" where
  "ilog2 n = (if n < 2 then 0 else Suc (ilog2 (n div 2)))"

declare ilog2.simps [simp del]

definition scrypt_derive :: "'a rt_scheme \<Rightarrow> scrypt_params \<Rightarrow> bytes \<Rightarrow> bytes \<Rightarrow> provider_error + bytes" where
  "scrypt_derive X params input salt =
     (if sp_n params = 0 then Err PvInvalidKdfParameters
      else
        let log_n = ilog2 (unat (sp_n params))
        in if push_bit log_n 1 \<noteq> sp_n params then Err PvInvalidKdfParameters
           else ok_or PvInvalidKdfParameters (rt_scrypt X log_n (sp_r params) (sp_p params) input salt))"

definition passphrase_derive ::
    "'a rt_scheme \<Rightarrow> scrypt_params \<Rightarrow> string \<Rightarrow> bytes \<Rightarrow> provider_error + bytes" where
  "passphrase_derive X params passphrase salt =
     (if passphrase = [] then Err PvEmptyPassphrase
      else scrypt_derive X params passphrase salt)"

definition passphrase_aad :: "'a rt_scheme \<Rightarrow> string \<Rightarrow> bytes" where
  "passphrase_aad X vault_id =
     expect_bytes (canonical_json_bytes X (json_obj
       [(''provider_id'', JStr passphrase_provider_id),
        (''record_type'', JStr ''vault-root-wrap''),
        (''vault_id'', JStr vault_id)]))"

definition provider_nonce :: "bytes \<Rightarrow> provider_error + bytes" where
  "provider_nonce value = (if length value = 12 then Ok value else Err PvUnlockFailed)"

text \<open>\<open>try_into::<[u8; 32]>\<close> on what the cipher returned\<close>

definition root_key_of :: "bytes option \<Rightarrow> provider_error + bytes" where
  "root_key_of opened =
     res_bind (ok_or PvUnlockFailed opened) (\<lambda>root_key.
       if length root_key = key_size then Ok root_key else Err PvUnlockFailed)"

definition wrap_root_key ::
    "'a rt_scheme \<Rightarrow> scrypt_params \<Rightarrow> bytes \<Rightarrow> bytes \<Rightarrow> string \<Rightarrow> bytes \<Rightarrow> string \<Rightarrow>
     provider_error + passphrase_binding" where
  "wrap_root_key X params salt nonce vault_id root_key passphrase =
     (if length root_key \<noteq> key_size then Err PvInvalidRootKeyLength
      else
        res_bind (passphrase_derive X params passphrase salt) (\<lambda>wrapping_key.
          Ok \<lparr>pb_provider_id = passphrase_provider_id, pb_kdf = ''scrypt'', pb_kdf_params = params,
              pb_salt = rt_b64url X salt, pb_nonce = rt_b64url X nonce,
              pb_wrapped_root_key =
                rt_b64url X (rt_aes_gcm_encrypt X wrapping_key nonce root_key (passphrase_aad X vault_id)),
              pb_assurance_level = ''A1'',
              pb_warning = ''MVP passphrase provider; enroll a hardware provider before production use.''\<rparr>))"

definition unwrap_root_key ::
    "'a rt_scheme \<Rightarrow> string \<Rightarrow> passphrase_binding \<Rightarrow> string \<Rightarrow> provider_error + bytes" where
  "unwrap_root_key X vault_id b passphrase =
     (if pb_provider_id b \<noteq> passphrase_provider_id then Err PvUnsupportedProvider
      else
        res_bind (ok_or PvDecode (rt_b64url_decode X (pb_salt b))) (\<lambda>salt.
        res_bind (ok_or PvDecode (rt_b64url_decode X (pb_nonce b))) (\<lambda>nonce.
        res_bind (ok_or PvDecode (rt_b64url_decode X (pb_wrapped_root_key b))) (\<lambda>wrapped_root_key.
        res_bind (passphrase_derive X (pb_kdf_params b) passphrase salt) (\<lambda>wrapping_key.
        res_bind (provider_nonce nonce) (\<lambda>nonce12.
          root_key_of (rt_aes_gcm_decrypt X wrapping_key nonce12 wrapped_root_key
            (passphrase_aad X vault_id))))))))"

section \<open>Host bindings\<close>

definition system_fingerprint_provider_id :: string where
  "system_fingerprint_provider_id = ''system-fingerprint-scrypt-aesgcm''"

record fp_component =
  fc_name :: string
  fc_source :: string
  fc_sha256 :: string

record system_binding =
  sb_provider_id :: string
  sb_kdf :: string
  sb_kdf_params :: scrypt_params
  sb_salt :: string
  sb_nonce :: string
  sb_wrapped_root_key :: string
  sb_fingerprint_sha256 :: string
  sb_components :: "fp_component list"
  sb_assurance_level :: string
  sb_warning :: string

type_synonym host_files = "string \<Rightarrow> string option"

definition read_component :: "host_files \<Rightarrow> string \<Rightarrow> string option" where
  "read_component host path =
     (case host path of
        None \<Rightarrow> None
      | Some raw \<Rightarrow>
        let value = trim raw
        in if value = [] \<or> eq_ignore_ascii_case value ''none'' \<or>
              eq_ignore_ascii_case value ''unknown'' \<or> (\<forall>c \<in> set value. c \<in> {CHR ''0'', CHR ''-''})
           then None else Some value)"

definition fp_candidates :: "(string \<times> string) list" where
  "fp_candidates =
     [(''machine-id'', ''/etc/machine-id''),
      (''dbus-machine-id'', ''/var/lib/dbus/machine-id''),
      (''dmi-product-uuid'', ''/sys/class/dmi/id/product_uuid''),
      (''dmi-board-serial'', ''/sys/class/dmi/id/board_serial''),
      (''dmi-product-serial'', ''/sys/class/dmi/id/product_serial'')]"

text \<open>\<open>sort_by\<close> name then source (stable), and \<open>Vec::dedup_by\<close>: drop an element the same as the last kept.\<close>

definition sort_components :: "fp_component list \<Rightarrow> fp_component list" where
  "sort_components cs = sort_key (\<lambda>c. (fc_name c, fc_source c)) cs"

fun dedup_components :: "fp_component list \<Rightarrow> fp_component list" where
  "dedup_components (a # b # cs) =
     (if fc_name a = fc_name b \<and> fc_sha256 a = fc_sha256 b then dedup_components (a # cs)
      else a # dedup_components (b # cs))"
| "dedup_components cs = cs"

definition collect_components :: "'a rt_scheme \<Rightarrow> host_files \<Rightarrow> fp_component list option" where
  "collect_components X host =
     (let found = List.map_filter (\<lambda>(name, source).
            map_option (\<lambda>value. \<lparr>fc_name = name, fc_source = source,
                fc_sha256 = rt_b64url X (rt_sha256 X value)\<rparr>) (read_component host source))
            fp_candidates;
          components = dedup_components (sort_components found)
      in if components = [] then None else Some components)"

definition component_json :: "fp_component \<Rightarrow> json" where
  "component_json c =
     json_obj [(''name'', JStr (fc_name c)), (''source'', JStr (fc_source c)), (''sha256'', JStr (fc_sha256 c))]"

definition components_json :: "fp_component list \<Rightarrow> json" where
  "components_json cs =
     json_obj [(''provider_id'', JStr system_fingerprint_provider_id),
       (''components'', JArr (map component_json cs))]"

definition fingerprint_sha256 :: "'a rt_scheme \<Rightarrow> fp_component list \<Rightarrow> string" where
  "fingerprint_sha256 X cs =
     rt_b64url X (rt_sha256 X (expect_bytes (canonical_json_bytes X (components_json (sort_components cs)))))"

definition system_aad :: "'a rt_scheme \<Rightarrow> string \<Rightarrow> string \<Rightarrow> bytes" where
  "system_aad X vault_id fingerprint =
     expect_bytes (canonical_json_bytes X (json_obj
       [(''provider_id'', JStr system_fingerprint_provider_id),
        (''record_type'', JStr ''vault-root-wrap''),
        (''vault_id'', JStr vault_id),
        (''fingerprint_sha256'', JStr fingerprint)]))"

definition system_derive ::
    "'a rt_scheme \<Rightarrow> scrypt_params \<Rightarrow> fp_component list \<Rightarrow> bytes \<Rightarrow> provider_error + bytes" where
  "system_derive X params cs salt =
     res_bind (map_err (\<lambda>_. PvUnlockFailed) (canonical_json_bytes X (components_json cs)))
       (\<lambda>fingerprint. scrypt_derive X params fingerprint salt)"

definition system_wrap_root_key ::
    "'a rt_scheme \<Rightarrow> host_files \<Rightarrow> scrypt_params \<Rightarrow> bytes \<Rightarrow> bytes \<Rightarrow> string \<Rightarrow> bytes \<Rightarrow>
     provider_error + system_binding" where
  "system_wrap_root_key X host params salt nonce vault_id root_key =
     (if length root_key \<noteq> key_size then Err PvInvalidRootKeyLength
      else
        res_bind (ok_or PvNoUsableComponents (collect_components X host)) (\<lambda>cs.
        let fingerprint = fingerprint_sha256 X cs
        in res_bind (system_derive X params cs salt) (\<lambda>wrapping_key.
          Ok \<lparr>sb_provider_id = system_fingerprint_provider_id, sb_kdf = ''scrypt'',
              sb_kdf_params = params, sb_salt = rt_b64url X salt, sb_nonce = rt_b64url X nonce,
              sb_wrapped_root_key = rt_b64url X (rt_aes_gcm_encrypt X wrapping_key nonce root_key
                 (system_aad X vault_id fingerprint)),
              sb_fingerprint_sha256 = fingerprint, sb_components = cs,
              sb_assurance_level = ''A1'',
              sb_warning = ''System fingerprint provider binds the vault to local machine identifiers but is not hardware-backed and may break after motherboard, OS identity, or VM image changes.''\<rparr>)))"

definition system_unwrap_root_key ::
    "'a rt_scheme \<Rightarrow> host_files \<Rightarrow> string \<Rightarrow> system_binding \<Rightarrow> provider_error + bytes" where
  "system_unwrap_root_key X host vault_id b =
     (if sb_provider_id b \<noteq> system_fingerprint_provider_id then Err PvUnsupportedProvider
      else
        res_bind (ok_or PvNoUsableComponents (collect_components X host)) (\<lambda>cs.
        if fingerprint_sha256 X cs \<noteq> sb_fingerprint_sha256 b then Err PvFingerprintMismatch
        else
        res_bind (ok_or PvDecode (rt_b64url_decode X (sb_salt b))) (\<lambda>salt.
        res_bind (ok_or PvDecode (rt_b64url_decode X (sb_nonce b))) (\<lambda>nonce.
        res_bind (ok_or PvDecode (rt_b64url_decode X (sb_wrapped_root_key b))) (\<lambda>wrapped_root_key.
        res_bind (system_derive X (sb_kdf_params b) cs salt) (\<lambda>wrapping_key.
        res_bind (provider_nonce nonce) (\<lambda>nonce12.
          root_key_of (rt_aes_gcm_decrypt X wrapping_key nonce12 wrapped_root_key
            (system_aad X vault_id (sb_fingerprint_sha256 b))))))))))"

definition component_of_json :: "json \<Rightarrow> fp_component option" where
  "component_of_json v =
     (case struct_fields [''name'', ''source'', ''sha256''] v of
        Some [a, b, c] \<Rightarrow>
          Option.bind (as_str a) (\<lambda>name. Option.bind (as_str b) (\<lambda>source. Option.bind (as_str c) (\<lambda>sha.
            Some \<lparr>fc_name = name, fc_source = source, fc_sha256 = sha\<rparr>)))
      | _ \<Rightarrow> None)"

definition system_binding_fields :: "system_binding \<Rightarrow> (string \<times> json) list" where
  "system_binding_fields b =
     [(''provider_id'', JStr (sb_provider_id b)),
      (''kdf'', JStr (sb_kdf b)),
      (''kdf_params'', scrypt_json (sb_kdf_params b)),
      (''salt'', JStr (sb_salt b)),
      (''nonce'', JStr (sb_nonce b)),
      (''wrapped_root_key'', JStr (sb_wrapped_root_key b)),
      (''fingerprint_sha256'', JStr (sb_fingerprint_sha256 b)),
      (''components'', JArr (map component_json (sb_components b))),
      (''assurance_level'', JStr (sb_assurance_level b)),
      (''warning'', JStr (sb_warning b))]"

definition system_binding_json :: "system_binding \<Rightarrow> json" where
  "system_binding_json b = json_obj (system_binding_fields b)"

definition system_binding_of_json :: "json \<Rightarrow> system_binding option" where
  "system_binding_of_json v =
     (case struct_fields [''provider_id'', ''kdf'', ''kdf_params'', ''salt'', ''nonce'',
         ''wrapped_root_key'', ''fingerprint_sha256'', ''components'', ''assurance_level'', ''warning''] v of
        Some [a, b, c, d, e, f, fp, cs, g, h] \<Rightarrow>
          Option.bind (as_str a) (\<lambda>pid. Option.bind (as_str b) (\<lambda>kdf.
          Option.bind (scrypt_of_json c) (\<lambda>params. Option.bind (as_str d) (\<lambda>salt.
          Option.bind (as_str e) (\<lambda>nonce. Option.bind (as_str f) (\<lambda>wrapped.
          Option.bind (as_str fp) (\<lambda>fingerprint.
          Option.bind (Option.bind (as_array cs) (\<lambda>vs. those (map component_of_json vs))) (\<lambda>components.
          Option.bind (as_str g) (\<lambda>level. Option.bind (as_str h) (\<lambda>warn.
            Some \<lparr>sb_provider_id = pid, sb_kdf = kdf, sb_kdf_params = params, sb_salt = salt,
                  sb_nonce = nonce, sb_wrapped_root_key = wrapped,
                  sb_fingerprint_sha256 = fingerprint, sb_components = components,
                  sb_assurance_level = level, sb_warning = warn\<rparr>))))))))))
      | _ \<Rightarrow> None)"

section \<open>Recovery packages\<close>

record recovery_package =
  rp_format_version :: u64
  rp_recovery_id :: string
  rp_vault_id :: string
  rp_created_at :: string
  rp_root_binding :: json
  rp_warning :: string

definition recovery_warning :: string where
  "recovery_warning = ''Recovery package can rewrap the vault root key. Protect it separately.''"

definition create_package ::
    "'a rt_scheme \<Rightarrow> string \<Rightarrow> time \<Rightarrow> bytes \<Rightarrow> bytes \<Rightarrow> string \<Rightarrow> bytes \<Rightarrow> string \<Rightarrow>
     provider_error + recovery_package" where
  "create_package X recovery_id clock salt nonce vault_id root_key recovery_secret =
     res_bind (wrap_root_key X default_scrypt salt nonce vault_id root_key recovery_secret) (\<lambda>b.
     let binding = (case binding_json b of
            JObj m \<Rightarrow> JObj (tbl_put ''recovery_id'' (JStr recovery_id) m)
          | v \<Rightarrow> v)
     in Ok \<lparr>rp_format_version = 1, rp_recovery_id = recovery_id, rp_vault_id = vault_id,
            rp_created_at = rt_utc_millis X clock, rp_root_binding = binding,
            rp_warning = recovery_warning\<rparr>)"

text \<open>\<open>Inl None\<close> is the failure to read the binding as a passphrase binding.\<close>

definition package_unwrap_root_key ::
    "'a rt_scheme \<Rightarrow> recovery_package \<Rightarrow> string \<Rightarrow> provider_error option + bytes" where
  "package_unwrap_root_key X package recovery_secret =
     res_bind (ok_or None (binding_of_json (rp_root_binding package))) (\<lambda>b.
       map_err Some (unwrap_root_key X (rp_vault_id package) b recovery_secret))"

section \<open>Wrapping round trips\<close>

lemma as_word_json_word [simp]: "as_word (json_word w) = Some w"
  unfolding json_word_def by (rule as_word_uint)

lemma scrypt_of_json_json [simp]: "scrypt_of_json (scrypt_json p) = Some p"
  using struct_fields_obj [of "[(''n'', json_word (sp_n p)), (''r'', json_word (sp_r p)), (''p'', json_word (sp_p p))]"]
  by (simp add: scrypt_of_json_def scrypt_json_def)

lemma binding_of_json_json [simp]: "binding_of_json (binding_json b) = Some b"
  using struct_fields_obj [of "binding_fields b"]
  by (simp add: binding_of_json_def binding_json_def binding_fields_def)

lemma component_of_json_json [simp]: "component_of_json (component_json c) = Some c"
  using struct_fields_obj [of "[(''name'', JStr (fc_name c)), (''source'', JStr (fc_source c)), (''sha256'', JStr (fc_sha256 c))]"]
  by (simp add: component_of_json_def component_json_def)

lemma those_components [simp]: "those (map (component_of_json \<circ> component_json) cs) = Some cs"
  using those_map_Some [of cs "component_of_json \<circ> component_json" "\<lambda>c. c"] by simp

lemma system_binding_of_json_json [simp]: "system_binding_of_json (system_binding_json b) = Some b"
  using struct_fields_obj [of "system_binding_fields b"]
  by (simp add: system_binding_of_json_def system_binding_json_def system_binding_fields_def)

text \<open>An added field is ignored when the binding is read.\<close>

lemma binding_of_json_extra:
  "binding_json b = JObj m \<Longrightarrow> binding_of_json (JObj (tbl_put ''recovery_id'' v m)) = Some b"
proof -
  assume m: "binding_json b = JObj m"
  have "struct_fields names (JObj (tbl_put ''recovery_id'' v m)) = struct_fields names (JObj m)"
    if "''recovery_id'' \<notin> set names" for names
  proof -
    have "map (\<lambda>n. tbl_get n (tbl_put ''recovery_id'' v m)) names = map (\<lambda>n. tbl_get n m) names"
      using that by (auto simp: tbl_simps)
    then show ?thesis by (simp only: struct_fields_def json.case)
  qed
  then have "binding_of_json (JObj (tbl_put ''recovery_id'' v m)) = binding_of_json (JObj m)"
    by (simp add: binding_of_json_def)
  with m show ?thesis by (metis binding_of_json_json)
qed

lemma unwrap_wrap:
  assumes "aead_ok X" "codec_ok X" "length nonce = 12"
    and "wrap_root_key X params salt nonce vault_id root_key passphrase = Ok b"
  shows "unwrap_root_key X vault_id b passphrase = Ok root_key"
proof -
  from assms(4) obtain k where "passphrase_derive X params passphrase salt = Ok k" "length root_key = key_size"
    by (auto simp: wrap_root_key_def res_bind_Ok_iff split: if_splits)
  with assms show ?thesis
    by (auto simp: wrap_root_key_def unwrap_root_key_def codec_ok_def aead_ok_def
        provider_nonce_def root_key_of_def)
qed

lemma system_unwrap_wrap:
  assumes "aead_ok X" "codec_ok X" "length nonce = 12"
    and "system_wrap_root_key X host params salt nonce vault_id root_key = Ok b"
  shows "system_unwrap_root_key X host vault_id b = Ok root_key"
proof -
  from assms(4) obtain cs k where "collect_components X host = Some cs"
    "system_derive X params cs salt = Ok k" "length root_key = key_size"
    by (auto simp: system_wrap_root_key_def res_bind_Ok_iff ok_or_Ok_iff Let_def split: if_splits)
  with assms show ?thesis
    by (auto simp: system_wrap_root_key_def system_unwrap_root_key_def codec_ok_def aead_ok_def
        provider_nonce_def root_key_of_def Let_def)
qed

lemma package_unwrap_create:
  assumes "aead_ok X" "codec_ok X" "length nonce = 12"
    and "create_package X rid clock salt nonce vault_id root_key secret = Ok p"
  shows "package_unwrap_root_key X p secret = Ok root_key"
proof -
  from assms(4) obtain b where b: "wrap_root_key X default_scrypt salt nonce vault_id root_key secret = Ok b"
    and p: "rp_vault_id p = vault_id" "rp_root_binding p = (case binding_json b of
      JObj m \<Rightarrow> JObj (tbl_put ''recovery_id'' (JStr rid) m) | v \<Rightarrow> v)"
    by (auto simp: create_package_def res_bind_Ok_iff Let_def)
  obtain m where m: "binding_json b = JObj m"
    by (simp add: binding_json_def json_obj_def)
  with unwrap_wrap [OF assms(1-3) b] p binding_of_json_extra [OF m] show ?thesis
    by (simp add: package_unwrap_root_key_def)
qed

text \<open>A wrapped key is wrapped with a non-empty passphrase.\<close>

lemma wrap_needs_passphrase: "\<not> is_ok (wrap_root_key X params salt nonce vault_id root_key [])"
  by (simp add: wrap_root_key_def passphrase_derive_def)

lemma ilog2_power: "ilog2 (2 ^ k) = k"
  by (induction k) (simp_all add: ilog2.simps)

lemma default_scrypt_derive:
  "scrypt_derive X default_scrypt input salt = ok_or PvInvalidKdfParameters (rt_scrypt X 14 8 1 input salt)"
proof -
  have "unat (sp_n default_scrypt) = 2 ^ 14" by (simp add: default_scrypt_def)
  then have "ilog2 (unat (sp_n default_scrypt)) = 14" by (simp only: ilog2_power)
  then show ?thesis by (simp add: scrypt_derive_def default_scrypt_def)
qed

end
