(* ===== verification/Hbse_Mfa.thy ===== *)
theory Hbse_Mfa
  imports Hbse_Provider
begin

text \<open>
  Time-based one-time passwords, components/HBSE/hbse/src/mfa.rs: the code of a time step,
  the drift window of the check, the base32 text of a seed and the enrollment URI.

  Base32 keeps its 32-bit buffers as words, so that bits shifted out are lost as in the
  source. \<open>b32_round_trip\<close> rests on the relation \<open>b32_rel\<close> between the bits the encoder
  still holds and those the decoder holds: together they are nothing, or one byte.
\<close>

unbundle bit_operations_syntax

definition totp_secret_ref :: string where
  "totp_secret_ref = ''secret://hbse/internal/mfa/totp''"

definition default_totp_period_seconds :: nat where "default_totp_period_seconds = 30"
definition default_totp_digits :: nat where "default_totp_digits = 6"

datatype mfa_error = InvalidSeed | InvalidCode | UnsupportedAlgorithm string

record totp_config =
  tc_issuer :: string
  tc_account :: string
  tc_algorithm :: string
  tc_digits :: nat
  tc_period_seconds :: nat
  tc_secret_base32 :: string

section \<open>Base32\<close>

definition b32_alphabet :: string where
  "b32_alphabet = ''ABCDEFGHIJKLMNOPQRSTUVWXYZ234567''"

definition b32_symbol :: "u32 \<Rightarrow> char" where
  "b32_symbol index = b32_alphabet ! unat index"

text \<open>The inner loop: one symbol for each five bits held.\<close>

fun b32_emit :: "u32 \<Rightarrow> nat \<Rightarrow> string \<Rightarrow> nat \<times> string" where
  "b32_emit buffer bits output =
     (if 5 \<le> bits
      then b32_emit buffer (bits - 5)
             (output @ [b32_symbol (drop_bit (bits - 5) buffer AND 0x1f)])
      else (bits, output))"

declare b32_emit.simps [simp del]

fun b32_encode_loop :: "bytes \<Rightarrow> u32 \<Rightarrow> nat \<Rightarrow> string \<Rightarrow> u32 \<times> nat \<times> string" where
  "b32_encode_loop [] buffer bits output = (buffer, bits, output)"
| "b32_encode_loop (byte # value) buffer bits output =
     (let buffer' = push_bit 8 buffer OR of_char byte;
          (bits', output') = b32_emit buffer' (bits + 8) output
      in b32_encode_loop value buffer' bits' output')"

definition base32_encode_no_padding :: "bytes \<Rightarrow> string" where
  "base32_encode_no_padding value =
     (case b32_encode_loop value 0 0 [] of (buffer, bits, output) \<Rightarrow>
        if bits > 0 then output @ [b32_symbol (push_bit (5 - bits) buffer AND 0x1f)]
        else output)"

definition b32_index :: "char \<Rightarrow> mfa_error + u32" where
  "b32_index ch =
     (let up = (of_char (ascii_up ch) :: nat)
      in if 65 \<le> up \<and> up \<le> 90 then Ok (of_nat (up - 65))
         else if 50 \<le> up \<and> up \<le> 55 then Ok (of_nat ((of_char ch :: nat) - 50 + 26))
         else Err InvalidSeed)"

text \<open>One turn of the decoder's loop, on the value of a symbol.\<close>

definition b32_take :: "u32 \<Rightarrow> u32 \<times> nat \<times> bytes \<Rightarrow> u32 \<times> nat \<times> bytes" where
  "b32_take index st =
     (case st of (buffer, bits, output) \<Rightarrow>
        let buffer' = push_bit 5 buffer OR index; bits' = bits + 5
        in if 8 \<le> bits'
           then (buffer', bits' - 8, output @ [char_of (unat (drop_bit (bits' - 8) buffer' AND 0xff))])
           else (buffer', bits', output))"

fun b32_decode_loop :: "string \<Rightarrow> u32 \<times> nat \<times> bytes \<Rightarrow> mfa_error + u32 \<times> nat \<times> bytes" where
  "b32_decode_loop [] st = Ok st"
| "b32_decode_loop (ch # cs) st =
     res_bind (b32_index ch) (\<lambda>index. b32_decode_loop cs (b32_take index st))"

text \<open>\<open>chars().filter(|ch| !ch.is_whitespace())\<close>\<close>

function strip_ws :: "string \<Rightarrow> string" where
  "strip_ws s =
     (case skip_front s of
        Some r \<Rightarrow> strip_ws r
      | None \<Rightarrow> (case s of [] \<Rightarrow> [] | c # cs \<Rightarrow> c # strip_ws cs))"
  by pat_completeness auto
termination by (relation "measure length") (auto dest: skip_front_shorter)

declare strip_ws.simps [simp del]

definition base32_decode_no_padding :: "string \<Rightarrow> mfa_error + bytes" where
  "base32_decode_no_padding value =
     res_bind (b32_decode_loop (filter (\<lambda>c. c \<noteq> CHR ''='') (strip_ws value)) (0, 0, []))
       (\<lambda>(buffer, bits, output). if output = [] then Err InvalidSeed else Ok output)"

section \<open>Codes\<close>

text \<open>\<open>u64::to_be_bytes\<close>\<close>

definition be64 :: "nat \<Rightarrow> bytes" where
  "be64 n = map (\<lambda>i. char_of (n div 256 ^ i)) [7, 6, 5, 4, 3, 2, 1, 0]"

definition totp_binary :: "bytes \<Rightarrow> u32" where
  "totp_binary digest =
     (let offset = unat (of_char (digest ! 19) AND 0x0f :: u32)
      in push_bit 24 (of_char (digest ! offset) AND 0x7f) OR
         push_bit 16 (of_char (digest ! (offset + 1))) OR
         push_bit 8 (of_char (digest ! (offset + 2))) OR
         of_char (digest ! (offset + 3)))"

definition totp_at_step :: "'a rt_scheme \<Rightarrow> bytes \<Rightarrow> nat \<Rightarrow> nat \<Rightarrow> mfa_error + string" where
  "totp_at_step X secret step digits =
     (let binary = totp_binary (rt_hmac_sha1 X secret (be64 step))
      in if 10 ^ digits \<ge> (2 :: nat) ^ 32 then Err InvalidCode
         else Ok (zero_pad digits (show_nat (unat binary mod 10 ^ digits))))"

definition normalize_code :: "string \<Rightarrow> mfa_error + string" where
  "normalize_code code =
     (let normalized = strip_ws code
      in if normalized = [] \<or> \<not> (\<forall>c \<in> set normalized. is_ascii_digit c) then Err InvalidCode
         else Ok normalized)"

text \<open>The loop over the offsets \<open>-drift ..= drift\<close>.\<close>

fun totp_window ::
    "'a rt_scheme \<Rightarrow> bytes \<Rightarrow> nat \<Rightarrow> string \<Rightarrow> int \<Rightarrow> int list \<Rightarrow> mfa_error + bool" where
  "totp_window X secret digits code step [] = Ok False"
| "totp_window X secret digits code step (offset # offsets) =
     (let candidate_step = step + offset
      in if candidate_step < 0 then totp_window X secret digits code step offsets
         else
           res_bind (totp_at_step X secret (nat candidate_step) digits) (\<lambda>candidate.
             if candidate = code then Ok True
             else totp_window X secret digits code step offsets))"

definition verify_totp_code ::
    "'a rt_scheme \<Rightarrow> totp_config \<Rightarrow> string \<Rightarrow> nat \<Rightarrow> int \<Rightarrow> mfa_error + bool" where
  "verify_totp_code X config code unix_time_seconds allowed_drift_steps =
     (if \<not> eq_ignore_ascii_case (tc_algorithm config) ''SHA1''
      then Err (UnsupportedAlgorithm (tc_algorithm config))
      else
        res_bind (normalize_code code) (\<lambda>code'.
        res_bind (base32_decode_no_padding (tc_secret_base32 config)) (\<lambda>secret.
        let period = max (tc_period_seconds config) 1;
            step = int (unix_time_seconds div period)
        in totp_window X secret (tc_digits config) code' step
             [- allowed_drift_steps..allowed_drift_steps])))"

section \<open>Enrollment\<close>

definition new_totp_config :: "bytes \<Rightarrow> string \<Rightarrow> string \<Rightarrow> totp_config" where
  "new_totp_config seed issuer account =
     \<lparr>tc_issuer = issuer, tc_account = account, tc_algorithm = ''SHA1'',
      tc_digits = default_totp_digits, tc_period_seconds = default_totp_period_seconds,
      tc_secret_base32 = base32_encode_no_padding seed\<rparr>"

definition percent_encode :: "string \<Rightarrow> string" where
  "percent_encode value =
     concat (map (\<lambda>byte.
       if is_ascii_alnum byte \<or> byte \<in> {CHR ''-'', CHR ''_'', CHR ''.'', CHR ''~''} then [byte]
       else CHR ''%'' # [hex_digit_upper ((of_char byte :: nat) div 16),
                       hex_digit_upper ((of_char byte :: nat) mod 16)]) value)"

definition otpauth_uri :: "totp_config \<Rightarrow> string" where
  "otpauth_uri c =
     ''otpauth://totp/'' @ percent_encode (tc_issuer c) @ '':'' @ percent_encode (tc_account c) @
     ''?secret='' @ tc_secret_base32 c @ ''&issuer='' @ percent_encode (tc_issuer c) @
     ''&algorithm='' @ tc_algorithm c @ ''&digits='' @ show_nat (tc_digits c) @
     ''&period='' @ show_nat (tc_period_seconds c)"

definition totp_fields :: "totp_config \<Rightarrow> (string \<times> json) list" where
  "totp_fields c =
     [(''issuer'', JStr (tc_issuer c)), (''account'', JStr (tc_account c)),
      (''algorithm'', JStr (tc_algorithm c)), (''digits'', JInt (int (tc_digits c))),
      (''period_seconds'', JInt (int (tc_period_seconds c))),
      (''secret_base32'', JStr (tc_secret_base32 c))]"

fun as_nat_below :: "nat \<Rightarrow> json \<Rightarrow> nat option" where
  "as_nat_below limit (JInt i) = (if 0 \<le> i \<and> i < int limit then Some (nat i) else None)"
| "as_nat_below limit _ = None"

definition totp_of_json :: "json \<Rightarrow> totp_config option" where
  "totp_of_json v =
     (case struct_fields [''issuer'', ''account'', ''algorithm'', ''digits'', ''period_seconds'',
         ''secret_base32''] v of
        Some [a, b, c, d, e, f] \<Rightarrow>
          Option.bind (as_str a) (\<lambda>issuer. Option.bind (as_str b) (\<lambda>account.
          Option.bind (as_str c) (\<lambda>algorithm. Option.bind (as_nat_below (2 ^ 32) d) (\<lambda>digits.
          Option.bind (as_nat_below (2 ^ 64) e) (\<lambda>period. Option.bind (as_str f) (\<lambda>secret.
            Some \<lparr>tc_issuer = issuer, tc_account = account, tc_algorithm = algorithm,
                  tc_digits = digits, tc_period_seconds = period, tc_secret_base32 = secret\<rparr>))))))
      | _ \<Rightarrow> None)"

section \<open>Base32 round trip\<close>

lemma b32_emit_0: "bits < 5 \<Longrightarrow> b32_emit buffer bits out = (bits, out)"
  by (simp add: b32_emit.simps)

lemma b32_emit_1: "5 \<le> bits \<Longrightarrow> bits < 10 \<Longrightarrow> b32_emit buffer bits out =
     (bits - 5, out @ [b32_symbol (drop_bit (bits - 5) buffer AND 0x1f)])"
  by (subst b32_emit.simps) (simp add: b32_emit_0)

lemma b32_emit_2: "10 \<le> bits \<Longrightarrow> bits < 15 \<Longrightarrow> b32_emit buffer bits out =
     (bits - 10, out @ [b32_symbol (drop_bit (bits - 5) buffer AND 0x1f),
                        b32_symbol (drop_bit (bits - 10) buffer AND 0x1f)])"
  by (subst b32_emit.simps) (simp add: b32_emit_1)

lemma b32_symbol_index_nat: "n < 32 \<Longrightarrow> b32_index (b32_alphabet ! n) = Ok (of_nat n)"
proof -
  assume "n < 32"
  then have "n \<in> set [0..<32]" by simp
  moreover have "\<forall>n \<in> set [0..<32]. b32_index (b32_alphabet ! n) = Ok (of_nat n)"
    by (simp add: upt_conv_Cons b32_alphabet_def b32_index_def ascii_up_def Let_def)
  ultimately show ?thesis by blast
qed

lemma and_1f_less: "unat (w AND 0x1f :: u32) < 32"
proof -
  have "w AND 0x1f = w AND mask 5" by (simp add: mask_eq_exp_minus_1)
  then have "unat (w AND 0x1f) = take_bit 5 (unat w)"
    by (simp add: take_bit_eq_mask [symmetric] unsigned_take_bit_eq)
  then show ?thesis by (simp add: take_bit_eq_mod)
qed

lemma b32_symbol_index: "b32_index (b32_symbol (w AND 0x1f)) = Ok (w AND 0x1f)"
  using b32_symbol_index_nat [OF and_1f_less, of w] by (simp add: b32_symbol_def)

lemma b32_decode_append:
  "b32_decode_loop (s @ t) st = res_bind (b32_decode_loop s st) (b32_decode_loop t)"
proof (induction s arbitrary: st)
  case (Cons c s)
  show ?case by (cases "b32_index c") (simp_all add: Cons)
qed simp

text \<open>The byte whose high bits the decoder holds and whose \<open>en\<close> low bits the encoder holds.\<close>

definition held_byte :: "u32 \<Rightarrow> nat \<Rightarrow> u32 \<Rightarrow> char" where
  "held_byte eb en db = char_of (unat (push_bit en db OR take_bit en eb))"

definition b32_rel :: "bytes \<Rightarrow> u32 \<times> nat \<Rightarrow> u32 \<times> nat \<times> bytes \<Rightarrow> bool" where
  "b32_rel xs e d \<longleftrightarrow>
     (case (e, d) of ((eb, en), (db, dn, out)) \<Rightarrow>
        (en = 0 \<and> dn = 0 \<and> out = xs) \<or>
        (en \<in> {1, 2, 3, 4} \<and> dn = 8 - en \<and> xs = out @ [held_byte eb en db]))"

lemma char_of_unat:
  "char_of (unat (w :: u32)) =
     Char (bit w 0) (bit w 1) (bit w 2) (bit w 3) (bit w 4) (bit w 5) (bit w 6) (bit w 7)"
  by (simp add: char_of_def bit_unsigned_iff)

lemma char_as_word:
  obtains w :: u32 where "of_char c = w" "c = char_of (unat w)" "\<And>n. 8 \<le> n \<Longrightarrow> \<not> bit w n"
proof
  show "c = char_of (unat (of_char c :: u32))"
  proof -
    have "(of_char c :: u32) = of_nat (of_char c)" by (simp add: of_nat_of_char)
    then have "unat (of_char c :: u32) = of_char c"
      using less_trans [OF nat_of_char_less_256 [of c], of "2 ^ 32"] by (simp add: unat_of_nat)
    then show ?thesis by simp
  qed
  show "8 \<le> n \<Longrightarrow> \<not> bit (of_char c :: u32) n" for n
    by (cases c) (simp add: bit_horner_sum_bit_iff del: horner_sum_simps)
qed simp

lemma held_byte_bits:
  "held_byte eb en db =
     (let b = \<lambda>i. if i < en then bit eb i else bit db (i - en)
      in Char (b 0) (b 1) (b 2) (b 3) (b 4) (b 5) (b 6) (b 7))"
  by (auto simp: held_byte_def char_of_unat bit_simps not_less simp del: bit_0)

lemma bit_times_2_u32: "bit (x * 2 :: u32) n \<longleftrightarrow> n \<noteq> 0 \<and> n < 32 \<and> bit x (n - 1)"
  by (auto simp: mult.commute [of x] bit_double_iff)

lemmas b32_bits = bit_times_2_u32 char_of_unat bit_simps held_byte_bits Let_def

lemma b32_step:
  fixes byte :: char
  assumes "b32_rel xs (eb, en) (db, dn, out)"
  defines "eb' \<equiv> push_bit 8 eb OR of_char byte"
  shows "\<exists>en' syms d'. b32_emit eb' (en + 8) o0 = (en', o0 @ syms) \<and>
           b32_decode_loop syms (db, dn, out) = Ok d' \<and> b32_rel (xs @ [byte]) (eb', en') d'"
proof -
  obtain w :: u32 where w: "of_char byte = w" and byte: "byte = char_of (unat w)"
    and high: "\<And>n. 8 \<le> n \<Longrightarrow> \<not> bit w n"
    by (rule char_as_word [of byte]) blast
  consider (0) "en = 0" "dn = 0" "out = xs" | (1) "en = 1" "dn = 7" | (2) "en = 2" "dn = 6"
    | (3) "en = 3" "dn = 5" | (4) "en = 4" "dn = 4"
    using assms(1) by (auto simp: b32_rel_def)
  then show ?thesis
  proof cases
    case 0
    then show ?thesis unfolding eb'_def w unfolding byte
      by (simp add: b32_emit_1 b32_symbol_index b32_take_def b32_rel_def b32_bits high del: bit_0; simp add: numeral_eq_Suc)
  next
    case 1
    with assms(1) have "xs = out @ [held_byte eb 1 db]" by (auto simp: b32_rel_def)
    with 1 show ?thesis unfolding eb'_def w unfolding byte
      by (simp add: b32_emit_1 b32_symbol_index b32_take_def b32_rel_def b32_bits high del: bit_0; simp add: numeral_eq_Suc)
  next
    case 2
    with assms(1) have "xs = out @ [held_byte eb 2 db]" by (auto simp: b32_rel_def)
    with 2 show ?thesis unfolding eb'_def w unfolding byte
      by (simp add: b32_emit_2 b32_symbol_index b32_take_def b32_rel_def b32_bits high del: bit_0; simp add: numeral_eq_Suc)
  next
    case 3
    with assms(1) have "xs = out @ [held_byte eb 3 db]" by (auto simp: b32_rel_def)
    with 3 show ?thesis unfolding eb'_def w unfolding byte
      by (simp add: b32_emit_2 b32_symbol_index b32_take_def b32_rel_def b32_bits high del: bit_0; simp add: numeral_eq_Suc)
  next
    case 4
    with assms(1) have "xs = out @ [held_byte eb 4 db]" by (auto simp: b32_rel_def)
    with 4 show ?thesis unfolding eb'_def w unfolding byte
      by (simp add: b32_emit_2 b32_symbol_index b32_take_def b32_rel_def b32_bits high del: bit_0; simp add: numeral_eq_Suc)
  qed
qed

lemma b32_encode_rel:
  assumes "b32_decode_loop o0 (0, 0, []) = Ok d" "b32_rel xs (eb, en) d"
    and "b32_encode_loop ys eb en o0 = (eb', en', o')"
  shows "\<exists>d'. b32_decode_loop o' (0, 0, []) = Ok d' \<and> b32_rel (xs @ ys) (eb', en') d'"
  using assms
proof (induction ys arbitrary: xs eb en o0 d)
  case (Cons byte ys)
  obtain db dn out where d: "d = (db, dn, out)" by (cases d)
  from b32_step [OF Cons.prems(2) [unfolded d], of byte o0] obtain en1 syms d1 where
    e: "b32_emit (push_bit 8 eb OR of_char byte) (en + 8) o0 = (en1, o0 @ syms)" and
    dec: "b32_decode_loop syms d = Ok d1" and
    rel: "b32_rel (xs @ [byte]) (push_bit 8 eb OR of_char byte, en1) d1"
    unfolding d by blast
  have "b32_decode_loop (o0 @ syms) (0, 0, []) = Ok d1"
    using Cons.prems(1) dec by (simp add: b32_decode_append)
  moreover have "b32_encode_loop ys (push_bit 8 eb OR of_char byte) en1 (o0 @ syms) = (eb', en', o')"
    using Cons.prems(3) e by (simp add: Let_def)
  ultimately show ?case using Cons.IH [OF _ rel] by auto
qed auto

lemma b32_flush:
  assumes "b32_rel xs (eb, en) (db, dn, out)" "0 < en"
  shows "\<exists>b n. b32_decode_loop [b32_symbol (push_bit (5 - en) eb AND 0x1f)] (db, dn, out) = Ok (b, n, xs)"
proof -
  consider (1) "en = 1" | (2) "en = 2" | (3) "en = 3" | (4) "en = 4"
    using assms by (auto simp: b32_rel_def)
  then show ?thesis
  proof cases
    case 1
    with assms(1) have "dn = 7" "xs = out @ [held_byte eb 1 db]" by (auto simp: b32_rel_def)
    with 1 show ?thesis by (simp add: b32_symbol_index b32_take_def b32_bits del: bit_0; simp add: numeral_eq_Suc)
  next
    case 2
    with assms(1) have "dn = 6" "xs = out @ [held_byte eb 2 db]" by (auto simp: b32_rel_def)
    with 2 show ?thesis by (simp add: b32_symbol_index b32_take_def b32_bits del: bit_0; simp add: numeral_eq_Suc)
  next
    case 3
    with assms(1) have "dn = 5" "xs = out @ [held_byte eb 3 db]" by (auto simp: b32_rel_def)
    with 3 show ?thesis by (simp add: b32_symbol_index b32_take_def b32_bits del: bit_0; simp add: numeral_eq_Suc)
  next
    case 4
    with assms(1) have "dn = 4" "xs = out @ [held_byte eb 4 db]" by (auto simp: b32_rel_def)
    with 4 show ?thesis by (simp add: b32_symbol_index b32_take_def b32_bits del: bit_0; simp add: numeral_eq_Suc)
  qed
qed

lemma white_space_heads: "w \<in> set white_space \<Longrightarrow> \<not> is_ascii_alnum (hd w)"
  by (auto simp: white_space_def is_ascii_alnum_def is_ascii_digit_def)

lemma skip_front_alnum: "is_ascii_alnum c \<Longrightarrow> skip_front (c # s) = None"
proof -
  assume "is_ascii_alnum c"
  have "\<not> starts_with w (c # s)" if w: "w \<in> set white_space" for w
  proof
    assume "starts_with w (c # s)"
    then have "hd w = c" using white_space_nonempty [OF w] by (auto simp: starts_with_iff Cons_eq_append_conv)
    with white_space_heads [OF w] \<open>is_ascii_alnum c\<close> show False by simp
  qed
  then show ?thesis by (auto simp: skip_front_def find_None_iff)
qed

lemma skip_front_Nil [simp]: "skip_front [] = None"
  by (auto simp: skip_front_def find_None_iff starts_with_def dest: white_space_nonempty)

lemma b32_plain:
  "(\<And>c. c \<in> set s \<Longrightarrow> is_ascii_alnum c) \<Longrightarrow> strip_ws s = s"
  by (induction s) (simp_all add: strip_ws.simps [of "[]"] strip_ws.simps [of "_ # _"] skip_front_alnum)

lemma alnum_not_pad: "is_ascii_alnum c \<Longrightarrow> c \<noteq> CHR ''=''"
  by (auto simp: is_ascii_alnum_def is_ascii_digit_def)

lemma b32_symbol_alnum: "is_ascii_alnum (b32_symbol (w AND 0x1f))"
proof -
  have "\<forall>c \<in> set b32_alphabet. is_ascii_alnum c"
    by (simp add: b32_alphabet_def is_ascii_alnum_def is_ascii_digit_def)
  moreover have "unat (w AND 0x1f :: u32) < length b32_alphabet"
    using and_1f_less [of w] by (simp add: b32_alphabet_def)
  ultimately show ?thesis unfolding b32_symbol_def by (metis nth_mem)
qed

lemma b32_emit_alnum:
  assumes "\<forall>c \<in> set out. is_ascii_alnum c"
  shows "\<forall>c \<in> set (snd (b32_emit buffer bits out)). is_ascii_alnum c"
  using assms
proof (induction buffer bits out rule: b32_emit.induct)
  case (1 buffer bits out)
  then show ?case
    by (cases "5 \<le> bits") (simp_all add: b32_emit.simps [of buffer bits] b32_symbol_alnum)
qed

lemma b32_encode_alnum:
  assumes "\<forall>c \<in> set out. is_ascii_alnum c"
  shows "\<forall>c \<in> set (snd (snd (b32_encode_loop ys eb en out))). is_ascii_alnum c"
  using assms
proof (induction ys arbitrary: eb en out)
  case (Cons byte ys)
  let ?e = "b32_emit (push_bit 8 eb OR of_char byte) (en + 8) out"
  have step: "b32_encode_loop (byte # ys) eb en out =
      b32_encode_loop ys (push_bit 8 eb OR of_char byte) (fst ?e) (snd ?e)"
    by (simp add: Let_def split_beta)
  show ?case unfolding step by (rule Cons.IH) (rule b32_emit_alnum [OF Cons.prems])
qed simp

lemma base32_alnum: "c \<in> set (base32_encode_no_padding value) \<Longrightarrow> is_ascii_alnum c"
proof -
  assume c: "c \<in> set (base32_encode_no_padding value)"
  obtain eb en out where e: "b32_encode_loop value 0 0 [] = (eb, en, out)" by (metis prod_cases3)
  have "\<forall>c \<in> set out. is_ascii_alnum c" using b32_encode_alnum [of "[]" "value" 0 0] e by simp
  with c e b32_symbol_alnum show ?thesis
    by (auto simp: base32_encode_no_padding_def split: if_splits)
qed

lemma b32_round_trip:
  assumes "value \<noteq> []"
  shows "base32_decode_no_padding (base32_encode_no_padding value) = Ok value"
proof -
  obtain eb en out where e: "b32_encode_loop value 0 0 [] = (eb, en, out)" by (metis prod_cases3)
  have "b32_decode_loop [] (0, 0, []) = Ok (0, 0, [])" "b32_rel [] (0, 0) (0, 0, [])"
    by (simp_all add: b32_rel_def)
  from b32_encode_rel [OF this e] obtain db dn o' where
    d: "b32_decode_loop out (0, 0, []) = Ok (db, dn, o')" and rel: "b32_rel value (eb, en) (db, dn, o')"
    by (metis append_Nil prod_cases3)
  have "\<exists>b n. b32_decode_loop (base32_encode_no_padding value) (0, 0, []) = Ok (b, n, value)"
  proof (cases "en = 0")
    case True
    with rel e d show ?thesis by (simp add: base32_encode_no_padding_def b32_rel_def)
  next
    case False
    with b32_flush [OF rel] e d show ?thesis
      by (simp add: base32_encode_no_padding_def b32_decode_append del: b32_decode_loop.simps)
  qed
  moreover have "filter (\<lambda>c. c \<noteq> CHR ''='') (strip_ws (base32_encode_no_padding value)) =
      base32_encode_no_padding value"
    using base32_alnum alnum_not_pad by (simp add: b32_plain filter_id_conv)
  ultimately show ?thesis using assms by (auto simp: base32_decode_no_padding_def)
qed

section \<open>Checking codes\<close>

text \<open>The code of a step is accepted by the check at any time within one step of it.\<close>

lemma totp_at_step_Ok: "digits < 10 \<Longrightarrow> \<exists>c. totp_at_step X secret step digits = Ok c"
proof -
  assume "digits < 10"
  then have "(10 :: nat) ^ digits \<le> 10 ^ 9" by (intro power_increasing) auto
  also have "\<dots> < 2 ^ 32" by simp
  finally show ?thesis by (simp add: totp_at_step_def Let_def)
qed

lemma totp_window_True:
  assumes "digits < 10"
  shows "totp_window X secret digits code step offsets = Ok True \<longleftrightarrow>
     (\<exists>offset \<in> set offsets. 0 \<le> step + offset \<and>
        totp_at_step X secret (nat (step + offset)) digits = Ok code)"
proof (induction offsets)
  case (Cons a offsets)
  obtain c where "totp_at_step X secret (nat (step + a)) digits = Ok c"
    using totp_at_step_Ok [OF assms] by blast
  with Cons show ?case by (auto simp: Let_def not_less)
qed simp

lemma totp_window_total:
  "digits < 10 \<Longrightarrow> is_ok (totp_window X secret digits code step offsets)"
proof (induction offsets)
  case (Cons a offsets)
  obtain c where "totp_at_step X secret (nat (step + a)) digits = Ok c"
    using totp_at_step_Ok [OF Cons.prems] by blast
  with Cons show ?case by (auto simp: Let_def)
qed simp

lemma totp_code_digits:
  "totp_at_step X secret step digits = Ok code \<Longrightarrow> c \<in> set code \<Longrightarrow> is_ascii_digit c"
  by (auto simp: totp_at_step_def Let_def split: if_splits dest: zero_pad_digits)

lemma show_nat_nonempty: "show_nat n \<noteq> []"
  by (simp add: show_nat.simps [of n])

lemma totp_code_nonempty: "totp_at_step X secret step digits = Ok code \<Longrightarrow> code \<noteq> []"
  by (auto simp: totp_at_step_def Let_def zero_pad_def show_nat_nonempty split: if_splits)

lemma normalize_totp_code: "totp_at_step X secret step digits = Ok code \<Longrightarrow> normalize_code code = Ok code"
  using totp_code_digits totp_code_nonempty
  by (fastforce simp: normalize_code_def b32_plain is_ascii_alnum_def)

lemma verify_totp_iff:
  assumes "seed \<noteq> []" and "normalize_code code = Ok code'"
  shows "verify_totp_code X (new_totp_config seed issuer account) code now 1 = Ok True \<longleftrightarrow>
     (\<exists>offset \<in> {-1, 0, 1}. 0 \<le> int (now div 30) + offset \<and>
        totp_at_step X seed (nat (int (now div 30) + offset)) 6 = Ok code')"
proof -
  have "set [-1..1 :: int] = {-1, 0, 1}" by auto
  then show ?thesis
    using assms
    by (simp add: verify_totp_code_def new_totp_config_def eq_ignore_ascii_case_def b32_round_trip
        default_totp_digits_def default_totp_period_seconds_def totp_window_True Let_def)
qed

lemma totp_of_json_fields:
  "tc_digits c < 2 ^ 32 \<Longrightarrow> tc_period_seconds c < 2 ^ 64 \<Longrightarrow>
   totp_of_json (json_obj (totp_fields c)) = Some c"
  using struct_fields_obj [of "totp_fields c"]
  by (simp add: totp_of_json_def totp_fields_def)

end
