(* ===== verification/Hbse_Store.thy ===== *)
theory Hbse_Store
  imports Hbse_Mfa
begin

text \<open>
  The vault database, components/HBSE/hbse/src/store.rs. A table with a text primary key is
  an ordered map from keys to the decoded row; the secret records, whose key is a reference
  and a version, are a map of maps; the audit log is a list in \<open>sequence\<close> order. The row
  \<open>vault_header\<close> of \<open>vault_metadata\<close> is the field \<open>vs_header\<close>, the other rows \<open>vs_metadata\<close>.

  Each method is a state-and-error computation of the same name. Rows hold what the program
  wrote, so decoding a row does not fail; failures of SQLite itself (I/O, locking) are not
  modelled, except the constraints that refuse a value: \<open>SqliteError\<close> is the UNIQUE
  constraint on \<open>event_id\<close> and the conversion of a \<open>u64\<close> of \<open>2^63\<close> or more. SQLite serializes
  writers, and one method is one transaction, so methods are atomic steps.
\<close>

record vault_header =
  vh_schema_version :: nat
  vh_vault_id :: string
  vh_namespace_id :: string
  vh_provider_binding :: json
  vh_created_at :: string

datatype store_error =
    VaultNotInitialized | VaultAlreadyInitialized | SecretNotFound string | TicketConflict string
  | SqliteError

record secret_summary =
  ss_secret_ref :: string
  ss_secret_id :: string
  ss_namespace_id :: string
  ss_latest_version :: nat
  ss_status :: string
  ss_secret_type :: string
  ss_created_at :: string

record vault_store =
  vs_header :: "vault_header option"
  vs_metadata :: "string table"
  vs_secrets :: "(nat \<times> secret_record) list table"
  vs_policies :: "access_policy table"
  vs_tickets :: "ticket table"
  vs_audit :: "audit_event list"
  vs_fingerprints :: "(nat \<times> string) list table"
  vs_jobs :: "rotation_job table"

definition empty_store :: vault_store where
  "empty_store = \<lparr>vs_header = None, vs_metadata = [], vs_secrets = [], vs_policies = [],
     vs_tickets = [], vs_audit = [], vs_fingerprints = [], vs_jobs = []\<rparr>"

type_synonym 'a store_op = "(vault_store, store_error, 'a) sx"

definition sql_u64 :: "nat \<Rightarrow> bool" where
  "sql_u64 n = (n < 2 ^ 63)"

section \<open>Reads and writes of single rows\<close>

definition read_ticket :: "vault_store \<Rightarrow> string \<Rightarrow> ticket option" where
  "read_ticket s k = tbl_get k (vs_tickets s)"

definition write_ticket :: "string \<Rightarrow> ticket \<Rightarrow> vault_store \<Rightarrow> vault_store" where
  "write_ticket k t s = s\<lparr>vs_tickets := tbl_put k t (vs_tickets s)\<rparr>"

definition read_job :: "vault_store \<Rightarrow> string \<Rightarrow> rotation_job option" where
  "read_job s k = tbl_get k (vs_jobs s)"

definition write_job :: "string \<Rightarrow> rotation_job \<Rightarrow> vault_store \<Rightarrow> vault_store" where
  "write_job k j s = s\<lparr>vs_jobs := tbl_put k j (vs_jobs s)\<rparr>"

definition read_policy :: "vault_store \<Rightarrow> string \<Rightarrow> access_policy option" where
  "read_policy s k = tbl_get k (vs_policies s)"

definition write_policy :: "string \<Rightarrow> access_policy \<Rightarrow> vault_store \<Rightarrow> vault_store" where
  "write_policy k p s = s\<lparr>vs_policies := tbl_put k p (vs_policies s)\<rparr>"

definition read_metadata :: "vault_store \<Rightarrow> string \<Rightarrow> string option" where
  "read_metadata s k = tbl_get k (vs_metadata s)"

definition write_metadata :: "string \<Rightarrow> string \<Rightarrow> vault_store \<Rightarrow> vault_store" where
  "write_metadata k v s = s\<lparr>vs_metadata := tbl_put k v (vs_metadata s)\<rparr>"

definition secret_versions :: "vault_store \<Rightarrow> string \<Rightarrow> (nat \<times> secret_record) list" where
  "secret_versions s ref = (case tbl_get ref (vs_secrets s) of None \<Rightarrow> [] | Some vs \<Rightarrow> vs)"

definition write_secret :: "string \<Rightarrow> nat \<Rightarrow> secret_record \<Rightarrow> vault_store \<Rightarrow> vault_store" where
  "write_secret ref ver r s =
     s\<lparr>vs_secrets := tbl_put ref (tbl_put ver r (secret_versions s ref)) (vs_secrets s)\<rparr>"

interpretation st_tickets: keyed_store read_ticket write_ticket
  by unfold_locales (simp add: read_ticket_def write_ticket_def tbl_simps)

interpretation st_jobs: keyed_store read_job write_job
  by unfold_locales (simp add: read_job_def write_job_def tbl_simps)

interpretation st_policies: keyed_store read_policy write_policy
  by unfold_locales (simp add: read_policy_def write_policy_def tbl_simps)

interpretation st_metadata: keyed_store read_metadata write_metadata
  by unfold_locales (simp add: read_metadata_def write_metadata_def tbl_simps)

section \<open>Header and metadata\<close>

definition create_vault :: "vault_header \<Rightarrow> unit store_op" where
  "create_vault header s =
     (if vs_header s \<noteq> None then (Err VaultAlreadyInitialized, s)
      else (Ok (), s\<lparr>vs_header := Some header\<rparr>))"

definition load_header :: "vault_header store_op" where
  "load_header s = (ok_or VaultNotInitialized (vs_header s), s)"

definition update_header :: "vault_header \<Rightarrow> unit store_op" where
  "update_header header s =
     (if vs_header s = None then (Err VaultNotInitialized, s)
      else (Ok (), s\<lparr>vs_header := Some header\<rparr>))"

definition get_metadata :: "string \<Rightarrow> string option store_op" where
  "get_metadata key s = (Ok (read_metadata s key), s)"

definition set_metadata :: "string \<Rightarrow> string \<Rightarrow> unit store_op" where
  "set_metadata key v s = (Ok (), write_metadata key v s)"

section \<open>Secrets\<close>

definition save_secret_record :: "secret_record \<Rightarrow> unit store_op" where
  "save_secret_record r s =
     (if vs_header s = None then (Err VaultNotInitialized, s)
      else if \<not> sql_u64 (sr_secret_version r) then (Err SqliteError, s)
      else (Ok (), write_secret (sr_secret_ref r) (sr_secret_version r) r s))"

text \<open>\<open>SELECT MAX(version)\<close>, and the row of the greatest version.\<close>

definition max_version :: "vault_store \<Rightarrow> string \<Rightarrow> nat option" where
  "max_version s ref =
     (case secret_versions s ref of [] \<Rightarrow> None | v # vs \<Rightarrow> Some (fst (last (v # vs))))"

definition latest_secret :: "vault_store \<Rightarrow> string \<Rightarrow> secret_record option" where
  "latest_secret s ref =
     (case secret_versions s ref of [] \<Rightarrow> None | v # vs \<Rightarrow> Some (snd (last (v # vs))))"

definition latest_version :: "string \<Rightarrow> nat option store_op" where
  "latest_version ref s = (Ok (max_version s ref), s)"

definition load_latest_secret :: "string \<Rightarrow> secret_record store_op" where
  "load_latest_secret ref s = (ok_or (SecretNotFound ref) (latest_secret s ref), s)"

definition load_secret_version :: "string \<Rightarrow> nat \<Rightarrow> secret_record store_op" where
  "load_secret_version ref ver s =
     (if \<not> sql_u64 ver then (Err SqliteError, s)
      else (ok_or (SecretNotFound ref) (tbl_get ver (secret_versions s ref)), s))"

definition save_updated_secret_status :: "string \<Rightarrow> secret_status \<Rightarrow> secret_record store_op" where
  "save_updated_secret_status ref status =
     sx_bind (load_latest_secret ref) (\<lambda>r.
     let r' = r\<lparr>sr_status := status\<rparr>
     in sx_bind (save_secret_record r') (\<lambda>_. sx_return r'))"

definition list_secrets :: "secret_summary list store_op" where
  "list_secrets s =
     (Ok (List.map_filter (\<lambda>(ref, vs).
        case vs of [] \<Rightarrow> None
        | v # vs' \<Rightarrow>
          let (ver, r) = last (v # vs')
          in Some \<lparr>ss_secret_ref = ref, ss_secret_id = sr_secret_id r,
                ss_namespace_id = sr_namespace_id r, ss_latest_version = ver,
                ss_status = status_string (sr_status r),
                ss_secret_type = secret_type_string (sr_secret_type r),
                ss_created_at = sr_created_at r\<rparr>) (vs_secrets s)), s)"

section \<open>Audit log\<close>

definition insert_audit_event :: "audit_event \<Rightarrow> unit store_op" where
  "insert_audit_event e s =
     (if ae_event_id e \<in> ae_event_id ` set (vs_audit s) then (Err SqliteError, s)
      else (Ok (), s\<lparr>vs_audit := vs_audit s @ [e]\<rparr>))"

definition append_audit_event :: "(audit_event list \<Rightarrow> audit_event) \<Rightarrow> audit_event store_op" where
  "append_audit_event build =
     sx_bind (sx_read (\<lambda>s. Ok (vs_audit s))) (\<lambda>events.
     let event = build events
     in sx_bind (insert_audit_event event) (\<lambda>_. sx_return event))"

definition list_audit_events :: "audit_event list store_op" where
  "list_audit_events s = (Ok (vs_audit s), s)"

section \<open>Policies, tickets, rotation jobs, fingerprints\<close>

definition save_policy_row :: "access_policy \<Rightarrow> unit store_op" where
  "save_policy_row p s = (Ok (), write_policy (ap_policy_id p) p s)"

definition list_policies :: "access_policy list store_op" where
  "list_policies s = (Ok (map snd (vs_policies s)), s)"

definition save_ticket :: "ticket \<Rightarrow> unit store_op" where
  "save_ticket t s = (Ok (), write_ticket (tk_ticket_id t) t s)"

text \<open>
  The conditional update compares the stored text with that of the expected ticket; the
  text determines the ticket, so the comparison is of the tickets.
\<close>

definition save_ticket_if_current :: "ticket \<Rightarrow> ticket \<Rightarrow> unit store_op" where
  "save_ticket_if_current expected updated s =
     (if read_ticket s (tk_ticket_id expected) = Some expected
      then (Ok (), write_ticket (tk_ticket_id expected) updated s)
      else (Err (TicketConflict (tk_ticket_id expected)), s))"

definition load_ticket :: "string \<Rightarrow> ticket option store_op" where
  "load_ticket ticket_id s = (Ok (read_ticket s ticket_id), s)"

definition list_tickets :: "ticket list store_op" where
  "list_tickets s = (Ok (map snd (vs_tickets s)), s)"

definition save_rotation_job :: "rotation_job \<Rightarrow> unit store_op" where
  "save_rotation_job j s = (Ok (), write_job (rj_job_id j) j s)"

definition load_rotation_job :: "string \<Rightarrow> rotation_job option store_op" where
  "load_rotation_job job_id s = (Ok (read_job s job_id), s)"

definition list_rotation_jobs :: "rotation_job list store_op" where
  "list_rotation_jobs s = (Ok (map snd (vs_jobs s)), s)"

definition ref_fingerprints :: "vault_store \<Rightarrow> string \<Rightarrow> (nat \<times> string) list" where
  "ref_fingerprints s ref = (case tbl_get ref (vs_fingerprints s) of None \<Rightarrow> [] | Some fs \<Rightarrow> fs)"

definition save_redaction_fingerprint :: "string \<Rightarrow> nat \<Rightarrow> string \<Rightarrow> unit store_op" where
  "save_redaction_fingerprint ref ver fingerprint s =
     (if \<not> sql_u64 ver then (Err SqliteError, s)
      else (Ok (), s\<lparr>vs_fingerprints :=
              tbl_put ref (tbl_put ver fingerprint (ref_fingerprints s ref)) (vs_fingerprints s)\<rparr>))"

definition list_redaction_fingerprints :: "string list store_op" where
  "list_redaction_fingerprints s = (Ok (concat (map (\<lambda>(ref, fs). map snd fs) (vs_fingerprints s))), s)"

definition count_redaction_fingerprints :: "nat store_op" where
  "count_redaction_fingerprints s = (Ok (sum_list (map (\<lambda>(ref, fs). length fs) (vs_fingerprints s))), s)"

named_theorems store_defs \<open>the methods of the store\<close>

declare create_vault_def [store_defs] load_header_def [store_defs] update_header_def [store_defs]
  get_metadata_def [store_defs] set_metadata_def [store_defs] save_secret_record_def [store_defs]
  latest_version_def [store_defs] load_latest_secret_def [store_defs]
  load_secret_version_def [store_defs] save_updated_secret_status_def [store_defs]
  list_secrets_def [store_defs] insert_audit_event_def [store_defs]
  append_audit_event_def [store_defs] list_audit_events_def [store_defs]
  save_policy_row_def [store_defs] list_policies_def [store_defs] save_ticket_def [store_defs]
  save_ticket_if_current_def [store_defs] load_ticket_def [store_defs] list_tickets_def [store_defs]
  save_rotation_job_def [store_defs] load_rotation_job_def [store_defs]
  list_rotation_jobs_def [store_defs] save_redaction_fingerprint_def [store_defs]
  list_redaction_fingerprints_def [store_defs] count_redaction_fingerprints_def [store_defs]

section \<open>The versions of a secret\<close>

definition versions_ok :: "vault_store \<Rightarrow> bool" where
  "versions_ok s \<longleftrightarrow> (\<forall>ref. tbl_ok (secret_versions s ref))"

lemma secret_versions_write:
  "secret_versions (write_secret ref ver r s) ref' =
     (if ref' = ref then tbl_put ver r (secret_versions s ref) else secret_versions s ref')"
  by (simp add: secret_versions_def write_secret_def tbl_simps)

lemma versions_ok_write [intro]: "versions_ok s \<Longrightarrow> versions_ok (write_secret ref ver r s)"
  by (auto simp: versions_ok_def secret_versions_write)

lemma last_tbl_max: "tbl_ok t \<Longrightarrow> t \<noteq> [] \<Longrightarrow> (k, v) \<in> set t \<Longrightarrow> k \<le> fst (last t)"
proof (induction t)
  case (Cons e t)
  then show ?case by (cases e; cases "t = []") (auto simp: tbl_ok_Cons intro: less_imp_le)
qed simp

lemma max_version_latest: "max_version s ref = None \<longleftrightarrow> latest_secret s ref = None"
  by (auto simp: max_version_def latest_secret_def split: list.splits)

lemma latest_is_version:
  assumes "versions_ok s" "latest_secret s ref = Some r" "max_version s ref = Some ver"
  shows "tbl_get ver (secret_versions s ref) = Some r"
proof -
  from assms have "secret_versions s ref \<noteq> []" "(ver, r) = last (secret_versions s ref)"
    by (auto simp: max_version_def latest_secret_def split: list.splits)
  then have "(ver, r) \<in> set (secret_versions s ref)" by (metis last_in_set)
  with assms(1) show ?thesis by (simp add: versions_ok_def tbl_set_get)
qed

lemma max_version_ge:
  "versions_ok s \<Longrightarrow> tbl_get ver (secret_versions s ref) = Some r \<Longrightarrow>
   \<exists>m. max_version s ref = Some m \<and> ver \<le> m"
  using last_tbl_max [of "secret_versions s ref" ver r] tbl_get_set [of ver "secret_versions s ref" r]
  by (auto simp: max_version_def versions_ok_def split: list.splits)

text \<open>Writing a version not below the others makes it the latest.\<close>

lemma last_tbl_put_end:
  "tbl_ok t \<Longrightarrow> (\<forall>k \<in> fst ` set t. k \<le> a) \<Longrightarrow> last (tbl_put a b t) = (a, b) \<and> tbl_put a b t \<noteq> []"
proof (induction a b t rule: tbl_put.induct)
  case (2 k v a b t)
  then show ?case by (cases t) (auto simp: tbl_ok_Cons dest: leD)
qed simp

lemma latest_after_write:
  assumes "versions_ok s" "\<forall>m. max_version s ref = Some m \<longrightarrow> m \<le> ver"
  shows "latest_secret (write_secret ref ver r s) ref = Some r"
    and "max_version (write_secret ref ver r s) ref = Some ver"
proof -
  have "\<forall>k \<in> fst ` set (secret_versions s ref). k \<le> ver"
  proof
    fix k assume "k \<in> fst ` set (secret_versions s ref)"
    then obtain v where "tbl_get k (secret_versions s ref) = Some v"
      using tbl_keys_get [of k "secret_versions s ref"] by auto
    from max_version_ge [OF assms(1) this] assms(2) show "k \<le> ver" by auto
  qed
  with assms(1) have last: "last (tbl_put ver r (secret_versions s ref)) = (ver, r)"
    "tbl_put ver r (secret_versions s ref) \<noteq> []"
    using last_tbl_put_end [of "secret_versions s ref" ver r] by (auto simp: versions_ok_def)
  from last show "latest_secret (write_secret ref ver r s) ref = Some r"
    by (auto simp: latest_secret_def secret_versions_write split: list.split)
  from last show "max_version (write_secret ref ver r s) ref = Some ver"
    by (auto simp: max_version_def secret_versions_write split: list.split)
qed

text \<open>The versions are those of the table of secrets.\<close>

lemma secrets_cong:
  "vs_secrets s = vs_secrets t \<Longrightarrow>
   secret_versions s = secret_versions t \<and> latest_secret s = latest_secret t \<and> max_version s = max_version t"
  by (simp add: fun_eq_iff secret_versions_def latest_secret_def max_version_def)

lemma latest_write_other: "ref' \<noteq> ref \<Longrightarrow> latest_secret (write_secret ref ver r s) ref' = latest_secret s ref'"
  by (simp add: latest_secret_def secret_versions_write)

end
