(* ===== verification/Hbse_Vault.thy ===== *)
theory Hbse_Vault
  imports Hbse_Store
begin

text \<open>
  The local vault, components/HBSE/hbse/src/vault.rs: one state-and-error computation per
  method of \<open>LocalVault\<close>, over the store of \<open>Hbse_Store\<close>. A method that writes and then
  fails keeps its writes.

  \<open>draws\<close> holds the clock readings, UUIDs and random bytes one call consumes. The TPM
  providers run external tools; with the files of the host they are the record \<open>host\<close>.
  A call that panics (the expiry of a ticket out of range) ends in \<open>Panicked\<close> with the
  state reached.
\<close>

datatype vault_error =
    StoreE store_error | ProviderE provider_error | TpmE string | CryptoE crypto_error
  | KeysE key_error | MfaE mfa_error | AuditE audit_error | TicketE ticket_error | JsonE
  | PassphraseRequired | UnsupportedProvider string | InvalidSecretRef | SecretUnavailable string
  | TicketNotFound | PolicyDenied string | RotationJobNotFound | InvalidRotationState string
  | NewPassphraseRequired | RecoveryPackageVaultMismatch | MfaNotEnrolled | MfaInvalidCode
  | PlaintextExportDisabled | PlaintextExportMfaEnrollmentRequired | PlaintextExportMfaRequired
  | TicketPolicyChanged | TicketSecretVersionStale | Panicked

record draws =
  dr_clock :: time
  dr_job_clock :: time
  dr_audit_clock :: time
  dr_uuid :: string
  dr_audit_uuid :: string
  dr_root_key :: bytes
  dr_salt :: bytes
  dr_wrap_nonce :: bytes
  dr_dek :: bytes
  dr_secret_nonce :: bytes
  dr_dek_nonce :: bytes
  dr_seed :: bytes

record host =
  ho_files :: host_files
  ho_tpm_wrap :: "string \<Rightarrow> string \<Rightarrow> string \<Rightarrow> bytes \<Rightarrow> string + json"
  ho_tpm_unwrap :: "string \<Rightarrow> string \<Rightarrow> json \<Rightarrow> string + bytes"

type_synonym 'a vault_op = "(vault_store, vault_error, 'a) sx"

definition default_policy_id :: string where "default_policy_id = ''default-deny''"
definition default_policy_hash :: string where "default_policy_hash = ''mvp-default-deny-policy''"
definition default_provider_policy_hash :: string where
  "default_provider_policy_hash = ''unbound-provider-policy''"
definition plaintext_export_config_key :: string where
  "plaintext_export_config_key = ''config.plaintext_export''"
definition tpm2_provider_id :: string where "tpm2_provider_id = ''linux-tpm2-tools-seal''"
definition tpm2_esapi_provider_id :: string where "tpm2_esapi_provider_id = ''linux-tpm2-esapi-seal''"

text \<open>A store method called with \<open>?\<close>.\<close>

definition st :: "'a store_op \<Rightarrow> 'a vault_op" where
  "st m s = (case m s of (r, t) \<Rightarrow> (map_err StoreE r, t))"

declare st_def [sx_simps]

lemma st_Ok: "st m s = (Inr x, t) \<longleftrightarrow> m s = (Inr x, t)"
  by (auto simp: st_def map_err_Ok_iff split: prod.split)

lemma sx_keeps_st: "sx_keeps P m Q \<Longrightarrow> sx_keeps P (st m) Q"
  by (auto simp: sx_keeps_def st_def map_err_def split: prod.split sum.splits)

text \<open>\<open>map_from_json(json!({...}))\<close>\<close>

definition meta :: "(string \<times> json) list \<Rightarrow> json table" where
  "meta es = fold (\<lambda>e. tbl_put (fst e) (snd e)) es []"

definition redaction_fingerprint :: "'a rt_scheme \<Rightarrow> bytes \<Rightarrow> bytes \<Rightarrow> string" where
  "redaction_fingerprint X fingerprint_key secret =
     rt_b64url X (take 18 (rt_hmac_sha256 X fingerprint_key secret))"

definition secret_id_from_ref :: "'a rt_scheme \<Rightarrow> string \<Rightarrow> vault_error + string" where
  "secret_id_from_ref X secret_ref =
     (if \<not> starts_with ''secret://'' secret_ref then Err InvalidSecretRef
      else Ok (rt_b64url X (take 18 (rt_sha256 X secret_ref))))"

definition json_str_of :: "string \<Rightarrow> json \<Rightarrow> string option" where
  "json_str_of key v = Option.bind (json_get key v) as_str"

section \<open>Unlocking and the audit log\<close>

definition unwrap_binding ::
    "'a rt_scheme \<Rightarrow> host \<Rightarrow> vault_header \<Rightarrow> string option \<Rightarrow> vault_error + bytes" where
  "unwrap_binding X H header passphrase =
     (let binding = vh_provider_binding header;
          provider_id = (case json_str_of ''provider_id'' binding of None \<Rightarrow> [] | Some p \<Rightarrow> p);
          device = (case json_str_of ''device_path'' binding of None \<Rightarrow> ''/dev/tpmrm0'' | Some d \<Rightarrow> d)
      in if provider_id = tpm2_provider_id \<or> provider_id = tpm2_esapi_provider_id
         then map_err TpmE (ho_tpm_unwrap H provider_id device binding)
         else if provider_id = passphrase_provider_id
         then
           res_bind (ok_or PassphraseRequired passphrase) (\<lambda>pass.
           res_bind (ok_or JsonE (binding_of_json binding)) (\<lambda>b.
             map_err ProviderE (unwrap_root_key X (vh_vault_id header) b pass)))
         else if provider_id = system_fingerprint_provider_id
         then
           res_bind (ok_or JsonE (system_binding_of_json binding)) (\<lambda>b.
             map_err ProviderE (system_unwrap_root_key X (ho_files H) (vh_vault_id header) b))
         else Err (UnsupportedProvider provider_id))"

definition unlock ::
    "'a rt_scheme \<Rightarrow> host \<Rightarrow> string option \<Rightarrow> (vault_header \<times> key_hierarchy) vault_op" where
  "unlock X H passphrase =
     sx_bind (st load_header) (\<lambda>header.
     sx_bind (sx_lift (unwrap_binding X H header passphrase)) (\<lambda>root_key.
     sx_bind (sx_lift (map_err KeysE (key_hierarchy_new (vh_vault_id header) root_key))) (\<lambda>keys.
       sx_return (header, keys))))"

definition append_audit ::
    "'a rt_scheme \<Rightarrow> draws \<Rightarrow> vault_header \<Rightarrow> key_hierarchy \<Rightarrow> string \<Rightarrow> string \<Rightarrow> string \<Rightarrow>
     (string \<times> json) list \<Rightarrow> audit_event vault_op" where
  "append_audit X D header keys event_type severity decision metadata =
     st (append_audit_event (\<lambda>events.
       audit_append X (audit_integrity_key X keys) events (dr_audit_uuid D) (dr_audit_clock D)
         (vh_vault_id header) (vh_namespace_id header) event_type severity decision (meta metadata)))"

section \<open>Creating and rewrapping a vault\<close>

text \<open>
  \<open>init_passphrase\<close>, \<open>init_tpm2\<close>, \<open>init_tpm2_esapi\<close> and \<open>init_system_fingerprint\<close> differ in the
  wrapping alone.
\<close>

definition finish_init ::
    "'a rt_scheme \<Rightarrow> draws \<Rightarrow> string \<Rightarrow> vault_error + json \<Rightarrow> vault_header vault_op" where
  "finish_init X D namespace_id wrapped =
     sx_bind (sx_lift wrapped) (\<lambda>binding.
     let header = \<lparr>vh_schema_version = 1, vh_vault_id = dr_uuid D, vh_namespace_id = namespace_id,
            vh_provider_binding = binding, vh_created_at = rt_utc_millis X (dr_clock D)\<rparr>
     in sx_bind (st (create_vault header)) (\<lambda>_.
        sx_bind (sx_lift (map_err KeysE (key_hierarchy_new (dr_uuid D) (dr_root_key D)))) (\<lambda>keys.
        sx_bind (append_audit X D header keys ''vault.initialized'' ''info'' ''allow''
          [(''provider_id'', json_opt JStr (json_str_of ''provider_id'' binding)),
           (''assurance_level'', json_opt JStr (json_str_of ''assurance_level'' binding))])
          (\<lambda>_. sx_return header))))"

definition init_passphrase ::
    "'a rt_scheme \<Rightarrow> draws \<Rightarrow> string \<Rightarrow> string \<Rightarrow> vault_header vault_op" where
  "init_passphrase X D passphrase namespace_id =
     finish_init X D namespace_id
       (map_err ProviderE (res_bind (wrap_root_key X default_scrypt (dr_salt D) (dr_wrap_nonce D)
          (dr_uuid D) (dr_root_key D) passphrase) (\<lambda>b. Ok (binding_json b))))"

definition init_tpm ::
    "'a rt_scheme \<Rightarrow> host \<Rightarrow> draws \<Rightarrow> string \<Rightarrow> string \<Rightarrow> string \<Rightarrow> vault_header vault_op" where
  "init_tpm X H D tpm_provider_id namespace_id device_path =
     finish_init X D namespace_id
       (map_err TpmE (ho_tpm_wrap H tpm_provider_id device_path (dr_uuid D) (dr_root_key D)))"

definition init_system_fingerprint ::
    "'a rt_scheme \<Rightarrow> host \<Rightarrow> draws \<Rightarrow> string \<Rightarrow> vault_header vault_op" where
  "init_system_fingerprint X H D namespace_id =
     finish_init X D namespace_id
       (map_err ProviderE (res_bind (system_wrap_root_key X (ho_files H) default_scrypt (dr_salt D)
          (dr_wrap_nonce D) (dr_uuid D) (dr_root_key D)) (\<lambda>b. Ok (system_binding_json b))))"

text \<open>The \<open>match new_provider\<close> of \<open>rewrap_provider\<close> and \<open>recover_provider_from_package\<close>.\<close>

definition wrap_for ::
    "'a rt_scheme \<Rightarrow> host \<Rightarrow> draws \<Rightarrow> string \<Rightarrow> bytes \<Rightarrow> string \<Rightarrow> string option \<Rightarrow> string \<Rightarrow>
     vault_error + json" where
  "wrap_for X H D vault_id root_key new_provider new_passphrase tpm_device =
     (if new_provider = ''passphrase'' then
        res_bind (ok_or NewPassphraseRequired new_passphrase) (\<lambda>pass.
          map_err ProviderE (res_bind (wrap_root_key X default_scrypt (dr_salt D) (dr_wrap_nonce D)
            vault_id root_key pass) (\<lambda>b. Ok (binding_json b))))
      else if new_provider = ''tpm2'' then
        map_err TpmE (ho_tpm_wrap H tpm2_provider_id tpm_device vault_id root_key)
      else if new_provider = ''tpm2-direct'' \<or> new_provider = ''tpm2-esapi'' then
        map_err TpmE (ho_tpm_wrap H tpm2_esapi_provider_id tpm_device vault_id root_key)
      else if new_provider = ''system-fingerprint'' then
        map_err ProviderE (res_bind (system_wrap_root_key X (ho_files H) default_scrypt (dr_salt D)
          (dr_wrap_nonce D) vault_id root_key) (\<lambda>b. Ok (system_binding_json b)))
      else Err (UnsupportedProvider new_provider))"

definition rewrap_provider ::
    "'a rt_scheme \<Rightarrow> host \<Rightarrow> draws \<Rightarrow> string option \<Rightarrow> string \<Rightarrow> string option \<Rightarrow> string \<Rightarrow>
     vault_header vault_op" where
  "rewrap_provider X H D current_passphrase new_provider new_passphrase tpm_device =
     sx_bind (unlock X H current_passphrase) (\<lambda>(header, keys).
     sx_bind (sx_lift (wrap_for X H D (vh_vault_id header) (kh_root_key keys) new_provider
         new_passphrase tpm_device)) (\<lambda>binding.
     let updated = header\<lparr>vh_provider_binding := binding\<rparr>
     in sx_bind (st (update_header updated)) (\<lambda>_.
        sx_bind (append_audit X D updated keys ''provider.rewrapped'' ''high'' ''allow''
          [(''old_provider_id'', json_opt JStr (json_str_of ''provider_id'' (vh_provider_binding header))),
           (''new_provider_id'', json_opt JStr (json_str_of ''provider_id'' binding)),
           (''assurance_level'', json_opt JStr (json_str_of ''assurance_level'' binding))])
          (\<lambda>_. sx_return updated))))"

definition create_recovery_package ::
    "'a rt_scheme \<Rightarrow> host \<Rightarrow> draws \<Rightarrow> string option \<Rightarrow> string \<Rightarrow> recovery_package vault_op" where
  "create_recovery_package X H D passphrase recovery_secret =
     sx_bind (unlock X H passphrase) (\<lambda>(header, keys).
     sx_bind (sx_lift (map_err ProviderE (create_package X (dr_uuid D) (dr_clock D) (dr_salt D)
         (dr_wrap_nonce D) (vh_vault_id header) (kh_root_key keys) recovery_secret))) (\<lambda>package.
     sx_bind (append_audit X D header keys ''recovery.package_created'' ''critical'' ''allow''
         [(''recovery_id'', JStr (rp_recovery_id package))])
       (\<lambda>_. sx_return package)))"

definition recover_provider_from_package ::
    "'a rt_scheme \<Rightarrow> host \<Rightarrow> draws \<Rightarrow> recovery_package \<Rightarrow> string \<Rightarrow> string \<Rightarrow> string option \<Rightarrow> string \<Rightarrow>
     vault_header vault_op" where
  "recover_provider_from_package X H D package recovery_secret new_provider new_passphrase tpm_device =
     sx_bind (st load_header) (\<lambda>header.
     sx_bind (sx_require (rp_vault_id package = vh_vault_id header) RecoveryPackageVaultMismatch) (\<lambda>_.
     sx_bind (sx_lift (map_err (\<lambda>e. case e of None \<Rightarrow> JsonE | Some p \<Rightarrow> ProviderE p)
         (package_unwrap_root_key X package recovery_secret))) (\<lambda>root_key.
     sx_bind (sx_lift (map_err KeysE (key_hierarchy_new (vh_vault_id header) root_key))) (\<lambda>keys.
     sx_bind (sx_lift (wrap_for X H D (vh_vault_id header) root_key new_provider
         new_passphrase tpm_device)) (\<lambda>binding.
     let updated = header\<lparr>vh_provider_binding := binding\<rparr>
     in sx_bind (st (update_header updated)) (\<lambda>_.
        sx_bind (append_audit X D updated keys ''recovery.used'' ''critical'' ''allow''
          [(''recovery_id'', JStr (rp_recovery_id package)),
           (''new_provider_id'', json_opt JStr (json_str_of ''provider_id'' binding))])
          (\<lambda>_. sx_return updated)))))))"

end
