(* ===== verification/Hbse_Secrets.thy ===== *)
theory Hbse_Secrets
  imports Hbse_Vault
begin

text \<open>
  The secret, one-time-password and rotation methods of \<open>LocalVault\<close>,
  components/HBSE/hbse/src/vault.rs.
\<close>

section \<open>Secrets\<close>

text \<open>
  The record a new version is stored as: \<open>put_secret\<close>, \<open>enroll_totp_mfa\<close> and
  \<open>start_rotation\<close> make the same call of \<open>encrypt_secret\<close>.
\<close>

definition seal_version ::
    "'a rt_scheme \<Rightarrow> draws \<Rightarrow> vault_header \<Rightarrow> key_hierarchy \<Rightarrow> string \<Rightarrow> nat \<Rightarrow> bytes \<Rightarrow> secret_type \<Rightarrow>
     vault_error + secret_record" where
  "seal_version X D header keys secret_ref version plaintext secret_type =
     res_bind (secret_id_from_ref X secret_ref) (\<lambda>secret_id.
       Ok (encrypt_secret X (dr_clock D) (dr_dek D) (dr_secret_nonce D) (dr_dek_nonce D) keys
         (vh_namespace_id header) secret_id secret_ref version plaintext secret_type
         default_policy_id default_policy_hash (hash_bytes X secret_ref)
         default_provider_policy_hash))"

definition next_version :: "nat option \<Rightarrow> nat" where
  "next_version latest = (case latest of None \<Rightarrow> 0 | Some v \<Rightarrow> v) + 1"

definition put_secret ::
    "'a rt_scheme \<Rightarrow> host \<Rightarrow> draws \<Rightarrow> string \<Rightarrow> bytes \<Rightarrow> string \<Rightarrow> secret_type \<Rightarrow> nat vault_op" where
  "put_secret X H D secret_ref plaintext passphrase secret_type =
     sx_bind (unlock X H (Some passphrase)) (\<lambda>(header, keys).
     sx_bind (st (latest_version secret_ref)) (\<lambda>latest.
     let version = next_version latest
     in sx_bind (sx_lift (seal_version X D header keys secret_ref version plaintext secret_type)) (\<lambda>r.
        sx_bind (st (save_secret_record r)) (\<lambda>_.
        let fingerprint = redaction_fingerprint X (redaction_fingerprint_key X keys) plaintext
        in sx_bind (st (save_redaction_fingerprint secret_ref version fingerprint)) (\<lambda>_.
           sx_bind (append_audit X D header keys ''secret.stored'' ''info'' ''allow''
             [(''secret_ref'', JStr secret_ref), (''secret_version'', JInt (int version))])
             (\<lambda>_. sx_return version))))))"

definition get_secret ::
    "'a rt_scheme \<Rightarrow> host \<Rightarrow> draws \<Rightarrow> string \<Rightarrow> string \<Rightarrow> bytes vault_op" where
  "get_secret X H D secret_ref passphrase =
     sx_bind (unlock X H (Some passphrase)) (\<lambda>(header, keys).
     sx_bind (st (load_latest_secret secret_ref)) (\<lambda>r.
     if sr_status r \<noteq> Active
     then
       sx_bind (append_audit X D header keys ''secret.access_denied'' ''high'' ''deny''
         [(''secret_ref'', JStr secret_ref), (''secret_version'', JInt (int (sr_secret_version r))),
          (''reason'', JStr (''secret status is '' @ status_string (sr_status r)))])
         (\<lambda>_. sx_raise (SecretUnavailable (status_string (sr_status r))))
     else
       sx_bind (sx_lift (map_err CryptoE (decrypt_secret X keys r))) (\<lambda>plaintext.
       sx_bind (append_audit X D header keys ''secret.materialized'' ''critical'' ''allow''
         [(''secret_ref'', JStr secret_ref), (''secret_version'', JInt (int (sr_secret_version r)))])
         (\<lambda>_. sx_return plaintext))))"

definition disable_secret ::
    "'a rt_scheme \<Rightarrow> host \<Rightarrow> draws \<Rightarrow> string \<Rightarrow> string \<Rightarrow> secret_record vault_op" where
  "disable_secret X H D secret_ref passphrase =
     sx_bind (unlock X H (Some passphrase)) (\<lambda>(header, keys).
     sx_bind (st (save_updated_secret_status secret_ref Disabled)) (\<lambda>r.
     sx_bind (append_audit X D header keys ''secret.disabled'' ''high'' ''allow''
       [(''secret_ref'', JStr secret_ref), (''secret_version'', JInt (int (sr_secret_version r)))])
       (\<lambda>_. sx_return r)))"

definition destroy_secret ::
    "'a rt_scheme \<Rightarrow> host \<Rightarrow> draws \<Rightarrow> string \<Rightarrow> string \<Rightarrow> secret_record vault_op" where
  "destroy_secret X H D secret_ref passphrase =
     sx_bind (unlock X H (Some passphrase)) (\<lambda>(header, keys).
     sx_bind (st (save_updated_secret_status secret_ref Destroyed)) (\<lambda>r.
     sx_bind (append_audit X D header keys ''secret.destroyed'' ''critical'' ''allow''
       [(''secret_ref'', JStr secret_ref), (''secret_version'', JInt (int (sr_secret_version r)))])
       (\<lambda>_. sx_return r)))"

definition verify_audit :: "'a rt_scheme \<Rightarrow> host \<Rightarrow> string \<Rightarrow> unit vault_op" where
  "verify_audit X H passphrase =
     sx_bind (unlock X H (Some passphrase)) (\<lambda>(header, keys).
     sx_bind (st list_audit_events) (\<lambda>events.
       sx_lift (map_err AuditE (verify_audit_chain X events (audit_integrity_key X keys)))))"

section \<open>One-time passwords and plaintext export\<close>

definition enroll_totp_mfa ::
    "'a rt_scheme \<Rightarrow> host \<Rightarrow> draws \<Rightarrow> string \<Rightarrow> string \<Rightarrow> string \<Rightarrow> (totp_config \<times> string) vault_op" where
  "enroll_totp_mfa X H D passphrase issuer account =
     sx_bind (unlock X H (Some passphrase)) (\<lambda>(header, keys).
     let config = new_totp_config (dr_seed D) issuer account
     in sx_bind (st (latest_version totp_secret_ref)) (\<lambda>latest.
        let version = next_version latest;
            plaintext = rt_struct_text X (totp_fields config)
        in sx_bind (sx_lift (seal_version X D header keys totp_secret_ref version plaintext Token)) (\<lambda>r.
           sx_bind (st (save_secret_record r)) (\<lambda>_.
           sx_bind (append_audit X D header keys ''mfa.totp_enrolled'' ''high'' ''allow''
             [(''issuer'', JStr issuer), (''account'', JStr account),
              (''digits'', JInt (int (tc_digits config))),
              (''period_seconds'', JInt (int (tc_period_seconds config)))])
             (\<lambda>_. sx_return (config, otpauth_uri config))))))"

definition totp_mfa_enrolled :: "bool vault_op" where
  "totp_mfa_enrolled s =
     (case load_latest_secret totp_secret_ref s of
        (Inr r, t) \<Rightarrow> (Ok (sr_status r = Active), t)
      | (Inl (SecretNotFound _), t) \<Rightarrow> (Ok False, t)
      | (Inl e, t) \<Rightarrow> (Err (StoreE e), t))"

definition verify_totp_mfa ::
    "'a rt_scheme \<Rightarrow> host \<Rightarrow> draws \<Rightarrow> string \<Rightarrow> string \<Rightarrow> unit vault_op" where
  "verify_totp_mfa X H D passphrase code =
     sx_bind (unlock X H (Some passphrase)) (\<lambda>(header, keys).
     sx_bind (\<lambda>s. case load_latest_secret totp_secret_ref s of
         (Inr r, t) \<Rightarrow> (Ok r, t)
       | (Inl (SecretNotFound _), t) \<Rightarrow> (Err MfaNotEnrolled, t)
       | (Inl e, t) \<Rightarrow> (Err (StoreE e), t)) (\<lambda>r.
     sx_bind (sx_require (sr_status r = Active) MfaNotEnrolled) (\<lambda>_.
     sx_bind (sx_lift (map_err CryptoE (decrypt_secret X keys r))) (\<lambda>plaintext.
     sx_bind (sx_lift (ok_or JsonE (Option.bind (rt_json_parse X plaintext) totp_of_json))) (\<lambda>config.
     let now = nat (max (dr_clock D div 1000000000) 0)
     in sx_bind (sx_lift (map_err MfaE (verify_totp_code X config code now 1))) (\<lambda>accepted.
        if accepted
        then
          sx_bind (append_audit X D header keys ''mfa.totp_verified'' ''info'' ''allow''
            [(''issuer'', JStr (tc_issuer config)), (''account'', JStr (tc_account config))])
            (\<lambda>_. sx_return ())
        else
          sx_bind (append_audit X D header keys ''mfa.totp_denied'' ''high'' ''deny''
            [(''issuer'', JStr (tc_issuer config)), (''account'', JStr (tc_account config)),
             (''reason'', JStr ''invalid code'')])
            (\<lambda>_. sx_raise MfaInvalidCode)))))))"

definition plaintext_export_enabled :: "bool vault_op" where
  "plaintext_export_enabled =
     sx_bind (st (get_metadata plaintext_export_config_key)) (\<lambda>v. sx_return (v = Some ''enabled''))"

definition set_plaintext_export_enabled ::
    "'a rt_scheme \<Rightarrow> host \<Rightarrow> draws \<Rightarrow> string \<Rightarrow> bool \<Rightarrow> bool \<Rightarrow> unit vault_op" where
  "set_plaintext_export_enabled X H D passphrase enabled allow_without_mfa =
     sx_bind (unlock X H (Some passphrase)) (\<lambda>(header, keys).
     sx_bind (if enabled \<and> \<not> allow_without_mfa
              then sx_bind totp_mfa_enrolled (\<lambda>enrolled.
                     sx_require enrolled PlaintextExportMfaEnrollmentRequired)
              else sx_return ()) (\<lambda>_.
     sx_bind (st (set_metadata plaintext_export_config_key
        (if enabled then ''enabled'' else ''disabled''))) (\<lambda>_.
     sx_bind (append_audit X D header keys
        (if enabled then ''config.plaintext_export_enabled'' else ''config.plaintext_export_disabled'')
        ''critical'' ''allow''
        [(''plaintext_export_enabled'', JBool enabled), (''allow_without_mfa'', JBool allow_without_mfa)])
        (\<lambda>_. sx_return ()))))"

definition enforce_plaintext_export_allowed :: "bool \<Rightarrow> unit vault_op" where
  "enforce_plaintext_export_allowed mfa_verified =
     sx_bind plaintext_export_enabled (\<lambda>enabled.
     sx_bind (sx_require enabled PlaintextExportDisabled) (\<lambda>_.
     sx_bind totp_mfa_enrolled (\<lambda>enrolled.
       sx_require (\<not> (enrolled \<and> \<not> mfa_verified)) PlaintextExportMfaRequired)))"

section \<open>Rotation\<close>

definition start_rotation ::
    "'a rt_scheme \<Rightarrow> host \<Rightarrow> draws \<Rightarrow> string \<Rightarrow> bytes \<Rightarrow> string \<Rightarrow> secret_type \<Rightarrow> rotation_job vault_op" where
  "start_rotation X H D secret_ref new_plaintext passphrase secret_type =
     sx_bind (unlock X H (Some passphrase)) (\<lambda>(header, keys).
     sx_bind (st (latest_version secret_ref)) (\<lambda>latest.
     let staged_version = next_version latest
     in sx_bind (sx_lift (seal_version X D header keys secret_ref staged_version new_plaintext secret_type))
        (\<lambda>r.
        let staged_record = r\<lparr>sr_status := Staged\<rparr>;
            job = rotation_create X (dr_uuid D) (dr_job_clock D) (vh_vault_id header) secret_ref
                    staged_version staged_record
        in sx_bind (st (save_rotation_job job)) (\<lambda>_.
           sx_bind (append_audit X D header keys ''rotation.started'' ''info'' ''allow''
             [(''job_id'', JStr (rj_job_id job)), (''secret_ref'', JStr secret_ref),
              (''staged_version'', JInt (int staged_version))])
             (\<lambda>_. sx_return job)))))"

text \<open>The job of an identifier, in one of the states a step accepts.\<close>

definition require_job :: "string \<Rightarrow> rotation_status list \<Rightarrow> rotation_job vault_op" where
  "require_job job_id states =
     sx_bind (st (load_rotation_job job_id)) (\<lambda>found.
     sx_bind (sx_lift (ok_or RotationJobNotFound found)) (\<lambda>job.
     sx_bind (sx_require (rj_status job \<in> set states)
         (InvalidRotationState (rotation_state_string (rj_status job)))) (\<lambda>_.
       sx_return job)))"

definition verify_rotation ::
    "'a rt_scheme \<Rightarrow> host \<Rightarrow> draws \<Rightarrow> string \<Rightarrow> string \<Rightarrow> rotation_job vault_op" where
  "verify_rotation X H D job_id passphrase =
     sx_bind (unlock X H (Some passphrase)) (\<lambda>(header, keys).
     sx_bind (require_job job_id [RStaged]) (\<lambda>job.
     sx_bind (sx_lift (map_err CryptoE (decrypt_secret X keys (rj_staged_record job)))) (\<lambda>_.
     let verified = rotation_transition X (dr_job_clock D) job RVerified None
     in sx_bind (st (save_rotation_job verified)) (\<lambda>_.
        sx_bind (append_audit X D header keys ''rotation.verified'' ''info'' ''allow''
          [(''job_id'', JStr job_id), (''secret_ref'', JStr (rj_secret_ref verified))])
          (\<lambda>_. sx_return verified)))))"

definition promote_rotation ::
    "'a rt_scheme \<Rightarrow> host \<Rightarrow> draws \<Rightarrow> string \<Rightarrow> string \<Rightarrow> rotation_job vault_op" where
  "promote_rotation X H D job_id passphrase =
     sx_bind (unlock X H (Some passphrase)) (\<lambda>(header, keys).
     sx_bind (require_job job_id [RVerified]) (\<lambda>job.
     sx_bind (sx_lift (map_err CryptoE (decrypt_secret X keys (rj_staged_record job)))) (\<lambda>plaintext.
     let active_record = (rj_staged_record job)\<lparr>sr_status := Active\<rparr>
     in sx_bind (st (save_secret_record active_record)) (\<lambda>_.
        let fingerprint = redaction_fingerprint X (redaction_fingerprint_key X keys) plaintext
        in sx_bind (st (save_redaction_fingerprint (rj_secret_ref job) (rj_staged_version job) fingerprint))
          (\<lambda>_.
          let promoted = rotation_transition X (dr_job_clock D) job RPromoted None
          in sx_bind (st (save_rotation_job promoted)) (\<lambda>_.
             sx_bind (append_audit X D header keys ''rotation.promoted'' ''high'' ''allow''
               [(''job_id'', JStr job_id), (''secret_ref'', JStr (rj_secret_ref promoted)),
                (''version'', JInt (int (rj_staged_version promoted)))])
               (\<lambda>_. sx_return promoted)))))))"

definition rollback_rotation ::
    "'a rt_scheme \<Rightarrow> host \<Rightarrow> draws \<Rightarrow> string \<Rightarrow> string \<Rightarrow> rotation_job vault_op" where
  "rollback_rotation X H D job_id passphrase =
     sx_bind (unlock X H (Some passphrase)) (\<lambda>(header, keys).
     sx_bind (require_job job_id [RStaged, RVerified]) (\<lambda>job.
     let rolled_back = rotation_transition X (dr_job_clock D) job RRolledBack None
     in sx_bind (st (save_rotation_job rolled_back)) (\<lambda>_.
        sx_bind (append_audit X D header keys ''rotation.rolled_back'' ''critical'' ''allow''
          [(''job_id'', JStr job_id), (''secret_ref'', JStr (rj_secret_ref rolled_back))])
          (\<lambda>_. sx_return rolled_back))))"

end
