(* ===== verification/Hbse_Access.thy ===== *)
theory Hbse_Access
  imports Hbse_Secrets
begin

text \<open>
  The policy and ticket methods of \<open>LocalVault\<close>, components/HBSE/hbse/src/vault.rs, and the
  vault as a machine: \<open>vault_cmd\<close> is a call of a method with what it draws, \<open>vault_step\<close>
  its effect on the store.
\<close>

section \<open>Policies\<close>

definition save_policy ::
    "'a rt_scheme \<Rightarrow> host \<Rightarrow> draws \<Rightarrow> access_policy \<Rightarrow> string \<Rightarrow> access_policy vault_op" where
  "save_policy X H D policy passphrase =
     sx_bind (unlock X H (Some passphrase)) (\<lambda>(header, keys).
     sx_bind (st (save_policy_row policy)) (\<lambda>_.
     sx_bind (append_audit X D header keys ''policy.saved'' ''high'' ''allow''
       [(''policy_id'', JStr (ap_policy_id policy))])
       (\<lambda>_. sx_return policy)))"

definition vault_evaluate_policy :: "access_request \<Rightarrow> (bool \<times> string \<times> string option) vault_op" where
  "vault_evaluate_policy request =
     sx_bind (st list_policies) (\<lambda>policies.
     let result = evaluate policies request
     in sx_return (ev_decision result = Allow, ev_reason result,
          map_option ap_policy_id (ev_policy result)))"

section \<open>Tickets\<close>

definition issue_ticket ::
    "'a rt_scheme \<Rightarrow> host \<Rightarrow> draws \<Rightarrow> access_request \<Rightarrow> string \<Rightarrow> ticket vault_op" where
  "issue_ticket X H D request passphrase =
     sx_bind (unlock X H (Some passphrase)) (\<lambda>(header, keys).
     sx_bind (st (load_latest_secret (ar_secret_ref request))) (\<lambda>r.
     sx_bind (sx_require (sr_status r = Active) (SecretUnavailable (status_string (sr_status r)))) (\<lambda>_.
     sx_bind (st list_policies) (\<lambda>policies.
     let result = evaluate policies request
     in case ev_policy result of
       None \<Rightarrow>
         sx_bind (append_audit X D header keys ''ticket.issue_denied'' ''high'' ''deny''
           [(''secret_ref'', JStr (ar_secret_ref request)), (''consumer'', JStr (ar_consumer request)),
            (''purpose'', JStr (ar_purpose request)), (''reason'', JStr (ev_reason result))])
           (\<lambda>_. sx_raise (PolicyDenied (ev_reason result)))
     | Some policy \<Rightarrow>
       if ev_decision result \<noteq> Allow
       then
         sx_bind (append_audit X D header keys ''ticket.issue_denied'' ''high'' ''deny''
           [(''secret_ref'', JStr (ar_secret_ref request)), (''consumer'', JStr (ar_consumer request)),
            (''purpose'', JStr (ar_purpose request)), (''policy_id'', JStr (ap_policy_id policy)),
            (''reason'', JStr (ev_reason result))])
           (\<lambda>_. sx_raise (PolicyDenied (ev_reason result)))
       else
         sx_bind (sx_lift (ok_or Panicked (issue X (ticket_mac_key X keys) (dr_uuid D)
             (vh_vault_id header) (sr_secret_id r) (of_nat (sr_secret_version r)) request policy
             (policy_hash X policy) (ar_broker_session_id request)))) (\<lambda>t.
         sx_bind (st (save_ticket t)) (\<lambda>_.
         sx_bind (append_audit X D header keys ''ticket.issued'' ''info'' ''allow''
           [(''secret_ref'', JStr (tk_secret_ref t)), (''consumer'', JStr (tk_consumer t)),
            (''purpose'', JStr (tk_purpose t)),
            (''delivery_mode'', JStr (delivery_mode_string (tk_delivery_mode t))),
            (''ticket_id'', JStr (tk_ticket_id t)), (''policy_id'', JStr (tk_policy_id t))])
           (\<lambda>_. sx_return t)))))))"

definition active_policy_for_ticket :: "ticket \<Rightarrow> access_policy vault_op" where
  "active_policy_for_ticket t =
     sx_bind (st list_policies) (\<lambda>policies.
       sx_lift (ok_or TicketPolicyChanged (find (\<lambda>p. ap_policy_id p = tk_policy_id t) policies)))"

definition ensure_ticket_secret_is_current :: "ticket \<Rightarrow> unit vault_op" where
  "ensure_ticket_secret_is_current t =
     (if tk_secret_version t = 0 then sx_return ()
      else
        sx_bind (st (load_latest_secret (tk_secret_ref t))) (\<lambda>latest.
          sx_require (sr_secret_version latest = unat (tk_secret_version t) \<and> sr_status latest = Active)
            TicketSecretVersionStale))"

definition found_ticket :: "string \<Rightarrow> ticket vault_op" where
  "found_ticket ticket_id =
     sx_bind (st (load_ticket ticket_id)) (\<lambda>found. sx_lift (ok_or TicketNotFound found))"

definition validate_ticket ::
    "'a rt_scheme \<Rightarrow> host \<Rightarrow> time \<Rightarrow> string \<Rightarrow> access_request \<Rightarrow> string \<Rightarrow> ticket vault_op" where
  "validate_ticket X H clock ticket_id request passphrase =
     sx_bind (unlock X H (Some passphrase)) (\<lambda>(header, keys).
     sx_bind (found_ticket ticket_id) (\<lambda>t.
     sx_bind (sx_lift (map_err TicketE (validate X (ticket_mac_key X keys) t request clock))) (\<lambda>_.
     sx_bind (active_policy_for_ticket t) (\<lambda>policy.
     sx_bind (sx_lift (map_err TicketE (validate_policy t policy (policy_hash X policy)))) (\<lambda>_.
     sx_bind (ensure_ticket_secret_is_current t) (\<lambda>_.
       sx_return t))))))"

definition renew_ticket ::
    "'a rt_scheme \<Rightarrow> host \<Rightarrow> draws \<Rightarrow> string \<Rightarrow> access_request \<Rightarrow> string \<Rightarrow> ticket vault_op" where
  "renew_ticket X H D ticket_id request passphrase =
     sx_bind (unlock X H (Some passphrase)) (\<lambda>(header, keys).
     sx_bind (validate_ticket X H (dr_clock D) ticket_id request passphrase) (\<lambda>old_ticket.
     sx_bind (active_policy_for_ticket old_ticket) (\<lambda>policy.
     sx_bind (sx_lift (ok_or Panicked (issue X (ticket_mac_key X keys) (dr_uuid D)
         (vh_vault_id header) (tk_secret_id old_ticket) (tk_secret_version old_ticket) request policy
         (policy_hash X policy) (tk_broker_session_id old_ticket)))) (\<lambda>renewed.
     sx_bind (sx_lift (map_err TicketE (revoke X (ticket_mac_key X keys) old_ticket))) (\<lambda>revoked.
     sx_bind (st (save_ticket revoked)) (\<lambda>_.
     sx_bind (st (save_ticket renewed)) (\<lambda>_.
     sx_bind (append_audit X D header keys ''ticket.renewed'' ''info'' ''allow''
       [(''old_ticket_id'', JStr (tk_ticket_id old_ticket)), (''ticket_id'', JStr (tk_ticket_id renewed)),
        (''secret_ref'', JStr (tk_secret_ref renewed)), (''policy_id'', JStr (tk_policy_id renewed))])
       (\<lambda>_. sx_return renewed))))))))"

text \<open>
  \<open>consume_ticket_for_secret\<close> in three parts: the checks, the conditional update with the
  load of the record the ticket names, and the release of its plaintext.
\<close>

definition release_record ::
    "'a rt_scheme \<Rightarrow> draws \<Rightarrow> vault_header \<Rightarrow> key_hierarchy \<Rightarrow> ticket \<Rightarrow> access_request \<Rightarrow>
     secret_record \<Rightarrow> bytes vault_op" where
  "release_record X D header keys t request r =
     (if sr_status r \<noteq> Active
      then
        sx_bind (append_audit X D header keys ''secret.access_denied'' ''high'' ''deny''
          [(''secret_ref'', JStr (tk_secret_ref t)), (''ticket_id'', JStr (tk_ticket_id t)),
           (''reason'', JStr (''secret status is '' @ status_string (sr_status r)))])
          (\<lambda>_. sx_raise (SecretUnavailable (status_string (sr_status r))))
      else
        sx_bind (sx_lift (map_err CryptoE (decrypt_secret X keys r))) (\<lambda>plaintext.
        sx_bind (append_audit X D header keys ''secret.materialized''
          (if ar_raw_export_requested request then ''critical'' else ''info'') ''allow''
          [(''secret_ref'', JStr (tk_secret_ref t)), (''ticket_id'', JStr (tk_ticket_id t)),
           (''consumer'', JStr (ar_consumer request)), (''purpose'', JStr (ar_purpose request)),
           (''delivery_mode'', JStr (delivery_mode_string (ar_delivery_mode request)))])
          (\<lambda>_. sx_return plaintext)))"

definition load_ticket_record :: "ticket \<Rightarrow> secret_record vault_op" where
  "load_ticket_record t =
     (if tk_secret_version t = 0 then st (load_latest_secret (tk_secret_ref t))
      else st (load_secret_version (tk_secret_ref t) (unat (tk_secret_version t))))"

definition consume_ticket_for_secret ::
    "'a rt_scheme \<Rightarrow> host \<Rightarrow> draws \<Rightarrow> string \<Rightarrow> access_request \<Rightarrow> string \<Rightarrow> bytes vault_op" where
  "consume_ticket_for_secret X H D ticket_id request passphrase =
     sx_bind (if ar_raw_export_requested request
              then enforce_plaintext_export_allowed (ar_mfa_verified request) else sx_return ()) (\<lambda>_.
     sx_bind (unlock X H (Some passphrase)) (\<lambda>(header, keys).
     sx_bind (found_ticket ticket_id) (\<lambda>t.
     sx_bind (sx_lift (map_err TicketE (consume X (ticket_mac_key X keys) t request (dr_clock D)))) (\<lambda>updated.
     sx_bind (active_policy_for_ticket t) (\<lambda>policy.
     sx_bind (sx_lift (map_err TicketE (validate_policy t policy (policy_hash X policy)))) (\<lambda>_.
     sx_bind (ensure_ticket_secret_is_current t) (\<lambda>_.
     sx_bind (st (save_ticket_if_current t updated)) (\<lambda>_.
     sx_bind (load_ticket_record t) (\<lambda>r.
       release_record X D header keys t request r)))))))))"

definition revoke_ticket ::
    "'a rt_scheme \<Rightarrow> host \<Rightarrow> draws \<Rightarrow> string \<Rightarrow> string \<Rightarrow> ticket vault_op" where
  "revoke_ticket X H D ticket_id passphrase =
     sx_bind (unlock X H (Some passphrase)) (\<lambda>(header, keys).
     sx_bind (found_ticket ticket_id) (\<lambda>t.
     sx_bind (sx_lift (map_err TicketE (revoke X (ticket_mac_key X keys) t))) (\<lambda>revoked.
     sx_bind (st (save_ticket revoked)) (\<lambda>_.
     sx_bind (append_audit X D header keys ''ticket.revoked'' ''high'' ''allow''
       [(''ticket_id'', JStr ticket_id), (''secret_ref'', JStr (tk_secret_ref t))])
       (\<lambda>_. sx_return revoked)))))"

text \<open>The loop of \<open>revoke_all_tickets\<close>; the first ticket with a bad MAC ends it.\<close>

fun revoke_loop :: "'a rt_scheme \<Rightarrow> bytes \<Rightarrow> ticket list \<Rightarrow> nat \<Rightarrow> nat vault_op" where
  "revoke_loop X mac_key [] count = sx_return count"
| "revoke_loop X mac_key (t # ts) count =
     (if tk_revoked t then revoke_loop X mac_key ts count
      else
        sx_bind (sx_lift (map_err TicketE (revoke X mac_key t))) (\<lambda>revoked.
        sx_bind (st (save_ticket revoked)) (\<lambda>_.
          revoke_loop X mac_key ts (count + 1))))"

definition revoke_all_tickets ::
    "'a rt_scheme \<Rightarrow> host \<Rightarrow> draws \<Rightarrow> string \<Rightarrow> string \<Rightarrow> nat vault_op" where
  "revoke_all_tickets X H D passphrase reason =
     sx_bind (unlock X H (Some passphrase)) (\<lambda>(header, keys).
     sx_bind (st list_tickets) (\<lambda>tickets.
     sx_bind (revoke_loop X (ticket_mac_key X keys) tickets 0) (\<lambda>count.
     sx_bind (append_audit X D header keys ''lockdown.tickets_revoked'' ''critical'' ''allow''
       [(''revoked_tickets'', JInt (int count)), (''reason'', JStr reason)])
       (\<lambda>_. sx_return count))))"

section \<open>The vault as a machine\<close>

datatype vault_cmd =
    PutSecret string bytes string secret_type
  | GetSecret string string
  | DisableSecret string string
  | DestroySecret string string
  | EnrollTotp string string string
  | VerifyTotp string string
  | SetPlaintextExport string bool bool
  | SavePolicy access_policy string
  | IssueTicket access_request string
  | ValidateTicket string access_request string
  | RenewTicket string access_request string
  | ConsumeTicket string access_request string
  | RevokeTicket string string
  | RevokeAllTickets string string
  | StartRotation string bytes string secret_type
  | VerifyRotation string string
  | PromoteRotation string string
  | RollbackRotation string string
  | RewrapProvider "string option" string "string option" string
  | CreateRecoveryPackage "string option" string

fun vault_step :: "'a rt_scheme \<Rightarrow> host \<Rightarrow> draws \<times> vault_cmd \<Rightarrow> vault_store \<Rightarrow> vault_store" where
  "vault_step X H (D, PutSecret ref pt pass ty) s = snd (put_secret X H D ref pt pass ty s)"
| "vault_step X H (D, GetSecret ref pass) s = snd (get_secret X H D ref pass s)"
| "vault_step X H (D, DisableSecret ref pass) s = snd (disable_secret X H D ref pass s)"
| "vault_step X H (D, DestroySecret ref pass) s = snd (destroy_secret X H D ref pass s)"
| "vault_step X H (D, EnrollTotp pass issuer account) s = snd (enroll_totp_mfa X H D pass issuer account s)"
| "vault_step X H (D, VerifyTotp pass code) s = snd (verify_totp_mfa X H D pass code s)"
| "vault_step X H (D, SetPlaintextExport pass enabled without) s =
     snd (set_plaintext_export_enabled X H D pass enabled without s)"
| "vault_step X H (D, SavePolicy p pass) s = snd (save_policy X H D p pass s)"
| "vault_step X H (D, IssueTicket r pass) s = snd (issue_ticket X H D r pass s)"
| "vault_step X H (D, ValidateTicket i r pass) s = snd (validate_ticket X H (dr_clock D) i r pass s)"
| "vault_step X H (D, RenewTicket i r pass) s = snd (renew_ticket X H D i r pass s)"
| "vault_step X H (D, ConsumeTicket i r pass) s = snd (consume_ticket_for_secret X H D i r pass s)"
| "vault_step X H (D, RevokeTicket i pass) s = snd (revoke_ticket X H D i pass s)"
| "vault_step X H (D, RevokeAllTickets pass reason) s = snd (revoke_all_tickets X H D pass reason s)"
| "vault_step X H (D, StartRotation ref pt pass ty) s = snd (start_rotation X H D ref pt pass ty s)"
| "vault_step X H (D, VerifyRotation i pass) s = snd (verify_rotation X H D i pass s)"
| "vault_step X H (D, PromoteRotation i pass) s = snd (promote_rotation X H D i pass s)"
| "vault_step X H (D, RollbackRotation i pass) s = snd (rollback_rotation X H D i pass s)"
| "vault_step X H (D, RewrapProvider cur pv new dev) s = snd (rewrap_provider X H D cur pv new dev s)"
| "vault_step X H (D, CreateRecoveryPackage pass secret) s =
     snd (create_recovery_package X H D pass secret s)"

end
