(* ===== verification/Hbse_History.thy ===== *)
theory Hbse_History
  imports Hbse_Access
begin

text \<open>
  What every call of the vault keeps. \<open>vault_inv\<close> is the invariant of the store of a vault
  whose root key is known: its header opens to that key alone, the audit chain verifies,
  every ticket is sealed and within its budget, every row is under its own key.
  \<open>vault_hist s0 s\<close> adds how \<open>s\<close> continues \<open>s0\<close>: the audit log extends, tickets only lose
  uses and become revoked, rotation jobs follow \<open>rotation_next\<close>, versions stay.

  The lemmas named \<open>keeps_...\<close> prove this of each primitive and then of each method.
\<close>

section \<open>What is assumed of the wrapping\<close>

text \<open>
  Authenticity of AES-GCM: what opens as a sealed message is the message that was sealed,
  under whatever key and nonce it is opened. For the TPM tools: a binding names its tool,
  and opens to the key it was made from.
\<close>

definition aead_authentic :: "'a rt_scheme \<Rightarrow> bool" where
  "aead_authentic X \<longleftrightarrow>
     (\<forall>k n p a k' n' a' q.
        rt_aes_gcm_decrypt X k' n' (rt_aes_gcm_encrypt X k n p a) a' = Some q \<longrightarrow> q = p)"

definition tpm_ok :: "host \<Rightarrow> bool" where
  "tpm_ok H \<longleftrightarrow>
     (\<forall>tool dev vid key binding.
        tool \<in> {tpm2_provider_id, tpm2_esapi_provider_id} \<longrightarrow>
        ho_tpm_wrap H tool dev vid key = Ok binding \<longrightarrow>
          json_str_of ''provider_id'' binding = Some tool \<and>
          (\<forall>dev' key'. ho_tpm_unwrap H tool dev' binding = Ok key' \<longrightarrow> key' = key))"

definition header_bound :: "'a rt_scheme \<Rightarrow> host \<Rightarrow> key_hierarchy \<Rightarrow> vault_header \<Rightarrow> bool" where
  "header_bound X H K h \<longleftrightarrow>
     vh_vault_id h = kh_vault_id K \<and>
     (\<forall>pass key. unwrap_binding X H h pass = Ok key \<longrightarrow> key = kh_root_key K)"

section \<open>The invariant\<close>

definition ticket_good :: "'a rt_scheme \<Rightarrow> key_hierarchy \<Rightarrow> ticket \<Rightarrow> bool" where
  "ticket_good X K t \<longleftrightarrow>
     ticket_mac X (ticket_mac_key X K) (ticket_payload t) = tk_mac t \<and>
     unat (tk_uses_remaining t) \<le> unat (tk_max_uses t)"

definition job_good :: "rotation_job \<Rightarrow> bool" where
  "job_good j \<longleftrightarrow>
     sr_secret_ref (rj_staged_record j) = rj_secret_ref j \<and>
     sr_secret_version (rj_staged_record j) = rj_staged_version j \<and>
     sr_status (rj_staged_record j) = Staged"

definition tables_ok :: "vault_store \<Rightarrow> bool" where
  "tables_ok s \<longleftrightarrow>
     versions_ok s \<and> tbl_ok (vs_tickets s) \<and> tbl_ok (vs_policies s) \<and>
     (\<forall>k t. read_ticket s k = Some t \<longrightarrow> tk_ticket_id t = k) \<and>
     (\<forall>k p. read_policy s k = Some p \<longrightarrow> ap_policy_id p = k) \<and>
     (\<forall>k j. read_job s k = Some j \<longrightarrow> rj_job_id j = k) \<and>
     (\<forall>ref ver r. tbl_get ver (secret_versions s ref) = Some r \<longrightarrow>
        sr_secret_ref r = ref \<and> sr_secret_version r = ver)"

definition vault_inv :: "'a rt_scheme \<Rightarrow> host \<Rightarrow> key_hierarchy \<Rightarrow> vault_store \<Rightarrow> bool" where
  "vault_inv X H K s \<longleftrightarrow>
     (\<exists>h. vs_header s = Some h \<and> header_bound X H K h) \<and>
     verify_audit_chain X (vs_audit s) (audit_integrity_key X K) = Ok () \<and>
     tables_ok s \<and>
     (\<forall>k t. read_ticket s k = Some t \<longrightarrow> ticket_good X K t) \<and>
     (\<forall>k j. read_job s k = Some j \<longrightarrow> job_good j)"

text \<open>How a ticket, and how a job, may change.\<close>

definition ticket_evolves :: "ticket \<Rightarrow> ticket \<Rightarrow> bool" where
  "ticket_evolves t u \<longleftrightarrow>
     u\<lparr>tk_uses_remaining := 0, tk_revoked := False, tk_mac := []\<rparr> =
       t\<lparr>tk_uses_remaining := 0, tk_revoked := False, tk_mac := []\<rparr> \<and>
     unat (tk_uses_remaining u) \<le> unat (tk_uses_remaining t) \<and> (tk_revoked t \<longrightarrow> tk_revoked u)"

definition job_evolves :: "rotation_job \<Rightarrow> rotation_job \<Rightarrow> bool" where
  "job_evolves j j' \<longleftrightarrow>
     rj_secret_ref j' = rj_secret_ref j \<and> rj_staged_version j' = rj_staged_version j \<and>
     rj_staged_record j' = rj_staged_record j \<and> rotation_next\<^sup>*\<^sup>* (rj_status j) (rj_status j')"

definition vault_hist ::
    "'a rt_scheme \<Rightarrow> host \<Rightarrow> key_hierarchy \<Rightarrow> vault_store \<Rightarrow> vault_store \<Rightarrow> bool" where
  "vault_hist X H K s0 s \<longleftrightarrow>
     vault_inv X H K s \<and>
     (\<exists>es. vs_audit s = vs_audit s0 @ es) \<and>
     (\<forall>k t. read_ticket s0 k = Some t \<longrightarrow> (\<exists>u. read_ticket s k = Some u \<and> ticket_evolves t u)) \<and>
     (\<forall>k j. read_job s0 k = Some j \<longrightarrow> (\<exists>j'. read_job s k = Some j' \<and> job_evolves j j')) \<and>
     (\<forall>ref ver. tbl_get ver (secret_versions s0 ref) \<noteq> None \<longrightarrow>
        tbl_get ver (secret_versions s ref) \<noteq> None)"

lemma ticket_evolves_refl [simp]: "ticket_evolves t t"
  by (simp add: ticket_evolves_def)

lemma ticket_evolves_trans: "ticket_evolves t u \<Longrightarrow> ticket_evolves u v \<Longrightarrow> ticket_evolves t v"
  by (auto simp: ticket_evolves_def)

lemma job_evolves_refl [simp]: "job_evolves j j"
  by (simp add: job_evolves_def)

lemma job_evolves_trans: "job_evolves i j \<Longrightarrow> job_evolves j k \<Longrightarrow> job_evolves i k"
  by (auto simp: job_evolves_def)

lemma vault_hist_refl: "vault_inv X H K s \<Longrightarrow> vault_hist X H K s s"
  by (simp add: vault_hist_def)

lemma vault_hist_trans: "vault_hist X H K s t \<Longrightarrow> vault_hist X H K t u \<Longrightarrow> vault_hist X H K s u"
proof -
  assume st: "vault_hist X H K s t" and tu: "vault_hist X H K t u"
  from st tu obtain es fs where "vs_audit t = vs_audit s @ es" "vs_audit u = vs_audit t @ fs"
    by (auto simp: vault_hist_def)
  then have "vs_audit u = vs_audit s @ (es @ fs)" by simp
  moreover have "\<exists>w. read_ticket u k = Some w \<and> ticket_evolves v w" if "read_ticket s k = Some v" for k v
  proof -
    from st that obtain w where "read_ticket t k = Some w" "ticket_evolves v w"
      unfolding vault_hist_def by blast
    with tu show ?thesis unfolding vault_hist_def by (meson ticket_evolves_trans)
  qed
  moreover have "\<exists>w. read_job u k = Some w \<and> job_evolves v w" if "read_job s k = Some v" for k v
  proof -
    from st that obtain w where "read_job t k = Some w" "job_evolves v w"
      unfolding vault_hist_def by blast
    with tu show ?thesis unfolding vault_hist_def by (meson job_evolves_trans)
  qed
  moreover have "vault_inv X H K u" using tu by (simp add: vault_hist_def)
  moreover have "tbl_get ver (secret_versions u ref) \<noteq> None"
    if "tbl_get ver (secret_versions s ref) \<noteq> None" for ref ver
    using st tu that unfolding vault_hist_def by blast
  ultimately show ?thesis unfolding vault_hist_def by simp
qed

lemma vault_hist_inv: "vault_hist X H K s0 s \<Longrightarrow> vault_inv X H K s"
  by (simp add: vault_hist_def)

section \<open>Tickets and jobs that may be written\<close>

definition ticket_from :: "'a rt_scheme \<Rightarrow> key_hierarchy \<Rightarrow> vault_store \<Rightarrow> ticket \<Rightarrow> bool" where
  "ticket_from X K s0 t \<longleftrightarrow>
     ticket_good X K t \<and> (\<forall>t0. read_ticket s0 (tk_ticket_id t) = Some t0 \<longrightarrow> ticket_evolves t0 t)"

definition job_from :: "vault_store \<Rightarrow> rotation_job \<Rightarrow> bool" where
  "job_from s0 j \<longleftrightarrow>
     job_good j \<and> (\<forall>j0. read_job s0 (rj_job_id j) = Some j0 \<longrightarrow> job_evolves j0 j)"

lemma ticket_seal_evolves:
  "u = t\<lparr>tk_uses_remaining := tk_uses_remaining u, tk_revoked := tk_revoked u\<rparr> \<Longrightarrow>
   unat (tk_uses_remaining u) \<le> unat (tk_uses_remaining t) \<Longrightarrow> (tk_revoked t \<Longrightarrow> tk_revoked u) \<Longrightarrow>
   ticket_evolves t (ticket_seal X k u)"
proof -
  assume a: "u = t\<lparr>tk_uses_remaining := tk_uses_remaining u, tk_revoked := tk_revoked u\<rparr>"
    "unat (tk_uses_remaining u) \<le> unat (tk_uses_remaining t)" "tk_revoked t \<Longrightarrow> tk_revoked u"
  have "(ticket_seal X k u)\<lparr>tk_uses_remaining := 0, tk_revoked := False, tk_mac := []\<rparr> =
      u\<lparr>tk_uses_remaining := 0, tk_revoked := False, tk_mac := []\<rparr>"
    by (simp add: ticket_seal_def)
  also have "\<dots> = t\<lparr>tk_uses_remaining := 0, tk_revoked := False, tk_mac := []\<rparr>"
    by (subst a(1)) simp
  finally show ?thesis using a(2,3) by (simp add: ticket_evolves_def)
qed

lemma revoke_from:
  assumes "ticket_from X K s0 t" and "revoke X (ticket_mac_key X K) t = Ok u"
  shows "ticket_from X K s0 u"
proof -
  from assms(2) have u: "u = ticket_seal X (ticket_mac_key X K) (t\<lparr>tk_revoked := True\<rparr>)"
    by (simp add: revoke_Ok_iff)
  have "ticket_evolves t u" unfolding u by (rule ticket_seal_evolves) simp_all
  then show ?thesis
    using assms(1) ticket_evolves_trans
    by (auto simp: u ticket_from_def ticket_good_def ticket_seal_valid [of X _ "_\<lparr>tk_revoked := True\<rparr>"])
qed

lemma consume_from:
  assumes "ticket_from X K s0 t" and "consume X (ticket_mac_key X K) t r now = Ok u"
  shows "ticket_from X K s0 u" "ticket_evolves t u" "tk_ticket_id u = tk_ticket_id t"
    "unat (tk_uses_remaining u) + 1 = unat (tk_uses_remaining t)"
proof -
  let ?t = "t\<lparr>tk_uses_remaining := tk_uses_remaining t - 1\<rparr>"
  from assms(2) have u: "u = ticket_seal X (ticket_mac_key X K) ?t" and nz: "tk_uses_remaining t \<noteq> 0"
    by (auto simp: consume_Ok_iff ticket_live_def)
  from nz have pos: "0 < unat (tk_uses_remaining t)" by (simp add: unat_gt_0)
  show id: "tk_ticket_id u = tk_ticket_id t" by (simp add: u)
  show dec: "unat (tk_uses_remaining u) + 1 = unat (tk_uses_remaining t)"
    using nz pos by (simp add: u uses_decrease)
  show ev: "ticket_evolves t u" unfolding u
    by (rule ticket_seal_evolves) (use nz in \<open>simp_all add: uses_decrease\<close>)
  have "ticket_good X K u"
    using assms(1) nz pos
    by (auto simp: u ticket_from_def ticket_good_def ticket_seal_valid [of X _ ?t] uses_decrease)
  with assms(1) ev id ticket_evolves_trans show "ticket_from X K s0 u"
    by (auto simp: ticket_from_def)
qed

lemma transition_from:
  assumes "job_from s0 j" and "rotation_next (rj_status j) status"
  shows "job_from s0 (rotation_transition X clock j status reason)"
proof -
  have "job_evolves j (rotation_transition X clock j status reason)"
    using assms(2) by (auto simp: job_evolves_def rotation_transition_def)
  with assms(1) job_evolves_trans show ?thesis
    by (auto simp: job_from_def job_good_def rotation_transition_def)
qed

section \<open>Primitive reads and writes\<close>

lemma st_simps [simp]:
  "read_ticket (write_secret r v x s) = read_ticket s"
  "read_job (write_secret r v x s) = read_job s"
  "read_policy (write_secret r v x s) = read_policy s"
  "read_job (write_ticket k t s) = read_job s"
  "read_policy (write_ticket k t s) = read_policy s"
  "secret_versions (write_ticket k t s) = secret_versions s"
  "read_ticket (write_job k j s) = read_ticket s"
  "read_policy (write_job k j s) = read_policy s"
  "secret_versions (write_job k j s) = secret_versions s"
  "read_ticket (write_policy k p s) = read_ticket s"
  "read_job (write_policy k p s) = read_job s"
  "secret_versions (write_policy k p s) = secret_versions s"
  "read_ticket (write_metadata k m s) = read_ticket s"
  "read_job (write_metadata k m s) = read_job s"
  "read_policy (write_metadata k m s) = read_policy s"
  "secret_versions (write_metadata k m s) = secret_versions s"
  "vs_header (write_secret r v x s) = vs_header s" "vs_header (write_ticket k t s) = vs_header s"
  "vs_header (write_job k j s) = vs_header s" "vs_header (write_policy k p s) = vs_header s"
  "vs_header (write_metadata k m s) = vs_header s"
  "vs_audit (write_secret r v x s) = vs_audit s" "vs_audit (write_ticket k t s) = vs_audit s"
  "vs_audit (write_job k j s) = vs_audit s" "vs_audit (write_policy k p s) = vs_audit s"
  "vs_audit (write_metadata k m s) = vs_audit s"
  "vs_tickets (write_secret r v x s) = vs_tickets s" "vs_tickets (write_job k j s) = vs_tickets s"
  "vs_tickets (write_policy k p s) = vs_tickets s" "vs_tickets (write_metadata k m s) = vs_tickets s"
  "vs_policies (write_secret r v x s) = vs_policies s" "vs_policies (write_job k j s) = vs_policies s"
  "vs_policies (write_ticket k t s) = vs_policies s" "vs_policies (write_metadata k m s) = vs_policies s"
  by (simp_all add: fun_eq_iff read_ticket_def read_job_def read_policy_def secret_versions_def
      write_secret_def write_ticket_def write_job_def write_policy_def write_metadata_def)

lemma st_update_simps [simp]:
  "read_ticket (s\<lparr>vs_audit := a\<rparr>) = read_ticket s" "read_job (s\<lparr>vs_audit := a\<rparr>) = read_job s"
  "read_policy (s\<lparr>vs_audit := a\<rparr>) = read_policy s"
  "secret_versions (s\<lparr>vs_audit := a\<rparr>) = secret_versions s"
  "read_ticket (s\<lparr>vs_header := h\<rparr>) = read_ticket s" "read_job (s\<lparr>vs_header := h\<rparr>) = read_job s"
  "read_policy (s\<lparr>vs_header := h\<rparr>) = read_policy s"
  "secret_versions (s\<lparr>vs_header := h\<rparr>) = secret_versions s"
  "read_ticket (s\<lparr>vs_fingerprints := f\<rparr>) = read_ticket s"
  "read_job (s\<lparr>vs_fingerprints := f\<rparr>) = read_job s"
  "read_policy (s\<lparr>vs_fingerprints := f\<rparr>) = read_policy s"
  "secret_versions (s\<lparr>vs_fingerprints := f\<rparr>) = secret_versions s"
  by (simp_all add: fun_eq_iff read_ticket_def read_job_def read_policy_def secret_versions_def)

lemma versions_ok_cong: "secret_versions s = secret_versions t \<Longrightarrow> versions_ok s \<longleftrightarrow> versions_ok t"
  by (simp add: versions_ok_def)

abbreviation keeps where "keeps X H K s0 \<equiv> sx_keeps (vault_hist X H K s0)"

lemma hist_write_secret:
  "vault_hist X H K s0 s \<Longrightarrow> vault_hist X H K s0 (write_secret (sr_secret_ref r) (sr_secret_version r) r s)"
  by (auto simp: vault_hist_def vault_inv_def tables_ok_def secret_versions_write tbl_simps
      intro!: versions_ok_write)

lemma hist_write_status:
  "vault_hist X H K s0 s \<Longrightarrow>
   vault_hist X H K s0 (write_secret (sr_secret_ref r) (sr_secret_version r) (r\<lparr>sr_status := status\<rparr>) s)"
  using hist_write_secret [of X H K s0 s "r\<lparr>sr_status := status\<rparr>"] by simp

lemma hist_write_ticket:
  assumes "vault_hist X H K s0 s" "ticket_from X K s0 t"
  shows "vault_hist X H K s0 (write_ticket (tk_ticket_id t) t s)"
  using assms
  by (auto simp: vault_hist_def vault_inv_def tables_ok_def ticket_from_def st_tickets.get_put
      versions_ok_cong [of "write_ticket _ _ s" s])
     (auto simp: write_ticket_def)

lemma hist_write_job:
  assumes "vault_hist X H K s0 s" "job_from s0 j"
  shows "vault_hist X H K s0 (write_job (rj_job_id j) j s)"
  using assms
  by (auto simp: vault_hist_def vault_inv_def tables_ok_def job_from_def st_jobs.get_put
      versions_ok_cong [of "write_job _ _ s" s])

lemma hist_write_policy:
  "vault_hist X H K s0 s \<Longrightarrow> vault_hist X H K s0 (write_policy (ap_policy_id p) p s)"
  by (auto simp: vault_hist_def vault_inv_def tables_ok_def st_policies.get_put
      versions_ok_cong [of "write_policy _ _ s" s])
     (auto simp: write_policy_def)

lemma hist_write_metadata:
  "vault_hist X H K s0 s \<Longrightarrow> vault_hist X H K s0 (write_metadata k v s)"
  by (simp add: vault_hist_def vault_inv_def tables_ok_def versions_ok_cong [of "write_metadata _ _ s" s])

lemma hist_fingerprints:
  "vault_hist X H K s0 s \<Longrightarrow> vault_hist X H K s0 (s\<lparr>vs_fingerprints := f\<rparr>)"
  by (simp add: vault_hist_def vault_inv_def tables_ok_def
      versions_ok_cong [of "s\<lparr>vs_fingerprints := f\<rparr>" s])

lemma hist_header:
  "vault_hist X H K s0 s \<Longrightarrow> header_bound X H K h \<Longrightarrow> vault_hist X H K s0 (s\<lparr>vs_header := Some h\<rparr>)"
  by (simp add: vault_hist_def vault_inv_def tables_ok_def
      versions_ok_cong [of "s\<lparr>vs_header := Some h\<rparr>" s])

lemma hist_audit:
  "vault_hist X H K s0 s \<Longrightarrow>
   vault_hist X H K s0 (s\<lparr>vs_audit := vs_audit s @ [audit_append X (audit_integrity_key X K) (vs_audit s)
      uuid clock vid ns ty sev dec m]\<rparr>)"
  by (auto simp: vault_hist_def vault_inv_def tables_ok_def verify_append
      versions_ok_cong [of "s\<lparr>vs_audit := vs_audit s @ a\<rparr>" s for a])

section \<open>What each computation keeps\<close>

lemma keeps_unlock [sx_keeps_intros]:
  "keeps X H K s0 (unlock X H pass) (\<lambda>x. snd x = K \<and> header_bound X H K (fst x))"
proof (rule sx_keepsI)
  fix s show "vault_hist X H K s0 s \<Longrightarrow> vault_hist X H K s0 (snd (unlock X H pass s))"
    by (simp add: unlock_def sx_simps load_header_def split: sum.split option.split)
next
  fix s x assume P: "vault_hist X H K s0 s" and u: "fst (unlock X H pass s) = Inr x"
  then obtain h where h: "vs_header s = Some h" "header_bound X H K h"
    by (auto simp: vault_hist_def vault_inv_def)
  with u obtain rk where rk: "unwrap_binding X H h pass = Ok rk"
    and x: "map_err KeysE (key_hierarchy_new (vh_vault_id h) rk) = Ok (snd x)" "fst x = h"
    by (auto simp: unlock_def sx_simps load_header_def split: sum.splits prod.splits)
  from rk h have "rk = kh_root_key K" "vh_vault_id h = kh_vault_id K"
    by (auto simp: header_bound_def)
  with x(1) have "\<lparr>kh_vault_id = kh_vault_id K, kh_root_key = kh_root_key K\<rparr> = snd x"
    by (auto simp: map_err_Ok_iff key_hierarchy_new_def split: if_splits)
  then have "snd x = K" by (cases K) simp
  with x(2) h show "snd x = K \<and> header_bound X H K (fst x)" by simp
qed

lemma keeps_append_audit [sx_keeps_intros]:
  "k = K \<Longrightarrow> keeps X H K s0 (append_audit X D h k ty sev dec m) (\<lambda>_. True)"
  unfolding append_audit_def
  by (intro sx_keeps_st) (auto simp: sx_keeps_def append_audit_event_def insert_audit_event_def
      sx_simps Let_def hist_audit)

lemma keeps_update_header [sx_keeps_intros]:
  "header_bound X H K h \<Longrightarrow> keeps X H K s0 (st (update_header h)) (\<lambda>_. True)"
  by (intro sx_keeps_st) (auto simp: sx_keeps_def update_header_def hist_header)

lemma keeps_save_secret [sx_keeps_intros]: "keeps X H K s0 (st (save_secret_record r)) (\<lambda>_. True)"
  by (intro sx_keeps_st) (auto simp: sx_keeps_def save_secret_record_def hist_write_secret)

lemma keeps_save_status [sx_keeps_intros]:
  "keeps X H K s0 (st (save_updated_secret_status ref status)) (\<lambda>_. True)"
  by (intro sx_keeps_st sx_keepsI)
    (simp_all add: save_updated_secret_status_def load_latest_secret_def save_secret_record_def
      sx_simps Let_def hist_write_status ok_or_def split: option.split)

lemma keeps_save_policy [sx_keeps_intros]: "keeps X H K s0 (st (save_policy_row p)) (\<lambda>_. True)"
  by (intro sx_keeps_st) (auto simp: sx_keeps_def save_policy_row_def hist_write_policy)

lemma keeps_set_metadata [sx_keeps_intros]: "keeps X H K s0 (st (set_metadata k v)) (\<lambda>_. True)"
  by (intro sx_keeps_st) (auto simp: sx_keeps_def set_metadata_def hist_write_metadata)

lemma keeps_save_fingerprint [sx_keeps_intros]:
  "keeps X H K s0 (st (save_redaction_fingerprint ref ver f)) (\<lambda>_. True)"
  by (intro sx_keeps_st) (auto simp: sx_keeps_def save_redaction_fingerprint_def hist_fingerprints)

lemma keeps_save_ticket [sx_keeps_intros]:
  "ticket_from X K s0 t \<Longrightarrow> keeps X H K s0 (st (save_ticket t)) (\<lambda>_. True)"
  by (intro sx_keeps_st) (auto simp: sx_keeps_def save_ticket_def hist_write_ticket)

lemma keeps_save_ticket_if_current [sx_keeps_intros]:
  "ticket_from X K s0 u \<Longrightarrow> tk_ticket_id u = tk_ticket_id t \<Longrightarrow>
   keeps X H K s0 (st (save_ticket_if_current t u)) (\<lambda>_. True)"
  by (intro sx_keeps_st) (auto simp: sx_keeps_def save_ticket_if_current_def dest: hist_write_ticket)

lemma keeps_save_job [sx_keeps_intros]:
  "job_from s0 j \<Longrightarrow> keeps X H K s0 (st (save_rotation_job j)) (\<lambda>_. True)"
  by (intro sx_keeps_st) (auto simp: sx_keeps_def save_rotation_job_def hist_write_job)

lemma hist_ticket_from:
  "vault_hist X H K s0 s \<Longrightarrow> read_ticket s k = Some t \<Longrightarrow> tk_ticket_id t = k \<and> ticket_from X K s0 t"
  unfolding vault_hist_def vault_inv_def tables_ok_def ticket_from_def by fastforce

lemma hist_job_from:
  "vault_hist X H K s0 s \<Longrightarrow> read_job s k = Some j \<Longrightarrow> rj_job_id j = k \<and> job_from s0 j"
  unfolding vault_hist_def vault_inv_def tables_ok_def job_from_def by fastforce

lemma keeps_found_ticket [sx_keeps_intros]:
  "keeps X H K s0 (found_ticket i) (\<lambda>t. tk_ticket_id t = i \<and> ticket_from X K s0 t)"
  by (rule sx_keepsI)
    (auto simp: found_ticket_def sx_simps load_ticket_def ok_or_Ok_iff dest: hist_ticket_from)

lemma keeps_list_tickets [sx_keeps_intros]:
  "keeps X H K s0 (st list_tickets) (\<lambda>ts. \<forall>t \<in> set ts. ticket_from X K s0 t)"
proof (intro sx_keeps_st sx_keepsI)
  fix s ts assume P: "vault_hist X H K s0 s" and l: "fst (list_tickets s) = Inr ts"
  show "\<forall>t \<in> set ts. ticket_from X K s0 t"
  proof
    fix t assume "t \<in> set ts"
    with l obtain k where "(k, t) \<in> set (vs_tickets s)" by (auto simp: list_tickets_def)
    moreover have "tbl_ok (vs_tickets s)"
      using P by (simp add: vault_hist_def vault_inv_def tables_ok_def)
    ultimately have "read_ticket s k = Some t" by (simp add: read_ticket_def tbl_set_get)
    with P show "ticket_from X K s0 t" by (auto dest: hist_ticket_from)
  qed
qed (simp add: list_tickets_def)

lemma keeps_require_job [sx_keeps_intros]:
  "keeps X H K s0 (require_job i states) (\<lambda>j. rj_job_id j = i \<and> job_from s0 j \<and> rj_status j \<in> set states)"
  by (rule sx_keepsI)
    (auto simp: require_job_def sx_simps load_rotation_job_def ok_or_def
      split: option.splits if_splits dest: hist_job_from)

text \<open>Reads that are only looked at.\<close>

lemma keeps_reads [sx_keeps_intros]:
  "keeps X H K s0 (st load_header) (\<lambda>_. True)"
  "keeps X H K s0 (st (latest_version r)) (\<lambda>_. True)"
  "keeps X H K s0 (st (load_latest_secret r)) (\<lambda>_. True)"
  "keeps X H K s0 (st (load_secret_version r v)) (\<lambda>_. True)"
  "keeps X H K s0 (st list_policies) (\<lambda>_. True)"
  "keeps X H K s0 (st (get_metadata k)) (\<lambda>_. True)"
  "keeps X H K s0 totp_mfa_enrolled (\<lambda>_. True)"
  "keeps X H K s0 (active_policy_for_ticket t) (\<lambda>_. True)"
  "keeps X H K s0 (ensure_ticket_secret_is_current t) (\<lambda>_. True)"
  "keeps X H K s0 (enforce_plaintext_export_allowed b) (\<lambda>_. True)"
  by (rule sx_keeps_unchanged, simp add: store_defs active_policy_for_ticket_def
      ensure_ticket_secret_is_current_def enforce_plaintext_export_allowed_def
      plaintext_export_enabled_def totp_mfa_enrolled_def sx_simps
      split: option.split sum.split prod.split store_error.split)+

section \<open>What each method keeps\<close>

text \<open>
  The TPM bindings and the passphrase and host bindings made by the vault open to its key.
\<close>

lemma root_key_of_Ok: "root_key_of x = Ok k \<longleftrightarrow> x = Some k \<and> length k = key_size"
  by (auto simp: root_key_of_def res_bind_Ok_iff ok_or_Ok_iff)

lemma passphrase_opens_to:
  assumes "aead_authentic X" "codec_ok X"
    and "wrap_root_key X params salt nonce vid root_key pass = Ok b"
    and "unwrap_root_key X vid' b pass' = Ok key"
  shows "key = root_key"
proof -
  from assms(3) obtain k where "pb_wrapped_root_key b =
      rt_b64url X (rt_aes_gcm_encrypt X k nonce root_key (passphrase_aad X vid))"
    by (auto simp: wrap_root_key_def res_bind_Ok_iff split: if_splits)
  with assms(2,4) obtain k' n' a' where
    "rt_aes_gcm_decrypt X k' n' (rt_aes_gcm_encrypt X k nonce root_key (passphrase_aad X vid)) a' = Some key"
    by (auto simp: unwrap_root_key_def res_bind_Ok_iff ok_or_Ok_iff codec_ok_def root_key_of_Ok
        split: if_splits)
  with assms(1) show ?thesis unfolding aead_authentic_def by blast
qed

lemma system_opens_to:
  assumes "aead_authentic X" "codec_ok X"
    and "system_wrap_root_key X files params salt nonce vid root_key = Ok b"
    and "system_unwrap_root_key X files' vid' b = Ok key"
  shows "key = root_key"
proof -
  from assms(3) obtain k a where "sb_wrapped_root_key b =
      rt_b64url X (rt_aes_gcm_encrypt X k nonce root_key a)"
    by (auto simp: system_wrap_root_key_def res_bind_Ok_iff Let_def split: if_splits)
  with assms(2,4) obtain k' n' a' where
    "rt_aes_gcm_decrypt X k' n' (rt_aes_gcm_encrypt X k nonce root_key a) a' = Some key"
    by (auto simp: system_unwrap_root_key_def res_bind_Ok_iff ok_or_Ok_iff codec_ok_def root_key_of_Ok
        split: if_splits)
  with assms(1) show ?thesis unfolding aead_authentic_def by blast
qed

lemma json_str_of_obj:
  "distinct (map fst fs) \<Longrightarrow> json_str_of k (json_obj fs) = Option.bind (map_of fs k) as_str"
  using tbl_get_fields [of fs k] by (simp add: json_str_of_def json_get_def json_obj_def)

lemma binding_provider:
  "wrap_root_key X params salt nonce vid root_key pass = Ok b \<Longrightarrow>
   json_str_of ''provider_id'' (binding_json b) = Some passphrase_provider_id"
  "system_wrap_root_key X files params salt nonce vid root_key = Ok sb \<Longrightarrow>
   json_str_of ''provider_id'' (system_binding_json sb) = Some system_fingerprint_provider_id"
  by (auto simp: binding_json_def binding_fields_def system_binding_json_def
      system_binding_fields_def json_str_of_obj wrap_root_key_def system_wrap_root_key_def
      res_bind_Ok_iff Let_def split: if_splits)

lemma wrap_for_bound:
  assumes "aead_authentic X" "codec_ok X" "tpm_ok H"
    and "header_bound X H K h"
    and w: "wrap_for X H D (vh_vault_id h) (kh_root_key K) pv new dev = Ok binding"
  shows "header_bound X H K (h\<lparr>vh_provider_binding := binding\<rparr>)"
proof -
  let ?h = "h\<lparr>vh_provider_binding := binding\<rparr>"
  have "key = kh_root_key K" if u: "unwrap_binding X H ?h pass = Ok key" for pass key
  proof -
    from w consider
      (pass) b p where "wrap_root_key X default_scrypt (dr_salt D) (dr_wrap_nonce D) (vh_vault_id h)
          (kh_root_key K) p = Ok b" "binding = binding_json b"
    | (sys) b where "system_wrap_root_key X (ho_files H) default_scrypt (dr_salt D) (dr_wrap_nonce D)
          (vh_vault_id h) (kh_root_key K) = Ok b" "binding = system_binding_json b"
    | (tpm) tool where "tool \<in> {tpm2_provider_id, tpm2_esapi_provider_id}"
        "ho_tpm_wrap H tool dev (vh_vault_id h) (kh_root_key K) = Ok binding"
      by (auto simp: wrap_for_def res_bind_Ok_iff map_err_Ok_iff split: if_splits)
    then show ?thesis
    proof cases
      case pass
      with u have "\<exists>p. unwrap_root_key X (vh_vault_id h) b p = Ok key"
        by (auto simp: unwrap_binding_def Let_def binding_provider(1) res_bind_Ok_iff ok_or_Ok_iff
            map_err_Ok_iff passphrase_provider_id_def tpm2_provider_id_def tpm2_esapi_provider_id_def)
      with passphrase_opens_to [OF assms(1,2) pass(1)] show ?thesis by blast
    next
      case sys
      with u have "system_unwrap_root_key X (ho_files H) (vh_vault_id h) b = Ok key"
        by (auto simp: unwrap_binding_def Let_def binding_provider(2) res_bind_Ok_iff ok_or_Ok_iff
            map_err_Ok_iff passphrase_provider_id_def tpm2_provider_id_def tpm2_esapi_provider_id_def
            system_fingerprint_provider_id_def)
      with system_opens_to [OF assms(1,2) sys(1)] show ?thesis by blast
    next
      case tpm
      with assms(3) have "json_str_of ''provider_id'' binding = Some tool"
        "\<And>dev' key'. ho_tpm_unwrap H tool dev' binding = Ok key' \<Longrightarrow> key' = kh_root_key K"
        unfolding tpm_ok_def by blast+
      with u tpm(1) show ?thesis
        by (auto simp: unwrap_binding_def Let_def map_err_Ok_iff)
    qed
  qed
  with assms(4) show ?thesis by (auto simp: header_bound_def)
qed

lemma keeps_put_secret: "keeps X H K s0 (put_secret X H D ref pt pass ty) (\<lambda>_. True)"
  unfolding put_secret_def Let_def by (rule sx_keeps_intros | force)+

lemma keeps_get_secret: "keeps X H K s0 (get_secret X H D ref pass) (\<lambda>_. True)"
  unfolding get_secret_def Let_def by (rule sx_keeps_intros | force)+

lemma keeps_disable_secret: "keeps X H K s0 (disable_secret X H D ref pass) (\<lambda>_. True)"
  unfolding disable_secret_def Let_def by (rule sx_keeps_intros | force)+

lemma keeps_destroy_secret: "keeps X H K s0 (destroy_secret X H D ref pass) (\<lambda>_. True)"
  unfolding destroy_secret_def Let_def by (rule sx_keeps_intros | force)+

lemma keeps_enroll: "keeps X H K s0 (enroll_totp_mfa X H D pass issuer account) (\<lambda>_. True)"
  unfolding enroll_totp_mfa_def Let_def by (rule sx_keeps_intros | force)+

lemma keeps_totp_lookup:
  "keeps X H K s0 (\<lambda>s. case load_latest_secret totp_secret_ref s of
         (Inr r, t) \<Rightarrow> (Ok r, t)
       | (Inl (SecretNotFound _), t) \<Rightarrow> (Err MfaNotEnrolled, t)
       | (Inl e, t) \<Rightarrow> (Err (StoreE e), t)) (\<lambda>_. True)"
  by (rule sx_keeps_unchanged) (simp add: load_latest_secret_def ok_or_def split: option.split)

lemma keeps_verify_totp: "keeps X H K s0 (verify_totp_mfa X H D pass code) (\<lambda>_. True)"
  unfolding verify_totp_mfa_def Let_def by (rule sx_keeps_intros keeps_totp_lookup | force)+

lemma keeps_export_config: "keeps X H K s0 (set_plaintext_export_enabled X H D pass b w) (\<lambda>_. True)"
proof -
  have export: "keeps X H K s0 (if b \<and> \<not> w
      then sx_bind totp_mfa_enrolled (\<lambda>enrolled. sx_require enrolled PlaintextExportMfaEnrollmentRequired)
      else sx_return ()) (\<lambda>_. True)"
    by (rule sx_keeps_unchanged)
      (simp add: sx_simps totp_mfa_enrolled_def load_latest_secret_def ok_or_def split: option.split)
  show ?thesis
    unfolding set_plaintext_export_enabled_def Let_def by (rule export | rule sx_keeps_intros | force)+
qed

lemma keeps_save_policy_method: "keeps X H K s0 (save_policy X H D p pass) (\<lambda>_. True)"
  unfolding save_policy_def Let_def by (rule sx_keeps_intros | force)+

lemma keeps_verify_rotation: "keeps X H K s0 (verify_rotation X H D i pass) (\<lambda>_. True)"
  unfolding verify_rotation_def Let_def by (rule sx_keeps_intros | force intro: transition_from)+

lemma keeps_promote_rotation: "keeps X H K s0 (promote_rotation X H D i pass) (\<lambda>_. True)"
  unfolding promote_rotation_def Let_def by (rule sx_keeps_intros | force intro: transition_from)+

lemma keeps_rollback_rotation: "keeps X H K s0 (rollback_rotation X H D i pass) (\<lambda>_. True)"
  unfolding rollback_rotation_def Let_def by (rule sx_keeps_intros | force intro: transition_from)+

lemma keeps_start_rotation:
  assumes "read_job s0 (dr_uuid D) = None"
  shows "keeps X H K s0 (start_rotation X H D ref pt pass ty) (\<lambda>_. True)"
proof -
  have job: "job_from s0 (rotation_create X (dr_uuid D) clock vid ref (next_version latest)
      (r\<lparr>sr_status := Staged\<rparr>))"
    if "seal_version X D h k ref (next_version latest) pt ty = Ok r" for clock vid latest r h k
    using that assms
    by (auto simp: job_from_def job_good_def rotation_create_def seal_version_def res_bind_Ok_iff Let_def)
  show ?thesis
    unfolding start_rotation_def Let_def
    by (rule sx_keeps_intros | (drule map_err_Ok_iff [THEN iffD1])?, erule job | force)+
qed

lemma issue_from:
  assumes "read_ticket s0 uuid = None"
    and "issue X (ticket_mac_key X K) uuid vid sid ver r p ph ses = Some t"
  shows "ticket_from X K s0 t"
proof -
  from assms(2) obtain u where "t = ticket_seal X (ticket_mac_key X K) u" "tk_ticket_id u = uuid"
    "tk_uses_remaining u = tk_max_uses u"
    by (auto simp: issue_def Let_def split: option.splits)
  with assms(1) show ?thesis
    by (simp add: ticket_from_def ticket_good_def ticket_seal_valid [of X _ u])
qed

lemma keeps_issue_ticket:
  assumes "read_ticket s0 (dr_uuid D) = None"
  shows "keeps X H K s0 (issue_ticket X H D r pass) (\<lambda>_. True)"
  unfolding issue_ticket_def Let_def
  by (rule sx_keeps_intros | force simp: ok_or_Ok_iff intro: issue_from [OF assms])+

lemma unlock_unchanged [simp]: "snd (unlock X H pass s) = s"
  by (simp add: unlock_def sx_simps load_header_def split: sum.split option.split)

lemma unlock_state: "unlock X H pass s = (r, t) \<Longrightarrow> t = s"
  by (metis snd_conv unlock_unchanged)

lemma found_ticket_Ok: "found_ticket i s = (Inr t, s') \<longleftrightarrow> read_ticket s i = Some t \<and> s' = s"
  by (auto simp: found_ticket_def sx_simps load_ticket_def ok_or_def split: option.splits)

lemma active_policy_Ok:
  "active_policy_for_ticket t s = (Inr p, s') \<longleftrightarrow>
     find (\<lambda>p. ap_policy_id p = tk_policy_id t) (map snd (vs_policies s)) = Some p \<and> s' = s"
  by (auto simp: active_policy_for_ticket_def sx_simps list_policies_def ok_or_def split: option.splits)

lemma ensure_current_Ok:
  "ensure_ticket_secret_is_current t s = (Inr x, s') \<longleftrightarrow> s' = s \<and>
     (tk_secret_version t \<noteq> 0 \<longrightarrow>
        (\<exists>r. latest_secret s (tk_secret_ref t) = Some r \<and>
             sr_secret_version r = unat (tk_secret_version t) \<and> sr_status r = Active))"
  by (auto simp: ensure_ticket_secret_is_current_def sx_simps load_latest_secret_def ok_or_def
      split: option.splits)

text \<open>What a ticket met when it was accepted.\<close>

definition ticket_accepted ::
    "'a rt_scheme \<Rightarrow> bytes \<Rightarrow> time \<Rightarrow> access_request \<Rightarrow> vault_store \<Rightarrow> ticket \<Rightarrow> bool" where
  "ticket_accepted X mac_key clock r s t \<longleftrightarrow>
     ticket_live X mac_key t clock \<and> ticket_context_ok t r \<and>
     (\<exists>p. find (\<lambda>p. ap_policy_id p = tk_policy_id t) (map snd (vs_policies s)) = Some p \<and>
          validate_policy t p (policy_hash X p) = Ok ()) \<and>
     (tk_secret_version t \<noteq> 0 \<longrightarrow>
        (\<exists>x. latest_secret s (tk_secret_ref t) = Some x \<and>
             sr_secret_version x = unat (tk_secret_version t) \<and> sr_status x = Active))"

lemma validate_ticket_Ok:
  "validate_ticket X H clock i r pass s = (Inr t, s') \<longleftrightarrow>
     s' = s \<and> read_ticket s i = Some t \<and>
     (\<exists>h k. unlock X H (Some pass) s = (Inr (h, k), s) \<and>
            ticket_accepted X (ticket_mac_key X k) clock r s t)"
  unfolding validate_ticket_def ticket_accepted_def
  by (auto simp: sx_Ok found_ticket_Ok active_policy_Ok ensure_current_Ok map_err_Ok_iff
      validate_Ok_iff dest: unlock_state)

lemma validate_ticket_unchanged: "snd (validate_ticket X H clock i r pass s) = s"
  by (simp add: validate_ticket_def found_ticket_def active_policy_for_ticket_def
      ensure_ticket_secret_is_current_def load_ticket_def list_policies_def load_latest_secret_def
      sx_simps unlock_def load_header_def split: sum.split option.split prod.split)

lemma keeps_validate_ticket [sx_keeps_intros]:
  "keeps X H K s0 (validate_ticket X H clock i r pass) (\<lambda>t. tk_ticket_id t = i \<and> ticket_from X K s0 t)"
proof (rule sx_keepsI)
  fix s t assume P: "vault_hist X H K s0 s" and v: "fst (validate_ticket X H clock i r pass s) = Inr t"
  then have "validate_ticket X H clock i r pass s = (Inr t, s)"
    by (simp add: prod_eq_iff validate_ticket_unchanged)
  then show "tk_ticket_id t = i \<and> ticket_from X K s0 t"
    using P by (auto simp: validate_ticket_Ok dest: hist_ticket_from)
qed (simp add: validate_ticket_unchanged)

lemma keeps_renew_ticket:
  assumes "read_ticket s0 (dr_uuid D) = None"
  shows "keeps X H K s0 (renew_ticket X H D i r pass) (\<lambda>_. True)"
proof -
  have renewed: "ticket_from X K s0 t"
    if "ok_or Panicked (issue X (ticket_mac_key X K) (dr_uuid D) vid sid ver r p ph ses) = Ok t"
    for vid sid ver p ph ses t
    using that by (auto simp: ok_or_Ok_iff intro: issue_from [OF assms])
  have revoked: "ticket_from X K s0 u"
    if "map_err TicketE (revoke X (ticket_mac_key X K) t) = Ok u" "ticket_from X K s0 t" for t u
    using that by (auto simp: map_err_Ok_iff intro: revoke_from)
  show ?thesis unfolding renew_ticket_def Let_def
    by (rule sx_keeps_intros | (elim conjE, simp only: snd_conv fst_conv),
        (erule renewed | erule revoked, assumption) | simp)+
qed

lemma keeps_consume_ticket: "keeps X H K s0 (consume_ticket_for_secret X H D i r pass) (\<lambda>_. True)"
proof -
  have export: "keeps X H K s0 (if ar_raw_export_requested r
      then enforce_plaintext_export_allowed (ar_mfa_verified r) else sx_return ()) (\<lambda>_. True)"
    by (rule sx_keeps_intros)+
  have load: "keeps X H K s0 (load_ticket_record t) (\<lambda>_. True)" for t
    unfolding load_ticket_record_def by (rule sx_keeps_intros)+
  have release: "k = K \<Longrightarrow> keeps X H K s0 (release_record X D h k t r x) (\<lambda>_. True)" for h k t x
    unfolding release_record_def by (rule sx_keeps_intros | force)+
  show ?thesis
    unfolding consume_ticket_for_secret_def Let_def
    by (rule export | rule load | rule release | rule sx_keeps_intros
        | force simp: map_err_Ok_iff intro: consume_from)+
qed

lemma keeps_revoke_ticket: "keeps X H K s0 (revoke_ticket X H D i pass) (\<lambda>_. True)"
  unfolding revoke_ticket_def Let_def
  by (rule sx_keeps_intros | force simp: map_err_Ok_iff intro: revoke_from)+

lemma keeps_revoke_loop [sx_keeps_intros]:
  "\<forall>t \<in> set ts. ticket_from X K s0 t \<Longrightarrow> k = ticket_mac_key X K \<Longrightarrow>
   keeps X H K s0 (revoke_loop X k ts n) (\<lambda>_. True)"
proof (induction ts arbitrary: n)
  case (Cons t ts)
  then show ?case
    by (auto simp: map_err_Ok_iff intro!: sx_keeps_intros intro: revoke_from)
qed (simp add: sx_keeps_intros)

lemma keeps_revoke_all: "keeps X H K s0 (revoke_all_tickets X H D pass reason) (\<lambda>_. True)"
  unfolding revoke_all_tickets_def Let_def by (rule sx_keeps_intros | force)+

lemma keeps_rewrap:
  assumes "aead_authentic X" "codec_ok X" "tpm_ok H"
  shows "keeps X H K s0 (rewrap_provider X H D cur pv new dev) (\<lambda>_. True)"
  unfolding rewrap_provider_def Let_def
  by (rule sx_keeps_intros | force intro: wrap_for_bound [OF assms])+

lemma keeps_recovery_package: "keeps X H K s0 (create_recovery_package X H D pass secret) (\<lambda>_. True)"
  unfolding create_recovery_package_def Let_def by (rule sx_keeps_intros | force)+

section \<open>Steps and runs\<close>

text \<open>
  A call is legal where the identifier it draws is new: version-4 UUIDs do not repeat.
\<close>

definition fresh_draws :: "vault_store \<Rightarrow> draws \<times> vault_cmd \<Rightarrow> bool" where
  "fresh_draws s c \<longleftrightarrow> read_ticket s (dr_uuid (fst c)) = None \<and> read_job s (dr_uuid (fst c)) = None"

definition env_ok :: "'a rt_scheme \<Rightarrow> host \<Rightarrow> bool" where
  "env_ok X H \<longleftrightarrow> aead_authentic X \<and> codec_ok X \<and> tpm_ok H"

lemma keeps_step:
  assumes "env_ok X H" "vault_hist X H K s0 s0" "fresh_draws s0 c"
  shows "vault_hist X H K s0 (vault_step X H c s0)"
proof -
  obtain D m where c: "c = (D, m)" by (cases c)
  from assms(1) have env: "aead_authentic X" "codec_ok X" "tpm_ok H" by (auto simp: env_ok_def)
  from assms(3) have fresh: "read_ticket s0 (dr_uuid D) = None" "read_job s0 (dr_uuid D) = None"
    by (simp_all add: fresh_draws_def c)
  note rules = keeps_put_secret keeps_get_secret keeps_disable_secret keeps_destroy_secret keeps_enroll
    keeps_verify_totp keeps_export_config keeps_save_policy_method keeps_issue_ticket [OF fresh(1)]
    keeps_renew_ticket [OF fresh(1)] keeps_validate_ticket
    keeps_consume_ticket keeps_revoke_ticket keeps_revoke_all keeps_start_rotation [OF fresh(2)]
    keeps_verify_rotation keeps_promote_rotation keeps_rollback_rotation keeps_rewrap [OF env]
    keeps_recovery_package
  show ?thesis unfolding c
    by (cases m) (simp_all only: vault_step.simps rules [THEN sx_keeps_state, OF assms(2)])
qed

lemma vault_step_hist:
  "env_ok X H \<Longrightarrow> vault_inv X H K s \<Longrightarrow> fresh_draws s c \<Longrightarrow> vault_hist X H K s (vault_step X H c s)"
  by (blast intro: keeps_step vault_hist_refl)

lemma vault_run_hist:
  assumes "env_ok X H" "vault_inv X H K s" "legal_run (vault_step X H) fresh_draws s cs"
  shows "vault_hist X H K s (fold (vault_step X H) cs s)"
  by (rule run_invariant [where P = "vault_hist X H K s" and legal = fresh_draws])
    (use assms in \<open>auto intro: vault_hist_refl vault_step_hist vault_hist_trans dest: vault_hist_inv\<close>)

text \<open>Revocation and the final states of a rotation job, as life cycles.\<close>

interpretation ticket_life: lifecycle "vault_step X H" fresh_draws
    "\<lambda>s. vault_inv X H K s \<and> env_ok X H" "\<lambda>s k. read_ticket s k \<noteq> None"
    "\<lambda>s k. map_option tk_revoked (read_ticket s k)" "\<lambda>revoked. revoked"
  for X :: "'a rt_scheme" and H K
proof unfold_locales
  fix s k x and c :: "draws \<times> vault_cmd"
  assume ok: "vault_inv X H K s \<and> env_ok X H" and c: "fresh_draws s c"
    and v: "map_option tk_revoked (read_ticket s k) = Some x" "x"
  then obtain t where t: "read_ticket s k = Some t" "tk_revoked t" by auto
  from ok c have "vault_hist X H K s (vault_step X H c s)" by (blast intro: vault_step_hist)
  with t obtain u where "read_ticket (vault_step X H c s) k = Some u" "ticket_evolves t u"
    unfolding vault_hist_def by blast
  with t v show "map_option tk_revoked (read_ticket (vault_step X H c s) k) = None \<or>
      map_option tk_revoked (read_ticket (vault_step X H c s) k) = Some x"
    by (simp add: ticket_evolves_def)
next
  fix s k and c :: "draws \<times> vault_cmd"
  assume "vault_inv X H K s \<and> env_ok X H" "fresh_draws s c" "read_ticket s k \<noteq> None"
  then show "read_ticket (vault_step X H c s) k \<noteq> None"
    using vault_step_hist [of X H K s c] unfolding vault_hist_def by fastforce
qed (auto dest: vault_step_hist vault_hist_inv)

interpretation job_life: lifecycle "vault_step X H" fresh_draws
    "\<lambda>s. vault_inv X H K s \<and> env_ok X H" "\<lambda>s k. read_job s k \<noteq> None"
    "\<lambda>s k. map_option rj_status (read_job s k)" rotation_final
  for X :: "'a rt_scheme" and H K
proof unfold_locales
  fix s k x and c :: "draws \<times> vault_cmd"
  assume ok: "vault_inv X H K s \<and> env_ok X H" and c: "fresh_draws s c"
    and v: "map_option rj_status (read_job s k) = Some x" "rotation_final x"
  then obtain j where j: "read_job s k = Some j" "rj_status j = x" by auto
  from ok c have "vault_hist X H K s (vault_step X H c s)" by (blast intro: vault_step_hist)
  with j obtain j' where j': "read_job (vault_step X H c s) k = Some j'" "job_evolves j j'"
    unfolding vault_hist_def by blast
  have "rj_status j' = x"
    using j'(2) j(2) v(2) rotation_final_stuck [of x]
    by (auto simp: job_evolves_def elim: converse_rtranclpE)
  with j' show "map_option rj_status (read_job (vault_step X H c s) k) = None \<or>
      map_option rj_status (read_job (vault_step X H c s) k) = Some x"
    by simp
next
  fix s k and c :: "draws \<times> vault_cmd"
  assume "vault_inv X H K s \<and> env_ok X H" "fresh_draws s c" "read_job s k \<noteq> None"
  then show "read_job (vault_step X H c s) k \<noteq> None"
    using vault_step_hist [of X H K s c] unfolding vault_hist_def by fastforce
qed (auto dest: vault_step_hist vault_hist_inv)

end
