(* ===== verification/Hbse_Release.thy ===== *)
theory Hbse_Release
  imports Hbse_History
begin

text \<open>
  What the success of a vault call says: the conditions under which plaintext is released,
  a ticket is issued or renewed, a rotation is promoted, and what a call leaves in the
  store. Each lemma \<open>..._Ok\<close> runs through a method once; the properties of the root theory
  read their conclusions off these.
\<close>

section \<open>Steps that succeed\<close>

lemma append_audit_Ok:
  "append_audit X D h k ty sev dec m s = (Inr e, s') \<longleftrightarrow>
     e = audit_append X (audit_integrity_key X k) (vs_audit s) (dr_audit_uuid D) (dr_audit_clock D)
           (vh_vault_id h) (vh_namespace_id h) ty sev dec (meta m) \<and>
     dr_audit_uuid D \<notin> ae_event_id ` set (vs_audit s) \<and> s' = s\<lparr>vs_audit := vs_audit s @ [e]\<rparr>"
proof -
  have [simp]: "ae_event_id (audit_append X mk es (dr_audit_uuid D) c v n a b d f) = dr_audit_uuid D"
    for mk es c v n a b d f by (simp add: audit_append_def Let_def)
  show ?thesis
    by (auto simp: append_audit_def st_Ok append_audit_event_def sx_Ok Let_def insert_audit_event_def
        split: if_splits)
qed

lemma append_audit_fresh:
  assumes "dr_audit_uuid D \<notin> ae_event_id ` set (vs_audit s)"
  obtains e where "append_audit X D h k ty sev dec m s = (Inr e, s\<lparr>vs_audit := vs_audit s @ [e]\<rparr>)"
    "ae_event_type e = ty" "ae_decision e = dec"
proof
  let ?e = "audit_append X (audit_integrity_key X k) (vs_audit s) (dr_audit_uuid D) (dr_audit_clock D)
    (vh_vault_id h) (vh_namespace_id h) ty sev dec (meta m)"
  show "append_audit X D h k ty sev dec m s = (Inr ?e, s\<lparr>vs_audit := vs_audit s @ [?e]\<rparr>)"
    using assms by (simp add: append_audit_Ok)
qed (simp_all add: audit_append_def Let_def)

lemma unlock_Ok:
  "unlock X H pass s = (Inr (h, k), s') \<longleftrightarrow>
     s' = s \<and> vs_header s = Some h \<and>
     (\<exists>rk. unwrap_binding X H h pass = Ok rk \<and> length rk = key_size \<and>
           k = \<lparr>kh_vault_id = vh_vault_id h, kh_root_key = rk\<rparr>)"
  by (auto simp: unlock_def sx_Ok st_Ok load_header_def map_err_Ok_iff key_hierarchy_new_def
      ok_or_def split: option.splits if_splits)

lemma loads_Ok:
  "load_latest_secret ref s = (Inr r, s') \<longleftrightarrow> latest_secret s ref = Some r \<and> s' = s"
  "load_secret_version ref ver s = (Inr r, s') \<longleftrightarrow>
     sql_u64 ver \<and> tbl_get ver (secret_versions s ref) = Some r \<and> s' = s"
  "latest_version ref s = (Inr v, s') \<longleftrightarrow> v = max_version s ref \<and> s' = s"
  "list_policies s = (Inr ps, s') \<longleftrightarrow> ps = map snd (vs_policies s) \<and> s' = s"
  by (auto simp: load_latest_secret_def load_secret_version_def latest_version_def list_policies_def
      ok_or_def split: option.splits)

lemma saves_Ok:
  "save_ticket t s = (Inr u, s') \<longleftrightarrow> s' = write_ticket (tk_ticket_id t) t s"
  "save_ticket_if_current t t' s = (Inr u, s') \<longleftrightarrow>
     read_ticket s (tk_ticket_id t) = Some t \<and> s' = write_ticket (tk_ticket_id t) t' s"
  "save_secret_record r s = (Inr u, s') \<longleftrightarrow>
     vs_header s \<noteq> None \<and> sql_u64 (sr_secret_version r) \<and>
     s' = write_secret (sr_secret_ref r) (sr_secret_version r) r s"
  "save_rotation_job j s = (Inr u, s') \<longleftrightarrow> s' = write_job (rj_job_id j) j s"
  by (auto simp: save_ticket_def save_ticket_if_current_def save_secret_record_def save_rotation_job_def)

lemma latest_secret_unchanged [simp]:
  "latest_secret (write_ticket k t s) = latest_secret s"
  "latest_secret (s\<lparr>vs_audit := a\<rparr>) = latest_secret s"
  "latest_secret (s\<lparr>vs_fingerprints := f\<rparr>) = latest_secret s"
  "latest_secret (write_job k j s) = latest_secret s"
  by (simp_all add: fun_eq_iff latest_secret_def)

lemma max_version_unchanged [simp]:
  "max_version (write_ticket k t s) = max_version s"
  "max_version (s\<lparr>vs_audit := a\<rparr>) = max_version s"
  "max_version (s\<lparr>vs_fingerprints := f\<rparr>) = max_version s"
  "max_version (write_job k j s) = max_version s"
  by (simp_all add: fun_eq_iff max_version_def)

section \<open>Export configuration\<close>

definition export_enabled :: "vault_store \<Rightarrow> bool" where
  "export_enabled s \<longleftrightarrow> read_metadata s plaintext_export_config_key = Some ''enabled''"

definition totp_active :: "vault_store \<Rightarrow> bool" where
  "totp_active s \<longleftrightarrow> (\<exists>r. latest_secret s totp_secret_ref = Some r \<and> sr_status r = Active)"

lemma totp_mfa_enrolled_value: "totp_mfa_enrolled s = (Ok (totp_active s), s)"
  by (simp add: totp_mfa_enrolled_def load_latest_secret_def totp_active_def ok_or_def
      split: option.split)

lemma enforce_export_Ok:
  "enforce_plaintext_export_allowed mfa s = (Inr u, s') \<longleftrightarrow>
     s' = s \<and> export_enabled s \<and> (totp_active s \<longrightarrow> mfa)"
  by (auto simp: enforce_plaintext_export_allowed_def plaintext_export_enabled_def sx_Ok st_Ok
      get_metadata_def totp_mfa_enrolled_value export_enabled_def)

section \<open>Consuming a ticket\<close>

definition record_for :: "vault_store \<Rightarrow> ticket \<Rightarrow> secret_record option" where
  "record_for s t =
     (if tk_secret_version t = 0 then latest_secret s (tk_secret_ref t)
      else tbl_get (unat (tk_secret_version t)) (secret_versions s (tk_secret_ref t)))"

definition released_by ::
    "'a rt_scheme \<Rightarrow> host \<Rightarrow> draws \<Rightarrow> string \<Rightarrow> access_request \<Rightarrow> string \<Rightarrow> vault_store \<Rightarrow> bytes \<Rightarrow>
     vault_store \<Rightarrow> ticket \<Rightarrow> ticket \<Rightarrow> key_hierarchy \<Rightarrow> bool" where
  "released_by X H D i r pass s pt s' t u k \<longleftrightarrow>
     (\<exists>h. unlock X H (Some pass) s = (Inr (h, k), s)) \<and>
     read_ticket s i = Some t \<and> read_ticket s' (tk_ticket_id t) = Some u \<and>
     consume X (ticket_mac_key X k) t r (dr_clock D) = Ok u \<and>
     ticket_accepted X (ticket_mac_key X k) (dr_clock D) r s t \<and>
     (ar_raw_export_requested r \<longrightarrow> export_enabled s \<and> (totp_active s \<longrightarrow> ar_mfa_verified r)) \<and>
     (\<exists>x. record_for s t = Some x \<and> sr_status x = Active \<and> decrypt_secret X k x = Ok pt) \<and>
     (\<exists>e. vs_audit s' = vs_audit s @ [e] \<and> ae_event_type e = ''secret.materialized'')"

lemma audit_append_type [simp]:
  "ae_event_type (audit_append X k es u c v n ty sev dec m) = ty"
  "ae_decision (audit_append X k es u c v n ty sev dec m) = dec"
  "ae_metadata (audit_append X k es u c v n ty sev dec m) = m"
  by (simp_all add: audit_append_def Let_def)

lemma release_record_Ok:
  "release_record X D h k t r x s = (Inr pt, s') \<Longrightarrow>
   sr_status x = Active \<and> decrypt_secret X k x = Ok pt \<and>
   (\<exists>e. s' = s\<lparr>vs_audit := vs_audit s @ [e]\<rparr> \<and> ae_event_type e = ''secret.materialized'')"
  by (auto simp: release_record_def sx_Ok map_err_Ok_iff append_audit_Ok split: if_splits)

lemma load_ticket_record_Ok:
  "load_ticket_record t s = (Inr x, s') \<Longrightarrow> record_for s t = Some x \<and> s' = s"
  by (auto simp: load_ticket_record_def record_for_def st_Ok loads_Ok split: if_splits)

lemma consume_ticket_Ok:
  assumes "consume_ticket_for_secret X H D i r pass s = (Inr pt, s')"
  shows "\<exists>t u k. released_by X H D i r pass s pt s' t u k"
proof -
  let ?gate = "if ar_raw_export_requested r then enforce_plaintext_export_allowed (ar_mfa_verified r)
     else sx_return ()"
  from assms obtain g s0 h k t u p x where g: "?gate s = (Inr g, s0)" and
    ul: "unlock X H (Some pass) s0 = (Inr (h, k), s0)" and t: "read_ticket s0 i = Some t" and
    c: "consume X (ticket_mac_key X k) t r (dr_clock D) = Ok u" and
    p: "find (\<lambda>p. ap_policy_id p = tk_policy_id t) (map snd (vs_policies s0)) = Some p"
       "validate_policy t p (policy_hash X p) = Ok ()" and
    cur: "tk_secret_version t \<noteq> 0 \<longrightarrow> (\<exists>r. latest_secret s0 (tk_secret_ref t) = Some r \<and>
       sr_secret_version r = unat (tk_secret_version t) \<and> sr_status r = Active)" and
    x: "load_ticket_record t (write_ticket (tk_ticket_id t) u s0) =
        (Inr x, write_ticket (tk_ticket_id t) u s0)" and
    rel: "release_record X D h k t r x (write_ticket (tk_ticket_id t) u s0) = (Inr pt, s')"
    unfolding consume_ticket_for_secret_def
    by (clarsimp simp: sx_Ok st_Ok found_ticket_Ok active_policy_Ok ensure_current_Ok map_err_Ok_iff
        saves_Ok split del: if_split) (metis unlock_state load_ticket_record_Ok)
  from g have s0: "s0 = s" and gate: "ar_raw_export_requested r \<longrightarrow>
      export_enabled s \<and> (totp_active s \<longrightarrow> ar_mfa_verified r)"
    by (auto simp: enforce_export_Ok sx_return_Ok split: if_splits)
  have "ticket_accepted X (ticket_mac_key X k) (dr_clock D) r s t"
    using c p cur s0 by (auto simp: ticket_accepted_def consume_Ok_iff)
  moreover have "record_for s t = Some x"
    using load_ticket_record_Ok [OF x] s0 by (simp add: record_for_def split: if_splits)
  ultimately show ?thesis
    using ul t c gate s0 release_record_Ok [OF rel]
    unfolding released_by_def by (auto simp: st_tickets.get_put read_ticket_def write_ticket_def tbl_simps)
qed

section \<open>The use budget over a run\<close>

definition consume_ok :: "'a rt_scheme \<Rightarrow> host \<Rightarrow> string \<Rightarrow> draws \<times> vault_cmd \<Rightarrow> vault_store \<Rightarrow> bool" where
  "consume_ok X H i c s =
     (case snd c of
        ConsumeTicket j r pass \<Rightarrow>
          j = i \<and> is_ok (fst (consume_ticket_for_secret X H (fst c) j r pass s))
      | _ \<Rightarrow> False)"

text \<open>How often a ticket releases its secret in a run.\<close>

fun releases :: "'a rt_scheme \<Rightarrow> host \<Rightarrow> string \<Rightarrow> (draws \<times> vault_cmd) list \<Rightarrow> vault_store \<Rightarrow> nat" where
  "releases X H i [] s = 0"
| "releases X H i (c # cs) s =
     (if consume_ok X H i c s then 1 else 0) + releases X H i cs (vault_step X H c s)"

lemma consume_ok_D:
  assumes "consume_ok X H i c s"
  shows "\<exists>D r pass pt. c = (D, ConsumeTicket i r pass) \<and>
     consume_ticket_for_secret X H D i r pass s = (Inr pt, vault_step X H c s)"
proof -
  obtain D m where c: "c = (D, m)" by (cases c)
  from assms show ?thesis unfolding c
    by (cases m) (auto simp: consume_ok_def is_ok_iff prod_eq_iff)
qed

lemma inv_ticket_id: "vault_inv X H K s \<Longrightarrow> read_ticket s i = Some t \<Longrightarrow> tk_ticket_id t = i"
  by (simp add: vault_inv_def tables_ok_def)

lemma consume_ok_uses:
  assumes "vault_inv X H K s" "consume_ok X H i c s"
  shows "\<exists>t u. read_ticket s i = Some t \<and> read_ticket (vault_step X H c s) i = Some u \<and>
           unat (tk_uses_remaining u) + 1 = unat (tk_uses_remaining t)"
proof -
  from consume_ok_D [OF assms(2)] obtain D r pass pt where
    "consume_ticket_for_secret X H D i r pass s = (Inr pt, vault_step X H c s)" by blast
  from consume_ticket_Ok [OF this] obtain t u k where
    rel: "released_by X H D i r pass s pt (vault_step X H c s) t u k" by blast
  then have t: "read_ticket s i = Some t" and u: "read_ticket (vault_step X H c s) (tk_ticket_id t) = Some u"
    and cons: "consume X (ticket_mac_key X k) t r (dr_clock D) = Ok u"
    by (auto simp: released_by_def)
  from cons have "unat (tk_uses_remaining u) + 1 = unat (tk_uses_remaining t)"
    by (auto simp: consume_Ok_iff ticket_live_def uses_decrease unat_gt_0)
  with t u inv_ticket_id [OF assms(1) t] show ?thesis by auto
qed

lemma releases_bounded:
  assumes "env_ok X H" "vault_inv X H K s" "read_ticket s i = Some t"
    and "legal_run (vault_step X H) fresh_draws s cs"
  shows "releases X H i cs s \<le> unat (tk_uses_remaining t)"
  using assms(2-4)
proof (induction cs arbitrary: s t)
  case (Cons c cs)
  then have fresh: "fresh_draws s c" and run: "legal_run (vault_step X H) fresh_draws (vault_step X H c s) cs"
    by simp_all
  have hist: "vault_hist X H K s (vault_step X H c s)"
    using assms(1) Cons.prems(1) fresh by (rule vault_step_hist)
  then obtain u where u: "read_ticket (vault_step X H c s) i = Some u" "ticket_evolves t u"
    using Cons.prems(2) unfolding vault_hist_def by blast
  have IH: "releases X H i cs (vault_step X H c s) \<le> unat (tk_uses_remaining u)"
    using Cons.IH [OF vault_hist_inv [OF hist] u(1) run] .
  show ?case
  proof (cases "consume_ok X H i c s")
    case True
    from consume_ok_uses [OF Cons.prems(1) True] Cons.prems(2) u(1) IH True show ?thesis by auto
  next
    case False
    with IH u(2) show ?thesis by (simp add: ticket_evolves_def)
  qed
qed simp

section \<open>Issuing\<close>

lemma issue_ticket_Ok:
  assumes "issue_ticket X H D r pass s = (Inr t, s')"
  shows "\<exists>h k p x. unlock X H (Some pass) s = (Inr (h, k), s) \<and>
     latest_secret s (ar_secret_ref r) = Some x \<and> sr_status x = Active \<and>
     p \<in> set (map snd (vs_policies s)) \<and> policy_permits p r \<and>
     issue X (ticket_mac_key X k) (dr_uuid D) (vh_vault_id h) (sr_secret_id x)
       (of_nat (sr_secret_version x)) r p (policy_hash X p) (ar_broker_session_id r) = Some t \<and>
     read_ticket s' (tk_ticket_id t) = Some t"
proof -
  let ?ev = "evaluate (map snd (vs_policies s)) r"
  from assms obtain h k x where
    ul: "unlock X H (Some pass) s = (Inr (h, k), s)" and
    x: "latest_secret s (ar_secret_ref r) = Some x" "sr_status x = Active"
    unfolding issue_ticket_def by (clarsimp simp: sx_Ok st_Ok loads_Ok) (metis unlock_state)
  from evaluate_find [of "map snd (vs_policies s)" r] consider
    (deny) "ev_policy ?ev = None" | (allow) p where "ev_policy ?ev = Some p" "ev_decision ?ev = Allow"
    by (auto split: option.splits)
  then show ?thesis
  proof cases
    case deny
    with assms ul x show ?thesis
      by (auto simp: issue_ticket_def sx_Ok st_Ok loads_Ok Let_def)
  next
    case allow
    then have p: "p \<in> set (map snd (vs_policies s))" "policy_permits p r"
      using evaluate_Allow_D [OF allow(2)] by auto
    from assms ul x allow show ?thesis
      using p unfolding issue_ticket_def
      by (auto simp: sx_Ok st_Ok loads_Ok Let_def ok_or_Ok_iff saves_Ok append_audit_Ok
          st_tickets.get_put)
  qed
qed

lemma issue_ticket_denied:
  assumes "unlock X H (Some pass) s = (Inr (h, k), s)"
    and "latest_secret s (ar_secret_ref r) = Some x" "sr_status x = Active"
    and "\<forall>p \<in> set (map snd (vs_policies s)). \<not> policy_permits p r"
    and "dr_audit_uuid D \<notin> ae_event_id ` set (vs_audit s)"
  shows "\<exists>e. issue_ticket X H D r pass s =
      (Err (PolicyDenied ''no matching allow policy''), s\<lparr>vs_audit := vs_audit s @ [e]\<rparr>) \<and>
      ae_event_type e = ''ticket.issue_denied'' \<and> ae_decision e = ''deny''"
proof -
  from assms(4) have "find (\<lambda>p. policy_permits p r) (map snd (vs_policies s)) = None"
    by (simp add: find_None_iff)
  then have ev: "evaluate (map snd (vs_policies s)) r =
      \<lparr>ev_decision = Deny, ev_reason = ''no matching allow policy'', ev_policy = None\<rparr>"
    by (simp add: evaluate_find)
  let ?m = "[(''secret_ref'', JStr (ar_secret_ref r)), (''consumer'', JStr (ar_consumer r)),
    (''purpose'', JStr (ar_purpose r)), (''reason'', JStr ''no matching allow policy'')]"
  obtain e where a: "append_audit X D h k ''ticket.issue_denied'' ''high'' ''deny'' ?m s =
      (Inr e, s\<lparr>vs_audit := vs_audit s @ [e]\<rparr>)" and e: "ae_event_type e = ''ticket.issue_denied''"
    "ae_decision e = ''deny''"
    using assms(5) by (simp add: append_audit_Ok)
  have "issue_ticket X H D r pass s =
      (Err (PolicyDenied ''no matching allow policy''), s\<lparr>vs_audit := vs_audit s @ [e]\<rparr>)"
    unfolding issue_ticket_def Let_def
    by (simp add: sx_bind_def assms(1-3) st_def load_latest_secret_def list_policies_def sx_require_def
        ev a sx_raise_def)
  with e show ?thesis by blast
qed

section \<open>Storing and reading secrets\<close>

lemma inv_versions: "vault_inv X H K s \<Longrightarrow> versions_ok s"
  by (simp add: vault_inv_def tables_ok_def)

lemma next_version_above: "\<forall>m. max_version s ref = Some m \<longrightarrow> m < next_version (max_version s ref)"
  by (auto simp: next_version_def)

definition seal_with :: "'a rt_scheme \<Rightarrow> draws \<Rightarrow> bool" where
  "seal_with X D \<longleftrightarrow>
     aead_ok X \<and> codec_ok X \<and> length (dr_dek D) = key_size \<and>
     length (dr_secret_nonce D) = nonce_size \<and> length (dr_dek_nonce D) = nonce_size"

lemma seal_version_fields:
  assumes "seal_version X D h k ref ver pt ty = Ok r"
  shows "sr_secret_ref r = ref" "sr_secret_version r = ver" "sr_status r = Active"
    "seal_with X D \<Longrightarrow> decrypt_secret X k r = Ok pt"
  using assms by (auto simp: seal_version_def res_bind_Ok_iff seal_with_def decrypt_encrypt)

lemma put_secret_Ok:
  assumes "put_secret X H D ref pt pass ty s = (Inr ver, s')"
  shows "\<exists>h k r e. unlock X H (Some pass) s = (Inr (h, k), s) \<and> ver = next_version (max_version s ref) \<and>
     seal_version X D h k ref ver pt ty = Ok r \<and> vs_secrets s' = vs_secrets (write_secret ref ver r s) \<and>
     vs_header s' = vs_header s \<and> vs_jobs s' = vs_jobs s \<and>
     vs_audit s' = vs_audit s @ [e] \<and> ae_event_type e = ''secret.stored''"
proof -
  from assms have "\<exists>h k r e. unlock X H (Some pass) s = (Inr (h, k), s) \<and>
     ver = next_version (max_version s ref) \<and> seal_version X D h k ref ver pt ty = Ok r \<and>
     vs_secrets s' = vs_secrets (write_secret (sr_secret_ref r) (sr_secret_version r) r s) \<and>
     vs_header s' = vs_header s \<and> vs_jobs s' = vs_jobs s \<and>
     vs_audit s' = vs_audit s @ [e] \<and> ae_event_type e = ''secret.stored''"
    unfolding put_secret_def Let_def
    by (auto simp: sx_Ok st_Ok loads_Ok saves_Ok append_audit_Ok save_redaction_fingerprint_def
        unlock_Ok write_secret_def split: if_splits)
  then show ?thesis by (metis seal_version_fields(1,2))
qed

text \<open>A stored secret is the one read next, and no other reference sees a difference.\<close>

lemma put_then_latest:
  assumes "vault_inv X H K s" "put_secret X H D ref pt pass ty s = (Inr ver, s')"
  shows "\<exists>r h k. unlock X H (Some pass) s = (Inr (h, k), s) \<and> seal_version X D h k ref ver pt ty = Ok r \<and>
     latest_secret s' ref = Some r \<and> tbl_get ver (secret_versions s' ref) = Some r \<and>
     (\<forall>m. max_version s ref = Some m \<longrightarrow> m < ver) \<and> vs_header s' = vs_header s \<and>
     (\<forall>ref'. ref' \<noteq> ref \<longrightarrow> latest_secret s' ref' = latest_secret s ref')"
proof -
  from put_secret_Ok [OF assms(2)] obtain h k r where
    ul: "unlock X H (Some pass) s = (Inr (h, k), s)" and ver: "ver = next_version (max_version s ref)" and
    r: "seal_version X D h k ref ver pt ty = Ok r" and hd: "vs_header s' = vs_header s" and
    s': "vs_secrets s' = vs_secrets (write_secret ref ver r s)" by blast
  have above: "\<forall>m. max_version s ref = Some m \<longrightarrow> m < ver"
    unfolding ver by (rule next_version_above)
  then have "latest_secret (write_secret ref ver r s) ref = Some r"
    using inv_versions [OF assms(1)] by (intro latest_after_write) (auto intro: less_imp_le)
  with ul r above hd secrets_cong [OF s'] show ?thesis
    by (auto simp: secret_versions_write tbl_simps latest_write_other)
qed

lemma get_secret_active:
  assumes "unlock X H (Some pass) s = (Inr (h, k), s)" "latest_secret s ref = Some r" "sr_status r = Active"
    and "decrypt_secret X k r = Ok pt" "dr_audit_uuid D \<notin> ae_event_id ` set (vs_audit s)"
  shows "fst (get_secret X H D ref pass s) = Ok pt"
proof -
  let ?m = "[(''secret_ref'', JStr ref), (''secret_version'', JInt (int (sr_secret_version r)))]"
  obtain e s2 where "append_audit X D h k ''secret.materialized'' ''critical'' ''allow'' ?m s = (Inr e, s2)"
    using assms(5) by (simp add: append_audit_Ok)
  with assms(1-4) show ?thesis
    by (simp add: get_secret_def sx_bind_def st_def load_latest_secret_def sx_lift_def sx_return_def)
qed

lemma get_secret_inactive:
  assumes "latest_secret s ref = Some r" "sr_status r \<noteq> Active"
  shows "\<not> is_ok (fst (get_secret X H D ref pass s))"
proof (cases "unlock X H (Some pass) s")
  case (Pair res s1)
  then have "s1 = s" by (rule unlock_state)
  with Pair assms show ?thesis
    by (cases res; cases "append_audit X D (fst (projr res)) (snd (projr res)) ''secret.access_denied''
        ''high'' ''deny'' [(''secret_ref'', JStr ref), (''secret_version'', JInt (int (sr_secret_version r))),
          (''reason'', JStr (''secret status is '' @ status_string (sr_status r)))] s")
      (auto simp: get_secret_def sx_bind_def st_def load_latest_secret_def sx_raise_def
        split: sum.splits)
qed

lemma get_put:
  assumes "vault_inv X H K s" "put_secret X H D ref pt pass ty s = (Inr ver, s')"
    and "seal_with X D" "dr_audit_uuid D' \<notin> ae_event_id ` set (vs_audit s')"
  shows "fst (get_secret X H D' ref pass s') = Ok pt"
proof -
  from put_then_latest [OF assms(1,2)] obtain r h k where
    ul: "unlock X H (Some pass) s = (Inr (h, k), s)" and r: "seal_version X D h k ref ver pt ty = Ok r" and
    l: "latest_secret s' ref = Some r" and hd: "vs_header s' = vs_header s" by blast
  from ul hd have "unlock X H (Some pass) s' = (Inr (h, k), s')" by (simp add: unlock_Ok)
  with l r assms(3,4) seal_version_fields [OF r] show ?thesis by (intro get_secret_active) auto
qed

section \<open>Disabling and destroying\<close>

lemma set_status_Ok:
  assumes "vault_inv X H K s"
    and "m = disable_secret X H D ref pass \<and> status = Disabled \<or>
         m = destroy_secret X H D ref pass \<and> status = Destroyed"
    and "m s = (Inr r, s')"
  shows "latest_secret s' ref = Some r \<and> sr_status r = status \<and>
         (\<exists>r0. latest_secret s ref = Some r0 \<and> r = r0\<lparr>sr_status := status\<rparr>)"
proof -
  from assms(2,3) obtain r0 where r0: "latest_secret s ref = Some r0" "r = r0\<lparr>sr_status := status\<rparr>"
    and s': "vs_secrets s' = vs_secrets (write_secret (sr_secret_ref r0) (sr_secret_version r0) r s)"
    by (auto simp: disable_secret_def destroy_secret_def sx_Ok st_Ok save_updated_secret_status_def
        loads_Ok saves_Ok append_audit_Ok Let_def unlock_Ok)
  from r0(1) obtain ver where mx: "max_version s ref = Some ver"
    using max_version_latest [of s ref] by fastforce
  with latest_is_version [OF inv_versions [OF assms(1)] r0(1) mx] assms(1)
  have id: "sr_secret_ref r0 = ref" "sr_secret_version r0 = ver"
    by (auto simp: vault_inv_def tables_ok_def)
  have "latest_secret (write_secret ref ver r s) ref = Some r"
    using mx by (intro latest_after_write inv_versions [OF assms(1)]) auto
  with id r0 secrets_cong [OF s'] show ?thesis by simp
qed

section \<open>Rotation\<close>

lemma require_job_Ok:
  "require_job i states s = (Inr j, s') \<longleftrightarrow> read_job s i = Some j \<and> rj_status j \<in> set states \<and> s' = s"
  by (auto simp: require_job_def sx_simps load_rotation_job_def ok_or_def
      split: option.splits if_splits)

lemma start_rotation_Ok:
  assumes "start_rotation X H D ref pt pass ty s = (Inr j, s')"
  shows "\<exists>h k r. unlock X H (Some pass) s = (Inr (h, k), s) \<and>
     seal_version X D h k ref (rj_staged_version j) pt ty = Ok r \<and>
     rj_staged_version j = next_version (max_version s ref) \<and> rj_job_id j = dr_uuid D \<and>
     rj_staged_record j = r\<lparr>sr_status := Staged\<rparr> \<and> rj_status j = RStaged \<and> rj_secret_ref j = ref \<and>
     read_job s' (rj_job_id j) = Some j \<and> vs_secrets s' = vs_secrets s \<and> vs_header s' = vs_header s"
  using assms unfolding start_rotation_def Let_def
  by (auto simp: sx_Ok st_Ok loads_Ok saves_Ok append_audit_Ok unlock_Ok rotation_create_def Let_def
      st_jobs.get_put) (auto simp: write_job_def)

lemma verify_rotation_Ok:
  assumes "verify_rotation X H D i pass s = (Inr j', s')"
  shows "\<exists>j. read_job s i = Some j \<and> rj_status j = RStaged \<and>
     j' = rotation_transition X (dr_job_clock D) j RVerified None \<and>
     read_job s' (rj_job_id j) = Some j' \<and> vs_secrets s' = vs_secrets s \<and> vs_header s' = vs_header s"
  using assms unfolding verify_rotation_def Let_def
  by (auto simp: sx_Ok st_Ok saves_Ok append_audit_Ok unlock_Ok require_job_Ok rotation_transition_def
      st_jobs.get_put) (auto simp: write_job_def)

lemma promote_rotation_Ok:
  assumes "promote_rotation X H D i pass s = (Inr j', s')"
  shows "\<exists>h k j pt. unlock X H (Some pass) s = (Inr (h, k), s) \<and>
     read_job s i = Some j \<and> rj_status j = RVerified \<and>
     decrypt_secret X k (rj_staged_record j) = Ok pt \<and>
     j' = rotation_transition X (dr_job_clock D) j RPromoted None \<and>
     read_job s' (rj_job_id j) = Some j' \<and> vs_header s' = vs_header s \<and>
     vs_secrets s' = vs_secrets (write_secret (sr_secret_ref (rj_staged_record j))
       (sr_secret_version (rj_staged_record j)) ((rj_staged_record j)\<lparr>sr_status := Active\<rparr>) s)"
  using assms unfolding promote_rotation_def Let_def
  by (auto simp: sx_Ok st_Ok saves_Ok append_audit_Ok unlock_Ok require_job_Ok rotation_transition_def
      save_redaction_fingerprint_def st_jobs.get_put map_err_Ok_iff split: if_splits)
    (auto simp: write_job_def write_secret_def secret_versions_def)

text \<open>A promotion makes the staged record the latest, where its version is not below the others.\<close>

lemma promote_latest:
  assumes "vault_inv X H K s" "promote_rotation X H D i pass s = (Inr j', s')"
    and "read_job s i = Some j" "\<forall>m. max_version s (rj_secret_ref j) = Some m \<longrightarrow> m \<le> rj_staged_version j"
  shows "latest_secret s' (rj_secret_ref j) = Some ((rj_staged_record j)\<lparr>sr_status := Active\<rparr>)"
    and "tbl_get (rj_staged_version j) (secret_versions s' (rj_secret_ref j)) =
           Some ((rj_staged_record j)\<lparr>sr_status := Active\<rparr>)"
proof -
  let ?r = "(rj_staged_record j)\<lparr>sr_status := Active\<rparr>"
  from assms(1,3) have "job_good j" by (simp add: vault_inv_def)
  with promote_rotation_Ok [OF assms(2)] assms(3) have
    s': "vs_secrets s' = vs_secrets (write_secret (rj_secret_ref j) (rj_staged_version j) ?r s)"
    by (auto simp: job_good_def)
  from assms(4) have "latest_secret (write_secret (rj_secret_ref j) (rj_staged_version j) ?r s) (rj_secret_ref j) = Some ?r"
    by (intro latest_after_write inv_versions [OF assms(1)])
  with secrets_cong [OF s'] show "latest_secret s' (rj_secret_ref j) = Some ?r" by simp
  show "tbl_get (rj_staged_version j) (secret_versions s' (rj_secret_ref j)) = Some ?r"
    using secrets_cong [OF s'] by (simp add: secret_versions_write tbl_simps)
qed

section \<open>Creating a vault\<close>

lemma audit_append_first: "link_ok X k zero_hash (audit_append X k [] u c v n ty sev dec m)"
  using audit_append_link [of X k "[]"] by simp

lemma init_passphrase_inv:
  assumes "env_ok X H" "init_passphrase X D pass ns empty_store = (Inr h, s)"
  shows "vault_inv X H \<lparr>kh_vault_id = dr_uuid D, kh_root_key = dr_root_key D\<rparr> s"
proof -
  let ?K = "\<lparr>kh_vault_id = dr_uuid D, kh_root_key = dr_root_key D\<rparr>"
  from assms(1) have env: "aead_authentic X" "codec_ok X" by (auto simp: env_ok_def)
  from assms(2) obtain b e where
    b: "wrap_root_key X default_scrypt (dr_salt D) (dr_wrap_nonce D) (dr_uuid D) (dr_root_key D) pass = Ok b" and
    h: "vh_vault_id h = dr_uuid D" "vh_provider_binding h = binding_json b" and
    s: "s = empty_store\<lparr>vs_header := Some h, vs_audit := [e]\<rparr>" and
    e: "link_ok X (audit_integrity_key X ?K) zero_hash e"
    by (auto simp: audit_append_first init_passphrase_def finish_init_def sx_Ok st_Ok create_vault_def Let_def
        map_err_Ok_iff res_bind_Ok_iff key_hierarchy_new_def append_audit_Ok empty_store_def
        split: if_splits)
  have "header_bound X H ?K h"
  proof -
    have "key = dr_root_key D" if u: "unwrap_binding X H h p = Ok key" for p key
    proof -
      from u have "\<exists>p. unwrap_root_key X (vh_vault_id h) b p = Ok key"
        by (auto simp: unwrap_binding_def Let_def h(2) binding_provider(1) [OF b] res_bind_Ok_iff ok_or_Ok_iff
            map_err_Ok_iff passphrase_provider_id_def tpm2_provider_id_def tpm2_esapi_provider_id_def)
      with passphrase_opens_to [OF env b] show ?thesis by blast
    qed
    with h(1) show ?thesis by (simp add: header_bound_def)
  qed
  moreover have "verify_audit_chain X [e] (audit_integrity_key X ?K) = Ok ()"
    using e by (simp add: verify_audit_chain_def verify_from_Cons del: verify_from.simps(2))
  ultimately show ?thesis
    by (simp add: s vault_inv_def tables_ok_def empty_store_def versions_ok_def read_ticket_def read_job_def
        read_policy_def secret_versions_def)
qed

section \<open>Renewal\<close>

lemma renew_ticket_Ok:
  assumes "renew_ticket X H D i r pass s = (Inr n, s')"
  shows "\<exists>h k t p. unlock X H (Some pass) s = (Inr (h, k), s) \<and> read_ticket s i = Some t \<and>
     ticket_accepted X (ticket_mac_key X k) (dr_clock D) r s t \<and>
     issue X (ticket_mac_key X k) (dr_uuid D) (vh_vault_id h) (tk_secret_id t) (tk_secret_version t) r p
       (policy_hash X p) (tk_broker_session_id t) = Some n \<and>
     ap_policy_id p = tk_policy_id t \<and> read_ticket s' (tk_ticket_id n) = Some n \<and>
     (tk_ticket_id n \<noteq> tk_ticket_id t \<longrightarrow>
       (\<exists>u. read_ticket s' (tk_ticket_id t) = Some u \<and> tk_revoked u))"
  using assms unfolding renew_ticket_def Let_def
  by (auto simp: sx_Ok st_Ok validate_ticket_Ok active_policy_Ok map_err_Ok_iff ok_or_Ok_iff saves_Ok
      append_audit_Ok st_tickets.get_put revoke_Ok_iff find_Some_iff unlock_Ok)

lemma renew_ticket_succeeds:
  assumes "unlock X H (Some pass) s = (Inr (h, k), s)"
    and "read_ticket s i = Some t" "ticket_accepted X (ticket_mac_key X k) (dr_clock D) r s t"
    and "find (\<lambda>p. ap_policy_id p = tk_policy_id t) (map snd (vs_policies s)) = Some p"
    and "rt_add_seconds X (ar_now r) (sint (ap_max_ticket_ttl_seconds p)) = Some e"
    and "dr_audit_uuid D \<notin> ae_event_id ` set (vs_audit s)"
  shows "\<exists>n s'. renew_ticket X H D i r pass s = (Inr n, s') \<and>
     tk_uses_remaining n = ap_max_uses p \<and> tk_expires_at n = rt_utc_millis X e \<and>
     tk_secret_ref n = ar_secret_ref r"
proof -
  obtain n where n: "issue X (ticket_mac_key X k) (dr_uuid D) (vh_vault_id h) (tk_secret_id t)
      (tk_secret_version t) r p (policy_hash X p) (tk_broker_session_id t) = Some n"
    and nf: "tk_uses_remaining n = ap_max_uses p" "tk_expires_at n = rt_utc_millis X e"
      "tk_secret_ref n = ar_secret_ref r"
    using assms(5) by (simp add: issue_def Let_def ticket_seal_def)
  have v: "validate_ticket X H (dr_clock D) i r pass s = (Inr t, s)"
    using assms(1-3) by (auto simp: validate_ticket_Ok)
  have p: "active_policy_for_ticket t s = (Inr p, s)"
    using assms(4) by (simp add: active_policy_Ok)
  obtain u where u: "revoke X (ticket_mac_key X k) t = Ok u"
    using assms(3) by (auto simp: ticket_accepted_def ticket_live_def revoke_Ok_iff)
  let ?s1 = "write_ticket (tk_ticket_id n) n (write_ticket (tk_ticket_id u) u s)"
  let ?m = "[(''old_ticket_id'', JStr (tk_ticket_id t)), (''ticket_id'', JStr (tk_ticket_id n)),
        (''secret_ref'', JStr (tk_secret_ref n)), (''policy_id'', JStr (tk_policy_id n))]"
  obtain a s2 where a: "append_audit X D h k ''ticket.renewed'' ''info'' ''allow'' ?m ?s1 = (Inr a, s2)"
    using assms(6) by (simp add: append_audit_Ok)
  have "renew_ticket X H D i r pass s = (Inr n, s2)"
    unfolding renew_ticket_def
    by (simp add: sx_bind_def assms(1) v p sx_lift_def n u st_def save_ticket_def a sx_return_def)
  with nf show ?thesis by blast
qed

section \<open>Recovery\<close>

text \<open>
  Recovery checks that the package names the vault, not that the key it holds is the vault's:
  with any key the header is rewritten, and the vault opens to that key from then on.
\<close>

lemma wrap_root_key_succeeds:
  assumes "length root_key = key_size" "passphrase_derive X params pass salt = Ok wk"
  shows "\<exists>b. wrap_root_key X params salt nonce vid root_key pass = Ok b"
  using assms by (simp add: wrap_root_key_def)

lemma unlock_rewrapped:
  assumes "aead_ok X" "codec_ok X" "length nonce = 12"
    and "wrap_root_key X params salt nonce (vh_vault_id h) root_key pass = Ok b"
    and "vs_header s = Some (h\<lparr>vh_provider_binding := binding_json b\<rparr>)" "length root_key = key_size"
  shows "unlock X H (Some pass) s =
     (Inr (h\<lparr>vh_provider_binding := binding_json b\<rparr>, \<lparr>kh_vault_id = vh_vault_id h, kh_root_key = root_key\<rparr>), s)"
proof -
  have "unwrap_binding X H (h\<lparr>vh_provider_binding := binding_json b\<rparr>) (Some pass) = Ok root_key"
    using unwrap_wrap [OF assms(1-4)]
    by (simp add: unwrap_binding_def Let_def binding_provider(1) [OF assms(4)] passphrase_provider_id_def
        tpm2_provider_id_def tpm2_esapi_provider_id_def)
  with assms(5,6) show ?thesis by (simp add: unlock_Ok)
qed

lemma recover_takes_any_key:
  assumes "aead_ok X" "codec_ok X" "length (dr_wrap_nonce D) = 12" "length nonce = 12"
    and "vs_header s = Some h" "length root_key = key_size"
    and "create_package X rid clock salt nonce (vh_vault_id h) root_key secret = Ok package"
    and "passphrase_derive X default_scrypt new_pass (dr_salt D) = Ok wk"
    and "dr_audit_uuid D \<notin> ae_event_id ` set (vs_audit s)"
  shows "\<exists>h' s'. recover_provider_from_package X H D package secret ''passphrase'' (Some new_pass) dev s = (Inr h', s') \<and>
     unlock X H (Some new_pass) s' =
       (Inr (h', \<lparr>kh_vault_id = vh_vault_id h, kh_root_key = root_key\<rparr>), s')"
proof -
  obtain b where b: "wrap_root_key X default_scrypt (dr_salt D) (dr_wrap_nonce D) (vh_vault_id h) root_key new_pass = Ok b"
    using wrap_root_key_succeeds [OF assms(6,8)] by blast
  let ?K = "\<lparr>kh_vault_id = vh_vault_id h, kh_root_key = root_key\<rparr>"
  let ?h = "h\<lparr>vh_provider_binding := binding_json b\<rparr>"
  let ?s1 = "s\<lparr>vs_header := Some ?h\<rparr>"
  have rk: "package_unwrap_root_key X package secret = Ok root_key"
    using package_unwrap_create [OF assms(1,2,4,7)] .
  have vid: "rp_vault_id package = vh_vault_id h"
    using assms(7) by (auto simp: create_package_def res_bind_Ok_iff Let_def)
  obtain a s2 where a: "append_audit X D ?h ?K ''recovery.used'' ''critical'' ''allow''
      [(''recovery_id'', JStr (rp_recovery_id package)),
       (''new_provider_id'', json_opt JStr (json_str_of ''provider_id'' (binding_json b)))] ?s1 = (Inr a, s2)"
    and s2: "vs_header s2 = Some ?h"
    using assms(9) by (simp add: append_audit_Ok)
  have "recover_provider_from_package X H D package secret ''passphrase'' (Some new_pass) dev s = (Inr ?h, s2)"
    unfolding recover_provider_from_package_def Let_def
    by (simp add: sx_bind_def st_def load_header_def assms(5) sx_require_def vid sx_lift_def rk
        key_hierarchy_new_def assms(6) wrap_for_def b update_header_def a sx_return_def)
  with unlock_rewrapped [OF assms(1,2,3) b s2 assms(6), of H] show ?thesis by blast
qed

section \<open>Enrolling and checking a one-time password\<close>

lemma enroll_totp_Ok:
  assumes "vault_inv X H K s" "enroll_totp_mfa X H D pass issuer account s = (Inr res, s')"
  shows "\<exists>h k r ver. unlock X H (Some pass) s = (Inr (h, k), s) \<and>
     seal_version X D h k totp_secret_ref ver
       (rt_struct_text X (totp_fields (new_totp_config (dr_seed D) issuer account))) Token = Ok r \<and>
     latest_secret s' totp_secret_ref = Some r \<and> vs_header s' = vs_header s"
proof -
  from assms(2) obtain h k r where ul: "unlock X H (Some pass) s = (Inr (h, k), s)" and
    r: "seal_version X D h k totp_secret_ref (next_version (max_version s totp_secret_ref))
       (rt_struct_text X (totp_fields (new_totp_config (dr_seed D) issuer account))) Token = Ok r" and
    s': "vs_secrets s' = vs_secrets (write_secret (sr_secret_ref r) (sr_secret_version r) r s)"
      "vs_header s' = vs_header s"
    unfolding enroll_totp_mfa_def Let_def
    by (auto simp: sx_Ok st_Ok loads_Ok saves_Ok append_audit_Ok unlock_Ok)
  have "latest_secret (write_secret totp_secret_ref (next_version (max_version s totp_secret_ref)) r s)
      totp_secret_ref = Some r"
    using next_version_above [of s totp_secret_ref]
    by (intro latest_after_write inv_versions [OF assms(1)]) (auto intro: less_imp_le)
  with ul r s'(2) secrets_cong [OF s'(1)] seal_version_fields [OF r] show ?thesis by auto
qed

lemma enrolled_code_verifies:
  assumes "vault_inv X H K s" "enroll_totp_mfa X H D pass issuer account s = (Inr res, s')"
    and "seal_with X D" "dr_seed D \<noteq> []"
    and "rt_json_parse X (rt_struct_text X (totp_fields (new_totp_config (dr_seed D) issuer account))) =
         Some (json_obj (totp_fields (new_totp_config (dr_seed D) issuer account)))"
    and "0 \<le> dr_clock D'" "totp_at_step X (dr_seed D) step 6 = Ok code"
    and "\<bar>int step - dr_clock D' div 30000000000\<bar> \<le> 1"
    and "dr_audit_uuid D' \<notin> ae_event_id ` set (vs_audit s')"
  shows "fst (verify_totp_mfa X H D' pass code s') = Ok ()"
proof -
  let ?c = "new_totp_config (dr_seed D) issuer account"
  let ?now = "nat (max (dr_clock D' div 1000000000) 0)"
  from enroll_totp_Ok [OF assms(1,2)] obtain h k r ver where
    ul: "unlock X H (Some pass) s = (Inr (h, k), s)" and
    r: "seal_version X D h k totp_secret_ref ver (rt_struct_text X (totp_fields ?c)) Token = Ok r" and
    l: "latest_secret s' totp_secret_ref = Some r" and hd: "vs_header s' = vs_header s" by blast
  from ul hd have ul': "unlock X H (Some pass) s' = (Inr (h, k), s')" by (simp add: unlock_Ok)
  have dec: "decrypt_secret X k r = Ok (rt_struct_text X (totp_fields ?c))" "sr_status r = Active"
    using seal_version_fields [OF r] assms(3) by auto
  have parse: "Option.bind (rt_json_parse X (rt_struct_text X (totp_fields ?c))) totp_of_json = Some ?c"
    using assms(5) by (simp add: totp_of_json_fields new_totp_config_def default_totp_digits_def
        default_totp_period_seconds_def)
  have now: "int (?now div 30) = dr_clock D' div 30000000000"
    using assms(6) by (simp add: zdiv_int zdiv_zmult2_eq [symmetric])
  have "verify_totp_code X ?c code ?now 1 = Ok True"
  proof -
    have near: "i - j \<in> {-1, 0, 1}" if "\<bar>i - j\<bar> \<le> 1" for i j :: int
      using that by auto
    have "int step - int (?now div 30) \<in> {-1, 0, 1}"
      by (rule near) (use assms(8) in \<open>simp only: now\<close>)
    then have "\<exists>offset \<in> {-1, 0, 1}. 0 \<le> int (?now div 30) + offset \<and>
        totp_at_step X (dr_seed D) (nat (int (?now div 30) + offset)) 6 = Ok code"
      using assms(7) by (intro bexI [of _ "int step - int (?now div 30)"]) auto
    then show ?thesis
      using verify_totp_iff [OF assms(4) normalize_totp_code [OF assms(7)]] by blast
  qed
  moreover obtain a s2 where "append_audit X D' h k ''mfa.totp_verified'' ''info'' ''allow''
      [(''issuer'', JStr (tc_issuer ?c)), (''account'', JStr (tc_account ?c))] s' = (Inr a, s2)"
    using assms(9) by (simp add: append_audit_Ok)
  ultimately show ?thesis
    unfolding verify_totp_mfa_def
    by (simp add: sx_bind_def ul' load_latest_secret_def l dec sx_require_def sx_lift_def parse sx_return_def)
qed

end
