(* ===== verification/Sample_Env.thy ===== *)
theory Sample_Env
  imports Hbse_Release
begin

text \<open>
  Concrete functions for the parameters of the model and a small vault over them. The
  witnesses of the properties use these: they show that the hypotheses on the third-party
  functions hold together, and that the situations the properties speak of occur.
\<close>

section \<open>Functions\<close>

fun sample_text :: "json \<Rightarrow> string" where
  "sample_text JNull = ''null''"
| "sample_text (JBool b) = (if b then ''true'' else ''false'')"
| "sample_text (JInt i) = show_int i"
| "sample_text (JFloat f) = f"
| "sample_text (JStr s) = CHR 0x22 # s @ [CHR 0x22]"
| "sample_text (JArr xs) = ''['' @ concat (map (\<lambda>x. sample_text x @ '','') xs) @ '']''"
| "sample_text (JObj m) = ''{'' @ concat (map (\<lambda>e. fst e @ '':'' @ sample_text (snd e) @ '','') m) @ ''}''"

definition read_int :: "string \<Rightarrow> int" where
  "read_int s = (case s of [] \<Rightarrow> 0 | c # r \<Rightarrow> if c = CHR ''-'' then - int (read_dec r) else int (read_dec s))"

definition pad :: "nat \<Rightarrow> bytes \<Rightarrow> bytes" where
  "pad n b = take n (b @ replicate n (CHR 0x00))"

definition sample_seal :: "bytes \<Rightarrow> bytes \<Rightarrow> bytes \<Rightarrow> bytes \<Rightarrow> bytes" where
  "sample_seal key nonce plain aad = pad 4 key @ plain"

definition sample_open :: "bytes \<Rightarrow> bytes \<Rightarrow> bytes \<Rightarrow> bytes \<Rightarrow> bytes option" where
  "sample_open key nonce cipher aad = (if take 4 cipher = pad 4 key then Some (drop 4 cipher) else None)"

definition sample_seed :: bytes where "sample_seed = ''seedseedseedseedseed''"

definition sample_totp :: totp_config where
  "sample_totp = new_totp_config sample_seed ''HBSE'' ''me''"

definition sample_rt :: rt where
  "sample_rt =
     \<lparr>rt_hmac_sha256 = \<lambda>k m. pad 32 (m @ k),
      rt_sha256 = \<lambda>m. m,
      rt_hmac_sha1 = \<lambda>k m. replicate 20 (CHR ''1''),
      rt_b64url = \<lambda>b. b,
      rt_b64url_decode = Some,
      rt_scrypt = \<lambda>n r p i s. Some (pad 32 i),
      rt_json_text = sample_text,
      rt_struct_text = \<lambda>fs. sample_text (json_obj fs),
      rt_json_parse = \<lambda>s. Some (json_obj (totp_fields sample_totp)),
      rt_utc_millis = \<lambda>t. show_int (t - t mod 1000000),
      rt_rfc3339 = show_int,
      rt_parse_rfc3339 = \<lambda>s. Some (read_int s),
      rt_add_seconds = \<lambda>t s. Some (t + s * 1000000000),
      rt_aes_gcm_encrypt = sample_seal,
      rt_aes_gcm_decrypt = sample_open\<rparr>"

definition sample_host :: host where
  "sample_host =
     \<lparr>ho_files = \<lambda>path. None, ho_tpm_wrap = \<lambda>t d v k. Inl ''no TPM'',
      ho_tpm_unwrap = \<lambda>t d b. Inl ''no TPM''\<rparr>"

lemma length_pad [simp]: "length (pad n b) = n"
  by (simp add: pad_def)

lemma read_int_show [simp]: "read_int (show_int i) = i"
proof -
  have "show_nat n \<noteq> CHR ''-'' # r" for n r
    using show_nat_digits [of "CHR ''-''" n] by (auto simp: is_ascii_digit_def)
  then have "read_int (show_nat n) = int n" for n
    using show_nat_nonempty [of n] read_show_nat [of n]
    by (auto simp: read_int_def split: list.split)
  then show ?thesis
    by (simp add: show_int_def read_int_def read_show_nat split: list.split)
qed

lemma sample_sealed [simp]: "sample_open k n (sample_seal k n p a) a = Some p"
  by (simp add: sample_open_def sample_seal_def)

lemma sample_env_ok: "env_ok sample_rt sample_host"
  by (auto simp: env_ok_def aead_authentic_def codec_ok_def tpm_ok_def sample_rt_def sample_host_def
      sample_open_def sample_seal_def)

lemma sample_aead_ok: "aead_ok sample_rt"
  by (simp add: aead_ok_def sample_rt_def)

lemma sample_codec_ok: "codec_ok sample_rt"
  using sample_env_ok by (simp add: env_ok_def)

lemma sample_clock_ok: "clock_ok sample_rt"
  by (simp add: clock_ok_def sample_rt_def)

section \<open>A small vault\<close>

definition sample_root :: bytes where "sample_root = replicate 32 (CHR ''r'')"

definition sample_draws :: "string \<Rightarrow> string \<Rightarrow> time \<Rightarrow> draws" where
  "sample_draws uuid audit_uuid clock =
     \<lparr>dr_clock = clock, dr_job_clock = clock, dr_audit_clock = clock, dr_uuid = uuid,
      dr_audit_uuid = audit_uuid, dr_root_key = sample_root, dr_salt = ''salt'',
      dr_wrap_nonce = replicate 12 (CHR ''n''), dr_dek = replicate 32 (CHR ''d''),
      dr_secret_nonce = replicate 12 (CHR ''s''), dr_dek_nonce = replicate 12 (CHR ''k''),
      dr_seed = sample_seed\<rparr>"

definition sample_keys :: key_hierarchy where
  "sample_keys = \<lparr>kh_vault_id = ''v'', kh_root_key = sample_root\<rparr>"

definition sample_binding :: passphrase_binding where
  "sample_binding =
     \<lparr>pb_provider_id = passphrase_provider_id, pb_kdf = ''scrypt'', pb_kdf_params = default_scrypt,
      pb_salt = ''salt'', pb_nonce = replicate 12 (CHR ''n''),
      pb_wrapped_root_key = sample_seal (pad 32 ''pw'') [] sample_root [],
      pb_assurance_level = ''A1'',
      pb_warning = ''MVP passphrase provider; enroll a hardware provider before production use.''\<rparr>"

definition sample_header :: vault_header where
  "sample_header =
     \<lparr>vh_schema_version = 1, vh_vault_id = ''v'', vh_namespace_id = ''ns'',
      vh_provider_binding = binding_json sample_binding, vh_created_at = ''0''\<rparr>"

definition sample_policy :: access_policy where
  "sample_policy = (default_policy ''p'')
     \<lparr>ap_secret_refs := [''secret://a''], ap_allowed_consumers := [''*''], ap_allowed_purposes := [''*''],
      ap_allowed_delivery_modes := [Pipe], ap_max_uses := 2, ap_expires_at := Some 1000000000\<rparr>"

definition sample_request :: "time \<Rightarrow> access_request" where
  "sample_request now =
     \<lparr>ar_secret_ref = ''secret://a'', ar_consumer = ''agent'', ar_purpose = ''deploy'',
      ar_delivery_mode = Pipe, ar_provider_assurance = ''A1'', ar_raw_export_requested = False,
      ar_http_host = None, ar_http_scheme = None, ar_http_method = None, ar_http_path = None,
      ar_http_request_body_bytes = None, ar_os_uid = None, ar_executable_path = None,
      ar_executable_sha256 = None, ar_mfa_verified = False, ar_broker_session_id = None,
      ar_now = now\<rparr>"

definition sample_version :: "nat \<Rightarrow> bytes \<Rightarrow> secret_record" where
  "sample_version ver pt =
     encrypt_secret sample_rt 0 (replicate 32 (CHR ''d'')) (replicate 12 (CHR ''s''))
       (replicate 12 (CHR ''k'')) sample_keys ''ns'' ''id'' ''secret://a'' ver pt ApiKey
       default_policy_id default_policy_hash ''mh'' default_provider_policy_hash"

definition sample_record :: secret_record where
  "sample_record = sample_version 1 ''hunter2''"

definition sample_ticket :: ticket where
  "sample_ticket =
     the (issue sample_rt (ticket_mac_key sample_rt sample_keys) ''t'' ''v'' ''id'' 1 (sample_request 0)
       sample_policy (policy_hash sample_rt sample_policy) None)"

definition sample_job :: rotation_job where
  "sample_job = (rotation_create sample_rt ''j'' 0 ''v'' ''secret://a'' 2
       ((sample_version 2 ''staged'')\<lparr>sr_status := Staged\<rparr>))
     \<lparr>rj_status := RVerified\<rparr>"

definition sample_store :: vault_store where
  "sample_store =
     \<lparr>vs_header = Some sample_header, vs_metadata = [], vs_secrets = [(''secret://a'', [(1, sample_record)])],
      vs_policies = [(''p'', sample_policy)], vs_tickets = [(''t'', sample_ticket)], vs_audit = [],
      vs_fingerprints = [], vs_jobs = [(''j'', sample_job)]\<rparr>"

lemma sample_wrap:
  "wrap_root_key sample_rt default_scrypt ''salt'' (replicate 12 (CHR ''n'')) ''v'' sample_root ''pw'' = Ok sample_binding"
  by (simp add: wrap_root_key_def passphrase_derive_def default_scrypt_derive sample_root_def key_size_def
      sample_binding_def) (simp add: sample_rt_def sample_seal_def)

lemma sample_header_bound: "header_bound sample_rt sample_host sample_keys sample_header"
proof -
  have "key = sample_root" if "unwrap_binding sample_rt sample_host sample_header p = Ok key" for p key
  proof -
    have "\<exists>p. unwrap_root_key sample_rt (vh_vault_id sample_header) sample_binding p = Ok key"
      using that
      by (auto simp: sample_header_def unwrap_binding_def Let_def binding_provider(1) [OF sample_wrap]
          res_bind_Ok_iff ok_or_Ok_iff map_err_Ok_iff passphrase_provider_id_def tpm2_provider_id_def
          tpm2_esapi_provider_id_def)
    moreover have "aead_authentic sample_rt" using sample_env_ok by (simp add: env_ok_def)
    ultimately show ?thesis
      using passphrase_opens_to [OF _ sample_codec_ok sample_wrap] by blast
  qed
  then show ?thesis by (simp add: header_bound_def sample_header_def sample_keys_def)
qed

lemma sample_unlock:
  assumes "vs_header s = Some sample_header"
  shows "unlock sample_rt sample_host (Some ''pw'') s = (Inr (sample_header, sample_keys), s)"
proof -
  have w: "wrap_root_key sample_rt default_scrypt ''salt'' (replicate 12 (CHR ''n''))
      (vh_vault_id sample_header) sample_root ''pw'' = Ok sample_binding"
    using sample_wrap by (simp add: sample_header_def)
  have h: "sample_header\<lparr>vh_provider_binding := binding_json sample_binding\<rparr> = sample_header"
    by (simp add: sample_header_def)
  have "length sample_root = key_size" by (simp add: sample_root_def key_size_def)
  with unlock_rewrapped [OF sample_aead_ok sample_codec_ok _ w, of s sample_host] assms h show ?thesis
    by (simp add: sample_keys_def sample_header_def)
qed

lemma sample_issue:
  "issue sample_rt (ticket_mac_key sample_rt sample_keys) ''t'' ''v'' ''id'' 1 (sample_request 0)
     sample_policy (policy_hash sample_rt sample_policy) None = Some sample_ticket"
  unfolding sample_ticket_def by (simp add: issue_def Let_def) (simp add: sample_rt_def)

lemmas sample_ticket_facts = issue_Some_D [OF sample_issue sample_clock_ok]

lemma sample_policy_fields [simp]:
  "ap_policy_id sample_policy = ''p''" "ap_max_uses sample_policy = 2"
  "ap_max_ticket_ttl_seconds sample_policy = 60" "ap_expires_at sample_policy = Some 1000000000"
  by (simp_all add: sample_policy_def default_policy_def default_ticket_ttl_def)

lemma sample_permits: "now \<le> 1000000000 \<Longrightarrow> policy_permits sample_policy (sample_request now)"
  by (simp add: policy_permits_def sample_policy_def default_policy_def sample_request_def covers_def
      not_denied_def is_some_and_def allow_list_ok_def export_permits_def assurance_rank_def
      default_minimum_provider_assurance_def)

lemma sample_expired: "1000000000 < now \<Longrightarrow> \<not> policy_permits sample_policy (sample_request now)"
  by (simp add: policy_permits_def sample_request_def)

lemma sample_version_fields [simp]:
  "sr_secret_ref (sample_version ver pt) = ''secret://a''" "sr_secret_version (sample_version ver pt) = ver"
  "sr_status (sample_version ver pt) = Active"
  by (simp_all add: sample_version_def)

lemma sample_record_fields [simp]:
  "sr_secret_ref sample_record = ''secret://a''" "sr_secret_version sample_record = 1"
  "sr_status sample_record = Active"
  by (simp_all add: sample_record_def)

lemma sample_version_opens: "decrypt_secret sample_rt sample_keys (sample_version ver pt) = Ok pt"
  unfolding sample_version_def
  by (rule decrypt_encrypt [OF sample_aead_ok sample_codec_ok]) (simp_all add: key_size_def nonce_size_def)

lemma sample_record_opens: "decrypt_secret sample_rt sample_keys sample_record = Ok ''hunter2''"
  unfolding sample_record_def by (rule sample_version_opens)

lemma sample_reads [simp]:
  "vs_header sample_store = Some sample_header" "vs_audit sample_store = []"
  "read_ticket sample_store k = (if k = ''t'' then Some sample_ticket else None)"
  "read_job sample_store k = (if k = ''j'' then Some sample_job else None)"
  "read_policy sample_store k = (if k = ''p'' then Some sample_policy else None)"
  "secret_versions sample_store ref = (if ref = ''secret://a'' then [(1, sample_record)] else [])"
  "map snd (vs_policies sample_store) = [sample_policy]"
  by (simp_all add: sample_store_def read_ticket_def read_job_def read_policy_def secret_versions_def
      tbl_get_Cons)

lemma sample_latest [simp]:
  "latest_secret sample_store ''secret://a'' = Some sample_record"
  "max_version sample_store ''secret://a'' = Some 1"
  by (simp_all add: latest_secret_def max_version_def)

lemma sample_job_fields [simp]:
  "rj_job_id sample_job = ''j''" "rj_status sample_job = RVerified" "rj_secret_ref sample_job = ''secret://a''"
  "rj_staged_version sample_job = 2"
  "rj_staged_record sample_job = (sample_version 2 ''staged'')\<lparr>sr_status := Staged\<rparr>"
  by (simp_all add: sample_job_def rotation_create_def Let_def)

lemma sample_inv: "vault_inv sample_rt sample_host sample_keys sample_store"
proof -
  have "tables_ok sample_store"
    using sample_ticket_facts(3)
    by (auto simp: tables_ok_def versions_ok_def tbl_get_Cons split: if_splits)
      (simp_all add: sample_store_def tbl_ok_Cons)
  moreover have "ticket_good sample_rt sample_keys sample_ticket"
    using sample_ticket_facts(1,4,5) by (simp add: ticket_good_def)
  moreover have "job_good sample_job" by (simp add: job_good_def)
  ultimately show ?thesis
    using sample_header_bound by (simp add: vault_inv_def verify_audit_chain_def)
qed

lemma sample_validated: "validate_policy sample_ticket sample_policy (policy_hash sample_rt sample_policy) = Ok ()"
  using sample_ticket_facts(6,7) by (simp add: validate_policy_def)

lemma sample_expiry: "rt_parse_rfc3339 sample_rt (tk_expires_at sample_ticket) = Some 60000000000"
  using sample_ticket_facts(11) by (simp add: sample_request_def)

lemma sample_accepted:
  assumes "clock \<le> 60000000000"
  shows "ticket_accepted sample_rt (ticket_mac_key sample_rt sample_keys) clock (sample_request now)
     sample_store sample_ticket"
proof -
  have "ticket_context_ok sample_ticket (sample_request 0)"
    by (rule sample_ticket_facts(12)) (simp add: sample_request_def)
  then have "ticket_context_ok sample_ticket (sample_request now)"
    by (simp add: ticket_context_ok_def sample_request_def)
  moreover have "ticket_live sample_rt (ticket_mac_key sample_rt sample_keys) sample_ticket clock"
    using assms sample_ticket_facts(1,2,4) sample_expiry by (auto simp: ticket_live_def)
  ultimately show ?thesis
    using sample_validated sample_ticket_facts(6,8,9)
    by (simp add: ticket_accepted_def sample_request_def)
qed

text \<open>A vault created by the program, and calls on the small vault that succeed.\<close>

lemma sample_init:
  "\<exists>h s. init_passphrase sample_rt (sample_draws ''v'' ''a0'' 0) ''pw'' ''ns'' empty_store = (Inr h, s) \<and>
     vs_tickets s = [] \<and> vs_jobs s = []"
proof -
  let ?D = "sample_draws ''v'' ''a0'' 0"
  have "wrap_root_key sample_rt default_scrypt (dr_salt ?D) (dr_wrap_nonce ?D) (dr_uuid ?D)
      (dr_root_key ?D) ''pw'' = Ok sample_binding"
    using sample_wrap by (simp add: sample_draws_def)
  moreover have "length (dr_root_key ?D) = key_size"
    by (simp add: sample_draws_def sample_root_def key_size_def)
  moreover define h where "h = \<lparr>vh_schema_version = 1, vh_vault_id = dr_uuid ?D, vh_namespace_id = ''ns'',
      vh_provider_binding = binding_json sample_binding, vh_created_at = rt_utc_millis sample_rt (dr_clock ?D)\<rparr>"
  moreover obtain e where "append_audit sample_rt ?D h \<lparr>kh_vault_id = dr_uuid ?D, kh_root_key = dr_root_key ?D\<rparr>
      ''vault.initialized'' ''info'' ''allow''
      [(''provider_id'', json_opt JStr (json_str_of ''provider_id'' (binding_json sample_binding))),
       (''assurance_level'', json_opt JStr (json_str_of ''assurance_level'' (binding_json sample_binding)))]
      (empty_store\<lparr>vs_header := Some h\<rparr>) = (Inr e, empty_store\<lparr>vs_header := Some h, vs_audit := [e]\<rparr>)"
    by (rule append_audit_fresh [of ?D "empty_store\<lparr>vs_header := Some h\<rparr>"]) (simp_all add: empty_store_def)
  ultimately have "init_passphrase sample_rt ?D ''pw'' ''ns'' empty_store =
      (Inr h, empty_store\<lparr>vs_header := Some h, vs_audit := [e]\<rparr>)"
    by (simp add: init_passphrase_def finish_init_def sx_bind_def sx_lift_def st_def create_vault_def Let_def
        key_hierarchy_new_def sx_return_def) (simp add: empty_store_def)
  then show ?thesis by (auto simp: empty_store_def)
qed

lemma sample_consume:
  "\<exists>s'. consume_ticket_for_secret sample_rt sample_host (sample_draws ''u'' ''a1'' 5) ''t''
      (sample_request 5) ''pw'' sample_store = (Inr ''hunter2'', s')"
proof -
  let ?D = "sample_draws ''u'' ''a1'' 5"
  let ?k = "ticket_mac_key sample_rt sample_keys"
  have acc: "ticket_accepted sample_rt ?k (dr_clock ?D) (sample_request 5) sample_store sample_ticket"
    using sample_accepted [of 5 5] by (simp add: sample_draws_def)
  then obtain u where u: "consume sample_rt ?k sample_ticket (sample_request 5) (dr_clock ?D) = Ok u"
    by (auto simp: ticket_accepted_def consume_Ok_iff)
  have found: "found_ticket ''t'' sample_store = (Inr sample_ticket, sample_store)"
    by (simp add: found_ticket_Ok)
  have pol: "active_policy_for_ticket sample_ticket sample_store = (Inr sample_policy, sample_store)"
    using sample_ticket_facts(6) by (simp add: active_policy_Ok)
  have cur: "ensure_ticket_secret_is_current sample_ticket sample_store = (Inr (), sample_store)"
    using acc by (simp add: ensure_current_Ok ticket_accepted_def)
  have save: "save_ticket_if_current sample_ticket u sample_store = (Inr (), write_ticket ''t'' u sample_store)"
    using sample_ticket_facts(3) by (simp add: save_ticket_if_current_def)
  have rec: "load_ticket_record sample_ticket (write_ticket ''t'' u sample_store) =
      (Inr sample_record, write_ticket ''t'' u sample_store)"
    using sample_ticket_facts(8,9)
    by (simp add: load_ticket_record_def st_def load_secret_version_def sql_u64_def tbl_get_Cons sample_request_def)
  have "\<exists>s'. release_record sample_rt ?D sample_header sample_keys sample_ticket (sample_request 5)
      sample_record (write_ticket ''t'' u sample_store) = (Inr ''hunter2'', s')"
    by (auto simp: release_record_def sx_Ok sample_record_opens append_audit_Ok map_err_Ok_iff)
  then obtain s' where rel: "release_record sample_rt ?D sample_header sample_keys sample_ticket
      (sample_request 5) sample_record (write_ticket ''t'' u sample_store) = (Inr ''hunter2'', s')" by blast
  have "consume_ticket_for_secret sample_rt sample_host ?D ''t'' (sample_request 5) ''pw'' sample_store =
      (Inr ''hunter2'', s')"
    unfolding consume_ticket_for_secret_def
    by (simp add: sx_bind_def sx_return_def sample_unlock found sx_lift_def u pol sample_validated cur
        st_def save rec rel) (simp add: sample_request_def)
  then show ?thesis ..
qed

lemma sample_issue_ticket:
  "\<exists>t s'. issue_ticket sample_rt sample_host (sample_draws ''u'' ''a1'' 5) (sample_request 5) ''pw''
     sample_store = (Inr t, s')"
proof -
  let ?D = "sample_draws ''u'' ''a1'' 5"
  obtain t where t: "issue sample_rt (ticket_mac_key sample_rt sample_keys) (dr_uuid ?D) (vh_vault_id sample_header)
      (sr_secret_id sample_record) 1 (sample_request 5) sample_policy
      (policy_hash sample_rt sample_policy) None = Some t"
    by (simp add: issue_def Let_def) (simp add: sample_rt_def)
  have ev: "evaluate [sample_policy] (sample_request 5) =
      \<lparr>ev_decision = Allow, ev_reason = ''allowed'', ev_policy = Some sample_policy\<rparr>"
    using sample_permits [of 5] by (simp add: evaluate_find del: evaluate.simps)
  have "ar_secret_ref (sample_request 5) = ''secret://a''" "ar_broker_session_id (sample_request 5) = None"
    by (simp_all add: sample_request_def)
  then show ?thesis
    by (simp add: issue_ticket_def sx_Ok st_Ok loads_Ok sample_unlock ev t Let_def saves_Ok append_audit_Ok
        ok_or_Ok_iff del: evaluate.simps)
qed

definition sample_revoked :: vault_store where
  "sample_revoked = write_ticket ''t''
     (ticket_seal sample_rt (ticket_mac_key sample_rt sample_keys) (sample_ticket\<lparr>tk_revoked := True\<rparr>)) sample_store"

lemma sample_revoked_read:
  "\<exists>t. read_ticket sample_revoked ''t'' = Some t \<and> tk_revoked t"
  by (simp add: sample_revoked_def st_tickets.get_put)

lemma sample_revoked_inv: "vault_inv sample_rt sample_host sample_keys sample_revoked"
proof -
  let ?u = "ticket_seal sample_rt (ticket_mac_key sample_rt sample_keys) (sample_ticket\<lparr>tk_revoked := True\<rparr>)"
  have "revoke sample_rt (ticket_mac_key sample_rt sample_keys) sample_ticket = Ok ?u"
    using sample_ticket_facts(1) by (simp add: revoke_Ok_iff)
  moreover have "ticket_from sample_rt sample_keys sample_store sample_ticket"
    using hist_ticket_from [OF vault_hist_refl [OF sample_inv], of "''t''" sample_ticket] by simp
  ultimately have u: "ticket_from sample_rt sample_keys sample_store ?u" by (rule revoke_from [rotated])
  have "tk_ticket_id ?u = ''t''" using sample_ticket_facts(3) by simp
  with hist_write_ticket [OF vault_hist_refl [OF sample_inv] u] show ?thesis
    by (simp add: sample_revoked_def vault_hist_def)
qed

lemma sample_seals:
  "seal_version sample_rt (sample_draws uuid audit clock) h k ''secret://a'' ver pt ty = Ok r \<Longrightarrow>
   sr_secret_ref r = ''secret://a'' \<and> sr_secret_version r = ver"
  by (auto dest: seal_version_fields)

lemma sample_put:
  "\<exists>s'. put_secret sample_rt sample_host (sample_draws ''u'' ''a1'' 5) ''secret://a'' ''new'' ''pw'' ApiKey
       sample_store = (Inr 2, s') \<and> ae_event_id ` set (vs_audit s') = {''a1''}"
proof -
  let ?D = "sample_draws ''u'' ''a1'' 5"
  have "secret_id_from_ref sample_rt ''secret://a'' = Ok (take 18 ''secret://a'')"
    by (simp add: secret_id_from_ref_def starts_with_def sample_rt_def)
  then obtain r where r: "seal_version sample_rt ?D sample_header sample_keys ''secret://a'' 2 ''new'' ApiKey = Ok r"
    by (simp add: seal_version_def)
  from sample_seals [OF r] have "sr_secret_version r = 2" by simp
  moreover have "dr_audit_uuid ?D = ''a1''" by (simp add: sample_draws_def)
  moreover have "ae_event_id (audit_append X k es ''a1'' c v n ty sev dec m) = ''a1''"
    for X :: rt and k es c v n ty sev dec m by (simp add: audit_append_def Let_def)
  moreover have "next_version (Some 1) = 2" by (simp add: next_version_def)
  ultimately show ?thesis
    by (simp add: put_secret_def sx_Ok st_Ok loads_Ok sample_unlock Let_def r saves_Ok
        sql_u64_def save_redaction_fingerprint_def append_audit_Ok)
qed

lemma sample_disable:
  "\<exists>r s'. disable_secret sample_rt sample_host (sample_draws ''u'' ''a1'' 5) ''secret://a'' ''pw'' sample_store =
     (Inr r, s')"
  by (simp add: disable_secret_def sx_Ok st_Ok sample_unlock save_updated_secret_status_def loads_Ok saves_Ok
      Let_def sql_u64_def append_audit_Ok)

lemma sample_promote_from:
  assumes "vs_header s = Some sample_header" "read_job s ''j'' = Some sample_job"
    and "''a5'' \<notin> ae_event_id ` set (vs_audit s)"
  shows "\<exists>j s'. promote_rotation sample_rt sample_host (sample_draws ''u'' ''a5'' 5) ''j'' ''pw'' s = (Inr j, s')"
proof -
  have "decrypt_secret sample_rt sample_keys (rj_staged_record sample_job) = Ok ''staged''"
    using sample_version_opens [of 2 "''staged''"] by simp
  moreover have "dr_audit_uuid (sample_draws ''u'' ''a5'' 5) = ''a5''" by (simp add: sample_draws_def)
  moreover have "sr_secret_version (rj_staged_record sample_job) = 2" by simp
  ultimately show ?thesis
    using assms
    by (simp add: promote_rotation_def sx_Ok st_Ok sample_unlock require_job_Ok Let_def saves_Ok
        sql_u64_def save_redaction_fingerprint_def append_audit_Ok del: sample_job_fields(5))
qed

definition sample_code :: string where "sample_code = ''307441''"

lemma sample_code_step: "totp_at_step sample_rt sample_seed step 6 = Ok sample_code"
proof -
  have "rt_hmac_sha1 sample_rt k m = replicate 20 (CHR ''1'')" for k m by (simp add: sample_rt_def)
  moreover have "totp_binary (replicate 20 (CHR ''1'')) = 825307441"
    by (simp add: totp_binary_def Let_def)
  moreover have "show_nat 307441 = ''307441''"
    by (simp add: show_nat.simps digit_char_def char_of_def bit_0)
  ultimately show ?thesis
    by (simp add: totp_at_step_def Let_def zero_pad_def sample_code_def)
qed

lemma sample_enroll:
  "\<exists>res s'. enroll_totp_mfa sample_rt sample_host (sample_draws ''u'' ''a1'' 5) ''pw'' ''HBSE'' ''me''
       sample_store = (Inr res, s') \<and> ae_event_id ` set (vs_audit s') = {''a1''}"
proof -
  let ?D = "sample_draws ''u'' ''a1'' 5"
  let ?pt = "rt_struct_text sample_rt (totp_fields (new_totp_config (dr_seed ?D) ''HBSE'' ''me''))"
  have mx: "max_version sample_store totp_secret_ref = None"
    by (simp add: max_version_def totp_secret_ref_def)
  have "secret_id_from_ref sample_rt totp_secret_ref = Ok (take 18 totp_secret_ref)"
    by (simp add: secret_id_from_ref_def starts_with_def totp_secret_ref_def sample_rt_def)
  then obtain r where r: "seal_version sample_rt ?D sample_header sample_keys totp_secret_ref 1 ?pt Token = Ok r"
    by (simp add: seal_version_def)
  moreover have "dr_audit_uuid ?D = ''a1''" by (simp add: sample_draws_def)
  moreover have "ae_event_id (audit_append X k es ''a1'' c v n ty sev dec m) = ''a1''"
    for X :: rt and k es c v n ty sev dec m by (simp add: audit_append_def Let_def)
  moreover have "next_version None = 1" by (simp add: next_version_def)
  ultimately show ?thesis
    using seal_version_fields(2) [OF r]
    by (simp add: enroll_totp_mfa_def sx_Ok st_Ok loads_Ok sample_unlock Let_def mx saves_Ok
        sql_u64_def append_audit_Ok del: One_nat_def)
qed

lemma sample_seed_nonempty: "sample_seed \<noteq> []"
  by (simp add: sample_seed_def)

lemma sample_draw_fields:
  "dr_seed (sample_draws u a t) = sample_seed" "dr_clock (sample_draws u a t) = t"
  "dr_audit_uuid (sample_draws u a t) = a"
  by (simp_all add: sample_draws_def)

lemma sample_seal_with: "seal_with sample_rt (sample_draws u a t)"
  using sample_aead_ok sample_codec_ok
  by (simp add: seal_with_def sample_draws_def key_size_def nonce_size_def)

lemma sample_totp_text:
  "rt_json_parse sample_rt (rt_struct_text sample_rt (totp_fields (new_totp_config sample_seed ''HBSE'' ''me''))) =
     Some (json_obj (totp_fields (new_totp_config sample_seed ''HBSE'' ''me'')))"
  unfolding sample_totp_def [symmetric] by (subst (1) sample_rt_def) simp

end
