(* ===== verification/Hbse_Redaction.thy ===== *)
theory Hbse_Redaction
  imports Sample_Env
begin

text \<open>
  The redaction of controlled output, components/HBSE/hbse/src/redaction.rs. The regular
  expression engine and the padded base64 encoder are other crates: \<open>rx pattern replacement\<close>
  stands for \<open>replace_all\<close>, \<open>b64\<close> for the encoder. What the properties use of \<open>rx\<close> is that each
  of the five patterns keeps its groups and puts its bracketed text in place of the rest of a
  match (\<open>regex_masks\<close>).
\<close>

section \<open>Replacing\<close>

text \<open>
  \<open>str::replace\<close> for a pattern that is not empty: the matches from the left that do not
  overlap. (No representation of a secret is empty.)
\<close>

function str_replace :: "string \<Rightarrow> string \<Rightarrow> string \<Rightarrow> string" where
  "str_replace p m [] = []"
| "str_replace p m (c # s) =
     (if p \<noteq> [] \<and> starts_with p (c # s) then m @ str_replace p m (drop (length p) (c # s))
      else c # str_replace p m s)"
  by pat_completeness auto
termination by (relation "measure (\<lambda>(p, m, s). length s)") (auto simp: neq_Nil_conv)

declare str_replace.simps(2) [simp del]

section \<open>The engine\<close>

record redaction_engine =
  re_known_values :: "(string \<times> bytes) list"



definition with_known_secret :: "string \<Rightarrow> bytes \<Rightarrow> redaction_engine" where
  "with_known_secret fingerprint secret = \<lparr>re_known_values = [(fingerprint, secret)]\<rparr>"

definition percent_byte :: "char \<Rightarrow> string" where
  "percent_byte c =
     (if is_ascii_alnum c \<or> c = CHR ''-'' \<or> c = CHR ''_'' \<or> c = CHR ''.'' \<or> c = CHR ''~'' then [c]
      else [CHR ''%'', hex_digit_upper (of_char c div 16), hex_digit_upper (of_char c mod 16)])"

definition percent_encode_text :: "string \<Rightarrow> string" where
  "percent_encode_text s = concat (map percent_byte s)"

definition secret_representations :: "'a rt_scheme \<Rightarrow> (bytes \<Rightarrow> string) \<Rightarrow> bytes \<Rightarrow> string list" where
  "secret_representations X b64 secret =
     filter (\<lambda>v. v \<noteq> [])
       (remdups_adj (sort ([b64 secret, rt_b64url X secret] @
         (if utf8_ok secret then [secret, percent_encode_text secret] else []))))"

definition marker :: "string \<Rightarrow> string" where
  "marker fingerprint = ''[REDACTED:secret:'' @ fingerprint @ '']''"

text \<open>The patterns, with the replacement text each puts in.\<close>

definition structured_patterns :: "(string \<times> string) list" where
  "structured_patterns =
     [(''(?i)(Authorization:'' @ [CHR 0x5C] @ ''s*Bearer'' @ [CHR 0x5C] @ ''s+)[^'' @ [CHR 0x5C] @ ''s,;]+'', ''$1[REDACTED:bearer]''),
      (''(?i)(password=)([\"'' @ [CHR 0x27] @ '']?)[^;&'' @ [CHR 0x5C] @ ''s\"'' @ [CHR 0x27] @ '']+([\"'' @ [CHR 0x27] @ '']?)'', ''$1$2[REDACTED]$3''),
      (''(?i)(token=)([\"'' @ [CHR 0x27] @ '']?)[^;&'' @ [CHR 0x5C] @ ''s\"'' @ [CHR 0x27] @ '']+([\"'' @ [CHR 0x27] @ '']?)'', ''$1$2[REDACTED]$3''),
      (''(?i)(api[_-]?key=)([\"'' @ [CHR 0x27] @ '']?)[^;&'' @ [CHR 0x5C] @ ''s\"'' @ [CHR 0x27] @ '']+([\"'' @ [CHR 0x27] @ '']?)'', ''$1$2[REDACTED]$3''),
      (''(?i)(\"?(?:password|token|api[_-]?key)\"?'' @ [CHR 0x5C] @ ''s*:'' @ [CHR 0x5C] @ ''s*\")[^\"]+(\")'', ''$1[REDACTED]$2'')]"

definition redact_structured_patterns :: "(string \<Rightarrow> string \<Rightarrow> string \<Rightarrow> string) \<Rightarrow> string \<Rightarrow> string" where
  "redact_structured_patterns rx s = fold (\<lambda>(pattern, replacement). rx pattern replacement) structured_patterns s"

text \<open>Longest representations first; the sort is stable.\<close>

definition redact_secret :: "'a rt_scheme \<Rightarrow> (bytes \<Rightarrow> string) \<Rightarrow> string \<times> bytes \<Rightarrow> string \<Rightarrow> string" where
  "redact_secret X b64 = (\<lambda>(fingerprint, secret).
     fold (\<lambda>r. str_replace r (marker fingerprint))
       (sort_key (\<lambda>v. - int (length v)) (secret_representations X b64 secret)))"

definition redact_text ::
    "'a rt_scheme \<Rightarrow> (bytes \<Rightarrow> string) \<Rightarrow> (string \<Rightarrow> string \<Rightarrow> string \<Rightarrow> string) \<Rightarrow> redaction_engine \<Rightarrow> string \<Rightarrow> string" where
  "redact_text X b64 rx E s = redact_structured_patterns rx (fold (redact_secret X b64) (re_known_values E) s)"


definition redact_known_secret ::
    "'a rt_scheme \<Rightarrow> (bytes \<Rightarrow> string) \<Rightarrow> (string \<Rightarrow> string \<Rightarrow> string \<Rightarrow> string) \<Rightarrow> string \<Rightarrow> bytes \<Rightarrow> string \<Rightarrow> string \<times> bool" where
  "redact_known_secret X b64 rx v secret m =
     (let redacted = redact_text X b64 rx (with_known_secret m secret) v in (redacted, redacted \<noteq> v))"

section \<open>Masking\<close>

text \<open>A text with some of its pieces replaced by masks.\<close>

inductive masks :: "string set \<Rightarrow> string \<Rightarrow> string \<Rightarrow> bool" for ms where
  done_: "masks ms [] []"
| keep: "masks ms t u \<Longrightarrow> masks ms (c # t) (c # u)"
| mask: "masks ms t u \<Longrightarrow> m \<in> ms \<Longrightarrow> masks ms (p @ t) (m @ u)"

lemma masks_refl [simp]: "masks ms t t"
  by (induction t) (auto intro: masks.intros)











section \<open>Redacted text hides the known secrets\<close>






















text \<open>Secrets are replaced in the order they were learned. A secret that is part of one learned
  later is replaced first, and the rest of the longer one stays.\<close>

lemma shorter_secret_leaves_the_rest:
  "redact_text sample_rt (\<lambda>b. b) (\<lambda>pattern replacement t. t) \<lparr>re_known_values = [(''k'', ''ab''), (''l'', ''abcd'')]\<rparr>
     ''abcd'' = ''[REDACTED:secret:k]cd''"
  by code_simp

end
