(* ===== verification/Command_Policy.thy ===== *)
theory Command_Policy
  imports Runtime_Env
begin

text \<open>
  The reading of a command line by the guardrails, vegvisir/src/guardrails.rs: the name a
  command is allow-listed under, the commands that need a human's approval whatever the
  allow list says, and the detection of \<open>sudo\<close>. A command is the list of its argument
  strings, its first element the program.
\<close>

section \<open>Names and parts\<close>

definition default_allowed_commands :: "string list" where
  "default_allowed_commands =
     [''awk'', ''cargo'', ''cat'', ''find'', ''git'', ''grep'', ''head'', ''ls'', ''nl'', ''node'',
      ''npm'', ''python'', ''python3'', ''pytest'', ''pwd'', ''rg'', ''sed'', ''tail'', ''test'', ''wc'']"

definition normalize_command_name :: "string \<Rightarrow> string option" where
  "normalize_command_name command =
     (let c = trim command
      in if c = [] \<or> starts_with ''-'' c \<or> CHR ''/'' \<in> set c \<or> CHR 0x5C \<in> set c then None
         else Some c)"

definition command_array :: "json table \<Rightarrow> json list option" where
  "command_array args = Option.bind (tbl_get ''command'' args) as_array"

definition first_command_word :: "json table \<Rightarrow> string option" where
  "first_command_word args =
     Option.bind (command_array args)
       (\<lambda>items. case items of [] \<Rightarrow> None | item # _ \<Rightarrow> as_str item)"

definition command_name_from_args :: "json table \<Rightarrow> string option" where
  "command_name_from_args args = Option.bind (first_command_word args) normalize_command_name"

definition command_parts_from_args :: "json table \<Rightarrow> string list" where
  "command_parts_from_args args =
     (case command_array args of None \<Rightarrow> [] | Some items \<Rightarrow> List.map_filter as_str items)"

section \<open>Which argument is the subcommand\<close>

definition command_option_consumes_next :: "string \<Rightarrow> string \<Rightarrow> bool" where
  "command_option_consumes_next program option =
     (if CHR ''='' \<in> set option then False
      else if program = ''git'' then
        option \<in> {''-C'', ''-c'', ''--git-dir'', ''--work-tree'', ''--namespace''}
      else if program = ''cargo'' then option \<in> {''--manifest-path'', ''--target-dir'', ''--config''}
      else if program \<in> {''npm'', ''npx'', ''pnpm'', ''yarn''} then
        option \<in> {''--prefix'', ''--workspace'', ''-w'', ''--userconfig'', ''--registry''}
      else if program = ''gh'' then option \<in> {''--repo'', ''-R'', ''--hostname''}
      else if program \<in> {''docker'', ''podman''} then option \<in> {''--config'', ''--context'', ''-H''}
      else False)"

text \<open>
  The loop of \<open>command_primary_subcommand\<close> on the arguments from \<open>index\<close> on; skipping two
  may pass the end, which ends the loop as well.
\<close>

function primary_subcommand_from :: "string \<Rightarrow> string list \<Rightarrow> string option" where
  "primary_subcommand_from program [] = None"
| "primary_subcommand_from program (arg # rest) =
     (let part = trim arg
      in if part = [] then primary_subcommand_from program rest
         else if part = ''--'' then
           (case rest of [] \<Rightarrow> None | v # _ \<Rightarrow> if trim v = [] then None else Some (trim v))
         else if program = ''cargo'' \<and> starts_with ''+'' part then primary_subcommand_from program rest
         else if starts_with ''-'' part then
           primary_subcommand_from program
             (drop (if command_option_consumes_next program part then 1 else 0) rest)
         else Some part)"
  by pat_completeness auto
termination by (relation "measure (\<lambda>(_, xs). length xs)") auto

definition command_primary_subcommand :: "string \<Rightarrow> string list \<Rightarrow> string option" where
  "command_primary_subcommand program parts = primary_subcommand_from program (drop 1 parts)"

section \<open>Shell strings\<close>

definition shell_command_eval_flag :: "string \<Rightarrow> string \<Rightarrow> bool" where
  "shell_command_eval_flag program flag =
     (if program = ''cmd'' then eq_ignore_ascii_case flag ''/c''
      else if program \<in> {''pwsh'', ''powershell''} then
        flag \<in> {''-Command'', ''-EncodedCommand'', ''-command'', ''-encodedcommand''}
      else flag = ''-c'' \<or>
        (starts_with ''-'' flag \<and> \<not> starts_with ''--'' flag \<and> CHR ''c'' \<in> set (drop 1 flag)))"

definition shell_command_string_invocation :: "string \<Rightarrow> string list \<Rightarrow> bool" where
  "shell_command_string_invocation program parts =
     (program \<in> {''sh'', ''bash'', ''zsh'', ''fish'', ''ksh'', ''dash'', ''pwsh'', ''powershell'', ''cmd''} \<and>
      (\<exists>part \<in> set (drop 1 parts). shell_command_eval_flag program (trim part)))"

definition command_has_arg :: "string list \<Rightarrow> string \<Rightarrow> bool" where
  "command_has_arg parts needle = (\<exists>part \<in> set parts. trim part = needle)"

fun join_words :: "string list \<Rightarrow> string" where
  "join_words [] = []"
| "join_words [w] = w"
| "join_words (w # ws) = w @ '' '' @ join_words ws"

text \<open>The display of a command in a reason, cut to 180 characters with an ellipsis.\<close>

definition compact_command_display :: "string list \<Rightarrow> string" where
  "compact_command_display parts =
     (let display = join_words parts
      in if chars_count display \<le> 180 then display
         else take_chars 179 display @ [CHR 0xE2, CHR 0x80, CHR 0xA6])"

section \<open>Commands that need approval\<close>

record command_approval_requirement =
  ca_risk_label :: string
  ca_reason :: string

definition requirement :: "string \<Rightarrow> string \<Rightarrow> string list \<Rightarrow> command_approval_requirement option" where
  "requirement risk prefix parts =
     Some \<lparr>ca_risk_label = risk, ca_reason = prefix @ '': '' @ compact_command_display parts\<rparr>"

definition registry_subcommands :: "string list" where
  "registry_subcommands =
     [''publish'', ''unpublish'', ''deprecate'', ''dist-tag'', ''owner'', ''token'', ''access'',
      ''adduser'', ''login'', ''logout'', ''profile'', ''team'']"

definition program_requirement ::
    "string \<Rightarrow> string option \<Rightarrow> string list \<Rightarrow> command_approval_requirement option" where
  "program_requirement program subcommand parts =
     (case subcommand of
       None \<Rightarrow> None
     | Some sub \<Rightarrow>
       if program = ''git'' then
         (if sub = ''push'' then requirement ''command-external-write''
            ''Git push can publish local commits to a remote repository and requires human approval'' parts
          else if sub = ''clean'' then requirement ''command-destructive''
            ''Git clean can delete untracked workspace files and requires human approval'' parts
          else if sub = ''reset'' \<and> command_has_arg parts ''--hard'' then requirement ''command-destructive''
            ''Git reset --hard can discard local workspace changes and requires human approval'' parts
          else if sub = ''rebase'' then requirement ''command-history-rewrite''
            ''Git rebase rewrites local history and requires human approval'' parts
          else None)
       else if program = ''cargo'' then
         (if sub \<in> {''publish'', ''yank'', ''owner'', ''login'', ''logout''}
          then requirement ''command-registry-write''
            ''Cargo registry/account operation requires human approval'' parts
          else None)
       else if program \<in> {''npm'', ''npx'', ''pnpm'', ''yarn''} then
         (if sub \<in> set registry_subcommands
          then requirement ''command-registry-write''
            ''Package registry/account operation requires human approval'' parts
          else None)
       else if program = ''gh'' then
         (if sub = ''auth'' then requirement ''command-credential-access''
            ''GitHub CLI authentication operation requires human approval'' parts
          else if sub \<in> {''release'', ''repo'', ''gist'', ''issue'', ''pr'', ''api''}
          then requirement ''command-external-write''
            ''GitHub CLI operation can affect external resources and requires human approval'' parts
          else None)
       else if program \<in> {''docker'', ''podman''} then
         (if sub \<in> {''push'', ''login'', ''logout''} then requirement ''command-registry-write''
            ''Container registry/account operation requires human approval'' parts
          else if sub = ''run'' \<and> command_has_arg parts ''--privileged''
          then requirement ''command-privileged-container''
            ''Privileged container execution requires human approval'' parts
          else None)
       else None)"

definition command_approval_requirement_of :: "string list \<Rightarrow> command_approval_requirement option" where
  "command_approval_requirement_of parts =
     (case parts of
       [] \<Rightarrow> None
     | first # _ \<Rightarrow>
       let program = trim first
       in if program = [] then None
          else if shell_command_string_invocation program parts then
            requirement ''command-dynamic-shell''
              ''Shell interpreter command strings require human approval'' parts
          else program_requirement program (command_primary_subcommand program parts) parts)"

section \<open>sudo\<close>

definition mentions_sudo :: "string \<Rightarrow> bool" where
  "mentions_sudo part =
     (let t = trim part
      in t = ''sudo'' \<or> ends_with ''/sudo'' t \<or> starts_with ''sudo '' t \<or>
         (\<exists>needle \<in> {'' sudo '', '';sudo '', ''; sudo '', ''&&sudo '', ''&& sudo '', ''|sudo '', ''| sudo ''}.
            str_contains needle t))"

definition command_mentions_sudo_invocation :: "string list \<Rightarrow> bool" where
  "command_mentions_sudo_invocation parts = (\<exists>part \<in> set parts. mentions_sudo part)"

definition sudo_guarded_tool_name :: "string \<Rightarrow> bool" where
  "sudo_guarded_tool_name name = (name \<in> {''run_command'', ''run_privileged_command'', ''run_tests''})"

definition command_policy_tool_name :: "string \<Rightarrow> bool" where
  "command_policy_tool_name name = (name \<in> {''run_command'', ''run_privileged_command''})"

definition reject_unsafe_sudo_invocation :: "string \<Rightarrow> json table \<Rightarrow> string + unit" where
  "reject_unsafe_sudo_invocation tool_name args =
     (let parts = command_parts_from_args args
      in if parts = [] then Ok ()
         else if tool_name = ''run_privileged_command'' \<and> command_mentions_sudo_invocation parts then
           Err (''Do not include sudo in run_privileged_command arguments. Run /sudo auth, then '' @
                ''provide the underlying command; Vegvisir executes it through the private local '' @
                ''supervisor.'')
         else if tool_name \<noteq> ''run_privileged_command'' \<and> command_mentions_sudo_invocation parts then
           Err (''Direct sudo through normal command tools is disabled so sudo passwords cannot enter '' @
                ''chat/session/trace history. Run /sudo auth, then use run_privileged_command.'')
         else Ok ())"

lemma reject_sudo_Ok_iff:
  "reject_unsafe_sudo_invocation tool_name args = Ok () \<longleftrightarrow>
     \<not> command_mentions_sudo_invocation (command_parts_from_args args)"
  by (auto simp: reject_unsafe_sudo_invocation_def Let_def command_mentions_sudo_invocation_def)

section \<open>Facts\<close>

text \<open>
  An allow-listable name is the trimmed command itself, not an option, and names no path:
  a command given by a path never matches the allow list.
\<close>

lemma normalize_command_name_Some:
  "normalize_command_name c = Some n \<longleftrightarrow>
     n = trim c \<and> n \<noteq> [] \<and> \<not> starts_with ''-'' n \<and> CHR ''/'' \<notin> set n \<and> CHR 0x5C \<notin> set n"
  by (auto simp: normalize_command_name_def Let_def)

lemma command_name_from_args_Some:
  "command_name_from_args args = Some n \<longleftrightarrow>
     (\<exists>w. first_command_word args = Some w \<and> normalize_command_name w = Some n)"
  by (cases "first_command_word args") (simp_all add: command_name_from_args_def)

text \<open>
  The value of an option the scan does not know to take one is read as the subcommand.
\<close>

lemma unknown_option_value:
  assumes "starts_with ''-'' (trim opt)" and "trim opt \<noteq> ''--''"
    and "\<not> command_option_consumes_next program (trim opt)"
    and "trim v \<noteq> []" and "\<not> starts_with ''-'' (trim v)" and "\<not> starts_with ''+'' (trim v)"
  shows "command_primary_subcommand program (first # opt # v # rest) = Some (trim v)"
proof -
  have "trim opt \<noteq> []" using assms(1) by (auto simp: starts_with_def)
  moreover have "\<not> starts_with ''+'' (trim opt)" using assms(1) by (auto simp: starts_with_iff)
  moreover have "trim v \<noteq> ''--''" using assms(5) by (auto simp: starts_with_def)
  ultimately show ?thesis
    using assms by (simp add: command_primary_subcommand_def Let_def)
qed

text \<open>The subcommand found is one of the later arguments, trimmed.\<close>

lemma primary_subcommand_from_in:
  "primary_subcommand_from program xs = Some sub \<Longrightarrow> sub \<noteq> [] \<and> (\<exists>x \<in> set xs. sub = trim x)"
proof (induction program xs rule: primary_subcommand_from.induct)
  case (2 program arg rest)
  then show ?case
    by (auto simp: Let_def split: if_splits list.splits dest: in_set_dropD)
qed simp

end
