(* ===== verification/Approval_Ledger.thy ===== *)
theory Approval_Ledger
  imports Command_Policy
begin

text \<open>
  The approval ledger, vegvisir/src/guardrails.rs: requests for a human's approval, the
  approvals given once or for the session, and the file they are kept in.

  The \<open>Arc<Mutex<..>>\<close> around the state is left out: every method holds the lock for its
  whole body and none panics inside it. The file is the state last written to it, less the
  field the serializer skips; whether a write succeeds is an input of the call, as are the
  clock readings.
\<close>

section \<open>State\<close>

record approval_request =
  aq_id :: string
  aq_reason :: string
  aq_tool_name :: string
  aq_args :: "json table"
  aq_risk_label :: string

datatype approval_resolution = ResPending | ResApproved | ResDenied | ResMissing

datatype ledger_event_kind =
    EvRequested | EvApprovedOnce | EvApprovedForSession | EvEdited | EvDenied | EvConsumed
  | EvRejected | EvCleared

record ledger_event =
  le_at :: string
  le_event :: ledger_event_kind
  le_approval_id :: string
  le_tool_name :: string
  le_risk_label :: string
  le_reason :: string
  le_replacement :: "string option"
  le_session_only :: bool

record ledger_state =
  ls_schema_version :: u32
  ls_created_at :: string
  ls_updated_at :: string
  ls_pending :: "approval_request table"
  ls_rejected :: "approval_request list"
  ls_approved_once :: "string set"
  ls_events :: "ledger_event list"
  ls_session :: "string set"

definition approval_ledger_schema_version :: u32 where "approval_ledger_schema_version = 2"

definition ledger_state_default :: "string \<Rightarrow> ledger_state" where
  "ledger_state_default now =
     \<lparr>ls_schema_version = approval_ledger_schema_version, ls_created_at = now, ls_updated_at = now,
      ls_pending = [], ls_rejected = [], ls_approved_once = {}, ls_events = [], ls_session = {}\<rparr>"

text \<open>The ledger: its state in memory, whether it has a file, and what the file holds.\<close>

record ledger =
  lg_state :: ledger_state
  lg_path :: "string option"
  lg_disk :: "ledger_state option"

text \<open>
  What a call takes from outside: the clock readings of its events and of the save, and
  whether the directory could be made and the file be written.
\<close>

record ledger_io =
  li_event_at :: "nat \<Rightarrow> string"
  li_saved_at :: string
  li_dir_ok :: bool
  li_write_ok :: bool

text \<open>\<open>DefaultHasher\<close> over a sequence of strings, and the text of a JSON object.\<close>

record guard_env =
  ge_hash :: "string list \<Rightarrow> u64"
  ge_args_text :: "json table \<Rightarrow> string"

definition approval_session_key :: "guard_env \<Rightarrow> string \<Rightarrow> json table \<Rightarrow> string" where
  "approval_session_key G tool_name args =
     tool_name @ '':'' @ hex16 (ge_hash G [tool_name, ge_args_text G args])"

definition approval_request_id :: "guard_env \<Rightarrow> string \<Rightarrow> json table \<Rightarrow> string" where
  "approval_request_id G tool_name args =
     ''apr_'' @ hex16 (ge_hash G [approval_session_key G tool_name args])"

definition risk_label :: "string \<Rightarrow> string" where
  "risk_label tool_name =
     (if tool_name = ''run_command'' then ''command-execution''
      else if tool_name = ''run_privileged_command'' then ''privileged-command-execution''
      else if tool_name = ''write_file'' then ''filesystem-write''
      else if starts_with ''mcp::'' tool_name then ''external-tool''
      else ''risky-tool'')"

section \<open>Saving and loading\<close>

definition ledger_save :: "ledger_io \<Rightarrow> ledger \<Rightarrow> ledger" where
  "ledger_save io L =
     (case lg_path L of
       None \<Rightarrow> L
     | Some path \<Rightarrow>
       if \<not> li_dir_ok io then L
       else
         let st' = (lg_state L)\<lparr>ls_schema_version := approval_ledger_schema_version,
                                ls_updated_at := li_saved_at io\<rparr>
         in L\<lparr>lg_state := st',
              lg_disk := (if li_write_ok io then Some (st'\<lparr>ls_session := {}\<rparr>) else lg_disk L)\<rparr>)"

text \<open>A file that does not read or parse fails the call; session approvals never come back.\<close>

definition new_persisted :: "string \<Rightarrow> string \<Rightarrow> (string + ledger_state) option \<Rightarrow> string + ledger" where
  "new_persisted now path file =
     res_bind (case file of
         None \<Rightarrow> Ok (ledger_state_default now, None)
       | Some (Inl e) \<Rightarrow> Err e
       | Some (Inr loaded) \<Rightarrow>
         let created = (if trim (ls_created_at loaded) = [] then now else ls_created_at loaded)
         in Ok (loaded\<lparr>ls_schema_version := approval_ledger_schema_version,
                       ls_created_at := created,
                       ls_updated_at := (if trim (ls_updated_at loaded) = [] then created
                                         else ls_updated_at loaded)\<rparr>, Some loaded))
       (\<lambda>(st', disk). Ok \<lparr>lg_state = st'\<lparr>ls_session := {}\<rparr>, lg_path = Some path, lg_disk = disk\<rparr>)"

section \<open>Operations\<close>

definition push_approval_event ::
    "string \<Rightarrow> ledger_event_kind \<Rightarrow> approval_request \<Rightarrow> string option \<Rightarrow> bool \<Rightarrow>
     ledger_state \<Rightarrow> ledger_state" where
  "push_approval_event now event r replacement session_only s =
     s\<lparr>ls_events := ls_events s @
        [\<lparr>le_at = now, le_event = event, le_approval_id = aq_id r, le_tool_name = aq_tool_name r,
          le_risk_label = aq_risk_label r, le_reason = aq_reason r, le_replacement = replacement,
          le_session_only = session_only\<rparr>]\<rparr>"

fun push_cleared :: "(nat \<Rightarrow> string) \<Rightarrow> nat \<Rightarrow> approval_request list \<Rightarrow> ledger_state \<Rightarrow> ledger_state" where
  "push_cleared at n [] s = s"
| "push_cleared at n (r # rs) s =
     push_cleared at (Suc n) rs (push_approval_event (at n) EvCleared r None False s)"

definition clear_pending :: "ledger_io \<Rightarrow> ledger \<Rightarrow> ledger" where
  "clear_pending io L =
     (let cleared = map snd (ls_pending (lg_state L));
          s1 = (lg_state L)\<lparr>ls_pending := []\<rparr>
      in ledger_save io (L\<lparr>lg_state := push_cleared (li_event_at io) 0 cleared s1\<rparr>))"

definition resolution :: "guard_env \<Rightarrow> string \<Rightarrow> string \<Rightarrow> json table \<Rightarrow> ledger \<Rightarrow> approval_resolution" where
  "resolution G i tool_name args L =
     (let s = lg_state L
      in if i \<in> ls_approved_once s \<or> approval_session_key G tool_name args \<in> ls_session s
         then ResApproved
         else if \<exists>r \<in> set (ls_rejected s). aq_id r = i then ResDenied
         else if tbl_has i (ls_pending s) then ResPending
         else ResMissing)"

definition enqueue :: "ledger_io \<Rightarrow> approval_request \<Rightarrow> ledger \<Rightarrow> ledger" where
  "enqueue io r L =
     (let s = lg_state L
      in ledger_save io
        (if tbl_has (aq_id r) (ls_pending s) then L
         else L\<lparr>lg_state := push_approval_event (li_event_at io 0) EvRequested r None False
                 (s\<lparr>ls_pending := tbl_put (aq_id r) r (ls_pending s)\<rparr>)\<rparr>))"

text \<open>\<open>approve_once\<close> and \<open>approve_once_request\<close>: the request stays pending.\<close>

definition approve_once_request ::
    "ledger_io \<Rightarrow> string \<Rightarrow> ledger \<Rightarrow> approval_request option \<times> ledger" where
  "approve_once_request io i L =
     (let s = lg_state L
      in case tbl_get i (ls_pending s) of
        None \<Rightarrow> (None, ledger_save io L)
      | Some r \<Rightarrow>
        (Some r, ledger_save io (L\<lparr>lg_state := push_approval_event (li_event_at io 0) EvApprovedOnce r
            None False (s\<lparr>ls_approved_once := insert i (ls_approved_once s)\<rparr>)\<rparr>)))"

definition approve_once :: "ledger_io \<Rightarrow> string \<Rightarrow> ledger \<Rightarrow> bool \<times> ledger" where
  "approve_once io i L = (case approve_once_request io i L of (r, L') \<Rightarrow> (r \<noteq> None, L'))"

definition approve_for_session ::
    "guard_env \<Rightarrow> ledger_io \<Rightarrow> string \<Rightarrow> ledger \<Rightarrow> approval_request option \<times> ledger" where
  "approve_for_session G io i L =
     (let s = lg_state L
      in case tbl_get i (ls_pending s) of
        None \<Rightarrow> (None, ledger_save io L)
      | Some r \<Rightarrow>
        (Some r, ledger_save io (L\<lparr>lg_state := push_approval_event (li_event_at io 0)
            EvApprovedForSession r None True
            (s\<lparr>ls_pending := tbl_del i (ls_pending s),
               ls_session := insert (approval_session_key G (aq_tool_name r) (aq_args r)) (ls_session s)\<rparr>)\<rparr>)))"

definition edit ::
    "guard_env \<Rightarrow> ledger_io \<Rightarrow> string \<Rightarrow> json table \<Rightarrow> ledger \<Rightarrow> approval_request option \<times> ledger" where
  "edit G io i args L =
     (let s = lg_state L
      in case tbl_get i (ls_pending s) of
        None \<Rightarrow> (None, ledger_save io L)
      | Some original \<Rightarrow>
        let r = original\<lparr>aq_args := args, aq_id := approval_request_id G (aq_tool_name original) args\<rparr>;
            s1 = s\<lparr>ls_pending := tbl_put (aq_id r) r (tbl_del i (ls_pending s))\<rparr>;
            s2 = push_approval_event (li_event_at io 0) EvEdited original (Some (aq_id r)) False s1;
            s3 = push_approval_event (li_event_at io 1) EvRequested r None False s2
        in (Some r, ledger_save io (L\<lparr>lg_state := s3\<rparr>)))"

definition deny :: "ledger_io \<Rightarrow> string \<Rightarrow> ledger \<Rightarrow> bool \<times> ledger" where
  "deny io i L =
     (let s = lg_state L
      in case tbl_get i (ls_pending s) of
        None \<Rightarrow> (False, ledger_save io L)
      | Some r \<Rightarrow>
        (True, ledger_save io (L\<lparr>lg_state := push_approval_event (li_event_at io 0) EvDenied r None False
            (s\<lparr>ls_pending := tbl_del i (ls_pending s), ls_rejected := ls_rejected s @ [r]\<rparr>)\<rparr>)))"

definition consume_approval ::
    "guard_env \<Rightarrow> ledger_io \<Rightarrow> string \<Rightarrow> string \<Rightarrow> json table \<Rightarrow> ledger \<Rightarrow> bool \<times> ledger" where
  "consume_approval G io i tool_name args L =
     (let s = lg_state L;
          session_approved = (approval_session_key G tool_name args \<in> ls_session s);
          once_approved = (i \<in> ls_approved_once s);
          s1 = s\<lparr>ls_approved_once := ls_approved_once s - {i}\<rparr>
      in if session_approved \<or> once_approved then
           let r = (case tbl_get i (ls_pending s) of
                  Some r \<Rightarrow> r
                | None \<Rightarrow> \<lparr>aq_id = i,
                    aq_reason = (if session_approved then ''Consumed session approval''
                                 else ''Consumed one-time approval''),
                    aq_tool_name = tool_name, aq_args = args, aq_risk_label = risk_label tool_name\<rparr>)
           in (True, ledger_save io (L\<lparr>lg_state := push_approval_event (li_event_at io 0) EvConsumed r
                None session_approved (s1\<lparr>ls_pending := tbl_del i (ls_pending s)\<rparr>)\<rparr>))
         else (False, ledger_save io (L\<lparr>lg_state := s1\<rparr>)))"

definition reject :: "ledger_io \<Rightarrow> approval_request \<Rightarrow> ledger \<Rightarrow> ledger" where
  "reject io r L =
     (let s = lg_state L
      in ledger_save io (L\<lparr>lg_state := push_approval_event (li_event_at io 0) EvRejected r None False
          (s\<lparr>ls_pending := tbl_del (aq_id r) (ls_pending s), ls_rejected := ls_rejected s @ [r]\<rparr>)\<rparr>))"

section \<open>The ledger over time\<close>

datatype ledger_cmd =
    LClear
  | LEnqueue approval_request
  | LApproveOnce string
  | LApproveForSession string
  | LEdit string "json table"
  | LDeny string
  | LConsume string string "json table"
  | LReject approval_request
  | LRestart string

text \<open>A restart of the process drops the memory and loads the file, where there is one.\<close>

definition ledger_restart :: "string \<Rightarrow> ledger \<Rightarrow> ledger" where
  "ledger_restart now L =
     (case lg_path L of
       None \<Rightarrow> \<lparr>lg_state = ledger_state_default now, lg_path = None, lg_disk = None\<rparr>
     | Some path \<Rightarrow>
       (case new_persisted now path (map_option Inr (lg_disk L)) of Inl _ \<Rightarrow> L | Inr L' \<Rightarrow> L'))"

fun ledger_step :: "guard_env \<Rightarrow> ledger_io \<times> ledger_cmd \<Rightarrow> ledger \<Rightarrow> ledger" where
  "ledger_step G (io, LClear) L = clear_pending io L"
| "ledger_step G (io, LEnqueue r) L = enqueue io r L"
| "ledger_step G (io, LApproveOnce i) L = snd (approve_once io i L)"
| "ledger_step G (io, LApproveForSession i) L = snd (approve_for_session G io i L)"
| "ledger_step G (io, LEdit i args) L = snd (edit G io i args L)"
| "ledger_step G (io, LDeny i) L = snd (deny io i L)"
| "ledger_step G (io, LConsume i tool args) L = snd (consume_approval G io i tool args L)"
| "ledger_step G (io, LReject r) L = reject io r L"
| "ledger_step G (io, LRestart now) L = ledger_restart now L"

text \<open>
  What the events say of a one-time approval: how often it was given and how often used.
  In a state of the ledger no approval was used more often than given, an approval still
  open counting as a use to come.
\<close>

definition once_given :: "ledger_state \<Rightarrow> string \<Rightarrow> nat" where
  "once_given s i =
     length (filter (\<lambda>e. le_event e = EvApprovedOnce \<and> le_approval_id e = i) (ls_events s))"

definition once_used :: "ledger_state \<Rightarrow> string \<Rightarrow> nat" where
  "once_used s i =
     length (filter (\<lambda>e. le_event e = EvConsumed \<and> \<not> le_session_only e \<and> le_approval_id e = i)
       (ls_events s))"

definition pending_ok :: "approval_request table \<Rightarrow> bool" where
  "pending_ok t \<longleftrightarrow> tbl_ok t \<and> (\<forall>i r. tbl_get i t = Some r \<longrightarrow> aq_id r = i)"

definition ledger_state_ok :: "ledger_state \<Rightarrow> bool" where
  "ledger_state_ok s \<longleftrightarrow> pending_ok (ls_pending s) \<and>
     (\<forall>i. once_used s i + (if i \<in> ls_approved_once s then 1 else 0) \<le> once_given s i)"

definition ledger_ok :: "ledger \<Rightarrow> bool" where
  "ledger_ok L \<longleftrightarrow> ledger_state_ok (lg_state L) \<and> (\<forall>s. lg_disk L = Some s \<longrightarrow> ledger_state_ok s)"

lemma push_event_fields [simp]:
  "ls_pending (push_approval_event at ev r rep ses s) = ls_pending s"
  "ls_rejected (push_approval_event at ev r rep ses s) = ls_rejected s"
  "ls_approved_once (push_approval_event at ev r rep ses s) = ls_approved_once s"
  "ls_session (push_approval_event at ev r rep ses s) = ls_session s"
  "once_given (push_approval_event at ev r rep ses s) i =
     once_given s i + (if ev = EvApprovedOnce \<and> aq_id r = i then 1 else 0)"
  "once_used (push_approval_event at ev r rep ses s) i =
     once_used s i + (if ev = EvConsumed \<and> \<not> ses \<and> aq_id r = i then 1 else 0)"
  by (simp_all add: push_approval_event_def once_given_def once_used_def)

lemma counts_update [simp]:
  "once_given (s\<lparr>ls_pending := p\<rparr>) = once_given s" "once_used (s\<lparr>ls_pending := p\<rparr>) = once_used s"
  "once_given (s\<lparr>ls_rejected := q\<rparr>) = once_given s" "once_used (s\<lparr>ls_rejected := q\<rparr>) = once_used s"
  "once_given (s\<lparr>ls_approved_once := a\<rparr>) = once_given s"
  "once_used (s\<lparr>ls_approved_once := a\<rparr>) = once_used s"
  "once_given (s\<lparr>ls_session := k\<rparr>) = once_given s" "once_used (s\<lparr>ls_session := k\<rparr>) = once_used s"
  by (simp_all add: once_given_def once_used_def fun_eq_iff)

lemma pending_ok_rules [simp]:
  "pending_ok []"
  "pending_ok t \<Longrightarrow> aq_id r = i \<Longrightarrow> pending_ok (tbl_put i r t)"
  "pending_ok t \<Longrightarrow> pending_ok (tbl_del i t)"
  by (auto simp: pending_ok_def tbl_simps)

lemma pending_id: "pending_ok t \<Longrightarrow> tbl_get i t = Some r \<Longrightarrow> aq_id r = i"
  by (simp add: pending_ok_def)

lemma ledger_state_okI:
  assumes "ledger_state_ok s" and "pending_ok (ls_pending s')"
    and "\<And>i. once_used s' i + (if i \<in> ls_approved_once s' then 1 else 0) + once_given s i \<le>
             once_used s i + (if i \<in> ls_approved_once s then 1 else 0) + once_given s' i"
  shows "ledger_state_ok s'"
  unfolding ledger_state_ok_def
proof (intro conjI allI)
  fix i show "once_used s' i + (if i \<in> ls_approved_once s' then 1 else 0) \<le> once_given s' i"
    using assms(1) assms(3) [of i] unfolding ledger_state_ok_def by (smt (verit) add.commute add_le_mono nat_add_left_cancel_le le_trans)
qed (rule assms(2))

lemma ledger_state_ok_meta [simp]:
  "ledger_state_ok (s\<lparr>ls_schema_version := v\<rparr>) = ledger_state_ok s"
  "ledger_state_ok (s\<lparr>ls_created_at := t\<rparr>) = ledger_state_ok s"
  "ledger_state_ok (s\<lparr>ls_updated_at := t\<rparr>) = ledger_state_ok s"
  "ledger_state_ok (s\<lparr>ls_session := k\<rparr>) = ledger_state_ok s"
  by (simp_all add: ledger_state_ok_def once_given_def once_used_def)

lemma ledger_ok_save: "ledger_ok L \<Longrightarrow> ledger_ok (ledger_save io L)"
  by (simp add: ledger_ok_def ledger_save_def Let_def split: option.split)

lemma ledger_ok_write:
  "ledger_ok L \<Longrightarrow> (ledger_state_ok (lg_state L) \<Longrightarrow> ledger_state_ok s) \<Longrightarrow>
   ledger_ok (ledger_save io (L\<lparr>lg_state := s\<rparr>))"
  by (rule ledger_ok_save) (simp add: ledger_ok_def)

lemma push_cleared_ok: "ledger_state_ok s \<Longrightarrow> ledger_state_ok (push_cleared at n rs s)"
proof (induction at n rs s rule: push_cleared.induct)
  case (2 at n r rs s)
  have "ledger_state_ok (push_approval_event (at n) EvCleared r None False s)"
    by (rule ledger_state_okI [OF 2(2)]) (use 2(2) in \<open>simp_all add: ledger_state_ok_def\<close>)
  then show ?case using 2(1) by simp
qed simp

lemma ledger_default_ok [simp]: "ledger_state_ok (ledger_state_default now)"
  by (simp add: ledger_state_ok_def ledger_state_default_def once_given_def once_used_def)

text \<open>Every operation keeps the ledger in order.\<close>

lemma ledger_keeps:
  assumes "ledger_ok L"
  shows "ledger_ok (clear_pending io L)"
    and "ledger_ok (enqueue io r L)"
    and "ledger_ok (snd (approve_once_request io i L))"
    and "ledger_ok (snd (approve_for_session G io i L))"
    and "ledger_ok (snd (edit G io i args L))"
    and "ledger_ok (snd (deny io i L))"
    and "ledger_ok (snd (consume_approval G io i tool args L))"
    and "ledger_ok (reject io r L)"
proof -
  let ?s = "lg_state L"
  have s: "ledger_state_ok ?s" and p: "pending_ok (ls_pending ?s)"
    using assms by (simp_all add: ledger_ok_def ledger_state_ok_def)
  note ok = ledger_ok_write [OF assms] and saved = ledger_ok_save [OF assms]
  note okI = ledger_state_okI [OF s]
  show "ledger_ok (clear_pending io L)"
    unfolding clear_pending_def Let_def
    by (intro ok push_cleared_ok okI) simp_all
  show "ledger_ok (enqueue io r L)"
    unfolding enqueue_def Let_def using p
    by (cases "tbl_has (aq_id r) (ls_pending ?s)") (auto simp: saved intro!: ok okI)
  show "ledger_ok (snd (approve_once_request io i L))"
    unfolding approve_once_request_def Let_def using p
    by (auto simp: saved intro!: ok okI dest: pending_id split: option.split)
  show "ledger_ok (snd (approve_for_session G io i L))"
    unfolding approve_for_session_def Let_def using p
    by (auto simp: saved intro!: ok okI split: option.split)
  show "ledger_ok (snd (edit G io i args L))"
    unfolding edit_def Let_def using p
    by (auto simp: saved intro!: ok okI split: option.split)
  show "ledger_ok (snd (deny io i L))"
    unfolding deny_def Let_def using p
    by (auto simp: saved intro!: ok okI split: option.split)
  show "ledger_ok (snd (consume_approval G io i tool args L))"
    unfolding consume_approval_def Let_def using p
    by (auto simp: saved intro!: ok okI dest: pending_id split: option.split)
  show "ledger_ok (reject io r L)"
    unfolding reject_def Let_def using p
    by (auto intro!: ok okI)
qed

lemma restart_ok: "ledger_ok L \<Longrightarrow> ledger_ok (ledger_restart now L)"
  by (auto simp: ledger_restart_def ledger_ok_def new_persisted_def Let_def split: option.split)

lemma snd_approve_once [simp]: "snd (approve_once io i L) = snd (approve_once_request io i L)"
  by (simp add: approve_once_def split: prod.split)

lemma ledger_step_ok: "ledger_ok L \<Longrightarrow> ledger_ok (ledger_step G c L)"
  by (cases "(G, c, L)" rule: ledger_step.cases)
    (auto simp: ledger_keeps restart_ok)

lemma ledger_run_ok: "ledger_ok L \<Longrightarrow> ledger_ok (fold (ledger_step G) cs L)"
  by (rule run_invariant [where legal = "\<lambda>_ _. True"]) (auto simp: ledger_step_ok legal_run_all)

section \<open>Reading a ledger after an operation\<close>

lemma ledger_save_state [simp]:
  "ls_pending (lg_state (ledger_save io L)) = ls_pending (lg_state L)"
  "ls_rejected (lg_state (ledger_save io L)) = ls_rejected (lg_state L)"
  "ls_approved_once (lg_state (ledger_save io L)) = ls_approved_once (lg_state L)"
  "ls_session (lg_state (ledger_save io L)) = ls_session (lg_state L)"
  by (simp_all add: ledger_save_def Let_def split: option.split)

lemma consume_approval_result:
  "fst (consume_approval G io i tool args L) \<longleftrightarrow>
     approval_session_key G tool args \<in> ls_session (lg_state L) \<or> i \<in> ls_approved_once (lg_state L)"
  "ls_session (lg_state (snd (consume_approval G io i tool args L))) = ls_session (lg_state L)"
  "ls_approved_once (lg_state (snd (consume_approval G io i tool args L))) = ls_approved_once (lg_state L) - {i}"
  by (simp_all add: consume_approval_def Let_def)

lemma enqueue_result:
  "ls_session (lg_state (enqueue io r L)) = ls_session (lg_state L)"
  "ls_approved_once (lg_state (enqueue io r L)) = ls_approved_once (lg_state L)"
  "tbl_get (aq_id r) (ls_pending (lg_state (enqueue io r L))) =
     (case tbl_get (aq_id r) (ls_pending (lg_state L)) of None \<Rightarrow> Some r | Some q \<Rightarrow> Some q)"
  by (simp_all add: enqueue_def Let_def tbl_has_def tbl_simps split: option.split)

lemma consume_refused_pending:
  "\<not> fst (consume_approval G io i tool args L) \<Longrightarrow>
   ls_pending (lg_state (snd (consume_approval G io i tool args L))) = ls_pending (lg_state L)"
  by (simp add: consume_approval_def Let_def split: if_splits)

text \<open>An approval given once outlives a later denial of the same request.\<close>

lemma denied_after_approval:
  assumes "tbl_get i (ls_pending (lg_state L)) = Some r"
  shows "fst (deny io' i (snd (approve_once io i L)))"
    and "i \<in> ls_approved_once (lg_state (snd (deny io' i (snd (approve_once io i L)))))"
  using assms by (simp_all add: deny_def approve_once_request_def Let_def)

text \<open>A restart forgets the session approvals and keeps the one-time approvals of the file.\<close>

lemma restart_session: "ls_session (lg_state (ledger_restart now L)) = {}"
  by (simp add: ledger_restart_def new_persisted_def Let_def ledger_state_default_def split: option.split)

lemma restart_once:
  "lg_path L = Some p \<Longrightarrow> lg_disk L = Some s \<Longrightarrow>
   ls_approved_once (lg_state (ledger_restart now L)) = ls_approved_once s"
  by (simp add: ledger_restart_def new_persisted_def Let_def)

lemma saved_disk:
  "lg_path L = Some p \<Longrightarrow> li_dir_ok io \<Longrightarrow> li_write_ok io \<Longrightarrow>
   \<exists>s. lg_disk (ledger_save io L) = Some s \<and> ls_approved_once s = ls_approved_once (lg_state L) \<and>
       ls_pending s = ls_pending (lg_state L) \<and> lg_path (ledger_save io L) = Some p"
  by (simp add: ledger_save_def Let_def)

end
