(* ===== verification/Rust_Paths.thy ===== *)
theory Rust_Paths
  imports Runtime_Env
begin

text \<open>
  The parts of \<open>std::path\<close> and \<open>std::env\<close> the harness calls, on Unix paths given as UTF-8
  strings. Two paths compare by their components, so \<open>/a//b\<close> and \<open>/a/./b\<close> are equal and
  \<open>/a/b\<close> sorts before \<open>/a-b\<close>. They are the standard library, so no map entry names them.
\<close>

section \<open>Splitting\<close>

fun split_on :: "char \<Rightarrow> string \<Rightarrow> string list" where
  "split_on d [] = [[]]"
| "split_on d (c # s) =
     (if c = d then [] # split_on d s
      else case split_on d s of [] \<Rightarrow> [[c]] | p # ps \<Rightarrow> (c # p) # ps)"

lemma split_on_nonempty [simp]: "split_on d s \<noteq> []"
  by (induction s) (auto split: list.splits)

lemma split_on_no_sep: "d \<notin> set s \<Longrightarrow> split_on d s = [s]"
  by (induction s) auto

lemma split_on_Cons: "split_on d s = p # ps \<Longrightarrow> split_on d (c # s) = (if c = d then [] # p # ps else (c # p) # ps)"
  by simp

lemma split_on_parts: "p \<in> set (split_on d s) \<Longrightarrow> d \<notin> set p"
proof (induction s arbitrary: p)
  case (Cons c s)
  then show ?case by (auto split: if_splits list.splits)
qed simp

section \<open>Components\<close>

datatype path_component = RootDir | CurDir | ParentDir | NormalC string

fun component_rank :: "path_component \<Rightarrow> nat" where
  "component_rank RootDir = 0"
| "component_rank CurDir = 1"
| "component_rank ParentDir = 2"
| "component_rank (NormalC _) = 3"

fun component_name :: "path_component \<Rightarrow> string" where
  "component_name (NormalC s) = s"
| "component_name _ = []"

lemma component_key_inj:
  "component_rank a = component_rank b \<Longrightarrow> component_name a = component_name b \<Longrightarrow> a = b"
  by (cases a; cases b) simp_all

instantiation path_component :: linorder
begin

definition less_eq_path_component :: "path_component \<Rightarrow> path_component \<Rightarrow> bool" where
  "less_eq_path_component a b \<longleftrightarrow> component_rank a < component_rank b \<or>
     (component_rank a = component_rank b \<and> component_name a \<le> component_name b)"

definition less_path_component :: "path_component \<Rightarrow> path_component \<Rightarrow> bool" where
  "less_path_component a b \<longleftrightarrow> component_rank a < component_rank b \<or>
     (component_rank a = component_rank b \<and> component_name a < component_name b)"

instance
proof
  fix x y z :: path_component
  note defs = less_eq_path_component_def less_path_component_def
  show "(x < y) = (x \<le> y \<and> \<not> y \<le> x)" unfolding defs by (auto simp: less_le_not_le)
  show "x \<le> x" unfolding defs by simp
  show "x \<le> z" if "x \<le> y" "y \<le> z" using that order.trans unfolding defs by fastforce
  show "x = y" if "x \<le> y" "y \<le> x"
    using that unfolding defs by (intro component_key_inj) auto
  show "x \<le> y \<or> y \<le> x" unfolding defs by auto
qed

end

definition component_of :: "string \<Rightarrow> path_component option" where
  "component_of p =
     (if p = [] \<or> p = ''.'' then None else if p = ''..'' then Some ParentDir else Some (NormalC p))"

definition path_is_absolute :: "string \<Rightarrow> bool" where
  "path_is_absolute p = starts_with ''/'' p"

definition path_components :: "string \<Rightarrow> path_component list" where
  "path_components p =
     (let parts = split_on (CHR ''/'') p
      in (if path_is_absolute p then [RootDir] else if hd parts = ''.'' then [CurDir] else []) @
         List.map_filter component_of parts)"

definition path_join :: "string \<Rightarrow> string \<Rightarrow> string" where
  "path_join base p =
     (if path_is_absolute p then p
      else if base = [] \<or> ends_with ''/'' base then base @ p
      else base @ ''/'' @ p)"

text \<open>
  \<open>Path::parent\<close>: the text without its last component and the separators and \<open>.\<close> parts at
  its end; none for the root and the empty path.
\<close>

definition trim_parts :: "string list \<Rightarrow> string list" where
  "trim_parts ps = rev (dropWhile (\<lambda>p. p = [] \<or> p = ''.'') (rev ps))"

definition path_parent :: "string \<Rightarrow> string option" where
  "path_parent p =
     (let parts = split_on (CHR ''/'') p;
          body = trim_parts (tl parts);
          rest = join_with ''/'' (trim_parts (butlast body))
      in if path_is_absolute p then (if body = [] then None else Some (''/'' @ rest))
         else if body \<noteq> [] then Some (join_with ''/'' (hd parts # trim_parts (butlast body)))
         else if hd parts = [] then None else Some [])"

definition path_file_name :: "string \<Rightarrow> string option" where
  "path_file_name p =
     (case rev (path_components p) of NormalC s # _ \<Rightarrow> Some s | _ \<Rightarrow> None)"

definition path_starts_with :: "string \<Rightarrow> string \<Rightarrow> bool" where
  "path_starts_with p base = (take (length (path_components base)) (path_components p) = path_components base)"

text \<open>\<open>sort\<close> (stable) and \<open>dedup\<close> of a \<open>Vec<PathBuf>\<close>: equal neighbours, the first is kept.\<close>

fun dedup_on :: "('a \<Rightarrow> 'b) \<Rightarrow> 'a list \<Rightarrow> 'a list" where
  "dedup_on f [] = []"
| "dedup_on f [x] = [x]"
| "dedup_on f (x # y # xs) = (if f x = f y then dedup_on f (x # xs) else x # dedup_on f (y # xs))"

definition sort_paths :: "string list \<Rightarrow> string list" where
  "sort_paths ps = dedup_on path_components (sort_key path_components ps)"

lemma dedup_on_image: "f ` set (dedup_on f xs) = f ` set xs"
  by (induction f xs rule: dedup_on.induct) auto

lemma dedup_on_subset: "set (dedup_on f xs) \<subseteq> set xs"
  by (induction f xs rule: dedup_on.induct) auto

lemma dedup_id_set [simp]: "set (dedup_on (\<lambda>x. x) xs) = set xs"
  using dedup_on_image [of "\<lambda>x. x" xs] by simp

lemma set_sort_paths: "set (sort_paths ps) \<subseteq> set ps"
  using dedup_on_subset [of path_components "sort_key path_components ps"] by (simp add: sort_paths_def)

end
