(* ===== verification/Command_Sandbox.thy ===== *)
theory Command_Sandbox
  imports Rust_Paths
begin

text \<open>
  The command sandbox, vegvisir/src/command_sandbox.rs: its configuration from environment
  variables, the Bubblewrap command line built for a command, and the rule for commands
  that reach the network. The environment and the file system are the record \<open>proc_env\<close>:
  the value of a variable, the names of all variables, and what a path is. Variables and
  paths are UTF-8 (\<open>display\<close> of a path is then the path).
\<close>

record proc_env =
  pe_var :: "string \<Rightarrow> string option"
  pe_names :: "string list"
  pe_is_dir :: "string \<Rightarrow> bool"
  pe_is_file :: "string \<Rightarrow> bool"
  pe_exists :: "string \<Rightarrow> bool"

section \<open>Configuration\<close>

datatype sandbox_mode = SbNone | SbPathOnly | SbBubblewrap | SbStrictBubblewrap

datatype network_policy = NetInherit | NetDisable | NetRequireApproval

record sandbox_config =
  sc_mode :: sandbox_mode
  sc_bwrap_path :: "string option"
  sc_workspace_root :: string
  sc_network :: network_policy
  sc_writable_paths :: "string list"
  sc_readonly_paths :: "string list"
  sc_hidden_paths :: "string list"
  sc_clear_env :: bool
  sc_private_tmp :: bool
  sc_private_home :: bool
  sc_allow_dangerous_bypass :: bool

definition default_readonly_mounts :: "string list" where
  "default_readonly_mounts = [''/usr'', ''/bin'', ''/sbin'', ''/lib'', ''/lib64'', ''/etc/ssl/certs'']"

definition sandbox_path_only :: "string \<Rightarrow> sandbox_config" where
  "sandbox_path_only root =
     \<lparr>sc_mode = SbPathOnly, sc_bwrap_path = None, sc_workspace_root = root, sc_network = NetInherit,
      sc_writable_paths = [], sc_readonly_paths = [], sc_hidden_paths = [], sc_clear_env = False,
      sc_private_tmp = False, sc_private_home = False, sc_allow_dangerous_bypass = False\<rparr>"

definition sandbox_bubblewrap :: "string \<Rightarrow> sandbox_config" where
  "sandbox_bubblewrap root =
     \<lparr>sc_mode = SbBubblewrap, sc_bwrap_path = None, sc_workspace_root = root, sc_network = NetInherit,
      sc_writable_paths = [], sc_readonly_paths = default_readonly_mounts, sc_hidden_paths = [],
      sc_clear_env = False, sc_private_tmp = True, sc_private_home = True,
      sc_allow_dangerous_bypass = False\<rparr>"

definition sandbox_strict_bubblewrap :: "string \<Rightarrow> sandbox_config" where
  "sandbox_strict_bubblewrap root =
     \<lparr>sc_mode = SbStrictBubblewrap, sc_bwrap_path = None, sc_workspace_root = root,
      sc_network = NetDisable, sc_writable_paths = [], sc_readonly_paths = default_readonly_mounts,
      sc_hidden_paths = [], sc_clear_env = True, sc_private_tmp = True, sc_private_home = True,
      sc_allow_dangerous_bypass = False\<rparr>"

definition network_policy_label :: "network_policy \<Rightarrow> string" where
  "network_policy_label p = (case p of
     NetInherit \<Rightarrow> ''inherit'' | NetDisable \<Rightarrow> ''disabled'' | NetRequireApproval \<Rightarrow> ''approval'')"

definition configured_network_policy :: "'a proc_env_scheme \<Rightarrow> network_policy \<Rightarrow> string + network_policy" where
  "configured_network_policy E fallback =
     (case pe_var E ''VEGVISIR_COMMAND_NETWORK'' of
       None \<Rightarrow> Ok fallback
     | Some raw \<Rightarrow>
       let w = to_ascii_lowercase (trim raw)
       in if w = [] then Ok fallback
          else if w \<in> {''inherit'', ''host''} then Ok NetInherit
          else if w \<in> {''disable'', ''disabled'', ''none'', ''off''} then Ok NetDisable
          else if w \<in> {''approval'', ''require-approval'', ''require_approval''} then Ok NetRequireApproval
          else Err (''Unsupported VEGVISIR_COMMAND_NETWORK value: '' @ w @
                    ''. Use inherit, disable, or require-approval.''))"

definition configured_path_list :: "'a proc_env_scheme \<Rightarrow> string \<Rightarrow> string + string list option" where
  "configured_path_list E key =
     (case pe_var E key of
       None \<Rightarrow> Ok None
     | Some raw \<Rightarrow>
       res_bind (res_map (\<lambda>p. if path_is_absolute p then Ok p
                              else Err (key @ '' entries must be absolute paths: '' @ p))
                  (filter (\<lambda>p. p \<noteq> []) (split_on (CHR '':'') raw)))
         (\<lambda>paths. Ok (Some (sort_paths paths))))"

definition apply_mount_path_env :: "'a proc_env_scheme \<Rightarrow> sandbox_config \<Rightarrow> string + sandbox_config" where
  "apply_mount_path_env E c =
     res_bind (configured_path_list E ''VEGVISIR_COMMAND_WRITABLE_PATHS'') (\<lambda>w.
     let c1 = (case w of None \<Rightarrow> c | Some ps \<Rightarrow> c\<lparr>sc_writable_paths := ps\<rparr>)
     in res_bind (configured_path_list E ''VEGVISIR_COMMAND_READONLY_PATHS'') (\<lambda>r.
        let c2 = (case r of None \<Rightarrow> c1 | Some ps \<Rightarrow> c1\<lparr>sc_readonly_paths := ps\<rparr>)
        in res_bind (configured_path_list E ''VEGVISIR_COMMAND_HIDDEN_PATHS'') (\<lambda>h.
           Ok (case h of None \<Rightarrow> c2
               | Some ps \<Rightarrow> c2\<lparr>sc_hidden_paths := sort_paths (sc_hidden_paths c2 @ ps)\<rparr>))))"

definition sandbox_mode_word :: "'a proc_env_scheme \<Rightarrow> string" where
  "sandbox_mode_word E =
     to_ascii_lowercase (trim (case pe_var E ''VEGVISIR_COMMAND_SANDBOX'' of None \<Rightarrow> ''path'' | Some v \<Rightarrow> v))"

definition strict_mode_words :: "string list" where
  "strict_mode_words = [''strict-bwrap'', ''strict_bwrap'', ''strict-bubblewrap'', ''strict_bubblewrap'']"

text \<open>The \<open>match\<close> on the mode, the network policy of a mode that is not strict, and the rest.\<close>

definition sandbox_for_mode :: "string \<Rightarrow> string \<Rightarrow> string + sandbox_config" where
  "sandbox_for_mode w root =
     (if w \<in> {'''', ''path'', ''path-only'', ''pathonly''} then Ok (sandbox_path_only root)
      else if w \<in> {''none'', ''off'', ''disabled''} then Ok ((sandbox_path_only root)\<lparr>sc_mode := SbNone\<rparr>)
      else if w \<in> {''bwrap'', ''bubblewrap''} then Ok (sandbox_bubblewrap root)
      else if w \<in> set strict_mode_words then Ok (sandbox_strict_bubblewrap root)
      else Err (''Unsupported VEGVISIR_COMMAND_SANDBOX value: '' @ w @
                ''. Use path, none, bwrap, or strict-bwrap.''))"

definition with_network :: "'a proc_env_scheme \<Rightarrow> sandbox_config \<Rightarrow> string + sandbox_config" where
  "with_network E c =
     (if sc_mode c = SbStrictBubblewrap then Ok c
      else res_bind (configured_network_policy E (sc_network c)) (\<lambda>n. Ok (c\<lparr>sc_network := n\<rparr>)))"

definition sandbox_from_env :: "'a proc_env_scheme \<Rightarrow> string \<Rightarrow> bool \<Rightarrow> string + sandbox_config" where
  "sandbox_from_env E root allow_bypass =
     res_bind (sandbox_for_mode (sandbox_mode_word E) root) (\<lambda>c.
     res_bind (with_network E c) (\<lambda>c1.
     res_bind (apply_mount_path_env E c1) (\<lambda>c2.
       Ok (c2\<lparr>sc_allow_dangerous_bypass := allow_bypass\<rparr>))))"

section \<open>The command line\<close>

record sandboxed_command =
  sd_program :: string
  sd_args :: "string list"
  sd_current_dir :: string
  sd_sandboxed :: bool
  sd_sandbox_kind :: string
  sd_network_policy :: string

definition is_sensitive_environment_name :: "string \<Rightarrow> bool" where
  "is_sensitive_environment_name key =
     (let upper = to_ascii_uppercase key
      in (\<exists>needle \<in> {''API_KEY'', ''ACCESS_TOKEN'', ''AUTH_TOKEN'', ''BEARER_TOKEN'', ''ID_TOKEN'',
                      ''REFRESH_TOKEN'', ''SECRET'', ''PASSWORD'', ''PRIVATE_KEY''}.
            str_contains needle upper) \<or>
         starts_with ''HBSE_'' upper \<or> upper = ''TOKEN'')"

definition sensitive_environment_names :: "'a proc_env_scheme \<Rightarrow> string list" where
  "sensitive_environment_names E =
     dedup_on (\<lambda>x. x) (sort (filter is_sensitive_environment_name (pe_names E)))"

definition validate_mount_path :: "'a proc_env_scheme \<Rightarrow> string \<Rightarrow> string + unit" where
  "validate_mount_path E path =
     (if \<not> path_is_absolute path then Err (''Sandbox mount path must be absolute: '' @ path)
      else if \<not> pe_exists E path then Err (''Sandbox mount path does not exist: '' @ path)
      else Ok ())"

definition push_existing_readonly_mounts :: "'a proc_env_scheme \<Rightarrow> string list \<Rightarrow> string list" where
  "push_existing_readonly_mounts E paths =
     concat (map (\<lambda>p. [''--ro-bind'', p, p]) (filter (pe_exists E) paths))"

definition push_writable_mounts :: "'a proc_env_scheme \<Rightarrow> string list \<Rightarrow> string + string list" where
  "push_writable_mounts E paths =
     res_bind (res_map (\<lambda>p. res_bind (validate_mount_path E p) (\<lambda>_. Ok [''--bind'', p, p])) paths)
       (\<lambda>as. Ok (concat as))"

definition push_hidden_mounts :: "'a proc_env_scheme \<Rightarrow> string list \<Rightarrow> string + string list" where
  "push_hidden_mounts E paths =
     res_bind (res_map (\<lambda>p. res_bind (validate_mount_path E p) (\<lambda>_.
         Ok (if pe_is_dir E p then [''--tmpfs'', p] else [''--bind'', ''/dev/null'', p]))) paths)
       (\<lambda>as. Ok (concat as))"

definition resolve_bwrap_path :: "'a proc_env_scheme \<Rightarrow> string option \<Rightarrow> string + string" where
  "resolve_bwrap_path E configured =
     (case configured of
       Some path \<Rightarrow>
         if pe_is_file E path then Ok path
         else Err (''Configured Bubblewrap executable does not exist: '' @ path)
     | None \<Rightarrow>
       let missing = ''Bubblewrap command not found in PATH; install bwrap or use '' @
                     ''VEGVISIR_COMMAND_SANDBOX=path''
       in (case pe_var E ''PATH'' of
             None \<Rightarrow> Err missing
           | Some path \<Rightarrow>
             ok_or missing (find (pe_is_file E)
               (map (\<lambda>d. path_join d ''bwrap'') (split_on (CHR '':'') path)))))"

definition sandbox_base_flags :: "'a proc_env_scheme \<Rightarrow> sandbox_config \<Rightarrow> string list" where
  "sandbox_base_flags E c =
     [''--die-with-parent'', ''--unshare-pid'', ''--unshare-ipc'', ''--unshare-uts'',
      ''--proc'', ''/proc'', ''--dev'', ''/dev''] @
     (if sc_clear_env c
      then [''--clearenv'', ''--setenv'', ''PATH'',
            ''/usr/local/sbin:/usr/local/bin:/usr/sbin:/usr/bin:/sbin:/bin'']
      else concat (map (\<lambda>k. [''--unsetenv'', k]) (sensitive_environment_names E))) @
     (if sc_network c = NetDisable then [''--unshare-net''] else []) @
     (if sc_private_tmp c then [''--tmpfs'', ''/tmp''] else []) @
     (if sc_private_home c
      then [''--tmpfs'', ''/home'', ''--dir'', ''/home/vegvisir'', ''--setenv'', ''HOME'', ''/home/vegvisir'']
      else [])"

definition build_sandboxed_command ::
    "'a proc_env_scheme \<Rightarrow> string list \<Rightarrow> sandbox_config \<Rightarrow> string + sandboxed_command" where
  "build_sandboxed_command E parts c =
     (case parts of
       [] \<Rightarrow> Err ''Empty command''
     | program # arguments \<Rightarrow>
       if sc_allow_dangerous_bypass c \<or> sc_mode c \<in> {SbNone, SbPathOnly}
       then Ok \<lparr>sd_program = program, sd_args = arguments, sd_current_dir = sc_workspace_root c,
                sd_sandboxed = False,
                sd_sandbox_kind = (case sc_mode c of SbNone \<Rightarrow> ''none'' | SbPathOnly \<Rightarrow> ''path-only''
                  | _ \<Rightarrow> ''disabled-by-dangerous-bypass''),
                sd_network_policy = network_policy_label (sc_network c)\<rparr>
       else if \<not> pe_is_dir E (sc_workspace_root c)
       then Err (''Workspace root does not exist or is not a directory: '' @ sc_workspace_root c)
       else
         res_bind (resolve_bwrap_path E (sc_bwrap_path c)) (\<lambda>bwrap.
         res_bind (push_writable_mounts E (sc_writable_paths c)) (\<lambda>writable.
         res_bind (push_hidden_mounts E (sc_hidden_paths c)) (\<lambda>hidden.
           Ok \<lparr>sd_program = bwrap,
               sd_args = sandbox_base_flags E c @
                 push_existing_readonly_mounts E (sc_readonly_paths c) @ writable @
                 [''--bind'', sc_workspace_root c, ''/workspace''] @ hidden @
                 [''--chdir'', ''/workspace'', ''--''] @ parts,
               sd_current_dir = sc_workspace_root c, sd_sandboxed = True,
               sd_sandbox_kind = (if sc_mode c = SbBubblewrap then ''bubblewrap'' else ''strict-bubblewrap''),
               sd_network_policy = network_policy_label (sc_network c)\<rparr>))))"

section \<open>Network approval\<close>

definition configured_command_network_policy :: "'a proc_env_scheme \<Rightarrow> string + network_policy" where
  "configured_command_network_policy E =
     (if sandbox_mode_word E \<in> set strict_mode_words then Ok NetDisable
      else configured_network_policy E NetInherit)"

fun pip_window :: "string list \<Rightarrow> bool" where
  "pip_window (a # b # c # rest) =
     ((trim a = ''-m'' \<and> trim b = ''pip'' \<and> trim c \<in> {''install'', ''download'', ''wheel'', ''search''}) \<or>
      pip_window (b # c # rest))"
| "pip_window _ = False"

definition is_likely_network_command :: "string list \<Rightarrow> bool" where
  "is_likely_network_command parts =
     (case parts of
       [] \<Rightarrow> False
     | first # rest \<Rightarrow>
       let program = trim first;
           sub = map_option trim (find (\<lambda>part. \<not> starts_with ''-'' (trim part)) rest);
           sub_in = (\<lambda>words. \<exists>w \<in> set words. sub = Some w)
       in if program \<in> {''curl'', ''wget'', ''ssh'', ''scp'', ''sftp''} then True
          else if program = ''gh'' then sub_in [''api'', ''auth'', ''browse'', ''codespace'', ''cs'', ''gist'',
            ''issue'', ''pr'', ''release'', ''repo'']
          else if program = ''git'' then
            sub_in [''clone'', ''fetch'', ''pull'', ''push'', ''submodule'', ''ls-remote'']
          else if program = ''cargo'' then sub_in [''fetch'', ''install'', ''publish'', ''search'']
          else if program = ''npm'' then
            sub_in [''install'', ''i'', ''ci'', ''publish'', ''update'', ''audit'', ''view'', ''info'']
          else if program \<in> {''pip'', ''pip3''} then sub_in [''install'', ''download'', ''wheel'', ''search'']
          else if program \<in> {''python'', ''python3''} then pip_window parts
          else False)"

definition command_requires_network_approval :: "'a proc_env_scheme \<Rightarrow> string list \<Rightarrow> string + bool" where
  "command_requires_network_approval E parts =
     res_bind (configured_command_network_policy E)
       (\<lambda>p. Ok (p = NetRequireApproval \<and> is_likely_network_command parts))"

section \<open>What a sandboxed command line contains\<close>

lemma configured_path_list_absolute:
  "configured_path_list E key = Ok (Some ps) \<Longrightarrow> \<forall>p \<in> set ps. path_is_absolute p"
proof -
  have map: "res_map (\<lambda>p. if path_is_absolute p then Ok p else Err (f p)) xs = Ok ys \<Longrightarrow>
      \<forall>p \<in> set ys. path_is_absolute p" for f and xs ys :: "string list"
    by (induction xs arbitrary: ys) (auto simp: res_bind_Ok_iff split: if_splits)
  assume "configured_path_list E key = Ok (Some ps)"
  then obtain raw qs where "res_map (\<lambda>p. if path_is_absolute p then Ok p
        else Err (key @ '' entries must be absolute paths: '' @ p))
        (filter (\<lambda>p. p \<noteq> []) (split_on (CHR '':'') raw)) = Ok qs" and ps: "ps = sort_paths qs"
    by (auto simp: configured_path_list_def res_bind_Ok_iff split: option.splits)
  from map [OF this(1)] show ?thesis using set_sort_paths [of qs] unfolding ps by blast
qed

lemma apply_mount_path_env_fields:
  assumes "apply_mount_path_env E c = Ok d"
  shows "sc_mode d = sc_mode c" "sc_network d = sc_network c" "sc_clear_env d = sc_clear_env c"
    "sc_workspace_root d = sc_workspace_root c"
    "(\<forall>p \<in> set (sc_readonly_paths c). path_is_absolute p) \<Longrightarrow>
     \<forall>p \<in> set (sc_readonly_paths d). path_is_absolute p"
proof -
  from assms obtain w r h where r: "configured_path_list E ''VEGVISIR_COMMAND_READONLY_PATHS'' = Ok r"
    and d: "d = (let c1 = (case w of None \<Rightarrow> c | Some ps \<Rightarrow> c\<lparr>sc_writable_paths := ps\<rparr>);
                     c2 = (case r of None \<Rightarrow> c1 | Some ps \<Rightarrow> c1\<lparr>sc_readonly_paths := ps\<rparr>)
                 in case h of None \<Rightarrow> c2
                    | Some ps \<Rightarrow> c2\<lparr>sc_hidden_paths := sort_paths (sc_hidden_paths c2 @ ps)\<rparr>)"
    unfolding apply_mount_path_env_def Let_def res_bind_Ok_iff by blast
  show "sc_mode d = sc_mode c" "sc_network d = sc_network c" "sc_clear_env d = sc_clear_env c"
    "sc_workspace_root d = sc_workspace_root c"
    unfolding d Let_def by (simp_all split: option.split)
  have "sc_readonly_paths d = (case r of None \<Rightarrow> sc_readonly_paths c | Some ps \<Rightarrow> ps)"
    unfolding d Let_def by (simp split: option.split)
  then show "(\<forall>p \<in> set (sc_readonly_paths c). path_is_absolute p) \<Longrightarrow>
     \<forall>p \<in> set (sc_readonly_paths d). path_is_absolute p"
    using r configured_path_list_absolute by (cases r) simp_all
qed

lemma default_readonly_absolute: "\<forall>p \<in> set default_readonly_mounts. path_is_absolute p"
  by (simp add: default_readonly_mounts_def path_is_absolute_def starts_with_def)

lemma sandbox_from_env_fields:
  assumes "sandbox_from_env E root bypass = Ok c"
  shows "sc_allow_dangerous_bypass c = bypass" "sc_workspace_root c = root"
    "\<forall>p \<in> set (sc_readonly_paths c). path_is_absolute p"
    "sc_mode c = SbStrictBubblewrap \<longleftrightarrow> sandbox_mode_word E \<in> set strict_mode_words"
    "sc_mode c = SbStrictBubblewrap \<Longrightarrow> sc_network c = NetDisable \<and> sc_clear_env c"
proof -
  note modes = sandbox_path_only_def sandbox_bubblewrap_def sandbox_strict_bubblewrap_def
  from assms obtain c0 c1 c2 where m: "sandbox_for_mode (sandbox_mode_word E) root = Ok c0"
    and n: "with_network E c0 = Ok c1" and c2: "apply_mount_path_env E c1 = Ok c2"
    and ceq: "c = c2\<lparr>sc_allow_dangerous_bypass := bypass\<rparr>"
    by (auto simp: sandbox_from_env_def res_bind_Ok_iff)
  from m have c0: "c0 \<in> {sandbox_path_only root, (sandbox_path_only root)\<lparr>sc_mode := SbNone\<rparr>,
        sandbox_bubblewrap root, sandbox_strict_bubblewrap root}"
      "sc_mode c0 = SbStrictBubblewrap \<longleftrightarrow> sandbox_mode_word E \<in> set strict_mode_words"
    by (auto simp: sandbox_for_mode_def modes strict_mode_words_def split: if_splits)
  from n have c1: "sc_mode c1 = sc_mode c0" "sc_clear_env c1 = sc_clear_env c0"
      "sc_workspace_root c1 = sc_workspace_root c0" "sc_readonly_paths c1 = sc_readonly_paths c0"
      "sc_mode c0 = SbStrictBubblewrap \<Longrightarrow> c1 = c0"
    by (auto simp: with_network_def res_bind_Ok_iff split: if_splits)
  note f = apply_mount_path_env_fields [OF c2]
  have ro: "\<forall>p \<in> set (sc_readonly_paths c1). path_is_absolute p"
    using c0 c1 default_readonly_absolute by (auto simp: modes)
  show "sc_allow_dangerous_bypass c = bypass" "sc_workspace_root c = root"
    "\<forall>p \<in> set (sc_readonly_paths c). path_is_absolute p"
    "sc_mode c = SbStrictBubblewrap \<longleftrightarrow> sandbox_mode_word E \<in> set strict_mode_words"
    "sc_mode c = SbStrictBubblewrap \<Longrightarrow> sc_network c = NetDisable \<and> sc_clear_env c"
    using f(1-4) f(5) [OF ro] c0 c1 by (auto simp: ceq modes)
qed

lemma absolute_not_dashes: "path_is_absolute p \<Longrightarrow> p \<noteq> ''--''"
  by (auto simp: path_is_absolute_def starts_with_def)

lemma mounts_no_dashes:
  "push_writable_mounts E ps = Ok as \<Longrightarrow> ''--'' \<notin> set as"
  "push_hidden_mounts E ps = Ok bs \<Longrightarrow> ''--'' \<notin> set bs"
  "\<forall>p \<in> set qs. path_is_absolute p \<Longrightarrow> ''--'' \<notin> set (push_existing_readonly_mounts E qs)"
proof -
  have ok: "validate_mount_path E p = Ok () \<Longrightarrow> p \<noteq> ''--''" for p
    by (auto simp: validate_mount_path_def absolute_not_dashes split: if_splits)
  have gen: "res_map (\<lambda>p. res_bind (validate_mount_path E p) (\<lambda>_. Ok (g p))) ps = Ok xs \<Longrightarrow>
      (\<And>p. p \<noteq> ''--'' \<Longrightarrow> ''--'' \<notin> set (g p)) \<Longrightarrow> ''--'' \<notin> set (concat xs)" for g ps xs
  proof (induction ps arbitrary: xs)
    case (Cons p ps)
    then obtain ys where "validate_mount_path E p = Ok ()" "xs = g p # ys" "''--'' \<notin> set (concat ys)"
      by (auto simp: res_bind_Ok_iff)
    with ok Cons.prems(2) show ?case by simp
  qed simp
  show "push_writable_mounts E ps = Ok as \<Longrightarrow> ''--'' \<notin> set as"
    using gen [where g = "\<lambda>p. [''--bind'', p, p]"]
    by (auto simp: push_writable_mounts_def res_bind_Ok_iff)
  show "push_hidden_mounts E ps = Ok bs \<Longrightarrow> ''--'' \<notin> set bs"
    using gen [where g = "\<lambda>p. if pe_is_dir E p then [''--tmpfs'', p] else [''--bind'', ''/dev/null'', p]"]
    by (auto simp: push_hidden_mounts_def res_bind_Ok_iff)
  show "\<forall>p \<in> set qs. path_is_absolute p \<Longrightarrow> ''--'' \<notin> set (push_existing_readonly_mounts E qs)"
    by (auto simp: push_existing_readonly_mounts_def dest: absolute_not_dashes)
qed

lemma set_sensitive_names:
  "set (sensitive_environment_names E) = {k \<in> set (pe_names E). is_sensitive_environment_name k}"
  by (auto simp: sensitive_environment_names_def)

lemma base_flags_no_dashes: "''--'' \<notin> set (sandbox_base_flags E c)"
proof -
  have "\<not> is_sensitive_environment_name ''--''"
    by (simp add: is_sensitive_environment_name_def to_ascii_uppercase_def ascii_up_def starts_with_def)
  then show ?thesis by (auto simp: sandbox_base_flags_def set_sensitive_names)
qed

lemma base_flags_unset:
  assumes "\<not> sc_clear_env c" and "k \<in> set (pe_names E)" and "is_sensitive_environment_name k"
  shows "\<exists>l r. sandbox_base_flags E c = l @ [''--unsetenv'', k] @ r"
proof -
  have "k \<in> set (sensitive_environment_names E)" using assms by (simp add: set_sensitive_names)
  then obtain as bs where "sensitive_environment_names E = as @ k # bs" by (meson split_list)
  with assms(1) show ?thesis
    by (intro exI [of _ "[''--die-with-parent'', ''--unshare-pid'', ''--unshare-ipc'', ''--unshare-uts'',
          ''--proc'', ''/proc'', ''--dev'', ''/dev''] @ concat (map (\<lambda>k. [''--unsetenv'', k]) as)"] exI)
      (simp add: sandbox_base_flags_def)
qed

text \<open>The command line of a sandboxed command, and when a command is sandboxed at all.\<close>

lemma build_sandboxed_command_Ok:
  assumes "build_sandboxed_command E parts c = Ok d"
  shows "sd_sandboxed d \<longleftrightarrow> \<not> sc_allow_dangerous_bypass c \<and> sc_mode c \<in> {SbBubblewrap, SbStrictBubblewrap}"
    and "\<not> sd_sandboxed d \<Longrightarrow> sd_program d # sd_args d = parts"
    and "sd_sandboxed d \<Longrightarrow> \<exists>mounts hidden.
       push_writable_mounts E (sc_writable_paths c) = Ok mounts \<and>
       push_hidden_mounts E (sc_hidden_paths c) = Ok hidden \<and>
       sd_args d = sandbox_base_flags E c @ push_existing_readonly_mounts E (sc_readonly_paths c) @ mounts @
         [''--bind'', sc_workspace_root c, ''/workspace''] @ hidden @ [''--chdir'', ''/workspace'', ''--''] @ parts"
  using assms
  by (cases parts; cases "sc_mode c";
      auto simp: build_sandboxed_command_def res_bind_Ok_iff split: if_splits)+

end
