(* ===== verification/Guardrail.thy ===== *)
theory Guardrail
  imports Approval_Ledger Command_Sandbox
begin

text \<open>
  The guardrail engine, vegvisir/src/guardrails.rs: whether a tool call may run now, needs a
  human's approval first, or is refused. \<open>authorize_tool\<close> is a computation on the approval
  ledger: it consumes approvals and files requests. Of the registered tool it reads the name
  and the risk flag.
\<close>

record tool =
  tl_name :: string
  tl_risky :: bool

record permission_policy =
  pp_allow_risky_tools :: bool
  pp_require_human_approval :: bool
  pp_bypass_approvals_and_sandbox :: bool
  pp_allowed_commands :: "string set"
  pp_denied_tools :: "string set"

definition default_permission_policy :: permission_policy where
  "default_permission_policy =
     \<lparr>pp_allow_risky_tools = False, pp_require_human_approval = False,
      pp_bypass_approvals_and_sandbox = False, pp_allowed_commands = set default_allowed_commands,
      pp_denied_tools = {}\<rparr>"

type_synonym 'a guard_op = "(ledger, string, 'a) sx"

section \<open>Authorization\<close>

text \<open>
  The block the gates share: consume an approval of this call, or file a request for one and
  refuse. A ledger call has its own clock readings and outcome of the save; the calls of
  gate \<open>n\<close> are numbered \<open>2 n\<close> and \<open>2 n + 1\<close>.
\<close>

definition approval_gate ::
    "guard_env \<Rightarrow> (nat \<Rightarrow> ledger_io) \<Rightarrow> nat \<Rightarrow> tool \<Rightarrow> json table \<Rightarrow> string \<Rightarrow> string \<Rightarrow> bool guard_op" where
  "approval_gate G io n t args reason risk L =
     (let i = approval_request_id G (tl_name t) args
      in case consume_approval G (io (2 * n)) i (tl_name t) args L of
        (True, L') \<Rightarrow> (Ok True, L')
      | (False, L') \<Rightarrow>
        (Err (reason @ ''; approval_id='' @ i),
         enqueue (io (2 * n + 1)) \<lparr>aq_id = i, aq_reason = reason, aq_tool_name = tl_name t, aq_args = args,
           aq_risk_label = risk\<rparr> L'))"

definition allow_list_gate ::
    "guard_env \<Rightarrow> (nat \<Rightarrow> ledger_io) \<Rightarrow> permission_policy \<Rightarrow> tool \<Rightarrow> json table \<Rightarrow> bool guard_op" where
  "allow_list_gate G io P t args =
     (case (if command_policy_tool_name (tl_name t) then command_name_from_args args else None) of
       None \<Rightarrow> sx_return False
     | Some executable \<Rightarrow>
       if executable \<in> pp_allowed_commands P then sx_return False
       else approval_gate G io 0 t args
         (''Shell command is not allow-listed: '' @ executable @
          ''. Approve once or allow this command for the session.'') ''command-allow'')"

definition requirement_gate ::
    "guard_env \<Rightarrow> (nat \<Rightarrow> ledger_io) \<Rightarrow> tool \<Rightarrow> json table \<Rightarrow> bool \<Rightarrow> bool guard_op" where
  "requirement_gate G io t args granted =
     (if command_policy_tool_name (tl_name t) \<and> \<not> granted
      then (case command_approval_requirement_of (command_parts_from_args args) of
              None \<Rightarrow> sx_return False
            | Some req \<Rightarrow> approval_gate G io 1 t args (ca_reason req) (ca_risk_label req))
      else sx_return granted)"

definition network_gate ::
    "guard_env \<Rightarrow> 'e proc_env_scheme \<Rightarrow> (nat \<Rightarrow> ledger_io) \<Rightarrow> tool \<Rightarrow> json table \<Rightarrow> bool \<Rightarrow> bool guard_op" where
  "network_gate G E io t args granted =
     (if command_policy_tool_name (tl_name t) \<and> \<not> granted
      then
        let parts = command_parts_from_args args
        in sx_bind (sx_lift (command_requires_network_approval E parts)) (\<lambda>needed.
           if needed
           then approval_gate G io 2 t args
             (''Command network access requires human approval: '' @ compact_command_display parts)
             ''command-network''
           else sx_return False)
      else sx_return granted)"

definition risky_gate ::
    "guard_env \<Rightarrow> (nat \<Rightarrow> ledger_io) \<Rightarrow> permission_policy \<Rightarrow> tool \<Rightarrow> json table \<Rightarrow> bool \<Rightarrow> bool guard_op" where
  "risky_gate G io P t args granted =
     (if pp_require_human_approval P \<and> tl_risky t \<and> \<not> pp_allow_risky_tools P
      then approval_gate G io 3 t args (''Risky tool requires human approval: '' @ tl_name t)
        (risk_label (tl_name t))
      else sx_return granted)"

definition authorize_tool ::
    "guard_env \<Rightarrow> 'e proc_env_scheme \<Rightarrow> (nat \<Rightarrow> ledger_io) \<Rightarrow> permission_policy \<Rightarrow> tool \<Rightarrow> json table \<Rightarrow>
     unit guard_op" where
  "authorize_tool G E io P t args =
     (if pp_bypass_approvals_and_sandbox P then sx_return ()
      else
        sx_bind (sx_require (tl_name t \<notin> pp_denied_tools P) (''Tool is denied by policy: '' @ tl_name t)) (\<lambda>_.
        sx_bind (sx_lift (if sudo_guarded_tool_name (tl_name t)
                          then reject_unsafe_sudo_invocation (tl_name t) args else Ok ())) (\<lambda>_.
        sx_bind (allow_list_gate G io P t args) (\<lambda>g1.
        sx_bind (requirement_gate G io t args g1) (\<lambda>g2.
        sx_bind (network_gate G E io t args g2) (\<lambda>g3.
        sx_bind (risky_gate G io P t args g3) (\<lambda>g4.
        sx_bind (sx_require (\<not> (tl_risky t \<and> \<not> pp_allow_risky_tools P \<and> \<not> g4))
          (''Risky tool requires permission: '' @ tl_name t)) (\<lambda>_.
          let executable = (case first_command_word args of None \<Rightarrow> [] | Some w \<Rightarrow> w)
          in sx_require (\<not> (command_policy_tool_name (tl_name t) \<and> \<not> g4 \<and>
                executable \<notin> pp_allowed_commands P))
              (''Command is not allow-listed: '' @ executable)))))))))"

section \<open>What the gates ask\<close>

definition session_approved :: "guard_env \<Rightarrow> string \<Rightarrow> json table \<Rightarrow> ledger \<Rightarrow> bool" where
  "session_approved G name args L \<longleftrightarrow> approval_session_key G name args \<in> ls_session (lg_state L)"

definition call_approved :: "guard_env \<Rightarrow> string \<Rightarrow> json table \<Rightarrow> ledger \<Rightarrow> bool" where
  "call_approved G name args L \<longleftrightarrow> session_approved G name args L \<or>
     approval_request_id G name args \<in> ls_approved_once (lg_state L)"

definition unlisted_command :: "permission_policy \<Rightarrow> tool \<Rightarrow> json table \<Rightarrow> bool" where
  "unlisted_command P t args \<longleftrightarrow> command_policy_tool_name (tl_name t) \<and>
     (\<exists>c. command_name_from_args args = Some c \<and> c \<notin> pp_allowed_commands P)"

definition dangerous_command :: "tool \<Rightarrow> json table \<Rightarrow> bool" where
  "dangerous_command t args \<longleftrightarrow> command_policy_tool_name (tl_name t) \<and>
     command_approval_requirement_of (command_parts_from_args args) \<noteq> None"

definition network_command :: "'e proc_env_scheme \<Rightarrow> tool \<Rightarrow> json table \<Rightarrow> bool" where
  "network_command E t args \<longleftrightarrow> command_policy_tool_name (tl_name t) \<and>
     command_requires_network_approval E (command_parts_from_args args) = Ok True"

definition command_gated :: "'e proc_env_scheme \<Rightarrow> permission_policy \<Rightarrow> tool \<Rightarrow> json table \<Rightarrow> bool" where
  "command_gated E P t args \<longleftrightarrow>
     unlisted_command P t args \<or> dangerous_command t args \<or> network_command E t args"

definition risk_gated :: "permission_policy \<Rightarrow> tool \<Rightarrow> bool" where
  "risk_gated P t \<longleftrightarrow> pp_require_human_approval P \<and> tl_risky t \<and> \<not> pp_allow_risky_tools P"

text \<open>
  When a call is authorized: not denied, no \<open>sudo\<close>, every gate it meets satisfied. The
  command gates share one approval; the gate for risky tools takes another, which after a
  command gate only a session approval provides.
\<close>

definition authorized ::
    "guard_env \<Rightarrow> 'e proc_env_scheme \<Rightarrow> permission_policy \<Rightarrow> tool \<Rightarrow> json table \<Rightarrow> ledger \<Rightarrow> bool" where
  "authorized G E P t args L \<longleftrightarrow>
     pp_bypass_approvals_and_sandbox P \<or>
     (tl_name t \<notin> pp_denied_tools P \<and>
      (sudo_guarded_tool_name (tl_name t) \<longrightarrow>
         \<not> command_mentions_sudo_invocation (command_parts_from_args args)) \<and>
      (command_policy_tool_name (tl_name t) \<and> \<not> unlisted_command P t args \<and> \<not> dangerous_command t args \<longrightarrow>
         is_ok (command_requires_network_approval E (command_parts_from_args args))) \<and>
      (command_gated E P t args \<longrightarrow> call_approved G (tl_name t) args L) \<and>
      (risk_gated P t \<longrightarrow> (if command_gated E P t args then session_approved G (tl_name t) args L
                           else call_approved G (tl_name t) args L)) \<and>
      (tl_risky t \<and> \<not> pp_allow_risky_tools P \<longrightarrow> command_gated E P t args \<or> risk_gated P t) \<and>
      (command_policy_tool_name (tl_name t) \<and> \<not> command_gated E P t args \<and> \<not> risk_gated P t \<longrightarrow>
         (case first_command_word args of None \<Rightarrow> [] | Some w \<Rightarrow> w) \<in> pp_allowed_commands P))"

section \<open>The gates decide as stated\<close>

lemma approval_gate_granted:
  assumes "call_approved G (tl_name t) args L"
  shows "\<exists>L'. approval_gate G io n t args reason risk L = (Ok True, L') \<and>
     (call_approved G (tl_name t) args L' \<longleftrightarrow> session_approved G (tl_name t) args L)"
proof -
  let ?i = "approval_request_id G (tl_name t) args"
  let ?c = "consume_approval G (io (2 * n)) ?i (tl_name t) args L"
  have "fst ?c" using assms by (simp add: consume_approval_result call_approved_def session_approved_def)
  then have "approval_gate G io n t args reason risk L = (Ok True, snd ?c)"
    by (cases ?c) (simp add: approval_gate_def Let_def)
  moreover have "call_approved G (tl_name t) args (snd ?c) \<longleftrightarrow> session_approved G (tl_name t) args L"
    by (simp add: call_approved_def session_approved_def consume_approval_result)
  ultimately show ?thesis by blast
qed

lemma approval_gate_refused:
  assumes "\<not> call_approved G (tl_name t) args L"
  shows "\<exists>L'. approval_gate G io n t args reason risk L =
       (Err (reason @ ''; approval_id='' @ approval_request_id G (tl_name t) args), L') \<and>
     ls_session (lg_state L') = ls_session (lg_state L) \<and>
     tbl_get (approval_request_id G (tl_name t) args) (ls_pending (lg_state L')) =
       (case tbl_get (approval_request_id G (tl_name t) args) (ls_pending (lg_state L)) of
          None \<Rightarrow> Some \<lparr>aq_id = approval_request_id G (tl_name t) args, aq_reason = reason,
            aq_tool_name = tl_name t, aq_args = args, aq_risk_label = risk\<rparr>
        | Some q \<Rightarrow> Some q)"
proof -
  let ?i = "approval_request_id G (tl_name t) args"
  let ?c = "consume_approval G (io (2 * n)) ?i (tl_name t) args L"
  let ?r = "\<lparr>aq_id = ?i, aq_reason = reason, aq_tool_name = tl_name t, aq_args = args, aq_risk_label = risk\<rparr>"
  have c: "\<not> fst ?c" using assms by (simp add: consume_approval_result call_approved_def session_approved_def)
  then have "approval_gate G io n t args reason risk L =
      (Err (reason @ ''; approval_id='' @ ?i), enqueue (io (2 * n + 1)) ?r (snd ?c))"
    by (cases ?c) (simp add: approval_gate_def Let_def)
  then show ?thesis
    using enqueue_result [where io = "io (2 * n + 1)" and r = ?r and L = "snd ?c"] consume_refused_pending [OF c]
    by (simp add: consume_approval_result)
qed

text \<open>The first three gates together: at most one of them meets the call and takes one approval.\<close>

definition command_gates ::
    "guard_env \<Rightarrow> 'e proc_env_scheme \<Rightarrow> (nat \<Rightarrow> ledger_io) \<Rightarrow> permission_policy \<Rightarrow> tool \<Rightarrow> json table \<Rightarrow>
     bool guard_op" where
  "command_gates G E io P t args =
     sx_bind (allow_list_gate G io P t args) (\<lambda>g1.
     sx_bind (requirement_gate G io t args g1) (\<lambda>g2. network_gate G E io t args g2))"

lemma command_gates_ungated:
  assumes "\<not> command_gated E P t args"
    and "command_policy_tool_name (tl_name t) \<Longrightarrow>
      is_ok (command_requires_network_approval E (command_parts_from_args args))"
  shows "command_gates G E io P t args L = (Ok False, L)"
proof -
  have "allow_list_gate G io P t args L = (Ok False, L)"
    using assms(1) by (auto simp: allow_list_gate_def command_gated_def unlisted_command_def sx_simps split: option.split)
  moreover have "requirement_gate G io t args False L = (Ok False, L)"
    using assms(1) by (auto simp: requirement_gate_def command_gated_def dangerous_command_def sx_simps split: option.split)
  moreover have "network_gate G E io t args False L = (Ok False, L)"
    using assms by (auto simp: network_gate_def command_gated_def network_command_def sx_simps Let_def is_ok_iff)
  ultimately show ?thesis by (simp add: command_gates_def sx_bind_def)
qed

text \<open>A gated call goes through exactly one approval gate, with some reason and label.\<close>

lemma command_gates_gated:
  assumes "command_gated E P t args"
    and "command_policy_tool_name (tl_name t) \<Longrightarrow> \<not> unlisted_command P t args \<Longrightarrow> \<not> dangerous_command t args \<Longrightarrow>
      is_ok (command_requires_network_approval E (command_parts_from_args args))"
  shows "\<exists>n reason risk. command_gates G E io P t args L = approval_gate G io n t args reason risk L"
proof -
  have pass: "sx_bind (approval_gate G io n t args reason risk) f L = approval_gate G io n t args reason risk L"
    if "\<And>L'. f True L' = (Ok True, L')" for n reason risk f
    using that approval_gate_granted [of G t args L io n reason risk]
      approval_gate_refused [of G t args L io n reason risk]
    by (cases "call_approved G (tl_name t) args L") (auto simp: sx_bind_def)
  have skip: "requirement_gate G io t args True = sx_return True" "network_gate G E io t args True = sx_return True"
    by (simp_all add: requirement_gate_def network_gate_def)
  show ?thesis
  proof (cases "unlisted_command P t args")
    case True
    then obtain reason where "allow_list_gate G io P t args = approval_gate G io 0 t args reason ''command-allow''"
      by (auto simp: allow_list_gate_def unlisted_command_def)
    then show ?thesis
      using pass [of "\<lambda>g. sx_bind (requirement_gate G io t args g) (network_gate G E io t args)"]
      by (auto simp: command_gates_def skip sx_simps)
  next
    case False
    then have a: "allow_list_gate G io P t args = sx_return False"
      by (auto simp: allow_list_gate_def unlisted_command_def split: option.split)
    show ?thesis
    proof (cases "dangerous_command t args")
      case True
      then obtain req where "command_policy_tool_name (tl_name t)"
        "command_approval_requirement_of (command_parts_from_args args) = Some req"
        by (auto simp: dangerous_command_def)
      then have "requirement_gate G io t args False =
          approval_gate G io 1 t args (ca_reason req) (ca_risk_label req)"
        by (simp add: requirement_gate_def)
      then show ?thesis
        using pass [of "network_gate G E io t args"] by (auto simp: command_gates_def a skip sx_simps)
    next
      case no: False
      have r: "requirement_gate G io t args False = sx_return False"
        using no by (auto simp: requirement_gate_def dangerous_command_def split: option.split)
      have "network_command E t args" using assms(1) False no by (simp add: command_gated_def)
      then have "\<exists>reason. network_gate G E io t args False L = approval_gate G io 2 t args reason ''command-network'' L"
        by (auto simp: network_gate_def network_command_def Let_def sx_simps)
      moreover have "command_gates G E io P t args L = network_gate G E io t args False L"
        by (simp add: command_gates_def a r sx_bind_def sx_return_def)
      ultimately show ?thesis by metis
    qed
  qed
qed

lemma command_gates_bad_config:
  assumes "command_policy_tool_name (tl_name t)" "\<not> unlisted_command P t args" "\<not> dangerous_command t args"
    and "\<not> is_ok (command_requires_network_approval E (command_parts_from_args args))"
  shows "\<not> is_ok (fst (command_gates G E io P t args L))"
proof -
  have "allow_list_gate G io P t args = sx_return False"
    using assms(2) by (auto simp: allow_list_gate_def unlisted_command_def split: option.split)
  moreover have "requirement_gate G io t args False = sx_return False"
    using assms(3) by (auto simp: requirement_gate_def dangerous_command_def split: option.split)
  ultimately show ?thesis
    using assms(1,4) by (auto simp: command_gates_def network_gate_def sx_simps Let_def is_ok_def split: sum.splits)
qed

lemma authorize_tool_gates:
  "authorize_tool G E io P t args =
     (if pp_bypass_approvals_and_sandbox P then sx_return ()
      else
        sx_bind (sx_require (tl_name t \<notin> pp_denied_tools P) (''Tool is denied by policy: '' @ tl_name t)) (\<lambda>_.
        sx_bind (sx_lift (if sudo_guarded_tool_name (tl_name t)
                          then reject_unsafe_sudo_invocation (tl_name t) args else Ok ())) (\<lambda>_.
        sx_bind (command_gates G E io P t args) (\<lambda>g3.
        sx_bind (risky_gate G io P t args g3) (\<lambda>g4.
        sx_bind (sx_require (\<not> (tl_risky t \<and> \<not> pp_allow_risky_tools P \<and> \<not> g4))
          (''Risky tool requires permission: '' @ tl_name t)) (\<lambda>_.
          let executable = (case first_command_word args of None \<Rightarrow> [] | Some w \<Rightarrow> w)
          in sx_require (\<not> (command_policy_tool_name (tl_name t) \<and> \<not> g4 \<and>
                executable \<notin> pp_allowed_commands P))
              (''Command is not allow-listed: '' @ executable)))))))"
  by (intro ext) (auto simp: authorize_tool_def command_gates_def sx_bind_def split: prod.split sum.split)

lemma risky_gate_Ok:
  "is_ok (fst (risky_gate G io P t args g L)) \<longleftrightarrow> (risk_gated P t \<longrightarrow> call_approved G (tl_name t) args L)"
  "risky_gate G io P t args g L = (Ok g', L') \<Longrightarrow> g' = (g \<or> risk_gated P t)"
proof -
  have t: "call_approved G (tl_name t) args L \<Longrightarrow> risk_gated P t \<Longrightarrow>
      \<exists>L'. risky_gate G io P t args g L = (Ok True, L')"
    using approval_gate_granted [of G t args L io 3] by (force simp: risky_gate_def risk_gated_def)
  have f: "\<not> call_approved G (tl_name t) args L \<Longrightarrow> risk_gated P t \<Longrightarrow>
      \<exists>e L'. risky_gate G io P t args g L = (Err e, L')"
    using approval_gate_refused [of G t args L io 3] by (force simp: risky_gate_def risk_gated_def)
  have n: "\<not> risk_gated P t \<Longrightarrow> risky_gate G io P t args g L = (Ok g, L)"
    by (auto simp: risky_gate_def risk_gated_def sx_simps)
  show "is_ok (fst (risky_gate G io P t args g L)) \<longleftrightarrow> (risk_gated P t \<longrightarrow> call_approved G (tl_name t) args L)"
    using t f n by (cases "risk_gated P t"; cases "call_approved G (tl_name t) args L") force+
  show "g' = (g \<or> risk_gated P t)" if "risky_gate G io P t args g L = (Ok g', L')"
    using that t f n by (cases "risk_gated P t"; cases "call_approved G (tl_name t) args L") force+
qed

lemma authorize_tool_Ok_iff:
  "is_ok (fst (authorize_tool G E io P t args L)) \<longleftrightarrow> authorized G E P t args L"
proof (cases "pp_bypass_approvals_and_sandbox P")
  case True
  then show ?thesis by (simp add: authorize_tool_def authorized_def sx_simps)
next
  case nb: False
  let ?ex = "case first_command_word args of None \<Rightarrow> [] | Some w \<Rightarrow> w"
  let ?tail = "\<lambda>g3. sx_bind (risky_gate G io P t args g3) (\<lambda>g4.
        sx_bind (sx_require (\<not> (tl_risky t \<and> \<not> pp_allow_risky_tools P \<and> \<not> g4))
          (''Risky tool requires permission: '' @ tl_name t)) (\<lambda>_.
          sx_require (\<not> (command_policy_tool_name (tl_name t) \<and> \<not> g4 \<and> ?ex \<notin> pp_allowed_commands P))
              (''Command is not allow-listed: '' @ ?ex)))"
  have tail: "is_ok (fst (?tail g L')) \<longleftrightarrow> (risk_gated P t \<longrightarrow> call_approved G (tl_name t) args L') \<and>
      (tl_risky t \<and> \<not> pp_allow_risky_tools P \<longrightarrow> g \<or> risk_gated P t) \<and>
      (command_policy_tool_name (tl_name t) \<and> \<not> g \<and> \<not> risk_gated P t \<longrightarrow> ?ex \<in> pp_allowed_commands P)" for g L'
  proof (cases "risky_gate G io P t args g L'")
    case (Pair r M)
    show ?thesis
    proof (cases r)
      case (Inl e)
      with Pair risky_gate_Ok(1) [of G io P t args g L'] show ?thesis by (simp add: sx_bind_def)
    next
      case (Inr g')
      with Pair risky_gate_Ok(1) [of G io P t args g L'] risky_gate_Ok(2) [of G io P t args g L' g' M]
      show ?thesis by (simp add: sx_bind_def sx_require_def) blast
    qed
  qed
  have body: "is_ok (fst (sx_bind (command_gates G E io P t args) ?tail L)) \<longleftrightarrow>
      (command_policy_tool_name (tl_name t) \<and> \<not> unlisted_command P t args \<and> \<not> dangerous_command t args \<longrightarrow>
         is_ok (command_requires_network_approval E (command_parts_from_args args))) \<and>
      (command_gated E P t args \<longrightarrow> call_approved G (tl_name t) args L) \<and>
      (risk_gated P t \<longrightarrow> (if command_gated E P t args then session_approved G (tl_name t) args L
                           else call_approved G (tl_name t) args L)) \<and>
      (tl_risky t \<and> \<not> pp_allow_risky_tools P \<longrightarrow> command_gated E P t args \<or> risk_gated P t) \<and>
      (command_policy_tool_name (tl_name t) \<and> \<not> command_gated E P t args \<and> \<not> risk_gated P t \<longrightarrow>
         ?ex \<in> pp_allowed_commands P)" (is "_ \<longleftrightarrow> ?cfg \<and> ?rest")
  proof (cases ?cfg)
    case False
    then have "\<not> is_ok (fst (command_gates G E io P t args L))" using command_gates_bad_config by blast
    with False show ?thesis by (auto simp: sx_bind_def is_ok_def split: prod.split sum.splits)
  next
    case cfg: True
    show ?thesis
    proof (cases "command_gated E P t args")
      case False
      have "command_gates G E io P t args L = (Ok False, L)"
        using cfg False by (intro command_gates_ungated) (auto simp: command_gated_def)
      with tail [of False L] cfg False show ?thesis by (simp add: sx_bind_def)
    next
      case True
      then obtain n reason risk where g: "command_gates G E io P t args L = approval_gate G io n t args reason risk L"
        using command_gates_gated cfg by blast
      show ?thesis
      proof (cases "call_approved G (tl_name t) args L")
        case ca: True
        then obtain L' where "approval_gate G io n t args reason risk L = (Ok True, L')"
          "call_approved G (tl_name t) args L' \<longleftrightarrow> session_approved G (tl_name t) args L"
          using approval_gate_granted by blast
        with g tail [of True L'] cfg True ca show ?thesis by (simp add: sx_bind_def)
      next
        case nca: False
        then have "\<not> is_ok (fst (command_gates G E io P t args L))"
          using g approval_gate_refused [of G t args L io n reason risk] by force
        with True nca show ?thesis by (auto simp: sx_bind_def is_ok_def split: prod.split sum.splits)
      qed
    qed
  qed
  have sudo: "(if sudo_guarded_tool_name (tl_name t) then reject_unsafe_sudo_invocation (tl_name t) args else Ok ()) = Ok u \<longleftrightarrow>
      (sudo_guarded_tool_name (tl_name t) \<longrightarrow> \<not> command_mentions_sudo_invocation (command_parts_from_args args))"
    for u using reject_sudo_Ok_iff [of "tl_name t" args] by simp
  show ?thesis
    unfolding authorize_tool_gates authorized_def Let_def
    by (simp only: nb if_False simp_thms sx_bind_require_ok sx_bind_lift_ok sudo body)
qed

section \<open>A refused call can be approved\<close>

text \<open>
  A call the gates ask about, refused for want of an approval, leaves a pending request under
  the identifier of the call.
\<close>

lemma refused_call_is_pending:
  assumes "\<not> pp_bypass_approvals_and_sandbox P" and "tl_name t \<notin> pp_denied_tools P"
    and "sudo_guarded_tool_name (tl_name t) \<Longrightarrow> \<not> command_mentions_sudo_invocation (command_parts_from_args args)"
    and "command_policy_tool_name (tl_name t) \<Longrightarrow>
      is_ok (command_requires_network_approval E (command_parts_from_args args))"
    and "command_gated E P t args \<or> risk_gated P t"
    and "\<not> call_approved G (tl_name t) args L"
  shows "\<exists>reason risk L'. authorize_tool G E io P t args L =
       (Err (reason @ ''; approval_id='' @ approval_request_id G (tl_name t) args), L') \<and>
     ls_session (lg_state L') = ls_session (lg_state L) \<and>
     tbl_get (approval_request_id G (tl_name t) args) (ls_pending (lg_state L')) =
       (case tbl_get (approval_request_id G (tl_name t) args) (ls_pending (lg_state L)) of
          None \<Rightarrow> Some \<lparr>aq_id = approval_request_id G (tl_name t) args, aq_reason = reason,
            aq_tool_name = tl_name t, aq_args = args, aq_risk_label = risk\<rparr>
        | Some q \<Rightarrow> Some q)"
proof -
  have "\<exists>n reason risk. sx_bind (command_gates G E io P t args) (risky_gate G io P t args) L =
      approval_gate G io n t args reason risk L"
  proof (cases "command_gated E P t args")
    case True
    then obtain n reason risk where "command_gates G E io P t args L = approval_gate G io n t args reason risk L"
      using command_gates_gated [of E P t args G io L] assms(4) by blast
    moreover obtain e L' where "approval_gate G io n t args reason risk L = (Err e, L')"
      using approval_gate_refused [OF assms(6), of io n reason risk] by blast
    ultimately have "sx_bind (command_gates G E io P t args) (risky_gate G io P t args) L =
        approval_gate G io n t args reason risk L" by (simp add: sx_bind_def)
    then show ?thesis by blast
  next
    case False
    then have "command_gates G E io P t args L = (Ok False, L)" using command_gates_ungated assms(4) by blast
    moreover have "risky_gate G io P t args False = approval_gate G io 3 t args
        (''Risky tool requires human approval: '' @ tl_name t) (risk_label (tl_name t))"
      using False assms(5) by (simp add: risky_gate_def risk_gated_def)
    ultimately have "sx_bind (command_gates G E io P t args) (risky_gate G io P t args) L =
        approval_gate G io 3 t args (''Risky tool requires human approval: '' @ tl_name t) (risk_label (tl_name t)) L"
      by (simp only: sx_bind_def prod.case sum.case)
    then show ?thesis by blast
  qed
  then obtain n reason risk where g: "sx_bind (command_gates G E io P t args) (risky_gate G io P t args) L =
      approval_gate G io n t args reason risk L" by blast
  from approval_gate_refused [OF assms(6), of io n reason risk] obtain L' where
    L': "approval_gate G io n t args reason risk L =
        (Err (reason @ ''; approval_id='' @ approval_request_id G (tl_name t) args), L')"
    and rest: "ls_session (lg_state L') = ls_session (lg_state L)"
      "tbl_get (approval_request_id G (tl_name t) args) (ls_pending (lg_state L')) =
       (case tbl_get (approval_request_id G (tl_name t) args) (ls_pending (lg_state L)) of
          None \<Rightarrow> Some \<lparr>aq_id = approval_request_id G (tl_name t) args, aq_reason = reason,
            aq_tool_name = tl_name t, aq_args = args, aq_risk_label = risk\<rparr>
        | Some q \<Rightarrow> Some q)" by blast
  have assoc: "sx_bind m (\<lambda>x. sx_bind (f x) h) L = sx_bind (sx_bind m f) h L"
    for m :: "bool guard_op" and f :: "bool \<Rightarrow> bool guard_op" and h :: "bool \<Rightarrow> unit guard_op"
    by (simp add: sx_bind_def split: prod.split sum.split)
  have fail: "sx_bind m h L = (Err e, M)" if "m L = (Err e, M)" for m :: "bool guard_op" and h :: "bool \<Rightarrow> unit guard_op" and e M
    using that by (simp add: sx_bind_def)
  have req: "sx_bind (sx_require True e) f L = f () L" "sx_bind (sx_lift (Ok ())) f L = f () L"
    for e :: string and f :: "unit \<Rightarrow> unit guard_op" by (simp_all add: sx_bind_def sx_require_def sx_lift_def)
  have sudo: "(if sudo_guarded_tool_name (tl_name t) then reject_unsafe_sudo_invocation (tl_name t) args else Ok ()) = Ok ()"
    using assms(3) reject_sudo_Ok_iff by simp
  have den: "(tl_name t \<notin> pp_denied_tools P) = True" using assms(2) by simp
  have "authorize_tool G E io P t args L =
      (Err (reason @ ''; approval_id='' @ approval_request_id G (tl_name t) args), L')"
    unfolding authorize_tool_gates den sudo
    by (simp only: assms(1) if_False req assoc) (rule fail, simp only: g L')
  with rest show ?thesis by blast
qed

lemma approve_session_result:
  assumes "tbl_get i (ls_pending (lg_state L)) = Some r"
  shows "fst (approve_for_session G io i L) = Some r"
    and "ls_session (lg_state (snd (approve_for_session G io i L))) =
      insert (approval_session_key G (aq_tool_name r) (aq_args r)) (ls_session (lg_state L))"
  using assms by (simp_all add: approve_for_session_def Let_def)

lemma approved_for_session_runs:
  assumes "\<not> pp_bypass_approvals_and_sandbox P" and "tl_name t \<notin> pp_denied_tools P"
    and "sudo_guarded_tool_name (tl_name t) \<Longrightarrow> \<not> command_mentions_sudo_invocation (command_parts_from_args args)"
    and "command_policy_tool_name (tl_name t) \<Longrightarrow>
      is_ok (command_requires_network_approval E (command_parts_from_args args))"
    and "command_gated E P t args \<or> risk_gated P t"
    and "session_approved G (tl_name t) args L"
  shows "is_ok (fst (authorize_tool G E io P t args L))"
  using assms unfolding authorize_tool_Ok_iff authorized_def call_approved_def by auto

end
