(* ===== verification/Control_Requests.thy ===== *)
theory Control_Requests
  imports Approval_Ledger
begin

text \<open>
  The registry of control requests, vegvisir/src/control_requests.rs: requests sent to a
  user interface or a host, each settled at most once. The clock is an argument, as in the
  code.
\<close>

section \<open>Requests\<close>

record 'p control_request =
  cr_request_id :: string
  cr_run_id :: string
  cr_subtype :: string
  cr_payload :: 'p
  cr_expires_at :: "time option"

definition map_payload :: "('p \<Rightarrow> 'q) \<Rightarrow> 'p control_request \<Rightarrow> 'q control_request" where
  "map_payload f r =
     \<lparr>cr_request_id = cr_request_id r, cr_run_id = cr_run_id r, cr_subtype = cr_subtype r,
      cr_payload = f (cr_payload r), cr_expires_at = cr_expires_at r\<rparr>"

record 'p control_response =
  cp_request_id :: string
  cp_decision_source :: string
  cp_payload :: 'p

record approval_control_payload =
  acp_approval_id :: string
  acp_tool_name :: string
  acp_risk_label :: string
  acp_reason :: string
  acp_args :: "json table"

definition approval_payload :: "approval_request \<Rightarrow> approval_control_payload" where
  "approval_payload r =
     \<lparr>acp_approval_id = aq_id r, acp_tool_name = aq_tool_name r, acp_risk_label = aq_risk_label r,
      acp_reason = aq_reason r, acp_args = aq_args r\<rparr>"

definition approval_control_request ::
    "string \<Rightarrow> approval_request \<Rightarrow> time option \<Rightarrow> approval_control_payload control_request" where
  "approval_control_request run_id r expires_at =
     \<lparr>cr_request_id = ''ctrl_'' @ aq_id r, cr_run_id = run_id, cr_subtype = ''approval'',
      cr_payload = approval_payload r, cr_expires_at = expires_at\<rparr>"

datatype control_status = CtPending | CtResolved | CtCancelled | CtTimedOut | CtAborted

record control_record =
  co_request :: "json control_request"
  co_created_at :: time
  co_status :: control_status
  co_resolved_at :: "time option"
  co_response :: "json control_response option"
  co_terminal_reason :: "string option"

datatype resolve_outcome =
    Applied string string
  | DuplicateIgnored string control_status
  | TimedOut string
  | UnknownRequest string

type_synonym control_table = "control_record table"

definition co_is_pending :: "control_record \<Rightarrow> bool" where
  "co_is_pending r = (co_status r = CtPending)"

definition is_expired :: "time option \<Rightarrow> time \<Rightarrow> bool" where
  "is_expired expires_at now = (case expires_at of None \<Rightarrow> False | Some e \<Rightarrow> now \<ge> e)"

section \<open>Operations\<close>

definition control_insert ::
    "json control_request \<Rightarrow> time \<Rightarrow> control_table \<Rightarrow> (string + unit) \<times> control_table" where
  "control_insert request created_at t =
     (if tbl_has (cr_request_id request) t then (Err (cr_request_id request), t)
      else (Ok (), tbl_put (cr_request_id request)
        \<lparr>co_request = request, co_created_at = created_at, co_status = CtPending, co_resolved_at = None,
         co_response = None, co_terminal_reason = None\<rparr> t))"

definition control_pending :: "control_table \<Rightarrow> control_record list" where
  "control_pending t = filter co_is_pending (map snd t)"

definition control_pending_len :: "control_table \<Rightarrow> nat" where
  "control_pending_len t = length (control_pending t)"

definition control_resolve ::
    "json control_response \<Rightarrow> time \<Rightarrow> control_table \<Rightarrow> resolve_outcome \<times> control_table" where
  "control_resolve response now t =
     (let i = cp_request_id response
      in case tbl_get i t of
        None \<Rightarrow> (UnknownRequest i, t)
      | Some r \<Rightarrow>
        if co_status r \<noteq> CtPending then (DuplicateIgnored i (co_status r), t)
        else if is_expired (cr_expires_at (co_request r)) now
        then (TimedOut i, tbl_put i (r\<lparr>co_status := CtTimedOut, co_resolved_at := Some now,
                co_terminal_reason := Some ''control request expired before response''\<rparr>) t)
        else (Applied i (cr_subtype (co_request r)),
              tbl_put i (r\<lparr>co_status := CtResolved, co_resolved_at := Some now,
                co_response := Some response\<rparr>) t))"

definition control_cancel :: "string \<Rightarrow> string \<Rightarrow> time \<Rightarrow> control_table \<Rightarrow> bool \<times> control_table" where
  "control_cancel i reason now t =
     (case tbl_get i t of
       None \<Rightarrow> (False, t)
     | Some r \<Rightarrow>
       if co_status r \<noteq> CtPending then (False, t)
       else (True, tbl_put i (r\<lparr>co_status := CtCancelled, co_resolved_at := Some now,
               co_terminal_reason := Some reason\<rparr>) t))"

definition control_abort_pending :: "string \<Rightarrow> time \<Rightarrow> control_table \<Rightarrow> string list \<times> control_table" where
  "control_abort_pending reason now t =
     (map (\<lambda>r. cr_request_id (co_request r)) (control_pending t),
      tbl_map (\<lambda>r. if co_is_pending r
        then r\<lparr>co_status := CtAborted, co_resolved_at := Some now, co_terminal_reason := Some reason\<rparr>
        else r) t)"

definition control_due :: "time \<Rightarrow> control_record \<Rightarrow> bool" where
  "control_due now r = (co_is_pending r \<and> is_expired (cr_expires_at (co_request r)) now)"

definition control_expire :: "time \<Rightarrow> control_table \<Rightarrow> string list \<times> control_table" where
  "control_expire now t =
     (map (\<lambda>r. cr_request_id (co_request r)) (filter (control_due now) (map snd t)),
      tbl_map (\<lambda>r. if control_due now r
        then r\<lparr>co_status := CtTimedOut, co_resolved_at := Some now,
               co_terminal_reason := Some ''control request expired''\<rparr>
        else r) t)"

section \<open>The registry over time\<close>

datatype control_cmd =
    CInsert "json control_request" time
  | CResolve "json control_response" time
  | CCancel string string time
  | CAbort string time
  | CExpire time

fun control_step :: "control_cmd \<Rightarrow> control_table \<Rightarrow> control_table" where
  "control_step (CInsert r now) t = snd (control_insert r now t)"
| "control_step (CResolve p now) t = snd (control_resolve p now t)"
| "control_step (CCancel i reason now) t = snd (control_cancel i reason now t)"
| "control_step (CAbort reason now) t = snd (control_abort_pending reason now t)"
| "control_step (CExpire now) t = snd (control_expire now t)"

text \<open>Each record is under its own identifier and shows its settlement exactly when settled.\<close>

definition control_record_ok :: "string \<Rightarrow> control_record \<Rightarrow> bool" where
  "control_record_ok i r \<longleftrightarrow> cr_request_id (co_request r) = i \<and>
     (co_status r = CtPending \<longleftrightarrow> co_resolved_at r = None) \<and>
     (co_status r = CtResolved \<longleftrightarrow> co_response r \<noteq> None) \<and>
     (co_status r \<in> {CtPending, CtResolved} \<longleftrightarrow> co_terminal_reason r = None) \<and>
     (\<forall>p. co_response r = Some p \<longrightarrow> cp_request_id p = i)"

definition control_ok :: "control_table \<Rightarrow> bool" where
  "control_ok t \<longleftrightarrow> tbl_ok t \<and> (\<forall>i r. tbl_get i t = Some r \<longrightarrow> control_record_ok i r)"

lemma control_ok_Nil [simp]: "control_ok []"
  by (simp add: control_ok_def)

lemma control_ok_put: "control_ok t \<Longrightarrow> control_record_ok i r \<Longrightarrow> control_ok (tbl_put i r t)"
  by (auto simp: control_ok_def tbl_simps)

lemma control_ok_map:
  "control_ok t \<Longrightarrow> (\<And>i r. control_record_ok i r \<Longrightarrow> control_record_ok i (f r)) \<Longrightarrow> control_ok (tbl_map f t)"
  by (auto simp: control_ok_def tbl_simps)

lemma control_ok_get: "control_ok t \<Longrightarrow> tbl_get i t = Some r \<Longrightarrow> control_record_ok i r"
  by (simp add: control_ok_def)

lemma control_record_ok_settled:
  assumes "control_record_ok i r" and "co_status r = CtPending"
  shows "s \<in> {CtCancelled, CtTimedOut, CtAborted} \<Longrightarrow>
      control_record_ok i (r\<lparr>co_status := s, co_resolved_at := Some now, co_terminal_reason := Some reason\<rparr>)"
    and "cp_request_id p = i \<Longrightarrow>
      control_record_ok i (r\<lparr>co_status := CtResolved, co_resolved_at := Some now, co_response := Some p\<rparr>)"
  using assms by (auto simp: control_record_ok_def)

lemma control_ok_step: "control_ok t \<Longrightarrow> control_ok (control_step c t)"
proof (cases c)
  case (CInsert r now)
  assume "control_ok t"
  with CInsert show ?thesis
    by (simp add: control_insert_def) (intro impI control_ok_put, simp_all add: control_record_ok_def)
next
  case (CResolve p now)
  assume "control_ok t"
  with CResolve show ?thesis
    by (simp add: control_resolve_def Let_def split: option.split)
      (intro impI allI conjI control_ok_put control_record_ok_settled control_ok_get, simp_all)
next
  case (CCancel i reason now)
  assume "control_ok t"
  with CCancel show ?thesis
    by (simp add: control_cancel_def split: option.split)
      (intro impI allI conjI control_ok_put control_record_ok_settled control_ok_get, simp_all)
next
  case (CAbort reason now)
  assume "control_ok t"
  with CAbort show ?thesis
    by (simp add: control_abort_pending_def co_is_pending_def)
      (rule control_ok_map, assumption, simp add: control_record_ok_settled)
next
  case (CExpire now)
  assume "control_ok t"
  with CExpire show ?thesis
    by (simp add: control_expire_def control_due_def co_is_pending_def)
      (rule control_ok_map, assumption, simp add: control_record_ok_settled)
qed

text \<open>No command removes a record, and none touches a settled one.\<close>

lemma control_step_record:
  assumes "tbl_get i t = Some r"
  shows "\<exists>r'. tbl_get i (control_step c t) = Some r' \<and> (co_status r \<noteq> CtPending \<longrightarrow> r' = r)"
  using assms
  by (cases c)
    (auto simp: control_insert_def control_resolve_def control_cancel_def control_abort_pending_def
      control_expire_def control_due_def co_is_pending_def tbl_simps tbl_has_def Let_def split: option.split)

interpretation control_life: lifecycle control_step "\<lambda>_ _. True" control_ok
    "\<lambda>t i. tbl_get i t \<noteq> None" "\<lambda>t i. tbl_get i t" "\<lambda>r. co_status r \<noteq> CtPending"
proof unfold_locales
  fix t :: control_table and i r c
  assume "tbl_get i t = Some r" "co_status r \<noteq> CtPending"
  then show "tbl_get i (control_step c t) = None \<or> tbl_get i (control_step c t) = Some r"
    using control_step_record by blast
next
  fix t :: control_table and i c
  assume "tbl_get i t \<noteq> None"
  then show "tbl_get i (control_step c t) \<noteq> None" using control_step_record [of i t _ c] by fastforce
qed (auto intro: control_ok_step)

lemma control_known_forever:
  "tbl_get i (t :: control_table) \<noteq> None \<Longrightarrow> tbl_get i (fold control_step cs t) \<noteq> None"
proof (induction cs arbitrary: t)
  case (Cons c cs)
  then show ?case using control_step_record [of i t _ c] by fastforce
qed simp

text \<open>A settled request keeps its record through every run.\<close>

lemma control_settled_forever:
  assumes "control_ok t" and "tbl_get i t = Some r" and "co_status r \<noteq> CtPending"
  shows "tbl_get i (fold control_step cs t) = Some r"
  using control_life.final_forever [OF assms, of cs] control_known_forever [of i t cs] assms(2)
  by (simp add: legal_run_all)

lemma control_resolve_Applied:
  assumes "control_resolve p now t = (Applied i sub, t')"
  shows "\<exists>r. cp_request_id p = i \<and> tbl_get i t = Some r \<and> co_status r = CtPending \<and>
     \<not> is_expired (cr_expires_at (co_request r)) now \<and>
     tbl_get i t' = Some (r\<lparr>co_status := CtResolved, co_resolved_at := Some now, co_response := Some p\<rparr>)"
  using assms by (auto simp: control_resolve_def Let_def tbl_simps split: option.splits if_splits)

end
