(* ===== verification/Task_Manager.thy ===== *)
theory Task_Manager
  imports Rust_Paths
begin

text \<open>
  The task manager, vegvisir/src/tasks.rs, and \<open>truncate_utf8_middle\<close> of
  vegvisir/src/core.rs: the records of background tasks, their state machine, the bounded
  event queue and the bounded output. The processes themselves (\<open>TaskRunner\<close>) are outside.

  \<open>next_id\<close> is a \<open>u64\<close> counting registrations, here a natural number; clock readings are
  arguments.
\<close>

section \<open>Records\<close>

datatype task_kind = KShell | KTest | KBuild | KWatch | KAgent | KWorkflow

fun id_prefix :: "task_kind \<Rightarrow> string" where
  "id_prefix KShell = ''shell''"
| "id_prefix KTest = ''test''"
| "id_prefix KBuild = ''build''"
| "id_prefix KWatch = ''watch''"
| "id_prefix KAgent = ''agent''"
| "id_prefix KWorkflow = ''workflow''"

datatype task_state =
    TQueued | TRunningForeground | TRunningBackground | TWaitingForInput
  | TCompleted | TFailed | TCancelled | TTimedOut

definition is_terminal :: "task_state \<Rightarrow> bool" where
  "is_terminal s = (s \<in> {TCompleted, TFailed, TCancelled, TTimedOut})"

definition is_running :: "task_state \<Rightarrow> bool" where
  "is_running s = (s \<in> {TRunningForeground, TRunningBackground, TWaitingForInput})"

fun state_debug :: "task_state \<Rightarrow> string" where
  "state_debug TQueued = ''Queued''"
| "state_debug TRunningForeground = ''RunningForeground''"
| "state_debug TRunningBackground = ''RunningBackground''"
| "state_debug TWaitingForInput = ''WaitingForInput''"
| "state_debug TCompleted = ''Completed''"
| "state_debug TFailed = ''Failed''"
| "state_debug TCancelled = ''Cancelled''"
| "state_debug TTimedOut = ''TimedOut''"

record task_record =
  tr_id :: string
  tr_kind :: task_kind
  tr_state :: task_state
  tr_description :: string
  tr_command :: "string option"
  tr_workspace :: string
  tr_output_file :: string
  tr_output_offset :: u64
  tr_exit_code :: "int option"
  tr_started_at :: "time option"
  tr_finished_at :: "time option"
  tr_owner_run_id :: string
  tr_owner_agent_id :: "string option"
  tr_retained_output :: string

record task_spawn_request =
  tq_kind :: task_kind
  tq_description :: string
  tq_command :: "string option"
  tq_workspace :: string
  tq_output_file :: "string option"
  tq_owner_run_id :: string
  tq_owner_agent_id :: "string option"

definition spawn_request :: "task_kind \<Rightarrow> string \<Rightarrow> string \<Rightarrow> string \<Rightarrow> task_spawn_request" where
  "spawn_request kind description workspace owner_run_id =
     \<lparr>tq_kind = kind, tq_description = description, tq_command = None, tq_workspace = workspace,
      tq_output_file = None, tq_owner_run_id = owner_run_id, tq_owner_agent_id = None\<rparr>"

datatype task_event =
    TeRegistered string task_kind string
  | TeStarted string bool
  | TeBackgrounded string
  | TeWaitingForInput string
  | TeOutput string string bool
  | TeCompleted string task_state "int option"

fun event_task_id :: "task_event \<Rightarrow> string" where
  "event_task_id (TeRegistered i _ _) = i"
| "event_task_id (TeStarted i _) = i"
| "event_task_id (TeBackgrounded i) = i"
| "event_task_id (TeWaitingForInput i) = i"
| "event_task_id (TeOutput i _ _) = i"
| "event_task_id (TeCompleted i _ _) = i"

datatype task_error =
    UnknownTask string
  | TerminalTask string task_state
  | InvalidTransition string task_state task_state

record task_manager =
  tm_records :: "task_record table"
  tm_events :: "task_event list"
  tm_next_id :: nat
  tm_output_retention_bytes :: nat
  tm_max_records :: nat
  tm_max_events :: nat

section \<open>Truncation\<close>

text \<open>The loops that move an index to a character boundary, forward and back.\<close>

function next_boundary :: "string \<Rightarrow> nat \<Rightarrow> nat" where
  "next_boundary s i = (if i \<ge> length s \<or> is_char_boundary s i then i else next_boundary s (i + 1))"
  by pat_completeness auto
termination by (relation "measure (\<lambda>(s, i). length s - i)") auto

fun prev_boundary :: "string \<Rightarrow> nat \<Rightarrow> nat" where
  "prev_boundary s 0 = 0"
| "prev_boundary s (Suc i) = (if is_char_boundary s (Suc i) then Suc i else prev_boundary s i)"

declare next_boundary.simps [simp del]

definition truncate_to_tail :: "string \<Rightarrow> nat \<Rightarrow> bool \<times> string" where
  "truncate_to_tail text max_bytes =
     (if max_bytes = 0 then (text \<noteq> [], [])
      else if length text \<le> max_bytes then (False, text)
      else (True, drop (next_boundary text (length text - max_bytes)) text))"

definition truncation_marker :: "string \<Rightarrow> nat \<Rightarrow> string" where
  "truncation_marker label n =
     [CHR 0x0A] @ ''['' @ label @ '' truncated by Vegvisir; original '' @ show_nat n @ '' bytes]'' @ [CHR 0x0A]"

definition truncate_utf8_middle :: "string \<Rightarrow> nat \<Rightarrow> string \<Rightarrow> string" where
  "truncate_utf8_middle text max_bytes label =
     (if length text \<le> max_bytes then text
      else if max_bytes = 0 then []
      else
        let marker = truncation_marker label (length text)
        in if max_bytes \<le> length marker
           then take (prev_boundary text (min max_bytes (length text))) text
           else
             let available = max_bytes - length marker;
                 head_target = available * 2 div 3;
                 tail_target = available - head_target;
                 head_end = prev_boundary text (min head_target (length text));
                 tail_start = next_boundary text (length text - tail_target)
             in take head_end text @ marker @ drop tail_start text)"

section \<open>Operations\<close>

definition task_manager_new :: task_manager where
  "task_manager_new =
     \<lparr>tm_records = [], tm_events = [], tm_next_id = 1, tm_output_retention_bytes = 64 * 1024,
      tm_max_records = 256, tm_max_events = 512\<rparr>"

function prune_records_table :: "nat \<Rightarrow> task_record table \<Rightarrow> task_record table" where
  "prune_records_table m t =
     (if length t > m
      then (case find (\<lambda>e. is_terminal (tr_state (snd e))) t of
              None \<Rightarrow> t
            | Some e \<Rightarrow> prune_records_table m (tbl_del (fst e) t))
      else t)"
  by pat_completeness auto
termination
proof (relation "measure (\<lambda>(_, t). length t)")
  fix m :: nat and t :: "task_record table" and e
  assume "find (\<lambda>e. is_terminal (tr_state (snd e))) t = Some e"
  then have "e \<in> set t" by (auto dest: find_member)
  then show "((m, tbl_del (fst e) t), m, t) \<in> measure (\<lambda>(_, t). length t)"
    by (auto simp: tbl_del_def length_filter_less)
qed simp

declare prune_records_table.simps [simp del]

definition prune_records :: "task_manager \<Rightarrow> task_manager" where
  "prune_records M = M\<lparr>tm_records := prune_records_table (tm_max_records M) (tm_records M)\<rparr>"

definition prune_events :: "task_manager \<Rightarrow> task_manager" where
  "prune_events M = M\<lparr>tm_events := drop (length (tm_events M) - tm_max_events M) (tm_events M)\<rparr>"

definition with_output_retention_bytes :: "nat \<Rightarrow> task_manager \<Rightarrow> task_manager" where
  "with_output_retention_bytes n M = M\<lparr>tm_output_retention_bytes := n\<rparr>"

definition with_max_records :: "nat \<Rightarrow> task_manager \<Rightarrow> task_manager" where
  "with_max_records n M = prune_records (M\<lparr>tm_max_records := max n 1\<rparr>)"

definition with_max_events :: "nat \<Rightarrow> task_manager \<Rightarrow> task_manager" where
  "with_max_events n M = prune_events (M\<lparr>tm_max_events := max n 1\<rparr>)"

definition push_event :: "task_event \<Rightarrow> task_manager \<Rightarrow> task_manager" where
  "push_event e M =
     (if tm_max_events M = 0 then M
      else if length (tm_events M) \<ge> tm_max_events M
      then M\<lparr>tm_events := drop (length (tm_events M) - tm_max_events M + 1) (tm_events M) @ [e]\<rparr>
      else M\<lparr>tm_events := tm_events M @ [e]\<rparr>)"

definition task_id :: "task_kind \<Rightarrow> nat \<Rightarrow> string" where
  "task_id kind n = id_prefix kind @ ''-'' @ zero_pad 6 (show_nat n)"

definition queued_record :: "task_spawn_request \<Rightarrow> string \<Rightarrow> task_record" where
  "queued_record q i =
     \<lparr>tr_id = i, tr_kind = tq_kind q, tr_state = TQueued, tr_description = tq_description q,
      tr_command = tq_command q, tr_workspace = tq_workspace q,
      tr_output_file = (case tq_output_file q of Some f \<Rightarrow> f
        | None \<Rightarrow> path_join (path_join (path_join (tq_workspace q) ''.vegvisir'') ''tasks'') (i @ ''.log'')),
      tr_output_offset = 0, tr_exit_code = None, tr_started_at = None, tr_finished_at = None,
      tr_owner_run_id = tq_owner_run_id q, tr_owner_agent_id = tq_owner_agent_id q,
      tr_retained_output = []\<rparr>"

definition register :: "task_spawn_request \<Rightarrow> task_manager \<Rightarrow> string \<times> task_manager" where
  "register q M =
     (let i = task_id (tq_kind q) (tm_next_id M);
          M1 = M\<lparr>tm_next_id := tm_next_id M + 1\<rparr>;
          M2 = push_event (TeRegistered i (tq_kind q) (tq_description q)) M1
      in (i, prune_records (M2\<lparr>tm_records := tbl_put i (queued_record q i) (tm_records M2)\<rparr>)))"

type_synonym 'a task_op = "(task_manager, task_error, 'a) sx"

definition task_record_of :: "string \<Rightarrow> task_manager \<Rightarrow> task_record option" where
  "task_record_of i M = tbl_get i (tm_records M)"

definition active_records :: "task_manager \<Rightarrow> task_record list" where
  "active_records M = filter (\<lambda>r. \<not> is_terminal (tr_state r)) (map snd (tm_records M))"

definition drain_events :: "task_manager \<Rightarrow> task_event list \<times> task_manager" where
  "drain_events M = (tm_events M, M\<lparr>tm_events := []\<rparr>)"

definition put_record :: "string \<Rightarrow> task_record \<Rightarrow> task_manager \<Rightarrow> task_manager" where
  "put_record i r M = M\<lparr>tm_records := tbl_put i r (tm_records M)\<rparr>"

definition valid_transition :: "task_state \<Rightarrow> task_state \<Rightarrow> bool" where
  "valid_transition s t = ((s, t) \<in>
     {(TQueued, TRunningForeground), (TQueued, TRunningBackground),
      (TRunningForeground, TRunningBackground), (TRunningForeground, TWaitingForInput),
      (TRunningBackground, TWaitingForInput), (TWaitingForInput, TRunningForeground),
      (TWaitingForInput, TRunningBackground)})"

definition transition :: "time \<Rightarrow> string \<Rightarrow> task_state \<Rightarrow> unit task_op" where
  "transition now i to M =
     (case task_record_of i M of
       None \<Rightarrow> (Err (UnknownTask i), M)
     | Some r \<Rightarrow>
       if is_terminal (tr_state r) then (Err (TerminalTask i (tr_state r)), M)
       else if \<not> valid_transition (tr_state r) to then (Err (InvalidTransition i (tr_state r) to), M)
       else (Ok (), put_record i
         (r\<lparr>tr_started_at := (if tr_started_at r = None \<and> is_running to then Some now else tr_started_at r),
            tr_state := to\<rparr>) M))"

definition push :: "task_event \<Rightarrow> unit task_op" where
  "push e M = (Ok (), push_event e M)"

definition start_foreground :: "time \<Rightarrow> string \<Rightarrow> unit task_op" where
  "start_foreground now i M =
     (let was_never_started = (Option.bind (task_record_of i M) tr_started_at = None)
      in sx_bind (transition now i TRunningForeground) (\<lambda>_.
           if was_never_started then push (TeStarted i True) else sx_return ()) M)"

definition background :: "time \<Rightarrow> string \<Rightarrow> unit task_op" where
  "background now i M =
     (let was_queued = (case task_record_of i M of None \<Rightarrow> False | Some r \<Rightarrow> tr_state r = TQueued)
      in sx_bind (transition now i TRunningBackground) (\<lambda>_.
           push (if was_queued then TeStarted i False else TeBackgrounded i)) M)"

definition mark_waiting_for_input :: "time \<Rightarrow> string \<Rightarrow> unit task_op" where
  "mark_waiting_for_input now i =
     sx_bind (transition now i TWaitingForInput) (\<lambda>_. push (TeWaitingForInput i))"

definition saturating_add :: "u64 \<Rightarrow> nat \<Rightarrow> u64" where
  "saturating_add a n = (if unat a + n < 2 ^ 64 then a + of_nat n else - 1)"

definition append_output :: "string \<Rightarrow> string \<Rightarrow> unit task_op" where
  "append_output i chunk M =
     (case task_record_of i M of
       None \<Rightarrow> (Err (UnknownTask i), M)
     | Some r \<Rightarrow>
       let (truncated, retained) =
             truncate_to_tail (tr_retained_output r @ chunk) (tm_output_retention_bytes M);
           M1 = put_record i (r\<lparr>tr_output_offset := saturating_add (tr_output_offset r) (length chunk),
                  tr_retained_output := retained\<rparr>) M;
           event_chunk = truncate_utf8_middle chunk (64 * 1024) ''task event output''
       in push (TeOutput i event_chunk (truncated \<or> length event_chunk < length chunk)) M1)"

definition finish :: "time \<Rightarrow> time \<Rightarrow> string \<Rightarrow> task_state \<Rightarrow> int option \<Rightarrow> unit task_op" where
  "finish started finished i to exit_code M =
     (case task_record_of i M of
       None \<Rightarrow> (Err (UnknownTask i), M)
     | Some r \<Rightarrow>
       if is_terminal (tr_state r) then (Err (TerminalTask i (tr_state r)), M)
       else push (TeCompleted i to exit_code)
         (put_record i (r\<lparr>tr_state := to, tr_exit_code := exit_code,
            tr_started_at := (if tr_started_at r = None then Some started else tr_started_at r),
            tr_finished_at := Some finished\<rparr>) M))"

definition complete :: "time \<Rightarrow> time \<Rightarrow> string \<Rightarrow> int \<Rightarrow> unit task_op" where
  "complete started finished i exit_code =
     finish started finished i (if exit_code = 0 then TCompleted else TFailed) (Some exit_code)"

definition cancel :: "time \<Rightarrow> time \<Rightarrow> string \<Rightarrow> unit task_op" where
  "cancel started finished i = finish started finished i TCancelled None"

definition timeout :: "time \<Rightarrow> time \<Rightarrow> string \<Rightarrow> unit task_op" where
  "timeout started finished i = finish started finished i TTimedOut None"

section \<open>Events for the interface\<close>

datatype task_status = StCompleted | StFailed | StCancelled

datatype vegvisir_task_event =
    TaskStarted string string string
  | TaskOutput string string bool
  | TaskCompleted string task_status "string option"

definition terminal_state_to_event_status :: "task_state \<Rightarrow> task_status option" where
  "terminal_state_to_event_status s =
     (if s = TCompleted then Some StCompleted
      else if s = TFailed \<or> s = TTimedOut then Some StFailed
      else if s = TCancelled then Some StCancelled
      else None)"

definition task_summary :: "task_record \<Rightarrow> string option" where
  "task_summary r =
     Some (tr_description r @ '': '' @ state_debug (tr_state r) @
       (case tr_exit_code r of None \<Rightarrow> [] | Some c \<Rightarrow> '' exit_code='' @ show_int c))"

fun to_vegvisir_event :: "task_event \<Rightarrow> task_record \<Rightarrow> vegvisir_task_event option" where
  "to_vegvisir_event (TeStarted _ _) r =
     Some (TaskStarted (tr_id r) (tr_description r) (id_prefix (tr_kind r)))"
| "to_vegvisir_event (TeOutput i chunk truncated) r =
     (if i = tr_id r then Some (TaskOutput (tr_id r) chunk truncated) else None)"
| "to_vegvisir_event (TeCompleted _ s _) r =
     map_option (\<lambda>status. TaskCompleted (tr_id r) status (task_summary r)) (terminal_state_to_event_status s)"
| "to_vegvisir_event _ r = None"

section \<open>Truncation keeps its bound\<close>

lemma next_boundary_bounds:
  "i \<le> length s \<Longrightarrow> i \<le> next_boundary s i \<and> next_boundary s i \<le> length s \<and> is_char_boundary s (next_boundary s i)"
proof (induction s i rule: next_boundary.induct)
  case (1 s i)
  show ?case
  proof (cases "i \<ge> length s \<or> is_char_boundary s i")
    case True
    then show ?thesis
      using 1(2) by (auto simp: next_boundary.simps [of s i] is_char_boundary_def)
  next
    case False
    with 1 show ?thesis by (simp add: next_boundary.simps [of s i])
  qed
qed

lemma prev_boundary_bounds: "prev_boundary s i \<le> i \<and> is_char_boundary s (prev_boundary s i)"
  by (induction s i rule: prev_boundary.induct) (auto simp: is_char_boundary_def)

lemma truncate_to_tail_spec:
  assumes "truncate_to_tail text n = (shortened, kept)"
  shows "length kept \<le> n" and "\<exists>dropped. text = dropped @ kept \<and> is_char_boundary text (length dropped)"
    and "shortened \<longleftrightarrow> length text > n"
proof -
  have nb: "length text - n \<le> next_boundary text (length text - n)"
    "next_boundary text (length text - n) \<le> length text"
    "is_char_boundary text (next_boundary text (length text - n))"
    using next_boundary_bounds [of "length text - n" "text"] by simp_all
  show "length kept \<le> n" using assms nb by (auto simp: truncate_to_tail_def split: if_splits)
  show "shortened \<longleftrightarrow> length text > n" using assms by (auto simp: truncate_to_tail_def split: if_splits)
  show "\<exists>dropped. text = dropped @ kept \<and> is_char_boundary text (length dropped)"
  proof (cases "length text \<le> n \<and> n \<noteq> 0")
    case True
    with assms show ?thesis by (auto simp: truncate_to_tail_def is_char_boundary_def intro: exI [of _ "[]"])
  next
    case False
    show ?thesis
    proof (cases "n = 0")
      case True
      with assms show ?thesis by (auto simp: truncate_to_tail_def is_char_boundary_def)
    next
      case n: False
      let ?k = "next_boundary text (length text - n)"
      have "kept = drop ?k text" using assms False n by (auto simp: truncate_to_tail_def)
      then have "text = take ?k text @ kept \<and> is_char_boundary text (length (take ?k text))"
        using nb by simp
      then show ?thesis by blast
    qed
  qed
qed

text \<open>
  The pieces kept of a text that is cut in the middle are a prefix and a suffix that end and
  start at character boundaries and do not overlap, so that no slice panics.
\<close>

lemma truncate_utf8_middle_pieces:
  assumes "length text > n" and "n > length (truncation_marker label (length text))"
  shows "\<exists>h t. truncate_utf8_middle text n label =
      take h text @ truncation_marker label (length text) @ drop t text \<and>
      h \<le> t \<and> t \<le> length text \<and> is_char_boundary text h \<and> is_char_boundary text t \<and>
      h + length (truncation_marker label (length text)) + (length text - t) \<le> n"
proof -
  let ?a = "n - length (truncation_marker label (length text))"
  let ?h = "prev_boundary text (min (?a * 2 div 3) (length text))"
  let ?t = "next_boundary text (length text - (?a - ?a * 2 div 3))"
  have h: "?h \<le> ?a * 2 div 3" "is_char_boundary text ?h"
    using prev_boundary_bounds [of "text" "min (?a * 2 div 3) (length text)"] by simp_all
  have t: "length text - (?a - ?a * 2 div 3) \<le> ?t" "?t \<le> length text" "is_char_boundary text ?t"
    using next_boundary_bounds [of "length text - (?a - ?a * 2 div 3)" "text"] by simp_all
  have "?a \<le> length text" using assms(1) by linarith
  then have "?h \<le> ?t" using h t by linarith
  moreover have "?h + length (truncation_marker label (length text)) + (length text - ?t) \<le> n"
    using h(1) t(1) assms(2) by linarith
  moreover have "truncate_utf8_middle text n label =
      take ?h text @ truncation_marker label (length text) @ drop ?t text"
  proof -
    have "\<not> length text \<le> n" "n \<noteq> 0" "\<not> n \<le> length (truncation_marker label (length text))"
      using assms by linarith+
    then show ?thesis by (simp only: truncate_utf8_middle_def Let_def if_False)
  qed
  ultimately show ?thesis using h t by blast
qed

lemma truncate_utf8_middle_length: "length (truncate_utf8_middle text n label) \<le> n"
proof (cases "length text > n \<and> n > length (truncation_marker label (length text))")
  case True
  then obtain h t where "truncate_utf8_middle text n label =
      take h text @ truncation_marker label (length text) @ drop t text" "h \<le> t" "t \<le> length text"
      "h + length (truncation_marker label (length text)) + (length text - t) \<le> n"
    using truncate_utf8_middle_pieces by blast
  then show ?thesis by simp
next
  case False
  have "prev_boundary text (min n (length text)) \<le> n"
    using prev_boundary_bounds [of "text" "min n (length text)"] by simp
  with False show ?thesis
    by (cases "length text \<le> n"; cases "n = 0") (simp_all add: truncate_utf8_middle_def Let_def)
qed

section \<open>Pruning\<close>

lemma find_terminal:
  "find (\<lambda>e. is_terminal (tr_state (snd e))) t = Some e \<Longrightarrow> e \<in> set t \<and> is_terminal (tr_state (snd e))"
  using find_member by fastforce

lemma prune_done:
  "length t \<le> m \<or> find (\<lambda>e. is_terminal (tr_state (snd e))) t = None \<Longrightarrow> prune_records_table m t = t"
  by (auto simp: prune_records_table.simps [of m t])

lemma prune_next:
  "length t > m \<Longrightarrow> find (\<lambda>e. is_terminal (tr_state (snd e))) t = Some e \<Longrightarrow>
   prune_records_table m t = prune_records_table m (tbl_del (fst e) t)"
  by (simp add: prune_records_table.simps [of m t])

text \<open>Pruning keeps the order of the table, adds nothing, and keeps every active task.\<close>

lemma prune_keeps:
  "tbl_ok t \<Longrightarrow> tbl_ok (prune_records_table m t) \<and>
     (\<forall>i r. tbl_get i (prune_records_table m t) = Some r \<longrightarrow> tbl_get i t = Some r) \<and>
     (\<forall>i r. tbl_get i t = Some r \<and> \<not> is_terminal (tr_state r) \<longrightarrow>
        tbl_get i (prune_records_table m t) = Some r)"
proof (induction m t rule: prune_records_table.induct)
  case (1 m t)
  show ?case
  proof (cases "length t > m \<and> (\<exists>e. find (\<lambda>e. is_terminal (tr_state (snd e))) t = Some e)")
    case False
    then have "prune_records_table m t = t" by (intro prune_done) auto
    with 1(2) show ?thesis by simp
  next
    case True
    then obtain e where len: "length t > m" and f: "find (\<lambda>e. is_terminal (tr_state (snd e))) t = Some e" by blast
    from find_terminal [OF f] have e: "tbl_get (fst e) t = Some (snd e)" "is_terminal (tr_state (snd e))"
      using tbl_set_get [OF 1(2), of "fst e" "snd e"] by auto
    have "tbl_ok (tbl_del (fst e) t)" using 1(2) by (rule tbl_ok_del)
    note IH = 1(1) [OF len f this]
    show ?thesis unfolding prune_next [OF len f]
    proof (intro conjI allI impI)
      show "tbl_ok (prune_records_table m (tbl_del (fst e) t))" using IH by blast
    next
      fix i r assume "tbl_get i (prune_records_table m (tbl_del (fst e) t)) = Some r"
      with IH have "tbl_get i (tbl_del (fst e) t) = Some r" by blast
      then show "tbl_get i t = Some r" by (simp add: tbl_get_del split: if_splits)
    next
      fix i r assume r: "tbl_get i t = Some r \<and> \<not> is_terminal (tr_state r)"
      with e have "tbl_get i (tbl_del (fst e) t) = Some r" by (auto simp: tbl_get_del)
      with IH r show "tbl_get i (prune_records_table m (tbl_del (fst e) t)) = Some r" by blast
    qed
  qed
qed

text \<open>After pruning the table is within its bound, or everything in it is still active.\<close>

lemma prune_bound:
  "length (prune_records_table m t) \<le> m \<or>
   (\<forall>e \<in> set (prune_records_table m t). \<not> is_terminal (tr_state (snd e)))"
proof (induction m t rule: prune_records_table.induct)
  case (1 m t)
  show ?case
  proof (cases "find (\<lambda>e. is_terminal (tr_state (snd e))) t")
    case None
    then have "prune_records_table m t = t" by (intro prune_done) simp
    with None show ?thesis by (auto simp: find_None_iff)
  next
    case (Some e)
    show ?thesis
    proof (cases "length t > m")
      case True
      with 1 [OF True Some] show ?thesis by (simp only: prune_next [OF True Some])
    next
      case False
      then have "prune_records_table m t = t" by (intro prune_done) simp
      with False show ?thesis by simp
    qed
  qed
qed

section \<open>Identifiers\<close>

lemma task_id_inj: "task_id k m = task_id l n \<Longrightarrow> m = n"
proof -
  assume eq: "task_id k m = task_id l n"
  have "dropWhile (\<lambda>c. c \<noteq> CHR ''-'') (task_id k m) = CHR ''-'' # zero_pad 6 (show_nat m)" for k m
    by (cases k) (simp_all add: task_id_def)
  from this [of k m] this [of l n] eq have "zero_pad 6 (show_nat m) = zero_pad 6 (show_nat n)" by simp
  then show ?thesis by (rule zero_pad_show_inj)
qed

definition issued_id :: "task_manager \<Rightarrow> string \<Rightarrow> bool" where
  "issued_id M i \<longleftrightarrow> (\<exists>k m. i = task_id k m \<and> m < tm_next_id M)"

lemma fresh_id: "\<not> issued_id M (task_id k (tm_next_id M))"
  by (auto simp: issued_id_def dest: task_id_inj)

section \<open>The manager over time\<close>

datatype task_cmd =
    Register task_spawn_request
  | StartForeground time string
  | Background time string
  | MarkWaiting time string
  | AppendOutput string string
  | Complete time time string int
  | Cancel time time string
  | Timeout time time string
  | DrainEvents

fun task_step :: "task_cmd \<Rightarrow> task_manager \<Rightarrow> task_manager" where
  "task_step (Register q) M = snd (register q M)"
| "task_step (StartForeground now i) M = snd (start_foreground now i M)"
| "task_step (Background now i) M = snd (background now i M)"
| "task_step (MarkWaiting now i) M = snd (mark_waiting_for_input now i M)"
| "task_step (AppendOutput i chunk) M = snd (append_output i chunk M)"
| "task_step (Complete t1 t2 i c) M = snd (complete t1 t2 i c M)"
| "task_step (Cancel t1 t2 i) M = snd (cancel t1 t2 i M)"
| "task_step (Timeout t1 t2 i) M = snd (timeout t1 t2 i M)"
| "task_step DrainEvents M = snd (drain_events M)"

definition record_ok :: "nat \<Rightarrow> nat \<Rightarrow> string \<Rightarrow> task_record \<Rightarrow> bool" where
  "record_ok next_id retention i r \<longleftrightarrow> tr_id r = i \<and> (\<exists>k m. i = task_id k m \<and> m < next_id) \<and>
     length (tr_retained_output r) \<le> retention \<and>
     (is_terminal (tr_state r) \<longleftrightarrow> tr_finished_at r \<noteq> None) \<and>
     (tr_state r = TQueued \<longleftrightarrow> tr_started_at r = None)"

definition task_ok :: "task_manager \<Rightarrow> bool" where
  "task_ok M \<longleftrightarrow> tbl_ok (tm_records M) \<and> 1 \<le> tm_max_events M \<and> length (tm_events M) \<le> tm_max_events M \<and>
     (\<forall>i r. tbl_get i (tm_records M) = Some r \<longrightarrow>
        record_ok (tm_next_id M) (tm_output_retention_bytes M) i r)"

lemma task_push_event_fields [simp]:
  "tm_records (push_event e M) = tm_records M" "tm_next_id (push_event e M) = tm_next_id M"
  "tm_output_retention_bytes (push_event e M) = tm_output_retention_bytes M"
  "tm_max_records (push_event e M) = tm_max_records M" "tm_max_events (push_event e M) = tm_max_events M"
  by (simp_all add: push_event_def)

lemma push_event_bound:
  "1 \<le> tm_max_events M \<Longrightarrow> length (tm_events M) \<le> tm_max_events M \<Longrightarrow>
   length (tm_events (push_event e M)) \<le> tm_max_events M"
  by (auto simp: push_event_def)

lemma task_ok_push: "task_ok M \<Longrightarrow> task_ok (push_event e M)"
  by (simp add: task_ok_def push_event_bound)

lemma task_ok_put:
  "task_ok M \<Longrightarrow> record_ok (tm_next_id M) (tm_output_retention_bytes M) i r \<Longrightarrow> task_ok (put_record i r M)"
  by (auto simp: task_ok_def put_record_def tbl_simps)

lemma task_ok_get:
  "task_ok M \<Longrightarrow> task_record_of i M = Some r \<Longrightarrow>
   record_ok (tm_next_id M) (tm_output_retention_bytes M) i r"
  by (simp add: task_ok_def task_record_of_def)

lemma record_ok_mono: "record_ok n p i r \<Longrightarrow> n \<le> m \<Longrightarrow> record_ok m p i r"
  unfolding record_ok_def by (meson less_le_trans)

lemma sx_keeps_push [sx_keeps_intros]: "sx_keeps task_ok (push e) (\<lambda>_. True)"
  by (auto intro!: sx_keepsI task_ok_push simp: push_def)

lemma sx_keeps_transition [sx_keeps_intros]:
  assumes "is_running to"
  shows "sx_keeps task_ok (transition now i to) (\<lambda>_. True)"
proof (rule sx_keepsI)
  fix M assume ok: "task_ok M"
  show "task_ok (snd (transition now i to M))"
  proof (cases "task_record_of i M")
    case (Some r)
    from task_ok_get [OF ok Some] assms have "\<not> is_terminal (tr_state r) \<Longrightarrow>
        record_ok (tm_next_id M) (tm_output_retention_bytes M) i
          (r\<lparr>tr_started_at := (if tr_started_at r = None \<and> is_running to then Some now else tr_started_at r),
             tr_state := to\<rparr>)"
      by (auto simp: record_ok_def is_running_def is_terminal_def)
    with ok Some show ?thesis by (simp add: transition_def task_ok_put)
  qed (simp add: transition_def ok)
qed simp

lemma sx_keeps_finish [sx_keeps_intros]:
  assumes "is_terminal to"
  shows "sx_keeps task_ok (finish t1 t2 i to c) (\<lambda>_. True)"
proof (rule sx_keepsI)
  fix M assume ok: "task_ok M"
  show "task_ok (snd (finish t1 t2 i to c M))"
  proof (cases "task_record_of i M")
    case (Some r)
    from task_ok_get [OF ok Some] assms
    have "record_ok (tm_next_id M) (tm_output_retention_bytes M) i
        (r\<lparr>tr_state := to, tr_exit_code := c,
           tr_started_at := (if tr_started_at r = None then Some t1 else tr_started_at r),
           tr_finished_at := Some t2\<rparr>)"
      by (auto simp: record_ok_def is_terminal_def)
    with ok Some show ?thesis by (simp add: finish_def push_def task_ok_put task_ok_push)
  qed (simp add: finish_def ok)
qed simp

lemma keeps_append_output: "task_ok M \<Longrightarrow> task_ok (snd (append_output i chunk M))"
proof (cases "task_record_of i M")
  case (Some r)
  assume ok: "task_ok M"
  obtain c kept where k: "truncate_to_tail (tr_retained_output r @ chunk) (tm_output_retention_bytes M) = (c, kept)"
    by fastforce
  from task_ok_get [OF ok Some] truncate_to_tail_spec(1) [OF k]
  have "record_ok (tm_next_id M) (tm_output_retention_bytes M) i
      (r\<lparr>tr_output_offset := saturating_add (tr_output_offset r) (length chunk), tr_retained_output := kept\<rparr>)"
    by (simp add: record_ok_def)
  with ok Some k show ?thesis by (simp add: append_output_def Let_def push_def task_ok_put task_ok_push)
qed (simp add: append_output_def)

lemma register_fields:
  assumes "register q M = (i, M')"
  shows "i = task_id (tq_kind q) (tm_next_id M)" "tm_next_id M' = tm_next_id M + 1"
    "tm_max_records M' = tm_max_records M" "tm_max_events M' = tm_max_events M"
    "tm_output_retention_bytes M' = tm_output_retention_bytes M"
    "tm_records M' = prune_records_table (tm_max_records M) (tbl_put i (queued_record q i) (tm_records M))"
    "1 \<le> tm_max_events M \<Longrightarrow> length (tm_events M) \<le> tm_max_events M \<Longrightarrow> length (tm_events M') \<le> tm_max_events M"
  using assms push_event_bound [of "M\<lparr>tm_next_id := tm_next_id M + 1\<rparr>"]
  by (auto simp: register_def Let_def prune_records_def)

lemma queued_record_ok: "m < n \<Longrightarrow> record_ok n p (task_id k m) (queued_record q (task_id k m))"
  by (auto simp: queued_record_def record_ok_def is_terminal_def)

lemma task_ok_register:
  assumes "task_ok M" and "register q M = (i, M')"
  shows "task_ok M'"
proof -
  note f = register_fields [OF assms(2)]
  have r: "record_ok (tm_next_id M') (tm_output_retention_bytes M) i (queued_record q i)"
    unfolding f(1) by (rule queued_record_ok) (simp add: f(2))
  have ok: "tbl_ok (tbl_put i (queued_record q i) (tm_records M))" using assms(1) by (auto simp: task_ok_def)
  note keep = prune_keeps [OF ok, of "tm_max_records M", folded f(6)]
  show ?thesis
    unfolding task_ok_def
  proof (intro conjI allI impI)
    fix j u assume "tbl_get j (tm_records M') = Some u"
    with keep have "tbl_get j (tbl_put i (queued_record q i) (tm_records M)) = Some u" by blast
    moreover have "record_ok (tm_next_id M') (tm_output_retention_bytes M) j u"
      if "tbl_get j (tm_records M) = Some u"
    proof (rule record_ok_mono)
      show "record_ok (tm_next_id M) (tm_output_retention_bytes M) j u"
        using that assms(1) unfolding task_ok_def by blast
    qed (simp add: f(2))
    ultimately show "record_ok (tm_next_id M') (tm_output_retention_bytes M') j u"
      using r unfolding f(5) by (auto simp: tbl_get_put split: if_splits)
  qed (use keep f(4,7) assms(1) in \<open>auto simp: task_ok_def\<close>)
qed

lemma task_ok_step: "task_ok M \<Longrightarrow> task_ok (task_step c M)"
proof (cases c)
  case (Register q)
  assume "task_ok M"
  with Register show ?thesis using task_ok_register by (metis prod.collapse task_step.simps(1))
next
  case (StartForeground now i)
  assume ok: "task_ok M"
  have "sx_keeps task_ok (sx_bind (transition now i TRunningForeground)
      (\<lambda>_. if b then push (TeStarted i True) else sx_return ())) (\<lambda>_. True)" for b
    by (rule sx_keeps_intros | simp add: is_running_def)+
  from sx_keeps_state [OF this ok] StartForeground show ?thesis
    by (simp only: task_step.simps start_foreground_def Let_def)
next
  case (Background now i)
  assume ok: "task_ok M"
  have "sx_keeps task_ok (sx_bind (transition now i TRunningBackground) (\<lambda>_. push e)) (\<lambda>_. True)" for e
    by (rule sx_keeps_intros | simp add: is_running_def)+
  from sx_keeps_state [OF this ok] Background show ?thesis
    by (simp only: task_step.simps background_def Let_def)
next
  case (MarkWaiting now i)
  assume ok: "task_ok M"
  have "sx_keeps task_ok (mark_waiting_for_input now i) (\<lambda>_. True)"
    unfolding mark_waiting_for_input_def by (rule sx_keeps_intros | simp add: is_running_def)+
  with ok MarkWaiting show ?thesis by (simp add: sx_keeps_state)
next
  case (AppendOutput i chunk)
  assume "task_ok M"
  with AppendOutput show ?thesis by (simp add: keeps_append_output)
next
  case DrainEvents
  assume "task_ok M"
  with DrainEvents show ?thesis by (simp add: drain_events_def task_ok_def)
qed (simp_all add: complete_def cancel_def timeout_def sx_keeps_state [OF sx_keeps_finish] is_terminal_def)

text \<open>
  What an operation other than \<open>register\<close> does to the table: it keeps the set of tasks and
  the counter, and a task in a final state keeps that state.
\<close>

definition task_evolves :: "task_manager \<Rightarrow> task_manager \<Rightarrow> bool" where
  "task_evolves M N \<longleftrightarrow> tm_next_id N = tm_next_id M \<and>
     (\<forall>i. (task_record_of i M = None \<longleftrightarrow> task_record_of i N = None) \<and>
       (\<forall>r. task_record_of i M = Some r \<and> is_terminal (tr_state r) \<longrightarrow>
          map_option tr_state (task_record_of i N) = Some (tr_state r)))"

lemma task_evolves_refl [simp]: "task_evolves M M"
  by (simp add: task_evolves_def)

lemma task_evolves_trans: "task_evolves M N \<Longrightarrow> task_evolves N O' \<Longrightarrow> task_evolves M O'"
  unfolding task_evolves_def by fastforce

lemma task_evolves_same [simp]:
  "task_evolves M (push_event e N) = task_evolves M N"
  "task_evolves M (N\<lparr>tm_events := es\<rparr>) = task_evolves M N"
  by (simp_all add: task_evolves_def task_record_of_def)

lemma task_evolves_put:
  "task_record_of i M = Some r \<Longrightarrow> (is_terminal (tr_state r) \<Longrightarrow> tr_state r' = tr_state r) \<Longrightarrow>
   task_evolves M (put_record i r' M)"
  by (auto simp: task_evolves_def task_record_of_def put_record_def tbl_simps)

lemma evolves_bind:
  "(\<And>M. task_evolves M (snd (m M))) \<Longrightarrow> (\<And>x M. task_evolves M (snd (f x M))) \<Longrightarrow>
   task_evolves M (snd (sx_bind m f M))"
proof -
  assume m: "\<And>M. task_evolves M (snd (m M))" and f: "\<And>x M. task_evolves M (snd (f x M))"
  obtain r N where N: "m M = (r, N)" by fastforce
  with m [of M] have "task_evolves M N" by simp
  with N f task_evolves_trans show ?thesis
    by (cases r) (auto simp: sx_bind_def)
qed

lemma evolves_parts:
  "task_evolves M (snd (push e M))"
  "task_evolves M (snd (transition now i to M))"
  "task_evolves M (snd (finish t1 t2 i to c M))"
  "task_evolves M (snd (append_output i chunk M))"
  by (auto simp: push_def transition_def finish_def append_output_def Let_def
      intro!: task_evolves_put split: option.split prod.split)

lemma evolves_ops:
  "task_evolves M (snd (start_foreground now i M))"
  "task_evolves M (snd (background now i M))"
  "task_evolves M (snd (mark_waiting_for_input now i M))"
proof -
  have "task_evolves M (snd (sx_bind (transition now i to) (\<lambda>_. push e) M))"
    and "task_evolves M (snd (sx_bind (transition now i to) (\<lambda>_. sx_return ()) M))" for to e
    by (auto intro!: evolves_bind evolves_parts simp: sx_return_def)
  then show "task_evolves M (snd (start_foreground now i M))"
    and "task_evolves M (snd (background now i M))"
    and "task_evolves M (snd (mark_waiting_for_input now i M))"
    by (simp_all add: start_foreground_def background_def mark_waiting_for_input_def)
qed

lemma register_record:
  assumes "task_ok M" and "register q M = (i, M')"
  shows "j \<noteq> i \<Longrightarrow> task_record_of j M = None \<Longrightarrow> task_record_of j M' = None"
    and "j \<noteq> i \<Longrightarrow> task_record_of j M = Some r \<Longrightarrow> task_record_of j M' \<in> {None, Some r}"
    and "task_record_of j M = Some r \<Longrightarrow> \<not> is_terminal (tr_state r) \<Longrightarrow> task_record_of j M' = Some r"
    and "task_record_of i M = None \<and> task_record_of i M' = Some (queued_record q i)"
    and "length (tm_records M') \<le> tm_max_records M \<or> (\<forall>e \<in> set (tm_records M'). \<not> is_terminal (tr_state (snd e)))"
proof -
  note f = register_fields [OF assms(2)]
  have ok: "tbl_ok (tbl_put i (queued_record q i) (tm_records M))" using assms(1) by (auto simp: task_ok_def)
  note keep = prune_keeps [OF ok, of "tm_max_records M", folded f(6)]
  have new: "task_record_of i M = None"
  proof (rule ccontr)
    assume "task_record_of i M \<noteq> None"
    then obtain r where "task_record_of i M = Some r" by blast
    from task_ok_get [OF assms(1) this] have "issued_id M i" by (auto simp: record_ok_def issued_id_def)
    then show False using fresh_id f(1) by blast
  qed
  have sub: "task_record_of j M' = Some r \<Longrightarrow> j \<noteq> i \<Longrightarrow> task_record_of j M = Some r" for j r
    using keep by (fastforce simp: task_record_of_def tbl_get_put)
  show "j \<noteq> i \<Longrightarrow> task_record_of j M = None \<Longrightarrow> task_record_of j M' = None"
    using sub by (cases "task_record_of j M'") auto
  show "j \<noteq> i \<Longrightarrow> task_record_of j M = Some r \<Longrightarrow> task_record_of j M' \<in> {None, Some r}"
    using sub by (cases "task_record_of j M'") auto
  show "task_record_of j M' = Some r" if r: "task_record_of j M = Some r" "\<not> is_terminal (tr_state r)"
  proof -
    from r(1) new have "j \<noteq> i" by auto
    with r keep show ?thesis by (simp add: task_record_of_def tbl_get_put)
  qed
  have "\<not> is_terminal (tr_state (queued_record q i))" by (simp add: queued_record_def is_terminal_def)
  with keep new show "task_record_of i M = None \<and> task_record_of i M' = Some (queued_record q i)"
    by (simp add: task_record_of_def tbl_get_put)
  show "length (tm_records M') \<le> tm_max_records M \<or> (\<forall>e \<in> set (tm_records M'). \<not> is_terminal (tr_state (snd e)))"
    unfolding f(6) by (rule prune_bound)
qed

lemma task_step_cases:
  assumes "task_ok M"
  shows "task_evolves M (task_step c M) \<or> (\<exists>q i. c = Register q \<and> register q M = (i, task_step c M))"
  by (cases c) (auto simp: evolves_parts evolves_ops complete_def cancel_def timeout_def drain_events_def prod_eq_iff)

interpretation task_life: lifecycle task_step "\<lambda>_ _. True" task_ok issued_id
    "\<lambda>M i. map_option tr_state (task_record_of i M)" is_terminal
proof unfold_locales
  fix M i s assume "task_ok M" "map_option tr_state (task_record_of i M) = Some s"
  then show "issued_id M i" by (auto dest: task_ok_get simp: record_ok_def issued_id_def)
next
  fix M c i assume ok: "task_ok M" and "issued_id M i"
  moreover have "tm_next_id M \<le> tm_next_id (task_step c M)"
    using task_step_cases [OF ok, of c] by (auto simp: task_evolves_def dest!: register_fields(2))
  ultimately show "issued_id (task_step c M) i" unfolding issued_id_def by (blast intro: less_le_trans)
next
  fix M c i assume ok: "task_ok M" and i: "issued_id M i" and n: "map_option tr_state (task_record_of i M) = None"
  from task_step_cases [OF ok, of c] show "map_option tr_state (task_record_of i (task_step c M)) = None"
  proof
    assume "\<exists>q j. c = Register q \<and> register q M = (j, task_step c M)"
    then obtain q j where r: "register q M = (j, task_step c M)" by blast
    have "i \<noteq> j" using i fresh_id [of M] register_fields(1) [OF r] by auto
    with n register_record(1) [OF ok r] show ?thesis by simp
  qed (use n in \<open>auto simp: task_evolves_def\<close>)
next
  fix M c i s assume ok: "task_ok M" and s: "map_option tr_state (task_record_of i M) = Some s" "is_terminal s"
  then obtain r where r: "task_record_of i M = Some r" "s = tr_state r" by auto
  from task_step_cases [OF ok, of c]
  show "map_option tr_state (task_record_of i (task_step c M)) = None \<or>
        map_option tr_state (task_record_of i (task_step c M)) = Some s"
  proof
    assume "\<exists>q j. c = Register q \<and> register q M = (j, task_step c M)"
    then obtain q j where g: "register q M = (j, task_step c M)" by blast
    then have "i \<noteq> j" using r register_record(4) [OF ok g] by auto
    with r register_record(2) [OF ok g, of i r] show ?thesis by auto
  qed (use r s in \<open>auto simp: task_evolves_def\<close>)
qed (auto intro: task_ok_step)

end
