(* ===== verification/Vegvisir_Properties.thy ===== *)
theory Vegvisir_Properties
  imports Guardrail Control_Requests Task_Manager
begin

text \<open>
  The properties of the agent harness: tool authorization and its ledger, the command
  sandbox, the task manager and the control requests. The first section has the concrete
  inputs of the witnesses.
\<close>

section \<open>Concrete inputs\<close>

definition sample_guard :: guard_env where
  "sample_guard = \<lparr>ge_hash = \<lambda>ss. of_nat (length (concat ss)), ge_args_text = \<lambda>m. show_nat (length m)\<rparr>"

definition sample_io :: "nat \<Rightarrow> ledger_io" where
  "sample_io n = \<lparr>li_event_at = \<lambda>k. ''t'', li_saved_at = ''t'', li_dir_ok = True, li_write_ok = True\<rparr>"

definition sample_ledger :: ledger where
  "sample_ledger = \<lparr>lg_state = ledger_state_default ''t'', lg_path = None, lg_disk = None\<rparr>"

definition sample_proc :: proc_env where
  "sample_proc = \<lparr>pe_var = \<lambda>k. if k = ''PATH'' then Some ''/usr/bin'' else if k = ''VEGVISIR_COMMAND_SANDBOX''
       then Some ''strict-bwrap'' else None,
     pe_names = [''API_KEY''], pe_is_dir = \<lambda>p. p = ''/w'', pe_is_file = \<lambda>p. p = ''/usr/bin/bwrap'',
     pe_exists = \<lambda>p. p = ''/usr''\<rparr>"

definition sample_tool :: tool where "sample_tool = \<lparr>tl_name = ''write_file'', tl_risky = True\<rparr>"

definition run_tool :: tool where "run_tool = \<lparr>tl_name = ''run_command'', tl_risky = True\<rparr>"

definition rm_args :: "json table" where
  "rm_args = [(''command'', JArr [JStr ''rm'', JStr ''x''])]"

definition approving :: permission_policy where
  "approving = default_permission_policy\<lparr>pp_require_human_approval := True\<rparr>"

lemma rm_parts [simp]:
  "first_command_word rm_args = Some ''rm''" "command_parts_from_args rm_args = [''rm'', ''x'']"
  by (simp_all add: rm_args_def first_command_word_def command_parts_from_args_def command_array_def
      tbl_get_def List.map_filter_def)

lemma rm_name [simp]: "command_name_from_args rm_args = Some ''rm''"
  by (simp add: command_name_from_args_def normalize_command_name_def Let_def plain_char_def starts_with_def)

lemma rm_not_network: "command_requires_network_approval sample_proc parts = Ok False"
proof -
  have "sample_proc \<noteq> sample_proc \<or> pe_var sample_proc ''VEGVISIR_COMMAND_SANDBOX'' = Some ''strict-bwrap''"
    by (simp add: sample_proc_def)
  then have "sandbox_mode_word sample_proc = ''strict-bwrap''"
    by (simp add: sandbox_mode_word_def plain_char_def to_ascii_lowercase_def ascii_down_def)
  then show ?thesis
    by (simp add: command_requires_network_approval_def configured_command_network_policy_def strict_mode_words_def)
qed

lemma rm_no_sudo: "\<not> command_mentions_sudo_invocation [''rm'', ''x'']"
  by (simp add: command_mentions_sudo_invocation_def mentions_sudo_def Let_def plain_char_def
      starts_with_def ends_with_def)

lemma rm_gated: "command_gated sample_proc approving run_tool rm_args"
  by (simp add: command_gated_def unlisted_command_def run_tool_def command_policy_tool_name_def approving_def
      default_permission_policy_def default_allowed_commands_def)

section \<open>Tool authorization\<close>

text \<open>C28: A tool call is authorized exactly where the declarative condition holds: it is not
  denied, does not call \<open>sudo\<close>, each gate it meets (unlisted command, dangerous command,
  network, risky tool) finds an approval, a risky tool without permission meets a gate, and a
  command that met none is on the allow list as written.\<close>

theorem authorization_decides:
  "is_ok (fst (authorize_tool G E io P t args L)) \<longleftrightarrow>
     pp_bypass_approvals_and_sandbox P \<or>
     (tl_name t \<notin> pp_denied_tools P \<and>
      (\<not> sudo_guarded_tool_name (tl_name t) \<or>
         \<not> command_mentions_sudo_invocation (command_parts_from_args args)) \<and>
      (\<not> command_policy_tool_name (tl_name t) \<or> unlisted_command P t args \<or> dangerous_command t args \<or>
         is_ok (command_requires_network_approval E (command_parts_from_args args))) \<and>
      (if command_gated E P t args
       then call_approved G (tl_name t) args L \<and> (\<not> risk_gated P t \<or> session_approved G (tl_name t) args L)
       else (if risk_gated P t then call_approved G (tl_name t) args L
             else (\<not> tl_risky t \<or> pp_allow_risky_tools P) \<and>
               (\<not> command_policy_tool_name (tl_name t) \<or>
                (case first_command_word args of None \<Rightarrow> [] | Some w \<Rightarrow> w) \<in> pp_allowed_commands P))))"
  unfolding authorize_tool_Ok_iff authorized_def by auto

theorem authorization_decides_witness:
  "\<not> is_ok (fst (authorize_tool sample_guard sample_proc sample_io approving run_tool rm_args sample_ledger))"
proof -
  have "\<not> pp_bypass_approvals_and_sandbox approving"
    by (simp add: approving_def default_permission_policy_def)
  moreover have "\<not> call_approved sample_guard (tl_name run_tool) rm_args sample_ledger"
    by (simp add: call_approved_def session_approved_def sample_ledger_def ledger_state_default_def)
  ultimately show ?thesis using rm_gated by (simp add: authorization_decides)
qed

text \<open>C29: A call that is refused for want of an approval leaves a request under its identifier,
  and once a human approves that request for the session, the same call runs.\<close>

theorem refused_call_can_be_approved:
  assumes "\<not> pp_bypass_approvals_and_sandbox P" and "tl_name t \<notin> pp_denied_tools P"
    and "\<not> command_mentions_sudo_invocation (command_parts_from_args args)"
    and "is_ok (command_requires_network_approval E (command_parts_from_args args))"
    and "command_gated E P t args \<or> risk_gated P t"
    and "\<not> call_approved G (tl_name t) args L"
    and "tbl_get (approval_request_id G (tl_name t) args) (ls_pending (lg_state L)) = None"
  shows "\<exists>e L' r. authorize_tool G E io P t args L = (Err e, L') \<and>
     tbl_get (approval_request_id G (tl_name t) args) (ls_pending (lg_state L')) = Some r \<and>
     aq_tool_name r = tl_name t \<and> aq_args r = args \<and>
     is_ok (fst (authorize_tool G E io' P t args
       (snd (approve_for_session G io'' (approval_request_id G (tl_name t) args) L'))))"
proof -
  let ?i = "approval_request_id G (tl_name t) args"
  from refused_call_is_pending [OF assms(1-3) assms(4-6)] assms(7) obtain e L' r where
    a: "authorize_tool G E io P t args L = (Err e, L')"
    and p: "tbl_get ?i (ls_pending (lg_state L')) = Some r" "aq_tool_name r = tl_name t" "aq_args r = args"
    by fastforce
  have "session_approved G (tl_name t) args (snd (approve_for_session G io'' ?i L'))"
    using approve_session_result(2) [OF p(1), of G io''] p by (simp add: session_approved_def)
  then have "is_ok (fst (authorize_tool G E io' P t args (snd (approve_for_session G io'' ?i L'))))"
    using assms(1-5) by (intro approved_for_session_runs)
  with a p show ?thesis by blast
qed

theorem refused_call_can_be_approved_witness:
  "\<exists>e L'. authorize_tool sample_guard sample_proc sample_io approving run_tool rm_args sample_ledger = (Err e, L') \<and>
     is_ok (fst (authorize_tool sample_guard sample_proc sample_io approving run_tool rm_args
       (snd (approve_for_session sample_guard (sample_io 0)
          (approval_request_id sample_guard ''run_command'' rm_args) L'))))"
proof -
  have s: "\<not> call_approved sample_guard (tl_name run_tool) rm_args sample_ledger"
    "tbl_get (approval_request_id sample_guard (tl_name run_tool) rm_args) (ls_pending (lg_state sample_ledger)) = None"
    by (simp_all add: call_approved_def session_approved_def sample_ledger_def ledger_state_default_def)
  have p: "\<not> pp_bypass_approvals_and_sandbox approving" "tl_name run_tool \<notin> pp_denied_tools approving"
    by (simp_all add: approving_def default_permission_policy_def)
  have n: "is_ok (command_requires_network_approval sample_proc (command_parts_from_args rm_args))"
    by (simp add: rm_not_network)
  have u: "\<not> command_mentions_sudo_invocation (command_parts_from_args rm_args)" using rm_no_sudo by simp
  from refused_call_can_be_approved [OF p u n disjI1 [OF rm_gated] s, of sample_io sample_io "sample_io 0"]
  show ?thesis by (force simp: run_tool_def)
qed



text \<open>A denial does not take back an approval given once: after a request is approved once and
  then denied, the ledger still answers "approved", and the call consumes the approval.\<close>

theorem denial_keeps_earlier_approval:
  assumes "tbl_get i (ls_pending (lg_state L)) = Some r"
  shows "fst (deny io' i (snd (approve_once io i L))) \<and>
    resolution G i name args (snd (deny io' i (snd (approve_once io i L)))) = ResApproved \<and>
    fst (consume_approval G io'' i name args (snd (deny io' i (snd (approve_once io i L)))))"
  using denied_after_approval [OF assms, of io' io]
  by (simp add: resolution_def Let_def consume_approval_result)

theorem denial_keeps_earlier_approval_witness:
  "let r = \<lparr>aq_id = ''a'', aq_reason = ''x'', aq_tool_name = ''t'', aq_args = [], aq_risk_label = ''l''\<rparr>;
       L = enqueue (sample_io 0) r sample_ledger
   in resolution sample_guard ''a'' ''t'' [] (snd (deny (sample_io 0) ''a'' (snd (approve_once (sample_io 0) ''a'' L)))) =
      ResApproved"
proof -
  let ?r = "\<lparr>aq_id = ''a'', aq_reason = ''x'', aq_tool_name = ''t'', aq_args = [], aq_risk_label = ''l''\<rparr>"
  have "tbl_get ''a'' (ls_pending (lg_state (enqueue (sample_io 0) ?r sample_ledger))) = Some ?r"
    using enqueue_result(3) [of ?r "sample_io 0" sample_ledger]
    by (simp add: sample_ledger_def ledger_state_default_def)
  from denial_keeps_earlier_approval [OF this] show ?thesis by (simp add: Let_def)
qed



section \<open>The command sandbox\<close>

text \<open>C33: Where a command is run sandboxed, the flags end with the change into the workspace and
  the separator, no flag before it is a separator (so neither a configured path nor a variable
  name ends the flags early), and the command follows unchanged. A disabled network is unshared,
  and every sensitive variable is cleared or unset. The strict modes always disable the network
  and clear the environment, whatever the other variables say.\<close>

theorem sandboxed_commands_are_contained:
  assumes "sandbox_from_env E root bypass = Ok c" and "path_is_absolute root"
    and "build_sandboxed_command E parts c = Ok d" and "sd_sandboxed d"
  shows "\<exists>mounts. sd_args d = sandbox_base_flags E c @ mounts @ [''--chdir'', ''/workspace'', ''--''] @ parts \<and>
      ''--'' \<notin> set (sandbox_base_flags E c @ mounts @ [''--chdir'', ''/workspace'']) \<and>
      (sc_network c = NetDisable \<longrightarrow> ''--unshare-net'' \<in> set (sandbox_base_flags E c)) \<and>
      (\<forall>k \<in> set (pe_names E). is_sensitive_environment_name k \<longrightarrow>
         ''--clearenv'' \<in> set (sandbox_base_flags E c) \<or>
         (\<exists>l r. sandbox_base_flags E c = l @ [''--unsetenv'', k] @ r)) \<and>
      (sandbox_mode_word E \<in> set strict_mode_words \<longrightarrow>
         {''--unshare-net'', ''--clearenv''} \<subseteq> set (sandbox_base_flags E c))"
proof -
  note f = sandbox_from_env_fields [OF assms(1)]
  from build_sandboxed_command_Ok(3) [OF assms(3,4)] obtain ms hs where
    w: "push_writable_mounts E (sc_writable_paths c) = Ok ms" "push_hidden_mounts E (sc_hidden_paths c) = Ok hs"
    and d: "sd_args d = sandbox_base_flags E c @ (push_existing_readonly_mounts E (sc_readonly_paths c) @ ms @
         [''--bind'', sc_workspace_root c, ''/workspace''] @ hs) @ [''--chdir'', ''/workspace'', ''--''] @ parts"
    by auto
  have "''--'' \<notin> set (push_existing_readonly_mounts E (sc_readonly_paths c) @ ms @
         [''--bind'', sc_workspace_root c, ''/workspace''] @ hs)"
    using mounts_no_dashes(1) [OF w(1)] mounts_no_dashes(2) [OF w(2)] mounts_no_dashes(3) [OF f(3)]
      absolute_not_dashes [OF assms(2)] f(2) by auto
  moreover have net: "sc_network c = NetDisable \<Longrightarrow> ''--unshare-net'' \<in> set (sandbox_base_flags E c)"
    and clear: "sc_clear_env c \<Longrightarrow> ''--clearenv'' \<in> set (sandbox_base_flags E c)"
    by (simp_all add: sandbox_base_flags_def)
  moreover have "''--clearenv'' \<in> set (sandbox_base_flags E c) \<or>
      (\<exists>l r. sandbox_base_flags E c = l @ [''--unsetenv'', k] @ r)"
    if "k \<in> set (pe_names E)" "is_sensitive_environment_name k" for k
    using base_flags_unset [OF _ that, of c] clear by blast
  moreover have "{''--unshare-net'', ''--clearenv''} \<subseteq> set (sandbox_base_flags E c)"
    if "sandbox_mode_word E \<in> set strict_mode_words"
    using f(4,5) that net clear by blast
  ultimately show ?thesis
    using d base_flags_no_dashes [of E c] by (intro exI [of _ "push_existing_readonly_mounts E (sc_readonly_paths c) @
        ms @ [''--bind'', sc_workspace_root c, ''/workspace''] @ hs"]) auto
qed

lemma sample_strict: "sandbox_mode_word sample_proc = ''strict-bwrap''"
  by (simp add: sandbox_mode_word_def sample_proc_def plain_char_def to_ascii_lowercase_def ascii_down_def)

lemma sample_sandbox: "sandbox_from_env sample_proc ''/w'' False = Ok (sandbox_strict_bubblewrap ''/w'')"
proof -
  have "sandbox_for_mode ''strict-bwrap'' ''/w'' = Ok (sandbox_strict_bubblewrap ''/w'')"
    by (simp add: sandbox_for_mode_def strict_mode_words_def)
  moreover have "configured_path_list sample_proc ''VEGVISIR_COMMAND_WRITABLE_PATHS'' = Ok None"
    "configured_path_list sample_proc ''VEGVISIR_COMMAND_READONLY_PATHS'' = Ok None"
    "configured_path_list sample_proc ''VEGVISIR_COMMAND_HIDDEN_PATHS'' = Ok None"
    by (simp_all add: configured_path_list_def sample_proc_def)
  ultimately show ?thesis
    by (simp add: sandbox_from_env_def sample_strict with_network_def apply_mount_path_env_def
        sandbox_strict_bubblewrap_def)
qed

lemma sample_bwrap: "resolve_bwrap_path sample_proc None = Ok ''/usr/bin/bwrap''"
  by (simp add: resolve_bwrap_path_def sample_proc_def path_join_def path_is_absolute_def starts_with_def
      ends_with_def ok_or_def)

theorem sandboxed_commands_are_contained_witness:
  "\<exists>d mounts. build_sandboxed_command sample_proc [''ls''] (sandbox_strict_bubblewrap ''/w'') = Ok d \<and>
     sd_args d = sandbox_base_flags sample_proc (sandbox_strict_bubblewrap ''/w'') @ mounts @
       [''--chdir'', ''/workspace'', ''--'', ''ls'']"
proof -
  let ?c = "sandbox_strict_bubblewrap ''/w''"
  have c: "sc_mode ?c = SbStrictBubblewrap" "\<not> sc_allow_dangerous_bypass ?c" "sc_bwrap_path ?c = None"
    "sc_workspace_root ?c = ''/w''" "sc_writable_paths ?c = []" "sc_hidden_paths ?c = []"
    by (simp_all add: sandbox_strict_bubblewrap_def)
  have "pe_is_dir sample_proc ''/w''" by (simp add: sample_proc_def)
  then obtain d where d: "build_sandboxed_command sample_proc [''ls''] ?c = Ok d" and s: "sd_sandboxed d"
    by (simp add: build_sandboxed_command_def c sample_bwrap push_writable_mounts_def push_hidden_mounts_def)
  have "path_is_absolute ''/w''" by (simp add: path_is_absolute_def starts_with_def)
  from sandboxed_commands_are_contained [OF sample_sandbox this d s] d show ?thesis by auto
qed

section \<open>Reading a command line\<close>

text \<open>An option with a separate value hides the subcommand from both scans of a command
  line, where the scan does not list the option: \<open>cargo\<close> with such an option and a value in
  front needs no command approval whatever subcommand follows, and \<open>git -C dir\<close> is not seen to
  reach the network whatever follows.\<close>

theorem option_value_hides_subcommand:
  assumes "starts_with ''-'' (trim opt)" and "trim opt \<noteq> ''--''"
    and "\<not> command_option_consumes_next ''cargo'' (trim opt)"
    and "trim v \<noteq> []" and "\<not> starts_with ''-'' (trim v)" and "\<not> starts_with ''+'' (trim v)"
    and "trim v \<notin> {''publish'', ''yank'', ''owner'', ''login'', ''logout''}"
    and "trim dir \<notin> {''clone'', ''fetch'', ''pull'', ''push'', ''submodule'', ''ls-remote''}"
    and "\<not> starts_with ''-'' (trim dir)"
  shows "command_approval_requirement_of (''cargo'' # opt # v # rest) = None \<and>
    \<not> is_likely_network_command (''git'' # ''-C'' # dir # rest)"
proof
  have "command_primary_subcommand ''cargo'' (''cargo'' # opt # v # rest) = Some (trim v)"
    using unknown_option_value [OF assms(1-6)] .
  moreover have "\<not> shell_command_string_invocation ''cargo'' ps" for ps
    by (simp add: shell_command_string_invocation_def)
  ultimately show "command_approval_requirement_of (''cargo'' # opt # v # rest) = None"
    using assms(7) by (simp add: command_approval_requirement_of_def program_requirement_def Let_def plain_char_def)
next
  have "find (\<lambda>part. \<not> starts_with ''-'' (trim part)) (''-C'' # dir # rest) = Some dir"
    using assms(9) by (simp add: plain_char_def starts_with_def)
  with assms(8) show "\<not> is_likely_network_command (''git'' # ''-C'' # dir # rest)"
    by (simp add: is_likely_network_command_def Let_def plain_char_def)
qed

theorem option_value_hides_subcommand_witness:
  "command_approval_requirement_of [''cargo'', ''--color'', ''always'', ''publish''] = None \<and>
   command_approval_requirement_of [''cargo'', ''publish''] \<noteq> None \<and>
   \<not> is_likely_network_command [''git'', ''-C'', ''d'', ''publish'']"
proof -
  have "command_approval_requirement_of [''cargo'', ''publish''] \<noteq> None"
    by (simp add: command_approval_requirement_of_def command_primary_subcommand_def program_requirement_def
        shell_command_string_invocation_def requirement_def Let_def plain_char_def starts_with_def)
  with option_value_hides_subcommand [of "''--color''" "''always''" "''d''" "[''publish'']"] show ?thesis
    by (simp add: command_option_consumes_next_def plain_char_def starts_with_def)
qed

section \<open>Tasks\<close>

text \<open>C35: Over any run of the task manager the invariant is kept (unique identifiers below the
  counter, bounded events and output, start and finish times that fit the state); a finished
  task keeps its state or is evicted for good, and every later state change of it is refused; a
  registered task has a new identifier and evicts only finished ones, until the table is within
  its bound or all tasks in it are active.\<close>

theorem finished_tasks_stay_finished:
  assumes "task_ok M" and "task_record_of i M = Some r" and "is_terminal (tr_state r)"
    and "N = fold task_step cs M" and "register q N = (j, N')"
  shows "task_ok N \<and> map_option tr_state (task_record_of i N) \<in> {None, Some (tr_state r)} \<and>
    \<not> is_ok (fst (transition now i to N)) \<and> \<not> is_ok (fst (finish now now' i to' code N)) \<and>
    j \<noteq> i \<and> task_record_of j N = None \<and> task_record_of j N' = Some (queued_record q j) \<and>
    (\<forall>k u. task_record_of k N = Some u \<and> \<not> is_terminal (tr_state u) \<longrightarrow> task_record_of k N' = Some u) \<and>
    (length (tm_records N') \<le> tm_max_records N \<or> (\<forall>e \<in> set (tm_records N'). \<not> is_terminal (tr_state (snd e))))"
proof -
  have run: "legal_run task_step (\<lambda>_ _. True) M cs" by (simp add: legal_run_all)
  have ok: "task_ok N" using task_life.ok_run [OF assms(1) run] assms(4) by simp
  have known: "issued_id N i"
  proof -
    have "issued_id M i" using task_ok_get [OF assms(1,2)] by (auto simp: record_ok_def issued_id_def)
    with assms(1) have "issued_id (fold task_step cs M) i"
      by (induction cs arbitrary: M) (simp_all add: task_life.known_step task_ok_step)
    with assms(4) show ?thesis by simp
  qed
  have state: "map_option tr_state (task_record_of i N) = None \<or> map_option tr_state (task_record_of i N) = Some (tr_state r)"
    using task_life.final_forever [OF assms(1) _ assms(3) run, of i] assms(2,4) by simp
  then have "\<not> is_ok (fst (transition now i to N))" "\<not> is_ok (fst (finish now now' i to' code N))"
    using assms(3) by (auto simp: transition_def finish_def split: option.split)
  moreover have "j \<noteq> i" using known fresh_id [of N] register_fields(1) [OF assms(5)] by auto
  ultimately show ?thesis
    using ok state register_record(3-5) [OF ok assms(5)] by auto
qed

definition sample_spawn :: task_spawn_request where
  "sample_spawn = spawn_request KShell ''d'' ''/w'' ''run''"

definition sample_manager :: task_manager where
  "sample_manager = task_step (Register sample_spawn) task_manager_new"

lemma sample_manager_ok: "task_ok sample_manager"
  unfolding sample_manager_def by (intro task_ok_step) (simp add: task_ok_def task_manager_new_def)

lemma sample_task: "task_record_of ''shell-000001'' sample_manager = Some (queued_record sample_spawn ''shell-000001'')"
proof -
  have "replicate 5 c = [c, c, c, c, c]" for c :: char by (simp add: numeral_eq_Suc)
  then have "task_id KShell (Suc 0) = ''shell-000001''"
    by (simp add: task_id_def zero_pad_def show_nat.simps digit_char_def char_of_def bit_0)
  then have "register sample_spawn task_manager_new = (''shell-000001'', sample_manager)"
    by (simp add: sample_manager_def register_def Let_def sample_spawn_def spawn_request_def task_manager_new_def)
  moreover have "task_ok task_manager_new" by (simp add: task_ok_def task_manager_new_def)
  ultimately show ?thesis using register_record(4) by blast
qed

theorem finished_tasks_stay_finished_witness:
  "\<not> is_ok (fst (transition 0 ''shell-000001'' TRunningForeground
     (task_step (Cancel 1 2 ''shell-000001'') sample_manager)))"
proof -
  let ?M = "task_step (Cancel 1 2 ''shell-000001'') sample_manager"
  have ok: "task_ok ?M" using sample_manager_ok by (rule task_ok_step)
  from sample_task obtain r where r: "task_record_of ''shell-000001'' ?M = Some r" and t: "is_terminal (tr_state r)"
    by (simp add: cancel_def finish_def push_def task_record_of_def put_record_def tbl_simps queued_record_def
        is_terminal_def)
  obtain j N where "register sample_spawn ?M = (j, N)" by fastforce
  from finished_tasks_stay_finished [OF ok r t _ this, of "[]"] show ?thesis by simp
qed



section \<open>Control requests\<close>

text \<open>A control request is settled at most once: a response is applied only to a pending
  request that has not expired, and after that every further response is answered as a
  duplicate and every cancellation fails, whatever the registry does in between.\<close>

theorem control_request_settles_once:
  assumes "control_ok t" and "control_resolve p now t = (Applied i sub, t')" and "t'' = fold control_step cs t'"
    and "cp_request_id p' = i"
  shows "(\<exists>r. tbl_get i t = Some r \<and> co_status r = CtPending \<and> \<not> is_expired (cr_expires_at (co_request r)) now \<and>
       cr_subtype (co_request r) = sub \<and>
       tbl_get i t'' = Some (r\<lparr>co_status := CtResolved, co_resolved_at := Some now, co_response := Some p\<rparr>)) \<and>
     control_resolve p' now' t'' = (DuplicateIgnored i CtResolved, t'') \<and>
     control_cancel i reason now' t'' = (False, t'')"
proof -
  from control_resolve_Applied [OF assms(2)] obtain r where r: "tbl_get i t = Some r" "co_status r = CtPending"
    "\<not> is_expired (cr_expires_at (co_request r)) now" and t':
    "tbl_get i t' = Some (r\<lparr>co_status := CtResolved, co_resolved_at := Some now, co_response := Some p\<rparr>)" by blast
  have "control_ok t'" using control_ok_step [OF assms(1), of "CResolve p now"] assms(2) by simp
  from control_settled_forever [OF this t', of cs] assms(3) have t'':
    "tbl_get i t'' = Some (r\<lparr>co_status := CtResolved, co_resolved_at := Some now, co_response := Some p\<rparr>)" by simp
  moreover have "cr_subtype (co_request r) = sub"
    using assms(2) r(1) by (auto simp: control_resolve_def Let_def split: option.splits if_splits)
  ultimately show ?thesis using r assms(4) by (simp add: control_resolve_def control_cancel_def)
qed

theorem control_request_settles_once_witness:
  "let q = \<lparr>cr_request_id = ''c'', cr_run_id = ''r'', cr_subtype = ''approval'', cr_payload = JNull,
            cr_expires_at = Some 5\<rparr>;
       p = \<lparr>cp_request_id = ''c'', cp_decision_source = ''user'', cp_payload = JBool True\<rparr>;
       t = snd (control_resolve p 4 (control_step (CInsert q 1) []))
   in control_resolve (p\<lparr>cp_payload := JBool False\<rparr>) 9 (fold control_step [CExpire 7] t) =
      (DuplicateIgnored ''c'' CtResolved, fold control_step [CExpire 7] t)"
proof -
  let ?q = "\<lparr>cr_request_id = ''c'', cr_run_id = ''r'', cr_subtype = ''approval'', cr_payload = JNull,
            cr_expires_at = Some (5 :: time)\<rparr>"
  let ?p = "\<lparr>cp_request_id = ''c'', cp_decision_source = ''user'', cp_payload = JBool True\<rparr>"
  let ?t = "control_step (CInsert ?q 1) []"
  have "control_ok ?t" by (rule control_ok_step) simp
  moreover have "control_resolve ?p 4 ?t = (Applied ''c'' ''approval'', snd (control_resolve ?p 4 ?t))"
    by (simp add: control_resolve_def control_insert_def is_expired_def tbl_has_def tbl_simps Let_def tbl_get_def)
  ultimately show ?thesis
    using control_request_settles_once [where p = ?p and t = ?t and cs = "[CExpire 7]" and
        p' = "?p\<lparr>cp_payload := JBool False\<rparr>" and now' = 9]
    unfolding Let_def by (auto simp only: control_response.simps)
qed

end
