(* ===== verification/Parallel_Pool.thy ===== *)
theory Parallel_Pool
  imports Rust_Paths "HOL-Library.Multiset"
begin

text \<open>
  Worker counts and the ordered parallel map, vegvisir/src/parallelism.rs.

  \<open>run_parallel_ordered\<close> is a pool of threads around two bounded channels. Its state is the
  record \<open>pool\<close>; the steps of the main thread and of a worker are functions that return
  \<open>None\<close> where the thread is blocked or has ended, and any interleaving of them is a run of
  \<open>pool_step\<close>. A worker holds the mutex of the job receiver while it waits for a job. The
  closure is a function to an option, where \<open>None\<close> is a panic: the thread unwinds, drops its
  end of the result channel, and the job is lost.
\<close>

section \<open>Worker counts\<close>

text \<open>\<open>str::parse::<usize>\<close>: an optional plus sign and decimal digits below \<open>2 ^ 64\<close>.\<close>

definition parse_usize :: "string \<Rightarrow> nat option" where
  "parse_usize s =
     (let digits = (case s of c # r \<Rightarrow> if c = CHR ''+'' then r else s | [] \<Rightarrow> s)
      in if digits \<noteq> [] \<and> list_all is_ascii_digit digits \<and> read_dec digits < 2 ^ 64
         then Some (read_dec digits) else None)"

datatype parallelism_source = SrcAuto | SrcEnv string string | SrcInvalidEnv string string

record parallelism_config =
  pc_available_parallelism :: nat
  pc_reserved_cores :: nat
  pc_max_workers :: nat
  pc_source :: parallelism_source

definition absolute_max_workers :: nat where "absolute_max_workers = 256"

definition clamp :: "nat \<Rightarrow> nat \<Rightarrow> nat \<Rightarrow> nat" where
  "clamp lo hi x = (if x < lo then lo else if x > hi then hi else x)"

definition auto_worker_count :: "nat \<Rightarrow> nat \<Rightarrow> nat" where
  "auto_worker_count available reserved = clamp 1 absolute_max_workers (available - reserved)"

definition env_usize :: "(string \<Rightarrow> string option) \<Rightarrow> string \<Rightarrow> nat option" where
  "env_usize var name = Option.bind (var name) (\<lambda>v. parse_usize (trim v))"

definition parse_worker_count :: "string \<Rightarrow> nat \<Rightarrow> nat \<Rightarrow> nat option" where
  "parse_worker_count raw available reserved =
     (let v = trim raw
      in if eq_ignore_ascii_case v ''auto'' then Some (auto_worker_count available reserved)
         else case parse_usize v of
           None \<Rightarrow> None
         | Some c \<Rightarrow> if c > 0 then Some (min c absolute_max_workers) else None)"

text \<open>\<open>hardware\<close> is what \<open>std::thread::available_parallelism\<close> reports, if anything.\<close>

definition available_parallelism :: "nat option \<Rightarrow> nat" where
  "available_parallelism hardware = max (case hardware of None \<Rightarrow> 1 | Some n \<Rightarrow> n) 1"

definition parallelism_detect :: "nat option \<Rightarrow> (string \<Rightarrow> string option) \<Rightarrow> parallelism_config" where
  "parallelism_detect hardware var =
     (let available = available_parallelism hardware;
          reserved = min (case env_usize var ''VEGVISIR_RESERVED_CORES'' of None \<Rightarrow> 1 | Some n \<Rightarrow> n)
                         (available - 1);
          config = (\<lambda>workers source. \<lparr>pc_available_parallelism = available, pc_reserved_cores = reserved,
                     pc_max_workers = workers, pc_source = source\<rparr>)
      in case var ''VEGVISIR_MAX_WORKERS'' of
           Some raw \<Rightarrow>
             (case parse_worker_count raw available reserved of
                Some workers \<Rightarrow> config workers (SrcEnv ''VEGVISIR_MAX_WORKERS'' raw)
              | None \<Rightarrow> config (auto_worker_count available reserved)
                  (SrcInvalidEnv ''VEGVISIR_MAX_WORKERS'' raw))
         | None \<Rightarrow> config (auto_worker_count available reserved) SrcAuto)"

definition constrained_workers :: "parallelism_config \<Rightarrow> nat \<Rightarrow> nat" where
  "constrained_workers c requested = clamp 1 (max (pc_max_workers c) 1) requested"

definition source_label :: "parallelism_config \<Rightarrow> string" where
  "source_label c = (case pc_source c of
     SrcAuto \<Rightarrow> ''auto''
   | SrcEnv k v \<Rightarrow> k @ ''='' @ v
   | SrcInvalidEnv k v \<Rightarrow> ''auto; ignored invalid '' @ k @ ''='' @ v)"

definition default_worker_count :: "nat option \<Rightarrow> (string \<Rightarrow> string option) \<Rightarrow> nat" where
  "default_worker_count hardware var = pc_max_workers (parallelism_detect hardware var)"

lemma clamp_bounds: "lo \<le> hi \<Longrightarrow> lo \<le> clamp lo hi x \<and> clamp lo hi x \<le> hi"
  by (simp add: clamp_def)

lemma detect_bounds:
  "1 \<le> pc_max_workers (parallelism_detect hardware var) \<and> pc_max_workers (parallelism_detect hardware var) \<le> 256"
  by (auto simp: parallelism_detect_def parse_worker_count_def auto_worker_count_def clamp_def
      absolute_max_workers_def Let_def split: option.split if_splits)

lemma constrained_bounds:
  "1 \<le> constrained_workers (parallelism_detect hardware var) k \<and>
   constrained_workers (parallelism_detect hardware var) k \<le> pc_max_workers (parallelism_detect hardware var)"
  using detect_bounds [of hardware var] by (auto simp: constrained_workers_def clamp_def max_def)

section \<open>The pool\<close>

datatype ('a, 'r) pool_worker =
    WLock             \<comment> \<open>about to lock the receiver\<close>
  | WRecv             \<comment> \<open>holds the lock, waits for a job\<close>
  | WRun nat 'a
  | WSend nat 'r
  | WGone             \<comment> \<open>returned or panicked\<close>

datatype pool_main =
    MFeed nat         \<comment> \<open>jobs sent in the first loop\<close>
  | MRecv
  | MSend
  | MJoin             \<comment> \<open>the job sender is dropped\<close>
  | MDone

record ('a, 'r) pool =
  po_jobs :: "(nat \<times> 'a) list"
  po_queue :: "(nat \<times> 'r) list"
  po_workers :: "('a, 'r) pool_worker list"
  po_main :: pool_main
  po_next :: nat
  po_results :: "'r option list"
  po_completed :: nat

definition pool_init :: "'a list \<Rightarrow> nat \<Rightarrow> ('a, 'r) pool" where
  "pool_init xs n =
     \<lparr>po_jobs = [], po_queue = [], po_workers = replicate n WLock, po_main = MFeed 0, po_next = 0,
      po_results = replicate (length xs) None, po_completed = 0\<rparr>"

text \<open>The loop of worker \<open>k\<close>.\<close>

definition worker_step :: "('a \<Rightarrow> 'r option) \<Rightarrow> nat \<Rightarrow> nat \<Rightarrow> ('a, 'r) pool \<Rightarrow> ('a, 'r) pool option" where
  "worker_step f n k s =
     (if k \<ge> length (po_workers s) then None
      else case po_workers s ! k of
        WLock \<Rightarrow>
          if WRecv \<in> set (po_workers s) then None
          else Some (s\<lparr>po_workers := (po_workers s)[k := WRecv]\<rparr>)
      | WRecv \<Rightarrow>
          (case po_jobs s of
             (i, x) # js \<Rightarrow> Some (s\<lparr>po_jobs := js, po_workers := (po_workers s)[k := WRun i x]\<rparr>)
           | [] \<Rightarrow>
             if po_main s \<in> {MJoin, MDone} then Some (s\<lparr>po_workers := (po_workers s)[k := WGone]\<rparr>)
             else None)
      | WRun i x \<Rightarrow>
          Some (s\<lparr>po_workers := (po_workers s)[k := (case f x of None \<Rightarrow> WGone | Some r \<Rightarrow> WSend i r)]\<rparr>)
      | WSend i r \<Rightarrow>
          if length (po_queue s) < n
          then Some (s\<lparr>po_queue := po_queue s @ [(i, r)], po_workers := (po_workers s)[k := WLock]\<rparr>)
          else None
      | WGone \<Rightarrow> None)"

text \<open>
  The main thread. Its sends cannot fail, since it keeps a reference to the job receiver;
  \<open>recv\<close> fails once the result channel is empty and every worker is gone.
\<close>

definition send_next :: "'a list \<Rightarrow> nat \<Rightarrow> pool_main \<Rightarrow> ('a, 'r) pool \<Rightarrow> ('a, 'r) pool option" where
  "send_next xs n after s =
     (if length (po_jobs s) < n
      then Some (s\<lparr>po_jobs := po_jobs s @ [(po_next s, xs ! po_next s)], po_next := po_next s + 1,
                   po_main := after\<rparr>)
      else None)"

definition main_step :: "'a list \<Rightarrow> nat \<Rightarrow> ('a, 'r) pool \<Rightarrow> ('a, 'r) pool option" where
  "main_step xs n s =
     (case po_main s of
        MFeed k \<Rightarrow>
          if k < n \<and> po_next s < length xs then send_next xs n (MFeed (Suc k)) s
          else Some (s\<lparr>po_main := MRecv\<rparr>)
      | MRecv \<Rightarrow>
          if po_completed s \<ge> length xs then Some (s\<lparr>po_main := MJoin\<rparr>)
          else (case po_queue s of
             (i, r) # q \<Rightarrow>
               Some (s\<lparr>po_queue := q, po_results := (po_results s)[i := Some r],
                       po_completed := po_completed s + 1,
                       po_main := (if po_next s < length xs then MSend else MRecv)\<rparr>)
           | [] \<Rightarrow>
               if \<forall>w \<in> set (po_workers s). w = WGone then Some (s\<lparr>po_main := MJoin\<rparr>) else None)
      | MSend \<Rightarrow> send_next xs n MRecv s
      | MJoin \<Rightarrow> if \<forall>w \<in> set (po_workers s). w = WGone then Some (s\<lparr>po_main := MDone\<rparr>) else None
      | MDone \<Rightarrow> None)"

datatype pool_thread = MainThread | WorkerThread nat

fun pool_act :: "('a \<Rightarrow> 'r option) \<Rightarrow> 'a list \<Rightarrow> nat \<Rightarrow> pool_thread \<Rightarrow> ('a, 'r) pool \<Rightarrow> ('a, 'r) pool option" where
  "pool_act f xs n MainThread s = main_step xs n s"
| "pool_act f xs n (WorkerThread k) s = worker_step f n k s"

inductive pool_step :: "('a \<Rightarrow> 'r option) \<Rightarrow> 'a list \<Rightarrow> nat \<Rightarrow> ('a, 'r) pool \<Rightarrow> ('a, 'r) pool \<Rightarrow> bool"
  for f xs n where
  thread: "pool_act f xs n t s = Some s' \<Longrightarrow> pool_step f xs n s s'"

inductive_cases pool_stepE: "pool_step f xs n s s'"

definition pool_stuck :: "('a \<Rightarrow> 'r option) \<Rightarrow> 'a list \<Rightarrow> nat \<Rightarrow> ('a, 'r) pool \<Rightarrow> bool" where
  "pool_stuck f xs n s \<longleftrightarrow> (\<forall>t. pool_act f xs n t s = None)"

text \<open>The last lines: every slot must be filled, or the call panics (\<open>None\<close>).\<close>

definition pool_result :: "('a, 'r) pool \<Rightarrow> 'r list option" where
  "pool_result s = those (po_results s)"

text \<open>\<open>run_parallel_ordered\<close>: which results it may return.\<close>

inductive run_parallel_ordered :: "('a \<Rightarrow> 'r option) \<Rightarrow> 'a list \<Rightarrow> nat \<Rightarrow> 'r list option \<Rightarrow> bool"
  for f xs m where
  no_items: "xs = [] \<Longrightarrow> run_parallel_ordered f xs m (Some [])"
| sequential: "xs \<noteq> [] \<Longrightarrow> clamp 1 (length xs) m = 1 \<or> length xs = 1 \<Longrightarrow>
     run_parallel_ordered f xs m (those (map f xs))"
| pooled: "xs \<noteq> [] \<Longrightarrow> n = clamp 1 (length xs) m \<Longrightarrow> n \<noteq> 1 \<Longrightarrow> length xs \<noteq> 1 \<Longrightarrow>
     (pool_step f xs n)\<^sup>*\<^sup>* (pool_init xs n) s \<Longrightarrow> po_main s = MDone \<Longrightarrow>
     run_parallel_ordered f xs m (pool_result s)"

section \<open>What every state of the pool satisfies\<close>

text \<open>The positions a worker holds, those on the way, and those whose result has arrived.\<close>

fun held :: "('a, 'r) pool_worker \<Rightarrow> nat multiset" where
  "held (WRun i _) = {#i#}"
| "held (WSend i _) = {#i#}"
| "held _ = {#}"

definition inflight :: "('a, 'r) pool \<Rightarrow> nat multiset" where
  "inflight s = mset (map fst (po_jobs s)) + sum_list (map held (po_workers s)) + mset (map fst (po_queue s))"

definition filled :: "'r option list \<Rightarrow> nat set" where
  "filled rs = {i. i < length rs \<and> rs ! i \<noteq> None}"

fun worker_ok :: "('a \<Rightarrow> 'r option) \<Rightarrow> 'a list \<Rightarrow> ('a, 'r) pool_worker \<Rightarrow> bool" where
  "worker_ok f xs (WRun i x) = (i < length xs \<and> x = xs ! i)"
| "worker_ok f xs (WSend i r) = (i < length xs \<and> f (xs ! i) = Some r)"
| "worker_ok f xs _ = True"

definition pool_data :: "('a \<Rightarrow> 'r option) \<Rightarrow> 'a list \<Rightarrow> ('a, 'r) pool \<Rightarrow> bool" where
  "pool_data f xs s \<longleftrightarrow>
     (\<forall>(i, x) \<in> set (po_jobs s). i < length xs \<and> x = xs ! i) \<and>
     (\<forall>w \<in> set (po_workers s). worker_ok f xs w) \<and>
     (\<forall>(i, r) \<in> set (po_queue s). i < length xs \<and> f (xs ! i) = Some r) \<and>
     (\<forall>i r. i < length xs \<and> po_results s ! i = Some r \<longrightarrow> f (xs ! i) = Some r)"

text \<open>Every position handed out is in exactly one place.\<close>

definition pool_count :: "('a, 'r) pool \<Rightarrow> bool" where
  "pool_count s \<longleftrightarrow>
     inflight s + mset_set (filled (po_results s)) = mset_set {..<po_next s} \<and>
     po_completed s = card (filled (po_results s))"

definition pool_shape :: "'a list \<Rightarrow> nat \<Rightarrow> ('a, 'r) pool \<Rightarrow> bool" where
  "pool_shape xs n s \<longleftrightarrow>
     length (po_workers s) = n \<and> length (po_results s) = length xs \<and> po_next s \<le> length xs \<and>
     (case po_main s of
        MFeed k \<Rightarrow> k \<le> n \<and> po_next s = k \<and> po_completed s = 0
      | MRecv \<Rightarrow> po_next s = min (length xs) (n + po_completed s)
      | MSend \<Rightarrow> po_next s + 1 = n + po_completed s \<and> po_next s < length xs
      | MJoin \<Rightarrow> po_completed s = length xs \<and> po_next s = length xs
      | MDone \<Rightarrow> po_completed s = length xs \<and> po_next s = length xs) \<and>
     (WGone \<in> set (po_workers s) \<longrightarrow> po_main s \<in> {MJoin, MDone})"

definition pool_inv :: "('a \<Rightarrow> 'r option) \<Rightarrow> 'a list \<Rightarrow> nat \<Rightarrow> ('a, 'r) pool \<Rightarrow> bool" where
  "pool_inv f xs n s \<longleftrightarrow> pool_data f xs s \<and> pool_count s \<and> pool_shape xs n s"

lemma sum_list_update_cancel:
  fixes g :: "'w \<Rightarrow> 'm::cancel_comm_monoid_add"
  assumes "k < length ws"
  shows "sum_list (map g (ws[k := w])) + g (ws ! k) = sum_list (map g ws) + g w"
  using assms
proof (induction ws arbitrary: k)
  case (Cons v ws)
  show ?case
  proof (cases k)
    case 0
    then show ?thesis by (simp add: ac_simps)
  next
    case (Suc j)
    with Cons have "sum_list (map g (ws[j := w])) + g (ws ! j) = sum_list (map g ws) + g w" by simp
    with Suc show ?thesis by (simp add: add.assoc)
  qed
qed simp

lemma held_update:
  "k < length ws \<Longrightarrow> ws ! k = v \<Longrightarrow>
   sum_list (map held (ws[k := w])) + held v = sum_list (map held ws) + held w"
  using sum_list_update_cancel [of k ws held w] by simp

lemma held_update_same:
  "k < length ws \<Longrightarrow> held (ws ! k) = held w \<Longrightarrow> sum_list (map held (ws[k := w])) = sum_list (map held ws)"
  using sum_list_update_cancel [of k ws held w] by simp

lemma filled_update:
  "i < length rs \<Longrightarrow> filled (rs[i := Some r]) = insert i (filled rs)"
  by (auto simp: filled_def nth_list_update)

lemma filled_finite [simp]: "finite (filled rs)"
  by (simp add: filled_def)

lemma size_inflight:
  assumes "pool_count s"
  shows "size (inflight s) + po_completed s = po_next s"
proof -
  from assms have "size (inflight s) + size (mset_set (filled (po_results s))) = size (mset_set {..<po_next s})"
    unfolding pool_count_def by (metis size_union)
  with assms show ?thesis by (simp add: pool_count_def)
qed

lemma jobs_le_inflight: "length (po_jobs s) \<le> size (inflight s)" "length (po_queue s) \<le> size (inflight s)"
  by (simp_all add: inflight_def)

lemma held_le_inflight: "w \<in> set (po_workers s) \<Longrightarrow> size (held w) \<le> size (inflight s)"
proof -
  assume "w \<in> set (po_workers s)"
  then obtain us vs where "po_workers s = us @ w # vs" by (meson split_list)
  then show ?thesis by (simp add: inflight_def)
qed

lemma held_none: "(\<And>w. w \<in> set ws \<Longrightarrow> held w = {#}) \<Longrightarrow> sum_list (map held ws) = {#}"
  by (induction ws) auto

section \<open>Each step keeps it\<close>

lemma data_set_worker:
  "pool_data f xs s \<Longrightarrow> worker_ok f xs w \<Longrightarrow> pool_data f xs (s\<lparr>po_workers := (po_workers s)[k := w]\<rparr>)"
  unfolding pool_data_def using set_update_subset_insert [of "po_workers s" k w] by auto

lemma data_worker:
  assumes "pool_data f xs s" and "k < length (po_workers s)"
  shows "worker_ok f xs (po_workers s ! k)"
  using assms by (simp add: pool_data_def)

lemma worker_step_data:
  assumes "pool_data f xs s" and "worker_step f n k s = Some s'"
  shows "pool_data f xs s'"
proof -
  from assms(2) have k: "k < length (po_workers s)" by (auto simp: worker_step_def split: if_splits)
  note ok = data_worker [OF assms(1) k]
  note set = data_set_worker [OF assms(1), of _ k]
  show ?thesis
  proof (cases "po_workers s ! k")
    case WLock
    with assms(2) k set [of WRecv] show ?thesis by (auto simp: worker_step_def split: if_splits)
  next
    case WRecv
    show ?thesis
    proof (cases "po_jobs s")
      case Nil
      with WRecv assms(2) k set [of WGone] show ?thesis by (auto simp: worker_step_def split: if_splits)
    next
      case (Cons j js)
      obtain i x where j: "j = (i, x)" by fastforce
      from assms(1) Cons j have "worker_ok f xs (WRun i x)" by (simp add: pool_data_def)
      from set [OF this] Cons j WRecv assms(2) k show ?thesis
        by (auto simp: worker_step_def pool_data_def)
    qed
  next
    case (WRun i x)
    with ok have "worker_ok f xs (case f x of None \<Rightarrow> WGone | Some r \<Rightarrow> WSend i r)"
      by (simp split: option.split)
    from set [OF this] WRun assms(2) k show ?thesis by (simp add: worker_step_def)
  next
    case (WSend i r)
    with ok set [of WLock] assms(2) k show ?thesis
      by (auto simp: worker_step_def pool_data_def split: if_splits)
  next
    case WGone
    with assms(2) k show ?thesis by (simp add: worker_step_def)
  qed
qed

lemma main_step_data:
  assumes "pool_data f xs s" and "pool_shape xs n s" and "main_step xs n s = Some s'"
  shows "pool_data f xs s'"
proof (cases "po_main s")
  case (MFeed k)
  with assms show ?thesis
    by (auto simp: main_step_def send_next_def pool_data_def split: if_splits)
next
  case MRecv
  show ?thesis
  proof (cases "po_queue s")
    case Nil
    with MRecv assms show ?thesis by (auto simp: main_step_def pool_data_def split: if_splits)
  next
    case (Cons e q)
    with MRecv assms show ?thesis
      by (cases e) (auto simp: main_step_def pool_data_def pool_shape_def nth_list_update split: if_splits)
  qed
next
  case MSend
  with assms show ?thesis
    by (auto simp: main_step_def send_next_def pool_data_def pool_shape_def split: if_splits)
qed (use assms in \<open>auto simp: main_step_def pool_data_def split: if_splits\<close>)

lemma count_cong:
  "pool_count s \<Longrightarrow> inflight t = inflight s \<Longrightarrow> po_results t = po_results s \<Longrightarrow> po_next t = po_next s \<Longrightarrow>
   po_completed t = po_completed s \<Longrightarrow> pool_count t"
  by (simp add: pool_count_def)

lemma count_main [simp]: "pool_count (s\<lparr>po_main := m\<rparr>) = pool_count s"
  by (simp add: pool_count_def inflight_def)

text \<open>A worker moves its position along, or takes the front job; none is lost.\<close>

lemma worker_step_keeps:
  assumes "worker_step f n k s = Some s'" and "pool_data f xs s" and "\<forall>x \<in> set xs. f x \<noteq> None"
  shows "inflight s' = inflight s" "po_results s' = po_results s" "po_next s' = po_next s"
    "po_completed s' = po_completed s" "po_main s' = po_main s" "length (po_workers s') = length (po_workers s)"
    "WGone \<in> set (po_workers s') \<Longrightarrow> WGone \<in> set (po_workers s) \<or> po_main s \<in> {MJoin, MDone}"
proof -
  from assms(1) have k: "k < length (po_workers s)" by (auto simp: worker_step_def split: if_splits)
  note ok = data_worker [OF assms(2) k]
  note up = held_update [OF k refl] and same = held_update_same [OF k]
  have set: "w \<noteq> WGone \<Longrightarrow> WGone \<in> set ((po_workers s)[k := w]) \<Longrightarrow> WGone \<in> set (po_workers s)" for w
    using set_update_subset_insert [of "po_workers s" k w] by blast
  have "inflight s' = inflight s \<and> po_results s' = po_results s \<and> po_next s' = po_next s \<and>
      po_completed s' = po_completed s \<and> po_main s' = po_main s \<and> length (po_workers s') = length (po_workers s) \<and>
      (WGone \<in> set (po_workers s') \<longrightarrow> WGone \<in> set (po_workers s) \<or> po_main s \<in> {MJoin, MDone})"
  proof (cases "po_workers s ! k")
    case WLock
    then have "s' = s\<lparr>po_workers := (po_workers s)[k := WRecv]\<rparr>"
      using assms(1) k by (simp add: worker_step_def split: if_splits)
    with WLock same [of WRecv] set [of WRecv] show ?thesis by (auto simp: inflight_def)
  next
    case WRecv
    show ?thesis
    proof (cases "po_jobs s")
      case Nil
      with WRecv assms(1) k same [of WGone] show ?thesis
        by (auto simp: worker_step_def inflight_def split: if_splits)
    next
      case (Cons j js)
      obtain i x where j: "j = (i, x)" by fastforce
      with Cons WRecv have "s' = s\<lparr>po_jobs := js, po_workers := (po_workers s)[k := WRun i x]\<rparr>"
        using assms(1) k by (simp add: worker_step_def)
      with Cons j WRecv up [of "WRun i x"] set [of "WRun i x"] show ?thesis by (auto simp: inflight_def)
    qed
  next
    case (WRun i x)
    with ok assms(3) obtain r where "f x = Some r" by fastforce
    with WRun have "s' = s\<lparr>po_workers := (po_workers s)[k := WSend i r]\<rparr>"
      using assms(1) k by (simp add: worker_step_def)
    with WRun same [of "WSend i r"] set [of "WSend i r"] show ?thesis by (auto simp: inflight_def)
  next
    case (WSend i r)
    then have "s' = s\<lparr>po_queue := po_queue s @ [(i, r)], po_workers := (po_workers s)[k := WLock]\<rparr>"
      using assms(1) k by (simp add: worker_step_def split: if_splits)
    with WSend up [of WLock] set [of WLock] show ?thesis by (auto simp: inflight_def)
  next
    case WGone
    with assms(1) k show ?thesis by (simp add: worker_step_def)
  qed
  then show "inflight s' = inflight s" "po_results s' = po_results s" "po_next s' = po_next s"
    "po_completed s' = po_completed s" "po_main s' = po_main s" "length (po_workers s') = length (po_workers s)"
    "WGone \<in> set (po_workers s') \<Longrightarrow> WGone \<in> set (po_workers s) \<or> po_main s \<in> {MJoin, MDone}"
    by blast+
qed

lemma worker_step_inv:
  assumes "pool_inv f xs n s" and "worker_step f n k s = Some s'" and "\<forall>x \<in> set xs. f x \<noteq> None"
  shows "pool_inv f xs n s'"
proof -
  from assms(1) have inv: "pool_data f xs s" "pool_count s" "pool_shape xs n s" by (simp_all add: pool_inv_def)
  note keep = worker_step_keeps [OF assms(2) inv(1) assms(3)]
  have "pool_count s'" by (rule count_cong [OF inv(2)]) (simp_all add: keep)
  moreover have "pool_shape xs n s'"
    unfolding pool_shape_def keep(2-6) using keep(7) inv(3) [unfolded pool_shape_def] by blast
  ultimately show ?thesis using worker_step_data [OF inv(1) assms(2)] by (simp add: pool_inv_def)
qed

text \<open>The main thread hands out the next position, or takes in a result.\<close>

lemma send_next_count:
  assumes "pool_count s" and "send_next xs n after s = Some s'"
  shows "pool_count s'"
proof -
  from assms(2) have s': "s' = s\<lparr>po_jobs := po_jobs s @ [(po_next s, xs ! po_next s)], po_next := po_next s + 1,
      po_main := after\<rparr>" by (simp add: send_next_def split: if_splits)
  have "inflight s' = add_mset (po_next s) (inflight s)" by (simp add: s' inflight_def)
  moreover have "mset_set {..<po_next s + 1} = add_mset (po_next s) (mset_set {..<po_next s})"
    by (simp add: lessThan_Suc)
  ultimately show ?thesis using assms(1) by (simp add: pool_count_def s')
qed

lemma recv_count:
  assumes "pool_count s" and "po_queue s = (i, r) # q" and "i < length (po_results s)"
    and "s' = s\<lparr>po_queue := q, po_results := (po_results s)[i := Some r], po_completed := po_completed s + 1,
        po_main := after\<rparr>"
  shows "pool_count s'"
proof -
  have infl: "inflight s = add_mset i (inflight s')" by (simp add: assms(2,4) inflight_def)
  have total: "inflight s + mset_set (filled (po_results s)) = mset_set {..<po_next s}"
    using assms(1) by (simp add: pool_count_def)
  have "i \<notin> filled (po_results s)"
  proof
    assume "i \<in> filled (po_results s)"
    then have "count (mset_set (filled (po_results s))) i = 1" by simp
    with infl have "count (inflight s + mset_set (filled (po_results s))) i \<ge> 2" by simp
    moreover have "count (mset_set {..<po_next s}) i \<le> 1" by (cases "i < po_next s") simp_all
    ultimately show False using total by simp
  qed
  then have "mset_set (filled (po_results s')) = add_mset i (mset_set (filled (po_results s)))"
    and "card (filled (po_results s')) = Suc (card (filled (po_results s)))"
    using assms(3) by (simp_all add: assms(4) filled_update)
  with infl total assms(1) show ?thesis by (simp add: pool_count_def assms(4))
qed

lemma main_step_inv:
  assumes "pool_inv f xs n s" and "main_step xs n s = Some s'" and "1 \<le> n" and "n \<le> length xs"
  shows "pool_inv f xs n s'"
proof -
  from assms(1) have inv: "pool_data f xs s" "pool_count s" "pool_shape xs n s" by (simp_all add: pool_inv_def)
  have next_le: "po_completed s \<le> po_next s" using size_inflight [OF inv(2)] by linarith
  have workers: "po_workers s \<noteq> []" using inv(3) assms(3) by (auto simp: pool_shape_def)
  have "pool_count s' \<and> pool_shape xs n s'"
  proof (cases "po_main s")
    case (MFeed k)
    show ?thesis
    proof (cases "k < n")
      case True
      with MFeed inv(3) assms(2,4) have send: "send_next xs n (MFeed (Suc k)) s = Some s'"
        by (simp add: main_step_def pool_shape_def)
      with send_next_count [OF inv(2) send] inv(3) MFeed True assms(4) show ?thesis
        by (auto simp: send_next_def pool_shape_def split: if_splits)
    next
      case False
      with MFeed assms(2,4) inv(3) have "s' = s\<lparr>po_main := MRecv\<rparr>" "k = n"
        by (simp_all add: main_step_def pool_shape_def)
      with inv MFeed assms(4) show ?thesis by (auto simp: pool_shape_def)
    qed
  next
    case MRecv
    show ?thesis
    proof (cases "po_completed s \<ge> length xs")
      case True
      with MRecv assms(2) have s': "s' = s\<lparr>po_main := MJoin\<rparr>" by (simp add: main_step_def)
      have "po_completed s = length xs \<and> po_next s = length xs"
        using True next_le inv(3) by (simp add: pool_shape_def)
      with inv MRecv show ?thesis by (auto simp: pool_shape_def s')
    next
      case False
      have "\<not> (\<forall>w \<in> set (po_workers s). w = WGone)"
        using workers MRecv inv(3) by (cases "po_workers s") (auto simp: pool_shape_def)
      with False MRecv assms(2) obtain i r q where q: "po_queue s = (i, r) # q"
        and s': "s' = s\<lparr>po_queue := q, po_results := (po_results s)[i := Some r],
            po_completed := po_completed s + 1, po_main := (if po_next s < length xs then MSend else MRecv)\<rparr>"
        by (auto simp: main_step_def split: list.splits if_splits)
      have "i < length (po_results s)" using q inv(1,3) by (simp add: pool_data_def pool_shape_def)
      from recv_count [OF inv(2) q this s'] have "pool_count s'" .
      moreover have "pool_shape xs n s'"
        using inv(3) MRecv False by (auto simp: pool_shape_def s')
      ultimately show ?thesis by blast
    qed
  next
    case MSend
    with assms(2) have send: "send_next xs n MRecv s = Some s'" by (simp add: main_step_def)
    with send_next_count [OF inv(2) send] inv(3) MSend show ?thesis
      by (auto simp: send_next_def pool_shape_def split: if_splits)
  next
    case MJoin
    with assms(2) have "s' = s\<lparr>po_main := MDone\<rparr>" by (simp add: main_step_def split: if_splits)
    with inv MJoin show ?thesis by (auto simp: pool_shape_def)
  next
    case MDone
    with assms(2) show ?thesis by (simp add: main_step_def)
  qed
  with main_step_data [OF inv(1,3) assms(2)] show ?thesis by (simp add: pool_inv_def)
qed

lemma pool_init_inv:
  assumes "n \<le> length xs"
  shows "pool_inv f xs n (pool_init xs n)"
proof -
  have "sum_list (map held (replicate n (WLock :: ('a, 'b) pool_worker))) = {#}" by (rule held_none) simp
  moreover have "filled (replicate (length xs) (None :: 'b option)) = {}" by (auto simp: filled_def)
  ultimately show ?thesis
    by (auto simp: pool_inv_def pool_data_def pool_count_def pool_shape_def pool_init_def inflight_def
        simp del: map_replicate sum_list_replicate)
qed

lemma pool_step_inv:
  assumes "pool_inv f xs n s" and "pool_step f xs n s s'" and "1 \<le> n" and "n \<le> length xs"
    and "\<forall>x \<in> set xs. f x \<noteq> None"
  shows "pool_inv f xs n s'"
  using assms(2)
proof (cases rule: pool_step.cases)
  case (thread t)
  with assms show ?thesis by (cases t) (auto intro: worker_step_inv main_step_inv)
qed

lemma pool_reachable_inv:
  assumes "(pool_step f xs n)\<^sup>*\<^sup>* (pool_init xs n) s" and "1 \<le> n" and "n \<le> length xs"
    and "\<forall>x \<in> set xs. f x \<noteq> None"
  shows "pool_inv f xs n s"
  using assms(1)
proof (induction rule: rtranclp_induct)
  case (step s s')
  with assms(2-4) show ?case by (blast intro: pool_step_inv)
qed (rule pool_init_inv [OF assms(3)])

section \<open>No state is stuck before the end\<close>

lemma finished_result:
  assumes "pool_inv f xs n s" and "po_completed s = length xs"
  shows "pool_result s = Some (map (the \<circ> f) xs)"
proof -
  from assms have len: "length (po_results s) = length xs" and card: "card (filled (po_results s)) = length xs"
    by (simp_all add: pool_inv_def pool_shape_def pool_count_def)
  then have "filled (po_results s) = {..<length xs}"
    by (intro card_subset_eq) (auto simp: filled_def)
  then have some: "i < length xs \<Longrightarrow> \<exists>r. po_results s ! i = Some r" for i by (auto simp: filled_def)
  have "po_results s = map (Some \<circ> (the \<circ> f)) xs"
  proof (rule nth_equalityI)
    fix i assume "i < length (po_results s)"
    with len some assms(1) show "po_results s ! i = map (Some \<circ> (the \<circ> f)) xs ! i"
      by (fastforce simp: pool_inv_def pool_data_def)
  qed (simp add: len)
  moreover have "those (map (Some \<circ> g) ys) = Some (map g ys)" for g :: "'a \<Rightarrow> 'b" and ys
    by (induction ys) simp_all
  ultimately show ?thesis by (simp add: pool_result_def)
qed

lemma worker_can_step:
  assumes "k < length (po_workers s)" and "length (po_queue s) < n"
    and "held (po_workers s ! k) \<noteq> {#}"
  shows "worker_step f n k s \<noteq> None"
  using assms by (cases "po_workers s ! k") (simp_all add: worker_step_def)

text \<open>With a job in the channel, or the channel closed, an idle worker can go on.\<close>

lemma idle_can_step:
  assumes "w \<in> set (po_workers s)" and "w \<noteq> WGone" and "held w = {#}"
    and "po_jobs s \<noteq> [] \<or> po_main s \<in> {MJoin, MDone}"
  shows "\<exists>k. worker_step f n k s \<noteq> None"
proof (cases "WRecv \<in> set (po_workers s)")
  case True
  then obtain k where "k < length (po_workers s)" "po_workers s ! k = WRecv" by (auto simp: in_set_conv_nth)
  with assms(4) show ?thesis
    by (intro exI [of _ k]) (auto simp: worker_step_def split: list.split)
next
  case False
  with assms(1-3) have "w = WLock" by (cases w rule: pool_worker.exhaust) auto
  with assms(1) have "WLock \<in> set (po_workers s)" by simp
  then obtain k where "k < length (po_workers s)" "po_workers s ! k = WLock" by (auto simp: in_set_conv_nth)
  with False show ?thesis by (intro exI [of _ k]) (simp add: worker_step_def)
qed

lemma pool_progress:
  assumes "pool_inv f xs n s" and "pool_stuck f xs n s" and "1 \<le> n" and "n \<le> length xs"
  shows "po_main s = MDone"
proof (rule ccontr)
  assume not_done: "po_main s \<noteq> MDone"
  from assms(1) have inv: "pool_data f xs s" "pool_count s" "pool_shape xs n s" by (simp_all add: pool_inv_def)
  from assms(2) have no: "main_step xs n s = None" "worker_step f n k s = None" for k
    unfolding pool_stuck_def by (metis pool_act.simps)+
  note size = size_inflight [OF inv(2)]
  have gone: "\<exists>w \<in> set (po_workers s). w \<noteq> WGone" if "WGone \<notin> set (po_workers s)"
    using that inv(3) assms(3) by (cases "po_workers s") (auto simp: pool_shape_def)
  have busy: "held w = {#}" if "w \<in> set (po_workers s)" "length (po_queue s) < n" for w
    using that no(2) worker_can_step [of _ s n f] by (metis in_set_conv_nth)
  show False
  proof (cases "po_main s")
    case (MFeed k)
    with inv(3) size no(1) jobs_le_inflight(1) [of s] assms(4) show False
      by (auto simp: main_step_def send_next_def pool_shape_def split: if_splits)
  next
    case MSend
    with inv(3) size no(1) jobs_le_inflight(1) [of s] show False
      by (auto simp: main_step_def send_next_def pool_shape_def split: if_splits)
  next
    case MRecv
    with no(1) have c: "po_completed s < length xs" and q: "po_queue s = []"
      by (auto simp: main_step_def split: if_splits list.splits prod.splits)
    have "sum_list (map held (po_workers s)) = {#}"
      using busy q assms(3) by (intro held_none) simp
    moreover have "size (inflight s) > 0" using c MRecv inv(3) size assms(3) by (auto simp: pool_shape_def)
    ultimately have "po_jobs s \<noteq> []" using q by (auto simp: inflight_def)
    moreover have "WGone \<notin> set (po_workers s)" using MRecv inv(3) by (auto simp: pool_shape_def)
    with gone obtain w where "w \<in> set (po_workers s)" "w \<noteq> WGone" by blast
    moreover have "held w = {#}" using busy q assms(3) calculation(2) by simp
    ultimately obtain k where "worker_step f n k s \<noteq> None" using idle_can_step by blast
    with no(2) show False by simp
  next
    case MJoin
    with no(1) obtain w where w: "w \<in> set (po_workers s)" "w \<noteq> WGone"
      by (auto simp: main_step_def split: if_splits)
    from MJoin inv(3) size have "size (inflight s) = 0" by (simp add: pool_shape_def)
    then have "held w = {#}" using held_le_inflight [OF w(1)] by simp
    with w MJoin obtain k where "worker_step f n k s \<noteq> None" using idle_can_step by blast
    with no(2) show False by simp
  next
    case MDone
    with not_done show False by simp
  qed
qed

section \<open>Every run ends\<close>

text \<open>
  What is left to do: a position counts for more the further it is from its result, and a
  worker or the main thread for more the earlier it is in its cycle.
\<close>

fun worker_left :: "('a, 'r) pool_worker \<Rightarrow> nat" where
  "worker_left WLock = 2"
| "worker_left WRecv = 1"
| "worker_left (WRun _ _) = 7"
| "worker_left (WSend _ _) = 6"
| "worker_left WGone = 0"

fun main_left :: "nat \<Rightarrow> pool_main \<Rightarrow> nat" where
  "main_left n (MFeed k) = 4 + (n - k)"
| "main_left n MRecv = 2"
| "main_left n MSend = 3"
| "main_left n MJoin = 1"
| "main_left n MDone = 0"

definition pool_left :: "'a list \<Rightarrow> nat \<Rightarrow> ('a, 'r) pool \<Rightarrow> nat" where
  "pool_left xs n s = 10 * (length xs - po_next s) + 8 * length (po_jobs s) +
     sum_list (map worker_left (po_workers s)) + 3 * length (po_queue s) + main_left n (po_main s)"

lemma left_update:
  "k < length ws \<Longrightarrow> worker_left w < worker_left (ws ! k) + c \<Longrightarrow>
   sum_list (map worker_left (ws[k := w])) < sum_list (map worker_left ws) + c"
  using sum_list_update_cancel [of k ws worker_left w] by linarith

lemma worker_step_left:
  assumes "worker_step f n k s = Some s'"
  shows "pool_left xs n s' < pool_left xs n s"
proof -
  from assms have k: "k < length (po_workers s)" by (auto simp: worker_step_def split: if_splits)
  note up = left_update [OF k]
  show ?thesis
  proof (cases "po_workers s ! k")
    case WLock
    with assms k up [of WRecv 0] show ?thesis by (auto simp: worker_step_def pool_left_def split: if_splits)
  next
    case WRecv
    show ?thesis
    proof (cases "po_jobs s")
      case Nil
      with WRecv assms k up [of WGone 0] show ?thesis
        by (auto simp: worker_step_def pool_left_def split: if_splits)
    next
      case (Cons j js)
      then show ?thesis using WRecv assms k up [of "WRun (fst j) (snd j)" 8]
        by (cases j) (auto simp: worker_step_def pool_left_def)
    qed
  next
    case (WRun i x)
    with assms k up [of "case f x of None \<Rightarrow> WGone | Some r \<Rightarrow> WSend i r" 0] show ?thesis
      by (auto simp: worker_step_def pool_left_def split: option.splits)
  next
    case (WSend i r)
    have "sum_list (map worker_left ((po_workers s)[k := WLock])) + 6 = sum_list (map worker_left (po_workers s)) + 2"
      using sum_list_update_cancel [OF k, of worker_left WLock] WSend by simp
    with WSend assms k show ?thesis by (auto simp: worker_step_def pool_left_def split: if_splits)
  next
    case WGone
    with assms k show ?thesis by (simp add: worker_step_def)
  qed
qed

lemma main_step_left:
  assumes "main_step xs n s = Some s'" and "pool_shape xs n s"
  shows "pool_left xs n s' < pool_left xs n s"
  using assms
  by (cases "po_main s")
    (auto simp: main_step_def send_next_def pool_left_def pool_shape_def split: if_splits list.splits)

lemma pool_step_left:
  assumes "pool_step f xs n s s'" and "pool_inv f xs n s"
  shows "pool_left xs n s' < pool_left xs n s"
  using assms(1)
proof (cases rule: pool_step.cases)
  case (thread t)
  with assms(2) show ?thesis
    by (cases t) (auto simp: pool_inv_def intro: worker_step_left main_step_left)
qed

lemma pool_init_left: "pool_left xs n (pool_init xs n) = 10 * length xs + 3 * n + 4"
  by (simp add: pool_left_def pool_init_def sum_list_replicate)

text \<open>A run of \<open>k\<close> steps has used up at least \<open>k\<close> of what was left at the start.\<close>

lemma pool_run_bounded:
  assumes "(pool_step f xs n ^^ k) (pool_init xs n) s" and "1 \<le> n" and "n \<le> length xs"
    and "\<forall>x \<in> set xs. f x \<noteq> None"
  shows "pool_inv f xs n s" and "k + pool_left xs n s \<le> 10 * length xs + 3 * n + 4"
proof -
  have "pool_inv f xs n s \<and> k + pool_left xs n s \<le> 10 * length xs + 3 * n + 4"
    using assms(1)
  proof (induction k arbitrary: s)
    case 0
    then have "s = pool_init xs n" by simp
    with pool_init_inv [OF assms(3), of f] show ?case by (simp add: pool_init_left)
  next
    case (Suc k)
    from Suc.prems obtain r where r: "(pool_step f xs n ^^ k) (pool_init xs n) r" "pool_step f xs n r s" by auto
    with Suc.IH have "pool_inv f xs n r" "k + pool_left xs n r \<le> 10 * length xs + 3 * n + 4" by blast+
    with pool_step_inv [OF this(1) r(2) assms(2-4)] pool_step_left [OF r(2) this(1)] show ?case by simp
  qed
  then show "pool_inv f xs n s" and "k + pool_left xs n s \<le> 10 * length xs + 3 * n + 4" by blast+
qed

lemma not_stuck_step: "\<not> pool_stuck f xs n s \<Longrightarrow> \<exists>s'. pool_step f xs n s s'"
  by (auto simp: pool_stuck_def intro: pool_step.thread)

lemma pool_reaches_end:
  assumes "pool_inv f xs n s" and "1 \<le> n" and "n \<le> length xs" and "\<forall>x \<in> set xs. f x \<noteq> None"
  shows "\<exists>t. (pool_step f xs n)\<^sup>*\<^sup>* s t \<and> po_main t = MDone"
  using assms(1)
proof (induction "pool_left xs n s" arbitrary: s rule: less_induct)
  case less
  show ?case
  proof (cases "pool_stuck f xs n s")
    case True
    with less.prems assms show ?thesis using pool_progress by blast
  next
    case False
    then obtain s' where s': "pool_step f xs n s s'" using not_stuck_step by blast
    with less.prems assms have "pool_inv f xs n s'" "pool_left xs n s' < pool_left xs n s"
      by (blast intro: pool_step_inv pool_step_left)+
    with less.hyps obtain t where "(pool_step f xs n)\<^sup>*\<^sup>* s' t" "po_main t = MDone" by blast
    with s' show ?thesis by (blast intro: converse_rtranclp_into_rtranclp)
  qed
qed

lemma done_result:
  assumes "pool_inv f xs n s" and "po_main s = MDone"
  shows "pool_result s = Some (map (the \<circ> f) xs)"
  using assms by (intro finished_result) (simp_all add: pool_inv_def pool_shape_def)

lemma those_map_total: "\<forall>x \<in> set xs. f x \<noteq> None \<Longrightarrow> those (map f xs) = Some (map (the \<circ> f) xs)"
  by (induction xs) auto

lemma run_parallel_ordered_total:
  assumes "\<forall>x \<in> set xs. f x \<noteq> None"
  shows "run_parallel_ordered f xs m out \<longleftrightarrow> out = Some (map (the \<circ> f) xs)"
proof
  assume "run_parallel_ordered f xs m out"
  then show "out = Some (map (the \<circ> f) xs)"
  proof cases
    case (pooled n s)
    have n: "1 \<le> n" "n \<le> length xs"
      using pooled(2,3) clamp_bounds [of 1 "length xs" m] by (cases xs; simp)+
    from pool_reachable_inv [OF pooled(6) n assms] pooled(1,7) show ?thesis by (simp add: done_result)
  qed (simp_all add: those_map_total [OF assms])
next
  assume out: "out = Some (map (the \<circ> f) xs)"
  let ?n = "clamp 1 (length xs) m"
  show "run_parallel_ordered f xs m out"
  proof (cases "xs = [] \<or> ?n = 1 \<or> length xs = 1")
    case True
    with out those_map_total [OF assms] show ?thesis
      by (cases "xs = []") (auto intro: run_parallel_ordered.no_items dest: run_parallel_ordered.sequential [of xs m f])
  next
    case False
    then have n: "1 \<le> ?n" "?n \<le> length xs"
      using clamp_bounds [of 1 "length xs" m] by (cases xs; simp)+
    from pool_reaches_end [OF pool_init_inv [OF n(2)] n assms] obtain t where
      t: "(pool_step f xs ?n)\<^sup>*\<^sup>* (pool_init xs ?n) t" "po_main t = MDone" by blast
    from run_parallel_ordered.pooled [of xs ?n m f t] t False have "run_parallel_ordered f xs m (pool_result t)"
      by blast
    moreover have "pool_result t = out"
      unfolding out by (rule done_result [OF pool_reachable_inv [OF t(1) n assms] t(2)])
    ultimately show ?thesis by simp
  qed
qed

section \<open>A panic in the closure\<close>

text \<open>A run along a list of threads.\<close>

fun pool_sched ::
    "('a \<Rightarrow> 'r option) \<Rightarrow> 'a list \<Rightarrow> nat \<Rightarrow> pool_thread list \<Rightarrow> ('a, 'r) pool \<Rightarrow> ('a, 'r) pool option" where
  "pool_sched f xs n [] s = Some s"
| "pool_sched f xs n (t # ts) s = Option.bind (pool_act f xs n t s) (pool_sched f xs n ts)"

lemma pool_sched_reaches:
  "pool_sched f xs n ts s = Some t \<Longrightarrow> (pool_step f xs n)\<^sup>*\<^sup>* s t"
proof (induction ts arbitrary: s)
  case (Cons u ts)
  then obtain s' where "pool_act f xs n u s = Some s'" "(pool_step f xs n)\<^sup>*\<^sup>* s' t"
    by (auto simp: bind_eq_Some_conv)
  then show ?case by (blast intro: converse_rtranclp_into_rtranclp pool_step.thread)
qed simp

definition panic_schedule :: "pool_thread list" where
  "panic_schedule = [MainThread, MainThread, MainThread,
     WorkerThread 0, WorkerThread 0, WorkerThread 0,
     WorkerThread 1, WorkerThread 1, WorkerThread 1, WorkerThread 1, MainThread, WorkerThread 1]"

text \<open>Where the main thread waits for a result and the surviving worker for a job.\<close>

definition waiting_pool :: "'r \<Rightarrow> ('a, 'r) pool" where
  "waiting_pool r = \<lparr>po_jobs = [], po_queue = [], po_workers = [WGone, WRecv], po_main = MRecv, po_next = 2,
     po_results = [None, Some r], po_completed = 1\<rparr>"

lemma panic_schedule_runs:
  assumes "f x = None" and "f y = Some r"
  shows "pool_sched f [x, y] 2 panic_schedule (pool_init [x, y] 2) = Some (waiting_pool r)"
  using assms
  by (simp add: panic_schedule_def pool_init_def waiting_pool_def main_step_def send_next_def worker_step_def
      numeral_2_eq_2)

lemma waiting_pool_stuck: "pool_stuck f [x, y] 2 (waiting_pool r)"
proof -
  have "worker_step f 2 k (waiting_pool r) = None" for k
    by (cases k) (simp_all add: worker_step_def waiting_pool_def nth_Cons split: nat.split)
  moreover have "main_step [x, y] 2 (waiting_pool r) = None"
    by (simp add: main_step_def waiting_pool_def)
  ultimately show ?thesis
    unfolding pool_stuck_def by (metis pool_act.simps pool_thread.exhaust)
qed

end
