(* ===== verification/Runtime_Policy.thy ===== *)
theory Runtime_Policy
  imports Runtime_Env
begin

text \<open>
  The runtime gate, vegvisir/src/policy.rs: the second check of a tool call, by the policy of
  the active agent and the constraints of its USRL contracts. It works on a summary of the
  arguments. The event it logs is part of its result.
\<close>

record runtime_policy =
  rp_active_agent_id :: "string option"
  rp_active_agent_mode :: "string option"
  rp_allowed_tools :: "string list"
  rp_usrl_contracts :: "string list"
  rp_usrl_rules :: "string list"
  rp_usrl_constraints :: "string list"
  rp_usrl_stages :: "string list"
  rp_usrl_triggers :: "string list"
  rp_strict_usrl :: bool

record tool_metadata =
  tm_risky :: bool
  tm_safety_labels :: "string list"

record gate_request =
  gr_operation :: string
  gr_target :: string
  gr_args_summary :: json
  gr_tool_metadata :: "tool_metadata option"

record gate_decision =
  gd_allowed :: bool
  gd_reason :: string
  gd_contract_id :: "string option"
  gd_audit_metadata :: json

definition runtime_policy_default :: runtime_policy where
  "runtime_policy_default =
     \<lparr>rp_active_agent_id = None, rp_active_agent_mode = None, rp_allowed_tools = [], rp_usrl_contracts = [],
      rp_usrl_rules = [], rp_usrl_constraints = [], rp_usrl_stages = [], rp_usrl_triggers = [],
      rp_strict_usrl = False\<rparr>"

section \<open>Reading the arguments\<close>

definition legacy_risky_operation :: "string \<Rightarrow> bool" where
  "legacy_risky_operation operation = (operation \<in>
     {''write_file'', ''run_command'', ''run_privileged_command'', ''mcp_tool_call'', ''spawn_subagent'',
      ''cms_writeback''})"

text \<open>The first of the keys that holds a string decides, blank or not.\<close>

definition string_field :: "json \<Rightarrow> string list \<Rightarrow> string option" where
  "string_field v keys =
     Option.bind (as_object v) (\<lambda>m.
     Option.bind (Option.bind (find (\<lambda>k. Option.bind (tbl_get k m) as_str \<noteq> None) keys)
                    (\<lambda>k. Option.bind (tbl_get k m) as_str))
       (\<lambda>s. if trim s = [] then None else Some s))"

definition secret_needles :: "string list" where
  "secret_needles = [''api_key='', ''apikey='', ''access_token='', ''auth_token='', ''bearer '', ''password='',
     ''secret='', ''token='', ''sk-'']"

fun value_contains_secret :: "json \<Rightarrow> bool" where
  "value_contains_secret (JStr s) = list_ex (\<lambda>needle. str_contains needle (to_ascii_lowercase s)) secret_needles"
| "value_contains_secret (JArr xs) = list_ex value_contains_secret xs"
| "value_contains_secret (JObj m) = list_ex (\<lambda>e. value_contains_secret (snd e)) m"
| "value_contains_secret _ = False"

definition tool_allowed :: "string list \<Rightarrow> string \<Rightarrow> bool" where
  "tool_allowed allowed_tools target =
     list_ex (\<lambda>a. a = ''*'' \<or> a = target \<or> starts_with (a @ ''::'') target) allowed_tools"

definition summarize_value :: "json \<Rightarrow> json" where
  "summarize_value v = (case v of
     JStr s \<Rightarrow> if length s > 160 then JStr (take_chars 160 s @ ''...'') else v
   | JArr xs \<Rightarrow> if length xs > 8 then JStr (''array(len='' @ show_nat (length xs) @ '')'') else v
   | JObj m \<Rightarrow> if length m > 8 then JStr (''object(len='' @ show_nat (length m) @ '')'') else v
   | _ \<Rightarrow> v)"

definition summarize_args :: "json table \<Rightarrow> json" where
  "summarize_args args = JObj (tbl_map summarize_value args)"

section \<open>The gate\<close>

definition metadata_json :: "tool_metadata \<Rightarrow> json" where
  "metadata_json m = json_obj [(''risky'', JBool (tm_risky m)), (''safety_labels'', json_strs (tm_safety_labels m))]"

definition request_fields :: "runtime_policy \<Rightarrow> gate_request \<Rightarrow> (string \<times> json) list" where
  "request_fields P q =
     [(''agent_id'', json_opt JStr (rp_active_agent_id P)), (''agent_mode'', json_opt JStr (rp_active_agent_mode P)),
      (''operation'', JStr (gr_operation q)), (''target'', JStr (gr_target q)),
      (''args_summary'', gr_args_summary q), (''tool_metadata'', json_opt metadata_json (gr_tool_metadata q)),
      (''strict_usrl'', JBool (rp_strict_usrl P))]"

definition gate_audit_metadata :: "runtime_policy \<Rightarrow> gate_request \<Rightarrow> json \<Rightarrow> json" where
  "gate_audit_metadata P q extra =
     json_obj (request_fields P q @ [(''usrl_contracts'', json_strs (rp_usrl_contracts P)), (''extra'', extra)])"

definition usrl_fields :: "runtime_policy \<Rightarrow> string \<Rightarrow> json" where
  "usrl_fields P decision =
     json_obj [(''decision'', JStr decision), (''usrl_rules'', json_strs (rp_usrl_rules P)),
       (''usrl_constraints'', json_strs (rp_usrl_constraints P)), (''usrl_stages'', json_strs (rp_usrl_stages P)),
       (''usrl_triggers'', json_strs (rp_usrl_triggers P))]"

text \<open>The closure \<open>has\<close>: some line of the contract contains one of the words.\<close>

definition contract_has :: "runtime_policy \<Rightarrow> string list \<Rightarrow> bool" where
  "contract_has P needles =
     list_ex (\<lambda>item. list_ex (\<lambda>needle. str_contains needle (to_ascii_lowercase item)) needles)
       (rp_usrl_constraints P @ rp_usrl_rules P @ rp_usrl_stages P @ rp_usrl_triggers P)"

definition denied :: "string \<Rightarrow> string option" where
  "denied what = Some (''USRL contract denied operation: '' @ what)"

definition stage_denial :: "runtime_policy \<Rightarrow> gate_request \<Rightarrow> string option" where
  "stage_denial P q =
     (if \<not> contract_has P [''require_stage'', ''stage_required'', ''staged_execution''] then None
      else case string_field (gr_args_summary q) [''usrl_stage'', ''stage''] of
        None \<Rightarrow> denied ''stage evidence is required''
      | Some stage \<Rightarrow>
        if rp_usrl_stages P \<noteq> [] \<and>
           \<not> list_ex (\<lambda>allowed. eq_ignore_ascii_case allowed stage) (rp_usrl_stages P)
        then denied (''stage `'' @ stage @ ''` is not in contract stages'') else None)"

definition evidence_keys :: "string list" where
  "evidence_keys = [''evidence'', ''justification'', ''reason'', ''verification'']"

definition evaluate_usrl_constraints :: "runtime_policy \<Rightarrow> gate_request \<Rightarrow> string option" where
  "evaluate_usrl_constraints P q =
     (if contract_has P [''no_secret'', ''no secrets'', ''secret_output'', ''no_secret_output''] \<and>
         value_contains_secret (gr_args_summary q)
      then denied ''secret-like argument violates no-secret constraint''
      else case stage_denial P q of
        Some reason \<Rightarrow> Some reason
      | None \<Rightarrow>
        if contract_has P [''require_evidence'', ''evidence_required'', ''required_evidence''] \<and>
           string_field (gr_args_summary q) evidence_keys = None
        then denied ''evidence or justification is required''
        else if gr_operation q \<in> {''run_command'', ''run_privileged_command''} \<and>
                contract_has P [''no_command'', ''no_shell'', ''no_exec'']
        then denied ''command execution is forbidden''
        else if gr_operation q = ''write_file'' \<and> contract_has P [''read_only'', ''no_write'', ''no_modify'']
        then denied ''writes are forbidden''
        else if starts_with ''mcp::'' (gr_operation q) \<and> contract_has P [''no_external'', ''no_network'', ''no_mcp'']
        then denied ''external tool access is forbidden''
        else None)"

definition request_risky :: "gate_request \<Rightarrow> bool" where
  "request_risky q =
     (case gr_tool_metadata q of Some m \<Rightarrow> tm_risky m | None \<Rightarrow> legacy_risky_operation (gr_operation q))"

definition missing_contract :: string where
  "missing_contract = ''risky operation requires an active USRL contract''"

definition gate :: "runtime_policy \<Rightarrow> gate_request \<Rightarrow> gate_decision" where
  "gate P q =
     (let contract_id = (case rp_usrl_contracts P of [] \<Rightarrow> None | c # _ \<Rightarrow> Some c);
          risky = request_risky q;
          denial = (if risky \<and> contract_id \<noteq> None then evaluate_usrl_constraints P q else None)
      in if rp_allowed_tools P \<noteq> [] \<and> \<not> tool_allowed (rp_allowed_tools P) (gr_target q)
         then \<lparr>gd_allowed = False, gd_reason = ''tool is not enabled for active agent: '' @ gr_target q,
               gd_contract_id = contract_id,
               gd_audit_metadata = json_obj (request_fields P q @ [(''allowed_tools'', json_strs (rp_allowed_tools P))])\<rparr>
         else if rp_strict_usrl P \<and> risky \<and> contract_id = None
         then \<lparr>gd_allowed = False, gd_reason = missing_contract, gd_contract_id = contract_id,
               gd_audit_metadata = gate_audit_metadata P q (json_obj [(''decision'', JStr ''missing_contract'')])\<rparr>
         else case denial of
           Some reason \<Rightarrow> \<lparr>gd_allowed = False, gd_reason = reason, gd_contract_id = contract_id,
               gd_audit_metadata = gate_audit_metadata P q (usrl_fields P ''contract_denied'')\<rparr>
         | None \<Rightarrow>
           let allowed = (\<not> rp_strict_usrl P \<or> \<not> risky \<or> contract_id \<noteq> None)
           in \<lparr>gd_allowed = allowed,
               gd_reason = (if allowed
                 then (case contract_id of
                         Some c \<Rightarrow> ''allowed by USRL contract '' @ c @ ''; constraints evaluated''
                       | None \<Rightarrow> ''allowed by default runtime policy'')
                 else missing_contract),
               gd_contract_id = contract_id,
               gd_audit_metadata = gate_audit_metadata P q (usrl_fields P ''allowed'')\<rparr>)"

definition authorize_tool_with_metadata ::
    "runtime_policy \<Rightarrow> string \<Rightarrow> json table \<Rightarrow> tool_metadata \<Rightarrow> (string + gate_decision) \<times> gate_decision" where
  "authorize_tool_with_metadata P tool_name args metadata =
     (let d = gate P \<lparr>gr_operation = tool_name, gr_target = tool_name, gr_args_summary = summarize_args args,
                       gr_tool_metadata = Some metadata\<rparr>
      in (if gd_allowed d then Ok d else Err (gd_reason d), d))"

definition gate_tool :: "runtime_policy \<Rightarrow> string \<Rightarrow> json table \<Rightarrow> (string + gate_decision) \<times> gate_decision" where
  "gate_tool P tool_name args =
     authorize_tool_with_metadata P tool_name args
       \<lparr>tm_risky = legacy_risky_operation tool_name, tm_safety_labels = []\<rparr>"

section \<open>What the gate decides\<close>

text \<open>A tool passes where it is enabled and, if risky, no contract forbids it and a strict policy has one.\<close>

definition gate_permits :: "runtime_policy \<Rightarrow> gate_request \<Rightarrow> bool" where
  "gate_permits P q \<longleftrightarrow>
     (rp_allowed_tools P = [] \<or> tool_allowed (rp_allowed_tools P) (gr_target q)) \<and>
     (\<not> request_risky q \<or>
      (if rp_usrl_contracts P = [] then \<not> rp_strict_usrl P else evaluate_usrl_constraints P q = None))"

lemma gate_allowed_iff: "gd_allowed (gate P q) \<longleftrightarrow> gate_permits P q"
  by (cases "rp_usrl_contracts P"; cases "evaluate_usrl_constraints P q")
    (auto simp: gate_def gate_permits_def Let_def)

lemma authorize_with_metadata_Ok:
  "is_ok (fst (authorize_tool_with_metadata P n args m)) \<longleftrightarrow>
     gate_permits P \<lparr>gr_operation = n, gr_target = n, gr_args_summary = summarize_args args, gr_tool_metadata = Some m\<rparr>"
  by (simp add: authorize_tool_with_metadata_def Let_def gate_allowed_iff)

section \<open>What the summary hides\<close>

lemma take_chars_prefix:
  assumes "chars_count p = n" and "s \<noteq> []" and "\<not> is_cont (hd s)"
  shows "take_chars n (p @ s) = p"
  using assms
proof (induction p arbitrary: n)
  case Nil
  then show ?case by (cases s) (simp_all add: chars_count_def)
next
  case (Cons c p)
  then show ?case by (cases "is_cont c"; cases n) (auto simp: chars_count_def)
qed

lemma chars_count_le: "chars_count s \<le> length s"
  by (simp add: chars_count_def)

text \<open>Nothing after the first 160 characters of a string, and nothing in a long array, is looked at.\<close>

lemma summary_hides_tail:
  assumes "chars_count p = 160" and "s \<noteq> []" and "\<not> is_cont (hd s)"
  shows "summarize_value (JStr (p @ s)) = JStr (p @ ''...'')"
proof -
  have "length (p @ s) > 160" using chars_count_le [of p] assms(1,2) by (cases s) auto
  with take_chars_prefix [OF assms] show ?thesis by (simp add: summarize_value_def)
qed


end
