(* ===== verification/Tool_Schema.thy ===== *)
theory Tool_Schema
  imports Runtime_Env
begin

text \<open>
  The JSON-schema check of tool arguments, vegvisir/src/tools.rs. The validators call each
  other; here each of the partial ones takes the validator of sub-schemas as its argument
  \<open>sub\<close>, and \<open>validate_json_schema_value\<close> passes itself. It ends because every schema it is
  called on is smaller.

  The \<open>f64\<close> of a number is a parameter with its order; a \<open>JFloat\<close> carries the shortest text of
  a float, so that equal floats are equal texts.
\<close>

record 'f schema_env =
  se_f64 :: "json \<Rightarrow> 'f option"
  se_f64_text :: "'f \<Rightarrow> string"
  se_json_text :: "json \<Rightarrow> string"

section \<open>Access to values\<close>

fun as_u64 :: "json \<Rightarrow> nat option" where
  "as_u64 (JInt i) = (if 0 \<le> i \<and> i < 2 ^ 64 then Some (nat i) else None)"
| "as_u64 _ = None"

fun is_integer_value :: "json \<Rightarrow> bool" where
  "is_integer_value (JInt i) = True"
| "is_integer_value _ = False"

fun is_number_value :: "json \<Rightarrow> bool" where
  "is_number_value (JInt i) = True"
| "is_number_value (JFloat f) = True"
| "is_number_value _ = False"

fun as_bool :: "json \<Rightarrow> bool option" where
  "as_bool (JBool b) = Some b"
| "as_bool _ = None"

text \<open>A loop whose body may fail with \<open>?\<close>.\<close>

definition check_all :: "('a \<Rightarrow> string + unit) \<Rightarrow> 'a list \<Rightarrow> string + unit" where
  "check_all f xs = res_bind (res_map f xs) (\<lambda>_. Ok ())"

lemma check_all_cong [fundef_cong]:
  "xs = ys \<Longrightarrow> (\<And>x. x \<in> set ys \<Longrightarrow> f x = g x) \<Longrightarrow> check_all f xs = check_all g ys"
  unfolding check_all_def by (metis res_map_cong)

lemma check_all_ok [simp]: "is_ok (check_all f xs) \<longleftrightarrow> (\<forall>x \<in> set xs. is_ok (f x))"
proof -
  have "is_ok (res_map f xs) \<longleftrightarrow> (\<forall>x \<in> set xs. is_ok (f x))"
  proof (induction xs)
    case (Cons x xs)
    then show ?case by (cases "f x"; cases "res_map f xs") simp_all
  qed simp
  then show ?thesis by (cases "res_map f xs") (simp_all add: check_all_def)
qed

lemma bind_ok [simp]: "is_ok (res_bind r (\<lambda>u::unit. q)) \<longleftrightarrow> is_ok r \<and> is_ok q"
  by (cases r) simp_all

lemma bind_Ok_id [simp]: "res_bind r Ok = r"
  by (cases r) simp_all

lemma json_size_arr: "x \<in> set xs \<Longrightarrow> size x < size (JArr xs)"
  by (induction xs) auto

lemma json_size_obj: "(k, v) \<in> set m \<Longrightarrow> size v < size (JObj m)"
  by (induction m) auto

lemma json_size_get: "tbl_get k m = Some v \<Longrightarrow> size v < size (JObj m)"
  using tbl_get_set json_size_obj by fastforce

section \<open>The constraints\<close>

type_synonym sub_validator = "string \<Rightarrow> json \<Rightarrow> json \<Rightarrow> string + unit"

definition schema_require :: "bool \<Rightarrow> string \<Rightarrow> string + unit" where
  "schema_require b message = (if b then Ok () else Err message)"

lemma schema_require_ok [simp]: "is_ok (schema_require b m) = b"
  by (simp add: schema_require_def)

definition type_matches :: "json \<Rightarrow> string \<Rightarrow> bool" where
  "type_matches v expected =
     (if expected = ''string'' then as_str v \<noteq> None
      else if expected = ''integer'' then is_integer_value v
      else if expected = ''number'' then is_number_value v
      else if expected = ''boolean'' \<or> expected = ''bool'' then as_bool v \<noteq> None
      else if expected = ''array'' then as_array v \<noteq> None
      else if expected = ''object'' then as_object v \<noteq> None
      else if expected = ''null'' then v = JNull
      else True)"

definition validate_schema_type :: "string \<Rightarrow> string \<Rightarrow> json \<Rightarrow> string \<Rightarrow> string + unit" where
  "validate_schema_type tool_name path v expected =
     schema_require (type_matches v expected)
       (path @ '' must be '' @
        (if expected \<in> {''array'', ''object'', ''integer''} then ''an'' else ''a'') @ '' '' @ expected @
        '' for '' @ tool_name)"

definition schema_array :: "string \<Rightarrow> json table \<Rightarrow> json list option" where
  "schema_array key object = Option.bind (tbl_get key object) as_array"

definition combinator_keys :: "string list" where
  "combinator_keys = [''allOf'', ''anyOf'', ''oneOf'']"

definition validate_any_of :: "string \<Rightarrow> string \<Rightarrow> (string + unit) list \<Rightarrow> string + unit" where
  "validate_any_of tool_name path results =
     schema_require (list_ex is_ok results)
       (path @ '' must match at least one anyOf schema for '' @ tool_name @ '': '' @
        join_with ''; '' (List.map_filter (\<lambda>r. case r of Err e \<Rightarrow> Some e | Ok _ \<Rightarrow> None) results))"

definition validate_one_of :: "string \<Rightarrow> string \<Rightarrow> (string + unit) list \<Rightarrow> string + unit" where
  "validate_one_of tool_name path results =
     (let matches = length (filter is_ok results)
      in schema_require (matches = 1)
           (path @ '' must match exactly one oneOf schema for '' @ tool_name @ ''; matched '' @ show_nat matches))"

definition only_combinators :: "json table \<Rightarrow> bool" where
  "only_combinators object \<longleftrightarrow>
     (\<forall>key \<in> set (map fst object). key \<in> set combinator_keys \<union> {''description'', ''title''}) \<and>
     (\<exists>key \<in> set combinator_keys. tbl_has key object)"

text \<open>A match of \<open>anyOf\<close> returns from the function, before \<open>oneOf\<close> is looked at.\<close>

definition validate_schema_combinators ::
    "sub_validator \<Rightarrow> string \<Rightarrow> string \<Rightarrow> json \<Rightarrow> json table \<Rightarrow> string + unit" where
  "validate_schema_combinators sub tool_name path v object =
     res_bind (case schema_array ''allOf'' object of
         None \<Rightarrow> Ok ()
       | Some branches \<Rightarrow> check_all (\<lambda>b. sub path v b) branches) (\<lambda>_.
     case schema_array ''anyOf'' object of
       Some branches \<Rightarrow> validate_any_of tool_name path (map (\<lambda>b. sub path v b) branches)
     | None \<Rightarrow>
       res_bind (case schema_array ''oneOf'' object of
           None \<Rightarrow> Ok ()
         | Some branches \<Rightarrow> validate_one_of tool_name path (map (\<lambda>b. sub path v b) branches)) (\<lambda>_.
       if only_combinators object then sub path v (JObj []) else Ok ()))"

definition validate_schema_enum ::
    "'f schema_env \<Rightarrow> string \<Rightarrow> string \<Rightarrow> json \<Rightarrow> json table \<Rightarrow> string + unit" where
  "validate_schema_enum S tool_name path v object =
     (case schema_array ''enum'' object of
       None \<Rightarrow> Ok ()
     | Some allowed \<Rightarrow>
       schema_require (v \<in> set allowed)
         (path @ '' must be one of ['' @ join_with '', '' (map (se_json_text S) allowed) @ ''] for '' @ tool_name))"

definition validate_schema_type_constraints ::
    "string \<Rightarrow> string \<Rightarrow> json \<Rightarrow> json table \<Rightarrow> string + unit" where
  "validate_schema_type_constraints tool_name path v object =
     (case tbl_get ''type'' object of
       None \<Rightarrow> Ok ()
     | Some type_spec \<Rightarrow>
       (case as_str type_spec of
         Some expected \<Rightarrow> validate_schema_type tool_name path v expected
       | None \<Rightarrow>
         (case as_array type_spec of
           None \<Rightarrow> Ok ()
         | Some types \<Rightarrow>
           let labels = List.map_filter as_str types
           in schema_require (list_ex (type_matches v) labels)
             (path @ '' must be '' @ join_with '' or '' labels @ '' for '' @ tool_name))))"

definition schema_keywords :: "string list" where
  "schema_keywords =
     [''type'', ''required'', ''properties'', ''additionalProperties'', ''items'', ''enum'', ''oneOf'', ''anyOf'',
      ''allOf'', ''minimum'', ''maximum'', ''exclusiveMinimum'', ''exclusiveMaximum'', ''minLength'', ''maxLength'',
      ''minItems'', ''maxItems'', ''minProperties'', ''maxProperties'', ''description'', ''title'']"

definition shorthand_properties :: "json table \<Rightarrow> json table option" where
  "shorthand_properties object =
     (if \<exists>key \<in> set (map fst object). key \<in> set schema_keywords then None else Some object)"

definition schema_properties :: "json table \<Rightarrow> json table option" where
  "schema_properties object =
     (case Option.bind (tbl_get ''properties'' object) as_object of
        Some properties \<Rightarrow> Some properties
      | None \<Rightarrow> shorthand_properties object)"

definition schema_required :: "json table \<Rightarrow> string list" where
  "schema_required object =
     (case schema_array ''required'' object of None \<Rightarrow> [] | Some keys \<Rightarrow> List.map_filter as_str keys)"

text \<open>An argument the properties do not list.\<close>

definition validate_additional ::
    "sub_validator \<Rightarrow> string \<Rightarrow> string \<Rightarrow> string \<Rightarrow> json \<Rightarrow> json table \<Rightarrow> string + unit" where
  "validate_additional sub tool_name path key child object =
     (case tbl_get ''additionalProperties'' object of
        None \<Rightarrow> Ok ()
      | Some extra \<Rightarrow>
        if extra = JBool False
        then Err (path @ ''.'' @ key @ '' is not an allowed argument for '' @ tool_name)
        else if as_object extra \<noteq> None then sub (path @ ''.'' @ key) child extra
        else Ok ())"

definition validate_count ::
    "json table \<Rightarrow> string \<Rightarrow> (nat \<Rightarrow> bool) \<Rightarrow> (nat \<Rightarrow> string) \<Rightarrow> string + unit" where
  "validate_count object key holds message =
     (case Option.bind (tbl_get key object) as_u64 of
        None \<Rightarrow> Ok ()
      | Some n \<Rightarrow> schema_require (holds n) (message n))"

definition validate_properties ::
    "sub_validator \<Rightarrow> string \<Rightarrow> string \<Rightarrow> json table \<Rightarrow> json table \<Rightarrow> string + unit" where
  "validate_properties sub tool_name path actual object =
     (case schema_properties object of
        None \<Rightarrow> Ok ()
      | Some ps \<Rightarrow> check_all (\<lambda>e. case tbl_get (fst e) ps of
          Some child_schema \<Rightarrow> sub (path @ ''.'' @ fst e) (snd e) child_schema
        | None \<Rightarrow> validate_additional sub tool_name path (fst e) (snd e) object) actual)"

definition validate_schema_object_constraints ::
    "sub_validator \<Rightarrow> string \<Rightarrow> string \<Rightarrow> json \<Rightarrow> json table \<Rightarrow> string + unit" where
  "validate_schema_object_constraints sub tool_name path v object =
     (let required = schema_required object
      in if schema_properties object = None \<and> required = [] \<and> \<not> tbl_has ''additionalProperties'' object then Ok ()
         else case as_object v of
           None \<Rightarrow> Err (path @ '' must be an object for '' @ tool_name)
         | Some actual \<Rightarrow>
           res_bind (check_all (\<lambda>key. schema_require (tbl_has key actual)
               (if path = tool_name then ''Missing required argument for '' @ tool_name @ '': '' @ key
                else path @ ''.'' @ key @ '' is required for '' @ tool_name)) required) (\<lambda>_.
           res_bind (validate_properties sub tool_name path actual object) (\<lambda>_.
           res_bind (validate_count object ''minProperties'' (\<lambda>n. length actual \<ge> n) (\<lambda>n.
               path @ '' must have at least '' @ show_nat n @ '' properties for '' @ tool_name)) (\<lambda>_.
           validate_count object ''maxProperties'' (\<lambda>n. length actual \<le> n) (\<lambda>n.
               path @ '' must have at most '' @ show_nat n @ '' properties for '' @ tool_name)))))"

definition index_path :: "string \<Rightarrow> nat \<Rightarrow> string" where
  "index_path path i = path @ ''['' @ show_nat i @ '']''"

text \<open>A list of schemas is for the items at its positions; another schema is for all items.\<close>

definition validate_items :: "sub_validator \<Rightarrow> string \<Rightarrow> json list \<Rightarrow> json table \<Rightarrow> string + unit" where
  "validate_items sub path items object =
     (case tbl_get ''items'' object of
        None \<Rightarrow> Ok ()
      | Some item_schema \<Rightarrow>
        (case as_array item_schema of
           Some tuple_schemas \<Rightarrow>
             check_all (\<lambda>e. sub (index_path path (fst e)) (fst (snd e)) (snd (snd e)))
               (zip [0..<length tuple_schemas] (zip items tuple_schemas))
         | None \<Rightarrow>
             check_all (\<lambda>e. sub (index_path path (fst e)) (snd e) item_schema) (enumerate 0 items)))"

definition validate_schema_array_constraints ::
    "sub_validator \<Rightarrow> string \<Rightarrow> string \<Rightarrow> json \<Rightarrow> json table \<Rightarrow> string + unit" where
  "validate_schema_array_constraints sub tool_name path v object =
     (if \<not> tbl_has ''items'' object \<and> \<not> tbl_has ''minItems'' object \<and> \<not> tbl_has ''maxItems'' object then Ok ()
      else case as_array v of
        None \<Rightarrow> Err (path @ '' must be an array for '' @ tool_name)
      | Some items \<Rightarrow>
        res_bind (validate_count object ''minItems'' (\<lambda>n. length items \<ge> n) (\<lambda>n.
            path @ '' must contain at least '' @ show_nat n @ '' item(s) for '' @ tool_name)) (\<lambda>_.
        res_bind (validate_count object ''maxItems'' (\<lambda>n. length items \<le> n) (\<lambda>n.
            path @ '' must contain at most '' @ show_nat n @ '' item(s) for '' @ tool_name)) (\<lambda>_.
        validate_items sub path items object)))"

definition validate_schema_string_constraints ::
    "string \<Rightarrow> string \<Rightarrow> json \<Rightarrow> json table \<Rightarrow> string + unit" where
  "validate_schema_string_constraints tool_name path v object =
     (if \<not> tbl_has ''minLength'' object \<and> \<not> tbl_has ''maxLength'' object \<and> \<not> tbl_has ''pattern'' object then Ok ()
      else case as_str v of
        None \<Rightarrow> Err (path @ '' must be a string for '' @ tool_name)
      | Some s \<Rightarrow>
        res_bind (validate_count object ''minLength'' (\<lambda>n. chars_count s \<ge> n) (\<lambda>n.
            path @ '' must be at least '' @ show_nat n @ '' character(s) for '' @ tool_name)) (\<lambda>_.
        validate_count object ''maxLength'' (\<lambda>n. chars_count s \<le> n) (\<lambda>n.
            path @ '' must be at most '' @ show_nat n @ '' character(s) for '' @ tool_name)))"

definition validate_limit ::
    "'f schema_env \<Rightarrow> json table \<Rightarrow> string \<Rightarrow> ('f \<Rightarrow> bool) \<Rightarrow> (string \<Rightarrow> string) \<Rightarrow> string + unit" where
  "validate_limit S object key holds message =
     (case Option.bind (tbl_get key object) (se_f64 S) of
        None \<Rightarrow> Ok ()
      | Some limit \<Rightarrow> schema_require (holds limit) (message (se_f64_text S limit)))"

definition validate_schema_number_constraints ::
    "'f::linorder schema_env \<Rightarrow> string \<Rightarrow> string \<Rightarrow> json \<Rightarrow> json table \<Rightarrow> string + unit" where
  "validate_schema_number_constraints S tool_name path v object =
     (if \<forall>key \<in> {''minimum'', ''maximum'', ''exclusiveMinimum'', ''exclusiveMaximum''}. \<not> tbl_has key object
      then Ok ()
      else case se_f64 S v of
        None \<Rightarrow> Err (path @ '' must be a number for '' @ tool_name)
      | Some x \<Rightarrow>
        res_bind (validate_limit S object ''minimum'' (\<lambda>l. l \<le> x)
            (\<lambda>l. path @ '' must be >= '' @ l @ '' for '' @ tool_name)) (\<lambda>_.
        res_bind (validate_limit S object ''maximum'' (\<lambda>l. x \<le> l)
            (\<lambda>l. path @ '' must be <= '' @ l @ '' for '' @ tool_name)) (\<lambda>_.
        res_bind (validate_limit S object ''exclusiveMinimum'' (\<lambda>l. l < x)
            (\<lambda>l. path @ '' must be > '' @ l @ '' for '' @ tool_name)) (\<lambda>_.
        validate_limit S object ''exclusiveMaximum'' (\<lambda>l. x < l)
            (\<lambda>l. path @ '' must be < '' @ l @ '' for '' @ tool_name)))))"

section \<open>The validator\<close>

text \<open>The partial validators call \<open>sub\<close> on smaller schemas only.\<close>

lemma schema_array_size: "schema_array key object = Some bs \<Longrightarrow> b \<in> set bs \<Longrightarrow> size b < size (JObj object)"
proof -
  assume "schema_array key object = Some bs" and b: "b \<in> set bs"
  then have get: "tbl_get key object = Some (JArr bs)"
    by (auto simp: schema_array_def bind_eq_Some_conv elim: as_array.elims)
  from json_size_get [OF this] json_size_arr [OF b] show ?thesis by simp
qed

lemma schema_properties_size:
  "schema_properties object = Some ps \<Longrightarrow> tbl_get k ps = Some s \<Longrightarrow> size s < size (JObj object)"
proof -
  assume ps: "schema_properties object = Some ps" and s: "tbl_get k ps = Some s"
  then consider "tbl_get ''properties'' object = Some (JObj ps)" | "ps = object"
    by (auto simp: schema_properties_def shorthand_properties_def bind_eq_Some_conv
        elim: as_object.elims split: option.splits if_splits)
  then show ?thesis using json_size_get [OF s] json_size_get [of "''properties''" object "JObj ps"] by cases simp_all
qed

lemma combinators_cong [fundef_cong]:
  assumes "tool_name = tool_name'" and "path = path'" and "v = v'" and "object = object'"
    and sub: "\<And>p w s. size s < size (JObj object') \<Longrightarrow> sub p w s = sub' p w s"
  shows "validate_schema_combinators sub tool_name path v object =
    validate_schema_combinators sub' tool_name' path' v' object'"
proof -
  have branches: "schema_array key object' = Some bs \<Longrightarrow> b \<in> set bs \<Longrightarrow> sub p w b = sub' p w b" for key bs b p w
    using schema_array_size sub by blast
  have empty: "tbl_has key object' \<Longrightarrow> sub p w (JObj []) = sub' p w (JObj [])" for key p w
    using sub by (cases object') (auto simp: tbl_has_def tbl_get_def)
  have all: "(case schema_array ''allOf'' object' of None \<Rightarrow> Ok () | Some bs \<Rightarrow> check_all (\<lambda>b. sub path' v' b) bs) =
      (case schema_array ''allOf'' object' of None \<Rightarrow> Ok () | Some bs \<Rightarrow> check_all (\<lambda>b. sub' path' v' b) bs)"
    using branches by (auto split: option.split intro: check_all_cong)
  have each: "schema_array key object' = Some bs \<Longrightarrow> map (\<lambda>b. sub path' v' b) bs = map (\<lambda>b. sub' path' v' b) bs"
    for key bs using branches by auto
  have last: "(if only_combinators object' then sub path' v' (JObj []) else Ok ()) =
      (if only_combinators object' then sub' path' v' (JObj []) else Ok ())"
    using empty by (auto simp: only_combinators_def)
  show ?thesis
  proof (cases "schema_array ''anyOf'' object'")
    case (Some bs)
    show ?thesis
      unfolding validate_schema_combinators_def assms(1-4) all Some option.case each [OF Some] by (rule refl)
  next
    case None
    show ?thesis
    proof (cases "schema_array ''oneOf'' object'")
      case (Some bs)
      show ?thesis
        unfolding validate_schema_combinators_def assms(1-4) all last None Some option.case each [OF Some]
        by (rule refl)
    next
      case none: None
      show ?thesis
        unfolding validate_schema_combinators_def assms(1-4) all last None none option.case by (rule refl)
    qed
  qed
qed

lemma object_constraints_cong [fundef_cong]:
  assumes "tool_name = tool_name'" and "path = path'" and "v = v'" and "object = object'"
    and sub: "\<And>p w s. size s < size (JObj object') \<Longrightarrow> sub p w s = sub' p w s"
  shows "validate_schema_object_constraints sub tool_name path v object =
    validate_schema_object_constraints sub' tool_name' path' v' object'"
proof -
  have additional: "validate_additional sub tool_name' path' key child object' =
      validate_additional sub' tool_name' path' key child object'" for key child
    using sub json_size_get by (auto simp: validate_additional_def split: option.split)
  have props: "validate_properties sub tool_name' path' actual object' =
      validate_properties sub' tool_name' path' actual object'" for actual
    using sub schema_properties_size
    by (auto simp: validate_properties_def additional split: option.split intro!: check_all_cong)
  show ?thesis unfolding validate_schema_object_constraints_def assms(1-4) props by (rule refl)
qed

lemma array_constraints_cong [fundef_cong]:
  assumes "tool_name = tool_name'" and "path = path'" and "v = v'" and "object = object'"
    and sub: "\<And>p w s. size s < size (JObj object') \<Longrightarrow> sub p w s = sub' p w s"
  shows "validate_schema_array_constraints sub tool_name path v object =
    validate_schema_array_constraints sub' tool_name' path' v' object'"
proof -
  have items: "validate_items sub path' items object' = validate_items sub' path' items object'" for items
  proof (cases "tbl_get ''items'' object'")
    case (Some item_schema)
    note small = json_size_get [OF Some]
    show ?thesis
    proof (cases "as_array item_schema")
      case None
      with Some sub [OF small] show ?thesis by (simp add: validate_items_def)
    next
      case ts: (Some ts)
      then have "item_schema = JArr ts" by (cases item_schema) simp_all
      with small json_size_arr have "t \<in> set ts \<Longrightarrow> size t < size (JObj object')" for t by fastforce
      moreover have "e \<in> set (zip ns (zip items ts)) \<Longrightarrow> snd (snd e) \<in> set ts" for e and ns :: "nat list"
        by (metis prod.collapse set_zip_rightD)
      ultimately have "e \<in> set (zip ns (zip items ts)) \<Longrightarrow> sub p w (snd (snd e)) = sub' p w (snd (snd e))"
        for e p w and ns :: "nat list" by (blast intro: sub)
      with Some ts show ?thesis by (auto simp: validate_items_def intro!: check_all_cong)
    qed
  qed (simp add: validate_items_def)
  show ?thesis unfolding validate_schema_array_constraints_def assms(1-4) items by (rule refl)
qed

function validate_json_schema_value ::
    "'f::linorder schema_env \<Rightarrow> string \<Rightarrow> string \<Rightarrow> json \<Rightarrow> json \<Rightarrow> string + unit" where
  "validate_json_schema_value S tool_name path v schema =
     (if schema = JNull \<or> schema = JBool True then Ok ()
      else if schema = JBool False then Err (path @ '' is not allowed by schema for '' @ tool_name)
      else case as_str schema of
        Some expected \<Rightarrow> validate_schema_type tool_name path v expected
      | None \<Rightarrow>
        (case as_object schema of
           None \<Rightarrow> Ok ()
         | Some object \<Rightarrow>
           res_bind (validate_schema_combinators (\<lambda>p w s. validate_json_schema_value S tool_name p w s)
             tool_name path v object) (\<lambda>_.
           res_bind (validate_schema_enum S tool_name path v object) (\<lambda>_.
           res_bind (validate_schema_type_constraints tool_name path v object) (\<lambda>_.
           res_bind (validate_schema_object_constraints (\<lambda>p w s. validate_json_schema_value S tool_name p w s)
             tool_name path v object) (\<lambda>_.
           res_bind (validate_schema_array_constraints (\<lambda>p w s. validate_json_schema_value S tool_name p w s)
             tool_name path v object) (\<lambda>_.
           res_bind (validate_schema_string_constraints tool_name path v object) (\<lambda>_.
           validate_schema_number_constraints S tool_name path v object))))))))"
  by pat_completeness auto
termination
  by (relation "measure (\<lambda>(_, _, _, _, schema). size schema)") (auto elim!: as_object.elims)

declare validate_json_schema_value.simps [simp del]

definition validate_tool_arguments ::
    "'f::linorder schema_env \<Rightarrow> string \<Rightarrow> json table \<Rightarrow> json \<Rightarrow> string + unit" where
  "validate_tool_arguments S tool_name args schema =
     validate_json_schema_value S tool_name tool_name (JObj args) schema"

section \<open>What an accepted value satisfies\<close>

lemma validate_object_schema:
  "is_ok (validate_json_schema_value S tool_name path v (JObj object)) \<longleftrightarrow>
     is_ok (validate_schema_combinators (validate_json_schema_value S tool_name) tool_name path v object) \<and>
     is_ok (validate_schema_enum S tool_name path v object) \<and>
     is_ok (validate_schema_type_constraints tool_name path v object) \<and>
     is_ok (validate_schema_object_constraints (validate_json_schema_value S tool_name) tool_name path v object) \<and>
     is_ok (validate_schema_array_constraints (validate_json_schema_value S tool_name) tool_name path v object) \<and>
     is_ok (validate_schema_string_constraints tool_name path v object) \<and>
     is_ok (validate_schema_number_constraints S tool_name path v object)"
  by (simp add: validate_json_schema_value.simps [of S tool_name path v "JObj object"])

text \<open>The declared type of a schema: its own text, or the text under \<open>type\<close>.\<close>

definition declares_type :: "json \<Rightarrow> string \<Rightarrow> bool" where
  "declares_type schema expected \<longleftrightarrow> schema = JStr expected \<or>
     (\<exists>object. schema = JObj object \<and> tbl_get ''type'' object = Some (JStr expected))"

lemma accepted_type:
  assumes "is_ok (validate_json_schema_value S tool_name path v schema)" and "declares_type schema expected"
  shows "type_matches v expected"
  using assms(2) unfolding declares_type_def
proof
  assume "schema = JStr expected"
  with assms(1) show ?thesis
    by (simp add: validate_json_schema_value.simps [of S tool_name path v "JStr expected"] validate_schema_type_def)
next
  assume "\<exists>object. schema = JObj object \<and> tbl_get ''type'' object = Some (JStr expected)"
  with assms(1) show ?thesis
    by (auto simp: validate_object_schema validate_schema_type_constraints_def validate_schema_type_def)
qed

lemma accepted_enum:
  "is_ok (validate_json_schema_value S tool_name path v (JObj object)) \<Longrightarrow>
   schema_array ''enum'' object = Some allowed \<Longrightarrow> v \<in> set allowed"
  by (simp add: validate_object_schema validate_schema_enum_def)

lemma refused_by_false: "\<not> is_ok (validate_json_schema_value S tool_name path v (JBool False))"
  by (simp add: validate_json_schema_value.simps [of S tool_name path v "JBool False"])

lemma accepted_object:
  assumes "is_ok (validate_json_schema_value S tool_name path (JObj actual) (JObj object))"
  shows "key \<in> set (schema_required object) \<Longrightarrow> tbl_has key actual"
    and "schema_properties object = Some ps \<Longrightarrow> (key, v) \<in> set actual \<Longrightarrow> tbl_get key ps = Some child \<Longrightarrow>
      is_ok (validate_json_schema_value S tool_name (path @ ''.'' @ key) v child)"
    and "schema_properties object = Some ps \<Longrightarrow> tbl_get ''additionalProperties'' object = Some (JBool False) \<Longrightarrow>
      (key, v) \<in> set actual \<Longrightarrow> tbl_has key ps"
proof -
  from assms have ok: "is_ok (validate_schema_object_constraints (validate_json_schema_value S tool_name)
      tool_name path (JObj actual) object)" by (simp add: validate_object_schema)
  show "key \<in> set (schema_required object) \<Longrightarrow> tbl_has key actual"
    using ok by (cases "schema_required object = []")
      (auto simp: validate_schema_object_constraints_def Let_def split: if_splits)
  assume ps: "schema_properties object = Some ps"
  from ok ps have props: "is_ok (validate_properties (validate_json_schema_value S tool_name) tool_name path actual object)"
    by (simp add: validate_schema_object_constraints_def)
  show "(key, v) \<in> set actual \<Longrightarrow> tbl_get key ps = Some child \<Longrightarrow>
      is_ok (validate_json_schema_value S tool_name (path @ ''.'' @ key) v child)"
    using props ps by (force simp: validate_properties_def)
  assume "tbl_get ''additionalProperties'' object = Some (JBool False)" and e: "(key, v) \<in> set actual"
  then have "tbl_get key ps = None \<Longrightarrow> \<not> is_ok (validate_properties (validate_json_schema_value S tool_name) tool_name path actual object)"
    using ps by (force simp: validate_properties_def validate_additional_def)
  with props show "tbl_has key ps" by (auto simp: tbl_has_def)
qed

text \<open>
  The shorthand of the empty schema declares no properties, and so wants an object: a schema of
  combinators alone, whose last check is against the empty schema, refuses every other value
  unless \<open>anyOf\<close> returned before.
\<close>

lemma empty_schema_wants_object:
  "is_ok (validate_json_schema_value S tool_name path v (JObj [])) \<longleftrightarrow> as_object v \<noteq> None"
  by (cases "as_object v")
    (simp_all add: validate_object_schema validate_schema_combinators_def schema_array_def tbl_get_def tbl_has_def
      only_combinators_def combinator_keys_def validate_schema_enum_def validate_schema_type_constraints_def
      validate_schema_object_constraints_def schema_properties_def shorthand_properties_def schema_required_def
      validate_properties_def validate_additional_def validate_count_def validate_schema_array_constraints_def
      validate_schema_string_constraints_def validate_schema_number_constraints_def)

lemma combinator_wrapper_wants_object:
  assumes "only_combinators object" and "schema_array ''anyOf'' object = None"
    and "is_ok (validate_json_schema_value S tool_name path v (JObj object))"
  shows "as_object v \<noteq> None"
proof -
  from assms(3) have "is_ok (validate_schema_combinators (validate_json_schema_value S tool_name) tool_name path v object)"
    by (simp add: validate_object_schema)
  with assms(1,2) have "is_ok (validate_json_schema_value S tool_name path v (JObj []))"
    by (auto simp: validate_schema_combinators_def is_ok_iff res_bind_def split: sum.splits option.splits)
  then show ?thesis by (simp only: empty_schema_wants_object) simp
qed

text \<open>
  Two things the validator lets through: with no \<open>properties\<close> the names are not checked, even
  where additional ones are forbidden, and \<open>oneOf\<close> is not looked at next to \<open>anyOf\<close>.
\<close>

lemma closed_schema_accepts_any_argument:
  "validate_tool_arguments S tool_name args (JObj [(''additionalProperties'', JBool False), (''type'', JStr ''object'')]) = Ok ()"
proof -
  let ?o = "[(''additionalProperties'', JBool False), (''type'', JStr ''object'')]"
  have get: "tbl_get k ?o = (if k = ''additionalProperties'' then Some (JBool False)
      else if k = ''type'' then Some (JStr ''object'') else None)" for k
    by (simp add: tbl_get_def)
  have "is_ok (validate_json_schema_value S tool_name tool_name (JObj args) (JObj ?o))"
    unfolding validate_object_schema
    by (simp add: get tbl_has_def validate_schema_combinators_def validate_schema_enum_def schema_array_def
        validate_schema_type_constraints_def validate_schema_type_def type_matches_def
        validate_schema_object_constraints_def validate_properties_def schema_properties_def schema_required_def
        shorthand_properties_def schema_keywords_def validate_count_def validate_schema_array_constraints_def
        validate_schema_string_constraints_def validate_schema_number_constraints_def only_combinators_def
        combinator_keys_def)
  then show ?thesis by (auto simp: validate_tool_arguments_def is_ok_iff)
qed

end
