(* ===== verification/Tool_Executor.thy ===== *)
theory Tool_Executor
  imports Guardrail Runtime_Policy Tool_Schema Task_Manager
begin

text \<open>
  The tool executor, vegvisir/src/tools.rs, with the environment files it reads,
  vegvisir/src/environment.rs: the registry, the normalization of arguments, and the chain a
  call goes through (budget, arguments, guardrails, runtime gate, handler). A tool's handler is
  a function from its arguments to an observation, given with the tool. The state is the
  approval ledger and the list of events emitted.
\<close>

section \<open>Environment files\<close>

text \<open>\<open>str::lines\<close>\<close>

definition strip_cr :: "string \<Rightarrow> string" where
  "strip_cr s = (if ends_with [CHR 0x0D] s then butlast s else s)"

definition text_lines :: "string \<Rightarrow> string list" where
  "text_lines s =
     (let ls = split_on (CHR 0x0A) s
      in map strip_cr (butlast ls) @ (if last ls = [] then [] else [last ls]))"

text \<open>The pattern \<open>^[A-Za-z_][A-Za-z0-9_]*$\<close>.\<close>

definition is_ascii_letter :: "char \<Rightarrow> bool" where
  "is_ascii_letter c =
     ((65 \<le> (of_char c :: nat) \<and> (of_char c :: nat) \<le> 90) \<or> (97 \<le> (of_char c :: nat) \<and> (of_char c :: nat) \<le> 122))"

definition is_variable_name :: "string \<Rightarrow> bool" where
  "is_variable_name s =
     (s \<noteq> [] \<and> (is_ascii_letter (hd s) \<or> hd s = CHR ''_'') \<and>
      list_all (\<lambda>c. is_ascii_letter c \<or> is_ascii_digit c \<or> c = CHR ''_'') (tl s))"

definition parse_environment_value :: "string \<Rightarrow> string" where
  "parse_environment_value v =
     (let t = trim v
      in if length t \<ge> 2 \<and>
            ((hd t = CHR 0x27 \<and> last t = CHR 0x27) \<or> (hd t = CHR 0x22 \<and> last t = CHR 0x22))
         then butlast (tl t) else t)"

definition parse_environment_line :: "string \<Rightarrow> (string \<times> string) option" where
  "parse_environment_line raw_line =
     (let line = trim raw_line
      in if line = [] \<or> starts_with ''#'' line then None
         else
           let line' = (case strip_prefix ''export '' line of Some rest \<Rightarrow> trim rest | None \<Rightarrow> line)
           in Option.bind (split_once (CHR ''='') line') (\<lambda>(key, v).
              if is_variable_name (trim key) then Some (trim key, parse_environment_value (trim v)) else None))"

text \<open>The contents of the \<open>.conf\<close> files in name order; \<open>None\<close> where one could not be read.\<close>

definition load_environment_d :: "string list option \<Rightarrow> string table option" where
  "load_environment_d files =
     map_option (\<lambda>texts. fold (\<lambda>e. tbl_put (fst e) (snd e))
       (List.map_filter parse_environment_line (concat (map text_lines texts))) []) files"

definition get_env :: "'e proc_env_scheme \<Rightarrow> string list option \<Rightarrow> string \<Rightarrow> string option" where
  "get_env E files name =
     (case pe_var E name of
        Some v \<Rightarrow> if v \<noteq> [] then Some v else Option.bind (load_environment_d files) (tbl_get name)
      | None \<Rightarrow> Option.bind (load_environment_d files) (tbl_get name))"

section \<open>Tools\<close>

record observation =
  ob_ok :: bool
  ob_content :: string
  ob_data :: "json table"
  ob_error :: "string option"

definition observation_err :: "string \<Rightarrow> string \<Rightarrow> observation" where
  "observation_err content error = \<lparr>ob_ok = False, ob_content = content, ob_data = [], ob_error = Some error\<rparr>"

record registered_tool = tool +
  rd_description :: string
  rd_schema :: json
  rd_handler :: "json table \<Rightarrow> observation"

record tool_call =
  tc_name :: string
  tc_args :: "json table"

text \<open>What the executor calls outside: the schema functions and the JSON parser.\<close>

record 'f tool_env = "'f schema_env" +
  te_json_parse :: "string \<Rightarrow> json option"

text \<open>\<open>str::parse::<i64>\<close>\<close>

definition parse_i64 :: "string \<Rightarrow> int option" where
  "parse_i64 s =
     (let signed = (case s of c # r \<Rightarrow> c = CHR ''-'' \<or> c = CHR ''+'' | [] \<Rightarrow> False);
          digits = (if signed then tl s else s);
          n = (if signed \<and> hd s = CHR ''-'' then - int (read_dec digits) else int (read_dec digits))
      in if digits \<noteq> [] \<and> list_all is_ascii_digit digits \<and> - (2 ^ 63) \<le> n \<and> n < 2 ^ 63
         then Some n else None)"

definition value_to_string :: "'f schema_env \<Rightarrow> json \<Rightarrow> string" where
  "value_to_string S v = (case v of
     JBool b \<Rightarrow> if b then ''true'' else ''false''
   | JInt i \<Rightarrow> show_int i
   | JFloat f \<Rightarrow> f
   | _ \<Rightarrow> se_json_text S v)"

definition expected_type :: "json table \<Rightarrow> string \<Rightarrow> string option" where
  "expected_type properties key =
     Option.bind (tbl_get key properties) (\<lambda>spec.
       case as_str spec of Some t \<Rightarrow> Some t | None \<Rightarrow> Option.bind (json_get ''type'' spec) as_str)"

definition normalize_argument :: "'f tool_env \<Rightarrow> string option \<Rightarrow> json \<Rightarrow> json" where
  "normalize_argument S expected v =
     (case expected of
        None \<Rightarrow> v
      | Some t \<Rightarrow>
        (case as_str v of
           None \<Rightarrow> if t = ''string'' \<and> v \<noteq> JNull then JStr (value_to_string (schema_env.truncate S) v) else v
         | Some raw \<Rightarrow>
           if t = ''integer'' then (case parse_i64 (trim raw) of Some n \<Rightarrow> JInt n | None \<Rightarrow> v)
           else if t = ''array'' then
             (case te_json_parse S raw of Some (JArr xs) \<Rightarrow> JArr xs | _ \<Rightarrow> v)
           else if t = ''object'' then
             (case te_json_parse S raw of Some (JObj m) \<Rightarrow> JObj m | _ \<Rightarrow> v)
           else v))"

definition argument_properties :: "json \<Rightarrow> json table" where
  "argument_properties schema =
     (case as_object (case json_get ''properties'' schema of Some p \<Rightarrow> p | None \<Rightarrow> schema) of
        Some m \<Rightarrow> m | None \<Rightarrow> [])"

definition normalize_args :: "'f tool_env \<Rightarrow> json \<Rightarrow> json table \<Rightarrow> json table" where
  "normalize_args S schema args =
     map (\<lambda>(key, v). (key, normalize_argument S (expected_type (argument_properties schema) key) v)) args"

type_synonym tool_registry = "registered_tool table"

definition register_tool :: "registered_tool \<Rightarrow> tool_registry \<Rightarrow> (string + unit) \<times> tool_registry" where
  "register_tool t R =
     (if tbl_has (tl_name t) R then (Err (''Tool already registered: '' @ tl_name t), R)
      else (Ok (), tbl_put (tl_name t) t R))"

definition registry_get :: "string \<Rightarrow> tool_registry \<Rightarrow> string + registered_tool" where
  "registry_get name R = ok_or (''Unknown tool: '' @ name) (tbl_get name R)"

section \<open>Execution\<close>

definition subagent_allowed_tools :: "string option \<Rightarrow> string list" where
  "subagent_allowed_tools var =
     (case var of None \<Rightarrow> []
      | Some v \<Rightarrow> filter (\<lambda>t. t \<noteq> []) (map trim (split_on (CHR '','') v)))"

definition tool_allowed_by_budget :: "string list \<Rightarrow> string \<Rightarrow> bool" where
  "tool_allowed_by_budget allowed_tools target =
     list_ex (\<lambda>a. a = ''*'' \<or> a = target \<or> starts_with (a @ ''::'') target) allowed_tools"

definition compact_text_middle :: "string \<Rightarrow> nat \<Rightarrow> string \<Rightarrow> string" where
  "compact_text_middle v max_bytes label =
     (if length v \<le> max_bytes then v
      else
        let head_bytes = max_bytes * 2 div 3;
            tail_bytes = max_bytes - head_bytes - 160;
            head_end = prev_boundary v (min head_bytes (length v));
            tail_start = next_boundary v (length v - tail_bytes);
            head = take head_end v; tail = drop tail_start v
        in head @ [CHR 0x0A] @ ''['' @ label @ '' compacted: omitted '' @
           show_nat (length v - (length head + length tail)) @ '' bytes from middle; original '' @
           show_nat (length v) @ '' bytes, budget '' @ show_nat max_bytes @ '' bytes]'' @ [CHR 0x0A] @ tail)"

definition max_tool_observation_bytes :: nat where "max_tool_observation_bytes = 256 * 1024"

definition bound_observation :: "observation \<Rightarrow> observation" where
  "bound_observation ob =
     (let original = length (ob_content ob)
      in if original > max_tool_observation_bytes
         then ob\<lparr>ob_content := compact_text_middle (ob_content ob) max_tool_observation_bytes ''tool observation'',
                 ob_data := tbl_put ''max_output_bytes'' (JInt (int max_tool_observation_bytes))
                   (tbl_put ''output_bytes'' (JInt (int original))
                     (tbl_put ''output_truncated'' (JBool True) (ob_data ob)))\<rparr>
         else ob)"

definition decision_json :: "gate_decision \<Rightarrow> json" where
  "decision_json d =
     json_obj [(''allowed'', JBool (gd_allowed d)), (''reason'', JStr (gd_reason d)),
       (''contract_id'', json_opt JStr (gd_contract_id d)), (''audit_metadata'', gd_audit_metadata d)]"

definition error_kind :: "string \<Rightarrow> string" where
  "error_kind text =
     (if str_contains ''approval_id='' text then ''ApprovalRequired''
      else if starts_with ''Unknown tool:'' text then ''UnknownTool''
      else if str_contains ''Missing required argument'' text \<or> str_contains '' must be '' text
      then ''InvalidToolArguments''
      else if str_contains ''not allowed'' text \<or> str_contains ''requires human approval'' text
      then ''PermissionDenied''
      else ''ToolError'')"

record 'f executor =
  ex_env :: "'f tool_env"
  ex_guard :: guard_env
  ex_policy :: permission_policy
  ex_runtime :: runtime_policy
  ex_registry :: tool_registry
  ex_environment_d :: "string list option"

record exec_state =
  es_ledger :: ledger
  es_events :: "(string \<times> json) list"

type_synonym 'a exec_op = "(exec_state, string, 'a) sx"

definition emit :: "string \<Rightarrow> json \<Rightarrow> unit exec_op" where
  "emit name payload s = (Ok (), s\<lparr>es_events := es_events s @ [(name, payload)]\<rparr>)"

definition on_ledger :: "(ledger, string, 'a) sx \<Rightarrow> 'a exec_op" where
  "on_ledger m s = (case m (es_ledger s) of (r, L) \<Rightarrow> (r, s\<lparr>es_ledger := L\<rparr>))"

definition runtime_gate :: "'f executor \<Rightarrow> registered_tool \<Rightarrow> json table \<Rightarrow> unit exec_op" where
  "runtime_gate X t args =
     (if pp_bypass_approvals_and_sandbox (ex_policy X) then sx_return ()
      else
        case authorize_tool_with_metadata (ex_runtime X) (tl_name t) args
               \<lparr>tm_risky = tl_risky t, tm_safety_labels = []\<rparr> of
          (r, d) \<Rightarrow> sx_bind (emit ''runtime_gate'' (decision_json d)) (\<lambda>_. sx_lift (res_bind r (\<lambda>_. Ok ()))))"

definition run_tool_call ::
    "'f::linorder executor \<Rightarrow> 'e proc_env_scheme \<Rightarrow> (nat \<Rightarrow> ledger_io) \<Rightarrow> tool_call \<Rightarrow> observation exec_op" where
  "run_tool_call X E io c =
     sx_bind (sx_lift (registry_get (tc_name c) (ex_registry X))) (\<lambda>t.
     let budget = subagent_allowed_tools (get_env E (ex_environment_d X) ''VEGVISIR_SUBAGENT_ALLOWED_TOOLS'')
     in sx_bind (sx_require (budget = [] \<or> tool_allowed_by_budget budget (tl_name t))
       (''Subagent budget denied tool `'' @ tl_name t @ ''`; allowed_tools='' @ join_with '','' budget)) (\<lambda>_.
     let args = normalize_args (ex_env X) (rd_schema t) (tc_args c)
     in sx_bind (sx_lift (validate_tool_arguments (schema_env.truncate (ex_env X)) (tl_name t) args (rd_schema t))) (\<lambda>_.
     sx_bind (on_ledger (authorize_tool (ex_guard X) E io (ex_policy X) (tool.truncate t) args)) (\<lambda>_.
     sx_bind (runtime_gate X t args) (\<lambda>_.
     sx_bind (emit ''tool_start'' (json_obj [(''tool'', JStr (tc_name c)), (''args'', JObj args)])) (\<lambda>_.
     let ob = bound_observation (rd_handler t args)
     in sx_bind (emit ''tool_end'' (json_obj [(''tool'', JStr (tc_name c)), (''ok'', JBool (ob_ok ob)),
          (''error'', json_opt JStr (ob_error ob))])) (\<lambda>_. sx_return ob)))))))"

definition execute ::
    "'f::linorder executor \<Rightarrow> 'e proc_env_scheme \<Rightarrow> (nat \<Rightarrow> ledger_io) \<Rightarrow> tool_call \<Rightarrow> exec_state \<Rightarrow>
     observation \<times> exec_state" where
  "execute X E io c s =
     (case run_tool_call X E io c s of
        (Ok ob, s') \<Rightarrow> (ob, s')
      | (Err e, s') \<Rightarrow>
        (observation_err e (error_kind e),
         snd (emit ''tool_error'' (json_obj [(''tool'', JStr (tc_name c)), (''error'', JStr e)]) s')))"

section \<open>When a handler runs\<close>

text \<open>A call the budget, the schema, the guardrails and the runtime gate all let through.\<close>

definition call_budget :: "'f executor \<Rightarrow> 'e proc_env_scheme \<Rightarrow> string list" where
  "call_budget X E = subagent_allowed_tools (get_env E (ex_environment_d X) ''VEGVISIR_SUBAGENT_ALLOWED_TOOLS'')"

definition call_arguments :: "'f executor \<Rightarrow> tool_call \<Rightarrow> registered_tool \<Rightarrow> json table" where
  "call_arguments X c t = normalize_args (ex_env X) (rd_schema t) (tc_args c)"

definition call_well_formed :: "'f::linorder executor \<Rightarrow> 'e proc_env_scheme \<Rightarrow> tool_call \<Rightarrow> registered_tool \<Rightarrow> bool" where
  "call_well_formed X E c t \<longleftrightarrow>
     tbl_get (tc_name c) (ex_registry X) = Some t \<and>
     (call_budget X E = [] \<or> tool_allowed_by_budget (call_budget X E) (tl_name t)) \<and>
     is_ok (validate_tool_arguments (schema_env.truncate (ex_env X)) (tl_name t) (call_arguments X c t) (rd_schema t))"

definition gate_passed :: "'f executor \<Rightarrow> tool_call \<Rightarrow> registered_tool \<Rightarrow> bool" where
  "gate_passed X c t \<longleftrightarrow> pp_bypass_approvals_and_sandbox (ex_policy X) \<or>
     gate_permits (ex_runtime X)
       \<lparr>gr_operation = tl_name t, gr_target = tl_name t, gr_args_summary = summarize_args (call_arguments X c t),
        gr_tool_metadata = Some \<lparr>tm_risky = tl_risky t, tm_safety_labels = []\<rparr>\<rparr>"

definition call_permitted ::
    "'f::linorder executor \<Rightarrow> 'e proc_env_scheme \<Rightarrow> tool_call \<Rightarrow> registered_tool \<Rightarrow> ledger \<Rightarrow> bool" where
  "call_permitted X E c t L \<longleftrightarrow> call_well_formed X E c t \<and>
     authorized (ex_guard X) E (ex_policy X) (tool.truncate t) (call_arguments X c t) L \<and> gate_passed X c t"

definition call_ledger ::
    "'f executor \<Rightarrow> 'e proc_env_scheme \<Rightarrow> (nat \<Rightarrow> ledger_io) \<Rightarrow> tool_call \<Rightarrow> registered_tool \<Rightarrow> ledger \<Rightarrow> ledger" where
  "call_ledger X E io c t L =
     snd (authorize_tool (ex_guard X) E io (ex_policy X) (tool.truncate t) (call_arguments X c t) L)"

lemma emit_simps [simp]:
  "sx_bind (emit n p) f s = f () (s\<lparr>es_events := es_events s @ [(n, p)]\<rparr>)"
  "snd (emit n p s) = s\<lparr>es_events := es_events s @ [(n, p)]\<rparr>"
  by (simp_all add: emit_def sx_bind_def)

lemma runtime_gate_result:
  "\<exists>r es. runtime_gate X t args s = (r, s\<lparr>es_events := es_events s @ es\<rparr>) \<and> ''tool_start'' \<notin> fst ` set es \<and>
     (is_ok r \<longleftrightarrow> pp_bypass_approvals_and_sandbox (ex_policy X) \<or>
        gate_permits (ex_runtime X) \<lparr>gr_operation = tl_name t, gr_target = tl_name t,
          gr_args_summary = summarize_args args,
          gr_tool_metadata = Some \<lparr>tm_risky = tl_risky t, tm_safety_labels = []\<rparr>\<rparr>)"
proof (cases "pp_bypass_approvals_and_sandbox (ex_policy X)")
  case True
  then show ?thesis by (intro exI [of _ "Ok ()"] exI [of _ "[]"]) (simp add: runtime_gate_def sx_return_def)
next
  case False
  let ?m = "\<lparr>tm_risky = tl_risky t, tm_safety_labels = []\<rparr>"
  obtain r d where rd: "authorize_tool_with_metadata (ex_runtime X) (tl_name t) args ?m = (r, d)" by fastforce
  have "is_ok r \<longleftrightarrow> gate_permits (ex_runtime X) \<lparr>gr_operation = tl_name t, gr_target = tl_name t,
      gr_args_summary = summarize_args args, gr_tool_metadata = Some ?m\<rparr>"
    using authorize_with_metadata_Ok [of "ex_runtime X" "tl_name t" args ?m] rd by simp
  moreover have "is_ok (res_bind r (\<lambda>_. Ok ())) = is_ok r" by (cases r) simp_all
  ultimately show ?thesis using False rd
    by (intro exI [of _ "res_bind r (\<lambda>_. Ok ())"] exI [of _ "[(''runtime_gate'', decision_json d)]"])
      (simp add: runtime_gate_def sx_lift_def)
qed

lemma run_permitted:
  assumes "call_permitted X E c t (es_ledger s)"
  shows "\<exists>es. run_tool_call X E io c s =
     (Ok (bound_observation (rd_handler t (call_arguments X c t))),
      \<lparr>es_ledger = call_ledger X E io c t (es_ledger s), es_events = es_events s @ es\<rparr>) \<and> ''tool_start'' \<in> fst ` set es"
proof -
  let ?args = "call_arguments X c t"
  from assms have wf: "call_well_formed X E c t" and auth: "authorized (ex_guard X) E (ex_policy X) (tool.truncate t) ?args (es_ledger s)"
    and gate: "gate_passed X c t" by (simp_all add: call_permitted_def)
  from wf obtain u where valid: "registry_get (tc_name c) (ex_registry X) = Ok t"
    "validate_tool_arguments (schema_env.truncate (ex_env X)) (tl_name t) ?args (rd_schema t) = Ok u"
    by (auto simp: call_well_formed_def registry_get_def is_ok_iff)
  from auth obtain v L' where L': "authorize_tool (ex_guard X) E io (ex_policy X) (tool.truncate t) ?args (es_ledger s) = (Ok v, L')"
    using authorize_tool_Ok_iff [of "ex_guard X" E io] by (metis is_ok_iff prod.collapse)
  let ?s = "s\<lparr>es_ledger := L'\<rparr>"
  from runtime_gate_result [of X t ?args ?s] gate obtain w es where
    g: "runtime_gate X t ?args ?s = (Ok w, ?s\<lparr>es_events := es_events s @ es\<rparr>)"
    by (auto simp: gate_passed_def is_ok_iff)
  have "on_ledger (authorize_tool (ex_guard X) E io (ex_policy X) (tool.truncate t) ?args) s = (Ok v, ?s)"
    using L' by (simp add: on_ledger_def)
  with wf valid g L' show ?thesis
    by (intro exI [of _ "es @ [(''tool_start'', json_obj [(''tool'', JStr (tc_name c)), (''args'', JObj ?args)])] @
          [(''tool_end'', json_obj [(''tool'', JStr (tc_name c)),
             (''ok'', JBool (ob_ok (bound_observation (rd_handler t ?args)))),
             (''error'', json_opt JStr (ob_error (bound_observation (rd_handler t ?args))))])]"])
      (simp add: run_tool_call_def sx_bind_def [of "sx_lift _"] sx_bind_def [of "sx_require _ _"]
        sx_bind_def [of "on_ledger _"] sx_bind_def [of "runtime_gate _ _ _"] sx_lift_def sx_require_def
        call_well_formed_def call_budget_def call_arguments_def Let_def sx_return_def call_ledger_def)
qed

lemmas run_steps = run_tool_call_def sx_bind_def [of "sx_lift _"] sx_bind_def [of "sx_require _ _"]
  sx_bind_def [of "on_ledger _"] sx_bind_def [of "runtime_gate _ _ _"] sx_lift_def sx_require_def

lemma run_ill_formed:
  assumes "\<nexists>t. call_well_formed X E c t"
  shows "\<exists>e. run_tool_call X E io c s = (Err e, s)"
proof (cases "tbl_get (tc_name c) (ex_registry X)")
  case None
  then show ?thesis by (simp add: run_steps registry_get_def)
next
  case (Some t)
  show ?thesis
  proof (cases "call_budget X E = [] \<or> tool_allowed_by_budget (call_budget X E) (tl_name t)")
    case True
    with Some assms have "\<not> is_ok (validate_tool_arguments (schema_env.truncate (ex_env X)) (tl_name t)
        (call_arguments X c t) (rd_schema t))" by (simp add: call_well_formed_def)
    then obtain e where "validate_tool_arguments (schema_env.truncate (ex_env X)) (tl_name t)
        (call_arguments X c t) (rd_schema t) = Err e"
      by (cases "validate_tool_arguments (schema_env.truncate (ex_env X)) (tl_name t) (call_arguments X c t) (rd_schema t)")
        simp_all
    with Some True show ?thesis
      by (simp add: run_steps registry_get_def call_budget_def call_arguments_def Let_def)
  next
    case False
    with Some show ?thesis by (simp add: run_steps registry_get_def call_budget_def Let_def)
  qed
qed

lemma run_refused:
  assumes "call_well_formed X E c t" and "\<not> call_permitted X E c t (es_ledger s)"
  shows "\<exists>e es. run_tool_call X E io c s =
     (Err e, \<lparr>es_ledger = call_ledger X E io c t (es_ledger s), es_events = es_events s @ es\<rparr>) \<and>
     ''tool_start'' \<notin> fst ` set es"
proof -
  let ?args = "call_arguments X c t"
  from assms(1) obtain u where valid: "registry_get (tc_name c) (ex_registry X) = Ok t"
    "validate_tool_arguments (schema_env.truncate (ex_env X)) (tl_name t) ?args (rd_schema t) = Ok u"
    by (auto simp: call_well_formed_def registry_get_def is_ok_iff)
  obtain a L' where L': "authorize_tool (ex_guard X) E io (ex_policy X) (tool.truncate t) ?args (es_ledger s) = (a, L')"
    by fastforce
  let ?s = "s\<lparr>es_ledger := L'\<rparr>"
  have ledger: "on_ledger (authorize_tool (ex_guard X) E io (ex_policy X) (tool.truncate t) ?args) s = (a, ?s)"
    using L' by (simp add: on_ledger_def)
  have final: "call_ledger X E io c t (es_ledger s) = L'" using L' by (simp add: call_ledger_def)
  show ?thesis
  proof (cases a)
    case (Inl e)
    with assms(1) valid ledger show ?thesis
      by (intro exI [of _ e] exI [of _ "[]"])
        (simp add: run_steps call_well_formed_def call_budget_def call_arguments_def Let_def final [unfolded call_arguments_def])
  next
    case (Inr v)
    with L' authorize_tool_Ok_iff [of "ex_guard X" E io "ex_policy X" "tool.truncate t" ?args "es_ledger s"] assms
    have "\<not> gate_passed X c t" by (simp add: call_permitted_def)
    with runtime_gate_result [of X t ?args ?s] obtain r es where
      g: "runtime_gate X t ?args ?s = (r, ?s\<lparr>es_events := es_events s @ es\<rparr>)" "''tool_start'' \<notin> fst ` set es" "\<not> is_ok r"
      by (auto simp: gate_passed_def)
    then obtain e where "r = Err e" by (cases r) simp_all
    with assms(1) valid ledger Inr g(1,2) show ?thesis
      by (intro exI [of _ e] exI [of _ es])
        (simp add: run_steps call_well_formed_def call_budget_def call_arguments_def Let_def final [unfolded call_arguments_def])
  qed
qed

section \<open>An approval is spent before the runtime gate\<close>

lemma approval_gate_once:
  "ls_approved_once (lg_state (snd (approval_gate G io n t args reason risk L))) =
     ls_approved_once (lg_state L) - {approval_request_id G (tl_name t) args}"
  by (simp add: approval_gate_def Let_def consume_approval_result enqueue_result split: prod.split bool.split)
    (metis consume_approval_result(3) snd_conv)

lemma risky_gate_once:
  "ls_approved_once (lg_state (snd (risky_gate G io P t args g L))) =
     ls_approved_once (lg_state L) - (if risk_gated P t then {approval_request_id G (tl_name t) args} else {})"
  by (simp add: risky_gate_def risk_gated_def approval_gate_once sx_return_def)

lemma authorize_spends_once:
  assumes "authorize_tool G E io P t args L = (Ok v, L')" and "\<not> pp_bypass_approvals_and_sandbox P"
    and "command_gated E P t args \<or> risk_gated P t"
  shows "approval_request_id G (tl_name t) args \<notin> ls_approved_once (lg_state L')"
proof -
  let ?i = "approval_request_id G (tl_name t) args"
  from assms(1,2) obtain g3 L3 g4 where gates: "command_gates G E io P t args L = (Ok g3, L3)"
    and risky: "risky_gate G io P t args g3 L3 = (Ok g4, L')"
    by (auto simp: authorize_tool_gates sx_Ok Let_def)
  have once: "ls_approved_once (lg_state L') = ls_approved_once (lg_state L3) - (if risk_gated P t then {?i} else {})"
    using risky_gate_once [of G io P t args g3 L3] risky by simp
  show ?thesis
  proof (cases "command_gated E P t args")
    case True
    have "command_policy_tool_name (tl_name t) \<Longrightarrow> \<not> unlisted_command P t args \<Longrightarrow> \<not> dangerous_command t args \<Longrightarrow>
        is_ok (command_requires_network_approval E (command_parts_from_args args))"
      using command_gates_bad_config [of t P args E G io L] gates by auto
    from command_gates_gated [OF True this] obtain n reason risk where
      "command_gates G E io P t args L = approval_gate G io n t args reason risk L" by blast
    with gates approval_gate_once [of G io n t args reason risk L] have "?i \<notin> ls_approved_once (lg_state L3)" by simp
    with once show ?thesis by auto
  next
    case False
    with assms(3) once show ?thesis by simp
  qed
qed

text \<open>
  A call whose one approval the guardrails take, and that the runtime gate then refuses: the
  handler does not run, and the approval is gone.
\<close>

lemma refused_call_spends_approval:
  assumes "call_well_formed X E c t" and "\<not> gate_passed X c t"
    and "authorized (ex_guard X) E (ex_policy X) (tool.truncate t) (call_arguments X c t) (es_ledger s)"
    and "command_gated E (ex_policy X) (tool.truncate t) (call_arguments X c t) \<or> risk_gated (ex_policy X) (tool.truncate t)"
  shows "\<exists>e es s'. execute X E io c s = (observation_err e (error_kind e), s') \<and> es_events s' = es_events s @ es \<and>
     ''tool_start'' \<notin> fst ` set es \<and>
     approval_request_id (ex_guard X) (tl_name t) (call_arguments X c t) \<notin> ls_approved_once (lg_state (es_ledger s'))"
proof -
  from assms(2) have "\<not> call_permitted X E c t (es_ledger s)" by (simp add: call_permitted_def)
  from run_refused [OF assms(1) this] obtain e es where
    r: "run_tool_call X E io c s = (Err e, \<lparr>es_ledger = call_ledger X E io c t (es_ledger s), es_events = es_events s @ es\<rparr>)"
    "''tool_start'' \<notin> fst ` set es" by blast
  obtain v L' where L': "authorize_tool (ex_guard X) E io (ex_policy X) (tool.truncate t) (call_arguments X c t) (es_ledger s) = (Ok v, L')"
    using authorize_tool_Ok_iff [of "ex_guard X" E io] assms(3) by (metis is_ok_iff prod.collapse)
  have bypass: "\<not> pp_bypass_approvals_and_sandbox (ex_policy X)" using assms(2) by (simp add: gate_passed_def)
  have "tl_name (tool.truncate t) = tl_name t" by (simp add: tool.truncate_def)
  with authorize_spends_once [OF L' bypass assms(4)] L'
  have "approval_request_id (ex_guard X) (tl_name t) (call_arguments X c t)
      \<notin> ls_approved_once (lg_state (call_ledger X E io c t (es_ledger s)))" by (simp add: call_ledger_def)
  with r show ?thesis
    by (intro exI [of _ e] exI [of _ "es @ [(''tool_error'', json_obj [(''tool'', JStr (tc_name c)), (''error'', JStr e)])]"])
      (simp add: execute_def)
qed

section \<open>The observation stays bounded\<close>

lemma length_show_nat: "n < 10 ^ k \<Longrightarrow> 1 \<le> k \<Longrightarrow> length (show_nat n) \<le> k"
proof (induction k arbitrary: n)
  case (Suc k)
  show ?case
  proof (cases "n < 10")
    case True
    then show ?thesis by (simp add: show_nat.simps [of n])
  next
    case False
    then have "k \<noteq> 0" using Suc.prems(1) by (cases k) simp_all
    moreover have "n div 10 < 10 ^ k" using Suc.prems(1) by (simp add: less_mult_imp_div_less)
    ultimately have "length (show_nat (n div 10)) \<le> k" using Suc.IH by simp
    with False show ?thesis by (simp add: show_nat.simps [of n])
  qed
qed simp

lemma bounded_observation:
  assumes "length (ob_content ob) < 2 ^ 64"
  shows "length (ob_content (bound_observation ob)) \<le> max_tool_observation_bytes"
proof (cases "length (ob_content ob) > max_tool_observation_bytes")
  case True
  let ?v = "ob_content ob"
  let ?h = "prev_boundary ?v (min 174762 (length ?v))"
  let ?t = "next_boundary ?v (length ?v - 87222)"
  have digits: "length (show_nat n) \<le> 20" if "n < 2 ^ 64" for n
    using that by (intro length_show_nat) simp_all
  have h: "?h \<le> 174762" using prev_boundary_bounds [of ?v "min 174762 (length ?v)"] by simp
  have t: "length ?v - ?t \<le> 87222"
    using next_boundary_bounds(1) [of "length ?v - 87222" ?v] by linarith
  have "length (show_nat (length ?v - (min (length ?v) ?h + (length ?v - ?t)))) \<le> 20" using assms by (intro digits) simp
  moreover have "length (show_nat (length ?v)) \<le> 20" "length (show_nat 262144) \<le> 20"
    using assms by (intro digits; simp)+
  ultimately show ?thesis using True h t
    by (simp add: bound_observation_def Let_def max_tool_observation_bytes_def compact_text_middle_def)
next
  case False
  then show ?thesis by (simp add: bound_observation_def Let_def)
qed

end
