(* ===== verification/Execution_Properties.thy ===== *)
theory Execution_Properties
  imports Vegvisir_Properties Parallel_Pool Tool_Executor
begin

text \<open>
  The properties of the execution of tools: the schema check of arguments, the ordered
  parallel map, and the chain of checks a call goes through before its handler runs. The
  first section has the concrete inputs of the witnesses.
\<close>

section \<open>Concrete inputs\<close>

definition sample_tool_env :: "nat tool_env" where
  "sample_tool_env = \<lparr>se_f64 = (\<lambda>_. None), se_f64_text = (\<lambda>_. ''''), se_json_text = (\<lambda>_. ''json''),
     te_json_parse = (\<lambda>_. None)\<rparr>"

text \<open>A closed object with one required text.\<close>

definition path_object :: "json table" where
  "path_object = [(''additionalProperties'', JBool False),
     (''properties'', JObj [(''path'', JStr ''string'')]), (''required'', JArr [JStr ''path'']),
     (''type'', JStr ''object'')]"

definition path_schema :: json where "path_schema = JObj path_object"

definition read_tool :: registered_tool where
  "read_tool = \<lparr>tl_name = ''read_file'', tl_risky = False, rd_description = ''Read a file'', rd_schema = path_schema,
     rd_handler = (\<lambda>_. \<lparr>ob_ok = True, ob_content = ''hello'', ob_data = [], ob_error = None\<rparr>)\<rparr>"

definition sample_executor :: "nat executor" where
  "sample_executor = \<lparr>ex_env = sample_tool_env, ex_guard = sample_guard, ex_policy = default_permission_policy,
     ex_runtime = runtime_policy_default, ex_registry = [(''read_file'', read_tool)], ex_environment_d = Some []\<rparr>"

definition read_call :: tool_call where
  "read_call = \<lparr>tc_name = ''read_file'', tc_args = [(''path'', JStr ''a'')]\<rparr>"

definition sample_exec_state :: exec_state where
  "sample_exec_state = \<lparr>es_ledger = sample_ledger, es_events = []\<rparr>"

section \<open>The ordered parallel map\<close>

text \<open>C38: For a closure that does not panic, the pool returns what the sequential map returns
  under every interleaving of its threads: the result of each item at the item's position. Every
  run of its threads ends within a fixed number of steps, and no reachable state is stuck before
  the call has returned.\<close>

theorem parallel_map_is_sequential_map:
  assumes "\<forall>x \<in> set xs. f x \<noteq> None" and "n = clamp 1 (length xs) max_workers"
  shows "(run_parallel_ordered f xs max_workers out \<longleftrightarrow> out = Some (map (the \<circ> f) xs)) \<and>
     (xs \<noteq> [] \<and> (pool_step f xs n ^^ k) (pool_init xs n) s \<longrightarrow>
        k \<le> 10 * length xs + 3 * n + 4 \<and> (pool_stuck f xs n s \<longrightarrow> po_main s = MDone))"
proof (intro conjI impI)
  show "run_parallel_ordered f xs max_workers out \<longleftrightarrow> out = Some (map (the \<circ> f) xs)"
    using assms(1) by (rule run_parallel_ordered_total)
  assume run: "xs \<noteq> [] \<and> (pool_step f xs n ^^ k) (pool_init xs n) s"
  then have n: "1 \<le> n" "n \<le> length xs"
    using assms(2) clamp_bounds [of 1 "length xs" max_workers] by (cases xs; simp)+
  note bounded = pool_run_bounded [OF conjunct2 [OF run] n assms(1)]
  from bounded(2) show "k \<le> 10 * length xs + 3 * n + 4" by linarith
  show "po_main s = MDone" if "pool_stuck f xs n s" using pool_progress [OF bounded(1) that n] .
qed

theorem parallel_map_is_sequential_map_witness:
  "run_parallel_ordered (\<lambda>x. Some (Suc x)) [1, 2, 3] 2 (Some [2, 3, 4]) \<and>
   \<not> run_parallel_ordered (\<lambda>x. Some (Suc x)) [1, 2, 3] 2 None"
proof -
  have "\<forall>x \<in> set [1, 2, 3 :: nat]. Some (Suc x) \<noteq> None" by simp
  from parallel_map_is_sequential_map [OF this refl, of 2] show ?thesis by (simp add: numeral_eq_Suc)
qed

text \<open>C39: A panic of the closure can hang the call: of two items whose first panics, the pool
  reaches a state in which the main thread waits for a result, the remaining worker waits for a
  job, and no thread can move.\<close>

theorem panic_hangs_the_pool:
  assumes "f x = None" and "f y = Some r"
  shows "\<exists>s. (pool_step f [x, y] 2)\<^sup>*\<^sup>* (pool_init [x, y] 2) s \<and> pool_stuck f [x, y] 2 s \<and>
     po_main s = MRecv \<and> po_workers s = [WGone, WRecv] \<and> po_results s = [None, Some r]"
  using pool_sched_reaches [OF panic_schedule_runs [of f x y r, OF assms]] waiting_pool_stuck [of f x y r]
  by (intro exI [of _ "waiting_pool r"]) (simp add: waiting_pool_def)

theorem panic_hangs_the_pool_witness:
  "\<exists>s. (pool_step (\<lambda>x. if x = 0 then None else Some x) [0, 7] 2)\<^sup>*\<^sup>* (pool_init [0, 7] 2) s \<and>
     pool_stuck (\<lambda>x. if x = 0 then None else Some x) [0, 7] 2 s \<and> po_results s = [None, Some (7 :: nat)]"
  using panic_hangs_the_pool [of "\<lambda>x. if x = 0 then None else Some x" "0 :: nat" 7 7] by auto

section \<open>The execution of a tool call\<close>


lemma path_object_get:
  "tbl_get k path_object =
     (if k = ''additionalProperties'' then Some (JBool False)
      else if k = ''properties'' then Some (JObj [(''path'', JStr ''string'')])
      else if k = ''required'' then Some (JArr [JStr ''path''])
      else if k = ''type'' then Some (JStr ''object'') else None)"
  by (simp add: path_object_def tbl_get_def)

lemma tbl_get_single: "tbl_get k [(k', v)] = (if k = k' then Some v else None)"
  by (simp add: tbl_get_def)

lemma path_object_facts:
  "schema_properties path_object = Some [(''path'', JStr ''string'')]"
  "schema_required path_object = [''path'']"
  by (simp_all add: schema_properties_def schema_required_def path_object_get schema_array_def List.map_filter_def)

lemma path_object_plain: "\<not> only_combinators path_object"
  by (simp add: only_combinators_def combinator_keys_def tbl_has_def path_object_get)

lemma path_schema_accepts:
  "validate_tool_arguments S n [(''path'', JStr v)] path_schema = Ok ()"
proof -
  let ?a = "[(''path'', JStr v)]"
  have child: "validate_json_schema_value S n p (JStr v) (JStr ''string'') = Ok ()" for p
    by (simp add: validate_json_schema_value.simps [of S n p "JStr v" "JStr ''string''"] validate_schema_type_def
        type_matches_def schema_require_def)
  have "is_ok (validate_json_schema_value S n n (JObj ?a) path_schema)"
    unfolding path_schema_def validate_object_schema
    by (simp add: path_object_get path_object_facts path_object_plain child tbl_has_def tbl_get_single validate_schema_combinators_def
        validate_schema_enum_def schema_array_def validate_schema_type_constraints_def validate_schema_type_def
        type_matches_def validate_schema_object_constraints_def validate_properties_def validate_count_def
        validate_schema_array_constraints_def validate_schema_string_constraints_def
        validate_schema_number_constraints_def validate_limit_def)
  then show ?thesis by (auto simp: validate_tool_arguments_def path_schema_def is_ok_iff)
qed


text \<open>C40: Executing a call is the composition of its checks. The handler runs exactly where the
  tool is registered, within the budget, called with arguments its schema accepts, authorized by
  the guardrails and let through by the runtime gate; the outcome is then the handler's, bounded
  to 256 KiB. Otherwise the outcome is an error. Events are only appended, and a call that is
  unknown, over budget or ill formed does not touch the approval ledger.\<close>

theorem tool_call_outcome:
  assumes "execute X E io c s = (ob, s')"
  shows "(\<exists>es. es_events s' = es_events s @ es \<and>
        (''tool_start'' \<in> fst ` set es \<longleftrightarrow> (\<exists>t. call_permitted X E c t (es_ledger s)))) \<and>
     (\<forall>t. call_permitted X E c t (es_ledger s) \<longrightarrow>
        ob = bound_observation (rd_handler t (call_arguments X c t)) \<and>
        (length (ob_content (rd_handler t (call_arguments X c t))) < 2 ^ 64 \<longrightarrow>
           length (ob_content ob) \<le> 256 * 1024)) \<and>
     (\<not> (\<exists>t. call_permitted X E c t (es_ledger s)) \<longrightarrow> \<not> ob_ok ob) \<and>
     (\<forall>t. call_well_formed X E c t \<longrightarrow> es_ledger s' = call_ledger X E io c t (es_ledger s)) \<and>
     (\<not> (\<exists>t. call_well_formed X E c t) \<longrightarrow> es_ledger s' = es_ledger s)"
proof -
  have unique: "t' = t" if "call_well_formed X E c t" "call_well_formed X E c t'" for t t'
    using that by (simp add: call_well_formed_def)
  consider (run) t where "call_permitted X E c t (es_ledger s)"
    | (refused) t where "call_well_formed X E c t" "\<not> call_permitted X E c t (es_ledger s)"
    | (ill_formed) "\<nexists>t. call_well_formed X E c t" by blast
  then show ?thesis
  proof cases
    case run
    from run_permitted [OF run, of io] obtain es where
      r: "run_tool_call X E io c s = (Ok (bound_observation (rd_handler t (call_arguments X c t))),
        \<lparr>es_ledger = call_ledger X E io c t (es_ledger s), es_events = es_events s @ es\<rparr>)"
      "''tool_start'' \<in> fst ` set es" by blast
    have wf: "call_well_formed X E c t" using run by (simp add: call_permitted_def)
    have same: "t' = t" if "call_permitted X E c t' (es_ledger s)" for t'
      using unique [OF wf] that by (simp add: call_permitted_def)
    from r(1) assms have "ob = bound_observation (rd_handler t (call_arguments X c t))"
      "s' = \<lparr>es_ledger = call_ledger X E io c t (es_ledger s), es_events = es_events s @ es\<rparr>"
      by (simp_all add: execute_def)
    note out = this
    have len: "length (ob_content ob) \<le> 256 * 1024"
      if "length (ob_content (rd_handler t (call_arguments X c t))) < 2 ^ 64"
      using bounded_observation [OF that] out(1) by (simp only: max_tool_observation_bytes_def)
    have ex: "\<exists>t. call_permitted X E c t (es_ledger s)" and wfs: "\<exists>t. call_well_formed X E c t"
      using run wf by blast+
    show ?thesis
    proof (intro conjI)
      show "\<exists>es. es_events s' = es_events s @ es \<and>
          (''tool_start'' \<in> fst ` set es \<longleftrightarrow> (\<exists>t. call_permitted X E c t (es_ledger s)))"
        using out(2) r(2) ex by (intro exI [of _ es]) simp
      show "\<forall>t. call_permitted X E c t (es_ledger s) \<longrightarrow>
          ob = bound_observation (rd_handler t (call_arguments X c t)) \<and>
          (length (ob_content (rd_handler t (call_arguments X c t))) < 2 ^ 64 \<longrightarrow> length (ob_content ob) \<le> 256 * 1024)"
        using same out(1) len by blast
      show "\<forall>t. call_well_formed X E c t \<longrightarrow> es_ledger s' = call_ledger X E io c t (es_ledger s)"
        using unique [OF wf] out(2) by simp
      show "\<not> (\<exists>t. call_permitted X E c t (es_ledger s)) \<longrightarrow> \<not> ob_ok ob" using ex by simp
      show "\<not> (\<exists>t. call_well_formed X E c t) \<longrightarrow> es_ledger s' = es_ledger s" using wfs by simp
    qed
  next
    case refused
    from run_refused [OF refused, of io] obtain e es where
      r: "run_tool_call X E io c s = (Err e,
        \<lparr>es_ledger = call_ledger X E io c t (es_ledger s), es_events = es_events s @ es\<rparr>)"
      "''tool_start'' \<notin> fst ` set es" by blast
    have none: "\<not> call_permitted X E c t' (es_ledger s)" for t'
      using refused unique [OF refused(1)] by (metis call_permitted_def)
    from r(1) assms obtain p where out: "ob = observation_err e (error_kind e)"
      "es_ledger s' = call_ledger X E io c t (es_ledger s)" "es_events s' = es_events s @ es @ [(''tool_error'', p)]"
      by (auto simp: execute_def)
    have ledger: "\<forall>t. call_well_formed X E c t \<longrightarrow> es_ledger s' = call_ledger X E io c t (es_ledger s)"
      using unique [OF refused(1)] out(2) by simp
    have "\<exists>t. call_well_formed X E c t" using refused(1) by blast
    with r(2) none ledger out(1,3) show ?thesis by (simp add: observation_err_def)
  next
    case ill_formed
    then have none: "\<not> call_permitted X E c t' (es_ledger s)" for t' by (simp add: call_permitted_def)
    from run_ill_formed [OF ill_formed, of io s] obtain e where "run_tool_call X E io c s = (Err e, s)" by blast
    with assms have "ob = observation_err e (error_kind e)" "es_ledger s' = es_ledger s"
      "\<exists>p. es_events s' = es_events s @ [(''tool_error'', p)]"
      by (auto simp: execute_def)
    with none ill_formed show ?thesis by (auto simp: observation_err_def)
  qed
qed

lemma read_call_permitted: "call_permitted sample_executor sample_proc read_call read_tool sample_ledger"
proof -
  have args: "call_arguments sample_executor read_call read_tool = [(''path'', JStr ''a'')]"
    by (simp add: call_arguments_def read_call_def read_tool_def normalize_args_def normalize_argument_def
        path_schema_def argument_properties_def expected_type_def json_get_def path_object_get tbl_get_single)
  have budget: "call_budget sample_executor sample_proc = []"
    by (simp add: call_budget_def get_env_def sample_executor_def sample_proc_def load_environment_d_def
        subagent_allowed_tools_def tbl_get_def List.map_filter_def)
  have "call_well_formed sample_executor sample_proc read_call read_tool"
    unfolding call_well_formed_def args budget
    by (simp add: is_ok_def read_tool_def path_schema_accepts) (simp add: sample_executor_def read_call_def read_tool_def tbl_get_single)
  moreover have "authorized (ex_guard sample_executor) sample_proc (ex_policy sample_executor) (tool.truncate read_tool)
      (call_arguments sample_executor read_call read_tool) sample_ledger"
    by (simp add: args authorized_def sample_executor_def read_tool_def tool.truncate_def default_permission_policy_def
        command_gated_def unlisted_command_def dangerous_command_def network_command_def command_policy_tool_name_def
        sudo_guarded_tool_name_def risk_gated_def)
  moreover have "gate_passed sample_executor read_call read_tool"
    by (simp add: gate_passed_def gate_permits_def sample_executor_def runtime_policy_default_def read_tool_def)
  ultimately show ?thesis by (simp add: call_permitted_def)
qed

theorem tool_call_outcome_witness:
  "\<exists>s'. execute sample_executor sample_proc sample_io read_call sample_exec_state =
     (\<lparr>ob_ok = True, ob_content = ''hello'', ob_data = [], ob_error = None\<rparr>, s') \<and>
     ''tool_start'' \<in> fst ` set (es_events s')"
proof -
  obtain ob s' where e: "execute sample_executor sample_proc sample_io read_call sample_exec_state = (ob, s')"
    by fastforce
  have "call_permitted sample_executor sample_proc read_call read_tool (es_ledger sample_exec_state)"
    using read_call_permitted by (simp add: sample_exec_state_def)
  with tool_call_outcome [OF e] have "ob = bound_observation (rd_handler read_tool (call_arguments sample_executor read_call read_tool))"
    "''tool_start'' \<in> fst ` set (es_events s')" by (auto simp: sample_exec_state_def)
  then show ?thesis
    using e by (simp add: bound_observation_def max_tool_observation_bytes_def read_tool_def)
qed

end
