(* ===== verification/Msp_Model.thy ===== *)
theory Msp_Model
  imports Rust_Paths
begin

text \<open>
  The data of the skill protocol, components/msp/crates/msp-core/src/manifest.rs, hash.rs and
  errors.rs: skill and pack manifests with their trust metadata and dependencies, digests, and
  the checks a manifest passes after it is read. The record \<open>msp_env\<close> holds the functions of
  other crates and the file system: the SHA functions, the hexadecimal and base64 decoders,
  Ed25519, the JSON text of a manifest, the files, the files under a directory in the order of
  \<open>WalkDir\<close>, the parser of a manifest (the JSON parser, the published JSON schema and the
  derived \<open>Deserialize\<close>), and the \<open>Debug\<close> text of a list of strings, whose escapes are tables
  of the core library.
\<close>

section \<open>Errors and digests\<close>

text \<open>An I/O or JSON error is its text.\<close>

datatype msp_error =
    MspIo string
  | MspJson string
  | InvalidHash string
  | HashMismatch string string string
  | SchemaValidation string "string list"
  | ManifestValidation string
  | SkillNotFound string
  | PackNotFound string
  | DependencyNotFound string
  | DependencyCycle string
  | SignatureError string
  | TrustError string
  | VerificationError string
  | InvalidRequest string

datatype hash_algorithm = Sha256 | Sha384 | Sha512

fun hash_prefix :: "hash_algorithm \<Rightarrow> string" where
  "hash_prefix Sha256 = ''sha256''"
| "hash_prefix Sha384 = ''sha384''"
| "hash_prefix Sha512 = ''sha512''"

record hash_digest =
  hd_algorithm :: hash_algorithm
  hd_hex :: string

definition digest_text :: "hash_digest \<Rightarrow> string" where
  "digest_text d = hash_prefix (hd_algorithm d) @ '':'' @ hd_hex d"

text \<open>\<open>hex_ok\<close> tells what \<open>hex::decode\<close> accepts.\<close>

definition digest_parse :: "(string \<Rightarrow> bool) \<Rightarrow> string \<Rightarrow> msp_error + hash_digest" where
  "digest_parse hex_ok v =
     (case split_once (CHR '':'') v of
        None \<Rightarrow> Err (InvalidHash v)
      | Some (p, hex) \<Rightarrow>
        res_bind (if p = ''sha256'' then Ok Sha256 else if p = ''sha384'' then Ok Sha384
                  else if p = ''sha512'' then Ok Sha512 else Err (InvalidHash v)) (\<lambda>a.
        if hex = [] \<or> \<not> hex_ok hex then Err (InvalidHash v)
        else Ok \<lparr>hd_algorithm = a, hd_hex = to_ascii_lowercase hex\<rparr>))"

section \<open>Manifests\<close>

record artifact_ref =
  ar_uri :: string
  ar_media_type :: string
  ar_hash :: hash_digest
  ar_size_bytes :: "nat option"

record skill_artifacts =
  sa_body :: artifact_ref
  sa_verification_contract :: "artifact_ref option"
  sa_examples :: "artifact_ref list"
  sa_schemas :: "artifact_ref list"

record activation =
  ac_task_patterns :: "string list"
  ac_negative_patterns :: "string list"
  ac_required_context :: "string list"
  ac_optional_context :: "string list"
  ac_domains :: "string list"
  ac_languages :: "string list"

record tool_requirement =
  tq_name :: string
  tq_required :: bool
  tq_purpose :: "string option"
  tq_minimum_version :: "string option"

record requirements =
  rq_model_capabilities :: "string list"
  rq_runtime_capabilities :: "string list"
  rq_tools :: "tool_requirement list"
  rq_permissions :: "string list"
  rq_min_context_window :: "nat option"
  rq_supported_platforms :: "string list"

record schema_refs =
  sf_input :: string
  sf_output :: string
  sf_context :: "string option"

record verification_summary =
  vs_contract :: "string option"
  vs_required_checks :: "string list"
  vs_optional_checks :: "string list"
  vs_minimum_evidence :: "string list"

datatype risk_level = Low | Medium | High | Critical

datatype review_status =
  Unreviewed | SelfReviewed | PeerReviewed | SecurityReviewed | DeprecatedReview | RevokedReview

record trust_metadata =
  tm_hash :: hash_digest
  tm_signed :: bool
  tm_signature :: "string option"
  tm_issuer :: string
  tm_license :: "string option"
  tm_review_status :: review_status
  tm_risk_level :: risk_level
  tm_forbidden_behaviors :: "string list"
  tm_sandbox_profile :: "string option"

datatype dependency_type =
  DepSkill | DepSkillPack | DepSchema | DepVerificationContract | DepTrustAnchor | DepFormatAdapter | DepRuntimeCapability

datatype resolution_strategy = Exact | Compatible | LatestPatch | LatestMinor | Manual

record dependency_trust =
  dt_required_issuer :: "string option"
  dt_required_hash :: "hash_digest option"
  dt_must_be_signed :: bool
  dt_allowed_registries :: "string list"

record dependency_resolution =
  dr_strategy :: resolution_strategy
  dr_allow_prerelease :: bool

record skill_dependency =
  sd_type :: dependency_type
  sd_id :: string
  sd_requirement :: string
  sd_required :: bool
  sd_purpose :: "string option"
  sd_trust :: "dependency_trust option"
  sd_resolution :: "dependency_resolution option"

record provenance =
  pv_author :: "string option"
  pv_generator :: "string option"
  pv_source_documents :: "string list"
  pv_generated_at :: "string option"
  pv_published_at :: "string option"

record compatibility =
  cp_min_msp_version :: "string option"
  cp_max_msp_version :: "string option"
  cp_known_runtimes :: "string list"

record deprecation =
  dp_deprecated :: bool
  dp_reason :: "string option"
  dp_replacement :: "string option"
  dp_sunset_at :: "string option"

record skill_manifest =
  sm_msp_version :: string
  sm_manifest_version :: string
  sm_kind :: string
  sm_id :: string
  sm_name :: string
  sm_version :: string
  sm_category :: string
  sm_summary :: string
  sm_description :: "string option"
  sm_keywords :: "string list"
  sm_formats :: "string list"
  sm_primary_format :: string
  sm_activation :: activation
  sm_requirements :: requirements
  sm_schemas :: schema_refs
  sm_verification :: verification_summary
  sm_trust :: trust_metadata
  sm_dependencies :: "skill_dependency list"
  sm_artifacts :: skill_artifacts
  sm_provenance :: "provenance option"
  sm_compatibility :: "compatibility option"
  sm_deprecation :: "deprecation option"
  sm_extensions :: "json table"

record pack_skill_ref =
  pr_id :: string
  pr_version :: string
  pr_manifest_uri :: string
  pr_required :: bool
  pr_role :: "string option"

record pack_manifest =
  pm_msp_version :: string
  pm_manifest_version :: string
  pm_kind :: string
  pm_id :: string
  pm_name :: string
  pm_version :: string
  pm_category :: string
  pm_summary :: string
  pm_description :: "string option"
  pm_skills :: "pack_skill_ref list"
  pm_dependencies :: "skill_dependency list"
  pm_trust :: trust_metadata
  pm_provenance :: "provenance option"
  pm_deprecation :: "deprecation option"
  pm_extensions :: "json table"

definition msp_require :: "bool \<Rightarrow> msp_error \<Rightarrow> msp_error + unit" where
  "msp_require b e = (if b then Ok () else Err e)"

lemma msp_require_ok [simp]: "is_ok (msp_require b e) \<longleftrightarrow> b"
  by (simp add: msp_require_def)

lemma msp_require_Ok [simp]: "msp_require b e = Ok u \<longleftrightarrow> b"
  by (simp add: msp_require_def)

lemma is_ok_bind_unit: "is_ok (res_bind r (\<lambda>_::unit. q)) \<longleftrightarrow> is_ok r \<and> is_ok q"
  by (cases r) simp_all

definition validate_manifest :: "skill_manifest \<Rightarrow> msp_error + unit" where
  "validate_manifest m =
     res_bind (msp_require (sm_kind m = ''SkillManifest'')
       (ManifestValidation (''expected kind SkillManifest, got '' @ sm_kind m))) (\<lambda>_.
     res_bind (msp_require (trim (sm_id m) \<noteq> [] \<and> trim (sm_name m) \<noteq> [])
       (ManifestValidation ''skill id and name must be non-empty'')) (\<lambda>_.
     res_bind (msp_require (sm_primary_format m \<in> set (sm_formats m))
       (ManifestValidation (''primary_format '' @ sm_primary_format m @ '' is not listed in formats''))) (\<lambda>_.
     res_bind (msp_require (ac_task_patterns (sm_activation m) \<noteq> [])
       (ManifestValidation ''activation.task_patterns must not be empty'')) (\<lambda>_.
     res_bind (msp_require (vs_required_checks (sm_verification m) \<noteq> [])
       (ManifestValidation ''verification.required_checks must not be empty'')) (\<lambda>_.
     msp_require (\<not> (tm_signed (sm_trust m) \<and> tm_signature (sm_trust m) = None))
       (ManifestValidation ''trust.signature is required when trust.signed is true''))))))"

definition validate_pack :: "pack_manifest \<Rightarrow> msp_error + unit" where
  "validate_pack m =
     res_bind (msp_require (pm_kind m = ''SkillPackManifest'')
       (ManifestValidation (''expected kind SkillPackManifest, got '' @ pm_kind m))) (\<lambda>_.
     res_bind (msp_require (pm_skills m \<noteq> [])
       (ManifestValidation ''skill pack must contain at least one skill'')) (\<lambda>_.
     msp_require (\<not> (tm_signed (pm_trust m) \<and> tm_signature (pm_trust m) = None))
       (ManifestValidation ''trust.signature is required when trust.signed is true'')))"

section \<open>The environment\<close>

record msp_env =
  me_sha :: "hash_algorithm \<Rightarrow> bytes \<Rightarrow> string"
  me_hex_ok :: "string \<Rightarrow> bool"
  me_b64_encode :: "bytes \<Rightarrow> string"
  me_b64_decode :: "string \<Rightarrow> string + bytes"
  me_ed_key :: "bytes \<Rightarrow> string + unit"
  me_ed_verify :: "bytes \<Rightarrow> bytes \<Rightarrow> bytes \<Rightarrow> string + unit"
  me_ed_sign :: "bytes \<Rightarrow> bytes \<Rightarrow> bytes"
  me_ed_public :: "bytes \<Rightarrow> bytes"
  me_pack_json :: "pack_manifest \<Rightarrow> msp_error + bytes"
  me_read :: "string \<Rightarrow> msp_error + bytes"
  me_exists :: "string \<Rightarrow> bool"
  me_is_file :: "string \<Rightarrow> bool"
  me_walk :: "string \<Rightarrow> string list"
  me_canonicalize :: "string \<Rightarrow> string option"
  me_parse_skill :: "bytes \<Rightarrow> msp_error + skill_manifest"
  me_parse_pack :: "bytes \<Rightarrow> msp_error + pack_manifest"
  me_debug :: "string list \<Rightarrow> string"

text \<open>The \<open>Display\<close> of an error.\<close>

fun msp_error_text :: "msp_env \<Rightarrow> msp_error \<Rightarrow> string" where
  "msp_error_text V (MspIo e) = ''I/O error: '' @ e"
| "msp_error_text V (MspJson e) = ''JSON error: '' @ e"
| "msp_error_text V (InvalidHash e) = ''invalid hash digest: '' @ e"
| "msp_error_text V (HashMismatch artifact expected actual) =
     ''hash mismatch for '' @ artifact @ '': expected '' @ expected @ '', got '' @ actual"
| "msp_error_text V (SchemaValidation schema errors) =
     ''schema validation failed for '' @ schema @ '': '' @ me_debug V errors"
| "msp_error_text V (ManifestValidation e) = ''manifest validation failed: '' @ e"
| "msp_error_text V (SkillNotFound e) = ''skill not found: '' @ e"
| "msp_error_text V (PackNotFound e) = ''pack not found: '' @ e"
| "msp_error_text V (DependencyNotFound e) = ''dependency not found: '' @ e"
| "msp_error_text V (DependencyCycle e) = ''dependency cycle detected: '' @ e"
| "msp_error_text V (SignatureError e) = ''signature verification failed: '' @ e"
| "msp_error_text V (TrustError e) = ''trust verification failed: '' @ e"
| "msp_error_text V (VerificationError e) = ''verification failed: '' @ e"
| "msp_error_text V (InvalidRequest e) = ''invalid request: '' @ e"

text \<open>\<open>fs::read_to_string\<close>\<close>

definition read_text :: "msp_env \<Rightarrow> string \<Rightarrow> msp_error + string" where
  "read_text V path =
     res_bind (me_read V path) (\<lambda>content.
     if utf8_ok content then Ok content else Err (MspIo ''stream did not contain valid UTF-8''))"

definition digest_from_bytes :: "msp_env \<Rightarrow> hash_algorithm \<Rightarrow> bytes \<Rightarrow> hash_digest" where
  "digest_from_bytes V a content = \<lparr>hd_algorithm = a, hd_hex = me_sha V a content\<rparr>"

definition digest_from_file :: "msp_env \<Rightarrow> string \<Rightarrow> hash_algorithm \<Rightarrow> msp_error + hash_digest" where
  "digest_from_file V path a = res_bind (me_read V path) (\<lambda>content. Ok (digest_from_bytes V a content))"

definition skill_from_path :: "msp_env \<Rightarrow> string \<Rightarrow> msp_error + skill_manifest" where
  "skill_from_path V path =
     res_bind (read_text V path) (\<lambda>content. res_bind (me_parse_skill V content) (\<lambda>m.
     res_bind (validate_manifest m) (\<lambda>_. Ok m)))"

definition pack_from_path :: "msp_env \<Rightarrow> string \<Rightarrow> msp_error + pack_manifest" where
  "pack_from_path V path =
     res_bind (read_text V path) (\<lambda>content. res_bind (me_parse_pack V content) (\<lambda>m.
     res_bind (validate_pack m) (\<lambda>_. Ok m)))"

section \<open>Risk levels are ordered, digests round-trip\<close>

fun risk_rank :: "risk_level \<Rightarrow> nat" where
  "risk_rank Low = 0"
| "risk_rank Medium = 1"
| "risk_rank High = 2"
| "risk_rank Critical = 3"

lemma risk_rank_inj: "risk_rank a = risk_rank b \<Longrightarrow> a = b"
  by (cases a; cases b) simp_all

text \<open>The derived \<open>PartialOrd\<close>: the order of declaration.\<close>

instantiation risk_level :: linorder
begin

definition less_eq_risk_level :: "risk_level \<Rightarrow> risk_level \<Rightarrow> bool" where
  "less_eq_risk_level a b \<longleftrightarrow> risk_rank a \<le> risk_rank b"

definition less_risk_level :: "risk_level \<Rightarrow> risk_level \<Rightarrow> bool" where
  "less_risk_level a b \<longleftrightarrow> risk_rank a < risk_rank b"

instance
  by standard (auto simp: less_eq_risk_level_def less_risk_level_def intro: risk_rank_inj)

end

lemma ascii_down_idem [simp]: "ascii_down (ascii_down c) = ascii_down c"
  by (auto simp: ascii_down_def of_char_of split: if_splits)

lemma digest_round_trip:
  assumes "hd_hex d \<noteq> []" and "hex_ok (hd_hex d)" and "to_ascii_lowercase (hd_hex d) = hd_hex d"
  shows "digest_parse hex_ok (digest_text d) = Ok d"
proof -
  have "CHR '':'' \<notin> set (hash_prefix (hd_algorithm d))" by (cases "hd_algorithm d") simp_all
  then have "split_once (CHR '':'') (digest_text d) = Some (hash_prefix (hd_algorithm d), hd_hex d)"
    by (simp add: digest_text_def split_once_append)
  then show ?thesis using assms by (cases "hd_algorithm d") (simp_all add: digest_parse_def)
qed

lemma digest_parse_Ok:
  assumes "digest_parse hex_ok v = Ok d"
  shows "hd_hex d \<noteq> [] \<and> to_ascii_lowercase (hd_hex d) = hd_hex d"
  using assms by (auto simp: digest_parse_def to_ascii_lowercase_def res_bind_Ok_iff split: option.splits if_splits)

end
