(* ===== verification/Msp_Trust.thy ===== *)
theory Msp_Trust
  imports Msp_Model
begin

text \<open>
  Signatures and trust policies, components/msp/crates/msp-core/src/signature.rs and
  trust_policy.rs. An evaluation pushes decisions in the order of the code; the action is the
  strongest one pushed, starting at the default.
\<close>

section \<open>Signatures\<close>

text \<open>The one algorithm, \<open>ed25519\<close>.\<close>

datatype signature_algorithm = Ed25519

fun policy_name :: "signature_algorithm \<Rightarrow> string" where
  "policy_name Ed25519 = ''ed25519''"

definition algorithm_from_str :: "string \<Rightarrow> msp_error + signature_algorithm" where
  "algorithm_from_str v =
     (if v = ''ed25519'' then Ok Ed25519
      else Err (SignatureError (''unsupported signature algorithm: '' @ v)))"

record parsed_signature =
  ps_algorithm :: signature_algorithm
  ps_public_key :: bytes
  ps_signature :: bytes

definition public_key_ref :: "msp_env \<Rightarrow> parsed_signature \<Rightarrow> string" where
  "public_key_ref V p = ''ed25519:'' @ me_b64_encode V (ps_public_key p)"

definition public_key_sha256_ref :: "msp_env \<Rightarrow> parsed_signature \<Rightarrow> string" where
  "public_key_sha256_ref V p = digest_text (digest_from_bytes V Sha256 (ps_public_key p))"

definition public_key_matches_ref :: "msp_env \<Rightarrow> parsed_signature \<Rightarrow> string \<Rightarrow> bool" where
  "public_key_matches_ref V p expected = (expected = public_key_ref V p \<or> expected = public_key_sha256_ref V p)"

definition check_lengths :: "bytes \<Rightarrow> bytes \<Rightarrow> msp_error + unit" where
  "check_lengths key sig =
     res_bind (msp_require (length key = 32)
       (SignatureError (''ed25519 public key must be 32 bytes, got '' @ show_nat (length key)))) (\<lambda>_.
     msp_require (length sig = 64)
       (SignatureError (''ed25519 signature must be 64 bytes, got '' @ show_nat (length sig))))"

definition signature_parse :: "msp_env \<Rightarrow> string \<Rightarrow> msp_error + parsed_signature" where
  "signature_parse V v =
     (case split_on (CHR '':'') v of
        [] \<Rightarrow> Err (SignatureError ''missing signature algorithm'')
      | a # rest \<Rightarrow>
        res_bind (algorithm_from_str a) (\<lambda>algorithm.
        case rest of
          [] \<Rightarrow> Err (SignatureError ''missing signature public key'')
        | [_] \<Rightarrow> Err (SignatureError ''missing signature bytes'')
        | k # s # extra \<Rightarrow>
          if extra \<noteq> []
          then Err (SignatureError
            ''signature must have format ed25519:<base64-public-key>:<base64-signature>'')
          else
            res_bind (map_err (\<lambda>e. SignatureError (''invalid signature public key: '' @ e)) (me_b64_decode V k)) (\<lambda>key.
            res_bind (map_err (\<lambda>e. SignatureError (''invalid signature bytes: '' @ e)) (me_b64_decode V s)) (\<lambda>sig.
            res_bind (check_lengths key sig) (\<lambda>_.
            Ok \<lparr>ps_algorithm = algorithm, ps_public_key = key, ps_signature = sig\<rparr>)))))"

definition encode_ed25519 :: "msp_env \<Rightarrow> bytes \<Rightarrow> bytes \<Rightarrow> msp_error + string" where
  "encode_ed25519 V key sig =
     res_bind (check_lengths key sig) (\<lambda>_. Ok (''ed25519:'' @ me_b64_encode V key @ '':'' @ me_b64_encode V sig))"

definition sign_ed25519_bytes :: "msp_env \<Rightarrow> bytes \<Rightarrow> bytes \<Rightarrow> msp_error + string" where
  "sign_ed25519_bytes V content seed =
     res_bind (msp_require (length seed = 32)
       (SignatureError (''ed25519 signing seed must be 32 bytes, got '' @ show_nat (length seed)))) (\<lambda>_.
     encode_ed25519 V (me_ed_public V seed) (me_ed_sign V seed content))"

record signature_result =
  sg_artifact :: string
  sg_signed :: bool
  sg_algorithm :: "signature_algorithm option"
  sg_public_key_ref :: "string option"
  sg_public_key_sha256 :: "string option"
  sg_passed :: bool
  sg_reasons :: "string list"

definition unparsed_result :: "string \<Rightarrow> bool \<Rightarrow> string \<Rightarrow> signature_result" where
  "unparsed_result artifact is_signed reason =
     \<lparr>sg_artifact = artifact, sg_signed = is_signed, sg_algorithm = None, sg_public_key_ref = None,
      sg_public_key_sha256 = None, sg_passed = False, sg_reasons = [reason]\<rparr>"

definition parsed_result ::
    "msp_env \<Rightarrow> string \<Rightarrow> bool \<Rightarrow> parsed_signature \<Rightarrow> bool \<Rightarrow> string list \<Rightarrow> signature_result" where
  "parsed_result V artifact is_signed p passed reasons =
     \<lparr>sg_artifact = artifact, sg_signed = is_signed, sg_algorithm = Some (ps_algorithm p),
      sg_public_key_ref = Some (public_key_ref V p), sg_public_key_sha256 = Some (public_key_sha256_ref V p),
      sg_passed = passed, sg_reasons = reasons\<rparr>"

definition verify_signature_bytes ::
    "msp_env \<Rightarrow> string \<Rightarrow> bytes \<Rightarrow> bool \<Rightarrow> string option \<Rightarrow> string list \<Rightarrow> signature_result" where
  "verify_signature_bytes V artifact content is_signed signature allowed_algorithms =
     (if \<not> is_signed then unparsed_result artifact is_signed ''artifact is marked unsigned''
      else case signature of
        None \<Rightarrow> unparsed_result artifact is_signed ''artifact is marked signed but no signature is present''
      | Some s \<Rightarrow>
        (case signature_parse V s of
           Err e \<Rightarrow> unparsed_result artifact is_signed (msp_error_text V e)
         | Ok p \<Rightarrow>
           if allowed_algorithms \<noteq> [] \<and> policy_name (ps_algorithm p) \<notin> set allowed_algorithms
           then parsed_result V artifact is_signed p False
             [''signature algorithm '' @ policy_name (ps_algorithm p) @ '' is not allowed by policy'']
           else case me_ed_key V (ps_public_key p) of
             Err e \<Rightarrow> parsed_result V artifact is_signed p False [''invalid ed25519 public key: '' @ e]
           | Ok _ \<Rightarrow>
             (case me_ed_verify V (ps_public_key p) content (ps_signature p) of
                Ok _ \<Rightarrow> parsed_result V artifact is_signed p True []
              | Err e \<Rightarrow> parsed_result V artifact is_signed p False [''signature verification failed: '' @ e])))"

definition verify_signature_file ::
    "msp_env \<Rightarrow> string \<Rightarrow> bool \<Rightarrow> string option \<Rightarrow> string list \<Rightarrow> msp_error + signature_result" where
  "verify_signature_file V path is_signed signature allowed_algorithms =
     res_bind (me_read V path) (\<lambda>content.
     Ok (verify_signature_bytes V path content is_signed signature allowed_algorithms))"

section \<open>Policies\<close>

datatype trust_action = TrustAllow | TrustDeny | RequireReview | RequireApproval

record trusted_registry =
  tg_id :: string
  tg_uri :: string
  tg_trust_anchor :: "string option"

record trusted_issuer =
  ti_id :: string
  ti_public_key_ref :: "string option"
  ti_allowed_risk_levels :: "risk_level list"

definition default_allowed_risk_levels :: "risk_level list" where
  "default_allowed_risk_levels = [Low, Medium]"

record signature_policy =
  sp_require_signed_skills :: bool
  sp_require_signed_packs :: bool
  sp_allowed_algorithms :: "string list"

definition signature_policy_default :: signature_policy where
  "signature_policy_default =
     \<lparr>sp_require_signed_skills = True, sp_require_signed_packs = True, sp_allowed_algorithms = [''ed25519'']\<rparr>"

record risk_policy =
  rp_max_auto_load_risk :: "risk_level option"
  rp_require_review_for :: "risk_level list"
  rp_deny_risk_levels :: "risk_level list"

definition risk_policy_default :: risk_policy where
  "risk_policy_default =
     \<lparr>rp_max_auto_load_risk = None, rp_require_review_for = [High, Critical], rp_deny_risk_levels = []\<rparr>"

record dependency_policy =
  dy_allow_transitive_dependencies :: bool
  dy_require_explicit_dependency_graph :: bool
  dy_deny_cycles :: bool
  dy_require_dependency_trust_verification :: bool

definition dependency_policy_default :: dependency_policy where
  "dependency_policy_default =
     \<lparr>dy_allow_transitive_dependencies = True, dy_require_explicit_dependency_graph = True,
      dy_deny_cycles = True, dy_require_dependency_trust_verification = True\<rparr>"

record telemetry_policy =
  ty_allow_execution_reports :: bool
  ty_allow_failure_reports :: bool
  ty_allow_content_upload :: bool
  ty_redact_paths :: bool

record trust_rule =
  tu_id :: string
  tu_effect :: trust_action
  tu_match_clause :: "json table"
  tu_reason :: "string option"

record trust_policy =
  tp_msp_version :: string
  tp_policy_version :: string
  tp_kind :: string
  tp_id :: string
  tp_name :: string
  tp_default_action :: trust_action
  tp_trusted_registries :: "trusted_registry list"
  tp_trusted_issuers :: "trusted_issuer list"
  tp_signature :: "signature_policy option"
  tp_risk :: "risk_policy option"
  tp_rules :: "trust_rule list"
  tp_forbidden_behaviors :: "string list"
  tp_dependency_policy :: "dependency_policy option"
  tp_telemetry_policy :: "telemetry_policy option"

definition default_forbidden_behaviors :: "string list" where
  "default_forbidden_behaviors =
     [''override_host_policy'', ''override_user_policy'', ''grant_tool_permissions'',
      ''silently_load_dependencies'', ''alter_memory_policy'', ''alter_identity_policy'']"

record trust_evaluation =
  te_skill_id :: string
  te_action :: trust_action
  te_allowed :: bool
  te_reasons :: "string list"
  te_warnings :: "string list"
  te_matched_rules :: "string list"

definition validate_trust_policy :: "trust_policy \<Rightarrow> msp_error + unit" where
  "validate_trust_policy P =
     res_bind (msp_require (tp_kind P = ''SkillTrustPolicy'')
       (TrustError (''expected kind SkillTrustPolicy, got '' @ tp_kind P))) (\<lambda>_.
     msp_require (trim (tp_id P) \<noteq> [] \<and> trim (tp_name P) \<noteq> [])
       (TrustError ''trust policy id and name must be non-empty''))"

fun precedence :: "trust_action \<Rightarrow> nat" where
  "precedence TrustAllow = 0"
| "precedence RequireReview = 1"
| "precedence RequireApproval = 2"
| "precedence TrustDeny = 3"

text \<open>The action and the reasons gathered so far.\<close>

definition push_decision :: "trust_action \<Rightarrow> string \<Rightarrow> trust_action \<times> string list \<Rightarrow> trust_action \<times> string list" where
  "push_decision candidate reason = (\<lambda>(current, reasons).
     (if precedence candidate > precedence current then candidate else current, reasons @ [reason]))"

fun risk_level_name :: "risk_level \<Rightarrow> string" where
  "risk_level_name Low = ''low''"
| "risk_level_name Medium = ''medium''"
| "risk_level_name High = ''high''"
| "risk_level_name Critical = ''critical''"

text \<open>The derived \<open>Debug\<close>.\<close>

fun risk_level_debug :: "risk_level \<Rightarrow> string" where
  "risk_level_debug Low = ''Low''"
| "risk_level_debug Medium = ''Medium''"
| "risk_level_debug High = ''High''"
| "risk_level_debug Critical = ''Critical''"

definition parse_risk_level :: "string \<Rightarrow> risk_level option" where
  "parse_risk_level v =
     (if v = ''low'' then Some Low else if v = ''medium'' then Some Medium
      else if v = ''high'' then Some High else if v = ''critical'' then Some Critical else None)"

text \<open>The clauses of a rule that skills and packs share.\<close>

definition as_bool_value :: "json \<Rightarrow> bool option" where
  "as_bool_value v = (case v of JBool b \<Rightarrow> Some b | _ \<Rightarrow> None)"

definition str_satisfies :: "json \<Rightarrow> (string \<Rightarrow> bool) \<Rightarrow> bool" where
  "str_satisfies v P = (case as_str v of None \<Rightarrow> False | Some s \<Rightarrow> P s)"

definition common_clause :: "string \<Rightarrow> trust_metadata \<Rightarrow> string \<Rightarrow> json \<Rightarrow> bool" where
  "common_clause category trust key expected =
     (if key = ''issuer'' then as_str expected = Some (tm_issuer trust)
      else if key = ''category'' then as_str expected = Some category
      else if key = ''category_prefix'' then str_satisfies expected (\<lambda>prefix. starts_with prefix category)
      else if key = ''risk_level'' \<or> key = ''risk''
      then str_satisfies expected (\<lambda>risk. risk = risk_level_name (tm_risk_level trust))
      else if key = ''risk_at_least''
      then (case Option.bind (as_str expected) parse_risk_level of
              None \<Rightarrow> False | Some risk \<Rightarrow> risk \<le> tm_risk_level trust)
      else if key = ''signed'' then as_bool_value expected = Some (tm_signed trust)
      else False)"

definition rule_matches :: "trust_rule \<Rightarrow> skill_manifest \<Rightarrow> bool" where
  "rule_matches r m =
     list_all (\<lambda>(key, expected).
       if key = ''id'' \<or> key = ''skill_id'' then as_str expected = Some (sm_id m)
       else if key = ''permission''
       then str_satisfies expected (\<lambda>p. p \<in> set (rq_permissions (sm_requirements m)))
       else if key = ''permissions_all''
       then (case as_array expected of None \<Rightarrow> False
             | Some items \<Rightarrow> list_all (\<lambda>p. p \<in> set (rq_permissions (sm_requirements m))) (List.map_filter as_str items))
       else if key = ''permissions_any''
       then (case as_array expected of None \<Rightarrow> False
             | Some items \<Rightarrow> list_ex (\<lambda>p. p \<in> set (rq_permissions (sm_requirements m))) (List.map_filter as_str items))
       else common_clause (sm_category m) (sm_trust m) key expected) (tu_match_clause r)"

definition rule_matches_pack :: "trust_rule \<Rightarrow> pack_manifest \<Rightarrow> bool" where
  "rule_matches_pack r m =
     list_all (\<lambda>(key, expected).
       if key = ''id'' \<or> key = ''pack_id'' then as_str expected = Some (pm_id m)
       else common_clause (pm_category m) (pm_trust m) key expected) (tu_match_clause r)"

text \<open>The steps the two evaluations share; \<open>what\<close> is \<open>skill\<close> or \<open>pack\<close>.\<close>

definition review_step :: "string \<Rightarrow> trust_metadata \<Rightarrow> trust_action \<times> string list \<Rightarrow> trust_action \<times> string list" where
  "review_step what trust =
     (case tm_review_status trust of
        RevokedReview \<Rightarrow> push_decision TrustDeny (what @ '' review status is revoked'')
      | DeprecatedReview \<Rightarrow> push_decision RequireReview (what @ '' review status is deprecated'')
      | _ \<Rightarrow> id)"

definition when_do :: "bool \<Rightarrow> ('a \<Rightarrow> 'a) \<Rightarrow> 'a \<Rightarrow> 'a" where
  "when_do b f = (if b then f else id)"

definition risk_step :: "risk_policy option \<Rightarrow> trust_metadata \<Rightarrow> trust_action \<times> string list \<Rightarrow> trust_action \<times> string list" where
  "risk_step risk trust =
     (case risk of None \<Rightarrow> id | Some R \<Rightarrow>
        (case rp_max_auto_load_risk R of None \<Rightarrow> id | Some m \<Rightarrow>
           when_do (m < tm_risk_level trust) (push_decision RequireReview
             (''risk level '' @ risk_level_debug (tm_risk_level trust) @ '' exceeds max_auto_load_risk '' @ risk_level_debug m))) \<circ>
        when_do (tm_risk_level trust \<in> set (rp_require_review_for R)) (push_decision RequireReview
          (''risk level '' @ risk_level_debug (tm_risk_level trust) @ '' requires review by policy'')) \<circ>
        when_do (tm_risk_level trust \<in> set (rp_deny_risk_levels R)) (push_decision TrustDeny
          (''risk level '' @ risk_level_debug (tm_risk_level trust) @ '' is denied by policy'')))"

definition signature_step ::
    "string \<Rightarrow> bool \<Rightarrow> trust_metadata \<Rightarrow> trust_action \<times> string list \<Rightarrow> trust_action \<times> string list" where
  "signature_step what required trust =
     when_do (required \<and> \<not> tm_signed trust) (push_decision RequireApproval
       (''policy requires signed '' @ what @ ''s but '' @ what @ '' is unsigned''))"

definition issuer_step :: "trusted_issuer list \<Rightarrow> trust_metadata \<Rightarrow> trust_action \<times> string list \<Rightarrow> trust_action \<times> string list" where
  "issuer_step issuers trust =
     (if issuers = [] then id
      else case find (\<lambda>i. ti_id i = tm_issuer trust) issuers of
        Some i \<Rightarrow>
          when_do (ti_allowed_risk_levels i \<noteq> [] \<and> tm_risk_level trust \<notin> set (ti_allowed_risk_levels i))
            (push_decision RequireApproval
              (''issuer '' @ ti_id i @ '' is trusted but not for risk level '' @ risk_level_debug (tm_risk_level trust)))
      | None \<Rightarrow> push_decision RequireApproval (''issuer '' @ tm_issuer trust @ '' is not trusted by policy''))"

definition rule_step ::
    "(trust_rule \<Rightarrow> bool) \<Rightarrow> trust_rule \<Rightarrow> trust_action \<times> string list \<Rightarrow> trust_action \<times> string list" where
  "rule_step matches r =
     when_do (matches r) (push_decision (tu_effect r)
       (case tu_reason r of Some t \<Rightarrow> t | None \<Rightarrow> ''matched trust policy rule '' @ tu_id r))"

definition decide ::
    "trust_policy \<Rightarrow> string \<Rightarrow> bool \<Rightarrow> (trust_rule \<Rightarrow> bool) \<Rightarrow> trust_metadata \<Rightarrow> trust_action \<times> string list" where
  "decide P what require_signed matches trust =
     fold (rule_step matches) (tp_rules P)
       (issuer_step (tp_trusted_issuers P) trust
         (signature_step what require_signed trust
           (risk_step (tp_risk P) trust
             (review_step what trust (tp_default_action P, [])))))"

definition requires_signed_skills :: "trust_policy \<Rightarrow> bool" where
  "requires_signed_skills P = (case tp_signature P of None \<Rightarrow> False | Some s \<Rightarrow> sp_require_signed_skills s)"

definition requires_signed_packs :: "trust_policy \<Rightarrow> bool" where
  "requires_signed_packs P = (case tp_signature P of None \<Rightarrow> False | Some s \<Rightarrow> sp_require_signed_packs s)"

definition evaluate_skill :: "trust_policy \<Rightarrow> skill_manifest \<Rightarrow> trust_evaluation" where
  "evaluate_skill P m =
     (case decide P ''skill'' (requires_signed_skills P) (\<lambda>r. rule_matches r m) (sm_trust m) of
        (action, reasons) \<Rightarrow>
        \<lparr>te_skill_id = sm_id m, te_action = action, te_allowed = (action = TrustAllow), te_reasons = reasons,
         te_warnings = map (\<lambda>b. ''skill does not explicitly forbid policy behavior: '' @ b)
           (filter (\<lambda>b. b \<notin> set (tm_forbidden_behaviors (sm_trust m))) (tp_forbidden_behaviors P)),
         te_matched_rules = map tu_id (filter (\<lambda>r. rule_matches r m) (tp_rules P))\<rparr>)"

definition evaluate_pack :: "trust_policy \<Rightarrow> pack_manifest \<Rightarrow> trust_evaluation" where
  "evaluate_pack P m =
     (case decide P ''pack'' (requires_signed_packs P) (\<lambda>r. rule_matches_pack r m) (pm_trust m) of
        (action, reasons) \<Rightarrow>
        \<lparr>te_skill_id = pm_id m, te_action = action, te_allowed = (action = TrustAllow), te_reasons = reasons,
         te_warnings = [],
         te_matched_rules = map tu_id (filter (\<lambda>r. rule_matches_pack r m) (tp_rules P))\<rparr>)"

section \<open>What an evaluation decides\<close>

text \<open>The action stays below a strength exactly where everything pushed does.\<close>

lemma push_below [simp]:
  "precedence (fst (push_decision c r x)) < n \<longleftrightarrow> precedence c < n \<and> precedence (fst x) < n"
  by (cases x) (auto simp: push_decision_def)

lemma when_below [simp]:
  "precedence (fst (when_do b (push_decision c r) x)) < n \<longleftrightarrow> (b \<longrightarrow> precedence c < n) \<and> precedence (fst x) < n"
  by (cases b) (simp_all add: when_do_def)

lemma review_below:
  "precedence (fst (review_step what trust x)) < n \<longleftrightarrow> precedence (fst x) < n \<and>
     (tm_review_status trust = RevokedReview \<longrightarrow> 3 < n) \<and> (tm_review_status trust = DeprecatedReview \<longrightarrow> 1 < n)"
  by (cases "tm_review_status trust") (auto simp: review_step_def)

definition risk_denied :: "trust_policy \<Rightarrow> trust_metadata \<Rightarrow> bool" where
  "risk_denied P trust = (case tp_risk P of None \<Rightarrow> False | Some R \<Rightarrow> tm_risk_level trust \<in> set (rp_deny_risk_levels R))"

definition risk_reviewed :: "trust_policy \<Rightarrow> trust_metadata \<Rightarrow> bool" where
  "risk_reviewed P trust = (case tp_risk P of None \<Rightarrow> False | Some R \<Rightarrow>
     tm_risk_level trust \<in> set (rp_require_review_for R) \<or>
     (case rp_max_auto_load_risk R of None \<Rightarrow> False | Some m \<Rightarrow> m < tm_risk_level trust))"

lemma risk_below:
  "precedence (fst (risk_step (tp_risk P) trust x)) < n \<longleftrightarrow> precedence (fst x) < n \<and>
     (risk_denied P trust \<longrightarrow> 3 < n) \<and> (risk_reviewed P trust \<longrightarrow> 1 < n)"
  by (auto simp: risk_step_def risk_denied_def risk_reviewed_def split: option.split)

text \<open>An issuer is accepted where the first entry of its name takes the risk level.\<close>

definition issuer_accepted :: "trust_policy \<Rightarrow> trust_metadata \<Rightarrow> bool" where
  "issuer_accepted P trust \<longleftrightarrow> tp_trusted_issuers P = [] \<or>
     (\<exists>i. find (\<lambda>i. ti_id i = tm_issuer trust) (tp_trusted_issuers P) = Some i \<and>
        (ti_allowed_risk_levels i = [] \<or> tm_risk_level trust \<in> set (ti_allowed_risk_levels i)))"

lemma issuer_below:
  "precedence (fst (issuer_step (tp_trusted_issuers P) trust x)) < n \<longleftrightarrow> precedence (fst x) < n \<and>
     (\<not> issuer_accepted P trust \<longrightarrow> 2 < n)"
  by (auto simp: issuer_step_def issuer_accepted_def split: option.split)

lemma rules_below:
  "precedence (fst (fold (rule_step matches) rs x)) < n \<longleftrightarrow> precedence (fst x) < n \<and>
     (\<forall>r \<in> set rs. matches r \<longrightarrow> precedence (tu_effect r) < n)"
  by (induction rs arbitrary: x) (auto simp: rule_step_def)

lemma decide_below:
  "precedence (fst (decide P what required matches trust)) < n \<longleftrightarrow>
     precedence (tp_default_action P) < n \<and>
     (tm_review_status trust = RevokedReview \<longrightarrow> 3 < n) \<and> (tm_review_status trust = DeprecatedReview \<longrightarrow> 1 < n) \<and>
     (risk_denied P trust \<longrightarrow> 3 < n) \<and> (risk_reviewed P trust \<longrightarrow> 1 < n) \<and>
     (required \<and> \<not> tm_signed trust \<longrightarrow> 2 < n) \<and> (\<not> issuer_accepted P trust \<longrightarrow> 2 < n) \<and>
     (\<forall>r \<in> set (tp_rules P). matches r \<longrightarrow> precedence (tu_effect r) < n)"
  unfolding decide_def rules_below issuer_below signature_step_def when_below risk_below review_below
  by auto

lemma precedence_levels:
  "precedence a < 1 \<longleftrightarrow> a = TrustAllow" "precedence a < 3 \<longleftrightarrow> a \<noteq> TrustDeny"
  by (cases a; simp)+

lemmas decide_allow = decide_below [where n = 1, unfolded precedence_levels]
lemmas decide_not_deny = decide_below [where n = 3, unfolded precedence_levels]

text \<open>More rules never weaken the action.\<close>

lemma decide_more_rules:
  "precedence (fst (decide P what required matches trust)) \<le>
   precedence (fst (decide (P\<lparr>tp_rules := tp_rules P @ rs\<rparr>) what required matches trust))"
proof -
  let ?P = "P\<lparr>tp_rules := tp_rules P @ rs\<rparr>"
  let ?n = "Suc (precedence (fst (decide ?P what required matches trust)))"
  have "precedence (fst (decide ?P what required matches trust)) < ?n" by simp
  then have "precedence (fst (decide P what required matches trust)) < ?n"
    unfolding decide_below by (simp add: risk_denied_def risk_reviewed_def issuer_accepted_def)
  then show ?thesis by simp
qed

lemma evaluate_skill_fields:
  "te_action (evaluate_skill P m) = fst (decide P ''skill'' (requires_signed_skills P) (\<lambda>r. rule_matches r m) (sm_trust m))"
  "te_allowed (evaluate_skill P m) \<longleftrightarrow> te_action (evaluate_skill P m) = TrustAllow"
  by (simp_all add: evaluate_skill_def split: prod.split)

lemma evaluate_pack_fields:
  "te_action (evaluate_pack P m) = fst (decide P ''pack'' (requires_signed_packs P) (\<lambda>r. rule_matches_pack r m) (pm_trust m))"
  "te_allowed (evaluate_pack P m) \<longleftrightarrow> te_action (evaluate_pack P m) = TrustAllow"
  by (simp_all add: evaluate_pack_def split: prod.split)

section \<open>What a signature result says\<close>

lemma check_lengths_Ok [simp]: "check_lengths k s = Ok u \<longleftrightarrow> length k = 32 \<and> length s = 64"
  by (auto simp: check_lengths_def res_bind_Ok_iff)

lemma algorithm_from_str_Ok [simp]: "algorithm_from_str v = Ok a \<longleftrightarrow> v = ''ed25519''"
  by (cases a) (simp add: algorithm_from_str_def)

lemma signature_parse_Ok:
  "signature_parse V v = Ok p \<longleftrightarrow> (\<exists>k s. split_on (CHR '':'') v = [''ed25519'', k, s] \<and>
     me_b64_decode V k = Ok (ps_public_key p) \<and> me_b64_decode V s = Ok (ps_signature p) \<and>
     length (ps_public_key p) = 32 \<and> length (ps_signature p) = 64)"
proof -
  have alg: "ps_algorithm p = Ed25519" "a = Ed25519" for a by (cases "ps_algorithm p"; simp) (cases a; simp)
  show ?thesis
  proof (cases "split_on (CHR '':'') v" rule: list.exhaust)
    case (Cons a rest)
    show ?thesis
    proof (cases rest rule: list.exhaust)
      case (Cons k rest')
      with \<open>split_on (CHR '':'') v = a # rest\<close> show ?thesis
        by (cases p; cases rest')
          (auto simp: signature_parse_def res_bind_Ok_iff map_err_Ok_iff intro: signature_algorithm.exhaust)
    qed (use Cons in \<open>auto simp: signature_parse_def res_bind_Ok_iff\<close>)
  qed (simp add: signature_parse_def)
qed

text \<open>A verification passes exactly where a well-formed signature of an allowed algorithm
  verifies under the key it carries.\<close>

definition signature_valid :: "msp_env \<Rightarrow> bytes \<Rightarrow> string option \<Rightarrow> string list \<Rightarrow> bool" where
  "signature_valid V content signature allowed_algorithms \<longleftrightarrow>
     (\<exists>s p. signature = Some s \<and> signature_parse V s = Ok p \<and>
        (allowed_algorithms = [] \<or> ''ed25519'' \<in> set allowed_algorithms) \<and>
        is_ok (me_ed_key V (ps_public_key p)) \<and> is_ok (me_ed_verify V (ps_public_key p) content (ps_signature p)))"

lemma verify_signature_passed:
  "sg_passed (verify_signature_bytes V artifact content is_signed signature allowed_algorithms) \<longleftrightarrow>
     is_signed \<and> signature_valid V content signature allowed_algorithms"
proof (cases "is_signed \<and> (\<exists>s p. signature = Some s \<and> signature_parse V s = Ok p)")
  case True
  then obtain s p where s: "signature = Some s" "signature_parse V s = Ok p" by blast
  have "policy_name (ps_algorithm p) = ''ed25519''" by (cases "ps_algorithm p") simp
  then show ?thesis using True s
    by (auto simp: verify_signature_bytes_def signature_valid_def parsed_result_def is_ok_iff split: sum.splits)
next
  case False
  then show ?thesis
    by (cases is_signed; cases signature)
      (auto simp: verify_signature_bytes_def signature_valid_def unparsed_result_def split: sum.splits)
qed

text \<open>Signing and verifying fit together, for base64 that decodes what it encoded and writes no
  colon, and Ed25519 that accepts its own signatures.\<close>

definition signing_ok :: "msp_env \<Rightarrow> bool" where
  "signing_ok V \<longleftrightarrow>
     (\<forall>b. me_b64_decode V (me_b64_encode V b) = Ok b \<and> CHR '':'' \<notin> set (me_b64_encode V b)) \<and>
     (\<forall>seed content. length seed = 32 \<longrightarrow>
        length (me_ed_public V seed) = 32 \<and> length (me_ed_sign V seed content) = 64 \<and>
        is_ok (me_ed_key V (me_ed_public V seed)) \<and>
        is_ok (me_ed_verify V (me_ed_public V seed) content (me_ed_sign V seed content)))"

lemma split_on_append: "d \<notin> set p \<Longrightarrow> split_on d (p @ d # r) = p # split_on d r"
  by (induction p) auto

lemma sign_then_parse:
  assumes "signing_ok V" and "length seed = 32"
  shows "\<exists>s p. sign_ed25519_bytes V content seed = Ok s \<and> signature_parse V s = Ok p \<and>
    ps_public_key p = me_ed_public V seed \<and> ps_signature p = me_ed_sign V seed content"
proof -
  let ?k = "me_b64_encode V (me_ed_public V seed)" and ?s = "me_b64_encode V (me_ed_sign V seed content)"
  from assms have len: "length (me_ed_public V seed) = 32" "length (me_ed_sign V seed content) = 64"
    and b64: "me_b64_decode V (me_b64_encode V b) = Ok b" "CHR '':'' \<notin> set (me_b64_encode V b)" for b
    by (simp_all add: signing_ok_def)
  have "sign_ed25519_bytes V content seed = Ok (''ed25519'' @ CHR '':'' # ?k @ CHR '':'' # ?s)"
    using assms(2) len by (simp add: sign_ed25519_bytes_def encode_ed25519_def check_lengths_def msp_require_def)
  moreover have "split_on (CHR '':'') (''ed25519'' @ CHR '':'' # ?k @ CHR '':'' # ?s) = [''ed25519'', ?k, ?s]"
    by (simp add: split_on_append [OF b64(2)] split_on_no_sep [OF b64(2)])
  ultimately show ?thesis
    using b64(1) len
    by (intro exI [of _ "''ed25519'' @ CHR '':'' # ?k @ CHR '':'' # ?s"]
        exI [of _ "\<lparr>ps_algorithm = Ed25519, ps_public_key = me_ed_public V seed, ps_signature = me_ed_sign V seed content\<rparr>"])
      (simp add: signature_parse_Ok)
qed

lemma sign_then_verify:
  assumes "signing_ok V" and "length seed = 32"
    and "allowed_algorithms = [] \<or> ''ed25519'' \<in> set allowed_algorithms"
  shows "\<exists>s. sign_ed25519_bytes V content seed = Ok s \<and>
    sg_passed (verify_signature_bytes V artifact content True (Some s) allowed_algorithms)"
proof -
  from sign_then_parse [OF assms(1,2), of content] obtain s p where
    sp: "sign_ed25519_bytes V content seed = Ok s" "signature_parse V s = Ok p"
      "ps_public_key p = me_ed_public V seed" "ps_signature p = me_ed_sign V seed content" by blast
  moreover have "is_ok (me_ed_key V (ps_public_key p))" "is_ok (me_ed_verify V (ps_public_key p) content (ps_signature p))"
    using assms(1,2) sp(3,4) by (simp_all add: signing_ok_def)
  ultimately show ?thesis using assms(3) by (auto simp: verify_signature_passed signature_valid_def)
qed

end
