(* ===== verification/Msp_Registry.thy ===== *)
theory Msp_Registry
  imports Msp_Trust
begin

text \<open>
  The local registry of components/msp/crates/msp-registry/src/lib.rs: the index of the
  manifests under a root, the paths a manifest may name, the verification of a skill's body and
  of a pack's manifest, the evaluation of a trust policy on them, and the members of a pack.
\<close>

section \<open>The registry\<close>

record registry_skill =
  rs_path :: string
  rs_manifest :: skill_manifest

record registry_pack =
  rk_path :: string
  rk_manifest :: pack_manifest

record local_registry =
  lr_root :: string
  lr_skills :: "registry_skill table"
  lr_packs :: "registry_pack table"

definition registry_empty :: "string \<Rightarrow> local_registry" where
  "registry_empty root = \<lparr>lr_root = root, lr_skills = [], lr_packs = []\<rparr>"

text \<open>A file of the tree is indexed by its name; what was indexed stays when a later one fails.\<close>

definition index_file :: "msp_env \<Rightarrow> string \<Rightarrow> local_registry \<Rightarrow> (msp_error + unit) \<times> local_registry" where
  "index_file V path R =
     (if path_file_name path = Some ''skill.manifest.json''
      then (case skill_from_path V path of
              Err e \<Rightarrow> (Err e, R)
            | Ok m \<Rightarrow> (Ok (), R\<lparr>lr_skills := tbl_put (sm_id m) \<lparr>rs_path = path, rs_manifest = m\<rparr> (lr_skills R)\<rparr>))
      else if path_file_name path = Some ''pack.manifest.json''
      then (case pack_from_path V path of
              Err e \<Rightarrow> (Err e, R)
            | Ok m \<Rightarrow> (Ok (), R\<lparr>lr_packs := tbl_put (pm_id m) \<lparr>rk_path = path, rk_manifest = m\<rparr> (lr_packs R)\<rparr>))
      else (Ok (), R))"

fun index_files :: "msp_env \<Rightarrow> string list \<Rightarrow> local_registry \<Rightarrow> (msp_error + unit) \<times> local_registry" where
  "index_files V [] R = (Ok (), R)"
| "index_files V (p # ps) R =
     (case index_file V p R of (Err e, R') \<Rightarrow> (Err e, R') | (Ok _, R') \<Rightarrow> index_files V ps R')"

definition reindex :: "msp_env \<Rightarrow> local_registry \<Rightarrow> (msp_error + unit) \<times> local_registry" where
  "reindex V R =
     (let R0 = R\<lparr>lr_skills := [], lr_packs := []\<rparr>
      in if \<not> me_exists V (lr_root R) then (Ok (), R0) else index_files V (me_walk V (lr_root R)) R0)"

definition registry_open :: "msp_env \<Rightarrow> string \<Rightarrow> msp_error + local_registry" where
  "registry_open V root =
     (case reindex V (registry_empty root) of (Err e, _) \<Rightarrow> Err e | (Ok _, R) \<Rightarrow> Ok R)"

definition find_skill :: "local_registry \<Rightarrow> string \<Rightarrow> msp_error + registry_skill" where
  "find_skill R i = ok_or (SkillNotFound i) (tbl_get i (lr_skills R))"

definition find_pack :: "local_registry \<Rightarrow> string \<Rightarrow> msp_error + registry_pack" where
  "find_pack R i = ok_or (PackNotFound i) (tbl_get i (lr_packs R))"

definition get_manifest :: "local_registry \<Rightarrow> string \<Rightarrow> msp_error + skill_manifest" where
  "get_manifest R i = res_bind (find_skill R i) (\<lambda>s. Ok (rs_manifest s))"

definition get_pack_manifest :: "local_registry \<Rightarrow> string \<Rightarrow> msp_error + pack_manifest" where
  "get_pack_manifest R i = res_bind (find_pack R i) (\<lambda>s. Ok (rk_manifest s))"

section \<open>Paths\<close>

text \<open>What the two resolutions check before they join; \<open>what\<close> starts the message.\<close>

definition relative_uri :: "string \<Rightarrow> string \<Rightarrow> string \<Rightarrow> msp_error + unit" where
  "relative_uri what where_to uri =
     res_bind (msp_require (\<not> (str_contains ''://'' uri \<or> starts_with ''file:'' uri))
       (InvalidRequest (what @ '' must be a relative path, got '' @ uri))) (\<lambda>_.
     res_bind (msp_require (\<not> path_is_absolute uri)
       (InvalidRequest (what @ '' must not be absolute: '' @ uri))) (\<lambda>_.
     msp_require (\<not> list_ex (\<lambda>c. c = ParentDir \<or> c = RootDir) (path_components uri))
       (InvalidRequest (what @ '' must not escape '' @ where_to @ '': '' @ uri))))"

definition inside_root :: "msp_env \<Rightarrow> local_registry \<Rightarrow> string \<Rightarrow> string \<Rightarrow> msp_error + unit" where
  "inside_root V R what candidate =
     (let root = (case me_canonicalize V (lr_root R) of Some r \<Rightarrow> r | None \<Rightarrow> lr_root R)
      in case me_canonicalize V candidate of
           Some c \<Rightarrow> msp_require (path_starts_with c root)
             (InvalidRequest (''resolved '' @ what @ '' path escapes registry root: '' @ c))
         | None \<Rightarrow> Ok ())"

definition resolve_registry_relative_path :: "msp_env \<Rightarrow> local_registry \<Rightarrow> string \<Rightarrow> msp_error + string" where
  "resolve_registry_relative_path V R uri =
     res_bind (relative_uri ''local registry URI'' ''the registry root'' uri) (\<lambda>_.
     let candidate = path_join (lr_root R) uri
     in res_bind (inside_root V R ''registry'' candidate) (\<lambda>_. Ok candidate))"

definition resolve_artifact_path :: "msp_env \<Rightarrow> local_registry \<Rightarrow> string \<Rightarrow> string \<Rightarrow> msp_error + string" where
  "resolve_artifact_path V R manifest_path uri =
     res_bind (relative_uri ''local registry artifact URI'' ''its manifest directory'' uri) (\<lambda>_.
     let base = (case path_parent manifest_path of Some p \<Rightarrow> p | None \<Rightarrow> lr_root R);
         candidate = path_join base uri
     in res_bind (inside_root V R ''artifact'' candidate) (\<lambda>_. Ok candidate))"

section \<open>Loading a skill\<close>

record skill_load =
  sl_manifest :: skill_manifest
  sl_body :: string
  sl_body_hash_valid :: bool
  sl_verification_contract :: "json option"
  sl_dependency_ids :: "string list"

text \<open>\<open>contract\<close> reads a contract and gives it as a JSON value.\<close>

definition load_skill ::
    "msp_env \<Rightarrow> (string \<Rightarrow> msp_error + json) \<Rightarrow> local_registry \<Rightarrow> string \<Rightarrow> msp_error + skill_load" where
  "load_skill V contract R i =
     res_bind (find_skill R i) (\<lambda>skill.
     let artifacts = sm_artifacts (rs_manifest skill); expected = ar_hash (sa_body artifacts)
     in res_bind (resolve_artifact_path V R (rs_path skill) (ar_uri (sa_body artifacts))) (\<lambda>body_path.
        res_bind (read_text V body_path) (\<lambda>body.
        res_bind (digest_from_file V body_path (hd_algorithm expected)) (\<lambda>actual.
        res_bind (msp_require (actual = expected)
          (HashMismatch body_path (digest_text expected) (digest_text actual))) (\<lambda>_.
        res_bind (case sa_verification_contract artifacts of
            None \<Rightarrow> Ok None
          | Some a \<Rightarrow> res_bind (resolve_artifact_path V R (rs_path skill) (ar_uri a)) (\<lambda>path.
              res_bind (contract path) (\<lambda>v. Ok (Some v)))) (\<lambda>verification_contract.
        Ok \<lparr>sl_manifest = rs_manifest skill, sl_body = body, sl_body_hash_valid = True,
          sl_verification_contract = verification_contract,
          sl_dependency_ids = map sd_id (sm_dependencies (rs_manifest skill))\<rparr>))))))"

section \<open>Verifying trust\<close>

record trust_verify =
  tv_artifact :: string
  tv_expected_hash :: string
  tv_actual_hash :: string
  tv_hash_passed :: bool
  tv_signature :: "signature_result option"
  tv_passed :: bool

definition trust_result ::
    "string \<Rightarrow> hash_digest \<Rightarrow> hash_digest \<Rightarrow> signature_result option \<Rightarrow> trust_verify" where
  "trust_result artifact expected actual signature =
     \<lparr>tv_artifact = artifact, tv_expected_hash = digest_text expected, tv_actual_hash = digest_text actual,
      tv_hash_passed = (actual = expected), tv_signature = signature,
      tv_passed = (actual = expected \<and> (case signature of None \<Rightarrow> True | Some s \<Rightarrow> sg_passed s))\<rparr>"

definition verify_skill_manifest_trust ::
    "msp_env \<Rightarrow> local_registry \<Rightarrow> registry_skill \<Rightarrow> hash_digest \<Rightarrow> string list \<Rightarrow> msp_error + trust_verify" where
  "verify_skill_manifest_trust V R skill expected allowed_algorithms =
     (let trust = sm_trust (rs_manifest skill)
      in res_bind (resolve_artifact_path V R (rs_path skill) (ar_uri (sa_body (sm_artifacts (rs_manifest skill))))) (\<lambda>path.
         res_bind (digest_from_file V path (hd_algorithm expected)) (\<lambda>actual.
         res_bind (if tm_signed trust
             then res_bind (verify_signature_file V path (tm_signed trust) (tm_signature trust) allowed_algorithms) (\<lambda>s. Ok (Some s))
             else Ok None) (\<lambda>signature.
         Ok (trust_result path expected actual signature)))))"

definition clear_pack_trust_proof_fields :: "msp_env \<Rightarrow> trust_metadata \<Rightarrow> trust_metadata" where
  "clear_pack_trust_proof_fields V trust =
     trust\<lparr>tm_hash := digest_from_bytes V (hd_algorithm (tm_hash trust)) [], tm_signed := False, tm_signature := None\<rparr>"

definition canonical_pack_trust_bytes :: "msp_env \<Rightarrow> pack_manifest \<Rightarrow> msp_error + bytes" where
  "canonical_pack_trust_bytes V m = me_pack_json V (m\<lparr>pm_trust := clear_pack_trust_proof_fields V (pm_trust m)\<rparr>)"

definition verify_pack_manifest_trust ::
    "msp_env \<Rightarrow> registry_pack \<Rightarrow> string list \<Rightarrow> msp_error + trust_verify" where
  "verify_pack_manifest_trust V pack allowed_algorithms =
     (let trust = pm_trust (rk_manifest pack)
      in res_bind (canonical_pack_trust_bytes V (rk_manifest pack)) (\<lambda>content.
         Ok (trust_result (rk_path pack) (tm_hash trust) (digest_from_bytes V (hd_algorithm (tm_hash trust)) content)
           (if tm_signed trust
            then Some (verify_signature_bytes V (rk_path pack) content (tm_signed trust) (tm_signature trust) allowed_algorithms)
            else None))))"

definition policy_algorithms :: "trust_policy \<Rightarrow> string list" where
  "policy_algorithms P = (case tp_signature P of None \<Rightarrow> [] | Some s \<Rightarrow> sp_allowed_algorithms s)"

definition verify_trust_with_allowed_algorithms ::
    "msp_env \<Rightarrow> local_registry \<Rightarrow> string \<Rightarrow> string list \<Rightarrow> msp_error + trust_verify" where
  "verify_trust_with_allowed_algorithms V R i allowed_algorithms =
     res_bind (find_skill R i) (\<lambda>skill.
     verify_skill_manifest_trust V R skill (tm_hash (sm_trust (rs_manifest skill))) allowed_algorithms)"

definition verify_trust :: "msp_env \<Rightarrow> local_registry \<Rightarrow> string \<Rightarrow> msp_error + trust_verify" where
  "verify_trust V R i = verify_trust_with_allowed_algorithms V R i [''ed25519'']"

definition verify_trust_with_policy ::
    "msp_env \<Rightarrow> local_registry \<Rightarrow> string \<Rightarrow> trust_policy \<Rightarrow> msp_error + trust_verify" where
  "verify_trust_with_policy V R i P = verify_trust_with_allowed_algorithms V R i (policy_algorithms P)"

definition verify_body_artifact :: "msp_env \<Rightarrow> local_registry \<Rightarrow> string \<Rightarrow> msp_error + trust_verify" where
  "verify_body_artifact V R i =
     res_bind (find_skill R i) (\<lambda>skill.
     verify_skill_manifest_trust V R skill (ar_hash (sa_body (sm_artifacts (rs_manifest skill)))) [''ed25519''])"

definition verify_pack_trust_with_allowed_algorithms ::
    "msp_env \<Rightarrow> local_registry \<Rightarrow> string \<Rightarrow> string list \<Rightarrow> msp_error + trust_verify" where
  "verify_pack_trust_with_allowed_algorithms V R i allowed_algorithms =
     res_bind (find_pack R i) (\<lambda>pack. verify_pack_manifest_trust V pack allowed_algorithms)"

definition verify_pack_trust :: "msp_env \<Rightarrow> local_registry \<Rightarrow> string \<Rightarrow> msp_error + trust_verify" where
  "verify_pack_trust V R i = verify_pack_trust_with_allowed_algorithms V R i [''ed25519'']"

definition verify_pack_trust_with_policy ::
    "msp_env \<Rightarrow> local_registry \<Rightarrow> string \<Rightarrow> trust_policy \<Rightarrow> msp_error + trust_verify" where
  "verify_pack_trust_with_policy V R i P = verify_pack_trust_with_allowed_algorithms V R i (policy_algorithms P)"

section \<open>Evaluating a policy\<close>

definition require_approval :: "string list \<Rightarrow> trust_evaluation \<Rightarrow> trust_evaluation" where
  "require_approval reasons ev =
     ev\<lparr>te_allowed := False, te_action := RequireApproval, te_reasons := te_reasons ev @ reasons\<rparr>"

definition hash_reasons :: "string \<Rightarrow> trust_verify \<Rightarrow> string list" where
  "hash_reasons label v =
     (if tv_hash_passed v then []
      else [label @ ''hash verification failed: expected '' @ tv_expected_hash v @ '', got '' @ tv_actual_hash v])"

definition signature_reasons :: "trust_verify \<Rightarrow> string list" where
  "signature_reasons v = (case tv_signature v of None \<Rightarrow> [] | Some s \<Rightarrow> sg_reasons s)"

definition signature_requirement ::
    "string \<Rightarrow> string \<Rightarrow> bool \<Rightarrow> trust_verify \<Rightarrow> trust_evaluation \<Rightarrow> trust_evaluation" where
  "signature_requirement what label required v ev =
     (if required \<and> \<not> tv_passed v
      then require_approval ((''policy requires signed '' @ what @ ''s but cryptographic verification failed'') #
        hash_reasons label v @ signature_reasons v) ev
      else ev)"

definition key_matches :: "string \<Rightarrow> signature_result \<Rightarrow> bool" where
  "key_matches expected s \<longleftrightarrow> sg_public_key_ref s = Some expected \<or> sg_public_key_sha256 s = Some expected"

definition actual_key :: "signature_result \<Rightarrow> string" where
  "actual_key s =
     (case sg_public_key_ref s of Some k \<Rightarrow> k | None \<Rightarrow>
        (case sg_public_key_sha256 s of Some k \<Rightarrow> k | None \<Rightarrow> ''<unknown>''))"

definition key_binding ::
    "string \<Rightarrow> string \<Rightarrow> trust_policy \<Rightarrow> string \<Rightarrow> trust_verify \<Rightarrow> trust_evaluation \<Rightarrow> trust_evaluation" where
  "key_binding what label P issuer v ev =
     (case find (\<lambda>t. ti_id t = issuer) (tp_trusted_issuers P) of
        None \<Rightarrow> ev
      | Some t \<Rightarrow>
        (case ti_public_key_ref t of
           None \<Rightarrow> ev
         | Some expected \<Rightarrow>
           (case tv_signature v of
              None \<Rightarrow> require_approval [''issuer '' @ ti_id t @ '' requires public key binding '' @ expected @
                '' but '' @ what @ '' is unsigned''] ev
            | Some s \<Rightarrow>
              let ev1 = (if tv_passed v then ev
                    else require_approval ((''issuer '' @ ti_id t @ '' public key binding requires successful '' @ label @
                      ''trust verification'') # hash_reasons label v @ sg_reasons s) ev)
              in if key_matches expected s then ev1
                 else require_approval [''issuer '' @ ti_id t @ '' public key binding mismatch: expected '' @ expected @
                   '', got '' @ actual_key s] ev1)))"

definition evaluate_issuer_key_binding ::
    "trust_policy \<Rightarrow> registry_skill \<Rightarrow> trust_verify \<Rightarrow> trust_evaluation \<Rightarrow> trust_evaluation" where
  "evaluate_issuer_key_binding P skill = key_binding ''skill'' '''' P (tm_issuer (sm_trust (rs_manifest skill)))"

definition evaluate_pack_issuer_key_binding ::
    "trust_policy \<Rightarrow> registry_pack \<Rightarrow> trust_verify \<Rightarrow> trust_evaluation \<Rightarrow> trust_evaluation" where
  "evaluate_pack_issuer_key_binding P pack = key_binding ''pack'' ''pack '' P (tm_issuer (pm_trust (rk_manifest pack)))"

definition binding_required :: "trust_policy \<Rightarrow> string \<Rightarrow> bool" where
  "binding_required P issuer = list_ex (\<lambda>t. ti_id t = issuer \<and> ti_public_key_ref t \<noteq> None) (tp_trusted_issuers P)"

definition evaluate_trust_policy ::
    "msp_env \<Rightarrow> local_registry \<Rightarrow> trust_policy \<Rightarrow> string \<Rightarrow> msp_error + trust_evaluation" where
  "evaluate_trust_policy V R P i =
     res_bind (find_skill R i) (\<lambda>skill.
     let ev = evaluate_skill P (rs_manifest skill)
     in if requires_signed_skills P \<or> binding_required P (tm_issuer (sm_trust (rs_manifest skill)))
        then res_bind (verify_trust_with_policy V R i P) (\<lambda>v.
          Ok (evaluate_issuer_key_binding P skill v (signature_requirement ''skill'' '''' (requires_signed_skills P) v ev)))
        else Ok ev)"

definition evaluate_pack_trust_policy ::
    "msp_env \<Rightarrow> local_registry \<Rightarrow> trust_policy \<Rightarrow> string \<Rightarrow> msp_error + trust_evaluation" where
  "evaluate_pack_trust_policy V R P i =
     res_bind (find_pack R i) (\<lambda>pack.
     let ev = evaluate_pack P (rk_manifest pack)
     in if requires_signed_packs P \<or> binding_required P (tm_issuer (pm_trust (rk_manifest pack)))
        then res_bind (verify_pack_trust_with_policy V R i P) (\<lambda>v.
          Ok (evaluate_pack_issuer_key_binding P pack v (signature_requirement ''pack'' ''pack '' (requires_signed_packs P) v ev)))
        else Ok ev)"

section \<open>The members of a pack\<close>

record member_node =
  mn_id :: string
  mn_expected_version :: string
  mn_manifest_uri :: string
  mn_required :: bool
  mn_role :: "string option"
  mn_resolved_path :: "string option"
  mn_exists :: bool
  mn_indexed :: bool
  mn_id_matches :: bool
  mn_version_matches :: bool
  mn_trust_evaluation :: "trust_evaluation option"
  mn_valid :: bool
  mn_reasons :: "string list"
  mn_warnings :: "string list"

record members_result =
  mb_pack_id :: string
  mb_valid :: bool
  mb_members :: "member_node list"
  mb_missing :: "string list"
  mb_duplicate_ids :: "string list"
  mb_reasons :: "string list"
  mb_warnings :: "string list"

definition member_start :: "pack_skill_ref \<Rightarrow> member_node" where
  "member_start m =
     \<lparr>mn_id = pr_id m, mn_expected_version = pr_version m, mn_manifest_uri = pr_manifest_uri m,
      mn_required = pr_required m, mn_role = pr_role m, mn_resolved_path = None, mn_exists = False,
      mn_indexed = False, mn_id_matches = False, mn_version_matches = False, mn_trust_evaluation = None,
      mn_valid = True, mn_reasons = [], mn_warnings = []\<rparr>"

definition member_fails :: "string list \<Rightarrow> member_node \<Rightarrow> member_node" where
  "member_fails reasons n = n\<lparr>mn_valid := False, mn_reasons := mn_reasons n @ reasons\<rparr>"

definition member_identity :: "pack_skill_ref \<Rightarrow> skill_manifest \<Rightarrow> member_node \<Rightarrow> member_node" where
  "member_identity m manifest =
     when_do (sm_version manifest \<noteq> pr_version m) (member_fails [''pack member '' @ pr_id m @ '' version mismatch: expected '' @
       pr_version m @ '', got '' @ sm_version manifest]) \<circ>
     when_do (sm_id manifest \<noteq> pr_id m) (member_fails [''pack member id mismatch for '' @ pr_id m @
       '': manifest contains '' @ sm_id manifest]) \<circ>
     (\<lambda>n. n\<lparr>mn_id_matches := (sm_id manifest = pr_id m), mn_version_matches := (sm_version manifest = pr_version m)\<rparr>)"

definition member_index :: "msp_env \<Rightarrow> local_registry \<Rightarrow> pack_skill_ref \<Rightarrow> string \<Rightarrow> member_node \<Rightarrow> member_node" where
  "member_index V R m path n =
     (case tbl_get (pr_id m) (lr_skills R) of
        None \<Rightarrow> member_fails [''pack member '' @ pr_id m @ '' is not indexed in the local registry''] n
      | Some indexed \<Rightarrow>
        let n1 = n\<lparr>mn_indexed := True\<rparr>
        in (case (me_canonicalize V path, me_canonicalize V (rs_path indexed)) of
              (Some expected, Some actual) \<Rightarrow>
              if path_components expected \<noteq> path_components actual
              then member_fails [''pack member '' @ pr_id m @ '' manifest URI resolves to '' @ expected @
                '', but registry index points to '' @ actual] n1
              else n1
            | _ \<Rightarrow> n1))"

fun action_debug :: "trust_action \<Rightarrow> string" where
  "action_debug TrustAllow = ''Allow''"
| "action_debug TrustDeny = ''Deny''"
| "action_debug RequireReview = ''RequireReview''"
| "action_debug RequireApproval = ''RequireApproval''"

definition member_trust :: "msp_env \<Rightarrow> local_registry \<Rightarrow> trust_policy option \<Rightarrow> pack_skill_ref \<Rightarrow> member_node \<Rightarrow> member_node" where
  "member_trust V R policy m n =
     (case policy of
        None \<Rightarrow> n
      | Some P \<Rightarrow>
        (case evaluate_trust_policy V R P (pr_id m) of
           Err e \<Rightarrow> member_fails [''failed to evaluate trust for pack member '' @ pr_id m @ '': '' @ msp_error_text V e] n
         | Ok ev \<Rightarrow>
           let n1 = (if te_allowed ev then n
                 else member_fails ((''pack member '' @ pr_id m @ '' is not allowed by policy: '' @ action_debug (te_action ev)) #
                   te_reasons ev) n)
           in n1\<lparr>mn_warnings := mn_warnings n1 @ te_warnings ev, mn_trust_evaluation := Some ev\<rparr>))"

text \<open>The node of a member, and the id to report missing.\<close>

definition validate_member ::
    "msp_env \<Rightarrow> local_registry \<Rightarrow> trust_policy option \<Rightarrow> pack_skill_ref \<Rightarrow> member_node \<times> string list" where
  "validate_member V R policy m =
     (case resolve_registry_relative_path V R (pr_manifest_uri m) of
        Err e \<Rightarrow> (member_fails [''invalid manifest_uri for pack member '' @ pr_id m @ '': '' @ msp_error_text V e] (member_start m), [])
      | Ok path \<Rightarrow>
        let n = (member_start m)\<lparr>mn_resolved_path := Some path, mn_exists := me_is_file V path\<rparr>
        in if \<not> me_is_file V path
           then (if pr_required m
                 then (member_fails [''required pack member '' @ pr_id m @ '' manifest is missing at '' @ path] n, [pr_id m])
                 else (n\<lparr>mn_warnings := mn_warnings n @ [''optional pack member '' @ pr_id m @ '' manifest is missing at '' @ path]\<rparr>, []))
           else (case skill_from_path V path of
                   Err e \<Rightarrow> (member_fails [''failed to load pack member '' @ pr_id m @ '' manifest at '' @ path @ '': '' @
                     msp_error_text V e] n, [])
                 | Ok manifest \<Rightarrow> (member_trust V R policy m (member_index V R m path (member_identity m manifest n)), [])))"

text \<open>One member and the ids seen before it.\<close>

definition add_member ::
    "msp_env \<Rightarrow> local_registry \<Rightarrow> trust_policy option \<Rightarrow> pack_skill_ref \<Rightarrow>
     string set \<times> members_result \<Rightarrow> string set \<times> members_result" where
  "add_member V R policy m = (\<lambda>(seen, r).
     (let r1 = (if pr_id m \<in> seen
            then r\<lparr>mb_duplicate_ids := mb_duplicate_ids r @ [pr_id m],
                   mb_reasons := mb_reasons r @ [''pack declares duplicate member id '' @ pr_id m]\<rparr>
            else r);
          (n, missing) = validate_member V R policy m;
          r2 = r1\<lparr>mb_missing := mb_missing r1 @ missing\<rparr>;
          r3 = (if mn_valid n then r2 else r2\<lparr>mb_valid := False, mb_reasons := mb_reasons r2 @ mn_reasons n\<rparr>)
      in (insert (pr_id m) seen,
          r3\<lparr>mb_warnings := mb_warnings r3 @ mn_warnings n, mb_members := mb_members r3 @ [n]\<rparr>)))"

definition validate_pack_members_with_policy ::
    "msp_env \<Rightarrow> local_registry \<Rightarrow> string \<Rightarrow> trust_policy option \<Rightarrow> msp_error + members_result" where
  "validate_pack_members_with_policy V R i policy =
     res_bind (find_pack R i) (\<lambda>pack.
     let r = snd (fold (add_member V R policy) (pm_skills (rk_manifest pack))
           ({}, \<lparr>mb_pack_id = i, mb_valid = True, mb_members = [], mb_missing = [], mb_duplicate_ids = [],
             mb_reasons = [], mb_warnings = []\<rparr>))
     in Ok (if mb_duplicate_ids r \<noteq> [] then r\<lparr>mb_valid := False\<rparr> else r))"

section \<open>Lookups and paths\<close>

lemma find_skill_Ok [simp]: "find_skill R i = Ok s \<longleftrightarrow> tbl_get i (lr_skills R) = Some s"
  by (cases "tbl_get i (lr_skills R)") (simp_all add: find_skill_def)

lemma find_pack_Ok [simp]: "find_pack R i = Ok s \<longleftrightarrow> tbl_get i (lr_packs R) = Some s"
  by (cases "tbl_get i (lr_packs R)") (simp_all add: find_pack_def)

text \<open>A resolved path is below its base, and where it exists below the root.\<close>

definition stays_inside :: "msp_env \<Rightarrow> local_registry \<Rightarrow> string \<Rightarrow> bool" where
  "stays_inside V R path \<longleftrightarrow>
     (\<forall>c. me_canonicalize V path = Some c \<longrightarrow>
        path_starts_with c (case me_canonicalize V (lr_root R) of Some r \<Rightarrow> r | None \<Rightarrow> lr_root R))"

lemma inside_root_Ok: "inside_root V R what path = Ok u \<longleftrightarrow> stays_inside V R path"
  by (auto simp: inside_root_def stays_inside_def split: option.splits)

lemma resolve_artifact_path_Ok:
  "resolve_artifact_path V R manifest_path uri = Ok path \<Longrightarrow>
     stays_inside V R path \<and> ParentDir \<notin> set (path_components uri) \<and> \<not> path_is_absolute uri \<and>
     path = path_join (case path_parent manifest_path of Some p \<Rightarrow> p | None \<Rightarrow> lr_root R) uri"
  by (auto simp: resolve_artifact_path_def relative_uri_def Let_def res_bind_Ok_iff inside_root_Ok list_ex_iff)

lemma resolve_registry_relative_path_Ok:
  "resolve_registry_relative_path V R uri = Ok path \<Longrightarrow>
     stays_inside V R path \<and> ParentDir \<notin> set (path_components uri) \<and> \<not> path_is_absolute uri \<and>
     path = path_join (lr_root R) uri"
  by (auto simp: resolve_registry_relative_path_def relative_uri_def Let_def res_bind_Ok_iff inside_root_Ok list_ex_iff)

lemma load_skill_body:
  assumes "load_skill V contract R i = Ok l"
  shows "\<exists>s path. tbl_get i (lr_skills R) = Some s \<and> sl_manifest l = rs_manifest s \<and>
    resolve_artifact_path V R (rs_path s) (ar_uri (sa_body (sm_artifacts (rs_manifest s)))) = Ok path \<and>
    me_read V path = Ok (sl_body l) \<and> utf8_ok (sl_body l) \<and>
    ar_hash (sa_body (sm_artifacts (rs_manifest s))) =
      digest_from_bytes V (hd_algorithm (ar_hash (sa_body (sm_artifacts (rs_manifest s))))) (sl_body l)"
  using assms
  by (auto simp: load_skill_def Let_def res_bind_Ok_iff digest_from_file_def read_text_def split: if_splits)

section \<open>What an evaluation allows\<close>

text \<open>A trusted issuer with a key is bound to it: the first entry of its name is the one read.\<close>

definition binding_ok :: "trust_policy \<Rightarrow> string \<Rightarrow> trust_verify \<Rightarrow> bool" where
  "binding_ok P issuer v \<longleftrightarrow>
     (\<forall>t expected. find (\<lambda>t. ti_id t = issuer) (tp_trusted_issuers P) = Some t \<longrightarrow> ti_public_key_ref t = Some expected \<longrightarrow>
        tv_passed v \<and> (\<exists>s. tv_signature v = Some s \<and> key_matches expected s))"

definition proof_ok :: "trust_policy \<Rightarrow> bool \<Rightarrow> string \<Rightarrow> msp_error + trust_verify \<Rightarrow> bool" where
  "proof_ok P required issuer verification \<longleftrightarrow>
     (required \<or> binding_required P issuer \<longrightarrow>
        (\<exists>v. verification = Ok v \<and> (required \<longrightarrow> tv_passed v) \<and> binding_ok P issuer v))"

definition consistent :: "trust_evaluation \<Rightarrow> bool" where
  "consistent ev \<longleftrightarrow> (te_allowed ev \<longleftrightarrow> te_action ev = TrustAllow)"

lemma require_approval_simps [simp]:
  "\<not> te_allowed (require_approval r ev)" "te_action (require_approval r ev) = RequireApproval"
  by (simp_all add: require_approval_def)

lemma signature_requirement_allowed:
  "te_allowed (signature_requirement what label required v ev) \<longleftrightarrow> te_allowed ev \<and> (required \<longrightarrow> tv_passed v)"
  "consistent ev \<Longrightarrow> consistent (signature_requirement what label required v ev)"
  by (auto simp: signature_requirement_def consistent_def)

text \<open>A denied skill whose verification fails is left to an approval.\<close>

lemma deny_becomes_approvable:
  "te_action ev = TrustDeny \<Longrightarrow> required \<Longrightarrow> \<not> tv_passed v \<Longrightarrow>
   te_action (signature_requirement what label required v ev) = RequireApproval"
  by (simp add: signature_requirement_def)

lemma key_binding_allowed:
  "te_allowed (key_binding what label P issuer v ev) \<longleftrightarrow> te_allowed ev \<and> binding_ok P issuer v"
  by (auto simp: key_binding_def binding_ok_def Let_def split: option.splits)

lemma key_binding_consistent:
  "consistent ev \<Longrightarrow> consistent (key_binding what label P issuer v ev)"
  by (auto simp: key_binding_def consistent_def Let_def split: option.splits)

lemma evaluate_skill_consistent [simp]: "consistent (evaluate_skill P m)" "consistent (evaluate_pack P m')"
  by (simp_all add: consistent_def evaluate_skill_fields evaluate_pack_fields)

lemma evaluate_trust_policy_allowed:
  assumes "evaluate_trust_policy V R P i = Ok ev" and "tbl_get i (lr_skills R) = Some s"
  shows "te_allowed ev \<longleftrightarrow> te_allowed (evaluate_skill P (rs_manifest s)) \<and>
      proof_ok P (requires_signed_skills P) (tm_issuer (sm_trust (rs_manifest s))) (verify_trust_with_policy V R i P)"
    and "consistent ev"
  using assms
  by (auto simp: evaluate_trust_policy_def Let_def res_bind_Ok_iff proof_ok_def evaluate_issuer_key_binding_def
      key_binding_allowed signature_requirement_allowed split: if_splits
      intro!: key_binding_consistent signature_requirement_allowed(2))

lemma evaluate_pack_trust_policy_allowed:
  assumes "evaluate_pack_trust_policy V R P i = Ok ev" and "tbl_get i (lr_packs R) = Some s"
  shows "te_allowed ev \<longleftrightarrow> te_allowed (evaluate_pack P (rk_manifest s)) \<and>
      proof_ok P (requires_signed_packs P) (tm_issuer (pm_trust (rk_manifest s))) (verify_pack_trust_with_policy V R i P)"
    and "consistent ev"
  using assms
  by (auto simp: evaluate_pack_trust_policy_def Let_def res_bind_Ok_iff proof_ok_def evaluate_pack_issuer_key_binding_def
      key_binding_allowed signature_requirement_allowed split: if_splits
      intro!: key_binding_consistent signature_requirement_allowed(2))

text \<open>What a passed verification says of the file and the manifest.\<close>

lemma verify_trust_passed:
  assumes "verify_trust_with_allowed_algorithms V R i algorithms = Ok v" and "tbl_get i (lr_skills R) = Some s"
  shows "\<exists>path content. resolve_artifact_path V R (rs_path s) (ar_uri (sa_body (sm_artifacts (rs_manifest s)))) = Ok path \<and>
    me_read V path = Ok content \<and>
    (tv_passed v \<longleftrightarrow>
       tm_hash (sm_trust (rs_manifest s)) = digest_from_bytes V (hd_algorithm (tm_hash (sm_trust (rs_manifest s)))) content \<and>
       (tm_signed (sm_trust (rs_manifest s)) \<longrightarrow>
          signature_valid V content (tm_signature (sm_trust (rs_manifest s))) algorithms))"
  using assms
  by (auto simp: verify_trust_with_allowed_algorithms_def verify_skill_manifest_trust_def Let_def res_bind_Ok_iff
      digest_from_file_def verify_signature_file_def trust_result_def verify_signature_passed split: if_splits)

text \<open>The decision of a skill evaluation, spelled out.\<close>

lemma skill_allowed_parts:
  assumes "evaluate_trust_policy V R P i = Ok ev" and "tbl_get i (lr_skills R) = Some s"
  shows "te_allowed ev \<longleftrightarrow>
      tp_default_action P = TrustAllow \<and>
      tm_review_status (sm_trust (rs_manifest s)) \<noteq> RevokedReview \<and> tm_review_status (sm_trust (rs_manifest s)) \<noteq> DeprecatedReview \<and>
      \<not> risk_denied P (sm_trust (rs_manifest s)) \<and> \<not> risk_reviewed P (sm_trust (rs_manifest s)) \<and>
      \<not> (requires_signed_skills P \<and> \<not> tm_signed (sm_trust (rs_manifest s))) \<and>
      issuer_accepted P (sm_trust (rs_manifest s)) \<and>
      (\<forall>r \<in> set (tp_rules P). rule_matches r (rs_manifest s) \<longrightarrow> tu_effect r = TrustAllow) \<and>
      proof_ok P (requires_signed_skills P) (tm_issuer (sm_trust (rs_manifest s))) (verify_trust_with_policy V R i P)"
    and "te_allowed ev \<longleftrightarrow> te_action ev = TrustAllow"
    and "requires_signed_skills P \<Longrightarrow> te_allowed ev \<Longrightarrow>
      \<exists>path content. resolve_artifact_path V R (rs_path s) (ar_uri (sa_body (sm_artifacts (rs_manifest s)))) = Ok path \<and>
        stays_inside V R path \<and> me_read V path = Ok content \<and>
        tm_hash (sm_trust (rs_manifest s)) = digest_from_bytes V (hd_algorithm (tm_hash (sm_trust (rs_manifest s)))) content \<and>
        signature_valid V content (tm_signature (sm_trust (rs_manifest s))) (policy_algorithms P)"
proof -
  note allowed = evaluate_trust_policy_allowed [OF assms]
  show iff: "te_allowed ev \<longleftrightarrow>
      tp_default_action P = TrustAllow \<and>
      tm_review_status (sm_trust (rs_manifest s)) \<noteq> RevokedReview \<and> tm_review_status (sm_trust (rs_manifest s)) \<noteq> DeprecatedReview \<and>
      \<not> risk_denied P (sm_trust (rs_manifest s)) \<and> \<not> risk_reviewed P (sm_trust (rs_manifest s)) \<and>
      \<not> (requires_signed_skills P \<and> \<not> tm_signed (sm_trust (rs_manifest s))) \<and>
      issuer_accepted P (sm_trust (rs_manifest s)) \<and>
      (\<forall>r \<in> set (tp_rules P). rule_matches r (rs_manifest s) \<longrightarrow> tu_effect r = TrustAllow) \<and>
      proof_ok P (requires_signed_skills P) (tm_issuer (sm_trust (rs_manifest s))) (verify_trust_with_policy V R i P)"
    using decide_allow [of P "''skill''" "requires_signed_skills P" "\<lambda>r. rule_matches r (rs_manifest s)" "sm_trust (rs_manifest s)"]
    unfolding allowed(1) evaluate_skill_fields by auto
  show "te_allowed ev \<longleftrightarrow> te_action ev = TrustAllow" using allowed(2) by (simp add: consistent_def)
  assume req: "requires_signed_skills P" and "te_allowed ev"
  with iff obtain v where v: "verify_trust_with_policy V R i P = Ok v" "tv_passed v" and signed: "tm_signed (sm_trust (rs_manifest s))"
    by (auto simp: proof_ok_def)
  from verify_trust_passed [OF v(1) [unfolded verify_trust_with_policy_def] assms(2)] v(2) signed
  show "\<exists>path content. resolve_artifact_path V R (rs_path s) (ar_uri (sa_body (sm_artifacts (rs_manifest s)))) = Ok path \<and>
        stays_inside V R path \<and> me_read V path = Ok content \<and>
        tm_hash (sm_trust (rs_manifest s)) = digest_from_bytes V (hd_algorithm (tm_hash (sm_trust (rs_manifest s)))) content \<and>
        signature_valid V content (tm_signature (sm_trust (rs_manifest s))) (policy_algorithms P)"
    using resolve_artifact_path_Ok by blast
qed

section \<open>When the members of a pack are valid\<close>

definition member_ok :: "msp_env \<Rightarrow> local_registry \<Rightarrow> trust_policy option \<Rightarrow> pack_skill_ref \<Rightarrow> bool" where
  "member_ok V R policy m \<longleftrightarrow>
     (\<exists>path. resolve_registry_relative_path V R (pr_manifest_uri m) = Ok path \<and>
        (if me_is_file V path
         then \<exists>manifest indexed. skill_from_path V path = Ok manifest \<and> sm_id manifest = pr_id m \<and>
           sm_version manifest = pr_version m \<and> tbl_get (pr_id m) (lr_skills R) = Some indexed \<and>
           (\<forall>a b. me_canonicalize V path = Some a \<longrightarrow> me_canonicalize V (rs_path indexed) = Some b \<longrightarrow>
              path_components a = path_components b) \<and>
           (\<forall>P. policy = Some P \<longrightarrow> (\<exists>ev. evaluate_trust_policy V R P (pr_id m) = Ok ev \<and> te_allowed ev))
         else \<not> pr_required m))"

lemma member_fails_valid [simp]: "\<not> mn_valid (member_fails rs n)"
  by (simp add: member_fails_def)

lemma member_identity_valid:
  "mn_valid (member_identity m manifest n) \<longleftrightarrow>
     mn_valid n \<and> sm_id manifest = pr_id m \<and> sm_version manifest = pr_version m"
  by (simp add: member_identity_def when_do_def)

lemma member_index_valid:
  "mn_valid (member_index V R m path n) \<longleftrightarrow> mn_valid n \<and>
     (\<exists>indexed. tbl_get (pr_id m) (lr_skills R) = Some indexed \<and>
        (\<forall>a b. me_canonicalize V path = Some a \<longrightarrow> me_canonicalize V (rs_path indexed) = Some b \<longrightarrow>
           path_components a = path_components b))"
  by (auto simp: member_index_def Let_def split: option.splits)

lemma member_trust_valid:
  "mn_valid (member_trust V R policy m n) \<longleftrightarrow> mn_valid n \<and>
     (\<forall>P. policy = Some P \<longrightarrow> (\<exists>ev. evaluate_trust_policy V R P (pr_id m) = Ok ev \<and> te_allowed ev))"
  by (auto simp: member_trust_def Let_def split: option.splits sum.splits)

lemma validate_member_valid: "mn_valid (fst (validate_member V R policy m)) \<longleftrightarrow> member_ok V R policy m"
  by (cases "resolve_registry_relative_path V R (pr_manifest_uri m)")
    (auto simp: validate_member_def member_ok_def Let_def member_trust_valid member_index_valid member_identity_valid
      member_start_def split: sum.splits)

lemma add_members:
  "fold (add_member V R policy) ms (seen, r) = (seen', r') \<Longrightarrow>
     seen' = seen \<union> pr_id ` set ms \<and>
     (mb_valid r' \<longleftrightarrow> mb_valid r \<and> (\<forall>m \<in> set ms. member_ok V R policy m)) \<and>
     mb_members r' = mb_members r @ map (\<lambda>m. fst (validate_member V R policy m)) ms \<and>
     (mb_duplicate_ids r' = [] \<longleftrightarrow> mb_duplicate_ids r = [] \<and> distinct (map pr_id ms) \<and> seen \<inter> pr_id ` set ms = {})"
proof (induction ms arbitrary: seen r)
  case (Cons m ms)
  obtain s1 r1 where one: "add_member V R policy m (seen, r) = (s1, r1)" by fastforce
  then have facts: "s1 = insert (pr_id m) seen" "mb_valid r1 \<longleftrightarrow> mb_valid r \<and> member_ok V R policy m"
    "mb_members r1 = mb_members r @ [fst (validate_member V R policy m)]"
    "mb_duplicate_ids r1 = [] \<longleftrightarrow> mb_duplicate_ids r = [] \<and> pr_id m \<notin> seen"
    unfolding validate_member_valid [symmetric]
    by (cases "pr_id m \<in> seen"; cases "validate_member V R policy m"; cases "mn_valid (fst (validate_member V R policy m))";
        force simp: add_member_def Let_def)+
  from Cons.prems one have "fold (add_member V R policy) ms (s1, r1) = (seen', r')" by simp
  from Cons.IH [OF this] facts show ?case by auto
qed simp

lemma validate_pack_members_valid:
  assumes "validate_pack_members_with_policy V R i policy = Ok r" and "tbl_get i (lr_packs R) = Some pack"
  shows "mb_valid r \<longleftrightarrow> distinct (map pr_id (pm_skills (rk_manifest pack))) \<and>
      (\<forall>m \<in> set (pm_skills (rk_manifest pack)). member_ok V R policy m)"
proof -
  let ?start = "\<lparr>mb_pack_id = i, mb_valid = True, mb_members = [], mb_missing = [], mb_duplicate_ids = [],
             mb_reasons = [], mb_warnings = []\<rparr>"
  obtain seen r1 where fin: "fold (add_member V R policy) (pm_skills (rk_manifest pack)) ({}, ?start) = (seen, r1)" by fastforce
  with assms have "r = (if mb_duplicate_ids r1 \<noteq> [] then r1\<lparr>mb_valid := False\<rparr> else r1)"
    by (simp add: validate_pack_members_with_policy_def find_pack_def)
  with add_members [OF fin] show ?thesis by auto
qed

section \<open>What the index holds\<close>

text \<open>Every indexed skill is the manifest read from its file, and its id is its key.\<close>

definition registry_ok :: "msp_env \<Rightarrow> local_registry \<Rightarrow> bool" where
  "registry_ok V R \<longleftrightarrow> tbl_ok (lr_skills R) \<and> tbl_ok (lr_packs R) \<and>
     (\<forall>i s. tbl_get i (lr_skills R) = Some s \<longrightarrow>
        sm_id (rs_manifest s) = i \<and> path_file_name (rs_path s) = Some ''skill.manifest.json'' \<and>
        skill_from_path V (rs_path s) = Ok (rs_manifest s)) \<and>
     (\<forall>i p. tbl_get i (lr_packs R) = Some p \<longrightarrow>
        pm_id (rk_manifest p) = i \<and> path_file_name (rk_path p) = Some ''pack.manifest.json'' \<and>
        pack_from_path V (rk_path p) = Ok (rk_manifest p))"

lemma registry_empty_ok: "registry_ok V (registry_empty root)"
  by (simp add: registry_ok_def registry_empty_def)

lemma index_file_ok: "registry_ok V R \<Longrightarrow> registry_ok V (snd (index_file V path R))"
  by (auto simp: index_file_def registry_ok_def tbl_get_put split: sum.splits if_splits)

lemma index_files_ok: "registry_ok V R \<Longrightarrow> registry_ok V (snd (index_files V ps R))"
proof (induction ps arbitrary: R)
  case (Cons p ps)
  obtain r R1 where one: "index_file V p R = (r, R1)" by fastforce
  with index_file_ok [OF Cons.prems, of p] have "registry_ok V R1" by simp
  with one Cons.IH show ?case by (cases r) auto
qed simp

lemma reindex_ok: "registry_ok V (snd (reindex V R))"
proof -
  have "registry_ok V (R\<lparr>lr_skills := [], lr_packs := []\<rparr>)" by (simp add: registry_ok_def)
  then show ?thesis by (simp add: reindex_def Let_def index_files_ok)
qed

lemma registry_open_ok: "registry_open V root = Ok R \<Longrightarrow> registry_ok V R"
  using reindex_ok [of V "registry_empty root"] by (auto simp: registry_open_def split: prod.splits sum.splits)

text \<open>Where two manifests have the same id, the last one in the walk is the one indexed.\<close>

definition last_skill :: "msp_env \<Rightarrow> string list \<Rightarrow> string \<Rightarrow> registry_skill option" where
  "last_skill V ps i =
     fold (\<lambda>p found. if path_file_name p \<noteq> Some ''skill.manifest.json'' then found
       else case skill_from_path V p of
         Ok m \<Rightarrow> if sm_id m = i then Some \<lparr>rs_path = p, rs_manifest = m\<rparr> else found
       | Err _ \<Rightarrow> found) ps None"

lemma index_files_last:
  assumes "index_files V ps R = (Ok (), R')"
  shows "tbl_get i (lr_skills R') =
    fold (\<lambda>p found. if path_file_name p \<noteq> Some ''skill.manifest.json'' then found
       else case skill_from_path V p of
         Ok m \<Rightarrow> if sm_id m = i then Some \<lparr>rs_path = p, rs_manifest = m\<rparr> else found
       | Err _ \<Rightarrow> found) ps (tbl_get i (lr_skills R))"
  using assms
proof (induction ps arbitrary: R)
  case (Cons p ps)
  from Cons.prems obtain R1 where one: "index_file V p R = (Ok (), R1)" "index_files V ps R1 = (Ok (), R')"
    by (auto split: prod.splits sum.splits)
  have "tbl_get i (lr_skills R1) = (if path_file_name p \<noteq> Some ''skill.manifest.json'' then tbl_get i (lr_skills R)
       else case skill_from_path V p of
         Ok m \<Rightarrow> if sm_id m = i then Some \<lparr>rs_path = p, rs_manifest = m\<rparr> else tbl_get i (lr_skills R)
       | Err _ \<Rightarrow> tbl_get i (lr_skills R))"
    using one(1) by (auto simp: index_file_def tbl_get_put split: sum.splits if_splits)
  with Cons.IH [OF one(2)] show ?case by simp
qed simp

lemma registry_open_last:
  assumes "registry_open V root = Ok R" and "me_exists V root"
  shows "tbl_get i (lr_skills R) = last_skill V (me_walk V root) i"
proof -
  from assms have "index_files V (me_walk V root) (registry_empty root) = (Ok (), R)"
    by (auto simp: registry_open_def reindex_def registry_empty_def split: prod.splits sum.splits)
  from index_files_last [OF this] show ?thesis by (simp add: last_skill_def registry_empty_def)
qed

end
