(* ===== verification/Msp_Semver.thy ===== *)
theory Msp_Semver
  imports Msp_Model "HOL-Library.Product_Lexorder"
begin

text \<open>
  Versions and version requirements, components/msp/crates/msp-registry/src/lib.rs: the parser
  of semantic versions, their order, and the resolution strategies. Components are \<open>u64\<close>
  values, here natural numbers below \<open>2 ^ 64\<close>.
\<close>

section \<open>Parsing\<close>

record semver =
  sv_major :: nat
  sv_minor :: nat
  sv_patch :: nat
  sv_prerelease :: "string option"

text \<open>\<open>str::parse::<u64>\<close> of a text of digits.\<close>

definition parse_u64_digits :: "string \<Rightarrow> nat option" where
  "parse_u64_digits s = (if read_dec s < 2 ^ 64 then Some (read_dec s) else None)"

definition parse_semver_part :: "string option \<Rightarrow> string \<Rightarrow> string \<Rightarrow> string + nat" where
  "parse_semver_part part original n =
     (case part of
        None \<Rightarrow> Err (original @ '' is missing a '' @ n @ '' version component'')
      | Some p \<Rightarrow>
        if p = [] \<or> \<not> list_all is_ascii_digit p
        then Err (original @ '' has an invalid '' @ n @ '' version component'')
        else if length p > 1 \<and> hd p = CHR ''0''
        then Err (original @ '' has a leading-zero '' @ n @ '' version component'')
        else ok_or (original @ '' has an out-of-range '' @ n @ '' version component'') (parse_u64_digits p))"

definition is_numeric_identifier :: "string \<Rightarrow> bool" where
  "is_numeric_identifier v = list_all is_ascii_digit v"

definition validate_identifier :: "string \<Rightarrow> string \<Rightarrow> string + unit" where
  "validate_identifier original i =
     (if i = [] then Err (original @ '' has an empty prerelease identifier'')
      else if \<not> list_all (\<lambda>c. is_ascii_alnum c \<or> c = CHR ''-'') i
      then Err (original @ '' has an invalid prerelease identifier'')
      else if is_numeric_identifier i \<and> length i > 1 \<and> hd i = CHR ''0''
      then Err (original @ '' has a leading-zero numeric prerelease identifier'')
      else Ok ())"

definition validate_prerelease :: "string \<Rightarrow> string \<Rightarrow> string + unit" where
  "validate_prerelease prerelease original =
     (if prerelease = [] then Err (original @ '' has an empty prerelease component'')
      else res_bind (res_map (validate_identifier original) (split_on (CHR ''.'') prerelease)) (\<lambda>_. Ok ()))"

text \<open>The text before the first separator and, if there is one, the text after it.\<close>

definition before_separator :: "char \<Rightarrow> string \<Rightarrow> string \<times> string option" where
  "before_separator c s = (case split_once c s of None \<Rightarrow> (s, None) | Some (p, r) \<Rightarrow> (p, Some r))"

definition list_get :: "'a list \<Rightarrow> nat \<Rightarrow> 'a option" where
  "list_get xs i = (if i < length xs then Some (xs ! i) else None)"

definition semver_parse :: "string \<Rightarrow> string + semver" where
  "semver_parse v =
     (let without_build = fst (before_separator (CHR ''+'') v);
          (core, prerelease) = before_separator (CHR ''-'') without_build;
          parts = split_on (CHR ''.'') core
      in res_bind (parse_semver_part (list_get parts 0) v ''major'') (\<lambda>major.
         res_bind (parse_semver_part (list_get parts 1) v ''minor'') (\<lambda>minor.
         res_bind (parse_semver_part (list_get parts 2) v ''patch'') (\<lambda>patch.
         if length parts > 3 then Err (v @ '' is not a three-part semantic version'')
         else res_bind (case prerelease of None \<Rightarrow> Ok () | Some p \<Rightarrow> validate_prerelease p v) (\<lambda>_.
         Ok \<lparr>sv_major = major, sv_minor = minor, sv_patch = patch, sv_prerelease = prerelease\<rparr>)))))"

section \<open>Order and requirements\<close>

datatype ordering = Less | Equal | Greater

definition cmp :: "'a::linorder \<Rightarrow> 'a \<Rightarrow> ordering" where
  "cmp a b = (if a < b then Less else if a = b then Equal else Greater)"

text \<open>\<open>parse::<u64>().unwrap_or(u64::MAX)\<close>\<close>

definition numeric_value :: "string \<Rightarrow> nat" where
  "numeric_value s = (case parse_u64_digits s of None \<Rightarrow> 2 ^ 64 - 1 | Some n \<Rightarrow> n)"

definition compare_prerelease_identifier :: "string \<Rightarrow> string \<Rightarrow> ordering" where
  "compare_prerelease_identifier left right =
     (if is_numeric_identifier left
      then if is_numeric_identifier right then cmp (numeric_value left) (numeric_value right) else Less
      else if is_numeric_identifier right then Greater else cmp left right)"

fun compare_parts :: "string list \<Rightarrow> string list \<Rightarrow> ordering" where
  "compare_parts (l # ls) (r # rs) =
     (let o1 = compare_prerelease_identifier l r in if o1 \<noteq> Equal then o1 else compare_parts ls rs)"
| "compare_parts (l # ls) [] = Greater"
| "compare_parts [] (r # rs) = Less"
| "compare_parts [] [] = Equal"

definition compare_prerelease :: "string \<Rightarrow> string \<Rightarrow> ordering" where
  "compare_prerelease left right = compare_parts (split_on (CHR ''.'') left) (split_on (CHR ''.'') right)"

definition core_greater :: "semver \<Rightarrow> semver \<Rightarrow> bool" where
  "core_greater a b \<longleftrightarrow> sv_major b < sv_major a \<or>
     (sv_major a = sv_major b \<and> (sv_minor b < sv_minor a \<or>
        (sv_minor a = sv_minor b \<and> sv_patch b < sv_patch a)))"

definition same_core :: "semver \<Rightarrow> semver \<Rightarrow> bool" where
  "same_core a b \<longleftrightarrow> sv_major a = sv_major b \<and> sv_minor a = sv_minor b \<and> sv_patch a = sv_patch b"

definition semver_at_least :: "semver \<Rightarrow> semver \<Rightarrow> bool" where
  "semver_at_least actual required =
     (if \<not> same_core actual required then core_greater actual required
      else case (sv_prerelease actual, sv_prerelease required) of
        (None, _) \<Rightarrow> True
      | (Some _, None) \<Rightarrow> False
      | (Some a, Some r) \<Rightarrow> compare_prerelease a r \<noteq> Less)"

definition compatible_semver_match :: "semver \<Rightarrow> semver \<Rightarrow> bool" where
  "compatible_semver_match required actual =
     (if sv_major actual \<noteq> sv_major required then False
      else if sv_major required > 0 then True
      else if sv_minor actual \<noteq> sv_minor required then False
      else if sv_minor required > 0 then True
      else sv_patch actual = sv_patch required)"

definition version_matches_requirement :: "string \<Rightarrow> string \<Rightarrow> dependency_resolution \<Rightarrow> bool" where
  "version_matches_requirement requirement actual_version resolution =
     (case semver_parse requirement of
        Err _ \<Rightarrow> False
      | Ok required \<Rightarrow>
        (case semver_parse actual_version of
           Err _ \<Rightarrow> False
         | Ok actual \<Rightarrow>
           if sv_prerelease actual \<noteq> None \<and> \<not> dr_allow_prerelease resolution then False
           else if \<not> semver_at_least actual required then False
           else case dr_strategy resolution of
             Exact \<Rightarrow> actual = required
           | Manual \<Rightarrow> actual = required
           | Compatible \<Rightarrow> compatible_semver_match required actual
           | LatestPatch \<Rightarrow> sv_major actual = sv_major required \<and> sv_minor actual = sv_minor required
           | LatestMinor \<Rightarrow> sv_major actual = sv_major required))"

fun strategy_debug :: "resolution_strategy \<Rightarrow> string" where
  "strategy_debug Exact = ''Exact''"
| "strategy_debug Compatible = ''Compatible''"
| "strategy_debug LatestPatch = ''LatestPatch''"
| "strategy_debug LatestMinor = ''LatestMinor''"
| "strategy_debug Manual = ''Manual''"

definition dependency_version_match_error :: "skill_dependency \<Rightarrow> string \<Rightarrow> string \<Rightarrow> string + unit" where
  "dependency_version_match_error d actual_version label =
     (let resolution = (case sd_resolution d of Some r \<Rightarrow> r
          | None \<Rightarrow> \<lparr>dr_strategy = Compatible, dr_allow_prerelease = False\<rparr>)
      in if version_matches_requirement (sd_requirement d) actual_version resolution then Ok ()
         else Err (label @ '' '' @ sd_id d @ '' version mismatch: requirement '' @ sd_requirement d @
           '' with strategy '' @ strategy_debug (dr_strategy resolution) @ '' does not match actual '' @ actual_version))"

section \<open>The order is a total preorder\<close>

text \<open>
  A version is ranked by a key in a linear order, lexicographic on its components: numeric
  identifiers by value and below the others, a prerelease below its release.
\<close>

definition identifier_key :: "string \<Rightarrow> nat \<times> nat \<times> string" where
  "identifier_key i = (if is_numeric_identifier i then (0, numeric_value i, []) else (1, 0, i))"

definition prerelease_key :: "string option \<Rightarrow> nat \<times> (nat \<times> nat \<times> string) list" where
  "prerelease_key p = (case p of None \<Rightarrow> (1, []) | Some t \<Rightarrow> (0, map identifier_key (split_on (CHR ''.'') t)))"

definition semver_key :: "semver \<Rightarrow> nat \<times> nat \<times> nat \<times> nat \<times> (nat \<times> nat \<times> string) list" where
  "semver_key v = (sv_major v, sv_minor v, sv_patch v, prerelease_key (sv_prerelease v))"

lemma cmp_simps [simp]:
  "cmp a b = Equal \<longleftrightarrow> a = b" "cmp a b = Less \<longleftrightarrow> a < b" "cmp a b = Greater \<longleftrightarrow> b < a"
  by (auto simp: cmp_def)

lemma compare_identifier_key:
  "compare_prerelease_identifier l r = cmp (identifier_key l) (identifier_key r)"
  by (simp add: compare_prerelease_identifier_def identifier_key_def cmp_def)

lemma compare_parts_key: "compare_parts ls rs = cmp (map identifier_key ls) (map identifier_key rs)"
proof (induction ls rs rule: compare_parts.induct)
  case (1 l ls r rs)
  then show ?case
    by (cases "identifier_key l < identifier_key r"; cases "identifier_key l = identifier_key r")
      (auto simp: Let_def compare_identifier_key cmp_def)
qed (simp_all add: cmp_def)

lemma compare_prerelease_key:
  "compare_prerelease l r = Less \<longleftrightarrow> prerelease_key (Some l) < prerelease_key (Some r)"
  by (simp add: compare_prerelease_def compare_parts_key prerelease_key_def)

lemma at_least_key: "semver_at_least a r \<longleftrightarrow> semver_key r \<le> semver_key a"
proof (cases "same_core a r")
  case True
  then show ?thesis
    by (cases "sv_prerelease a"; cases "sv_prerelease r")
      (auto simp: semver_at_least_def same_core_def semver_key_def compare_prerelease_key prerelease_key_def not_less)
next
  case False
  then show ?thesis
    by (auto simp: semver_at_least_def same_core_def core_greater_def semver_key_def)
qed

section \<open>What the strategies accept\<close>

text \<open>The strategies are nested on versions that are at least the required one.\<close>

lemma strategies_nested:
  assumes "version_matches_requirement q v \<lparr>dr_strategy = Exact, dr_allow_prerelease = pre\<rparr>"
  shows "version_matches_requirement q v \<lparr>dr_strategy = LatestPatch, dr_allow_prerelease = pre\<rparr>"
    and "version_matches_requirement q v \<lparr>dr_strategy = Compatible, dr_allow_prerelease = pre\<rparr>"
  using assms
  by (auto simp: version_matches_requirement_def compatible_semver_match_def split: sum.splits if_splits)

lemma latest_nested:
  "version_matches_requirement q v \<lparr>dr_strategy = LatestPatch, dr_allow_prerelease = pre\<rparr> \<Longrightarrow>
   version_matches_requirement q v \<lparr>dr_strategy = LatestMinor, dr_allow_prerelease = pre\<rparr>"
  "version_matches_requirement q v \<lparr>dr_strategy = Compatible, dr_allow_prerelease = pre\<rparr> \<Longrightarrow>
   version_matches_requirement q v \<lparr>dr_strategy = LatestMinor, dr_allow_prerelease = pre\<rparr>"
  by (auto simp: version_matches_requirement_def compatible_semver_match_def split: sum.splits if_splits)

text \<open>
  A compatible version lies between the required version and the next one that may break it:
  the next major version, for \<open>0.y.z\<close> the next minor one, for \<open>0.0.z\<close> the next patch.
\<close>

definition next_breaking :: "semver \<Rightarrow> nat \<times> nat \<times> nat" where
  "next_breaking r =
     (if sv_major r > 0 then (sv_major r + 1, 0, 0)
      else if sv_minor r > 0 then (0, sv_minor r + 1, 0)
      else (0, 0, sv_patch r + 1))"

lemma compatible_interval:
  assumes "semver_at_least a r"
  shows "compatible_semver_match r a \<longleftrightarrow> (sv_major a, sv_minor a, sv_patch a) < next_breaking r"
  using assms unfolding at_least_key
  by (auto simp: compatible_semver_match_def next_breaking_def semver_key_def)

section \<open>Versions round-trip\<close>

definition semver_text :: "semver \<Rightarrow> string" where
  "semver_text v = show_nat (sv_major v) @ ''.'' @ show_nat (sv_minor v) @ ''.'' @ show_nat (sv_patch v) @
     (case sv_prerelease v of None \<Rightarrow> [] | Some p \<Rightarrow> ''-'' @ p)"

definition semver_ok :: "semver \<Rightarrow> bool" where
  "semver_ok v \<longleftrightarrow> sv_major v < 2 ^ 64 \<and> sv_minor v < 2 ^ 64 \<and> sv_patch v < 2 ^ 64 \<and>
     (case sv_prerelease v of None \<Rightarrow> True | Some p \<Rightarrow> is_ok (validate_prerelease p []))"

lemma show_nat_leading: "length (show_nat n) > 1 \<Longrightarrow> hd (show_nat n) \<noteq> CHR ''0''"
proof (induction n rule: show_nat.induct)
  case (1 n)
  show ?case
  proof (cases "n < 10")
    case False
    then have step: "show_nat n = show_nat (n div 10) @ [digit_char (n mod 10)]" by (simp add: show_nat.simps [of n])
    show ?thesis
    proof (cases "n div 10 < 10")
      case True
      have "n div 10 \<noteq> 0" using False by simp
      with True have "(of_char (digit_char (n div 10)) :: nat) \<noteq> of_char (CHR ''0'')"
        by (simp add: of_digit_char)
      then have "digit_char (n div 10) \<noteq> CHR ''0''" by metis
      with True step show ?thesis by (simp add: show_nat.simps [of "n div 10"])
    next
      case big: False
      then have "length (show_nat (n div 10)) > 1"
        using show_nat.simps [of "n div 10"] by (simp add: show_nat.simps)
      with 1(1) False step show ?thesis by (cases "show_nat (n div 10)") simp_all
    qed
  qed (use 1(2) in \<open>simp add: show_nat.simps [of n]\<close>)
qed

lemma parse_part_show:
  assumes "n < 2 ^ 64"
  shows "parse_semver_part (Some (show_nat n)) v w = Ok n"
proof -
  have "show_nat n \<noteq> []" by (simp add: show_nat.simps [of n])
  moreover have "list_all is_ascii_digit (show_nat n)" by (auto simp: list_all_iff dest: show_nat_digits)
  ultimately show ?thesis
    using assms show_nat_leading [of n] by (simp add: parse_semver_part_def parse_u64_digits_def read_show_nat)
qed

lemma digit_not: "is_ascii_digit c \<Longrightarrow> c \<noteq> CHR ''.'' \<and> c \<noteq> CHR ''-'' \<and> c \<noteq> CHR ''+''"
  by (auto simp: is_ascii_digit_def)

lemma show_nat_not: "CHR ''.'' \<notin> set (show_nat n)" "CHR ''-'' \<notin> set (show_nat n)" "CHR ''+'' \<notin> set (show_nat n)"
  using show_nat_digits digit_not by blast+

lemma split_join_dot: "d \<notin> set p \<Longrightarrow> split_on d (p @ d # r) = p # split_on d r"
  by (induction p) auto

text \<open>No valid prerelease has a plus sign.\<close>

lemma res_map_ok_all: "is_ok (res_bind (res_map f xs) (\<lambda>_. Ok ())) \<Longrightarrow> x \<in> set xs \<Longrightarrow> is_ok (f x)"
proof (induction xs)
  case (Cons a xs)
  then show ?case by (cases "f a"; cases "res_map f xs") auto
qed simp

lemma split_on_chars: "c \<in> set s \<Longrightarrow> c = d \<or> (\<exists>p \<in> set (split_on d s). c \<in> set p)"
  by (induction d s rule: split_on.induct) (auto split: list.splits)

lemma prerelease_no_plus:
  assumes "is_ok (validate_prerelease p v)"
  shows "CHR ''+'' \<notin> set p"
proof
  assume "CHR ''+'' \<in> set p"
  then obtain i where i: "i \<in> set (split_on (CHR ''.'') p)" "CHR ''+'' \<in> set i"
    using split_on_chars [of "CHR ''+''" p "CHR ''.''"] by auto
  from assms have "p \<noteq> []" "is_ok (res_bind (res_map (validate_identifier v) (split_on (CHR ''.'') p)) (\<lambda>_. Ok ()))"
    by (auto simp: validate_prerelease_def split: if_splits)
  from res_map_ok_all [OF this(2) i(1)] have "list_all (\<lambda>c. is_ascii_alnum c \<or> c = CHR ''-'') i"
    by (auto simp: validate_identifier_def split: if_splits)
  with i(2) show False by (auto simp: list_all_iff is_ascii_alnum_def is_ascii_digit_def)
qed

text \<open>Whether a prerelease is valid does not depend on the version text of the messages.\<close>

lemma validate_identifier_any: "is_ok (validate_identifier v i) = is_ok (validate_identifier w i)"
  by (auto simp: validate_identifier_def)

lemma validate_prerelease_any: "is_ok (validate_prerelease p v) = is_ok (validate_prerelease p w)"
proof -
  have "is_ok (res_bind (res_map (validate_identifier v) xs) (\<lambda>_. Ok ())) =
      is_ok (res_bind (res_map (validate_identifier w) xs) (\<lambda>_. Ok ()))" for xs
  proof (induction xs)
    case (Cons x xs)
    with validate_identifier_any [of v x w] show ?case
      by (cases "validate_identifier v x"; cases "validate_identifier w x";
          cases "res_map (validate_identifier v) xs"; cases "res_map (validate_identifier w) xs") auto
  qed simp
  then show ?thesis by (simp add: validate_prerelease_def)
qed

lemma semver_round_trip:
  assumes "semver_ok v"
  shows "semver_parse (semver_text v) = Ok v"
proof -
  let ?core = "show_nat (sv_major v) @ CHR ''.'' # show_nat (sv_minor v) @ CHR ''.'' # show_nat (sv_patch v)"
  have parts: "split_on (CHR ''.'') ?core = [show_nat (sv_major v), show_nat (sv_minor v), show_nat (sv_patch v)]"
    by (simp add: split_join_dot [OF show_nat_not(1)] split_on_no_sep [OF show_nat_not(1)])
  have core: "CHR ''-'' \<notin> set ?core" "CHR ''+'' \<notin> set ?core" using show_nat_not by auto
  have nums: "parse_semver_part (Some (show_nat (sv_major v))) t ''major'' = Ok (sv_major v)"
    "parse_semver_part (Some (show_nat (sv_minor v))) t ''minor'' = Ok (sv_minor v)"
    "parse_semver_part (Some (show_nat (sv_patch v))) t ''patch'' = Ok (sv_patch v)" for t
    using assms parse_part_show by (simp_all add: semver_ok_def)
  show ?thesis
  proof (cases "sv_prerelease v")
    case None
    then have written: "semver_text v = ?core" by (simp add: semver_text_def)
    show ?thesis
      unfolding written semver_parse_def using None parts core nums
      by (cases v) (simp add: before_separator_def list_get_def Let_def)
  next
    case (Some p)
    with assms have p: "is_ok (validate_prerelease p t)" for t
      using validate_prerelease_any [of p "[]" t] by (simp add: semver_ok_def)
    from Some have written: "semver_text v = ?core @ CHR ''-'' # p" by (simp add: semver_text_def)
    have "CHR ''+'' \<notin> set (?core @ CHR ''-'' # p)" using core(2) prerelease_no_plus [OF p] by simp
    then have "before_separator (CHR ''+'') (?core @ CHR ''-'' # p) = (?core @ CHR ''-'' # p, None)"
      by (simp add: before_separator_def)
    moreover have "before_separator (CHR ''-'') (?core @ CHR ''-'' # p) = (?core, Some p)"
      using split_once_append [OF core(1), of p] by (simp only: before_separator_def option.case prod.case)
    moreover from p obtain u where "validate_prerelease p (?core @ CHR ''-'' # p) = Ok u" by (auto simp: is_ok_iff)
    ultimately show ?thesis
      unfolding written semver_parse_def using Some parts nums
      by (cases v) (simp only: Let_def fst_conv prod.case list_get_def, simp)
  qed
qed

text \<open>The finding on identifiers out of range: all of them compare equal.\<close>

lemma huge_identifiers_equal:
  assumes "list_all is_ascii_digit a" "list_all is_ascii_digit b" "2 ^ 64 \<le> read_dec a" "2 ^ 64 \<le> read_dec b"
  shows "compare_prerelease_identifier a b = Equal"
  using assms by (simp add: compare_prerelease_identifier_def is_numeric_identifier_def numeric_value_def parse_u64_digits_def)

end
