(* ===== verification/Dependency_Walk.thy ===== *)
theory Dependency_Walk
  imports Msp_Semver
begin

text \<open>
  The depth-first walk over dependencies that \<open>resolve_dependencies_inner\<close> and
  \<open>evaluate_dependency_trust_inner\<close> of components/msp/crates/msp-registry/src/lib.rs share: the
  sets of ids being visited and visited, the stack, and the cycle cut out of the stack when an
  id is met again. What differs is a parameter: the dependencies of an id, and the step for
  one edge, which gives the node to push, the ids to report missing and where to recurse. The
  recursion runs on fuel; \<open>None\<close> is running out of it, and \<open>walk_returns_within\<close> shows that one more
  than the number of ids is enough.
\<close>

section \<open>The walk\<close>

record 'n dep_walk =
  dw_nodes :: "'n list"
  dw_missing :: "string list"
  dw_cycles :: "string list list"
  dw_visiting :: "string set"
  dw_visited :: "string set"
  dw_stack :: "string list"

definition walk_start :: "'n dep_walk" where
  "walk_start = \<lparr>dw_nodes = [], dw_missing = [], dw_cycles = [], dw_visiting = {}, dw_visited = {}, dw_stack = []\<rparr>"

type_synonym ('e, 'n, 'k) edge_step = "string \<Rightarrow> nat \<Rightarrow> skill_dependency \<Rightarrow> 'e + ('n \<times> string list \<times> 'k option)"
type_synonym ('e, 'n) walk_result = "('e + 'n dep_walk) option"

text \<open>The loop over the dependencies of \<open>i\<close>.\<close>

fun walk_edges ::
    "('k \<Rightarrow> string \<Rightarrow> nat \<Rightarrow> 'n dep_walk \<Rightarrow> ('e, 'n) walk_result) \<Rightarrow> ('e, 'n, 'k) edge_step \<Rightarrow> string \<Rightarrow> nat \<Rightarrow>
     skill_dependency list \<Rightarrow> 'n dep_walk \<Rightarrow> ('e, 'n) walk_result" where
  "walk_edges rec step i depth [] w = Some (Ok w)"
| "walk_edges rec step i depth (d # ds) w =
     (case step i (depth + 1) d of
        Err e \<Rightarrow> Some (Err e)
      | Ok (node, missing, nxt) \<Rightarrow>
        let w1 = w\<lparr>dw_nodes := dw_nodes w @ [node], dw_missing := dw_missing w @ missing\<rparr>
        in case nxt of
             None \<Rightarrow> walk_edges rec step i depth ds w1
           | Some k \<Rightarrow>
             (case rec k (sd_id d) (depth + 1) w1 of
                None \<Rightarrow> None
              | Some (Err e) \<Rightarrow> Some (Err e)
              | Some (Ok w2) \<Rightarrow> walk_edges rec step i depth ds w2))"

definition cycle_from :: "string \<Rightarrow> string list \<Rightarrow> string list" where
  "cycle_from i stack = (if i \<in> set stack then dropWhile (\<lambda>x. x \<noteq> i) stack else stack)"

definition enter :: "string \<Rightarrow> 'n dep_walk \<Rightarrow> 'n dep_walk" where
  "enter i w = w\<lparr>dw_visiting := insert i (dw_visiting w), dw_stack := dw_stack w @ [i]\<rparr>"

definition leave :: "string \<Rightarrow> 'n dep_walk \<Rightarrow> 'n dep_walk" where
  "leave i w = w\<lparr>dw_stack := butlast (dw_stack w), dw_visiting := dw_visiting w - {i},
     dw_visited := insert i (dw_visited w)\<rparr>"

primrec walk ::
    "('k \<Rightarrow> string \<Rightarrow> 'e + skill_dependency list) \<Rightarrow> ('e, 'n, 'k) edge_step \<Rightarrow> nat \<Rightarrow>
     'k \<Rightarrow> string \<Rightarrow> nat \<Rightarrow> 'n dep_walk \<Rightarrow> ('e, 'n) walk_result" where
  "walk deps step 0 = (\<lambda>k i depth w. None)"
| "walk deps step (Suc fuel) = (\<lambda>k i depth w.
     (if i \<in> dw_visited w then Some (Ok w)
      else if i \<in> dw_visiting w
      then Some (Ok (w\<lparr>dw_cycles := dw_cycles w @ [cycle_from i (dw_stack w)]\<rparr>))
      else case deps k i of
        Err e \<Rightarrow> Some (Err e)
      | Ok ds \<Rightarrow>
        (case walk_edges (walk deps step fuel) step i depth ds (enter i w) of
           None \<Rightarrow> None
         | Some (Err e) \<Rightarrow> Some (Err e)
         | Some (Ok w') \<Rightarrow> Some (Ok (leave i w')))))"

section \<open>The walk returns\<close>

lemma walk_edges_frame:
  assumes "\<And>k i depth w w'. rec k i depth w = Some (Ok w') \<Longrightarrow> dw_visiting w' = dw_visiting w \<and> dw_stack w' = dw_stack w"
    and "walk_edges rec step i depth ds w = Some (Ok w')"
  shows "dw_visiting w' = dw_visiting w \<and> dw_stack w' = dw_stack w"
  using assms(2)
proof (induction ds arbitrary: w)
  case (Cons d ds)
  then show ?case
    using assms(1)
    by (fastforce simp: Let_def split: sum.splits option.splits prod.splits)
qed simp

lemma walk_frame:
  "walk deps step fuel k i depth w = Some (Ok w') \<Longrightarrow> dw_visiting w' = dw_visiting w \<and> dw_stack w' = dw_stack w"
proof (induction fuel arbitrary: k i depth w w')
  case (Suc fuel)
  show ?case
  proof (cases "i \<in> dw_visited w \<or> i \<in> dw_visiting w")
    case True
    with Suc.prems show ?thesis by (auto split: if_splits)
  next
    case False
    with Suc.prems obtain ds v where "walk_edges (walk deps step fuel) step i depth ds (enter i w) = Some (Ok v)"
      "w' = leave i v" by (auto split: sum.splits option.splits)
    with walk_edges_frame [of "walk deps step fuel", OF Suc.IH] False show ?thesis
      by (fastforce simp: enter_def leave_def)
  qed
qed simp

lemma walk_edges_returns:
  assumes "\<And>k i depth v. dw_visiting v = V \<Longrightarrow> rec k i depth v \<noteq> None"
    and "\<And>k i depth w w'. rec k i depth w = Some (Ok w') \<Longrightarrow> dw_visiting w' = dw_visiting w \<and> dw_stack w' = dw_stack w"
    and "dw_visiting w = V"
  shows "walk_edges rec step i depth ds w \<noteq> None"
  using assms(3)
proof (induction ds arbitrary: w)
  case (Cons d ds)
  show ?case
  proof (cases "step i (depth + 1) d")
    case (Inr r)
    obtain node missing nxt where r: "r = (node, missing, nxt)" by (cases r) auto
    let ?w1 = "w\<lparr>dw_nodes := dw_nodes w @ [node], dw_missing := dw_missing w @ missing\<rparr>"
    show ?thesis
    proof (cases nxt)
      case (Some k)
      have "rec k (sd_id d) (depth + 1) ?w1 \<noteq> None" using assms(1) Cons.prems by simp
      then obtain res where res: "rec k (sd_id d) (depth + 1) ?w1 = Some res" by blast
      show ?thesis
      proof (cases res)
        case (Inr w2)
        with res assms(2) Cons.prems have "dw_visiting w2 = V" by fastforce
        from Cons.IH [OF this] \<open>step i (depth + 1) d = Inr r\<close> r Some res Inr show ?thesis by (simp add: Let_def)
      qed (use Inr r Some res in \<open>simp add: Let_def\<close>)
    qed (use Inr r Cons in \<open>simp add: Let_def\<close>)
  qed simp
qed simp

lemma walk_returns_within:
  assumes "finite U" and "\<And>k i ds. deps k i = Ok ds \<Longrightarrow> i \<in> U"
    and "card (U - dw_visiting w) < fuel"
  shows "walk deps step fuel k i depth w \<noteq> None"
  using assms(3)
proof (induction fuel arbitrary: k i depth w)
  case (Suc fuel)
  show ?case
  proof (cases "i \<in> dw_visited w \<or> i \<in> dw_visiting w \<or> \<not> is_ok (deps k i)")
    case True
    then show ?thesis by (cases "deps k i") auto
  next
    case False
    then obtain ds where ds: "deps k i = Ok ds" by (auto simp: is_ok_iff)
    then have "i \<in> U - dw_visiting w" using assms(2) False by blast
    then have "card (U - insert i (dw_visiting w)) < card (U - dw_visiting w)"
      using assms(1) by (intro psubset_card_mono) auto
    with Suc.prems have "card (U - insert i (dw_visiting w)) < fuel" by linarith
    then have "walk_edges (walk deps step fuel) step i depth ds (enter i w) \<noteq> None"
      using Suc.IH by (intro walk_edges_returns [where V = "insert i (dw_visiting w)"]) (auto simp: enter_def dest: walk_frame)
    with False ds show ?thesis by (auto split: option.splits sum.splits)
  qed
qed simp

section \<open>Walks without errors, and walks that do not go on\<close>

lemma walk_edges_no_error:
  assumes "\<And>i depth d. is_ok (step i depth d)"
    and "\<And>i depth d node missing k. step i depth d = Ok (node, missing, Some k) \<Longrightarrow> is_ok (deps k (sd_id d))"
    and "\<And>k i depth w e. is_ok (deps k i) \<Longrightarrow> rec k i depth w \<noteq> Some (Err e)"
  shows "walk_edges rec step i depth ds w \<noteq> Some (Err e)"
proof (induction ds arbitrary: w)
  case (Cons d ds)
  obtain node missing nxt where st: "step i (depth + 1) d = Ok (node, missing, nxt)"
    using assms(1) [of i "depth + 1" d] by (auto simp: is_ok_iff)
  show ?case
  proof (cases nxt)
    case None
    with st Cons show ?thesis by (simp add: Let_def)
  next
    case (Some k)
    have "rec k (sd_id d) (depth + 1) v \<noteq> Some (Err f)" for v f using assms(2) assms(3) st Some by blast
    with st Some Cons show ?thesis by (simp add: Let_def split: option.split sum.split)
  qed
qed simp

lemma walk_no_error:
  assumes "\<And>i depth d. is_ok (step i depth d)"
    and "\<And>i depth d node missing k. step i depth d = Ok (node, missing, Some k) \<Longrightarrow> is_ok (deps k (sd_id d))"
    and "is_ok (deps k i)"
  shows "walk deps step fuel k i depth w \<noteq> Some (Err e)"
  using assms(3)
proof (induction fuel arbitrary: k i depth w e)
  case (Suc fuel)
  then have "walk_edges (walk deps step fuel) step i depth ds v \<noteq> Some (Err e)" for ds v
    using walk_edges_no_error [of step deps "walk deps step fuel"] assms(1,2) by blast
  then show ?case using Suc.prems by (auto simp: is_ok_iff split: option.split sum.split)
qed simp

lemma walk_edges_flat:
  assumes "\<And>i depth d node missing nxt. step i depth d = Ok (node, missing, nxt) \<Longrightarrow> nxt = None"
    and "walk_edges rec step i depth ds w = Some (Ok w')"
  shows "\<exists>ns. list_all2 (\<lambda>d n. \<exists>missing. step i (depth + 1) d = Ok (n, missing, None)) ds ns \<and>
    dw_nodes w' = dw_nodes w @ ns \<and> dw_cycles w' = dw_cycles w"
  using assms(2)
proof (induction ds arbitrary: w)
  case (Cons d ds)
  then obtain node missing where st: "step i (depth + 1) d = Ok (node, missing, None)"
    using assms(1) by (auto split: sum.splits)
  let ?w = "w\<lparr>dw_nodes := dw_nodes w @ [node], dw_missing := dw_missing w @ missing\<rparr>"
  from Cons.prems st have "walk_edges rec step i depth ds ?w = Some (Ok w')" by (simp add: Let_def)
  from Cons.IH [OF this] obtain ns where "list_all2 (\<lambda>d n. \<exists>missing. step i (depth + 1) d = Ok (n, missing, None)) ds ns"
    "dw_nodes w' = dw_nodes w @ node # ns" "dw_cycles w' = dw_cycles w" by auto
  with st show ?case by (intro exI [of _ "node # ns"]) auto
qed simp

lemma walk_flat:
  assumes "\<And>i depth d node missing nxt. step i depth d = Ok (node, missing, nxt) \<Longrightarrow> nxt = None"
    and "walk deps step fuel k i 0 walk_start = Some (Ok w)" and "deps k i = Ok ds"
  shows "list_all2 (\<lambda>d n. \<exists>missing. step i 1 d = Ok (n, missing, None)) ds (dw_nodes w) \<and> dw_cycles w = []"
proof -
  from assms(2,3) obtain f v where "walk_edges (walk deps step f) step i 0 ds (enter i walk_start) = Some (Ok v)" "w = leave i v"
    by (cases fuel) (auto simp: walk_start_def split: option.splits sum.splits)
  with walk_edges_flat [of step "walk deps step f" i 0 ds, OF assms(1)] show ?thesis
    by (fastforce simp: enter_def leave_def walk_start_def)
qed

section \<open>The walk visits what is reachable and finds the cycles\<close>

text \<open>
  A walk whose steps agree with fixed functions of the dependency: where it leads (\<open>target\<close>),
  what it reports missing (\<open>lost\<close>). An id has one kind.
\<close>

locale keyed_walk =
  fixes deps :: "'k \<Rightarrow> string \<Rightarrow> 'e + skill_dependency list"
    and step :: "('e, 'n, 'k) edge_step"
    and target :: "skill_dependency \<Rightarrow> 'k option"
    and lost :: "skill_dependency \<Rightarrow> string list"
    and kind :: "string \<Rightarrow> 'k"
  assumes step_target: "step i depth d = Ok (node, missing, nxt) \<Longrightarrow> nxt = target d \<and> missing = lost d"
    and target_kind: "target d = Some k \<Longrightarrow> k = kind (sd_id d)"
begin

definition edges :: "(string \<times> string) set" where
  "edges = {(u, v). \<exists>ds d k. deps (kind u) u = Ok ds \<and> d \<in> set ds \<and> target d = Some k \<and> v = sd_id d}"

text \<open>What one dependency of \<open>u\<close> leaves in the walk.\<close>

definition pushed :: "string \<Rightarrow> skill_dependency \<Rightarrow> 'n dep_walk \<Rightarrow> bool" where
  "pushed u d w \<longleftrightarrow> (\<exists>depth node. step u depth d = Ok (node, lost d, target d) \<and> node \<in> set (dw_nodes w)) \<and>
     set (lost d) \<subseteq> set (dw_missing w)"

definition good :: "string set \<Rightarrow> 'n dep_walk \<Rightarrow> bool" where
  "good R w \<longleftrightarrow>
     dw_visiting w = set (dw_stack w) \<and> distinct (dw_stack w) \<and> dw_visiting w \<inter> dw_visited w = {} \<and>
     successively (\<lambda>a b. (a, b) \<in> edges) (dw_stack w) \<and>
     dw_visiting w \<union> dw_visited w \<subseteq> R \<and>
     edges `` dw_visited w \<subseteq> dw_visited w \<union> dw_visiting w \<and>
     (\<forall>v \<in> dw_visited w. \<exists>ds. deps (kind v) v = Ok ds \<and> (\<forall>d \<in> set ds. pushed v d w)) \<and>
     (\<forall>node \<in> set (dw_nodes w). \<exists>v ds d depth. v \<in> dw_visited w \<union> dw_visiting w \<and>
        deps (kind v) v = Ok ds \<and> d \<in> set ds \<and> step v depth d = Ok (node, lost d, target d)) \<and>
     (\<forall>m \<in> set (dw_missing w). \<exists>v ds d. v \<in> dw_visited w \<union> dw_visiting w \<and>
        deps (kind v) v = Ok ds \<and> d \<in> set ds \<and> m \<in> set (lost d)) \<and>
     (\<forall>c \<in> set (dw_cycles w). c \<noteq> [] \<and> set c \<subseteq> R \<and> successively (\<lambda>a b. (a, b) \<in> edges) c \<and> (last c, hd c) \<in> edges) \<and>
     (dw_cycles w = [] \<longrightarrow> edges `` dw_visited w \<subseteq> dw_visited w \<and> acyclic (edges \<inter> dw_visited w \<times> UNIV))"

lemma goodI:
  assumes "dw_visiting w = set (dw_stack w)" and "distinct (dw_stack w)" and "dw_visiting w \<inter> dw_visited w = {}"
    and "successively (\<lambda>a b. (a, b) \<in> edges) (dw_stack w)"
    and "dw_visiting w \<union> dw_visited w \<subseteq> R"
    and "edges `` dw_visited w \<subseteq> dw_visited w \<union> dw_visiting w"
    and "\<forall>v \<in> dw_visited w. \<exists>ds. deps (kind v) v = Ok ds \<and> (\<forall>d \<in> set ds. pushed v d w)"
    and "\<forall>node \<in> set (dw_nodes w). \<exists>v ds d depth. v \<in> dw_visited w \<union> dw_visiting w \<and>
        deps (kind v) v = Ok ds \<and> d \<in> set ds \<and> step v depth d = Ok (node, lost d, target d)"
    and "\<forall>m \<in> set (dw_missing w). \<exists>v ds d. v \<in> dw_visited w \<union> dw_visiting w \<and>
        deps (kind v) v = Ok ds \<and> d \<in> set ds \<and> m \<in> set (lost d)"
    and "\<forall>c \<in> set (dw_cycles w). c \<noteq> [] \<and> set c \<subseteq> R \<and>
        successively (\<lambda>a b. (a, b) \<in> edges) c \<and> (last c, hd c) \<in> edges"
    and "dw_cycles w = [] \<Longrightarrow> edges `` dw_visited w \<subseteq> dw_visited w \<and> acyclic (edges \<inter> dw_visited w \<times> UNIV)"
  shows "good R w"
  unfolding good_def by (intro conjI impI assms)

lemma goodD:
  assumes "good R w"
  shows "dw_visiting w = set (dw_stack w)" and "distinct (dw_stack w)" and "dw_visiting w \<inter> dw_visited w = {}"
    and "successively (\<lambda>a b. (a, b) \<in> edges) (dw_stack w)"
    and "dw_visiting w \<union> dw_visited w \<subseteq> R"
    and "edges `` dw_visited w \<subseteq> dw_visited w \<union> dw_visiting w"
    and "\<forall>v \<in> dw_visited w. \<exists>ds. deps (kind v) v = Ok ds \<and> (\<forall>d \<in> set ds. pushed v d w)"
    and "\<forall>node \<in> set (dw_nodes w). \<exists>v ds d depth. v \<in> dw_visited w \<union> dw_visiting w \<and>
        deps (kind v) v = Ok ds \<and> d \<in> set ds \<and> step v depth d = Ok (node, lost d, target d)"
    and "\<forall>m \<in> set (dw_missing w). \<exists>v ds d. v \<in> dw_visited w \<union> dw_visiting w \<and>
        deps (kind v) v = Ok ds \<and> d \<in> set ds \<and> m \<in> set (lost d)"
    and "\<forall>c \<in> set (dw_cycles w). c \<noteq> [] \<and> set c \<subseteq> R \<and>
        successively (\<lambda>a b. (a, b) \<in> edges) c \<and> (last c, hd c) \<in> edges"
    and "dw_cycles w = [] \<longrightarrow> edges `` dw_visited w \<subseteq> dw_visited w \<and> acyclic (edges \<inter> dw_visited w \<times> UNIV)"
  using assms unfolding good_def by - (elim conjE, assumption)+

text \<open>A walk extends another.\<close>

definition grows :: "'n dep_walk \<Rightarrow> 'n dep_walk \<Rightarrow> bool" where
  "grows w w' \<longleftrightarrow> dw_visiting w' = dw_visiting w \<and> dw_stack w' = dw_stack w \<and> dw_visited w \<subseteq> dw_visited w' \<and>
     set (dw_nodes w) \<subseteq> set (dw_nodes w') \<and> set (dw_missing w) \<subseteq> set (dw_missing w') \<and>
     (dw_cycles w' = [] \<longrightarrow> dw_cycles w = [])"

lemma grows_refl [simp]: "grows w w" by (simp add: grows_def)

lemma grows_trans: "grows u v \<Longrightarrow> grows v w \<Longrightarrow> grows u w" by (auto simp: grows_def)

lemma pushed_grows: "pushed u d w \<Longrightarrow> grows w w' \<Longrightarrow> pushed u d w'"
  unfolding pushed_def grows_def by blast

text \<open>An id was reached: it is finished, or it is on the stack and a cycle was reported.\<close>

definition reached :: "string \<Rightarrow> 'n dep_walk \<Rightarrow> bool" where
  "reached i w \<longleftrightarrow> i \<in> dw_visited w \<union> dw_visiting w \<and> (dw_cycles w = [] \<longrightarrow> i \<in> dw_visited w)"

lemma reached_grows: "reached i w \<Longrightarrow> grows w w' \<Longrightarrow> reached i w'"
  by (auto simp: reached_def grows_def)

text \<open>The id may be entered from the top of the stack.\<close>

definition linked :: "'n dep_walk \<Rightarrow> string \<Rightarrow> bool" where
  "linked w i \<longleftrightarrow> dw_stack w = [] \<or> (last (dw_stack w), i) \<in> edges"

lemma edgesI: "deps (kind u) u = Ok ds \<Longrightarrow> d \<in> set ds \<Longrightarrow> target d = Some k \<Longrightarrow> (u, sd_id d) \<in> edges"
  by (auto simp: edges_def)

lemma push_good:
  assumes "good R w" and "u \<in> dw_visiting w" and "deps (kind u) u = Ok ds" and "d \<in> set ds"
    and "step u depth d = Ok (node, lost d, target d)"
    and w1: "w1 = w\<lparr>dw_nodes := dw_nodes w @ [node], dw_missing := dw_missing w @ lost d\<rparr>"
  shows "good R w1 \<and> grows w w1 \<and> pushed u d w1"
proof -
  have grow: "grows w w1" by (auto simp: w1 grows_def)
  have here: "pushed u d w1" using assms(5) by (auto simp: w1 pushed_def)
  have fields: "dw_nodes w1 = dw_nodes w @ [node]" "dw_missing w1 = dw_missing w @ lost d" "dw_cycles w1 = dw_cycles w"
    "dw_visited w1 = dw_visited w" "dw_visiting w1 = dw_visiting w" "dw_stack w1 = dw_stack w"
    by (simp_all add: w1)
  have "good R w1"
  proof (rule goodI, unfold fields)
    show "\<forall>v \<in> dw_visited w. \<exists>ds. deps (kind v) v = Ok ds \<and> (\<forall>d \<in> set ds. pushed v d w1)"
      using goodD(7) [OF assms(1)] pushed_grows [OF _ grow] by fast
    show "\<forall>n \<in> set (dw_nodes w @ [node]). \<exists>v ds d depth. v \<in> dw_visited w \<union> dw_visiting w \<and>
        deps (kind v) v = Ok ds \<and> d \<in> set ds \<and> step v depth d = Ok (n, lost d, target d)"
      using goodD(8) [OF assms(1)] assms(2-5) by fastforce
    show "\<forall>m \<in> set (dw_missing w @ lost d). \<exists>v ds d. v \<in> dw_visited w \<union> dw_visiting w \<and>
        deps (kind v) v = Ok ds \<and> d \<in> set ds \<and> m \<in> set (lost d)"
      using goodD(9) [OF assms(1)] assms(2-4) by fastforce
  qed (rule goodD [OF assms(1)] goodD(11) [OF assms(1), rule_format]; assumption)+
  with here grow show ?thesis by blast
qed

lemma cycle_good:
  assumes "good R w" and "i \<in> dw_visiting w" and "linked w i"
    and w1: "w1 = w\<lparr>dw_cycles := dw_cycles w @ [cycle_from i (dw_stack w)]\<rparr>"
  shows "good R w1 \<and> grows w w1 \<and> reached i w1"
proof -
  have i: "i \<in> set (dw_stack w)" using assms(2) goodD(1) [OF assms(1)] by simp
  then obtain p q where pq: "dw_stack w = p @ i # q" "i \<notin> set p" by (meson split_list_first)
  have "dropWhile (\<lambda>x. x \<noteq> i) (p @ i # q) = i # q" using pq(2) by (induction p) auto
  with pq(1) have c: "cycle_from i (dw_stack w) = i # q" using i by (simp add: cycle_from_def)
  have path: "successively (\<lambda>a b. (a, b) \<in> edges) (i # q)"
    using goodD(4) [OF assms(1)] pq(1) by (simp add: successively_append_iff)
  have closing: "(last (i # q), i) \<in> edges" using assms(3) pq(1) by (auto simp: linked_def)
  have fields: "dw_nodes w1 = dw_nodes w" "dw_missing w1 = dw_missing w" "dw_cycles w1 = dw_cycles w @ [i # q]"
    "dw_visited w1 = dw_visited w" "dw_visiting w1 = dw_visiting w" "dw_stack w1 = dw_stack w"
    by (simp_all add: w1 c)
  have keep: "pushed v d w1 = pushed v d w" for v d by (simp add: pushed_def fields)
  have within: "set (i # q) \<subseteq> R" using goodD(1,5) [OF assms(1)] pq(1) by simp
  have "good R w1"
  proof (rule goodI, unfold fields keep)
    show "\<forall>c \<in> set (dw_cycles w @ [i # q]). c \<noteq> [] \<and> set c \<subseteq> R \<and>
        successively (\<lambda>a b. (a, b) \<in> edges) c \<and> (last c, hd c) \<in> edges"
      using goodD(10) [OF assms(1)] within path closing by simp
    show "dw_cycles w @ [i # q] = [] \<Longrightarrow>
        edges `` dw_visited w \<subseteq> dw_visited w \<and> acyclic (edges \<inter> dw_visited w \<times> UNIV)" by simp
  qed (rule goodD [OF assms(1)])+
  then show ?thesis using assms(2) by (auto simp: fields grows_def reached_def)
qed

lemma enter_good:
  assumes "good R w" and "i \<notin> dw_visited w" and "i \<notin> dw_visiting w" and "i \<in> R" and "linked w i"
  shows "good R (enter i w)"
proof -
  note old = goodD [OF assms(1)]
  have fields: "dw_nodes (enter i w) = dw_nodes w" "dw_missing (enter i w) = dw_missing w" "dw_cycles (enter i w) = dw_cycles w"
    "dw_visited (enter i w) = dw_visited w" "dw_visiting (enter i w) = insert i (dw_visiting w)"
    "dw_stack (enter i w) = dw_stack w @ [i]"
    by (simp_all add: enter_def)
  have keep: "pushed v d (enter i w) = pushed v d w" for v d by (simp add: pushed_def enter_def)
  show ?thesis
  proof (rule goodI, unfold fields keep)
    show "insert i (dw_visiting w) = set (dw_stack w @ [i])" using old(1) by simp
    show "distinct (dw_stack w @ [i])" using old(1,2) assms(3) by simp
    show "insert i (dw_visiting w) \<inter> dw_visited w = {}" using old(3) assms(2) by simp
    show "successively (\<lambda>a b. (a, b) \<in> edges) (dw_stack w @ [i])"
      using old(4) assms(5) by (auto simp: successively_append_iff linked_def)
    show "insert i (dw_visiting w) \<union> dw_visited w \<subseteq> R" using old(5) assms(4) by simp
    show "edges `` dw_visited w \<subseteq> dw_visited w \<union> insert i (dw_visiting w)" using old(6) by (simp add: subset_insertI2)
    show "\<forall>node \<in> set (dw_nodes w). \<exists>v ds d depth. v \<in> dw_visited w \<union> insert i (dw_visiting w) \<and>
        deps (kind v) v = Ok ds \<and> d \<in> set ds \<and> step v depth d = Ok (node, lost d, target d)"
      using old(8) by fastforce
    show "\<forall>m \<in> set (dw_missing w). \<exists>v ds d. v \<in> dw_visited w \<union> insert i (dw_visiting w) \<and>
        deps (kind v) v = Ok ds \<and> d \<in> set ds \<and> m \<in> set (lost d)"
      using old(9) by fastforce
  qed (rule old old(11) [rule_format]; assumption)+
qed

text \<open>A finished id has its successors among the finished ones, so it closes no cycle.\<close>

lemma acyclic_insert:
  assumes "acyclic (E \<inter> V \<times> UNIV)" and "E `` V \<subseteq> V" and "x \<notin> V" and "E `` {x} \<subseteq> V"
  shows "acyclic (E \<inter> insert x V \<times> UNIV)"
proof -
  let ?A = "E \<inter> V \<times> UNIV" and ?B = "E \<inter> insert x V \<times> UNIV"
  have inside: "(a, b) \<in> ?B\<^sup>+ \<Longrightarrow> a \<in> V \<Longrightarrow> (a, b) \<in> ?A\<^sup>+ \<and> b \<in> V" for a b
  proof (induction rule: trancl_induct)
    case (base y)
    then have "(a, y) \<in> ?A" using assms(3) by auto
    then show ?case using base assms(2) by blast
  next
    case (step y z)
    then have y: "(a, y) \<in> ?A\<^sup>+" "y \<in> V" by simp_all
    with step(2) assms(3) have "(y, z) \<in> ?A" by auto
    with y show ?case using assms(2) by (meson IntD1 ImageI subsetD trancl.trancl_into_trancl)
  qed
  show ?thesis
  proof (rule acyclicI, intro allI notI)
    fix a assume cyc: "(a, a) \<in> ?B\<^sup>+"
    show False
    proof (cases "a \<in> V")
      case True
      with inside [OF cyc] assms(1) show False by (auto simp: acyclic_def)
    next
      case False
      from cyc obtain b where b: "(a, b) \<in> ?B" "(b, a) \<in> ?B\<^sup>*" by (meson tranclD)
      with False assms(4) have "b \<in> V" by auto
      moreover have "b \<noteq> a" using \<open>b \<in> V\<close> False by blast
      ultimately show False using inside [of b a] b(2) False by (meson rtranclD)
    qed
  qed
qed

lemma leave_good:
  assumes "good R w" and "dw_stack w = st @ [i]" and "deps (kind i) i = Ok ds"
    and "\<forall>d \<in> set ds. pushed i d w \<and> (target d \<noteq> None \<longrightarrow> reached (sd_id d) w)"
  shows "good R (leave i w)"
proof -
  note old = goodD [OF assms(1)]
  have i: "i \<in> dw_visiting w" "i \<notin> set st" "i \<notin> dw_visited w" "dw_visiting w - {i} = set st" "distinct st"
    using old(1-3) assms(2) by auto
  have succ: "reached v w" if "(i, v) \<in> edges" for v
    using that assms(3,4) by (auto simp: edges_def)
  have fields: "dw_nodes (leave i w) = dw_nodes w" "dw_missing (leave i w) = dw_missing w" "dw_cycles (leave i w) = dw_cycles w"
    "dw_visited (leave i w) = insert i (dw_visited w)" "dw_visiting (leave i w) = set st" "dw_stack (leave i w) = st"
    using assms(2) i(4) by (simp_all add: leave_def)
  have keep: "pushed v d (leave i w) = pushed v d w" for v d by (simp add: pushed_def leave_def)
  have all: "insert i (dw_visited w) \<union> set st = dw_visited w \<union> dw_visiting w" using i(1,4) by auto
  show ?thesis
  proof (rule goodI, unfold fields keep all)
    show "set st \<inter> insert i (dw_visited w) = {}" using old(1,3) assms(2) i(2) by auto
    show "successively (\<lambda>a b. (a, b) \<in> edges) st" using old(4) assms(2) by (simp add: successively_append_iff)
    show "set st \<union> insert i (dw_visited w) \<subseteq> R" using old(5) i(1,4) by auto
    show "edges `` insert i (dw_visited w) \<subseteq> dw_visited w \<union> dw_visiting w"
      using old(6) succ by (auto simp: reached_def)
    show "\<forall>v \<in> insert i (dw_visited w). \<exists>ds. deps (kind v) v = Ok ds \<and> (\<forall>d \<in> set ds. pushed v d w)"
      using old(7) assms(3,4) by fastforce
    show "edges `` insert i (dw_visited w) \<subseteq> insert i (dw_visited w) \<and>
        acyclic (edges \<inter> insert i (dw_visited w) \<times> UNIV)" if none: "dw_cycles w = []"
    proof -
      have closed: "edges `` dw_visited w \<subseteq> dw_visited w" "acyclic (edges \<inter> dw_visited w \<times> UNIV)"
        using old(11) none by simp_all
      have next_closed: "edges `` {i} \<subseteq> dw_visited w" using succ none by (auto simp: reached_def)
      with acyclic_insert [OF closed(2,1) i(3)] closed(1) show ?thesis by auto
    qed
  qed (rule refl i(5) old)+
qed

text \<open>What a call of the walk guarantees.\<close>

definition visits :: "string set \<Rightarrow> ('k \<Rightarrow> string \<Rightarrow> nat \<Rightarrow> 'n dep_walk \<Rightarrow> ('e, 'n) walk_result) \<Rightarrow> bool" where
  "visits R f \<longleftrightarrow> (\<forall>i depth w w'. good R w \<longrightarrow> i \<in> R \<longrightarrow> linked w i \<longrightarrow> f (kind i) i depth w = Some (Ok w') \<longrightarrow>
     good R w' \<and> grows w w' \<and> reached i w')"

lemma walk_edges_good:
  assumes "visits R rec" and "edges `` R \<subseteq> R" and "deps (kind u) u = Ok ds"
    and "good R w" and "dw_stack w = st @ [u]" and "set es \<subseteq> set ds"
    and "walk_edges rec step u depth es w = Some (Ok w')"
  shows "good R w' \<and> grows w w' \<and> (\<forall>d \<in> set es. pushed u d w' \<and> (target d \<noteq> None \<longrightarrow> reached (sd_id d) w'))"
  using assms(4-7)
proof (induction es arbitrary: w)
  case (Cons d es)
  from Cons.prems(4) obtain node missing nxt where "step u (depth + 1) d = Ok (node, missing, nxt)"
    by (auto split: sum.splits)
  with step_target have st: "step u (depth + 1) d = Ok (node, lost d, target d)" by blast
  define w1 where "w1 = w\<lparr>dw_nodes := dw_nodes w @ [node], dw_missing := dw_missing w @ lost d\<rparr>"
  have u: "u \<in> dw_visiting w" "u \<in> R" using goodD(1,5) [OF Cons.prems(1)] Cons.prems(2) by auto
  have d: "d \<in> set ds" using Cons.prems(3) by simp
  from push_good [OF Cons.prems(1) u(1) assms(3) d st w1_def]
  have w1: "good R w1" "grows w w1" "pushed u d w1" by simp_all
  have stack: "dw_stack w1 = st @ [u]" using w1(2) Cons.prems(2) by (simp add: grows_def)
  obtain w2 where w2: "good R w2" "grows w1 w2" "target d \<noteq> None \<longrightarrow> reached (sd_id d) w2"
    and next_edges: "walk_edges rec step u depth es w2 = Some (Ok w')"
  proof (cases "target d")
    case None
    then show ?thesis using that [of w1] w1(1) Cons.prems(4) st by (simp add: w1_def Let_def)
  next
    case (Some k)
    with target_kind have k: "k = kind (sd_id d)" by blast
    have edge: "(u, sd_id d) \<in> edges" using edgesI [OF assms(3) d Some] .
    from Cons.prems(4) st Some obtain v where v: "rec (kind (sd_id d)) (sd_id d) (depth + 1) w1 = Some (Ok v)"
      "walk_edges rec step u depth es v = Some (Ok w')"
      by (auto simp: w1_def [symmetric] Let_def k split: option.splits sum.splits)
    have "sd_id d \<in> R" using assms(2) u(2) edge by blast
    moreover have "linked w1 (sd_id d)" using edge stack by (simp add: linked_def)
    ultimately have "good R v \<and> grows w1 v \<and> reached (sd_id d) v"
      using assms(1) w1(1) v(1) unfolding visits_def by blast
    then show ?thesis using that v(2) by blast
  qed
  have "dw_stack w2 = st @ [u]" using w2(2) stack by (simp add: grows_def)
  from Cons.IH [OF w2(1) this _ next_edges] Cons.prems(3)
  have rest: "good R w'" "grows w2 w'" "\<forall>d \<in> set es. pushed u d w' \<and> (target d \<noteq> None \<longrightarrow> reached (sd_id d) w')"
    by simp_all
  have "grows w1 w'" using grows_trans [OF w2(2) rest(2)] .
  moreover have "grows w w'" using grows_trans [OF w1(2) \<open>grows w1 w'\<close>] .
  moreover have "pushed u d w'" using pushed_grows [OF w1(3) \<open>grows w1 w'\<close>] .
  moreover have "target d \<noteq> None \<longrightarrow> reached (sd_id d) w'" using w2(3) reached_grows [OF _ rest(2)] by blast
  ultimately show ?case using rest(1,3) by simp
qed simp

lemma walk_visits:
  assumes "edges `` R \<subseteq> R"
  shows "visits R (walk deps step fuel)"
proof (induction fuel)
  case (Suc fuel)
  show ?case
    unfolding visits_def
  proof (intro allI impI)
    fix i depth w w'
    assume w: "good R w" "i \<in> R" "linked w i" and res: "walk deps step (Suc fuel) (kind i) i depth w = Some (Ok w')"
    show "good R w' \<and> grows w w' \<and> reached i w'"
    proof (cases "i \<in> dw_visited w \<or> i \<in> dw_visiting w")
      case True
      then show ?thesis using res w cycle_good [OF w(1) _ w(3) refl]
        by (cases "i \<in> dw_visited w") (auto simp: reached_def)
    next
      case False
      with res obtain ds v where ds: "deps (kind i) i = Ok ds"
        and v: "walk_edges (walk deps step fuel) step i depth ds (enter i w) = Some (Ok v)" and w': "w' = leave i v"
        by (auto split: sum.splits option.splits)
      have start: "good R (enter i w)" "dw_stack (enter i w) = dw_stack w @ [i]"
        using enter_good [OF w(1) _ _ w(2,3)] False by (auto simp: enter_def)
      from walk_edges_good [OF Suc.IH assms ds start order_refl v]
      have fin: "good R v" "grows (enter i w) v"
        "\<forall>d \<in> set ds. pushed i d v \<and> (target d \<noteq> None \<longrightarrow> reached (sd_id d) v)" by simp_all
      then have st: "dw_stack v = dw_stack w @ [i]" using start(2) by (simp add: grows_def)
      have "good R w'" unfolding w' using leave_good [OF fin(1) st ds fin(3)] .
      moreover have "grows w w'" "reached i w'"
        using fin(2) False by (auto simp: grows_def enter_def leave_def w' reached_def)
      ultimately show ?thesis by simp
    qed
  qed
qed (simp add: visits_def)

lemma start_good: "good R walk_start"
  by (rule goodI) (simp_all add: walk_start_def acyclic_def)

text \<open>The walk from a root: the ids it finished are the reachable ones.\<close>

lemma walk_from:
  assumes "walk deps step fuel (kind root) root 0 walk_start = Some (Ok w)"
  shows "good (edges\<^sup>* `` {root}) w" and "dw_visiting w = {}" and "dw_visited w = edges\<^sup>* `` {root}"
proof -
  let ?R = "edges\<^sup>* `` {root}"
  have "edges `` ?R \<subseteq> ?R" by (auto intro: rtrancl_into_rtrancl)
  note from_root = walk_visits [OF this, of fuel, unfolded visits_def, rule_format]
  have "linked walk_start root" by (simp add: linked_def walk_start_def)
  with from_root [OF start_good _ _ assms] have "good ?R w \<and> grows walk_start w \<and> reached root w" by simp
  then have fin: "good ?R w" "grows walk_start w" "reached root w"
    by simp_all
  show "good ?R w" by (fact fin(1))
  show none: "dw_visiting w = {}" using fin(2) by (simp add: grows_def walk_start_def)
  have root: "root \<in> dw_visited w" using fin(3) none by (simp add: reached_def)
  have closed: "edges `` dw_visited w \<subseteq> dw_visited w" using goodD(6) [OF fin(1)] none by simp
  have "v \<in> dw_visited w" if "(root, v) \<in> edges\<^sup>*" for v
    using that root closed by (induction rule: rtrancl_induct) auto
  then show "dw_visited w = ?R" using goodD(5) [OF fin(1)] by blast
qed

lemma walk_nodes:
  assumes "walk deps step fuel (kind root) root 0 walk_start = Some (Ok w)"
    and "(root, v) \<in> edges\<^sup>*"
  shows "\<exists>ds. deps (kind v) v = Ok ds \<and> (\<forall>d \<in> set ds. pushed v d w)"
  using goodD(7) [OF walk_from(1) [OF assms(1)]] walk_from(3) [OF assms(1)] assms(2) by blast

lemma walk_nodes_only:
  assumes "walk deps step fuel (kind root) root 0 walk_start = Some (Ok w)" and "node \<in> set (dw_nodes w)"
  shows "\<exists>v ds d depth. (root, v) \<in> edges\<^sup>* \<and> deps (kind v) v = Ok ds \<and> d \<in> set ds \<and>
    step v depth d = Ok (node, lost d, target d)"
  using goodD(8) [OF walk_from(1) [OF assms(1)]] walk_from(2,3) [OF assms(1)] assms(2) by fastforce

lemma walk_missing:
  assumes "walk deps step fuel (kind root) root 0 walk_start = Some (Ok w)"
  shows "m \<in> set (dw_missing w) \<longleftrightarrow>
    (\<exists>v ds d. (root, v) \<in> edges\<^sup>* \<and> deps (kind v) v = Ok ds \<and> d \<in> set ds \<and> m \<in> set (lost d))"
  using goodD(9) [OF walk_from(1) [OF assms(1)]] walk_from(2,3) [OF assms(1)] walk_nodes [OF assms]
  by (fastforce simp: pushed_def)

text \<open>Every reported cycle is one, and where none is reported there is none.\<close>

lemma path_trancl:
  "successively (\<lambda>a b. (a, b) \<in> E) c \<Longrightarrow> c \<noteq> [] \<Longrightarrow> (last c, x) \<in> E \<Longrightarrow> (hd c, x) \<in> E\<^sup>+"
proof (induction c)
  case (Cons a c)
  then show ?case by (cases c) (auto intro: trancl_into_trancl2)
qed simp

lemma walk_cycles:
  assumes "walk deps step fuel (kind root) root 0 walk_start = Some (Ok w)"
  shows "dw_cycles w = [] \<longleftrightarrow> (\<forall>v. (root, v) \<in> edges\<^sup>* \<longrightarrow> (v, v) \<notin> edges\<^sup>+)"
proof
  note fin = walk_from [OF assms]
  assume "dw_cycles w = []"
  with goodD(11) [OF fin(1)] have closed: "edges `` dw_visited w \<subseteq> dw_visited w"
    and acyc: "acyclic (edges \<inter> dw_visited w \<times> UNIV)" by simp_all
  have inside: "(v, x) \<in> edges\<^sup>+ \<Longrightarrow> v \<in> dw_visited w \<Longrightarrow>
      (v, x) \<in> (edges \<inter> dw_visited w \<times> UNIV)\<^sup>+ \<and> x \<in> dw_visited w" for v x
  proof (induction rule: trancl_induct)
    case (base y)
    then show ?case using closed by blast
  next
    case (step y z)
    then have "(y, z) \<in> edges \<inter> dw_visited w \<times> UNIV" by blast
    with step closed show ?case by (meson ImageI subsetD trancl.trancl_into_trancl)
  qed
  then show "\<forall>v. (root, v) \<in> edges\<^sup>* \<longrightarrow> (v, v) \<notin> edges\<^sup>+"
    using acyc fin(3) unfolding acyclic_def by blast
next
  assume none: "\<forall>v. (root, v) \<in> edges\<^sup>* \<longrightarrow> (v, v) \<notin> edges\<^sup>+"
  show "dw_cycles w = []"
  proof (rule ccontr)
    assume "dw_cycles w \<noteq> []"
    then obtain c where "c \<in> set (dw_cycles w)" by (meson last_in_set)
    with goodD(10) [OF walk_from(1) [OF assms]]
    have c: "c \<noteq> []" "set c \<subseteq> edges\<^sup>* `` {root}" "successively (\<lambda>a b. (a, b) \<in> edges) c" "(last c, hd c) \<in> edges"
      by auto
    have "(hd c, hd c) \<in> edges\<^sup>+" using path_trancl [OF c(3,1,4)] .
    moreover have "(root, hd c) \<in> edges\<^sup>*" using c(1,2) by (cases c) auto
    ultimately show False using none by blast
  qed
qed

end

end
