(* ===== verification/Msp_Dependencies.thy ===== *)
theory Msp_Dependencies
  imports Msp_Registry Dependency_Walk
begin

text \<open>
  Dependencies in components/msp/crates/msp-registry/src/lib.rs: resolving those of a skill, and
  evaluating a trust policy over those of a skill or a pack. Both are the walk of
  \<open>Dependency_Walk\<close> with the edges of the registry; the fuel is one more than the number of
  entries in the index.
\<close>

datatype root_kind = KSkill | KPack

definition dependency_resolved :: "local_registry \<Rightarrow> skill_dependency \<Rightarrow> bool" where
  "dependency_resolved R d =
     (case sd_type d of
        DepSkill \<Rightarrow> tbl_has (sd_id d) (lr_skills R)
      | DepSkillPack \<Rightarrow> tbl_has (sd_id d) (lr_packs R)
      | _ \<Rightarrow> True)"

definition ids_of :: "local_registry \<Rightarrow> string set" where
  "ids_of R = fst ` set (lr_skills R) \<union> fst ` set (lr_packs R)"

definition walk_fuel :: "local_registry \<Rightarrow> nat" where
  "walk_fuel R = length (lr_skills R) + length (lr_packs R) + 1"

section \<open>Resolving\<close>

record dependency_node =
  dn_id :: string
  dn_requirement :: string
  dn_required :: bool
  dn_resolved :: bool

definition dep_node :: "skill_dependency \<Rightarrow> bool \<Rightarrow> dependency_node" where
  "dep_node d resolved =
     \<lparr>dn_id = sd_id d, dn_requirement = sd_requirement d, dn_required = sd_required d, dn_resolved = resolved\<rparr>"

text \<open>One dependency: its node, what is missing, and the skill to go on with.\<close>

definition resolve_edge :: "local_registry \<Rightarrow> (msp_error, dependency_node, root_kind) edge_step" where
  "resolve_edge R i depth d =
     Ok (case sd_type d of
        DepSkillPack \<Rightarrow>
          (dep_node d (case tbl_get (sd_id d) (lr_packs R) of
             None \<Rightarrow> False
           | Some p \<Rightarrow> is_ok (dependency_version_match_error d (pm_version (rk_manifest p)) ''pack dependency'')),
           if sd_required d \<and> \<not> tbl_has (sd_id d) (lr_packs R) then [sd_id d] else [], None)
      | DepSkill \<Rightarrow>
          (case tbl_get (sd_id d) (lr_skills R) of
             None \<Rightarrow> (dep_node d False, if sd_required d then [sd_id d] else [], None)
           | Some s \<Rightarrow>
             if is_ok (dependency_version_match_error d (sm_version (rs_manifest s)) ''dependency'')
             then (dep_node d True, [], Some KSkill)
             else (dep_node d False, [], None))
      | _ \<Rightarrow> (dep_node d True, [], None))"

definition skill_dependencies :: "local_registry \<Rightarrow> root_kind \<Rightarrow> string \<Rightarrow> msp_error + skill_dependency list" where
  "skill_dependencies R k i = res_bind (find_skill R i) (\<lambda>s. Ok (sm_dependencies (rs_manifest s)))"

definition resolve_dependencies_inner ::
    "local_registry \<Rightarrow> nat \<Rightarrow> string \<Rightarrow> dependency_node dep_walk \<Rightarrow> (msp_error, dependency_node) walk_result" where
  "resolve_dependencies_inner R fuel i = walk (skill_dependencies R) (resolve_edge R) fuel KSkill i 0"

record resolution_result =
  rr_root :: string
  rr_nodes :: "dependency_node list"
  rr_missing :: "string list"
  rr_cycles :: "string list list"

definition resolve_dependencies :: "local_registry \<Rightarrow> string \<Rightarrow> (msp_error + resolution_result) option" where
  "resolve_dependencies R i =
     (if \<not> tbl_has i (lr_skills R) then Some (Err (SkillNotFound i))
      else map_option (\<lambda>r. res_bind r (\<lambda>w.
        Ok \<lparr>rr_root = i, rr_nodes = dw_nodes w, rr_missing = dw_missing w, rr_cycles = dw_cycles w\<rparr>))
        (resolve_dependencies_inner R (walk_fuel R) i walk_start))"

section \<open>One dependency under a trust policy\<close>

record trust_node =
  en_parent :: string
  en_depth :: nat
  en_id :: string
  en_type :: dependency_type
  en_requirement :: string
  en_required :: bool
  en_resolved :: bool
  en_action :: "trust_action option"
  en_allowed :: bool
  en_reasons :: "string list"
  en_warnings :: "string list"
  en_matched_rules :: "string list"

definition deny_node :: "string list \<Rightarrow> trust_node \<Rightarrow> trust_node" where
  "deny_node reasons n = n\<lparr>en_allowed := False, en_reasons := en_reasons n @ reasons\<rparr>"

definition warn_node :: "string \<Rightarrow> trust_node \<Rightarrow> trust_node" where
  "warn_node warning n = n\<lparr>en_warnings := en_warnings n @ [warning]\<rparr>"

definition edge_start :: "local_registry \<Rightarrow> string \<Rightarrow> nat \<Rightarrow> skill_dependency \<Rightarrow> trust_node" where
  "edge_start R parent depth d =
     (let n = \<lparr>en_parent = parent, en_depth = depth, en_id = sd_id d, en_type = sd_type d,
            en_requirement = sd_requirement d, en_required = sd_required d, en_resolved = dependency_resolved R d,
            en_action = None, en_allowed = True, en_reasons = [], en_warnings = [], en_matched_rules = []\<rparr>
      in if dependency_resolved R d then n
         else if sd_required d then deny_node [''required dependency '' @ sd_id d @ '' is missing''] n
         else warn_node (''optional dependency '' @ sd_id d @ '' is missing'') n)"

definition requires_dependency_trust :: "trust_policy \<Rightarrow> bool" where
  "requires_dependency_trust P =
     (case tp_dependency_policy P of None \<Rightarrow> True | Some D \<Rightarrow> dy_require_dependency_trust_verification D)"

definition allows_transitive :: "trust_policy \<Rightarrow> bool" where
  "allows_transitive P =
     (case tp_dependency_policy P of None \<Rightarrow> True | Some D \<Rightarrow> dy_allow_transitive_dependencies D)"

text \<open>\<open>label\<close> is \<open>dependency\<close> or \<open>pack dependency\<close>.\<close>

definition edge_evaluation ::
    "string \<Rightarrow> trust_policy \<Rightarrow> skill_dependency \<Rightarrow> trust_evaluation \<Rightarrow> trust_node \<Rightarrow> trust_node" where
  "edge_evaluation label P d ev n =
     (let n1 = n\<lparr>en_action := Some (te_action ev), en_matched_rules := en_matched_rules n @ te_matched_rules ev,
            en_warnings := en_warnings n @ te_warnings ev\<rparr>
      in if te_allowed ev then n1
         else if requires_dependency_trust P
         then deny_node ((label @ '' '' @ sd_id d @ '' is not allowed by policy: '' @ action_debug (te_action ev)) # te_reasons ev) n1
         else warn_node (label @ '' '' @ sd_id d @
           '' would not be allowed by policy, but dependency trust verification is disabled'') n1)"

definition edge_version :: "string \<Rightarrow> skill_dependency \<Rightarrow> string \<Rightarrow> trust_node \<Rightarrow> trust_node" where
  "edge_version label d actual_version n =
     (case dependency_version_match_error d actual_version label of
        Ok _ \<Rightarrow> n | Err reason \<Rightarrow> (deny_node [reason] n)\<lparr>en_resolved := False\<rparr>)"

definition edge_transitive :: "string \<Rightarrow> trust_policy \<Rightarrow> skill_dependency \<Rightarrow> nat \<Rightarrow> skill_dependency list \<Rightarrow> trust_node \<Rightarrow> trust_node" where
  "edge_transitive label P d depth deps =
     when_do (\<not> allows_transitive P \<and> depth = 1 \<and> deps \<noteq> [])
       (deny_node [label @ '' '' @ sd_id d @ '' has transitive dependencies but policy forbids them''])"

definition edge_pins :: "string \<Rightarrow> skill_dependency \<Rightarrow> dependency_trust \<Rightarrow> trust_metadata \<Rightarrow> trust_node \<Rightarrow> trust_node" where
  "edge_pins label d t trust =
     (case dt_required_hash t of None \<Rightarrow> id | Some h \<Rightarrow> when_do (tm_hash trust \<noteq> h)
        (deny_node [label @ '' '' @ sd_id d @ '' hash mismatch: expected '' @ digest_text h @ '', got '' @ digest_text (tm_hash trust)])) \<circ>
     (case dt_required_issuer t of None \<Rightarrow> id | Some i \<Rightarrow> when_do (tm_issuer trust \<noteq> i)
        (deny_node [label @ '' '' @ sd_id d @ '' issuer mismatch: expected '' @ i @ '', got '' @ tm_issuer trust]))"

definition edge_signed :: "string \<Rightarrow> skill_dependency \<Rightarrow> trust_metadata \<Rightarrow> trust_verify \<Rightarrow> trust_node \<Rightarrow> trust_node" where
  "edge_signed label d trust v n =
     (if \<not> tm_signed trust then deny_node [label @ '' '' @ sd_id d @ '' must be signed but is unsigned''] n
      else if \<not> tv_passed v
      then deny_node ((label @ '' '' @ sd_id d @ '' signature verification failed'') #
        (if tv_hash_passed v then []
         else [label @ '' '' @ sd_id d @ '' hash mismatch: expected '' @ tv_expected_hash v @ '', got '' @ tv_actual_hash v]) @
        signature_reasons v) n
      else n)"

definition edge_demands ::
    "string \<Rightarrow> skill_dependency \<Rightarrow> trust_metadata \<Rightarrow> msp_error + trust_verify \<Rightarrow> trust_node \<Rightarrow> msp_error + trust_node" where
  "edge_demands label d trust verification n =
     (case sd_trust d of
        None \<Rightarrow> Ok n
      | Some t \<Rightarrow>
        let n1 = edge_pins label d t trust n
        in res_bind (if dt_must_be_signed t then res_bind verification (\<lambda>v. Ok (edge_signed label d trust v n1)) else Ok n1) (\<lambda>n2.
           Ok (when_do (dt_allowed_registries t \<noteq> []) (warn_node (label @ '' '' @ sd_id d @
             '' declares allowed_registries, but local registry identity verification is not implemented'')) n2)))"

definition edge_found ::
    "string \<Rightarrow> trust_policy \<Rightarrow> nat \<Rightarrow> skill_dependency \<Rightarrow> string \<Rightarrow> trust_metadata \<Rightarrow> skill_dependency list \<Rightarrow>
     msp_error + trust_evaluation \<Rightarrow> msp_error + trust_verify \<Rightarrow> trust_node \<Rightarrow> msp_error + trust_node" where
  "edge_found label P depth d version trust deps evaluation verification n =
     res_bind evaluation (\<lambda>ev.
     edge_demands label d trust verification
       (edge_transitive label P d depth deps (edge_version label d version (edge_evaluation label P d ev n))))"

fun type_debug :: "dependency_type \<Rightarrow> string" where
  "type_debug DepSkill = ''Skill''"
| "type_debug DepSkillPack = ''SkillPack''"
| "type_debug DepSchema = ''Schema''"
| "type_debug DepVerificationContract = ''VerificationContract''"
| "type_debug DepTrustAnchor = ''TrustAnchor''"
| "type_debug DepFormatAdapter = ''FormatAdapter''"
| "type_debug DepRuntimeCapability = ''RuntimeCapability''"

definition skill_edge ::
    "msp_env \<Rightarrow> local_registry \<Rightarrow> trust_policy \<Rightarrow> nat \<Rightarrow> skill_dependency \<Rightarrow> trust_node \<Rightarrow> msp_error + trust_node" where
  "skill_edge V R P depth d n =
     (case tbl_get (sd_id d) (lr_skills R) of
        None \<Rightarrow> Ok n
      | Some s \<Rightarrow> edge_found ''dependency'' P depth d (sm_version (rs_manifest s)) (sm_trust (rs_manifest s))
          (sm_dependencies (rs_manifest s)) (evaluate_trust_policy V R P (sd_id d)) (verify_trust_with_policy V R (sd_id d) P) n)"

definition pack_edge ::
    "msp_env \<Rightarrow> local_registry \<Rightarrow> trust_policy \<Rightarrow> nat \<Rightarrow> skill_dependency \<Rightarrow> trust_node \<Rightarrow> msp_error + trust_node" where
  "pack_edge V R P depth d n =
     (case tbl_get (sd_id d) (lr_packs R) of
        None \<Rightarrow> Ok n
      | Some p \<Rightarrow> edge_found ''pack dependency'' P depth d (pm_version (rk_manifest p)) (pm_trust (rk_manifest p))
          (pm_dependencies (rk_manifest p)) (evaluate_pack_trust_policy V R P (sd_id d)) (verify_pack_trust_with_policy V R (sd_id d) P) n)"

definition evaluate_dependency_edge ::
    "msp_env \<Rightarrow> local_registry \<Rightarrow> trust_policy \<Rightarrow> string \<Rightarrow> nat \<Rightarrow> skill_dependency \<Rightarrow> msp_error + trust_node" where
  "evaluate_dependency_edge V R P parent depth d =
     (let n = edge_start R parent depth d
      in if sd_type d = DepSkill then skill_edge V R P depth d n
         else if sd_type d = DepSkillPack then pack_edge V R P depth d n
         else Ok (when_do (sd_required d) (warn_node (''required non-skill dependency '' @ sd_id d @ '' of type '' @
           type_debug (sd_type d) @ '' is treated as externally resolved in local v0.1'')) n))"

section \<open>The dependencies of a root under a trust policy\<close>

definition entry_dependencies :: "local_registry \<Rightarrow> root_kind \<Rightarrow> string \<Rightarrow> msp_error + skill_dependency list" where
  "entry_dependencies R k i =
     (case k of
        KSkill \<Rightarrow> res_bind (find_skill R i) (\<lambda>s. Ok (sm_dependencies (rs_manifest s)))
      | KPack \<Rightarrow> res_bind (find_pack R i) (\<lambda>p. Ok (pm_dependencies (rk_manifest p))))"

definition recurse_kind :: "skill_dependency \<Rightarrow> trust_node \<Rightarrow> root_kind option" where
  "recurse_kind d n =
     (if \<not> en_resolved n then None
      else if sd_type d = DepSkill then Some KSkill else if sd_type d = DepSkillPack then Some KPack else None)"

definition trust_edge :: "msp_env \<Rightarrow> local_registry \<Rightarrow> trust_policy \<Rightarrow> (msp_error, trust_node, root_kind) edge_step" where
  "trust_edge V R P i depth d =
     res_bind (evaluate_dependency_edge V R P i depth d) (\<lambda>n.
     Ok (n, if sd_required d \<and> \<not> dependency_resolved R d then [sd_id d] else [],
       if allows_transitive P then recurse_kind d n else None))"

definition evaluate_dependency_trust_inner ::
    "msp_env \<Rightarrow> local_registry \<Rightarrow> trust_policy \<Rightarrow> nat \<Rightarrow> root_kind \<Rightarrow> string \<Rightarrow> trust_node dep_walk \<Rightarrow> (msp_error, trust_node) walk_result" where
  "evaluate_dependency_trust_inner V R P fuel k i = walk (entry_dependencies R) (trust_edge V R P) fuel k i 0"

record trust_dependencies =
  td_root :: string
  td_allowed :: bool
  td_root_evaluation :: trust_evaluation
  td_dependencies :: "trust_node list"
  td_missing :: "string list"
  td_cycles :: "string list list"
  td_reasons :: "string list"
  td_warnings :: "string list"

definition new_dependency_trust_result :: "string \<Rightarrow> trust_evaluation \<Rightarrow> trust_dependencies" where
  "new_dependency_trust_result i ev =
     \<lparr>td_root = i, td_allowed = te_allowed ev, td_root_evaluation = ev, td_dependencies = [], td_missing = [],
      td_cycles = [], td_reasons = [], td_warnings = []\<rparr>"

definition deny_result :: "string \<Rightarrow> trust_dependencies \<Rightarrow> trust_dependencies" where
  "deny_result reason r = r\<lparr>td_allowed := False, td_reasons := td_reasons r @ [reason]\<rparr>"

definition finalize_dependency_trust_result :: "trust_policy \<Rightarrow> trust_dependencies \<Rightarrow> trust_dependencies" where
  "finalize_dependency_trust_result P r =
     (let r1 = (case tp_dependency_policy P of
            None \<Rightarrow> r
          | Some D \<Rightarrow>
            when_do (\<not> dy_allow_transitive_dependencies D \<and> list_ex (\<lambda>n. en_depth n > 1) (td_dependencies r))
              (deny_result ''dependency policy denies transitive dependencies'')
              (when_do (dy_deny_cycles D \<and> td_cycles r \<noteq> []) (deny_result ''dependency policy denies dependency cycles'') r));
          r2 = (if td_missing r1 \<noteq> [] then r1\<lparr>td_allowed := False\<rparr> else r1)
      in if list_ex (\<lambda>n. \<not> en_allowed n) (td_dependencies r2) then r2\<lparr>td_allowed := False\<rparr> else r2)"

definition root_refusal :: "string \<Rightarrow> trust_dependencies \<Rightarrow> trust_dependencies" where
  "root_refusal what r =
     (if te_allowed (td_root_evaluation r) then r
      else r\<lparr>td_reasons := td_reasons r @ [''root '' @ what @ '' '' @ td_root r @ '' is not allowed by policy: '' @
        action_debug (te_action (td_root_evaluation r))]\<rparr>)"

definition trust_from_root ::
    "msp_env \<Rightarrow> local_registry \<Rightarrow> trust_policy \<Rightarrow> root_kind \<Rightarrow> string \<Rightarrow> trust_dependencies \<Rightarrow> (msp_error + trust_dependencies) option" where
  "trust_from_root V R P k i r =
     map_option (\<lambda>res. res_bind res (\<lambda>w.
       Ok (finalize_dependency_trust_result P
         (r\<lparr>td_dependencies := dw_nodes w, td_missing := dw_missing w, td_cycles := dw_cycles w\<rparr>))))
       (evaluate_dependency_trust_inner V R P (walk_fuel R) k i walk_start)"

definition evaluate_dependency_trust ::
    "msp_env \<Rightarrow> local_registry \<Rightarrow> trust_policy \<Rightarrow> string \<Rightarrow> (msp_error + trust_dependencies) option" where
  "evaluate_dependency_trust V R P i =
     (case evaluate_trust_policy V R P i of
        Err e \<Rightarrow> Some (Err e)
      | Ok ev \<Rightarrow> trust_from_root V R P KSkill i (root_refusal ''skill'' (new_dependency_trust_result i ev)))"

definition evaluate_pack_dependency_trust ::
    "msp_env \<Rightarrow> local_registry \<Rightarrow> trust_policy \<Rightarrow> string \<Rightarrow> (msp_error + trust_dependencies) option" where
  "evaluate_pack_dependency_trust V R P i =
     (case evaluate_pack_trust_policy V R P i of
        Err e \<Rightarrow> Some (Err e)
      | Ok ev \<Rightarrow> trust_from_root V R P KPack i (root_refusal ''pack'' (new_dependency_trust_result i ev)))"

section \<open>Resolving: total, complete, and it finds the cycles\<close>

definition version_ok :: "skill_dependency \<Rightarrow> string \<Rightarrow> bool" where
  "version_ok d v = is_ok (dependency_version_match_error d v [])"

lemma version_label: "is_ok (dependency_version_match_error d v label) = version_ok d v"
  by (simp add: version_ok_def dependency_version_match_error_def Let_def)

definition resolve_target :: "local_registry \<Rightarrow> skill_dependency \<Rightarrow> root_kind option" where
  "resolve_target R d =
     (if sd_type d \<noteq> DepSkill then None
      else case tbl_get (sd_id d) (lr_skills R) of None \<Rightarrow> None
        | Some s \<Rightarrow> if version_ok d (sm_version (rs_manifest s)) then Some KSkill else None)"

definition lost_dependency :: "local_registry \<Rightarrow> skill_dependency \<Rightarrow> string list" where
  "lost_dependency R d = (if sd_required d \<and> \<not> dependency_resolved R d then [sd_id d] else [])"

definition dependency_found :: "local_registry \<Rightarrow> skill_dependency \<Rightarrow> bool" where
  "dependency_found R d =
     (case sd_type d of
        DepSkill \<Rightarrow> (case tbl_get (sd_id d) (lr_skills R) of None \<Rightarrow> False | Some s \<Rightarrow> version_ok d (sm_version (rs_manifest s)))
      | DepSkillPack \<Rightarrow> (case tbl_get (sd_id d) (lr_packs R) of None \<Rightarrow> False | Some p \<Rightarrow> version_ok d (pm_version (rk_manifest p)))
      | _ \<Rightarrow> True)"

lemma resolve_edge_eq:
  "resolve_edge R i depth d = Ok (dep_node d (dependency_found R d), lost_dependency R d, resolve_target R d)"
  by (auto simp: resolve_edge_def dependency_found_def lost_dependency_def resolve_target_def dependency_resolved_def
      tbl_has_def version_label split: dependency_type.split option.split)

lemma resolve_target_Some:
  "resolve_target R d = Some k \<longleftrightarrow> k = KSkill \<and> sd_type d = DepSkill \<and> dependency_found R d"
  by (cases "sd_type d") (auto simp: resolve_target_def dependency_found_def split: option.split)

interpretation rs: keyed_walk "skill_dependencies R" "resolve_edge R" "resolve_target R" "lost_dependency R" "\<lambda>_. KSkill"
  for R
  by unfold_locales (auto simp: resolve_edge_eq resolve_target_def split: if_splits option.splits)

lemma finite_ids: "finite (ids_of R)" and card_ids: "card (ids_of R) < walk_fuel R"
proof -
  show "finite (ids_of R)" by (simp add: ids_of_def)
  have "card (ids_of R) \<le> card (fst ` set (lr_skills R)) + card (fst ` set (lr_packs R))"
    unfolding ids_of_def by (rule card_Un_le)
  also have "\<dots> \<le> length (lr_skills R) + length (lr_packs R)"
    by (intro add_mono order.trans [OF card_image_le card_length]) simp_all
  finally show "card (ids_of R) < walk_fuel R" by (simp add: walk_fuel_def)
qed

lemma walk_start_returns:
  assumes "\<And>k i ds. deps k i = Ok ds \<Longrightarrow> i \<in> ids_of R"
  shows "walk deps step (walk_fuel R) k i 0 walk_start \<noteq> None"
  by (rule walk_returns_within [OF finite_ids [of R]]) (use assms card_ids [of R] in \<open>auto simp: walk_start_def\<close>)

lemma skill_dependencies_Ok:
  "skill_dependencies R k i = Ok ds \<longleftrightarrow> (\<exists>s. tbl_get i (lr_skills R) = Some s \<and> ds = sm_dependencies (rs_manifest s))"
  by (auto simp: skill_dependencies_def res_bind_Ok_iff)

lemma skill_ids: "tbl_get i (lr_skills R) = Some s \<Longrightarrow> i \<in> ids_of R"
  by (auto simp: ids_of_def dest: tbl_get_set intro: image_eqI [where x = "(i, s)"])

lemma pack_ids: "tbl_get i (lr_packs R) = Some p \<Longrightarrow> i \<in> ids_of R"
  by (auto simp: ids_of_def dest: tbl_get_set intro: image_eqI [where x = "(i, p)"])

lemma resolve_returns:
  assumes "tbl_get i (lr_skills R) = Some s"
  shows "\<exists>w. resolve_dependencies_inner R (walk_fuel R) i walk_start = Some (Ok w)"
proof -
  have "resolve_dependencies_inner R (walk_fuel R) i walk_start \<noteq> None"
    unfolding resolve_dependencies_inner_def
    by (rule walk_start_returns) (auto simp: skill_dependencies_Ok intro: skill_ids)
  moreover have "resolve_dependencies_inner R (walk_fuel R) i walk_start \<noteq> Some (Err e)" for e
    unfolding resolve_dependencies_inner_def
    by (rule walk_no_error)
      (use assms in \<open>auto simp: resolve_edge_eq resolve_target_Some dependency_found_def is_ok_iff skill_dependencies_Ok
        split: option.splits\<close>)
  ultimately obtain res where "resolve_dependencies_inner R (walk_fuel R) i walk_start = Some res" "\<And>e. res \<noteq> Err e" by blast
  then show ?thesis by (cases res) auto
qed

text \<open>The dependencies that are followed: of a skill, on an indexed skill, of a version that matches.\<close>

definition followed :: "local_registry \<Rightarrow> (string \<times> string) set" where
  "followed R = {(u, v). \<exists>s d. tbl_get u (lr_skills R) = Some s \<and> d \<in> set (sm_dependencies (rs_manifest s)) \<and>
     sd_type d = DepSkill \<and> v = sd_id d \<and> dependency_found R d}"

lemma followed_edges: "keyed_walk.edges (skill_dependencies R) (resolve_target R) (\<lambda>_. KSkill) = followed R"
  by (auto simp: rs.edges_def followed_def skill_dependencies_Ok resolve_target_Some)

lemma resolve_dependencies_Ok:
  assumes "resolve_dependencies R i = Some (Ok r)"
  shows "\<exists>w. walk (skill_dependencies R) (resolve_edge R) (walk_fuel R) KSkill i 0 walk_start = Some (Ok w) \<and>
    r = \<lparr>rr_root = i, rr_nodes = dw_nodes w, rr_missing = dw_missing w, rr_cycles = dw_cycles w\<rparr>"
  using assms
  by (auto simp: resolve_dependencies_def resolve_dependencies_inner_def res_bind_Ok_iff split: if_splits)

lemma resolve_dependencies_total:
  "(\<exists>r. resolve_dependencies R i = Some (Ok r)) \<longleftrightarrow> tbl_has i (lr_skills R)"
proof (cases "tbl_get i (lr_skills R)")
  case (Some s)
  then obtain w where "resolve_dependencies_inner R (walk_fuel R) i walk_start = Some (Ok w)" using resolve_returns by blast
  with Some show ?thesis by (simp add: resolve_dependencies_def tbl_has_def)
qed (simp add: resolve_dependencies_def tbl_has_def)

lemma resolve_cycles:
  assumes "resolve_dependencies R i = Some (Ok r)"
  shows "rr_cycles r = [] \<longleftrightarrow> (\<forall>v. (i, v) \<in> (followed R)\<^sup>* \<longrightarrow> (v, v) \<notin> (followed R)\<^sup>+)"
  using resolve_dependencies_Ok [OF assms] rs.walk_cycles [of R "walk_fuel R" i] by (auto simp: followed_edges)

lemma resolve_missing:
  assumes "resolve_dependencies R i = Some (Ok r)"
  shows "m \<in> set (rr_missing r) \<longleftrightarrow> (\<exists>v s d. (i, v) \<in> (followed R)\<^sup>* \<and> tbl_get v (lr_skills R) = Some s \<and>
    d \<in> set (sm_dependencies (rs_manifest s)) \<and> sd_required d \<and> \<not> dependency_resolved R d \<and> m = sd_id d)"
  using resolve_dependencies_Ok [OF assms] rs.walk_missing [of R "walk_fuel R" i _ m]
  by (fastforce simp: followed_edges skill_dependencies_Ok lost_dependency_def)

lemma resolve_nodes:
  assumes "resolve_dependencies R i = Some (Ok r)"
  shows "n \<in> set (rr_nodes r) \<longleftrightarrow> (\<exists>v s d. (i, v) \<in> (followed R)\<^sup>* \<and> tbl_get v (lr_skills R) = Some s \<and>
    d \<in> set (sm_dependencies (rs_manifest s)) \<and> n = dep_node d (dependency_found R d))"
proof
  from resolve_dependencies_Ok [OF assms] obtain w where
    w: "walk (skill_dependencies R) (resolve_edge R) (walk_fuel R) KSkill i 0 walk_start = Some (Ok w)"
    and r: "rr_nodes r = dw_nodes w" by auto
  { assume "n \<in> set (rr_nodes r)"
    with rs.walk_nodes_only [OF w] r show "\<exists>v s d. (i, v) \<in> (followed R)\<^sup>* \<and> tbl_get v (lr_skills R) = Some s \<and>
        d \<in> set (sm_dependencies (rs_manifest s)) \<and> n = dep_node d (dependency_found R d)"
      by (fastforce simp: followed_edges skill_dependencies_Ok resolve_edge_eq) }
  { assume "\<exists>v s d. (i, v) \<in> (followed R)\<^sup>* \<and> tbl_get v (lr_skills R) = Some s \<and>
        d \<in> set (sm_dependencies (rs_manifest s)) \<and> n = dep_node d (dependency_found R d)"
    with rs.walk_nodes [OF w] r show "n \<in> set (rr_nodes r)"
      by (fastforce simp: followed_edges skill_dependencies_Ok resolve_edge_eq rs.pushed_def) }
qed

section \<open>What one dependency is allowed for\<close>

definition demands_met :: "skill_dependency \<Rightarrow> trust_metadata \<Rightarrow> msp_error + trust_verify \<Rightarrow> bool" where
  "demands_met d trust verification \<longleftrightarrow>
     (\<forall>t. sd_trust d = Some t \<longrightarrow>
        (\<forall>i. dt_required_issuer t = Some i \<longrightarrow> tm_issuer trust = i) \<and>
        (\<forall>h. dt_required_hash t = Some h \<longrightarrow> tm_hash trust = h) \<and>
        (dt_must_be_signed t \<longrightarrow> tm_signed trust \<and> (\<exists>v. verification = Ok v \<and> tv_passed v)))"

definition found_trusted ::
    "trust_policy \<Rightarrow> nat \<Rightarrow> skill_dependency \<Rightarrow> string \<Rightarrow> trust_metadata \<Rightarrow> skill_dependency list \<Rightarrow>
     msp_error + trust_evaluation \<Rightarrow> msp_error + trust_verify \<Rightarrow> bool" where
  "found_trusted P depth d version trust deps evaluation verification \<longleftrightarrow>
     (\<exists>ev. evaluation = Ok ev \<and> (requires_dependency_trust P \<longrightarrow> te_allowed ev)) \<and> version_ok d version \<and>
     (allows_transitive P \<or> depth \<noteq> 1 \<or> deps = []) \<and> demands_met d trust verification"

text \<open>A dependency that may be used: present and trusted, or absent and optional.\<close>

definition edge_trusted ::
    "msp_env \<Rightarrow> local_registry \<Rightarrow> trust_policy \<Rightarrow> nat \<Rightarrow> skill_dependency \<Rightarrow> bool" where
  "edge_trusted V R P depth d =
     (case sd_type d of
        DepSkill \<Rightarrow>
          (case tbl_get (sd_id d) (lr_skills R) of
             None \<Rightarrow> \<not> sd_required d
           | Some s \<Rightarrow> found_trusted P depth d (sm_version (rs_manifest s)) (sm_trust (rs_manifest s))
               (sm_dependencies (rs_manifest s)) (evaluate_trust_policy V R P (sd_id d)) (verify_trust_with_policy V R (sd_id d) P))
      | DepSkillPack \<Rightarrow>
          (case tbl_get (sd_id d) (lr_packs R) of
             None \<Rightarrow> \<not> sd_required d
           | Some p \<Rightarrow> found_trusted P depth d (pm_version (rk_manifest p)) (pm_trust (rk_manifest p))
               (pm_dependencies (rk_manifest p)) (evaluate_pack_trust_policy V R P (sd_id d)) (verify_pack_trust_with_policy V R (sd_id d) P))
      | _ \<Rightarrow> True)"

lemma deny_node_simps [simp]:
  "\<not> en_allowed (deny_node r n)" "en_resolved (deny_node r n) = en_resolved n" "en_depth (deny_node r n) = en_depth n"
  by (simp_all add: deny_node_def)

lemma warn_node_simps [simp]:
  "en_allowed (warn_node t n) = en_allowed n" "en_resolved (warn_node t n) = en_resolved n"
  "en_depth (warn_node t n) = en_depth n"
  by (simp_all add: warn_node_def)

lemma when_deny [simp]:
  "en_allowed (when_do b (deny_node r) n) \<longleftrightarrow> en_allowed n \<and> \<not> b"
  "en_resolved (when_do b (deny_node r) n) = en_resolved n" "en_depth (when_do b (deny_node r) n) = en_depth n"
  by (simp_all add: when_do_def)

lemma when_warn [simp]:
  "en_allowed (when_do b (warn_node t) n) \<longleftrightarrow> en_allowed n"
  "en_resolved (when_do b (warn_node t) n) = en_resolved n" "en_depth (when_do b (warn_node t) n) = en_depth n"
  by (simp_all add: when_do_def)

lemma edge_start_simps [simp]:
  "en_allowed (edge_start R i depth d) \<longleftrightarrow> dependency_resolved R d \<or> \<not> sd_required d"
  "en_resolved (edge_start R i depth d) = dependency_resolved R d" "en_depth (edge_start R i depth d) = depth"
  by (simp_all add: edge_start_def Let_def)

lemma edge_evaluation_simps [simp]:
  "en_allowed (edge_evaluation label P d ev n) \<longleftrightarrow> en_allowed n \<and> (requires_dependency_trust P \<longrightarrow> te_allowed ev)"
  "en_resolved (edge_evaluation label P d ev n) = en_resolved n" "en_depth (edge_evaluation label P d ev n) = en_depth n"
  by (simp_all add: edge_evaluation_def Let_def)

lemma edge_version_simps [simp]:
  "en_allowed (edge_version label d v n) \<longleftrightarrow> en_allowed n \<and> version_ok d v"
  "en_resolved (edge_version label d v n) \<longleftrightarrow> en_resolved n \<and> version_ok d v"
  "en_depth (edge_version label d v n) = en_depth n"
  by (auto simp: edge_version_def version_label [of d v label, symmetric] split: sum.split)

lemma edge_transitive_simps [simp]:
  "en_allowed (edge_transitive label P d depth deps n) \<longleftrightarrow> en_allowed n \<and> (allows_transitive P \<or> depth \<noteq> 1 \<or> deps = [])"
  "en_resolved (edge_transitive label P d depth deps n) = en_resolved n"
  "en_depth (edge_transitive label P d depth deps n) = en_depth n"
  by (auto simp: edge_transitive_def)

lemma edge_pins_simps [simp]:
  "en_allowed (edge_pins label d t trust n) \<longleftrightarrow> en_allowed n \<and>
     (\<forall>i. dt_required_issuer t = Some i \<longrightarrow> tm_issuer trust = i) \<and> (\<forall>h. dt_required_hash t = Some h \<longrightarrow> tm_hash trust = h)"
  "en_resolved (edge_pins label d t trust n) = en_resolved n" "en_depth (edge_pins label d t trust n) = en_depth n"
  by (auto simp: edge_pins_def split: option.split)

lemma edge_signed_simps [simp]:
  "en_allowed (edge_signed label d trust v n) \<longleftrightarrow> en_allowed n \<and> tm_signed trust \<and> tv_passed v"
  "en_resolved (edge_signed label d trust v n) = en_resolved n" "en_depth (edge_signed label d trust v n) = en_depth n"
  by (simp_all add: edge_signed_def)

lemma edge_demands_Ok:
  assumes "edge_demands label d trust verification n = Ok n'"
  shows "(en_allowed n' \<longleftrightarrow> en_allowed n \<and> demands_met d trust verification) \<and> en_resolved n' = en_resolved n \<and>
    en_depth n' = en_depth n"
  using assms
  by (cases "sd_trust d") (auto simp: edge_demands_def demands_met_def Let_def res_bind_Ok_iff split: if_splits)

lemma edge_found_Ok:
  assumes "edge_found label P depth d version trust deps evaluation verification n = Ok n'"
  shows "(en_allowed n' \<longleftrightarrow> en_allowed n \<and> found_trusted P depth d version trust deps evaluation verification) \<and>
    (en_resolved n' \<longleftrightarrow> en_resolved n \<and> version_ok d version) \<and> en_depth n' = en_depth n"
  using assms by (auto simp: edge_found_def res_bind_Ok_iff found_trusted_def dest!: edge_demands_Ok)

lemma evaluate_dependency_edge_Ok:
  assumes "evaluate_dependency_edge V R P i depth d = Ok n"
  shows "(en_allowed n \<longleftrightarrow> edge_trusted V R P depth d) \<and> (en_resolved n \<longleftrightarrow> dependency_found R d) \<and> en_depth n = depth"
proof (cases "sd_type d")
  case DepSkill
  then show ?thesis
    using assms
    by (cases "tbl_get (sd_id d) (lr_skills R)")
      (auto simp: evaluate_dependency_edge_def skill_edge_def edge_trusted_def dependency_found_def dependency_resolved_def
        tbl_has_def Let_def dest!: edge_found_Ok)
next
  case DepSkillPack
  then show ?thesis
    using assms
    by (cases "tbl_get (sd_id d) (lr_packs R)")
      (auto simp: evaluate_dependency_edge_def pack_edge_def edge_trusted_def dependency_found_def dependency_resolved_def
        tbl_has_def Let_def dest!: edge_found_Ok)
qed (use assms in \<open>auto simp: evaluate_dependency_edge_def edge_trusted_def dependency_found_def dependency_resolved_def Let_def\<close>)

text \<open>Only the first edge looks at its depth, and only where the policy forbids transitive dependencies.\<close>

lemma edge_trusted_any_depth: "allows_transitive P \<Longrightarrow> edge_trusted V R P depth d = edge_trusted V R P depth' d"
  by (auto simp: edge_trusted_def found_trusted_def split: dependency_type.split option.split)

lemma edge_trusted_resolved: "edge_trusted V R P depth d \<Longrightarrow> lost_dependency R d = []"
  by (auto simp: edge_trusted_def lost_dependency_def dependency_resolved_def tbl_has_def
      split: dependency_type.splits option.splits)

section \<open>The walk under a policy\<close>

text \<open>The walk tells ids apart by their text alone, so a skill and a pack must not share one.\<close>

definition distinct_kinds :: "local_registry \<Rightarrow> bool" where
  "distinct_kinds R \<longleftrightarrow> (\<forall>i. \<not> (tbl_has i (lr_skills R) \<and> tbl_has i (lr_packs R)))"

definition kind_of :: "local_registry \<Rightarrow> string \<Rightarrow> root_kind" where
  "kind_of R i = (if tbl_has i (lr_packs R) then KPack else KSkill)"

definition trust_target :: "local_registry \<Rightarrow> trust_policy \<Rightarrow> skill_dependency \<Rightarrow> root_kind option" where
  "trust_target R P d =
     (if \<not> allows_transitive P \<or> \<not> dependency_found R d then None
      else if sd_type d = DepSkill then Some KSkill else if sd_type d = DepSkillPack then Some KPack else None)"

lemma trust_edge_Ok:
  "trust_edge V R P i depth d = Ok (n, missing, nxt) \<longleftrightarrow>
     evaluate_dependency_edge V R P i depth d = Ok n \<and> missing = lost_dependency R d \<and> nxt = trust_target R P d"
  using evaluate_dependency_edge_Ok [of V R P i depth d]
  by (auto simp: trust_edge_def res_bind_Ok_iff lost_dependency_def trust_target_def recurse_kind_def)

lemma trust_target_kind:
  assumes "distinct_kinds R" and "trust_target R P d = Some k"
  shows "k = kind_of R (sd_id d)"
proof -
  have one: "tbl_get (sd_id d) (lr_skills R) = None \<or> tbl_get (sd_id d) (lr_packs R) = None"
    using assms(1) unfolding distinct_kinds_def tbl_has_def by blast
  show ?thesis
    using assms(2) one
    by (cases "sd_type d")
      (auto simp: trust_target_def kind_of_def dependency_found_def tbl_has_def split: if_splits option.splits)
qed

lemma trust_walk:
  assumes "distinct_kinds R"
  shows "keyed_walk (trust_edge V R P) (trust_target R P) (lost_dependency R) (kind_of R)"
  using trust_target_kind [OF assms] by unfold_locales (auto simp: trust_edge_Ok)

lemma entry_dependencies_ids: "entry_dependencies R k i = Ok ds \<Longrightarrow> i \<in> ids_of R"
  by (cases k) (auto simp: entry_dependencies_def res_bind_Ok_iff intro: skill_ids pack_ids)

lemma trust_walk_returns: "evaluate_dependency_trust_inner V R P (walk_fuel R) k i walk_start \<noteq> None"
  unfolding evaluate_dependency_trust_inner_def
  by (rule walk_start_returns) (rule entry_dependencies_ids)

lemma trust_evaluations_return:
  "evaluate_dependency_trust V R P i \<noteq> None" "evaluate_pack_dependency_trust V R P i \<noteq> None"
  using trust_walk_returns
  by (auto simp: evaluate_dependency_trust_def evaluate_pack_dependency_trust_def trust_from_root_def split: sum.split)

text \<open>The dependencies that are followed under a policy.\<close>

definition trust_followed :: "local_registry \<Rightarrow> trust_policy \<Rightarrow> (string \<times> string) set" where
  "trust_followed R P = {(u, v). \<exists>ds d. entry_dependencies R (kind_of R u) u = Ok ds \<and> d \<in> set ds \<and>
     trust_target R P d \<noteq> None \<and> v = sd_id d}"

lemma trust_edges:
  assumes "distinct_kinds R"
  shows "keyed_walk.edges (entry_dependencies R) (trust_target R P) (kind_of R) = trust_followed R P"
  using keyed_walk.edges_def [OF trust_walk [OF assms]] by (auto simp: trust_followed_def)

lemma finalize_allowed:
  "td_allowed (finalize_dependency_trust_result P r) \<longleftrightarrow> td_allowed r \<and> td_missing r = [] \<and>
     (\<forall>n \<in> set (td_dependencies r). en_allowed n) \<and>
     (\<forall>D. tp_dependency_policy P = Some D \<longrightarrow> (dy_deny_cycles D \<longrightarrow> td_cycles r = []) \<and>
        (\<not> dy_allow_transitive_dependencies D \<longrightarrow> (\<forall>n \<in> set (td_dependencies r). \<not> 1 < en_depth n)))"
  by (cases "tp_dependency_policy P")
    (auto simp: finalize_dependency_trust_result_def Let_def when_do_def deny_result_def list_ex_iff)

definition denies_cycles :: "trust_policy \<Rightarrow> bool" where
  "denies_cycles P = (case tp_dependency_policy P of None \<Rightarrow> False | Some D \<Rightarrow> dy_deny_cycles D)"

text \<open>A root is trusted with everything it reaches.\<close>

definition closure_trusted :: "msp_env \<Rightarrow> local_registry \<Rightarrow> trust_policy \<Rightarrow> string \<Rightarrow> bool" where
  "closure_trusted V R P i \<longleftrightarrow>
     (\<forall>v ds d. (i, v) \<in> (trust_followed R P)\<^sup>* \<longrightarrow> entry_dependencies R (kind_of R v) v = Ok ds \<longrightarrow> d \<in> set ds \<longrightarrow>
        edge_trusted V R P 1 d) \<and>
     (denies_cycles P \<longrightarrow> (\<forall>v. (i, v) \<in> (trust_followed R P)\<^sup>* \<longrightarrow> (v, v) \<notin> (trust_followed R P)\<^sup>+))"

lemma trust_from_root_Ok:
  assumes "trust_from_root V R P k i r0 = Some (Ok r)"
  shows "\<exists>w. walk (entry_dependencies R) (trust_edge V R P) (walk_fuel R) k i 0 walk_start = Some (Ok w) \<and>
    r = finalize_dependency_trust_result P
      (r0\<lparr>td_dependencies := dw_nodes w, td_missing := dw_missing w, td_cycles := dw_cycles w\<rparr>)"
  using assms by (auto simp: trust_from_root_def evaluate_dependency_trust_inner_def res_bind_Ok_iff)

lemma walk_entry:
  "walk deps step fuel k i 0 walk_start = Some (Ok w) \<Longrightarrow> \<exists>ds. deps k i = Ok ds"
  by (cases fuel) (auto simp: walk_start_def split: sum.splits)

lemma nodes_allowed:
  assumes "distinct_kinds R" and "allows_transitive P"
    and "walk (entry_dependencies R) (trust_edge V R P) fuel (kind_of R i) i 0 walk_start = Some (Ok w)"
  shows "(\<forall>n \<in> set (dw_nodes w). en_allowed n) \<longleftrightarrow>
    (\<forall>v ds d. (i, v) \<in> (trust_followed R P)\<^sup>* \<longrightarrow> entry_dependencies R (kind_of R v) v = Ok ds \<longrightarrow> d \<in> set ds \<longrightarrow>
       edge_trusted V R P 1 d)" (is "?all \<longleftrightarrow> ?trusted")
proof
  note kw = trust_walk [OF assms(1), of V P]
  note allowed = evaluate_dependency_edge_Ok edge_trusted_any_depth [OF assms(2)]
  { assume ?all
    show ?trusted
    proof (intro allI impI)
      fix v ds d
      assume v: "(i, v) \<in> (trust_followed R P)\<^sup>*" "entry_dependencies R (kind_of R v) v = Ok ds" "d \<in> set ds"
      from keyed_walk.walk_nodes [OF kw assms(3), unfolded trust_edges [OF assms(1)], OF v(1)] v(2,3)
      have "keyed_walk.pushed (trust_edge V R P) (trust_target R P) (lost_dependency R) v d w" by fastforce
      then obtain depth n where "trust_edge V R P v depth d = Ok (n, lost_dependency R d, trust_target R P d)" "n \<in> set (dw_nodes w)"
        unfolding keyed_walk.pushed_def [OF kw] by blast
      with \<open>?all\<close> have "edge_trusted V R P depth d"
        using evaluate_dependency_edge_Ok by (auto simp: trust_edge_Ok)
      then show "edge_trusted V R P 1 d" using edge_trusted_any_depth [OF assms(2)] by blast
    qed }
  { assume t: ?trusted
    show ?all
    proof
      fix n assume "n \<in> set (dw_nodes w)"
      from keyed_walk.walk_nodes_only [OF kw assms(3) this, unfolded trust_edges [OF assms(1)]]
      obtain v ds d depth where v: "(i, v) \<in> (trust_followed R P)\<^sup>*" "entry_dependencies R (kind_of R v) v = Ok ds" "d \<in> set ds"
        "trust_edge V R P v depth d = Ok (n, lost_dependency R d, trust_target R P d)" by blast
      with t have "edge_trusted V R P 1 d" by blast
      then have "edge_trusted V R P depth d" using edge_trusted_any_depth [OF assms(2)] by blast
      with v(4) evaluate_dependency_edge_Ok show "en_allowed n" by (auto simp: trust_edge_Ok)
    qed }
qed

lemma nothing_missing:
  assumes "distinct_kinds R"
    and "walk (entry_dependencies R) (trust_edge V R P) fuel (kind_of R i) i 0 walk_start = Some (Ok w)"
    and "\<forall>v ds d. (i, v) \<in> (trust_followed R P)\<^sup>* \<longrightarrow> entry_dependencies R (kind_of R v) v = Ok ds \<longrightarrow> d \<in> set ds \<longrightarrow>
       edge_trusted V R P 1 d"
  shows "dw_missing w = []"
proof (rule ccontr)
  assume "dw_missing w \<noteq> []"
  then obtain m where "m \<in> set (dw_missing w)" by (meson last_in_set)
  with keyed_walk.walk_missing [OF trust_walk [OF assms(1), of V P] assms(2), unfolded trust_edges [OF assms(1)]]
  obtain v ds d where "(i, v) \<in> (trust_followed R P)\<^sup>*" "entry_dependencies R (kind_of R v) v = Ok ds" "d \<in> set ds"
    "lost_dependency R d \<noteq> []" by fastforce
  with assms(3) edge_trusted_resolved show False by blast
qed

lemma walk_without_transitive:
  assumes "\<not> allows_transitive P"
    and "walk (entry_dependencies R) (trust_edge V R P) fuel k i 0 walk_start = Some (Ok w)"
    and "entry_dependencies R k i = Ok ds"
  shows "(\<forall>n \<in> set (dw_nodes w). en_allowed n) \<longleftrightarrow> (\<forall>d \<in> set ds. edge_trusted V R P 1 d)"
    and "\<forall>n \<in> set (dw_nodes w). en_depth n = 1" and "dw_cycles w = []"
proof -
  have none: "nxt = None" if "trust_edge V R P u depth d = Ok (n, missing, nxt)" for u depth d n missing nxt
    using that assms(1) by (simp add: trust_edge_Ok trust_target_def)
  have walked: "list_all2 (\<lambda>d n. \<exists>missing. trust_edge V R P i 1 d = Ok (n, missing, None)) ds (dw_nodes w) \<and> dw_cycles w = []"
    by (rule walk_flat [OF _ assms(2,3)]) (use none in blast)
  have flat: "list_all2 (\<lambda>d n. evaluate_dependency_edge V R P i 1 d = Ok n) ds (dw_nodes w)" "dw_cycles w = []"
    using walked by (auto simp: trust_edge_Ok elim: list_all2_mono)
  show "dw_cycles w = []" by (fact flat(2))
  show "\<forall>n \<in> set (dw_nodes w). en_depth n = 1"
    using flat(1) evaluate_dependency_edge_Ok by (fastforce simp: list_all2_conv_all_nth in_set_conv_nth)
  show "(\<forall>n \<in> set (dw_nodes w). en_allowed n) \<longleftrightarrow> (\<forall>d \<in> set ds. edge_trusted V R P 1 d)"
    using flat(1) evaluate_dependency_edge_Ok
    by (fastforce simp: list_all2_conv_all_nth in_set_conv_nth)
qed

text \<open>What an evaluation allows: the root, and everything it reaches.\<close>

lemma trust_from_root_allowed:
  assumes "distinct_kinds R" and "trust_from_root V R P (kind_of R i) i r0 = Some (Ok r)"
  shows "td_allowed r \<longleftrightarrow> td_allowed r0 \<and> closure_trusted V R P i"
proof -
  from trust_from_root_Ok [OF assms(2)] obtain w where
    w: "walk (entry_dependencies R) (trust_edge V R P) (walk_fuel R) (kind_of R i) i 0 walk_start = Some (Ok w)"
    and r: "td_allowed r \<longleftrightarrow> td_allowed r0 \<and> dw_missing w = [] \<and> (\<forall>n \<in> set (dw_nodes w). en_allowed n) \<and>
      (\<forall>D. tp_dependency_policy P = Some D \<longrightarrow> (dy_deny_cycles D \<longrightarrow> dw_cycles w = []) \<and>
        (\<not> dy_allow_transitive_dependencies D \<longrightarrow> (\<forall>n \<in> set (dw_nodes w). \<not> 1 < en_depth n)))"
    by (auto simp: finalize_allowed)
  note cycles = keyed_walk.walk_cycles [OF trust_walk [OF assms(1), of V P] w, unfolded trust_edges [OF assms(1)]]
  note missing = nothing_missing [OF assms(1) w]
  have all: "(\<forall>n \<in> set (dw_nodes w). en_allowed n) \<longleftrightarrow> (\<forall>v ds d. (i, v) \<in> (trust_followed R P)\<^sup>* \<longrightarrow>
      entry_dependencies R (kind_of R v) v = Ok ds \<longrightarrow> d \<in> set ds \<longrightarrow> edge_trusted V R P 1 d)"
    and shallow: "\<not> allows_transitive P \<Longrightarrow> n \<in> set (dw_nodes w) \<Longrightarrow> en_depth n = 1" for n
  proof -
    obtain ds where ds: "entry_dependencies R (kind_of R i) i = Ok ds" using walk_entry [OF w] by blast
    show "en_depth n = 1" if "\<not> allows_transitive P" "n \<in> set (dw_nodes w)" for n
      using walk_without_transitive(2) [OF that(1) w ds] that(2) by blast
    show "(\<forall>n \<in> set (dw_nodes w). en_allowed n) \<longleftrightarrow> (\<forall>v ds d. (i, v) \<in> (trust_followed R P)\<^sup>* \<longrightarrow>
      entry_dependencies R (kind_of R v) v = Ok ds \<longrightarrow> d \<in> set ds \<longrightarrow> edge_trusted V R P 1 d)"
    proof (cases "allows_transitive P")
      case False
      then have "trust_followed R P = {}" by (simp add: trust_followed_def trust_target_def)
      with walk_without_transitive(1) [OF False w ds] ds show ?thesis by (simp add: Ball_def)
    qed (rule nodes_allowed [OF assms(1) _ w])
  qed
  have "dy_allow_transitive_dependencies D = allows_transitive P" if "tp_dependency_policy P = Some D" for D
    using that by (simp add: allows_transitive_def)
  with r all shallow missing cycles show ?thesis
    unfolding closure_trusted_def denies_cycles_def by (cases "tp_dependency_policy P") auto
qed

lemma evaluate_dependency_trust_allowed:
  assumes "distinct_kinds R" and "evaluate_dependency_trust V R P i = Some (Ok r)"
  shows "td_allowed r \<longleftrightarrow> (\<exists>ev. evaluate_trust_policy V R P i = Ok ev \<and> te_allowed ev) \<and> closure_trusted V R P i"
proof -
  from assms(2) obtain ev where ev: "evaluate_trust_policy V R P i = Ok ev"
    and run: "trust_from_root V R P KSkill i (root_refusal ''skill'' (new_dependency_trust_result i ev)) = Some (Ok r)"
    by (auto simp: evaluate_dependency_trust_def split: sum.splits)
  from ev have "tbl_has i (lr_skills R)" by (auto simp: evaluate_trust_policy_def res_bind_Ok_iff tbl_has_def)
  with assms(1) have "kind_of R i = KSkill" unfolding kind_of_def distinct_kinds_def by auto
  with trust_from_root_allowed [OF assms(1), of V P i] run ev show ?thesis
    by (simp add: root_refusal_def new_dependency_trust_result_def)
qed

lemma evaluate_pack_dependency_trust_allowed:
  assumes "distinct_kinds R" and "evaluate_pack_dependency_trust V R P i = Some (Ok r)"
  shows "td_allowed r \<longleftrightarrow> (\<exists>ev. evaluate_pack_trust_policy V R P i = Ok ev \<and> te_allowed ev) \<and> closure_trusted V R P i"
proof -
  from assms(2) obtain ev where ev: "evaluate_pack_trust_policy V R P i = Ok ev"
    and run: "trust_from_root V R P KPack i (root_refusal ''pack'' (new_dependency_trust_result i ev)) = Some (Ok r)"
    by (auto simp: evaluate_pack_dependency_trust_def split: sum.splits)
  from ev have "tbl_has i (lr_packs R)" by (auto simp: evaluate_pack_trust_policy_def res_bind_Ok_iff tbl_has_def)
  then have "kind_of R i = KPack" by (simp add: kind_of_def)
  with trust_from_root_allowed [OF assms(1), of V P i] run ev show ?thesis
    by (simp add: root_refusal_def new_dependency_trust_result_def)
qed

end
