(* ===== verification/Msp_Compat.thy ===== *)
theory Msp_Compat
  imports Msp_Registry Msp_Semver
begin

text \<open>
  Whether a runtime can run a skill, and the search for skills and packs
  (components/msp/crates/msp-registry/src/lib.rs, with the data of msp-core/src/protocol.rs).
  A check gives its verdict with the issues and the warnings it pushes, in the order of the
  code. The floating-point numbers of a score are a parameter: no theorem needs their arithmetic.
\<close>

section \<open>Data\<close>

text \<open>The operations on \<open>f64\<close> the scores use.\<close>

record 'f float_ops =
  fl_of_nat :: "nat \<Rightarrow> 'f"
  fl_add :: "'f \<Rightarrow> 'f \<Rightarrow> 'f"
  fl_div :: "'f \<Rightarrow> 'f \<Rightarrow> 'f"
  fl_ge :: "'f \<Rightarrow> 'f \<Rightarrow> bool"
  fl_gt :: "'f \<Rightarrow> 'f \<Rightarrow> bool"

record runtime_query =
  rtq_msp_version :: "string option"
  rtq_supported_manifest_versions :: "string list"
  rtq_runtime_name :: "string option"
  rtq_runtime_version :: "string option"
  rtq_supported_formats :: "string list"
  rtq_runtime_capabilities :: "string list"
  rtq_model_capabilities :: "string list"
  rtq_available_tools :: "string list"
  rtq_tool_versions :: "string table"
  rtq_permissions :: "string list"
  rtq_context_window :: "nat option"
  rtq_platform :: "string option"

datatype severity = SeverityWarning | SeverityError

record compat_issue =
  ci_code :: string
  ci_dimension :: string
  ci_severity :: severity
  ci_required :: bool
  ci_message :: string

record 'f compat_result =
  cr_skill_id :: string
  cr_compatible :: bool
  cr_score :: 'f
  cr_msp_version :: bool
  cr_manifest_version :: bool
  cr_format :: bool
  cr_runtime_capabilities :: bool
  cr_model_capabilities :: bool
  cr_tools :: bool
  cr_permissions :: bool
  cr_context_window :: bool
  cr_platform :: bool
  cr_known_runtime :: bool
  cr_issues :: "compat_issue list"
  cr_warnings :: "string list"

definition compat_error :: "string \<Rightarrow> string \<Rightarrow> string \<Rightarrow> compat_issue" where
  "compat_error code dimension message =
     \<lparr>ci_code = code, ci_dimension = dimension, ci_severity = SeverityError, ci_required = True, ci_message = message\<rparr>"

type_synonym verdict = "bool \<times> compat_issue list \<times> string list"

section \<open>The checks\<close>

definition any_compatible :: dependency_resolution where
  "any_compatible = \<lparr>dr_strategy = Compatible, dr_allow_prerelease = True\<rparr>"

text \<open>A bound of the manifest on the runtime's version; \<open>holds\<close> compares the parsed versions.\<close>

definition version_bound :: "string option \<Rightarrow> string \<Rightarrow> (semver \<Rightarrow> semver \<Rightarrow> bool) \<Rightarrow> (string \<Rightarrow> compat_issue) \<Rightarrow> verdict" where
  "version_bound bound runtime_version holds issue =
     (case bound of
        None \<Rightarrow> (True, [], [])
      | Some b \<Rightarrow>
        (case (semver_parse runtime_version, semver_parse b) of
           (Ok runtime, Ok limit) \<Rightarrow> if holds runtime limit then (True, [], []) else (False, [issue b], [])
         | _ \<Rightarrow> (True, [], [''could not parse MSP version bound '' @ b @ '' or runtime version '' @ runtime_version])))"

definition both :: "verdict \<Rightarrow> verdict \<Rightarrow> verdict" where
  "both a b = (fst a \<and> fst b, fst (snd a) @ fst (snd b), snd (snd a) @ snd (snd b))"

definition check_msp_version :: "skill_manifest \<Rightarrow> runtime_query \<Rightarrow> verdict" where
  "check_msp_version m q =
     (case rtq_msp_version q of
        None \<Rightarrow> (False, [compat_error ''missing_runtime_msp_version'' ''msp_version''
          ''runtime did not declare an MSP protocol version''], [])
      | Some v \<Rightarrow>
        let main = (if version_matches_requirement (sm_msp_version m) v any_compatible then (True, [], [])
              else (False, [compat_error ''msp_version_mismatch'' ''msp_version''
                (''runtime MSP version '' @ v @ '' is not compatible with skill MSP version '' @ sm_msp_version m)], []))
        in case sm_compatibility m of
             None \<Rightarrow> main
           | Some c \<Rightarrow>
             both (both main
               (version_bound (cp_min_msp_version c) v semver_at_least
                 (\<lambda>b. compat_error ''below_min_msp_version'' ''msp_version''
                   (''runtime MSP version '' @ v @ '' is below skill minimum MSP version '' @ b))))
               (version_bound (cp_max_msp_version c) v (\<lambda>runtime limit. semver_at_least limit runtime)
                 (\<lambda>b. compat_error ''above_max_msp_version'' ''msp_version''
                   (''runtime MSP version '' @ v @ '' is above skill maximum MSP version '' @ b))))"

definition check_manifest_version :: "skill_manifest \<Rightarrow> runtime_query \<Rightarrow> verdict" where
  "check_manifest_version m q =
     (if rtq_supported_manifest_versions q = [] \<or> sm_manifest_version m \<in> set (rtq_supported_manifest_versions q)
      then (True, [], [])
      else (False, [compat_error ''unsupported_manifest_version'' ''manifest_version''
        (''skill manifest version '' @ sm_manifest_version m @ '' is not listed in runtime supported_manifest_versions'')], []))"

definition check_formats :: "msp_env \<Rightarrow> skill_manifest \<Rightarrow> runtime_query \<Rightarrow> verdict" where
  "check_formats V m q =
     (if rtq_supported_formats q = [] \<or> list_ex (\<lambda>f. f \<in> set (sm_formats m)) (rtq_supported_formats q)
      then (True, [], [])
      else (False, [compat_error ''unsupported_format'' ''formats''
        (''runtime formats '' @ me_debug V (rtq_supported_formats q) @ '' do not include any skill format '' @
          me_debug V (sm_formats m))], []))"

definition check_required_values :: "string \<Rightarrow> string \<Rightarrow> string list \<Rightarrow> string list \<Rightarrow> verdict" where
  "check_required_values code dimension required_values available_values =
     (let missing = filter (\<lambda>v. v \<notin> set available_values) required_values
      in (missing = [], map (\<lambda>v. compat_error (''missing_'' @ code) dimension
            (''runtime is missing required '' @ dimension @ '' value '' @ v)) missing, []))"

definition check_tool :: "runtime_query \<Rightarrow> tool_requirement \<Rightarrow> verdict" where
  "check_tool q t =
     (if tq_name t \<notin> set (rtq_available_tools q)
      then (if tq_required t
            then (False, [compat_error ''missing_required_tool'' ''tools'' (''runtime is missing required tool '' @ tq_name t)], [])
            else (True, [], [''optional tool '' @ tq_name t @ '' is not available'']))
      else case tq_minimum_version t of
        None \<Rightarrow> (True, [], [])
      | Some minimum \<Rightarrow>
        (case tbl_get (tq_name t) (rtq_tool_versions q) of
           Some actual \<Rightarrow>
             if version_matches_requirement minimum actual any_compatible then (True, [], [])
             else if tq_required t
             then (False, [compat_error ''tool_version_too_low'' ''tools''
               (''tool '' @ tq_name t @ '' version '' @ actual @ '' does not satisfy minimum '' @ minimum)], [])
             else (True, [], [''optional tool '' @ tq_name t @ '' version '' @ actual @ '' does not satisfy minimum '' @ minimum])
         | None \<Rightarrow>
             if tq_required t
             then (False, [compat_error ''missing_tool_version'' ''tools''
               (''runtime did not declare version for required tool '' @ tq_name t @ '' with minimum '' @ minimum)], [])
             else (True, [], [''runtime did not declare version for optional tool '' @ tq_name t @ '' with minimum '' @ minimum])))"

definition check_tools :: "skill_manifest \<Rightarrow> runtime_query \<Rightarrow> verdict" where
  "check_tools m q = fold (\<lambda>t acc. both acc (check_tool q t)) (rq_tools (sm_requirements m)) (True, [], [])"

definition check_context_window :: "skill_manifest \<Rightarrow> runtime_query \<Rightarrow> verdict" where
  "check_context_window m q =
     (case rq_min_context_window (sm_requirements m) of
        None \<Rightarrow> (True, [], [])
      | Some required \<Rightarrow>
        (case rtq_context_window q of
           Some actual \<Rightarrow>
             if required \<le> actual then (True, [], [])
             else (False, [compat_error ''context_window_too_small'' ''context_window''
               (''runtime context window '' @ show_nat actual @ '' is below required '' @ show_nat required)], [])
         | None \<Rightarrow> (False, [compat_error ''missing_context_window'' ''context_window''
             (''runtime did not declare required context window '' @ show_nat required)], [])))"

definition check_platform :: "msp_env \<Rightarrow> skill_manifest \<Rightarrow> runtime_query \<Rightarrow> verdict" where
  "check_platform V m q =
     (let supported = rq_supported_platforms (sm_requirements m)
      in if supported = [] then (True, [], [])
         else case rtq_platform q of
           None \<Rightarrow> (True, [], [''skill declares supported platforms '' @ me_debug V supported @ '', but runtime platform is unknown''])
         | Some platform \<Rightarrow>
           if list_ex (\<lambda>s. s = platform \<or> s = ''any'') supported then (True, [], [])
           else (False, [compat_error ''unsupported_platform'' ''platform''
             (''runtime platform '' @ platform @ '' is not in skill supported_platforms '' @ me_debug V supported)], []))"

definition check_known_runtime :: "msp_env \<Rightarrow> skill_manifest \<Rightarrow> runtime_query \<Rightarrow> bool \<times> string list" where
  "check_known_runtime V m q =
     (case sm_compatibility m of
        None \<Rightarrow> (True, [])
      | Some c \<Rightarrow>
        if cp_known_runtimes c = [] then (True, [])
        else case rtq_runtime_name q of
          None \<Rightarrow> (False, [''skill declares known runtimes '' @ me_debug V (cp_known_runtimes c) @ '', but runtime_name was not provided''])
        | Some name \<Rightarrow>
          if name \<in> set (cp_known_runtimes c) then (True, [])
          else (False, [''runtime '' @ name @ '' is not listed in skill known_runtimes '' @ me_debug V (cp_known_runtimes c)]))"

definition evaluate_skill_compatibility ::
    "'f float_ops \<Rightarrow> msp_env \<Rightarrow> skill_manifest \<Rightarrow> runtime_query \<Rightarrow> 'f compat_result" where
  "evaluate_skill_compatibility F V m q =
     (let rq = sm_requirements m;
          checks = [check_msp_version m q, check_manifest_version m q, check_formats V m q,
            check_required_values ''runtime_capability'' ''runtime_capabilities'' (rq_runtime_capabilities rq) (rtq_runtime_capabilities q),
            check_required_values ''model_capability'' ''model_capabilities'' (rq_model_capabilities rq) (rtq_model_capabilities q),
            check_tools m q,
            check_required_values ''permission'' ''permissions'' (rq_permissions rq) (rtq_permissions q),
            check_context_window m q, check_platform V m q];
          (known, known_warnings) = check_known_runtime V m q;
          issues = concat (map (\<lambda>c. fst (snd c)) checks)
      in \<lparr>cr_skill_id = sm_id m,
          cr_compatible = list_all (\<lambda>i. ci_severity i \<noteq> SeverityError) issues,
          cr_score = fl_div F (fl_of_nat F (length (filter fst checks))) (fl_of_nat F (length checks)),
          cr_msp_version = fst (checks ! 0), cr_manifest_version = fst (checks ! 1), cr_format = fst (checks ! 2),
          cr_runtime_capabilities = fst (checks ! 3), cr_model_capabilities = fst (checks ! 4), cr_tools = fst (checks ! 5),
          cr_permissions = fst (checks ! 6), cr_context_window = fst (checks ! 7), cr_platform = fst (checks ! 8),
          cr_known_runtime = known, cr_issues = issues,
          cr_warnings = concat (map (\<lambda>c. snd (snd c)) checks) @ known_warnings\<rparr>)"

definition check_skill_compatibility ::
    "'f float_ops \<Rightarrow> msp_env \<Rightarrow> local_registry \<Rightarrow> string \<Rightarrow> runtime_query \<Rightarrow> msp_error + 'f compat_result" where
  "check_skill_compatibility F V R i q =
     res_bind (find_skill R i) (\<lambda>s. Ok (evaluate_skill_compatibility F V (rs_manifest s) q))"

section \<open>Search\<close>

record skill_query =
  sq_task :: "string option"
  sq_category :: "string option"
  sq_domain :: "string option"
  sq_language :: "string option"
  sq_available_tools :: "string list"
  sq_max_risk :: "risk_level option"

record pack_query =
  pq_task :: "string option"
  pq_category :: "string option"
  pq_issuer :: "string option"
  pq_max_risk :: "risk_level option"

text \<open>\<open>split_whitespace\<close>; \<open>word\<close> is the word being read.\<close>

function split_whitespace_from :: "string \<Rightarrow> string \<Rightarrow> string list" where
  "split_whitespace_from word [] = (if word = [] then [] else [word])"
| "split_whitespace_from word (c # s) =
     (case skip_front (c # s) of
        Some r \<Rightarrow> (if word = [] then [] else [word]) @ split_whitespace_from [] r
      | None \<Rightarrow> split_whitespace_from (word @ [c]) s)"
  by pat_completeness auto
termination by (relation "measure (\<lambda>(w, s). length s)") (auto dest: skip_front_shorter)

definition split_whitespace :: "string \<Rightarrow> string list" where
  "split_whitespace s = split_whitespace_from [] s"

definition replace_chars :: "char set \<Rightarrow> string \<Rightarrow> string" where
  "replace_chars cs s = map (\<lambda>c. if c \<in> cs then CHR '' '' else c) s"

text \<open>The points of the words of a text that the task contains.\<close>

definition token_points :: "nat \<Rightarrow> string \<Rightarrow> string list \<Rightarrow> nat" where
  "token_points points task tokens = points * length (filter (\<lambda>t. length t > 2 \<and> str_contains t task) tokens)"

definition too_risky :: "risk_level option \<Rightarrow> trust_metadata \<Rightarrow> bool" where
  "too_risky max_risk trust = (case max_risk of None \<Rightarrow> False | Some r \<Rightarrow> r < tm_risk_level trust)"

definition skill_task_score :: "skill_manifest \<Rightarrow> string \<Rightarrow> nat" where
  "skill_task_score m query_task =
     (let task = to_ascii_lowercase query_task
      in sum_list (map (\<lambda>p. if str_contains (to_ascii_lowercase p) task then 30
             else token_points 2 task (map to_ascii_lowercase (split_whitespace p))) (ac_task_patterns (sm_activation m))) +
         sum_list (map (\<lambda>k. if str_contains (to_ascii_lowercase k) task then 5 else 0) (sm_keywords m)) +
         (if str_contains (replace_chars {CHR ''/''} (sm_category m)) task then 8 else 0))"

definition tools_available :: "skill_manifest \<Rightarrow> string list \<Rightarrow> bool" where
  "tools_available m available = list_all (\<lambda>t. tq_name t \<in> set available) (filter tq_required (rq_tools (sm_requirements m)))"

definition score_manifest :: "skill_manifest \<Rightarrow> skill_query \<Rightarrow> nat" where
  "score_manifest m q =
     (if too_risky (sq_max_risk q) (sm_trust m) then 0
      else let score =
             (if sq_task q = None \<and> sq_category q = None \<and> sq_domain q = None \<and> sq_language q = None then 1 else 0) +
             (case sq_category q of None \<Rightarrow> 0 | Some c \<Rightarrow> if str_contains c (sm_category m) then 20 else 0) +
             (case sq_domain q of None \<Rightarrow> 0 | Some d \<Rightarrow> if d \<in> set (ac_domains (sm_activation m)) then 15 else 0) +
             (case sq_language q of None \<Rightarrow> 0 | Some l \<Rightarrow> if l \<in> set (ac_languages (sm_activation m)) then 15 else 0) +
             (case sq_task q of None \<Rightarrow> 0 | Some t \<Rightarrow> skill_task_score m t)
        in if sq_available_tools q = [] then score
           else if tools_available m (sq_available_tools q) then score + 10 else 0)"

definition pack_task_score :: "pack_manifest \<Rightarrow> string \<Rightarrow> nat" where
  "pack_task_score m query_task =
     (let task = to_ascii_lowercase query_task
      in sum_list (map (\<lambda>v. let normalized = replace_chars {CHR ''/''} (to_ascii_lowercase v)
             in if str_contains normalized task \<or> str_contains task normalized then 20
                else token_points 2 task (split_whitespace normalized)) [pm_name m, pm_summary m, pm_category m]) +
         sum_list (map (\<lambda>p. token_points 1 task (split_whitespace (replace_chars {CHR ''.'', CHR ''_'', CHR ''-''}
             (to_ascii_lowercase (pr_id p @ '' '' @ (case pr_role p of None \<Rightarrow> [] | Some r \<Rightarrow> r)))))) (pm_skills m)))"

definition score_pack_manifest :: "pack_manifest \<Rightarrow> pack_query \<Rightarrow> nat" where
  "score_pack_manifest m q =
     (if too_risky (pq_max_risk q) (pm_trust m) then 0
      else if (case pq_issuer q of None \<Rightarrow> False | Some i \<Rightarrow> tm_issuer (pm_trust m) \<noteq> i) then 0
      else (if pq_task q = None \<and> pq_category q = None \<and> pq_issuer q = None then 1 else 0) +
           (case pq_category q of None \<Rightarrow> 0 | Some c \<Rightarrow> if str_contains c (pm_category m) then 20 else 0) +
           (case pq_issuer q of None \<Rightarrow> 0 | Some i \<Rightarrow> if tm_issuer (pm_trust m) = i then 10 else 0) +
           (case pq_task q of None \<Rightarrow> 0 | Some t \<Rightarrow> pack_task_score m t))"

record search_result =
  se_id :: string
  se_name :: string
  se_version :: string
  se_category :: string
  se_summary :: string
  se_risk_level :: risk_level
  se_score :: nat
  se_required_tools :: "string list"

definition search_from_manifest :: "skill_manifest \<Rightarrow> nat \<Rightarrow> search_result" where
  "search_from_manifest m score =
     \<lparr>se_id = sm_id m, se_name = sm_name m, se_version = sm_version m, se_category = sm_category m,
      se_summary = sm_summary m, se_risk_level = tm_risk_level (sm_trust m), se_score = score,
      se_required_tools = map tq_name (filter tq_required (rq_tools (sm_requirements m)))\<rparr>"

record pack_result =
  pe_id :: string
  pe_name :: string
  pe_version :: string
  pe_category :: string
  pe_summary :: string
  pe_risk_level :: risk_level
  pe_score :: nat
  pe_skill_count :: nat
  pe_required_skill_count :: nat
  pe_issuer :: string

definition pack_from_manifest :: "pack_manifest \<Rightarrow> nat \<Rightarrow> pack_result" where
  "pack_from_manifest m score =
     \<lparr>pe_id = pm_id m, pe_name = pm_name m, pe_version = pm_version m, pe_category = pm_category m,
      pe_summary = pm_summary m, pe_risk_level = tm_risk_level (pm_trust m), pe_score = score,
      pe_skill_count = length (pm_skills m), pe_required_skill_count = length (filter pr_required (pm_skills m)),
      pe_issuer = tm_issuer (pm_trust m)\<rparr>"

text \<open>Sorted by descending score, then by id; the sort is stable.\<close>

definition search :: "local_registry \<Rightarrow> skill_query \<Rightarrow> search_result list" where
  "search R q =
     sort_key (\<lambda>r. (- int (se_score r), se_id r))
       (map (\<lambda>s. search_from_manifest (rs_manifest s) (score_manifest (rs_manifest s) q))
         (filter (\<lambda>s. 0 < score_manifest (rs_manifest s) q) (map snd (lr_skills R))))"

definition discover_packs :: "local_registry \<Rightarrow> pack_query \<Rightarrow> pack_result list" where
  "discover_packs R q =
     sort_key (\<lambda>r. (- int (pe_score r), pe_id r))
       (map (\<lambda>p. pack_from_manifest (rk_manifest p) (score_pack_manifest (rk_manifest p) q))
         (filter (\<lambda>p. 0 < score_pack_manifest (rk_manifest p) q) (map snd (lr_packs R))))"

section \<open>Compatible means every dimension holds\<close>

text \<open>A check fails exactly where it pushes an issue, and its issues are errors.\<close>

definition sound :: "verdict \<Rightarrow> bool" where
  "sound c \<longleftrightarrow> (fst c \<longleftrightarrow> fst (snd c) = []) \<and> (\<forall>i \<in> set (fst (snd c)). ci_severity i = SeverityError)"

named_theorems sound_intros

lemma sound_yes [sound_intros]: "sound (True, [], ws)"
  and sound_no [sound_intros]: "sound (False, [compat_error c d m], ws)"
  by (simp_all add: sound_def compat_error_def)

lemma sound_both [sound_intros]: "sound a \<Longrightarrow> sound b \<Longrightarrow> sound (both a b)"
  by (auto simp: sound_def both_def)

lemma sound_required [sound_intros]: "sound (check_required_values code dimension xs ys)"
  by (auto simp: sound_def check_required_values_def Let_def compat_error_def)

lemma sound_bound [sound_intros]:
  assumes "\<And>b. \<exists>c d t. issue b = compat_error c d t"
  shows "sound (version_bound bound v holds issue)"
proof (cases bound)
  case (Some b)
  obtain c d t where "issue b = compat_error c d t" using assms by blast
  with Some show ?thesis by (simp add: version_bound_def sound_intros split: sum.split)
qed (simp add: version_bound_def sound_intros)

lemma sound_msp [sound_intros]: "sound (check_msp_version m q)"
proof (cases "rtq_msp_version q")
  case (Some v)
  have "sound (if b then (True, [], []) else (False, [compat_error c d t], []))" for b c d t
    by (simp add: sound_intros)
  then show ?thesis
    using Some by (cases "sm_compatibility m") (auto simp only: check_msp_version_def Let_def option.case intro!: sound_both sound_bound)
qed (simp add: check_msp_version_def sound_intros)

lemma sound_manifest [sound_intros]: "sound (check_manifest_version m q)"
  by (simp add: check_manifest_version_def sound_intros)

lemma sound_formats [sound_intros]: "sound (check_formats V m q)"
  by (simp add: check_formats_def sound_intros)

lemma sound_tool [sound_intros]: "sound (check_tool q t)"
  by (simp add: check_tool_def sound_intros split: option.split)

lemma sound_tools [sound_intros]: "sound (check_tools m q)"
proof -
  have "sound acc \<Longrightarrow> sound (fold (\<lambda>t acc. both acc (check_tool q t)) ts acc)" for ts acc
    by (induction ts arbitrary: acc) (simp_all add: sound_intros)
  then show ?thesis by (simp add: check_tools_def sound_intros)
qed

lemma sound_window [sound_intros]: "sound (check_context_window m q)"
  by (simp add: check_context_window_def sound_intros split: option.split)

lemma sound_platform [sound_intros]: "sound (check_platform V m q)"
  by (simp add: check_platform_def Let_def sound_intros split: option.split)

lemma no_errors: "sound c \<Longrightarrow> list_all (\<lambda>i. ci_severity i \<noteq> SeverityError) (fst (snd c)) \<longleftrightarrow> fst c"
  by (cases "fst (snd c)") (auto simp: sound_def list_all_iff)

lemma compatible_iff_dimensions:
  "cr_compatible (evaluate_skill_compatibility F V m q) \<longleftrightarrow>
     fst (check_msp_version m q) \<and> fst (check_manifest_version m q) \<and> fst (check_formats V m q) \<and>
     set (rq_runtime_capabilities (sm_requirements m)) \<subseteq> set (rtq_runtime_capabilities q) \<and>
     set (rq_model_capabilities (sm_requirements m)) \<subseteq> set (rtq_model_capabilities q) \<and>
     fst (check_tools m q) \<and>
     set (rq_permissions (sm_requirements m)) \<subseteq> set (rtq_permissions q) \<and>
     fst (check_context_window m q) \<and> fst (check_platform V m q)"
proof -
  have required: "fst (check_required_values code dimension xs ys) \<longleftrightarrow> set xs \<subseteq> set ys" for code dimension xs ys
    by (auto simp: check_required_values_def Let_def filter_empty_conv)
  show ?thesis
    by (simp add: evaluate_skill_compatibility_def Let_def split_beta no_errors sound_intros required)
qed

lemma tools_verdict:
  "fst (check_tools m q) \<longleftrightarrow>
     (\<forall>t \<in> set (rq_tools (sm_requirements m)). tq_required t \<longrightarrow> tq_name t \<in> set (rtq_available_tools q) \<and>
        (\<forall>minimum. tq_minimum_version t = Some minimum \<longrightarrow>
           (\<exists>actual. tbl_get (tq_name t) (rtq_tool_versions q) = Some actual \<and>
              version_matches_requirement minimum actual any_compatible)))"
proof -
  have tool: "fst (check_tool q t) \<longleftrightarrow> (tq_required t \<longrightarrow> tq_name t \<in> set (rtq_available_tools q) \<and>
        (\<forall>minimum. tq_minimum_version t = Some minimum \<longrightarrow>
           (\<exists>actual. tbl_get (tq_name t) (rtq_tool_versions q) = Some actual \<and>
              version_matches_requirement minimum actual any_compatible)))" for t
    by (auto simp: check_tool_def split: option.split)
  have "fst (fold (\<lambda>t acc. both acc (check_tool q t)) ts acc) \<longleftrightarrow> fst acc \<and> (\<forall>t \<in> set ts. fst (check_tool q t))" for ts acc
    by (induction ts arbitrary: acc) (auto simp: both_def)
  then show ?thesis by (simp add: check_tools_def tool)
qed

section \<open>What a search returns\<close>

lemma set_search:
  "set (search R q) = {search_from_manifest (rs_manifest s) (score_manifest (rs_manifest s) q) | s.
     s \<in> snd ` set (lr_skills R) \<and> 0 < score_manifest (rs_manifest s) q}"
  by (auto simp: search_def)

lemma search_sorted: "sorted (map (\<lambda>r. (- int (se_score r), se_id r)) (search R q))"
  by (simp add: search_def)

lemma score_within_risk: "0 < score_manifest m q \<Longrightarrow> \<not> too_risky (sq_max_risk q) (sm_trust m)"
  by (auto simp: score_manifest_def)

lemma score_needs_tools: "0 < score_manifest m q \<Longrightarrow> sq_available_tools q \<noteq> [] \<Longrightarrow> tools_available m (sq_available_tools q)"
  by (auto simp: score_manifest_def Let_def split: if_splits)

text \<open>With available tools every skill that runs on them is found, matching or not.\<close>

lemma tools_find_everything:
  assumes "sq_available_tools q \<noteq> []" and "tools_available m (sq_available_tools q)" and "\<not> too_risky (sq_max_risk q) (sm_trust m)"
  shows "10 \<le> score_manifest m q"
  using assms by (simp add: score_manifest_def Let_def)

end
