(* ===== verification/Msp_Verification.thy ===== *)
theory Msp_Verification
  imports Msp_Compat
begin

text \<open>
  Verification contracts, components/msp/crates/msp-core/src/verification.rs: the contract, the
  execution report, and the verdict of a report. Each part of the verdict gives the checks it
  fails, its warnings and its failures, in the order the code pushes them.
\<close>

section \<open>Contracts and reports\<close>

record 'f verification_check =
  vc_id :: string
  vc_type :: string
  vc_required :: bool
  vc_description :: string
  vc_expected :: "json option"
  vc_evidence_keys :: "string list"
  vc_weight :: 'f

record 'f success_criteria =
  su_required_checks_pass :: bool
  su_minimum_score :: "'f option"
  su_minimum_confidence :: "'f option"
  su_allowed_warnings :: "nat option"

record evidence_requirement =
  er_key :: string
  er_type :: string
  er_required :: bool
  er_description :: "string option"

record failure_taxonomy_entry =
  ft_code :: string
  ft_description :: string
  ft_severity :: "string option"

record 'f verification_contract =
  vn_msp_version :: string
  vn_contract_version :: string
  vn_kind :: string
  vn_id :: string
  vn_skill_id :: string
  vn_skill_version :: "string option"
  vn_checks :: "'f verification_check list"
  vn_success_criteria :: "'f success_criteria"
  vn_evidence_requirements :: "evidence_requirement list"
  vn_failure_taxonomy :: "failure_taxonomy_entry list"
  vn_notes :: "string option"

record runtime_report =
  re_name :: string
  re_version :: string
  re_model :: "string option"
  re_capabilities :: "string list"

record file_change =
  fc_path :: string
  fc_change_type :: string
  fc_before_hash :: "string option"
  fc_after_hash :: "string option"

record command_result =
  cm_command :: "string list"
  cm_exit_code :: int
  cm_status :: "string option"
  cm_stdout_excerpt :: "string option"
  cm_stderr_excerpt :: "string option"
  cm_started_at :: "string option"
  cm_completed_at :: "string option"

record report_artifact =
  ra_uri :: string
  ra_media_type :: string
  ra_hash :: "string option"

record report_decision =
  pd_policy :: string
  pd_decision :: string
  pd_reason :: "string option"

record report_error =
  rx_code :: string
  rx_message :: string
  rx_severity :: "string option"

record execution_report =
  xr_msp_version :: string
  xr_kind :: string
  xr_id :: string
  xr_skill_id :: string
  xr_skill_version :: string
  xr_verification_contract_id :: "string option"
  xr_runtime :: runtime_report
  xr_started_at :: string
  xr_completed_at :: string
  xr_status :: string
  xr_files_changed :: "file_change list"
  xr_commands_run :: "command_result list"
  xr_artifacts :: "report_artifact list"
  xr_policy_decisions :: "report_decision list"
  xr_evidence :: "json table"
  xr_results :: "string table"
  xr_notes :: "string option"
  xr_errors :: "report_error list"

section \<open>The verdict\<close>

record verification_failure =
  vf_code :: string
  vf_message :: string
  vf_severity :: "string option"
  vf_check_id :: "string option"

record 'f check_result =
  ck_id :: string
  ck_type :: string
  ck_required :: bool
  ck_status :: string
  ck_passed :: bool
  ck_score_earned :: 'f
  ck_score_possible :: 'f
  ck_evidence_keys :: "string list"
  ck_missing_evidence :: "string list"
  ck_reasons :: "string list"
  ck_warnings :: "string list"

record evidence_result =
  ev_key :: string
  ev_type :: string
  ev_required :: bool
  ev_present :: bool
  ev_reasons :: "string list"
  ev_warnings :: "string list"

record 'f criteria_result =
  cq_required_checks_passed :: bool
  cq_minimum_score :: 'f
  cq_score_passed :: bool
  cq_minimum_confidence :: "'f option"
  cq_confidence :: 'f
  cq_confidence_passed :: bool
  cq_allowed_warnings :: "nat option"
  cq_warning_count :: nat
  cq_warnings_passed :: bool

record 'f verification_result =
  vr_skill_id :: string
  vr_passed :: bool
  vr_score :: 'f
  vr_confidence :: 'f
  vr_failed_checks :: "string list"
  vr_warnings :: "string list"
  vr_check_results :: "'f check_result list"
  vr_evidence_results :: "evidence_result list"
  vr_criteria :: "'f criteria_result"
  vr_failures :: "verification_failure list"

text \<open>What one part of the report adds: failed checks, warnings, failures.\<close>

record finding =
  fi_failed :: "string list"
  fi_warnings :: "string list"
  fi_failures :: "verification_failure list"

definition nothing :: finding where
  "nothing = \<lparr>fi_failed = [], fi_warnings = [], fi_failures = []\<rparr>"

definition contract_failure ::
    "'f verification_contract \<Rightarrow> string \<Rightarrow> string \<Rightarrow> string option \<Rightarrow> verification_failure" where
  "contract_failure C code message check_id =
     \<lparr>vf_code = code, vf_message = message,
      vf_severity = Option.bind (find (\<lambda>t. ft_code t = code) (vn_failure_taxonomy C)) ft_severity,
      vf_check_id = check_id\<rparr>"

definition fails :: "'f verification_contract \<Rightarrow> string \<Rightarrow> string \<Rightarrow> finding" where
  "fails C code message =
     \<lparr>fi_failed = [code], fi_warnings = [], fi_failures = [contract_failure C code message None]\<rparr>"

definition identity_findings :: "'f verification_contract \<Rightarrow> execution_report \<Rightarrow> finding list" where
  "identity_findings C X =
     [if vn_skill_id C \<noteq> xr_skill_id X
      then fails C ''skill_id_mismatch'' (''execution report skill_id '' @ xr_skill_id X @
        '' does not match contract skill_id '' @ vn_skill_id C)
      else nothing,
      case vn_skill_version C of None \<Rightarrow> nothing | Some v \<Rightarrow>
        if v \<noteq> xr_skill_version X
        then fails C ''skill_version_mismatch'' (''execution report skill_version '' @ xr_skill_version X @
          '' does not match contract skill_version '' @ v)
        else nothing,
      case xr_verification_contract_id X of None \<Rightarrow> nothing | Some i \<Rightarrow>
        if i \<noteq> vn_id C
        then fails C ''verification_contract_id_mismatch'' (''execution report verification_contract_id '' @ i @
          '' does not match contract id '' @ vn_id C)
        else nothing]"

definition status_finding :: "'f verification_contract \<Rightarrow> execution_report \<Rightarrow> finding" where
  "status_finding C X =
     (if xr_status X = ''completed'' then nothing
      else if xr_status X = ''completed_with_warnings'' then nothing\<lparr>fi_warnings := [''execution_status_completed_with_warnings'']\<rparr>
      else if xr_status X = ''not_applicable'' then nothing\<lparr>fi_warnings := [''execution_status_not_applicable'']\<rparr>
      else fails C ''execution_status_failed'' (''execution report status is '' @ xr_status X))"

definition error_severity :: "report_error \<Rightarrow> string" where
  "error_severity e = (case rx_severity e of Some s \<Rightarrow> s | None \<Rightarrow> ''error'')"

definition error_finding :: "report_error \<Rightarrow> finding" where
  "error_finding e =
     (if error_severity e \<in> {''error'', ''fatal''}
      then \<lparr>fi_failed = [''report_error:'' @ rx_code e], fi_warnings = [],
        fi_failures = [\<lparr>vf_code = rx_code e, vf_message = rx_message e, vf_severity = Some (error_severity e), vf_check_id = None\<rparr>]\<rparr>
      else nothing\<lparr>fi_warnings := [''report_error:'' @ rx_code e]\<rparr>)"

definition has_evidence :: "execution_report \<Rightarrow> string \<Rightarrow> bool" where
  "has_evidence X key = tbl_has key (xr_evidence X)"

definition evidence_finding ::
    "'f verification_contract \<Rightarrow> execution_report \<Rightarrow> evidence_requirement \<Rightarrow> evidence_result \<times> finding" where
  "evidence_finding C X q =
     (let present = has_evidence X (er_key q);
          missing = ''required evidence '' @ er_key q @ '' is missing''
      in (\<lparr>ev_key = er_key q, ev_type = er_type q, ev_required = er_required q, ev_present = present,
           ev_reasons = (if er_required q \<and> \<not> present then [missing] else []),
           ev_warnings = (if \<not> er_required q \<and> \<not> present
             then [''optional evidence '' @ er_key q @ '' is missing''] else [])\<rparr>,
          if er_required q \<and> \<not> present
          then \<lparr>fi_failed = [''missing_evidence:'' @ er_key q], fi_warnings = [],
            fi_failures = [contract_failure C ''missing_evidence'' missing None]\<rparr>
          else if \<not> er_required q \<and> \<not> present
          then nothing\<lparr>fi_warnings := [''optional_evidence_missing:'' @ er_key q]\<rparr>
          else nothing))"

definition missing_keys :: "execution_report \<Rightarrow> 'f verification_check \<Rightarrow> string list" where
  "missing_keys X c = filter (\<lambda>k. \<not> has_evidence X k) (vc_evidence_keys c)"

definition check_status :: "execution_report \<Rightarrow> 'f verification_check \<Rightarrow> string" where
  "check_status X c = (case tbl_get (vc_id c) (xr_results X) of Some s \<Rightarrow> s | None \<Rightarrow> ''unknown'')"

text \<open>The reasons, the warnings of the check, and whether it failed or warned.\<close>

definition check_verdict :: "execution_report \<Rightarrow> 'f verification_check \<Rightarrow> string list \<times> string list \<times> bool \<times> bool" where
  "check_verdict X c =
     (let status = check_status X c; required = vc_required c; i = vc_id c
      in if status = ''passed'' \<and> missing_keys X c = [] then ([], [], False, False)
         else if status = ''passed''
         then ([''check '' @ i @ '' reported passed but required check evidence is missing: '' @ join_with '', '' (missing_keys X c)],
               if required then [] else [''optional check missing evidence''], required, \<not> required)
         else if status = ''warning''
         then (if required then [''required check '' @ i @ '' reported warning''] else [],
               [''check '' @ i @ '' reported warning''], required, True)
         else if status = ''skipped''
         then (if required then ([''required check '' @ i @ '' was skipped''], [], True, False)
               else ([], [''optional check '' @ i @ '' was skipped''], False, True))
         else if status = ''failed''
         then ([''check '' @ i @ '' failed''], if required then [] else [''optional check '' @ i @ '' failed''], required, \<not> required)
         else if required
         then ([''required check '' @ i @ '' has unknown or missing result status '' @ status], [], True, False)
         else ([], [''optional check '' @ i @ '' has unknown or missing result status '' @ status], False, True))"

definition check_passed :: "execution_report \<Rightarrow> 'f verification_check \<Rightarrow> bool" where
  "check_passed X c \<longleftrightarrow> check_status X c = ''passed'' \<and> missing_keys X c = []"

definition check_finding ::
    "'f float_ops \<Rightarrow> 'f verification_contract \<Rightarrow> execution_report \<Rightarrow> 'f verification_check \<Rightarrow> 'f check_result \<times> finding" where
  "check_finding F C X c =
     (case check_verdict X c of (reasons, warnings, failed, warned) \<Rightarrow>
        (\<lparr>ck_id = vc_id c, ck_type = vc_type c, ck_required = vc_required c, ck_status = check_status X c,
          ck_passed = check_passed X c,
          ck_score_earned = (if check_passed X c then vc_weight c else fl_of_nat F 0),
          ck_score_possible = vc_weight c, ck_evidence_keys = vc_evidence_keys c,
          ck_missing_evidence = missing_keys X c, ck_reasons = reasons, ck_warnings = warnings\<rparr>,
         \<lparr>fi_failed = (if failed then [vc_id c] else []), fi_warnings = (if warned then [vc_id c] else []),
          fi_failures = (if vc_required c \<and> \<not> check_passed X c
            then map (\<lambda>r. contract_failure C (vc_id c) r (Some (vc_id c))) reasons else [])\<rparr>))"

text \<open>The sums of the weights, in the order of the checks.\<close>

definition possible_score :: "'f float_ops \<Rightarrow> 'f verification_check list \<Rightarrow> 'f" where
  "possible_score F cs = fold (\<lambda>c s. fl_add F s (vc_weight c)) cs (fl_of_nat F 0)"

definition earned_score :: "'f float_ops \<Rightarrow> execution_report \<Rightarrow> 'f verification_check list \<Rightarrow> 'f" where
  "earned_score F X cs = fold (\<lambda>c s. if check_passed X c then fl_add F s (vc_weight c) else s) cs (fl_of_nat F 0)"

definition report_score :: "'f float_ops \<Rightarrow> 'f verification_contract \<Rightarrow> execution_report \<Rightarrow> 'f" where
  "report_score F C X =
     (let possible = possible_score F (vn_checks C)
      in if fl_gt F possible (fl_of_nat F 0) then fl_div F (earned_score F X (vn_checks C)) possible else fl_of_nat F 0)"

definition report_confidence :: "'f float_ops \<Rightarrow> 'f verification_contract \<Rightarrow> execution_report \<Rightarrow> 'f" where
  "report_confidence F C X =
     (let required = filter er_required (vn_evidence_requirements C);
          present = filter (\<lambda>q. has_evidence X (er_key q)) required
      in if required = []
         then (if list_ex (\<lambda>e. rx_severity e = Some ''fatal'') (xr_errors X) then fl_of_nat F 0 else fl_of_nat F 1)
         else fl_div F (fl_of_nat F (length present)) (fl_of_nat F (length required)))"

definition report_findings :: "'f float_ops \<Rightarrow> 'f verification_contract \<Rightarrow> execution_report \<Rightarrow> finding list" where
  "report_findings F C X =
     identity_findings C X @ [status_finding C X] @ map error_finding (xr_errors X) @
     map (\<lambda>q. snd (evidence_finding C X q)) (vn_evidence_requirements C) @
     map (\<lambda>c. snd (check_finding F C X c)) (vn_checks C)"

definition verify_report ::
    "'f float_ops \<Rightarrow> 'f verification_contract \<Rightarrow> execution_report \<Rightarrow> 'f verification_result" where
  "verify_report F C X =
     (let findings = report_findings F C X;
          failed = remdups_adj (sort (concat (map fi_failed findings)));
          warnings = remdups_adj (sort (concat (map fi_warnings findings)));
          score = report_score F C X; confidence = report_confidence F C X; su = vn_success_criteria C;
          minimum_score = (case su_minimum_score su of None \<Rightarrow> fl_of_nat F 1 | Some s \<Rightarrow> s);
          score_passed = fl_ge F score minimum_score;
          confidence_passed = (case su_minimum_confidence su of None \<Rightarrow> True | Some c \<Rightarrow> fl_ge F confidence c);
          warnings_passed = (case su_allowed_warnings su of None \<Rightarrow> True | Some limit \<Rightarrow> length warnings \<le> limit)
      in \<lparr>vr_skill_id = xr_skill_id X,
          vr_passed = (failed = [] \<and> score_passed \<and> confidence_passed \<and> warnings_passed),
          vr_score = score, vr_confidence = confidence, vr_failed_checks = failed, vr_warnings = warnings,
          vr_check_results = map (\<lambda>c. fst (check_finding F C X c)) (vn_checks C),
          vr_evidence_results = map (\<lambda>q. fst (evidence_finding C X q)) (vn_evidence_requirements C),
          vr_criteria = \<lparr>cq_required_checks_passed = (failed = []), cq_minimum_score = minimum_score,
            cq_score_passed = score_passed, cq_minimum_confidence = su_minimum_confidence su,
            cq_confidence = confidence, cq_confidence_passed = confidence_passed,
            cq_allowed_warnings = su_allowed_warnings su, cq_warning_count = length warnings,
            cq_warnings_passed = warnings_passed\<rparr>,
          vr_failures = concat (map fi_failures findings)\<rparr>)"

text \<open>\<open>parse\<close> reads the contract of a file: the JSON parser, the schema and \<open>Deserialize\<close>.\<close>

definition verify_execution_report ::
    "'f float_ops \<Rightarrow> msp_env \<Rightarrow> (string \<Rightarrow> msp_error + 'f verification_contract) \<Rightarrow> local_registry \<Rightarrow> execution_report \<Rightarrow>
     msp_error + 'f verification_result" where
  "verify_execution_report F V parse R X =
     res_bind (find_skill R (xr_skill_id X)) (\<lambda>skill.
     res_bind (ok_or (VerificationError ''skill has no verification contract artifact'')
       (sa_verification_contract (sm_artifacts (rs_manifest skill)))) (\<lambda>artifact.
     res_bind (resolve_artifact_path V R (rs_path skill) (ar_uri artifact)) (\<lambda>path.
     res_bind (parse path) (\<lambda>C. Ok (verify_report F C X)))))"

section \<open>When a report passes\<close>

text \<open>What the report has to show.\<close>

definition report_identified :: "'f verification_contract \<Rightarrow> execution_report \<Rightarrow> bool" where
  "report_identified C X \<longleftrightarrow> vn_skill_id C = xr_skill_id X \<and>
     (\<forall>v. vn_skill_version C = Some v \<longrightarrow> v = xr_skill_version X) \<and>
     (\<forall>i. xr_verification_contract_id X = Some i \<longrightarrow> i = vn_id C) \<and>
     xr_status X \<in> {''completed'', ''completed_with_warnings'', ''not_applicable''} \<and>
     (\<forall>e \<in> set (xr_errors X). error_severity e \<notin> {''error'', ''fatal''})"

definition report_supported :: "'f verification_contract \<Rightarrow> execution_report \<Rightarrow> bool" where
  "report_supported C X \<longleftrightarrow>
     (\<forall>q \<in> set (vn_evidence_requirements C). er_required q \<longrightarrow> has_evidence X (er_key q)) \<and>
     (\<forall>c \<in> set (vn_checks C). vc_required c \<longrightarrow> check_passed X c)"

lemma nothing_simps [simp]: "fi_failed nothing = []" "fi_warnings nothing = []" "fi_failures nothing = []"
  by (simp_all add: nothing_def)

lemma fails_failed [simp]: "fi_failed (fails C code message) = [code]"
  by (simp add: fails_def)

lemma sort_Nil_iff [simp]: "sort xs = [] \<longleftrightarrow> xs = []"
  by (metis length_0_conv length_sort)

lemma identity_failed:
  "(\<forall>f \<in> set (identity_findings C X). fi_failed f = []) \<longleftrightarrow> vn_skill_id C = xr_skill_id X \<and>
     (\<forall>v. vn_skill_version C = Some v \<longrightarrow> v = xr_skill_version X) \<and>
     (\<forall>i. xr_verification_contract_id X = Some i \<longrightarrow> i = vn_id C)"
  by (auto simp: identity_findings_def split: option.split)

lemma status_failed:
  "fi_failed (status_finding C X) = [] \<longleftrightarrow> xr_status X \<in> {''completed'', ''completed_with_warnings'', ''not_applicable''}"
  by (simp add: status_finding_def)

lemma error_failed: "fi_failed (error_finding e) = [] \<longleftrightarrow> error_severity e \<notin> {''error'', ''fatal''}"
  by (simp add: error_finding_def)

lemma evidence_failed: "fi_failed (snd (evidence_finding C X q)) = [] \<longleftrightarrow> (er_required q \<longrightarrow> has_evidence X (er_key q))"
  by (simp add: evidence_finding_def Let_def)

lemma check_failed: "fi_failed (snd (check_finding F C X c)) = [] \<longleftrightarrow> (vc_required c \<longrightarrow> check_passed X c)"
  by (auto simp: check_finding_def check_verdict_def check_passed_def Let_def)

lemma no_failed_checks:
  "vr_failed_checks (verify_report F C X) = [] \<longleftrightarrow> report_identified C X \<and> report_supported C X"
proof -
  have "vr_failed_checks (verify_report F C X) = [] \<longleftrightarrow> (\<forall>f \<in> set (report_findings F C X). fi_failed f = [])"
    by (simp add: verify_report_def Let_def)
  then show ?thesis
    using identity_failed [of C X]
    by (auto simp: report_findings_def report_identified_def report_supported_def status_failed error_failed
        evidence_failed check_failed ball_Un)
qed

lemma report_passed:
  "vr_passed (verify_report F C X) \<longleftrightarrow> report_identified C X \<and> report_supported C X \<and>
     fl_ge F (report_score F C X) (case su_minimum_score (vn_success_criteria C) of None \<Rightarrow> fl_of_nat F 1 | Some s \<Rightarrow> s) \<and>
     (\<forall>m. su_minimum_confidence (vn_success_criteria C) = Some m \<longrightarrow> fl_ge F (report_confidence F C X) m) \<and>
     (\<forall>l. su_allowed_warnings (vn_success_criteria C) = Some l \<longrightarrow> length (vr_warnings (verify_report F C X)) \<le> l)"
proof -
  have "vr_failed_checks (verify_report F C X) = [] \<longleftrightarrow> report_identified C X \<and> report_supported C X"
    by (rule no_failed_checks)
  then show ?thesis
    by (cases "su_minimum_confidence (vn_success_criteria C)"; cases "su_allowed_warnings (vn_success_criteria C)")
      (simp_all add: verify_report_def Let_def conj_ac)
qed

text \<open>A required check that did not pass leaves a failure with its reason.\<close>

lemma failed_check_explained:
  assumes "c \<in> set (vn_checks C)" and "vc_required c" and "\<not> check_passed X c"
  shows "\<exists>f \<in> set (vr_failures (verify_report F C X)). vf_code f = vc_id c \<and> vf_check_id f = Some (vc_id c)"
proof -
  have "fst (check_verdict X c) \<noteq> []"
    using assms(2,3) by (auto simp: check_verdict_def check_passed_def Let_def)
  then have "\<exists>f \<in> set (fi_failures (snd (check_finding F C X c))). vf_code f = vc_id c \<and> vf_check_id f = Some (vc_id c)"
    using assms(2,3)
    by (cases "check_verdict X c"; cases "fst (check_verdict X c)") (auto simp: check_finding_def contract_failure_def)
  with assms(1) show ?thesis by (auto simp: verify_report_def report_findings_def Let_def)
qed

end
