(* ===== verification/Msp_Properties.thy ===== *)
theory Msp_Properties
  imports Msp_Dependencies Msp_Verification
begin

text \<open>
  The properties of the skill protocol, each a few steps over the lemmas of its component, and
  a small registry they are applied to: a signed skill that depends on a library, read from an
  environment with concrete files and functions.
\<close>

section \<open>A sample registry\<close>

text \<open>Two letters per byte.\<close>

definition sample_encode :: "bytes \<Rightarrow> string" where
  "sample_encode b = concat (map (\<lambda>c. [char_of (65 + (of_char c :: nat) div 16), char_of (65 + (of_char c :: nat) mod 16)]) b)"

fun sample_decode :: "string \<Rightarrow> string + bytes" where
  "sample_decode [] = Ok []"
| "sample_decode [c] = Err ''odd length''"
| "sample_decode (h # l # s) =
     res_bind (sample_decode s) (\<lambda>b. Ok (char_of ((of_char h - 65) * 16 + (of_char l - 65 :: nat)) # b))"

definition sample_sign :: "bytes \<Rightarrow> bytes \<Rightarrow> bytes" where
  "sample_sign seed content = take 64 (seed @ content @ replicate 64 (CHR ''0''))"

definition sample_key :: bytes where "sample_key = replicate 32 (CHR ''k'')"

definition sample_body :: string where "sample_body = ''how to do it''"

definition sample_msp_env :: msp_env where
  "sample_msp_env =
     \<lparr>me_sha = (\<lambda>a content. sample_encode content), me_hex_ok = (\<lambda>s. True),
      me_b64_encode = sample_encode, me_b64_decode = sample_decode,
      me_ed_key = (\<lambda>k. Ok ()),
      me_ed_verify = (\<lambda>k content s. if s = sample_sign k content then Ok () else Err ''mismatch''),
      me_ed_sign = sample_sign, me_ed_public = (\<lambda>seed. seed),
      me_pack_json = (\<lambda>m. Ok (pm_id m)),
      me_read = (\<lambda>p. if p = ''/r/app/body.md'' then Ok sample_body else Err (MspIo ''not found'')),
      me_exists = (\<lambda>p. True), me_is_file = (\<lambda>p. p = ''/r/app/body.md''), me_walk = (\<lambda>r. []),
      me_canonicalize = (\<lambda>p. Some p), me_parse_skill = (\<lambda>b. Err (MspJson ''syntax'')),
      me_parse_pack = (\<lambda>b. Err (MspJson ''syntax'')), me_debug = (\<lambda>xs. join_with '','' xs)\<rparr>"

definition sample_hash :: hash_digest where
  "sample_hash = digest_from_bytes sample_msp_env Sha256 sample_body"

definition sample_signature :: string where
  "sample_signature = (case sign_ed25519_bytes sample_msp_env sample_body sample_key of Ok s \<Rightarrow> s | Err _ \<Rightarrow> [])"

definition sample_trust :: trust_metadata where
  "sample_trust =
     \<lparr>tm_hash = sample_hash, tm_signed = True, tm_signature = Some sample_signature, tm_issuer = ''acme'',
      tm_license = None, tm_review_status = PeerReviewed, tm_risk_level = Low, tm_forbidden_behaviors = [],
      tm_sandbox_profile = None\<rparr>"

definition sample_skill :: "string \<Rightarrow> string \<Rightarrow> skill_dependency list \<Rightarrow> skill_manifest" where
  "sample_skill i version deps =
     \<lparr>sm_msp_version = ''0.1.0'', sm_manifest_version = ''1'', sm_kind = ''SkillManifest'', sm_id = i, sm_name = i,
      sm_version = version, sm_category = ''dev/build'', sm_summary = [], sm_description = None, sm_keywords = [],
      sm_formats = [''markdown''], sm_primary_format = ''markdown'',
      sm_activation = \<lparr>ac_task_patterns = [''build''], ac_negative_patterns = [], ac_required_context = [],
        ac_optional_context = [], ac_domains = [], ac_languages = []\<rparr>,
      sm_requirements = \<lparr>rq_model_capabilities = [], rq_runtime_capabilities = [], rq_tools = [], rq_permissions = [],
        rq_min_context_window = None, rq_supported_platforms = []\<rparr>,
      sm_schemas = \<lparr>sf_input = [], sf_output = [], sf_context = None\<rparr>,
      sm_verification = \<lparr>vs_contract = None, vs_required_checks = [''builds''], vs_optional_checks = [], vs_minimum_evidence = []\<rparr>,
      sm_trust = sample_trust, sm_dependencies = deps,
      sm_artifacts = \<lparr>sa_body = \<lparr>ar_uri = ''body.md'', ar_media_type = ''text/markdown'', ar_hash = sample_hash, ar_size_bytes = None\<rparr>,
        sa_verification_contract = None, sa_examples = [], sa_schemas = []\<rparr>,
      sm_provenance = None, sm_compatibility = None, sm_deprecation = None, sm_extensions = []\<rparr>"

definition sample_dependency :: "string \<Rightarrow> skill_dependency" where
  "sample_dependency i =
     \<lparr>sd_type = DepSkill, sd_id = i, sd_requirement = ''1.0.0'', sd_required = True, sd_purpose = None, sd_trust = None,
      sd_resolution = None\<rparr>"

definition sample_registry :: local_registry where
  "sample_registry =
     \<lparr>lr_root = ''/r'',
      lr_skills = [(''app'', \<lparr>rs_path = ''/r/app/skill.manifest.json'', rs_manifest = sample_skill ''app'' ''2.0.0'' [sample_dependency ''lib'']\<rparr>),
        (''lib'', \<lparr>rs_path = ''/r/lib/skill.manifest.json'', rs_manifest = sample_skill ''lib'' ''1.2.0'' []\<rparr>)],
      lr_packs = []\<rparr>"

definition sample_trust_policy :: trust_policy where
  "sample_trust_policy =
     \<lparr>tp_msp_version = ''0.1.0'', tp_policy_version = ''1'', tp_kind = ''SkillTrustPolicy'', tp_id = ''p'', tp_name = ''p'',
      tp_default_action = TrustAllow, tp_trusted_registries = [], tp_trusted_issuers = [],
      tp_signature = Some signature_policy_default, tp_risk = Some risk_policy_default, tp_rules = [],
      tp_forbidden_behaviors = [], tp_dependency_policy = Some dependency_policy_default, tp_telemetry_policy = None\<rparr>"

lemma of_letter: "n < 16 \<Longrightarrow> (of_char (char_of (65 + n :: nat)) :: nat) = 65 + n"
  by (simp add: of_char_of)

text \<open>A byte and its two halves.\<close>

lemma byte_halves:
  "(of_char c :: nat) div 16 < 16" "(of_char c :: nat) mod 16 < 16"
proof -
  have "(of_char c :: nat) < 16 * 16" using nat_of_char_less_256 [of c] by simp
  then show "(of_char c :: nat) div 16 < 16" by (rule less_mult_imp_div_less)
qed simp

lemma sample_decode_encode: "sample_decode (sample_encode b) = Ok b"
proof (induction b)
  case (Cons c b)
  have "(of_char c :: nat) div 16 * 16 + (of_char c :: nat) mod 16 = of_char c" by (rule div_mult_mod_eq)
  with Cons byte_halves [of c] show ?case by (simp add: sample_encode_def of_char_of)
qed (simp add: sample_encode_def)

lemma no_colon: "n < 16 \<Longrightarrow> CHR '':'' \<noteq> char_of (65 + n :: nat)"
proof
  assume "n < 16" and "CHR '':'' = char_of (65 + n)"
  then have "(of_char (CHR '':'') :: nat) = 65 + n" by (simp only: of_letter)
  then show False by simp
qed

lemma sample_encode_no_colon: "CHR '':'' \<notin> set (sample_encode b)"
  using no_colon [OF byte_halves(1)] no_colon [OF byte_halves(2)] by (auto simp: sample_encode_def)

lemma sample_signing: "signing_ok sample_msp_env"
  by (simp add: signing_ok_def sample_msp_env_def sample_decode_encode sample_encode_no_colon sample_sign_def min_def) linarith

section \<open>Trust\<close>

text \<open>
  C9: A skill is allowed exactly where the policy allows by default, the review status is
  neither revoked nor deprecated, the risk level is neither denied nor held for review, a
  required signature is there, the issuer is accepted at this risk level, every matching rule
  allows, and the cryptographic proof the policy asks for succeeds; and where signatures are
  required an allowed skill's body is the hashed and signed file below the registry root.
\<close>

lemma skill_allowed_decides:
  assumes "evaluate_trust_policy V R P i = Ok ev" and "tbl_get i (lr_skills R) = Some s"
  shows "(te_allowed ev \<longleftrightarrow>
      tp_default_action P = TrustAllow \<and>
      tm_review_status (sm_trust (rs_manifest s)) \<noteq> RevokedReview \<and> tm_review_status (sm_trust (rs_manifest s)) \<noteq> DeprecatedReview \<and>
      \<not> risk_denied P (sm_trust (rs_manifest s)) \<and> \<not> risk_reviewed P (sm_trust (rs_manifest s)) \<and>
      \<not> (requires_signed_skills P \<and> \<not> tm_signed (sm_trust (rs_manifest s))) \<and>
      issuer_accepted P (sm_trust (rs_manifest s)) \<and>
      (\<forall>r \<in> set (tp_rules P). rule_matches r (rs_manifest s) \<longrightarrow> tu_effect r = TrustAllow) \<and>
      proof_ok P (requires_signed_skills P) (tm_issuer (sm_trust (rs_manifest s))) (verify_trust_with_policy V R i P)) \<and>
    (te_allowed ev \<longleftrightarrow> te_action ev = TrustAllow) \<and>
    (requires_signed_skills P \<and> te_allowed ev \<longrightarrow>
      (\<exists>path content. resolve_artifact_path V R (rs_path s) (ar_uri (sa_body (sm_artifacts (rs_manifest s)))) = Ok path \<and>
        stays_inside V R path \<and> me_read V path = Ok content \<and>
        tm_hash (sm_trust (rs_manifest s)) = digest_from_bytes V (hd_algorithm (tm_hash (sm_trust (rs_manifest s)))) content \<and>
        signature_valid V content (tm_signature (sm_trust (rs_manifest s))) (policy_algorithms P)))"
  using skill_allowed_parts(1,2) [OF assms] skill_allowed_parts(3) [OF assms] by blast

lemma sample_fields [simp]:
  "lr_root sample_registry = ''/r''" "me_canonicalize sample_msp_env = Some"
  by (simp_all add: sample_registry_def sample_msp_env_def)

lemma sample_path:
  "resolve_artifact_path sample_msp_env sample_registry ''/r/app/skill.manifest.json'' ''body.md'' = Ok ''/r/app/body.md''"
proof -
  have "path_parent ''/r/app/skill.manifest.json'' = Some ''/r/app''" by code_simp
  moreover have "relative_uri ''local registry artifact URI'' ''its manifest directory'' ''body.md'' = Ok ()" by code_simp
  moreover have "path_join ''/r/app'' ''body.md'' = ''/r/app/body.md''" by code_simp
  moreover have "path_starts_with ''/r/app/body.md'' ''/r''" by code_simp
  ultimately show ?thesis by (simp add: resolve_artifact_path_def inside_root_def msp_require_def)
qed

lemma sample_signature_valid:
  "signature_valid sample_msp_env sample_body (Some sample_signature) [''ed25519'']"
proof -
  have "length sample_key = 32" by (simp add: sample_key_def)
  from sign_then_verify [OF sample_signing this, of "[''ed25519'']" sample_body "[]"] obtain t where
    t: "sign_ed25519_bytes sample_msp_env sample_body sample_key = Ok t"
      "sg_passed (verify_signature_bytes sample_msp_env [] sample_body True (Some t) [''ed25519''])" by auto
  then have "sample_signature = t" by (simp add: sample_signature_def)
  with t(2) show ?thesis by (simp add: verify_signature_passed)
qed

lemma sample_find:
  "tbl_get ''app'' (lr_skills sample_registry) =
     Some \<lparr>rs_path = ''/r/app/skill.manifest.json'', rs_manifest = sample_skill ''app'' ''2.0.0'' [sample_dependency ''lib'']\<rparr>"
  by (simp add: sample_registry_def tbl_get_Cons)

lemma sample_skill_fields [simp]:
  "sm_trust (sample_skill i v ds) = sample_trust" "sm_dependencies (sample_skill i v ds) = ds"
  "sm_version (sample_skill i v ds) = v" "sm_id (sample_skill i v ds) = i"
  "ar_uri (sa_body (sm_artifacts (sample_skill i v ds))) = ''body.md''"
  "ar_hash (sa_body (sm_artifacts (sample_skill i v ds))) = sample_hash"
  "sa_verification_contract (sm_artifacts (sample_skill i v ds)) = None"
  by (simp_all add: sample_skill_def)

lemma sample_trust_fields [simp]:
  "tm_hash sample_trust = sample_hash" "tm_signed sample_trust" "tm_signature sample_trust = Some sample_signature"
  "tm_issuer sample_trust = ''acme''" "tm_review_status sample_trust = PeerReviewed" "tm_risk_level sample_trust = Low"
  by (simp_all add: sample_trust_def)

lemma sample_digest [simp]:
  "digest_from_bytes sample_msp_env (hd_algorithm sample_hash) sample_body = sample_hash"
  by (simp add: sample_hash_def digest_from_bytes_def)

lemma sample_read: "me_read sample_msp_env ''/r/app/body.md'' = Ok sample_body"
  by (simp add: sample_msp_env_def)

lemma sample_trust_policy_fields [simp]:
  "policy_algorithms sample_trust_policy = [''ed25519'']" "requires_signed_skills sample_trust_policy"
  "tp_trusted_issuers sample_trust_policy = []" "tp_default_action sample_trust_policy = TrustAllow"
  "tp_rules sample_trust_policy = []" "tp_risk sample_trust_policy = Some risk_policy_default"
  "tp_dependency_policy sample_trust_policy = Some dependency_policy_default"
  by (simp_all add: sample_trust_policy_def policy_algorithms_def requires_signed_skills_def signature_policy_default_def)

lemma sample_verified:
  "\<exists>v. verify_trust_with_policy sample_msp_env sample_registry ''app'' sample_trust_policy = Ok v \<and> tv_passed v"
  using sample_signature_valid
  by (simp add: verify_trust_with_policy_def verify_trust_with_allowed_algorithms_def find_skill_def sample_find
      verify_skill_manifest_trust_def sample_path digest_from_file_def sample_read verify_signature_file_def
      trust_result_def verify_signature_passed)

lemma sample_evaluation:
  "\<exists>ev. evaluate_trust_policy sample_msp_env sample_registry sample_trust_policy ''app'' = Ok ev"
  using sample_verified by (auto simp: evaluate_trust_policy_def find_skill_def sample_find Let_def)

lemma skill_allowed_decides_witness:
  "\<exists>ev. evaluate_trust_policy sample_msp_env sample_registry sample_trust_policy ''app'' = Ok ev \<and> te_allowed ev \<and>
     te_action ev = TrustAllow \<and> signature_valid sample_msp_env sample_body (tm_signature sample_trust) [''ed25519'']"
proof -
  obtain ev where ev: "evaluate_trust_policy sample_msp_env sample_registry sample_trust_policy ''app'' = Ok ev"
    using sample_evaluation by blast
  note decides = skill_allowed_decides [OF ev sample_find]
  have "te_allowed ev"
    unfolding conjunct1 [OF decides] using sample_verified
    by (auto simp: risk_denied_def risk_reviewed_def risk_policy_default_def issuer_accepted_def proof_ok_def binding_ok_def)
  with conjunct2 [OF decides] ev show ?thesis by (auto simp: sample_path sample_read)
qed

text \<open>
  C26: Signing content and verifying the signature fit together for a 32-byte seed and a policy
  that takes Ed25519, and a signature passes for no content, signer or algorithm it was not
  made for: only where it parses, its algorithm is allowed, and the key it carries verifies it
  over this content.
\<close>

lemma signature_round_trip:
  assumes "signing_ok V" and "length seed = 32"
    and "allowed_algorithms = [] \<or> ''ed25519'' \<in> set allowed_algorithms"
  shows "(\<exists>s. sign_ed25519_bytes V content seed = Ok s \<and>
      sg_passed (verify_signature_bytes V artifact content True (Some s) allowed_algorithms)) \<and>
    (\<forall>is_signed signature algorithms.
      sg_passed (verify_signature_bytes V artifact content is_signed signature algorithms) \<longleftrightarrow>
      is_signed \<and> signature_valid V content signature algorithms)"
  using sign_then_verify [OF assms] verify_signature_passed by blast

lemma signature_round_trip_witness:
  "\<exists>s. sign_ed25519_bytes sample_msp_env sample_body sample_key = Ok s \<and>
     sg_passed (verify_signature_bytes sample_msp_env ''body.md'' sample_body True (Some s) [''ed25519''])"
  by (rule conjunct1 [OF signature_round_trip [OF sample_signing]]) (simp_all add: sample_key_def)

section \<open>Dependencies\<close>

text \<open>
  C13: Resolving dependencies and evaluating a policy over them always return, whatever cycles
  the manifests have: resolving an id gives a result exactly where the registry has the skill,
  and neither evaluation runs out of the fuel of one more than the number of indexed manifests.
\<close>

lemma dependency_walks_return:
  "((\<exists>r. resolve_dependencies R i = Some (Ok r)) \<longleftrightarrow> tbl_has i (lr_skills R)) \<and>
   resolve_dependencies R i \<noteq> None \<and>
   evaluate_dependency_trust V R P i \<noteq> None \<and> evaluate_pack_dependency_trust V R P i \<noteq> None"
proof -
  have "resolve_dependencies R i \<noteq> None"
    using resolve_dependencies_total [of R i] by (cases "tbl_has i (lr_skills R)") (auto simp: resolve_dependencies_def)
  with resolve_dependencies_total trust_evaluations_return show ?thesis by blast
qed

text \<open>
  C17: A resolution lists exactly the dependencies of the skills it reaches, each with whether
  it is found at a version that meets the requirement; it reports missing exactly the required
  ones that are not indexed; and it reports a cycle exactly where a reached skill reaches
  itself.
\<close>

lemma resolution_is_exact:
  assumes "resolve_dependencies R i = Some (Ok r)"
  shows "(set (rr_nodes r) = {dep_node d (dependency_found R d) | v s d. (i, v) \<in> (followed R)\<^sup>* \<and>
      tbl_get v (lr_skills R) = Some s \<and> d \<in> set (sm_dependencies (rs_manifest s))}) \<and>
    (set (rr_missing r) = {sd_id d | v s d. (i, v) \<in> (followed R)\<^sup>* \<and> tbl_get v (lr_skills R) = Some s \<and>
      d \<in> set (sm_dependencies (rs_manifest s)) \<and> sd_required d \<and> \<not> dependency_resolved R d}) \<and>
    (rr_cycles r = [] \<longleftrightarrow> (\<forall>v. \<not> ((i, v) \<in> (followed R)\<^sup>* \<and> (v, v) \<in> (followed R)\<^sup>+)))"
  using resolve_nodes [OF assms] resolve_missing [OF assms] resolve_cycles [OF assms] by (intro conjI) blast+

lemma resolution_is_exact_witness:
  "\<exists>r. resolve_dependencies sample_registry ''app'' = Some (Ok r) \<and>
     dep_node (sample_dependency ''lib'') (dependency_found sample_registry (sample_dependency ''lib'')) \<in> set (rr_nodes r)"
proof -
  have "tbl_has ''app'' (lr_skills sample_registry)" by (simp add: tbl_has_def sample_find)
  then obtain r where r: "resolve_dependencies sample_registry ''app'' = Some (Ok r)"
    using resolve_dependencies_total by blast
  have "(''app'', ''app'') \<in> (followed sample_registry)\<^sup>*" by simp
  with conjunct1 [OF resolution_is_exact [OF r]] sample_find r show ?thesis by fastforce
qed

text \<open>
  C11: Where no id names both a skill and a pack, the evaluation of a skill or a pack with its
  dependencies allows the root exactly where the root itself is allowed, every dependency of
  everything the walk follows is trusted (present at a matching version, allowed by the policy,
  from the issuer, with the hash and the signature the dependency asks for; or optional and
  absent), and where cycles are denied nothing it follows reaches itself.
\<close>

lemma dependency_trust_is_complete:
  assumes "distinct_kinds R"
  shows "(\<forall>r. evaluate_dependency_trust V R P i = Some (Ok r) \<longrightarrow>
      (td_allowed r \<longleftrightarrow> (\<exists>ev. evaluate_trust_policy V R P i = Ok ev \<and> te_allowed ev) \<and> closure_trusted V R P i)) \<and>
    (\<forall>r. evaluate_pack_dependency_trust V R P i = Some (Ok r) \<longrightarrow>
      (td_allowed r \<longleftrightarrow> (\<exists>ev. evaluate_pack_trust_policy V R P i = Ok ev \<and> te_allowed ev) \<and> closure_trusted V R P i))"
  using evaluate_dependency_trust_allowed [OF assms] evaluate_pack_dependency_trust_allowed [OF assms] by blast

text \<open>The sample registry under a policy that asks for no signature.\<close>

definition sample_open_policy :: trust_policy where
  "sample_open_policy = sample_trust_policy\<lparr>tp_signature := None\<rparr>"

lemma sample_lib:
  "tbl_get ''lib'' (lr_skills sample_registry) =
     Some \<lparr>rs_path = ''/r/lib/skill.manifest.json'', rs_manifest = sample_skill ''lib'' ''1.2.0'' []\<rparr>"
  by (simp add: sample_registry_def tbl_get_Cons)

lemma sample_distinct: "distinct_kinds sample_registry"
  by (simp add: distinct_kinds_def sample_registry_def tbl_has_def)

lemma sample_version_ok: "version_ok (sample_dependency ''lib'') ''1.2.0''"
proof -
  let ?a = "\<lparr>sv_major = 1, sv_minor = 0, sv_patch = 0, sv_prerelease = None\<rparr>"
  let ?b = "\<lparr>sv_major = 1, sv_minor = 2, sv_patch = 0, sv_prerelease = None\<rparr>"
  have digits: "show_nat 0 = ''0''" "show_nat 1 = ''1''" "show_nat 2 = ''2''"
    by code_simp+
  then have "semver_text ?a = ''1.0.0''" "semver_text ?b = ''1.2.0''" by (simp_all add: semver_text_def)
  moreover have "semver_ok ?a" "semver_ok ?b" by (simp_all add: semver_ok_def)
  ultimately have "semver_parse ''1.0.0'' = Ok ?a" "semver_parse ''1.2.0'' = Ok ?b" by (metis semver_round_trip)+
  then show ?thesis
    by (simp add: version_ok_def dependency_version_match_error_def sample_dependency_def version_matches_requirement_def
        semver_at_least_def same_core_def core_greater_def compatible_semver_match_def)
qed

lemma sample_open_fields [simp]:
  "\<not> requires_signed_skills sample_open_policy" "tp_trusted_issuers sample_open_policy = []"
  "tp_dependency_policy sample_open_policy = Some dependency_policy_default"
  by (simp_all add: sample_open_policy_def requires_signed_skills_def)

lemma sample_open_transitive [simp]: "allows_transitive sample_open_policy"
  by (simp add: allows_transitive_def dependency_policy_default_def)

lemma sample_open_allowed: "te_allowed (evaluate_skill sample_open_policy (sample_skill i v ds))"
  unfolding evaluate_skill_fields decide_allow
  by (simp add: sample_open_policy_def risk_denied_def risk_reviewed_def risk_policy_default_def issuer_accepted_def
      requires_signed_skills_def)

lemma sample_open_evaluation:
  "evaluate_trust_policy sample_msp_env sample_registry sample_open_policy ''app'' =
     Ok (evaluate_skill sample_open_policy (sample_skill ''app'' ''2.0.0'' [sample_dependency ''lib'']))"
  "evaluate_trust_policy sample_msp_env sample_registry sample_open_policy ''lib'' =
     Ok (evaluate_skill sample_open_policy (sample_skill ''lib'' ''1.2.0'' []))"
  by (simp_all add: evaluate_trust_policy_def find_skill_def sample_find sample_lib binding_required_def)

lemma sample_edge_trusted: "edge_trusted sample_msp_env sample_registry sample_open_policy 1 (sample_dependency ''lib'')"
  using sample_version_ok
  by (simp add: edge_trusted_def sample_dependency_def sample_lib found_trusted_def demands_met_def
      sample_open_evaluation sample_open_allowed)

lemma sample_edge:
  "\<exists>n. trust_edge sample_msp_env sample_registry sample_open_policy ''app'' 1 (sample_dependency ''lib'') = Ok (n, [], Some KSkill) \<and>
     en_allowed n \<and> en_depth n = 1"
proof -
  let ?d = "sample_dependency ''lib''"
  have d: "sd_type ?d = DepSkill" "sd_id ?d = ''lib''" "sd_trust ?d = None" by (simp_all add: sample_dependency_def)
  obtain n where n: "evaluate_dependency_edge sample_msp_env sample_registry sample_open_policy ''app'' 1 ?d = Ok n"
    by (simp add: evaluate_dependency_edge_def skill_edge_def d sample_lib edge_found_def sample_open_evaluation edge_demands_def Let_def)
  have "dependency_found sample_registry ?d" by (simp add: dependency_found_def d sample_lib sample_version_ok)
  then have "trust_target sample_registry sample_open_policy ?d = Some KSkill" by (simp add: trust_target_def d)
  moreover have "lost_dependency sample_registry ?d = []"
    by (simp add: lost_dependency_def dependency_resolved_def d tbl_has_def sample_lib)
  ultimately show ?thesis
    using n evaluate_dependency_edge_Ok [OF n] sample_edge_trusted by (auto simp: trust_edge_Ok)
qed

lemma sample_dependency_run:
  "\<exists>r. evaluate_dependency_trust sample_msp_env sample_registry sample_open_policy ''app'' = Some (Ok r) \<and> td_allowed r"
proof -
  obtain n where n: "trust_edge sample_msp_env sample_registry sample_open_policy ''app'' 1 (sample_dependency ''lib'') =
      Ok (n, [], Some KSkill)" "en_allowed n" "en_depth n = 1" using sample_edge by blast
  have fuel: "walk_fuel sample_registry = Suc (Suc (Suc 0))" by (simp add: walk_fuel_def sample_registry_def)
  have i: "sd_id (sample_dependency ''lib'') = ''lib''" by (simp add: sample_dependency_def)
  obtain w where w: "evaluate_dependency_trust_inner sample_msp_env sample_registry sample_open_policy (walk_fuel sample_registry)
      KSkill ''app'' walk_start = Some (Ok w)" "dw_nodes w = [n]" "dw_missing w = []" "dw_cycles w = []"
    using n(1)
    by (simp add: evaluate_dependency_trust_inner_def fuel entry_dependencies_def find_skill_def sample_find sample_lib
        walk_start_def enter_def leave_def i)
  with n(2,3) show ?thesis
    by (simp add: evaluate_dependency_trust_def sample_open_evaluation trust_from_root_def finalize_allowed
        root_refusal_def new_dependency_trust_result_def sample_open_allowed)
qed

lemma dependency_trust_is_complete_witness:
  "\<exists>r. evaluate_dependency_trust sample_msp_env sample_registry sample_open_policy ''app'' = Some (Ok r) \<and> td_allowed r \<and>
     closure_trusted sample_msp_env sample_registry sample_open_policy ''app''"
proof -
  obtain r where r: "evaluate_dependency_trust sample_msp_env sample_registry sample_open_policy ''app'' = Some (Ok r)" "td_allowed r"
    using sample_dependency_run by blast
  with conjunct1 [OF dependency_trust_is_complete [OF sample_distinct]] show ?thesis by blast
qed

section \<open>Files\<close>



section \<open>Versions\<close>



section \<open>Reports\<close>

text \<open>
  C34: An execution report passes exactly where it names the contract's skill, version and id,
  ended in an accepted status without an error or fatal entry, has every required piece of
  evidence and every required check passed with its evidence, and reaches the score, the
  confidence and the number of warnings the contract sets; and a required check that did not
  pass leaves a failure under its id.
\<close>

lemma report_passes_exactly:
  "(vr_passed (verify_report F C X) \<longleftrightarrow> report_identified C X \<and> report_supported C X \<and>
     fl_ge F (report_score F C X) (case su_minimum_score (vn_success_criteria C) of None \<Rightarrow> fl_of_nat F 1 | Some s \<Rightarrow> s) \<and>
     (case su_minimum_confidence (vn_success_criteria C) of None \<Rightarrow> True | Some m \<Rightarrow> fl_ge F (report_confidence F C X) m) \<and>
     (case su_allowed_warnings (vn_success_criteria C) of None \<Rightarrow> True
      | Some l \<Rightarrow> length (vr_warnings (verify_report F C X)) \<le> l)) \<and>
   {vc_id c | c. c \<in> set (vn_checks C) \<and> vc_required c \<and> \<not> check_passed X c} \<subseteq>
     {vf_code f | f. f \<in> set (vr_failures (verify_report F C X)) \<and> vf_check_id f = Some (vf_code f)}"
proof
  show "vr_passed (verify_report F C X) \<longleftrightarrow> report_identified C X \<and> report_supported C X \<and>
     fl_ge F (report_score F C X) (case su_minimum_score (vn_success_criteria C) of None \<Rightarrow> fl_of_nat F 1 | Some s \<Rightarrow> s) \<and>
     (case su_minimum_confidence (vn_success_criteria C) of None \<Rightarrow> True | Some m \<Rightarrow> fl_ge F (report_confidence F C X) m) \<and>
     (case su_allowed_warnings (vn_success_criteria C) of None \<Rightarrow> True
      | Some l \<Rightarrow> length (vr_warnings (verify_report F C X)) \<le> l)"
    unfolding report_passed by (simp split: option.split)
  show "{vc_id c | c. c \<in> set (vn_checks C) \<and> vc_required c \<and> \<not> check_passed X c} \<subseteq>
     {vf_code f | f. f \<in> set (vr_failures (verify_report F C X)) \<and> vf_check_id f = Some (vf_code f)}"
  proof
    fix y assume "y \<in> {vc_id c | c. c \<in> set (vn_checks C) \<and> vc_required c \<and> \<not> check_passed X c}"
    then obtain c where "c \<in> set (vn_checks C)" "vc_required c" "\<not> check_passed X c" "y = vc_id c" by blast
    from failed_check_explained [OF this(1-3), of F] this(4)
    show "y \<in> {vf_code f | f. f \<in> set (vr_failures (verify_report F C X)) \<and> vf_check_id f = Some (vf_code f)}" by force
  qed
qed

end
