(* ===== verification/Unix_Files.thy ===== *)
theory Unix_Files
  imports Rust_Paths
begin

text \<open>
  The file system behind \<open>std::fs\<close> on Linux, as far as the harness uses it: a map from the
  names on the way from the root to a node; a node is a file with its bytes, a directory or a
  symbolic link with its target text. Paths are resolved component by component; a link is
  replaced by its target, at most 40 times. Permissions, special files, races with other
  processes and errors of the device are left out. This is the operating system and the standard
  library, so no map entry names these definitions.
\<close>

section \<open>Nodes\<close>

datatype fs_node = FileN bytes | DirN | LinkN string

type_synonym names = "string list"
type_synonym files = "names \<Rightarrow> fs_node option"

datatype io_error = NotFound | NotADirectory | IsADirectory | AlreadyExists | FilesystemLoop | CrossesRoot | InvalidData | Unsupported

definition fs_ok :: "files \<Rightarrow> bool" where
  "fs_ok F \<longleftrightarrow> F [] = Some DirN \<and> (\<forall>p n. F (p @ [n]) \<noteq> None \<longrightarrow> F p = Some DirN)"

definition present :: "files \<Rightarrow> names \<Rightarrow> bool" where
  "present F p = (case F p of Some (FileN _) \<Rightarrow> True | Some DirN \<Rightarrow> True | _ \<Rightarrow> False)"

definition is_link :: "fs_node option \<Rightarrow> bool" where
  "is_link v = (case v of Some (LinkN _) \<Rightarrow> True | _ \<Rightarrow> False)"

lemma is_link_simps [simp]:
  "\<not> is_link None" "\<not> is_link (Some DirN)" "\<not> is_link (Some (FileN b))" "is_link (Some (LinkN t))"
  by (simp_all add: is_link_def)

lemma present_cases: "F p = None \<or> is_link (F p) \<or> F p = Some DirN \<or> (\<exists>b. F p = Some (FileN b))"
  by (cases "F p") (auto simp: is_link_def split: fs_node.splits)

lemma present_iff: "present F p \<longleftrightarrow> F p \<noteq> None \<and> \<not> is_link (F p)"
  by (auto simp: present_def is_link_def split: option.splits fs_node.splits)

lemma present_dir [simp]: "F p = Some DirN \<Longrightarrow> present F p"
  and present_file [simp]: "F p = Some (FileN b) \<Longrightarrow> present F p"
  by (simp_all add: present_def)

section \<open>Resolving a path\<close>

text \<open>From a directory already reached, with so many links left to follow.\<close>

function fs_walk :: "files \<Rightarrow> nat \<Rightarrow> names \<Rightarrow> path_component list \<Rightarrow> io_error + names" where
  "fs_walk F k cur [] = Ok cur"
| "fs_walk F k cur (RootDir # cs) = fs_walk F k [] cs"
| "fs_walk F k cur (CurDir # cs) = (if F cur \<noteq> Some DirN then Err NotADirectory else fs_walk F k cur cs)"
| "fs_walk F k cur (ParentDir # cs) = (if F cur \<noteq> Some DirN then Err NotADirectory else fs_walk F k (butlast cur) cs)"
| "fs_walk F k cur (NormalC n # cs) =
     (if F cur \<noteq> Some DirN then Err NotADirectory
      else case F (cur @ [n]) of
        None \<Rightarrow> Err NotFound
      | Some (LinkN t) \<Rightarrow>
          (if t = [] then Err NotFound
           else if k = 0 then Err FilesystemLoop
           else fs_walk F (k - 1) cur (path_components t @ cs))
      | Some _ \<Rightarrow> fs_walk F k (cur @ [n]) cs)"
  by pat_completeness auto
termination by (relation "measures [\<lambda>(F, k, cur, cs). k, \<lambda>(F, k, cur, cs). length cs]") auto

definition canonicalize :: "files \<Rightarrow> path_component list \<Rightarrow> io_error + names" where
  "canonicalize F p = fs_walk F 40 [] p"

definition exists_at :: "files \<Rightarrow> path_component list \<Rightarrow> bool" where
  "exists_at F p = is_ok (canonicalize F p)"

text \<open>The last component is not followed: \<open>symlink_metadata\<close>, and the place an open or a \<open>mkdir\<close> acts on.\<close>

definition place :: "files \<Rightarrow> path_component list \<Rightarrow> io_error + names" where
  "place F p =
     (if p = [] then Err NotFound
      else case last p of
        NormalC n \<Rightarrow>
          res_bind (canonicalize F (butlast p)) (\<lambda>d.
          if F d \<noteq> Some DirN then Err NotADirectory else Ok (d @ [n]))
      | _ \<Rightarrow> canonicalize F p)"

definition is_symlink_at :: "files \<Rightarrow> path_component list \<Rightarrow> bool" where
  "is_symlink_at F p = (case place F p of Inr q \<Rightarrow> is_link (F q) | Inl _ \<Rightarrow> False)"

section \<open>Changes\<close>

definition mkdir_at :: "path_component list \<Rightarrow> (files, io_error, unit) sx" where
  "mkdir_at p F =
     (case place F p of
       Inl e \<Rightarrow> (Err e, F)
     | Inr q \<Rightarrow> if F q \<noteq> None then (Err AlreadyExists, F) else (Ok (), F(q := Some DirN)))"

definition is_dir_at :: "files \<Rightarrow> path_component list \<Rightarrow> bool" where
  "is_dir_at F p = (case canonicalize F p of Inr q \<Rightarrow> F q = Some DirN | Inl _ \<Rightarrow> False)"

text \<open>\<open>create_dir_all\<close> tries the directory itself, then its parent and itself again. The path is given last component first.\<close>

fun create_dir_rev :: "path_component list \<Rightarrow> (files, io_error, unit) sx" where
  "create_dir_rev [] F = (Ok (), F)"
| "create_dir_rev (c # r) F =
     (case mkdir_at (rev (c # r)) F of
       (Inr _, G) \<Rightarrow> (Ok (), G)
     | (Inl e, _) \<Rightarrow>
         if e = NotFound
         then if c = RootDir then (Err e, F)
              else case create_dir_rev r F of
                (Inl e', G) \<Rightarrow> (Err e', G)
              | (Inr _, G) \<Rightarrow>
                  case mkdir_at (rev (c # r)) G of
                    (Inr _, H) \<Rightarrow> (Ok (), H)
                  | (Inl e', H) \<Rightarrow> if is_dir_at H (rev (c # r)) then (Ok (), H) else (Err e', H)
         else if is_dir_at F (rev (c # r)) then (Ok (), F) else (Err e, F))"

definition create_dir_all :: "path_component list \<Rightarrow> (files, io_error, unit) sx" where
  "create_dir_all p = create_dir_rev (rev p)"

text \<open>Opening without following a link in the last component. An opened file is its place.\<close>

definition open_read_at :: "files \<Rightarrow> path_component list \<Rightarrow> io_error + names" where
  "open_read_at F p =
     res_bind (place F p) (\<lambda>q.
     if F q = None then Err NotFound else if is_link (F q) then Err FilesystemLoop else Ok q)"

definition open_write_at :: "path_component list \<Rightarrow> (files, io_error, names) sx" where
  "open_write_at p F =
     (case place F p of
       Inl e \<Rightarrow> (Err e, F)
     | Inr q \<Rightarrow>
         if is_link (F q) then (Err FilesystemLoop, F)
         else if F q = Some DirN then (Err IsADirectory, F)
         else (Ok q, F(q := Some (FileN []))))"

definition write_all :: "names \<Rightarrow> string \<Rightarrow> (files, io_error, unit) sx" where
  "write_all q content F = (Ok (), F(q := Some (FileN content)))"

definition read_bytes :: "files \<Rightarrow> names \<Rightarrow> io_error + bytes" where
  "read_bytes F q = (case F q of Some (FileN b) \<Rightarrow> Ok b | Some DirN \<Rightarrow> Err IsADirectory | _ \<Rightarrow> Err NotFound)"

definition read_to_string :: "files \<Rightarrow> names \<Rightarrow> io_error + string" where
  "read_to_string F q = res_bind (read_bytes F q) (\<lambda>b. if utf8_ok b then Ok b else Err InvalidData)"

section \<open>openat2\<close>

text \<open>
  \<open>openat2\<close> with \<open>RESOLVE_NO_SYMLINKS\<close>: a link anywhere on the path is an error; with
  \<open>RESOLVE_BENEATH\<close> no component leaves the directory the walk started in.
\<close>

fun strict_walk :: "files \<Rightarrow> bool \<Rightarrow> names \<Rightarrow> names \<Rightarrow> path_component list \<Rightarrow> io_error + names" where
  "strict_walk F beneath base cur [] = Ok cur"
| "strict_walk F beneath base cur (RootDir # cs) =
     (if beneath then Err CrossesRoot else strict_walk F beneath base [] cs)"
| "strict_walk F beneath base cur (CurDir # cs) =
     (if F cur \<noteq> Some DirN then Err NotADirectory else strict_walk F beneath base cur cs)"
| "strict_walk F beneath base cur (ParentDir # cs) =
     (if F cur \<noteq> Some DirN then Err NotADirectory
      else if beneath \<and> cur = base then Err CrossesRoot
      else strict_walk F beneath base (butlast cur) cs)"
| "strict_walk F beneath base cur (NormalC n # cs) =
     (if F cur \<noteq> Some DirN then Err NotADirectory
      else case F (cur @ [n]) of
        None \<Rightarrow> Err NotFound
      | Some (LinkN t) \<Rightarrow> Err FilesystemLoop
      | Some _ \<Rightarrow> strict_walk F beneath base (cur @ [n]) cs)"

datatype open_mode = OpenRead | OpenTruncate | OpenDirectory | OpenCreate

definition openat2 :: "bool \<Rightarrow> names \<Rightarrow> path_component list \<Rightarrow> open_mode \<Rightarrow> (files, io_error, names) sx" where
  "openat2 beneath dir p mode F =
     (if p = [] then (Err NotFound, F)
      else case (mode, last p) of
        (OpenCreate, NormalC n) \<Rightarrow>
          (case strict_walk F beneath dir dir (butlast p) of
            Inl e \<Rightarrow> (Err e, F)
          | Inr d \<Rightarrow>
              if F d \<noteq> Some DirN then (Err NotADirectory, F)
              else if is_link (F (d @ [n])) then (Err FilesystemLoop, F)
              else if F (d @ [n]) = Some DirN then (Err IsADirectory, F)
              else (Ok (d @ [n]), F(d @ [n] := Some (FileN []))))
      | _ \<Rightarrow>
          (case strict_walk F beneath dir dir p of
            Inl e \<Rightarrow> (Err e, F)
          | Inr q \<Rightarrow>
              if mode = OpenDirectory then (if F q = Some DirN then Ok q else Err NotADirectory, F)
              else if mode = OpenRead then (Ok q, F)
              else if F q = Some DirN then (Err IsADirectory, F)
              else (Ok q, F(q := Some (FileN [])))))"

section \<open>Facts about resolution\<close>

lemma fs_ok_parent: "fs_ok F \<Longrightarrow> F (p @ [n]) \<noteq> None \<Longrightarrow> F p = Some DirN"
  by (auto simp: fs_ok_def)

lemma fs_ok_prefix: "fs_ok F \<Longrightarrow> F (p @ q) \<noteq> None \<Longrightarrow> q \<noteq> [] \<Longrightarrow> F p = Some DirN"
proof (induction q rule: rev_induct)
  case (snoc n q)
  then have "F (p @ q) = Some DirN" using fs_ok_parent [of F "p @ q" n] by simp
  with snoc show ?case by (cases "q = []") auto
qed simp

text \<open>What a resolution reaches is a file or a directory, never a link.\<close>

lemma walk_present: "fs_walk F k cur cs = Ok p \<Longrightarrow> fs_ok F \<Longrightarrow> present F cur \<Longrightarrow> present F p"
proof (induction F k cur cs arbitrary: p rule: fs_walk.induct)
  case (2 F k cur cs)
  then show ?case by (simp add: fs_ok_def)
next
  case (4 F k cur cs)
  have "present F (butlast cur)" if "F cur = Some DirN"
    using that 4(3) fs_ok_parent [of F "butlast cur" "last cur"] by (cases "cur = []") simp_all
  with 4 show ?case by (auto split: if_splits)
next
  case (5 F k cur n cs)
  then show ?case by (auto split: if_splits option.splits fs_node.splits)
qed (auto split: if_splits)

lemma canonicalize_present: "canonicalize F p = Ok q \<Longrightarrow> fs_ok F \<Longrightarrow> present F q"
  by (rule walk_present [where k = 40 and cur = "[]" and cs = p]) (auto simp: canonicalize_def fs_ok_def)

text \<open>Walking along names without links.\<close>

lemma walk_names:
  "fs_ok F \<Longrightarrow> present F (cur @ ns) \<Longrightarrow> fs_walk F k cur (map NormalC ns @ cs) = fs_walk F k (cur @ ns) cs"
proof (induction ns arbitrary: cur)
  case (Cons n ns)
  have "F cur = Some DirN" using fs_ok_prefix [of F cur "n # ns"] Cons.prems by (auto simp: present_iff)
  moreover have "present F (cur @ [n])"
    using fs_ok_prefix [of F "cur @ [n]" ns] Cons.prems by (cases "ns = []") (auto simp: present_iff)
  ultimately show ?case using Cons.IH [of "cur @ [n]"] Cons.prems
    by (auto simp: present_def split: option.splits fs_node.splits)
qed simp

definition root_comps :: "names \<Rightarrow> path_component list" where
  "root_comps p = RootDir # map NormalC p"

lemma root_comps_inj: "root_comps p = root_comps q \<longleftrightarrow> p = q"
  by (simp add: root_comps_def inj_map_eq_map inj_def)

lemma root_comps_append: "root_comps (p @ q) = root_comps p @ map NormalC q"
  by (simp add: root_comps_def)

lemma canonicalize_names: "fs_ok F \<Longrightarrow> present F p \<Longrightarrow> canonicalize F (root_comps p) = Ok p"
  using walk_names [of F "[]" p 40 "[]"] by (simp add: canonicalize_def root_comps_def)

text \<open>Links-free names: none of the prefixes is a link.\<close>

definition no_links :: "files \<Rightarrow> names \<Rightarrow> bool" where
  "no_links F p \<longleftrightarrow> (\<forall>q r. p = q @ r \<longrightarrow> \<not> is_link (F q))"

lemma no_links_prefix: "no_links F (p @ q) \<Longrightarrow> no_links F p"
  unfolding no_links_def by (metis append.assoc)

lemma no_links_self: "no_links F p \<Longrightarrow> \<not> is_link (F p)"
  unfolding no_links_def by blast

lemma no_links_present: "fs_ok F \<Longrightarrow> present F p \<Longrightarrow> no_links F p"
  unfolding no_links_def
proof (intro allI impI)
  fix q r assume a: "fs_ok F" "present F p" "p = q @ r"
  show "\<not> is_link (F q)"
    using a fs_ok_prefix [of F q r] by (cases "r = []") (auto simp: present_iff)
qed

lemma no_links_snoc: "no_links F (p @ [n]) \<longleftrightarrow> no_links F p \<and> \<not> is_link (F (p @ [n]))"
proof
  assume "no_links F p \<and> \<not> is_link (F (p @ [n]))"
  then show "no_links F (p @ [n])" unfolding no_links_def by (metis append_butlast_last_id butlast_append butlast_snoc append_Nil2)
qed (auto dest: no_links_prefix no_links_self)

text \<open>Along names without links a resolution finds the node of that name, or fails without moving elsewhere.\<close>

lemma walk_no_links:
  "no_links F (cur @ ns) \<Longrightarrow> present F cur \<Longrightarrow> fs_ok F \<Longrightarrow> fs_walk F k cur (map NormalC ns) = Ok q \<Longrightarrow> q = cur @ ns \<and> present F q"
proof (induction ns arbitrary: cur)
  case (Cons n ns)
  have l: "\<not> is_link (F (cur @ [n]))" using Cons.prems(1) no_links_prefix [of F "cur @ [n]" ns] no_links_self by auto
  from Cons.prems(4) l have "present F (cur @ [n])" "fs_walk F k (cur @ [n]) (map NormalC ns) = Ok q"
    by (auto simp: is_link_def split: if_splits option.splits fs_node.splits)
  with Cons.IH [of "cur @ [n]"] Cons.prems(1,3) show ?case by auto
qed simp

lemma canonicalize_no_links:
  "no_links F p \<Longrightarrow> fs_ok F \<Longrightarrow> canonicalize F (root_comps p) = Ok q \<longleftrightarrow> q = p \<and> present F p"
  using walk_no_links [of F "[]" p 40 q] canonicalize_names [of F p]
  by (auto simp: canonicalize_def root_comps_def fs_ok_def)

lemma canonicalize_cases:
  assumes "no_links F p" and "fs_ok F"
  obtains (there) "present F p" "canonicalize F (root_comps p) = Ok p"
  | (missing) e where "\<not> present F p" "canonicalize F (root_comps p) = Err e"
  using canonicalize_no_links [OF assms] by (cases "canonicalize F (root_comps p)") auto

lemma exists_no_links: "no_links F p \<Longrightarrow> fs_ok F \<Longrightarrow> exists_at F (root_comps p) \<longleftrightarrow> present F p"
  using canonicalize_no_links [of F p p] canonicalize_no_links [of F p]
  by (auto simp: exists_at_def is_ok_iff)

lemma place_no_links:
  assumes "no_links F p" and "fs_ok F"
  shows "place F (root_comps (p @ [n])) = Ok q \<longleftrightarrow> q = p @ [n] \<and> F p = Some DirN"
  using canonicalize_no_links [OF assms]
  by (auto simp: place_def root_comps_append res_bind_Ok_iff butlast_append)

lemma place_root: "fs_ok F \<Longrightarrow> place F (root_comps []) = Ok []"
  by (simp add: place_def root_comps_def canonicalize_def)

end
