(* ===== verification/Workspace_Sandbox.thy ===== *)
theory Workspace_Sandbox
  imports Unix_Files Command_Sandbox
begin

text \<open>
  The workspace sandbox of the file tools, vegvisir/src/sandbox.rs, over the file system of
  \<open>Unix_Files\<close>. The root is canonical, so it is given by its names; a \<open>PathBuf\<close> made by
  collecting components is its list of components. \<open>has2\<close> tells whether the kernel has
  \<open>openat2\<close>. Calls read and change the file system one after the other: no other process
  changes it meanwhile.
\<close>

section \<open>Status lines\<close>

record command_sandbox_status =
  st_workspace_file_containment :: string
  st_file_access_hardening :: string
  st_command_os_sandbox :: string
  st_bubblewrap_available :: bool
  st_dangerous_bypass :: string
  st_command_network_policy :: string
  st_writable_mount_policy :: string
  st_readonly_mount_policy :: string

definition command_exists :: "'a proc_env_scheme \<Rightarrow> string \<Rightarrow> bool" where
  "command_exists E name =
     (case pe_var E ''PATH'' of
       None \<Rightarrow> False
     | Some path \<Rightarrow> \<exists>dir \<in> set (split_on (CHR '':'') path). pe_is_file E (path_join dir name))"

definition mount_policy_label :: "string \<Rightarrow> nat \<Rightarrow> string" where
  "mount_policy_label base extra =
     (if extra = 0 then base else base @ '' plus '' @ show_nat extra @ '' configured path(s)'')"

definition file_access_hardening_label :: string where
  "file_access_hardening_label = ''openat2 existing paths plus symlink rejection''"

definition sandbox_labels :: "bool \<Rightarrow> bool \<Rightarrow> string + sandbox_config \<Rightarrow> string \<times> string \<times> string \<times> string" where
  "sandbox_labels dangerous_bypass available configured =
     (case configured of
       Inl _ \<Rightarrow> (''invalid configuration'', ''unknown'', ''unknown'', ''unknown'')
     | Inr c \<Rightarrow>
         let network = network_policy_label (sc_network c);
             writable = mount_policy_label ''workspace writable'' (length (sc_writable_paths c));
             readonly = mount_policy_label ''system mounts read-only'' (length (sc_readonly_paths c))
         in if dangerous_bypass
            then (''disabled by dangerous bypass'', network, ''not applicable'', ''not applicable'')
            else case sc_mode c of
              SbNone \<Rightarrow> (''disabled'', network, ''not applicable'', ''not applicable'')
            | SbPathOnly \<Rightarrow> (''unavailable/not configured'', network, ''not applicable'', ''not applicable'')
            | SbBubblewrap \<Rightarrow>
                (if available then ''configured: bubblewrap'' else ''configured but bubblewrap unavailable'',
                 network, writable, readonly)
            | SbStrictBubblewrap \<Rightarrow>
                (if available then ''configured: strict-bubblewrap'' else ''configured but bubblewrap unavailable'',
                 network, writable, readonly))"

definition sandbox_status_current :: "'a proc_env_scheme \<Rightarrow> bool \<Rightarrow> string \<Rightarrow> command_sandbox_status" where
  "sandbox_status_current E dangerous_bypass workspace_root =
     (let available = command_exists E ''bwrap'';
          (os, network, writable, readonly) =
            sandbox_labels dangerous_bypass available (sandbox_from_env E workspace_root dangerous_bypass)
      in \<lparr>st_workspace_file_containment = if dangerous_bypass then ''disabled by dangerous bypass'' else ''active'',
          st_file_access_hardening =
            if dangerous_bypass then ''disabled by dangerous bypass'' else file_access_hardening_label,
          st_command_os_sandbox = os,
          st_bubblewrap_available = available,
          st_dangerous_bypass = if dangerous_bypass then ''enabled at startup'' else ''disabled'',
          st_command_network_policy = network,
          st_writable_mount_policy = writable,
          st_readonly_mount_policy = readonly\<rparr>)"

definition tools_status_lines :: "command_sandbox_status \<Rightarrow> string" where
  "tools_status_lines s =
     ''Workspace file containment: '' @ st_workspace_file_containment s @ [CHR 0x0A] @
     ''File access hardening: '' @ st_file_access_hardening s @ [CHR 0x0A] @
     ''Command OS sandbox: '' @ st_command_os_sandbox s @ [CHR 0x0A] @
     ''Bubblewrap available: '' @ (if st_bubblewrap_available s then ''yes'' else ''no'') @ [CHR 0x0A] @
     ''Dangerous bypass: '' @ st_dangerous_bypass s @ [CHR 0x0A] @
     ''Command network policy: '' @ st_command_network_policy s @ [CHR 0x0A] @
     ''Writable mount policy: '' @ st_writable_mount_policy s @ [CHR 0x0A] @
     ''Read-only mount policy: '' @ st_readonly_mount_policy s"

definition underscored :: "string \<Rightarrow> string" where
  "underscored = map (\<lambda>c. if c = CHR '' '' then CHR ''_'' else c)"

definition verify_runtime_lines :: "command_sandbox_status \<Rightarrow> string list" where
  "verify_runtime_lines s =
     [''ok runtime/workspace_file_containment '' @ underscored (st_workspace_file_containment s),
      ''ok runtime/file_access_hardening '' @ underscored (st_file_access_hardening s),
      ''ok runtime/command_os_sandbox '' @ underscored (st_command_os_sandbox s),
      ''ok runtime/bubblewrap_available '' @ (if st_bubblewrap_available s then ''yes'' else ''no''),
      ''ok runtime/command_network_policy '' @ st_command_network_policy s,
      ''ok runtime/command_mount_policy writable='' @ underscored (st_writable_mount_policy s) @
        '' readonly='' @ underscored (st_readonly_mount_policy s)]"

section \<open>The sandbox\<close>

datatype sandbox_error =
    HomeRelativePath
  | EscapesWorkspace string
  | NoExistingAncestor "path_component list"
  | RefusedSymlink "path_component list"
  | NoFileName string
  | Openat2Unavailable
  | IoError io_error

record workspace_sandbox =
  ws_root :: names
  ws_allow_network :: bool
  ws_bypass :: bool

definition workspace_new :: "files \<Rightarrow> names \<Rightarrow> string \<Rightarrow> sandbox_error + workspace_sandbox" where
  "workspace_new F cwd root =
     res_bind (map_err IoError (fs_walk F 40 cwd (path_components root))) (\<lambda>r.
     Ok \<lparr>ws_root = r, ws_allow_network = False, ws_bypass = False\<rparr>)"

definition workspace_new_unrestricted :: "files \<Rightarrow> names \<Rightarrow> string \<Rightarrow> sandbox_error + workspace_sandbox" where
  "workspace_new_unrestricted F cwd root =
     res_bind (map_err IoError (fs_walk F 40 cwd (path_components root))) (\<lambda>r.
     Ok \<lparr>ws_root = r, ws_allow_network = True, ws_bypass = True\<rparr>)"

text \<open>\<open>self.root.join(path).components()\<close>: a \<open>.\<close> is a component only at the head of a path.\<close>

definition join_root :: "names \<Rightarrow> path_component list \<Rightarrow> path_component list" where
  "join_root root p = root_comps root @ filter (\<lambda>c. c \<noteq> CurDir) p"

definition candidate_of :: "names \<Rightarrow> string \<Rightarrow> path_component list" where
  "candidate_of root path =
     (if path_is_absolute path then path_components path else join_root root (path_components path))"

text \<open>
  \<open>resolve_missing_candidate\<close>: up to the first ancestor that exists, then down again by the
  file names passed on the way. The path is given last component first.
\<close>

fun climb_to_existing :: "files \<Rightarrow> path_component list \<Rightarrow> names \<Rightarrow> (path_component list \<times> names) option" where
  "climb_to_existing F [] missing = None"
| "climb_to_existing F (c # r) missing =
     (if exists_at F (rev (c # r)) then Some (rev (c # r), missing)
      else if c = RootDir then None
      else climb_to_existing F r (case c of NormalC n \<Rightarrow> n # missing | _ \<Rightarrow> missing))"

definition resolve_missing_candidate :: "files \<Rightarrow> path_component list \<Rightarrow> sandbox_error + names" where
  "resolve_missing_candidate F candidate =
     (case climb_to_existing F (rev candidate) [] of
       None \<Rightarrow> Err (NoExistingAncestor candidate)
     | Some (existing, missing) \<Rightarrow>
         res_bind (map_err IoError (canonicalize F existing)) (\<lambda>d. Ok (d @ missing)))"

definition sandbox_resolve :: "files \<Rightarrow> workspace_sandbox \<Rightarrow> string \<Rightarrow> sandbox_error + names" where
  "sandbox_resolve F S path =
     (if \<not> ws_bypass S \<and> (path = ''~'' \<or> starts_with ''~/'' path) then Err HomeRelativePath
      else
        let candidate = candidate_of (ws_root S) path
        in res_bind (if exists_at F candidate then map_err IoError (canonicalize F candidate)
                     else resolve_missing_candidate F candidate) (\<lambda>resolved.
           if \<not> ws_bypass S \<and> resolved \<noteq> ws_root S \<and>
              take (length (ws_root S)) resolved \<noteq> ws_root S
           then Err (EscapesWorkspace path) else Ok resolved))"

definition reject_symlink :: "files \<Rightarrow> path_component list \<Rightarrow> sandbox_error + unit" where
  "reject_symlink F p = (if is_symlink_at F p then Err (RefusedSymlink p) else Ok ())"

definition reject_requested_symlink_components :: "files \<Rightarrow> names \<Rightarrow> string \<Rightarrow> sandbox_error + unit" where
  "reject_requested_symlink_components F root path =
     (let candidate = candidate_of root path
      in res_bind (res_map (\<lambda>i. reject_symlink F (take i candidate)) [1..<Suc (length candidate)]) (\<lambda>_. Ok ()))"

definition workspace_relative_path :: "names \<Rightarrow> string \<Rightarrow> sandbox_error + path_component list" where
  "workspace_relative_path root path =
     (let p = path_components path
      in res_bind
        (if path_is_absolute path
         then if take (Suc (length root)) p = root_comps root then Ok (drop (Suc (length root)) p)
              else Err (EscapesWorkspace path)
         else Ok p) (\<lambda>relative.
      if ParentDir \<in> set relative then Err (EscapesWorkspace path) else Ok relative))"

section \<open>Opening below the root\<close>

definition openat2_at ::
    "bool \<Rightarrow> bool \<Rightarrow> names \<Rightarrow> path_component list \<Rightarrow> open_mode \<Rightarrow> (files, sandbox_error, names) sx" where
  "openat2_at has2 beneath dir p mode F =
     (if has2 then (case openat2 beneath dir p mode F of (r, G) \<Rightarrow> (map_err IoError r, G))
      else (Err Openat2Unavailable, F))"

definition openat2_beneath ::
    "bool \<Rightarrow> names \<Rightarrow> path_component list \<Rightarrow> open_mode \<Rightarrow> (files, sandbox_error, names) sx" where
  "openat2_beneath has2 root relative mode F =
     (case canonicalize F (root_comps root) of
       Inl e \<Rightarrow> (Err (IoError e), F)
     | Inr root_dir \<Rightarrow> openat2_at has2 True root_dir relative mode F)"

definition openat2_create_beneath ::
    "bool \<Rightarrow> names \<Rightarrow> path_component list \<Rightarrow> sandbox_error + string \<Rightarrow> (files, sandbox_error, names) sx" where
  "openat2_create_beneath has2 root parent file_name =
     sx_bind (openat2_beneath has2 root (if parent = [] then [CurDir] else parent) OpenDirectory) (\<lambda>parent_dir.
     sx_bind (sx_lift file_name) (\<lambda>n.
     openat2_at has2 False parent_dir [NormalC n] OpenCreate))"

definition openat2_read_beneath ::
    "bool \<Rightarrow> files \<Rightarrow> names \<Rightarrow> string \<Rightarrow> (sandbox_error + names) option" where
  "openat2_read_beneath has2 F root path =
     (case workspace_relative_path root path of
       Inl e \<Rightarrow> Some (Err e)
     | Inr relative \<Rightarrow>
         if \<not> exists_at F (join_root root relative) then None
         else Some (fst (openat2_beneath has2 root relative OpenRead F)))"

definition relative_file_name :: "string \<Rightarrow> path_component list \<Rightarrow> sandbox_error + string" where
  "relative_file_name path relative =
     (case rev relative of NormalC n # _ \<Rightarrow> Ok n | _ \<Rightarrow> Err (NoFileName path))"

definition openat2_write_beneath ::
    "bool \<Rightarrow> files \<Rightarrow> names \<Rightarrow> string \<Rightarrow> ((sandbox_error + names) \<times> files) option" where
  "openat2_write_beneath has2 F root path =
     (case workspace_relative_path root path of
       Inl e \<Rightarrow> Some (Err e, F)
     | Inr relative \<Rightarrow>
         if exists_at F (join_root root relative)
         then Some (openat2_beneath has2 root relative OpenTruncate F)
         else
           let parent = butlast relative
           in if \<not> exists_at F (join_root root parent) then None
              else Some (openat2_create_beneath has2 root parent (relative_file_name path relative) F))"

definition open_read_no_follow :: "files \<Rightarrow> names \<Rightarrow> bool \<Rightarrow> sandbox_error + names" where
  "open_read_no_follow F target bypass =
     res_bind (if bypass then Ok () else reject_symlink F (root_comps target)) (\<lambda>_.
     map_err IoError (open_read_at F (root_comps target)))"

definition open_write_no_follow :: "names \<Rightarrow> bool \<Rightarrow> (files, sandbox_error, names) sx" where
  "open_write_no_follow target bypass F =
     (case (if bypass then Ok () else reject_symlink F (root_comps target)) of
       Inl e \<Rightarrow> (Err e, F)
     | Inr _ \<Rightarrow> (case open_write_at (root_comps target) F of (r, G) \<Rightarrow> (map_err IoError r, G)))"

section \<open>Reading\<close>

definition open_read_file :: "bool \<Rightarrow> files \<Rightarrow> workspace_sandbox \<Rightarrow> string \<Rightarrow> sandbox_error + names" where
  "open_read_file has2 F S requested =
     (let fallback =
        res_bind (sandbox_resolve F S requested) (\<lambda>target. open_read_no_follow F target (ws_bypass S))
      in if ws_bypass S then fallback
         else res_bind (reject_requested_symlink_components F (ws_root S) requested) (\<lambda>_.
           case openat2_read_beneath has2 F (ws_root S) requested of
             Some r \<Rightarrow> r
           | None \<Rightarrow> fallback))"

definition sandbox_read_text :: "bool \<Rightarrow> files \<Rightarrow> workspace_sandbox \<Rightarrow> string \<Rightarrow> sandbox_error + string" where
  "sandbox_read_text has2 F S requested =
     res_bind (open_read_file has2 F S requested) (\<lambda>q. map_err IoError (read_to_string F q))"

text \<open>\<open>Utf8Error::valid_up_to\<close>: the longest prefix that is UTF-8.\<close>

primrec valid_prefix :: "nat \<Rightarrow> bytes \<Rightarrow> bytes" where
  "valid_prefix 0 b = []"
| "valid_prefix (Suc n) b = (if utf8_ok (take (Suc n) b) then take (Suc n) b else valid_prefix n b)"

definition utf8_prefix_bytes :: "bytes \<Rightarrow> string" where
  "utf8_prefix_bytes b = valid_prefix (length b) b"

definition read_truncation_marker :: string where
  "read_truncation_marker = [CHR 0x0A] @ ''[read_file truncated by Vegvisir memory bound]'' @ [CHR 0x0A]"

definition read_text_bounded ::
    "bool \<Rightarrow> files \<Rightarrow> workspace_sandbox \<Rightarrow> string \<Rightarrow> nat \<Rightarrow> sandbox_error + string \<times> bool \<times> nat" where
  "read_text_bounded has2 F S requested limit =
     res_bind (open_read_file has2 F S requested) (\<lambda>q.
     res_bind (map_err IoError (read_bytes F q)) (\<lambda>b.
     let max_bytes = max limit 1
     in if length b \<le> max_bytes
        then res_bind (map_err IoError (read_to_string F q)) (\<lambda>content. Ok (content, False, length b))
        else
          let content = utf8_prefix_bytes (take (max_bytes - length read_truncation_marker) b)
          in Ok (if length read_truncation_marker < max_bytes then content @ read_truncation_marker else content,
                 True, length b)))"

section \<open>Writing\<close>

definition write_resolved :: "workspace_sandbox \<Rightarrow> string \<Rightarrow> string \<Rightarrow> (files, sandbox_error, names) sx" where
  "write_resolved S requested content =
     sx_bind (sx_read (\<lambda>F. sandbox_resolve F S requested)) (\<lambda>target.
     sx_bind (\<lambda>F. if target = [] then (Ok (), F)
                  else case create_dir_all (root_comps (butlast target)) F of (r, G) \<Rightarrow> (map_err IoError r, G)) (\<lambda>_.
     sx_bind (open_write_no_follow target (ws_bypass S)) (\<lambda>q F.
     (Ok target, snd (write_all q content F)))))"

definition sandbox_write_text ::
    "bool \<Rightarrow> workspace_sandbox \<Rightarrow> string \<Rightarrow> string \<Rightarrow> (files, sandbox_error, names) sx" where
  "sandbox_write_text has2 S requested content F =
     (if ws_bypass S then write_resolved S requested content F
      else case reject_requested_symlink_components F (ws_root S) requested of
        Inl e \<Rightarrow> (Err e, F)
      | Inr _ \<Rightarrow>
          (case openat2_write_beneath has2 F (ws_root S) requested of
            None \<Rightarrow> write_resolved S requested content F
          | Some (Inl e, G) \<Rightarrow> (Err e, G)
          | Some (Inr q, G) \<Rightarrow>
              let H = snd (write_all q content G) in (sandbox_resolve H S requested, H)))"

end
