(* ===== verification/Workspace_Files.thy ===== *)
theory Workspace_Files
  imports Workspace_Sandbox
begin

text \<open>
  What the file operations of the workspace sandbox do to the file system: which place an
  accepted path denotes, and which nodes a write changes.
\<close>

section \<open>Accepted paths\<close>

lemma path_components_shape:
  obtains xs where "\<forall>c \<in> set xs. c = ParentDir \<or> (\<exists>n. c = NormalC n)"
    and "path_components p =
      (if path_is_absolute p then [RootDir] else if hd (split_on (CHR ''/'') p) = ''.'' then [CurDir] else []) @ xs"
proof
  show "\<forall>c \<in> set (List.map_filter component_of (split_on (CHR ''/'') p)). c = ParentDir \<or> (\<exists>n. c = NormalC n)"
    by (auto simp: List.map_filter_def component_of_def split: if_splits)
qed (simp add: path_components_def Let_def)

text \<open>A path that stays below the root denotes names below the root.\<close>

definition denotes :: "names \<Rightarrow> string \<Rightarrow> path_component list \<Rightarrow> names \<Rightarrow> bool" where
  "denotes root path relative ns \<longleftrightarrow>
     candidate_of root path = root_comps (root @ ns) \<and> join_root root relative = root_comps (root @ ns) \<and>
     (relative = map NormalC ns \<or> relative = CurDir # map NormalC ns)"

lemma filter_CurDir: "\<forall>c \<in> set xs. c = ParentDir \<or> (\<exists>n. c = NormalC n) \<Longrightarrow> filter (\<lambda>c. c \<noteq> CurDir) xs = xs"
  by (auto simp: filter_id_conv)

lemma normal_names: "\<forall>c \<in> set xs. \<exists>n. c = NormalC n \<Longrightarrow> \<exists>ns. xs = map NormalC ns"
  by (simp add: ex_map_conv)

lemma relative_denotes:
  assumes "workspace_relative_path root path = Ok relative"
  obtains ns where "denotes root path relative ns"
proof -
  obtain xs where xs: "\<forall>c \<in> set xs. c = ParentDir \<or> (\<exists>n. c = NormalC n)"
    and p: "path_components path =
      (if path_is_absolute path then [RootDir] else if hd (split_on (CHR ''/'') path) = ''.'' then [CurDir] else []) @ xs"
    by (rule path_components_shape)
  show thesis
  proof (cases "path_is_absolute path")
    case True
    with assms p have start: "take (length root) xs = map NormalC root" and rel: "relative = drop (length root) xs"
      and no: "ParentDir \<notin> set relative"
      by (auto simp: workspace_relative_path_def Let_def root_comps_def split: if_splits)
    have "\<forall>c \<in> set relative. \<exists>n. c = NormalC n" using xs no rel in_set_dropD by fastforce
    then obtain ns where ns: "relative = map NormalC ns" using normal_names by blast
    have "xs = map NormalC root @ relative" using start rel by (metis append_take_drop_id)
    with True p ns have "denotes root path relative ns"
      by (simp add: denotes_def candidate_of_def join_root_def root_comps_def comp_def)
    then show thesis by (rule that)
  next
    case False
    with assms have rel: "relative = path_components path" and no: "ParentDir \<notin> set (path_components path)"
      by (simp_all add: workspace_relative_path_def Let_def split: if_splits)
    have "\<forall>c \<in> set xs. \<exists>n. c = NormalC n" using xs no unfolding p by auto
    then obtain ns where "xs = map NormalC ns" using normal_names by blast
    with False p rel have "denotes root path relative ns"
      by (simp add: denotes_def candidate_of_def join_root_def root_comps_def comp_def split: if_splits)
    then show thesis by (rule that)
  qed
qed

text \<open>Where the check of the requested components passes, no name on the way is a link.\<close>

lemma res_map_unit: "res_map f xs = Ok ys \<Longrightarrow> x \<in> set xs \<Longrightarrow> \<exists>y. f x = Ok y"
  by (induction xs arbitrary: ys) (auto simp: res_bind_Ok_iff)

lemma no_symlinks_no_links:
  assumes "fs_ok F" and "\<And>q r. p = q @ r \<Longrightarrow> \<not> is_symlink_at F (root_comps q)"
  shows "no_links F p"
  using assms(2)
proof (induction p rule: rev_induct)
  case Nil
  show ?case using assms(1) by (simp add: no_links_def fs_ok_def)
next
  case (snoc n p)
  have ih: "no_links F p" using snoc.prems by (intro snoc.IH) (metis append.assoc)
  have "\<not> is_link (F (p @ [n]))"
  proof (cases "F p = Some DirN")
    case True
    then have "place F (root_comps (p @ [n])) = Ok (p @ [n])" using place_no_links [OF ih assms(1)] by simp
    with snoc.prems [of "p @ [n]" "[]"] show ?thesis by (simp add: is_symlink_at_def)
  next
    case False
    then have "F (p @ [n]) = None" using fs_ok_parent [OF assms(1), of p n] by blast
    then show ?thesis by simp
  qed
  with ih show ?case by (simp add: no_links_snoc)
qed

lemma requested_no_links:
  assumes "reject_requested_symlink_components F root path = Ok ()" and "candidate_of root path = root_comps p"
    and "fs_ok F"
  shows "no_links F p"
proof (rule no_symlinks_no_links [OF assms(3)])
  fix q r assume "p = q @ r"
  then have t: "take (Suc (length q)) (candidate_of root path) = root_comps q"
    and i: "Suc (length q) \<in> set [1..<Suc (length (candidate_of root path))]"
    using assms(2) unfolding set_upt by (simp_all add: root_comps_def)
  from assms(1) obtain ys where
    "res_map (\<lambda>i. reject_symlink F (take i (candidate_of root path))) [1..<Suc (length (candidate_of root path))] = Ok ys"
    by (auto simp: reject_requested_symlink_components_def Let_def res_bind_Ok_iff)
  from res_map_unit [OF this i] t show "\<not> is_symlink_at F (root_comps q)"
    by (auto simp: reject_symlink_def split: if_splits)
qed

lemma reject_passes:
  assumes "no_links F p" and "candidate_of root path = root_comps p" and "fs_ok F"
  shows "reject_requested_symlink_components F root path = Ok ()"
proof -
  have "\<not> is_symlink_at F (take (Suc i) (candidate_of root path))" if "i \<le> length p" for i
  proof (cases "take i p" rule: rev_cases)
    case Nil
    then have "take (Suc i) (candidate_of root path) = root_comps []" using assms(2) by (simp add: root_comps_def take_map)
    then show ?thesis using assms(3) by (simp add: is_symlink_at_def place_root fs_ok_def)
  next
    case (snoc q n)
    then have t: "take (Suc i) (candidate_of root path) = root_comps (q @ [n])"
      using assms(2) by (simp add: root_comps_def take_map)
    have p: "p = (q @ [n]) @ drop i p" using snoc by (metis append_take_drop_id)
    have l: "no_links F (q @ [n])" using assms(1) p no_links_prefix by metis
    then show ?thesis using place_no_links [of F q n] assms(3) no_links_self [OF l] no_links_snoc [of F q n]
      unfolding is_symlink_at_def t by (auto split: sum.splits)
  qed
  then have "reject_symlink F (take i (candidate_of root path)) = Ok ()"
    if "i \<in> set [1..<Suc (length (candidate_of root path))]" for i
    using that assms(2) by (cases i) (auto simp: reject_symlink_def root_comps_def)
  then show ?thesis
    using res_map_Ok [of "[1..<Suc (length (candidate_of root path))]" "\<lambda>i. reject_symlink F (take i (candidate_of root path))" "\<lambda>_. ()"]
    by (simp add: reject_requested_symlink_components_def Let_def)
qed

section \<open>Opening without links\<close>

lemma strict_walk_names:
  "fs_ok F \<Longrightarrow> present F cur \<Longrightarrow>
    strict_walk F b base cur (map NormalC ns) = Ok q \<longleftrightarrow> q = cur @ ns \<and> present F q"
proof (induction ns arbitrary: cur)
  case (Cons n ns)
  have "F (cur @ [n]) = Some DirN" if "present F (cur @ n # ns)" "ns \<noteq> []"
    using fs_ok_prefix [of F "cur @ [n]" ns] Cons.prems that by (auto simp: present_iff)
  moreover have "F cur = Some DirN" if "present F (cur @ n # ns)"
    using fs_ok_prefix [of F cur "n # ns"] Cons.prems that by (auto simp: present_iff)
  moreover have "present F (cur @ [n])" if "present F (cur @ n # ns)"
    using calculation(1) [OF that] that by (cases "ns = []") auto
  ultimately show ?case using Cons.IH [of "cur @ [n]"] Cons.prems
    by (auto simp: present_def split: option.splits fs_node.splits)
qed auto

lemma strict_walk_relative:
  assumes "fs_ok F" and "F root = Some DirN" and "relative = map NormalC ns \<or> relative = CurDir # map NormalC ns"
  shows "strict_walk F b base root relative = Ok q \<longleftrightarrow> q = root @ ns \<and> present F q"
  using assms strict_walk_names [OF assms(1), of root b base ns q] by auto

text \<open>What \<open>openat2\<close> reaches, by mode.\<close>

lemma openat2_relative:
  assumes "fs_ok F" and "F root = Some DirN" and "relative = map NormalC ns \<or> relative = CurDir # map NormalC ns"
    and "mode \<noteq> OpenCreate"
  shows "openat2 b root relative mode F = (Ok q, G) \<longleftrightarrow>
    relative \<noteq> [] \<and> q = root @ ns \<and> present F q \<and>
    (if mode = OpenTruncate then F q \<noteq> Some DirN \<and> G = F(q := Some (FileN []))
     else G = F \<and> (mode = OpenDirectory \<longrightarrow> F q = Some DirN))"
proof -
  note w = strict_walk_relative [OF assms(1-3), of b root]
  show ?thesis
  proof (cases "present F (root @ ns)")
    case True
    with w have "strict_walk F b root root relative = Ok (root @ ns)" by blast
    with True assms(4) show ?thesis
      by (cases mode; cases "last relative") (auto simp: openat2_def)
  next
    case False
    with w obtain e where "strict_walk F b root root relative = Err e" by (cases "strict_walk F b root root relative") auto
    with False assms(4) show ?thesis
      by (cases mode; cases "last relative") (auto simp: openat2_def)
  qed
qed

lemma openat2_unchanged:
  assumes "mode \<noteq> OpenCreate" and "openat2 b root relative mode F = (Err e, G)"
  shows "G = F"
  using assms by (cases mode) (auto simp: openat2_def split: sum.splits path_component.splits if_splits)

lemma openat2_create:
  assumes "fs_ok F" and "F d = Some DirN"
  shows "openat2 False d [NormalC n] OpenCreate F = (r, G) \<longleftrightarrow>
    (if is_link (F (d @ [n])) then r = Err FilesystemLoop \<and> G = F
     else if F (d @ [n]) = Some DirN then r = Err IsADirectory \<and> G = F
     else r = Ok (d @ [n]) \<and> G = F(d @ [n] := Some (FileN [])))"
  using assms by (auto simp: openat2_def)

section \<open>Changes below a directory\<close>

text \<open>\<open>makes_dirs F G p\<close>: some directories on the way to \<open>p\<close> were made, nothing else changed.\<close>

definition makes_dirs :: "files \<Rightarrow> files \<Rightarrow> names \<Rightarrow> bool" where
  "makes_dirs F G p \<longleftrightarrow> (\<forall>q. G q = F q \<or> F q = None \<and> G q = Some DirN \<and> (\<exists>s. p = q @ s))"

lemma makes_dirs_refl [simp]: "makes_dirs F F p"
  by (simp add: makes_dirs_def)

lemma makes_dirs_trans: "makes_dirs F G p \<Longrightarrow> makes_dirs G H p \<Longrightarrow> makes_dirs F H p"
  unfolding makes_dirs_def by metis

lemma makes_dirs_snoc: "makes_dirs F G p \<Longrightarrow> makes_dirs F G (p @ q)"
  unfolding makes_dirs_def by (metis append.assoc)

lemma makes_dirs_kept: "makes_dirs F G p \<Longrightarrow> F q \<noteq> None \<Longrightarrow> G q = F q"
  unfolding makes_dirs_def by metis

lemma makes_dirs_no_links: "makes_dirs F G p \<Longrightarrow> no_links F q \<Longrightarrow> no_links G q"
  unfolding no_links_def makes_dirs_def by (metis is_link_simps(2))

lemma fs_ok_update:
  assumes "fs_ok F" and "F p = Some DirN" and "F (p @ [n]) \<noteq> Some DirN \<or> v = DirN"
  shows "fs_ok (F(p @ [n] := Some v))"
  using assms unfolding fs_ok_def by (auto; metis)

lemma mkdir_no_links:
  assumes "fs_ok F" and "no_links F (p @ [n])"
  shows "F p = Some DirN \<Longrightarrow> mkdir_at (root_comps (p @ [n])) F =
      (if F (p @ [n]) = None then (Ok (), F(p @ [n] := Some DirN)) else (Err AlreadyExists, F))"
    and "F p \<noteq> Some DirN \<Longrightarrow> \<exists>e. mkdir_at (root_comps (p @ [n])) F = (Err e, F)"
proof -
  note w = place_no_links [OF no_links_prefix [OF assms(2)] assms(1), of n]
  show "mkdir_at (root_comps (p @ [n])) F =
      (if F (p @ [n]) = None then (Ok (), F(p @ [n] := Some DirN)) else (Err AlreadyExists, F))"
    if "F p = Some DirN"
    using w [of "p @ [n]"] that by (simp add: mkdir_at_def)
  show "\<exists>e. mkdir_at (root_comps (p @ [n])) F = (Err e, F)" if "F p \<noteq> Some DirN"
    using w that by (cases "place F (root_comps (p @ [n]))") (auto simp: mkdir_at_def)
qed

lemma is_dir_no_links:
  assumes "fs_ok F" and "no_links F p"
  shows "is_dir_at F (root_comps p) \<longleftrightarrow> F p = Some DirN"
  using canonicalize_cases [OF assms(2,1)] by cases (auto simp: is_dir_at_def)

lemma rev_root_comps: "rev (root_comps (p @ [n])) = NormalC n # rev (root_comps p)" "rev (root_comps []) = [RootDir]"
  by (simp_all add: root_comps_def)

lemma create_dir_snoc:
  "create_dir_all (root_comps (p @ [n])) F =
     (case mkdir_at (root_comps (p @ [n])) F of
       (Inr _, G) \<Rightarrow> (Ok (), G)
     | (Inl e, _) \<Rightarrow>
         if e = NotFound
         then case create_dir_all (root_comps p) F of
                (Inl e', G) \<Rightarrow> (Err e', G)
              | (Inr _, G) \<Rightarrow>
                  case mkdir_at (root_comps (p @ [n])) G of
                    (Inr _, H) \<Rightarrow> (Ok (), H)
                  | (Inl e', H) \<Rightarrow> if is_dir_at H (root_comps (p @ [n])) then (Ok (), H) else (Err e', H)
         else if is_dir_at F (root_comps (p @ [n])) then (Ok (), F) else (Err e, F))"
proof -
  have rv: "rev (NormalC n # rev (root_comps p)) = root_comps (p @ [n])" by (simp add: root_comps_def)
  show ?thesis unfolding create_dir_all_def rev_root_comps create_dir_rev.simps rv
    by (simp cong: if_cong split: prod.split sum.split)
qed

lemma create_dir_no_links:
  assumes "fs_ok F" and "no_links F p" and "create_dir_all (root_comps p) F = (r, G)"
  shows "fs_ok G \<and> makes_dirs F G p \<and> (r = Ok () \<longrightarrow> G p = Some DirN)"
  using assms(2,3)
proof (induction p arbitrary: r G rule: rev_induct)
  case Nil
  have "place F (rev [RootDir]) = Ok []" using place_root [OF assms(1)] by (simp add: root_comps_def)
  moreover have "is_dir_at F [RootDir]" using is_dir_no_links [OF assms(1) Nil(1)] assms(1)
    by (simp add: root_comps_def fs_ok_def)
  moreover have "F [] = Some DirN" using assms(1) by (simp add: fs_ok_def)
  ultimately show ?case using Nil(2) assms(1)
    by (auto simp: create_dir_all_def rev_root_comps mkdir_at_def split: prod.splits)
next
  case (snoc n p)
  note l = no_links_prefix [OF snoc.prems(1)]
  note run = snoc.prems(2) [unfolded create_dir_snoc]
  show ?case
  proof (cases "F p = Some DirN")
    case True
    show ?thesis
    proof (cases "F (p @ [n])")
      case None
      with True mkdir_no_links(1) [OF assms(1) snoc.prems(1) True] run have "r = Ok ()" "G = F(p @ [n] := Some DirN)"
        by (auto split: prod.splits)
      with None True fs_ok_update [OF assms(1) True, of n DirN] show ?thesis unfolding makes_dirs_def fun_upd_apply by simp
    next
      case (Some v)
      with True mkdir_no_links(1) [OF assms(1) snoc.prems(1) True] is_dir_no_links [OF assms(1) snoc.prems(1)] run assms(1)
      show ?thesis by (auto split: if_splits)
    qed
  next
    case False
    from mkdir_no_links(2) [OF assms(1) snoc.prems(1) False] obtain e where
      e: "mkdir_at (root_comps (p @ [n])) F = (Err e, F)" by blast
    have none: "F (p @ [n]) = None" using fs_ok_parent [OF assms(1), of p n] False by blast
    obtain r' G' where up: "create_dir_all (root_comps p) F = (r', G')" by (cases "create_dir_all (root_comps p) F")
    note ih = snoc.IH [OF l up]
    show ?thesis
    proof (cases "e = NotFound")
      case False
      with run e is_dir_no_links [OF assms(1) snoc.prems(1)] none assms(1) show ?thesis by auto
    next
      case nf: True
      show ?thesis
      proof (cases r')
        case (Inl e')
        with run e nf up ih makes_dirs_snoc [of F G' p "[n]"] show ?thesis by auto
      next
        case (Inr u)
        then have d: "G' p = Some DirN" and g: "makes_dirs F G' p" and ok: "fs_ok G'" using ih by simp_all
        have n': "G' (p @ [n]) = None" using g none unfolding makes_dirs_def by (metis append_self_conv append.assoc append_Cons list.distinct(1) append_Nil append_eq_append_conv)
        have "mkdir_at (root_comps (p @ [n])) G' = (Ok (), G'(p @ [n] := Some DirN))"
          using mkdir_no_links(1) [OF ok makes_dirs_no_links [OF g snoc.prems(1)] d] n' by simp
        with run e nf up Inr have "r = Ok ()" "G = G'(p @ [n] := Some DirN)" by auto
        moreover have "makes_dirs G' G (p @ [n])" using calculation(2) n' by (auto simp: makes_dirs_def)
        ultimately show ?thesis using fs_ok_update [OF ok d, of n DirN] makes_dirs_trans [OF makes_dirs_snoc [OF g]]
          by (metis fun_upd_same)
      qed
    qed
  qed
qed

section \<open>Resolving an accepted path\<close>

lemma climb_snoc:
  "climb_to_existing F (rev (root_comps (p @ [n]))) ms =
    (if exists_at F (root_comps (p @ [n])) then Some (root_comps (p @ [n]), ms)
     else climb_to_existing F (rev (root_comps p)) (n # ms))"
proof -
  have rv: "rev (NormalC n # rev (root_comps p)) = root_comps (p @ [n])" by (simp add: root_comps_def)
  show ?thesis unfolding rev_root_comps climb_to_existing.simps rv by simp
qed

lemma climb_no_links:
  assumes "fs_ok F" and "no_links F p"
  shows "\<exists>q s. climb_to_existing F (rev (root_comps p)) ms = Some (root_comps q, s @ ms) \<and> p = q @ s \<and> present F q"
  using assms(2)
proof (induction p arbitrary: ms rule: rev_induct)
  case Nil
  have "exists_at F [RootDir]" "present F []"
    using exists_no_links [OF Nil assms(1)] assms(1) by (simp_all add: root_comps_def fs_ok_def)
  then show ?case by (intro exI [of _ "[]"]) (simp add: root_comps_def)
next
  case (snoc n p)
  show ?case
  proof (cases "present F (p @ [n])")
    case True
    then show ?thesis using exists_no_links [OF snoc.prems assms(1)]
      by (intro exI [of _ "p @ [n]"] exI [of _ "[]"]) (simp add: climb_snoc)
  next
    case False
    from snoc.IH [OF no_links_prefix [OF snoc.prems], of "n # ms"] obtain q s where
      "climb_to_existing F (rev (root_comps p)) (n # ms) = Some (root_comps q, s @ n # ms)" "p = q @ s" "present F q"
      by blast
    moreover have "\<not> exists_at F (root_comps (p @ [n]))" using False exists_no_links [OF snoc.prems assms(1)] by simp
    ultimately show ?thesis by (intro exI [of _ q] exI [of _ "s @ [n]"]) (simp only: climb_snoc, simp)
  qed
qed

lemma resolve_missing_names: "fs_ok F \<Longrightarrow> no_links F p \<Longrightarrow> resolve_missing_candidate F (root_comps p) = Ok p"
  using climb_no_links [of F p "[]"] by (auto simp: resolve_missing_candidate_def canonicalize_names)

lemma resolve_names:
  assumes "fs_ok F" and "no_links F (ws_root S @ ns)" and "candidate_of (ws_root S) path = root_comps (ws_root S @ ns)"
  shows "sandbox_resolve F S path =
    (if \<not> ws_bypass S \<and> (path = ''~'' \<or> starts_with ''~/'' path) then Err HomeRelativePath else Ok (ws_root S @ ns))"
proof -
  have "(if exists_at F (root_comps (ws_root S @ ns)) then map_err IoError (canonicalize F (root_comps (ws_root S @ ns)))
      else resolve_missing_candidate F (root_comps (ws_root S @ ns))) = Ok (ws_root S @ ns)"
    using assms(1,2) by (simp add: resolve_missing_names exists_no_links canonicalize_names)
  then show ?thesis by (simp add: sandbox_resolve_def Let_def assms(3))
qed

section \<open>What a write changes\<close>

text \<open>The file and directories on the way to it.\<close>

definition written :: "files \<Rightarrow> files \<Rightarrow> names \<Rightarrow> string \<Rightarrow> bool" where
  "written F G p content \<longleftrightarrow>
     F p \<noteq> Some DirN \<and> G p = Some (FileN content) \<and>
     (\<forall>q. q \<noteq> p \<longrightarrow> G q = F q \<or> F q = None \<and> G q = Some DirN \<and> (\<exists>s. p = q @ s))"

lemma makes_dirs_written:
  "makes_dirs F G p \<Longrightarrow> F p \<noteq> Some DirN \<Longrightarrow> written F (G(p := Some (FileN content))) p content"
  by (auto simp: makes_dirs_def written_def)

lemma fs_ok_file:
  assumes "fs_ok F" and "p \<noteq> []" and "F (butlast p) = Some DirN" and "F p \<noteq> Some DirN"
  shows "fs_ok (F(p := Some (FileN b)))"
  using fs_ok_update [of F "butlast p" "last p" "FileN b"] assms by simp

lemma open_write_no_links:
  assumes "fs_ok F" and "no_links F p" and "open_write_no_follow p bypass F = (r, G)"
  shows "case r of Inl e \<Rightarrow> G = F
    | Inr q \<Rightarrow> q = p \<and> p \<noteq> [] \<and> F (butlast p) = Some DirN \<and> F p \<noteq> Some DirN \<and> G = F(p := Some (FileN []))"
proof (cases p rule: rev_cases)
  case Nil
  have "F [] = Some DirN" using assms(1) by (simp add: fs_ok_def)
  with Nil assms(3) place_root [OF assms(1)] show ?thesis
    by (auto simp: open_write_no_follow_def open_write_at_def reject_symlink_def is_symlink_at_def split: if_splits)
next
  case (snoc q n)
  note w = place_no_links [OF no_links_prefix [OF assms(2) [unfolded snoc]] assms(1), of n]
  show ?thesis
  proof (cases "F q = Some DirN")
    case True
    with w have "place F (root_comps p) = Ok p" by (simp add: snoc)
    with assms(3) no_links_self [OF assms(2)] True snoc show ?thesis
      by (auto simp: open_write_no_follow_def open_write_at_def reject_symlink_def is_symlink_at_def split: if_splits)
  next
    case False
    with w obtain e where "place F (root_comps p) = Err e" by (cases "place F (root_comps p)") (auto simp: snoc)
    with assms(3) show ?thesis
      by (auto simp: open_write_no_follow_def open_write_at_def reject_symlink_def is_symlink_at_def split: if_splits)
  qed
qed

lemma write_resolved_eq:
  "write_resolved S path content F =
    (case sandbox_resolve F S path of
      Inl e \<Rightarrow> (Err e, F)
    | Inr p \<Rightarrow>
        case (if p = [] then (Ok (), F) else create_dir_all (root_comps (butlast p)) F) of
          (Inl e, G) \<Rightarrow> (Err (IoError e), G)
        | (Inr _, G) \<Rightarrow>
            case open_write_no_follow p (ws_bypass S) G of
              (Inl e, H) \<Rightarrow> (Err e, H)
            | (Inr q, H) \<Rightarrow> (Ok p, H(q := Some (FileN content))))"
  by (simp add: write_resolved_def write_all_def sx_simps split: sum.split prod.split)

text \<open>Making the directories above a path leaves what is at the path.\<close>

lemma make_parents:
  assumes "fs_ok F" and "no_links F p"
    and "(if p = [] then (Ok (), F) else create_dir_all (root_comps (butlast p)) F) = (r, G)"
  shows "fs_ok G \<and> makes_dirs F G p \<and> G p = F p"
proof (cases p rule: rev_cases)
  case (snoc q n)
  then have "create_dir_all (root_comps q) F = (r, G)" using assms(3) by simp
  from create_dir_no_links [OF assms(1) _ this] assms(2) snoc no_links_prefix
  have ok: "fs_ok G" and g: "makes_dirs F G q" by blast+
  have "G p = F p" using g snoc by (auto simp: makes_dirs_def)
  with ok makes_dirs_snoc [OF g, of "[n]"] snoc show ?thesis by simp
qed (use assms in simp)

lemma write_resolved_effect:
  assumes "fs_ok F" and "no_links F (ws_root S @ ns)"
    and "candidate_of (ws_root S) path = root_comps (ws_root S @ ns)"
    and "write_resolved S path content F = (r, G)"
  shows "fs_ok G \<and> (case r of Inl e \<Rightarrow> makes_dirs F G (ws_root S @ ns)
    | Inr q \<Rightarrow> q = ws_root S @ ns \<and> written F G q content)"
proof (cases "sandbox_resolve F S path")
  case (Inl e)
  with assms(4) have "r = Err e" "G = F" by (simp_all add: write_resolved_eq)
  with assms(1) show ?thesis by simp
next
  case (Inr p)
  with resolve_names [OF assms(1-3)] have p: "p = ws_root S @ ns" by (simp split: if_splits)
  obtain r1 G1 where mk: "(if p = [] then (Ok (), F) else create_dir_all (root_comps (butlast p)) F) = (r1, G1)"
    by (meson surj_pair)
  with make_parents [OF assms(1)] assms(2) p have g: "fs_ok G1" "makes_dirs F G1 p" "G1 p = F p" by blast+
  obtain r2 G2 where op: "open_write_no_follow p (ws_bypass S) G1 = (r2, G2)" by (meson surj_pair)
  from makes_dirs_no_links [OF g(2)] assms(2) p have "no_links G1 p" by blast
  note o = open_write_no_links [OF g(1) this op]
  note run = assms(4) [unfolded write_resolved_eq Inr sum.case mk prod.case op]
  show ?thesis
  proof (cases "is_ok r1 \<and> is_ok r2")
    case False
    with run o g p show ?thesis by (cases r1; cases r2) auto
  next
    case True
    then obtain u q where r: "r1 = Ok u" "r2 = Ok q" by (cases r1; cases r2) auto
    with o have q: "q = p" "p \<noteq> []" "G1 (butlast p) = Some DirN" "G1 p \<noteq> Some DirN" "G2 = G1(p := Some (FileN []))"
      by simp_all
    from run r q have "r = Ok p" "G = G1(p := Some (FileN content))" by simp_all
    then show ?thesis using fs_ok_file [OF g(1) q(2-4)] makes_dirs_written [OF g(2)] q(4) g(3) p by simp
  qed
qed

text \<open>A write through \<open>openat2\<close>: the file is there, or its directory is.\<close>

lemma openat2_beneath_relative:
  assumes "fs_ok F" and "F root = Some DirN" and "relative = map NormalC ns \<or> relative = CurDir # map NormalC ns"
    and "mode \<noteq> OpenCreate" and "openat2_beneath has2 root relative mode F = (r, G)"
  shows "case r of Inl e \<Rightarrow> G = F
    | Inr q \<Rightarrow> has2 \<and> relative \<noteq> [] \<and> q = root @ ns \<and> present F q \<and>
        (if mode = OpenTruncate then F q \<noteq> Some DirN \<and> G = F(q := Some (FileN []))
         else G = F \<and> (mode = OpenDirectory \<longrightarrow> F q = Some DirN))"
proof -
  obtain r' G' where o: "openat2 True root relative mode F = (r', G')" by (meson surj_pair)
  have "canonicalize F (root_comps root) = Ok root" using canonicalize_names [OF assms(1)] assms(2) by simp
  then have run: "(if has2 then (map_err IoError r', G') else (Err Openat2Unavailable, F)) = (r, G)"
    using assms(5) o by (auto simp: openat2_beneath_def openat2_at_def)
  show ?thesis
  proof (cases r')
    case (Inl e)
    with run o openat2_unchanged [OF assms(4), of True root relative F e G'] show ?thesis by (auto split: if_splits)
  next
    case (Inr q)
    with run o openat2_relative [OF assms(1-4), of True q G'] show ?thesis by (auto split: if_splits)
  qed
qed

lemma openat2_beneath_found:
  assumes "fs_ok F" and "F root = Some DirN" and "relative = map NormalC ns \<or> relative = CurDir # map NormalC ns"
    and "relative \<noteq> []" and "present F (root @ ns)"
  shows "openat2_beneath True root relative OpenRead F = (Ok (root @ ns), F)"
  using openat2_relative [OF assms(1-3), of OpenRead True "root @ ns" F] canonicalize_names [OF assms(1), of root] assms
  by (simp add: openat2_beneath_def openat2_at_def)

text \<open>\<open>opened F G p\<close>: the file at \<open>p\<close> was made or emptied.\<close>

definition opened :: "files \<Rightarrow> files \<Rightarrow> names \<Rightarrow> bool" where
  "opened F G p \<longleftrightarrow> F p \<noteq> Some DirN \<and> p \<noteq> [] \<and> F (butlast p) = Some DirN \<and> G = F(p := Some (FileN []))"

lemma opened_written:
  assumes "fs_ok F" and "opened F G p"
  shows "fs_ok (G(p := Some (FileN content)))" and "written F (G(p := Some (FileN content))) p content"
  using fs_ok_file [OF assms(1), of p content] assms(2) by (auto simp: opened_def written_def)

lemma present_parent: "fs_ok F \<Longrightarrow> F p \<noteq> None \<Longrightarrow> p \<noteq> [] \<Longrightarrow> F (butlast p) = Some DirN"
  using fs_ok_parent [of F "butlast p" "last p"] by simp

lemma openat2_write_effect:
  assumes "fs_ok F" and "F root = Some DirN" and "openat2_write_beneath has2 F root path = Some (r, G)"
  shows "case r of Inl e \<Rightarrow> G = F
    | Inr q \<Rightarrow> \<exists>ns. candidate_of root path = root_comps (root @ ns) \<and> q = root @ ns \<and> opened F G q"
proof (cases "workspace_relative_path root path")
  case (Inl e)
  with assms(3) show ?thesis by (auto simp: openat2_write_beneath_def)
next
  case (Inr relative)
  then obtain ns where d: "denotes root path relative ns" by (rule relative_denotes)
  then have c: "candidate_of root path = root_comps (root @ ns)" "join_root root relative = root_comps (root @ ns)"
    and rel: "relative = map NormalC ns \<or> relative = CurDir # map NormalC ns" by (simp_all add: denotes_def)
  show ?thesis
  proof (cases "exists_at F (join_root root relative)")
    case True
    with Inr assms(3) have "openat2_beneath has2 root relative OpenTruncate F = (r, G)"
      by (simp add: openat2_write_beneath_def)
    from openat2_beneath_relative [OF assms(1,2) rel _ this]
    have o: "case r of Inl e \<Rightarrow> G = F
      | Inr q \<Rightarrow> q = root @ ns \<and> F q \<noteq> None \<and> F q \<noteq> Some DirN \<and> G = F(q := Some (FileN []))"
      by (cases r) (simp_all add: present_iff)
    moreover have "F [] = Some DirN" using assms(1) by (simp add: fs_ok_def)
    ultimately have "case r of Inl e \<Rightarrow> G = F | Inr q \<Rightarrow> q = root @ ns \<and> opened F G q"
      using present_parent [OF assms(1), of "root @ ns"] unfolding opened_def by (cases r; cases "root @ ns = []") auto
    with c(1) show ?thesis by (cases r) auto
  next
    case False
    let ?parent = "butlast relative"
    from False Inr assms(3) have run: "openat2_create_beneath has2 root ?parent (relative_file_name path relative) F = (r, G)"
      by (auto simp: openat2_write_beneath_def Let_def split: if_splits)
    have parent: "(if ?parent = [] then [CurDir] else ?parent) = map NormalC (butlast ns) \<or>
        (if ?parent = [] then [CurDir] else ?parent) = CurDir # map NormalC (butlast ns)"
      using rel by (cases ns rule: rev_cases) (auto simp: butlast_append)
    obtain r1 G1 where dir: "openat2_beneath has2 root (if ?parent = [] then [CurDir] else ?parent) OpenDirectory F = (r1, G1)"
      by (meson surj_pair)
    note o = openat2_beneath_relative [OF assms(1,2) parent _ dir]
    show ?thesis
    proof (cases "is_ok r1 \<and> is_ok (relative_file_name path relative)")
      case False
      with run dir o show ?thesis
        by (cases r1; cases "relative_file_name path relative") (auto simp: openat2_create_beneath_def sx_simps)
    next
      case True
      then obtain d n where r1: "r1 = Ok d" and n: "relative_file_name path relative = Ok n"
        by (auto simp: is_ok_iff)
      with o have d: "has2" "d = root @ butlast ns" "F d = Some DirN" "G1 = F" by auto
      from n have "relative \<noteq> []" "last relative = NormalC n"
        by (auto simp: relative_file_name_def rev_eq_Cons_iff split: list.splits path_component.splits)
      then have ns: "ns \<noteq> []" "last ns = n" using rel by (cases ns rule: rev_cases; auto)+
      obtain r2 G2 where cr: "openat2 False d [NormalC n] OpenCreate F = (r2, G2)" by (meson surj_pair)
      from run dir r1 d cr n have "r = map_err IoError r2" "G = G2"
        by (auto simp: openat2_create_beneath_def openat2_at_def sx_simps)
      moreover have "root @ ns = d @ [n]" using d(2) ns by (metis append.assoc append_butlast_last_id)
      ultimately have "case r of Inl e \<Rightarrow> G = F | Inr q \<Rightarrow> q = root @ ns \<and> opened F G q"
        using openat2_create [OF assms(1) d(3), of n r2 G2] cr d(3) by (auto simp: opened_def split: if_splits)
      with c(1) show ?thesis by (cases r) auto
    qed
  qed
qed

text \<open>A fallback happens only where the file and its directory are missing; no name is a link.\<close>

lemma openat2_fallback:
  assumes "openat2_write_beneath has2 F root path = None"
  obtains relative ns where "workspace_relative_path root path = Ok relative" "denotes root path relative ns"
  using assms relative_denotes
  by (cases "workspace_relative_path root path") (auto simp: openat2_write_beneath_def, blast)

lemma written_no_links: "written F G p content \<Longrightarrow> no_links F q \<Longrightarrow> no_links G q"
  unfolding no_links_def written_def by (metis is_link_simps(2,3))

text \<open>A write outside the bypass.\<close>

definition accepted :: "files \<Rightarrow> names \<Rightarrow> string \<Rightarrow> names \<Rightarrow> bool" where
  "accepted F root path p \<longleftrightarrow>
     candidate_of root path = root_comps p \<and> no_links F p \<and> (\<exists>ns. p = root @ ns)"

lemma write_text_effect:
  assumes "fs_ok F" and "F (ws_root S) = Some DirN" and "\<not> ws_bypass S"
    and "sandbox_write_text has2 S path content F = (r, G)"
  shows "fs_ok G \<and> (case r of
      Inl e \<Rightarrow> G = F \<or> (\<exists>p. accepted F (ws_root S) path p \<and>
        (makes_dirs F G p \<or> e = HomeRelativePath \<and> written F G p content))
    | Inr p \<Rightarrow> accepted F (ws_root S) path p \<and> written F G p content)"
proof (cases "reject_requested_symlink_components F (ws_root S) path")
  case (Inl e)
  with assms show ?thesis by (auto simp: sandbox_write_text_def)
next
  case rej: (Inr u)
  then have rej': "reject_requested_symlink_components F (ws_root S) path = Ok ()" by simp
  show ?thesis
  proof (cases "openat2_write_beneath has2 F (ws_root S) path")
    case None
    then obtain relative ns where d: "denotes (ws_root S) path relative ns" by (rule openat2_fallback)
    then have c: "candidate_of (ws_root S) path = root_comps (ws_root S @ ns)" by (simp add: denotes_def)
    note l = requested_no_links [OF rej' c assms(1)]
    from None rej assms(3,4) have "write_resolved S path content F = (r, G)" by (simp add: sandbox_write_text_def)
    from write_resolved_effect [OF assms(1) l c this] c l show ?thesis
      by (auto simp: accepted_def split: sum.splits)
  next
    case (Some x)
    obtain r1 G1 where x: "x = (r1, G1)" by (cases x)
    note o = openat2_write_effect [OF assms(1,2) Some [unfolded x]]
    show ?thesis
    proof (cases r1)
      case (Inl e)
      with o Some x rej assms(1,3,4) show ?thesis by (auto simp: sandbox_write_text_def)
    next
      case (Inr q)
      with o obtain ns where c: "candidate_of (ws_root S) path = root_comps (ws_root S @ ns)" and q: "q = ws_root S @ ns"
        and op: "opened F G1 q" by auto
      note l = requested_no_links [OF rej' c assms(1)]
      let ?H = "G1(q := Some (FileN content))"
      note w = opened_written [OF assms(1) op, of content]
      from Some x Inr rej assms(3,4) have r: "r = sandbox_resolve ?H S path" "G = ?H"
        by (auto simp: sandbox_write_text_def write_all_def Let_def)
      have "accepted F (ws_root S) path q" using c q l by (simp add: accepted_def)
      with w r resolve_names [OF w(1) written_no_links [OF w(2) l] c] assms(3) q show ?thesis
        by (auto split: if_splits)
    qed
  qed
qed

lemma open_read_found:
  assumes "fs_ok F" and "F (ws_root S) = Some DirN" and "\<not> ws_bypass S"
    and "open_read_file has2 F S path = Ok q"
  shows "\<exists>ns. candidate_of (ws_root S) path = root_comps (ws_root S @ ns) \<and> q = ws_root S @ ns \<and>
    no_links F q \<and> present F q"
proof -
  from assms(3,4) have rej: "reject_requested_symlink_components F (ws_root S) path = Ok ()"
    by (auto simp: open_read_file_def Let_def res_bind_Ok_iff)
  with assms(3,4) have run: "(case openat2_read_beneath has2 F (ws_root S) path of
      Some r \<Rightarrow> r
    | None \<Rightarrow> res_bind (sandbox_resolve F S path) (\<lambda>target. open_read_no_follow F target False)) = Ok q"
    by (simp add: open_read_file_def Let_def)
  show ?thesis
  proof (cases "workspace_relative_path (ws_root S) path")
    case (Inl e)
    with run show ?thesis by (simp add: openat2_read_beneath_def)
  next
    case (Inr relative)
    then obtain ns where d: "denotes (ws_root S) path relative ns" by (rule relative_denotes)
    then have c: "candidate_of (ws_root S) path = root_comps (ws_root S @ ns)"
        "join_root (ws_root S) relative = root_comps (ws_root S @ ns)"
      and rel: "relative = map NormalC ns \<or> relative = CurDir # map NormalC ns" by (simp_all add: denotes_def)
    note l = requested_no_links [OF rej c(1) assms(1)]
    show ?thesis
    proof (cases "present F (ws_root S @ ns)")
      case True
      then have "fst (openat2_beneath has2 (ws_root S) relative OpenRead F) = Ok q"
        using run Inr c(2) exists_no_links [OF l assms(1)] by (simp add: openat2_read_beneath_def)
      then obtain G where "openat2_beneath has2 (ws_root S) relative OpenRead F = (Ok q, G)" by (metis prod.collapse)
      from openat2_beneath_relative [OF assms(1,2) rel _ this] c(1) l show ?thesis by auto
    next
      case False
      then have "openat2_read_beneath has2 F (ws_root S) path = None"
        using Inr c(2) exists_no_links [OF l assms(1)] by (simp add: openat2_read_beneath_def)
      with run resolve_names [OF assms(1) l c(1)] assms(3)
      have "open_read_no_follow F (ws_root S @ ns) False = Ok q" by (auto split: if_splits)
      then have at: "open_read_at F (root_comps (ws_root S @ ns)) = Ok q"
        by (auto simp: open_read_no_follow_def res_bind_Ok_iff map_err_Ok_iff)
      have "ws_root S @ ns \<noteq> []" using False assms(1) by (auto simp: fs_ok_def)
      then obtain p n where p: "ws_root S @ ns = p @ [n]" by (meson rev_exhaust)
      from at have "q = p @ [n] \<and> F q \<noteq> None"
        using place_no_links [OF no_links_prefix [OF l [unfolded p]] assms(1), of n q]
        by (auto simp: open_read_at_def res_bind_Ok_iff p split: if_splits)
      with False p no_links_self [OF l] show ?thesis by (auto simp: present_iff)
    qed
  qed
qed

end
