(* ===== verification/Workspace_Tools.thy ===== *)
theory Workspace_Tools
  imports Workspace_Files Tool_Executor Parallel_Pool
begin

text \<open>
  The file tools of the built-in registry (\<open>read_file\<close>, \<open>write_file\<close>, vegvisir/src/tools.rs)
  on the workspace sandbox, and the properties of file access. \<open>iot\<close> is the operating system's
  text of an error; \<open>var\<close> is \<open>get_env\<close>.
\<close>

section \<open>Texts\<close>

fun component_text :: "path_component \<Rightarrow> string" where
  "component_text RootDir = ''''"
| "component_text CurDir = ''.''"
| "component_text ParentDir = ''..''"
| "component_text (NormalC n) = n"

definition comps_text :: "path_component list \<Rightarrow> string" where
  "comps_text p = (if p = [RootDir] then ''/'' else join_with ''/'' (map component_text p))"

fun sandbox_error_text :: "(io_error \<Rightarrow> string) \<Rightarrow> sandbox_error \<Rightarrow> string" where
  "sandbox_error_text iot HomeRelativePath =
     ''Home-relative paths are not supported in workspace tools; use a workspace-relative path.''"
| "sandbox_error_text iot (EscapesWorkspace raw) = ''Path escapes workspace: '' @ raw"
| "sandbox_error_text iot (NoExistingAncestor p) = ''Path has no existing ancestor: '' @ comps_text p"
| "sandbox_error_text iot (RefusedSymlink p) = ''Refusing to follow symlink path: '' @ comps_text p"
| "sandbox_error_text iot (NoFileName raw) = ''Path has no file name: '' @ raw"
| "sandbox_error_text iot Openat2Unavailable = ''Linux openat2 is unavailable or unsupported on this system: '' @ iot Unsupported"
| "sandbox_error_text iot (IoError e) = iot e"

definition simple_unified_diff :: "string \<Rightarrow> string \<Rightarrow> string \<Rightarrow> string" where
  "simple_unified_diff path old new =
     (let old_lines = text_lines old; new_lines = text_lines new
      in ''diff --git a/'' @ path @ '' b/'' @ path @ [CHR 0x0A] @
         ''--- a/'' @ path @ [CHR 0x0A] @
         ''+++ b/'' @ path @ [CHR 0x0A] @
         ''@@ -1,'' @ show_nat (length old_lines) @ '' +1,'' @ show_nat (length new_lines) @ '' @@'' @ [CHR 0x0A] @
         concat (map (\<lambda>l. ''-'' @ l @ [CHR 0x0A]) old_lines) @
         concat (map (\<lambda>l. ''+'' @ l @ [CHR 0x0A]) new_lines))"

section \<open>Handlers\<close>

definition max_read_bytes :: "(string \<Rightarrow> string option) \<Rightarrow> nat" where
  "max_read_bytes var =
     (let configured = Option.bind (var ''VEGVISIR_SUBAGENT_MAX_READ_BYTES'') (\<lambda>v.
            Option.bind (parse_usize (trim v)) (\<lambda>n. if 0 < n then Some n else None))
      in min (case configured of None \<Rightarrow> max_tool_observation_bytes | Some n \<Rightarrow> n) max_tool_observation_bytes)"

definition read_file_tool ::
    "(io_error \<Rightarrow> string) \<Rightarrow> (string \<Rightarrow> string option) \<Rightarrow> bool \<Rightarrow> workspace_sandbox \<Rightarrow> files \<Rightarrow> json table \<Rightarrow> observation" where
  "read_file_tool iot var has2 S F args =
     (case Option.bind (tbl_get ''path'' args) as_str of
       None \<Rightarrow> observation_err ''Missing path'' ''ValueError''
     | Some path \<Rightarrow>
         case read_text_bounded has2 F S path (max_read_bytes var) of
           Inl e \<Rightarrow> observation_err (sandbox_error_text iot e) ''ReadError''
         | Inr (content, truncated, original_bytes) \<Rightarrow>
             \<lparr>ob_ok = True, ob_content = content,
              ob_data = fold (\<lambda>(k, v). tbl_put k v)
                [(''path'', JStr path), (''bytes'', JInt (int original_bytes)), (''output_truncated'', JBool truncated),
                 (''max_read_bytes'', JInt (int (max_read_bytes var)))] [],
              ob_error = None\<rparr>)"

definition write_file_tool ::
    "(io_error \<Rightarrow> string) \<Rightarrow> bool \<Rightarrow> workspace_sandbox \<Rightarrow> json table \<Rightarrow> files \<Rightarrow> observation \<times> files" where
  "write_file_tool iot has2 S args F =
     (case Option.bind (tbl_get ''path'' args) as_str of
       None \<Rightarrow> (observation_err ''Missing path'' ''ValueError'', F)
     | Some path \<Rightarrow>
         case Option.bind (tbl_get ''content'' args) as_str of
           None \<Rightarrow> (observation_err ''Missing content'' ''ValueError'', F)
         | Some content \<Rightarrow>
             let previous = (case sandbox_read_text has2 F S path of Inl _ \<Rightarrow> None | Inr t \<Rightarrow> Some t)
             in case sandbox_write_text has2 S path content F of
               (Inl e, G) \<Rightarrow> (observation_err (sandbox_error_text iot e) ''WriteError'', G)
             | (Inr target, G) \<Rightarrow>
                 let relative =
                       (if take (length (ws_root S)) target = ws_root S
                        then join_with ''/'' (drop (length (ws_root S)) target) else comps_text (root_comps target));
                     data = fold (\<lambda>(k, v). tbl_put k v)
                       [(''path'', JStr path), (''bytes'', JInt (int (length content)))] []
                 in (\<lparr>ob_ok = True, ob_content = ''Wrote '' @ relative,
                      ob_data =
                        (if previous \<noteq> Some content
                         then tbl_put ''diff'' (JStr (simple_unified_diff relative (case previous of None \<Rightarrow> [] | Some t \<Rightarrow> t) content)) data
                         else data),
                      ob_error = None\<rparr>, G))"

section \<open>Reading back\<close>

text \<open>A file that is there, below the root and on no link, is read whole.\<close>

lemma open_read_file_found:
  assumes "fs_ok F" and "F (ws_root S) = Some DirN" and "\<not> ws_bypass S"
    and "workspace_relative_path (ws_root S) path = Ok relative" and "accepted F (ws_root S) path p"
    and "F p = Some (FileN b)"
  shows "open_read_file True F S path = Ok p"
proof -
  obtain ns where d: "denotes (ws_root S) path relative ns" using assms(4) by (rule relative_denotes)
  have c: "candidate_of (ws_root S) path = root_comps p" and l: "no_links F p" using assms(5) by (simp_all add: accepted_def)
  with d have p: "p = ws_root S @ ns" and j: "join_root (ws_root S) relative = root_comps p"
    and rel: "relative = map NormalC ns \<or> relative = CurDir # map NormalC ns"
    by (simp_all add: denotes_def root_comps_inj)
  have ne: "relative \<noteq> []" using rel p assms(2,6) by auto
  have there: "present F p" using assms(6) by simp
  have "openat2_read_beneath True F (ws_root S) path = Some (Ok p)"
    using assms(4) j exists_no_links [OF l assms(1)] there
      openat2_beneath_found [OF assms(1,2) rel ne] p
    by (simp add: openat2_read_beneath_def)
  with reject_passes [OF l c assms(1)] assms(3) show ?thesis by (simp add: open_read_file_def)
qed

text \<open>A path that was written is relative to the root.\<close>

lemma written_relative:
  assumes "\<not> ws_bypass S" and "sandbox_write_text has2 S path content F = (Ok p, G)"
  shows "\<exists>relative. workspace_relative_path (ws_root S) path = Ok relative"
  using assms by (auto simp: sandbox_write_text_def openat2_write_beneath_def split: sum.splits)

lemma valid_prefix_spec: "utf8_ok (valid_prefix n b) \<and> length (valid_prefix n b) \<le> n \<and> (\<exists>k. valid_prefix n b = take k b)"
proof (induction n)
  case 0
  show ?case by simp
next
  case (Suc n)
  then show ?case by (auto intro: le_SucI)
qed

lemma utf8_prefix:
  "utf8_ok (utf8_prefix_bytes (take n b)) \<and> length (utf8_prefix_bytes (take n b)) \<le> n \<and>
    (\<exists>k. utf8_prefix_bytes (take n b) = take k b)"
proof -
  obtain k where k: "utf8_ok (utf8_prefix_bytes (take n b))"
      "length (utf8_prefix_bytes (take n b)) \<le> length (take n b)" "utf8_prefix_bytes (take n b) = take k (take n b)"
    using valid_prefix_spec [of "length (take n b)" "take n b"] unfolding utf8_prefix_bytes_def by blast
  have "length (utf8_prefix_bytes (take n b)) \<le> n" using k(2) by simp
  with k(1,3) show ?thesis by (metis take_take)
qed

lemma read_bounded_Ok:
  assumes "read_text_bounded has2 F S path limit = Ok (content, truncated, n)"
  shows "\<exists>q b. open_read_file has2 F S path = Ok q \<and> F q = Some (FileN b) \<and> n = length b \<and>
    length content \<le> max limit 1 \<and> (truncated \<longleftrightarrow> max limit 1 < length b) \<and>
    (if truncated then \<exists>k. utf8_ok (take k b) \<and> content \<in> {take k b, take k b @ read_truncation_marker}
     else content = b \<and> utf8_ok b)"
proof -
  from assms obtain q where q: "open_read_file has2 F S path = Ok q"
    by (auto simp: read_text_bounded_def res_bind_Ok_iff)
  with assms obtain b where b: "F q = Some (FileN b)"
    by (auto simp: read_text_bounded_def read_bytes_def res_bind_Ok_iff map_err_Ok_iff split: option.splits fs_node.splits)
  show ?thesis
  proof (cases "length b \<le> max limit 1")
    case True
    with assms q b show ?thesis
      by (auto simp: read_text_bounded_def read_bytes_def read_to_string_def split: if_splits)
  next
    case False
    let ?c = "utf8_prefix_bytes (take (max limit 1 - length read_truncation_marker) b)"
    from False assms q b have o: "truncated" "n = length b"
      "content = (if length read_truncation_marker < max limit 1 then ?c @ read_truncation_marker else ?c)"
      by (auto simp: read_text_bounded_def read_bytes_def Let_def)
    have c: "utf8_ok ?c" "length ?c \<le> max limit 1 - length read_truncation_marker" "\<exists>k. ?c = take k b"
      using utf8_prefix [of "max limit 1 - length read_truncation_marker" b] by blast+
    then show ?thesis using o q b False by (auto split: if_splits)
  qed
qed

end
