(* ===== verification/Subagent_Model.thy ===== *)
theory Subagent_Model
  imports Workspace_Tools
begin

text \<open>
  The data of delegated child agents, vegvisir/src/subagents.rs and tools.rs: task records,
  work budgets, the provider a child gets, its command line and environment, the events and
  file changes observed.
\<close>

section \<open>Records\<close>

datatype subagent_status = SaQueued | SaRunning | SaCompleted | SaFailed | SaCancelled

record work_budget =
  wb_max_steps :: "nat option"
  wb_max_tool_calls :: "nat option"
  wb_max_read_bytes :: "nat option"
  wb_max_output_bytes :: "nat option"
  wb_allowed_tools :: "string list"
  wb_notes :: string

definition work_budget_is_empty :: "work_budget \<Rightarrow> bool" where
  "work_budget_is_empty b \<longleftrightarrow>
     wb_max_steps b = None \<and> wb_max_tool_calls b = None \<and> wb_max_read_bytes b = None \<and>
     wb_max_output_bytes b = None \<and> wb_allowed_tools b = [] \<and> trim (wb_notes b) = []"

datatype observed_event_kind = ObActivity | ObToolStart | ObToolEnd

record observed_event =
  oe_kind :: observed_event_kind
  oe_name :: "string option"
  oe_args :: "string option"
  oe_ok :: "bool option"
  oe_summary :: "string option"
  oe_detail :: "string option"

datatype observed_change_kind = FcCreated | FcModified | FcDeleted

record observed_file_change =
  fc_path :: names
  fc_change :: observed_change_kind
  fc_before_bytes :: "nat option"
  fc_after_bytes :: "nat option"
  fc_diff :: "string option"

record subagent_observability =
  so_launch_argv :: "string list"
  so_launch_env_keys :: "string list"
  so_events :: "observed_event list"
  so_file_changes :: "observed_file_change list"
  so_notes :: "string list"

definition no_observability :: subagent_observability where
  "no_observability = \<lparr>so_launch_argv = [], so_launch_env_keys = [], so_events = [], so_file_changes = [], so_notes = []\<rparr>"

definition observability_is_empty :: "subagent_observability \<Rightarrow> bool" where
  "observability_is_empty s \<longleftrightarrow>
     so_launch_argv s = [] \<and> so_launch_env_keys s = [] \<and> so_events s = [] \<and> so_file_changes s = [] \<and> so_notes s = []"

record file_ownership =
  fo_read_scope :: "names list"
  fo_write_scope :: "names list"
  fo_exclusive_write :: bool

record subagent_record =
  sa_id :: string
  sa_name :: string
  sa_workspace :: names
  sa_goal :: string
  sa_parent_run_id :: "string option"
  sa_child_run_id :: "string option"
  sa_artifact_dir :: "names option"
  sa_ownership :: "file_ownership option"
  sa_provider :: "string option"
  sa_model :: "string option"
  sa_file_scope :: "names list"
  sa_work_budget :: work_budget
  sa_status :: subagent_status
  sa_created_at :: time
  sa_started_at :: "time option"
  sa_finished_at :: "time option"
  sa_checkpoint :: "string option"
  sa_final_answer :: "string option"
  sa_error :: "string option"
  sa_observability :: subagent_observability

definition sa_active :: "subagent_record \<Rightarrow> bool" where
  "sa_active r \<longleftrightarrow> sa_status r = SaQueued \<or> sa_status r = SaRunning"

section \<open>Budgets\<close>

record spawn_defaults =
  sd_default_max_steps :: nat
  sd_min_max_steps :: nat
  sd_max_max_steps :: nat
  sd_work_budget :: work_budget

definition default_spawn_defaults :: spawn_defaults where
  "default_spawn_defaults =
     \<lparr>sd_default_max_steps = 4, sd_min_max_steps = 1, sd_max_max_steps = 32,
      sd_work_budget =
        \<lparr>wb_max_steps = None, wb_max_tool_calls = Some 8, wb_max_read_bytes = Some (64 * 1024),
         wb_max_output_bytes = Some (16 * 1024), wb_allowed_tools = [''list_files'', ''read_file''],
         wb_notes = ''Prefer targeted search/listing and small file excerpts. Do not read huge files in full; ask for a larger budget if needed.''\<rparr>\<rparr>"

definition nonempty_trimmed :: "string list \<Rightarrow> string list" where
  "nonempty_trimmed xs = filter (\<lambda>t. t \<noteq> []) (map trim xs)"

definition spawn_defaults_normalized :: "spawn_defaults \<Rightarrow> spawn_defaults" where
  "spawn_defaults_normalized d =
     (let lo = max (sd_min_max_steps d) 1;
          hi = max (sd_max_max_steps d) lo;
          b = sd_work_budget d
      in \<lparr>sd_default_max_steps = clamp lo hi (sd_default_max_steps d), sd_min_max_steps = lo, sd_max_max_steps = hi,
          sd_work_budget = b
            \<lparr>wb_max_tool_calls := map_option (max 1) (wb_max_tool_calls b),
             wb_max_read_bytes := map_option (max 1) (wb_max_read_bytes b),
             wb_max_output_bytes := map_option (max 1) (wb_max_output_bytes b),
             wb_allowed_tools := nonempty_trimmed (wb_allowed_tools b)\<rparr>\<rparr>)"

definition effective_max_steps :: "spawn_defaults \<Rightarrow> nat option \<Rightarrow> nat" where
  "effective_max_steps d requested =
     (let n = spawn_defaults_normalized d
      in clamp (sd_min_max_steps n) (sd_max_max_steps n)
           (case requested of None \<Rightarrow> sd_default_max_steps n | Some r \<Rightarrow> r))"

definition budget_number :: "json table \<Rightarrow> string \<Rightarrow> nat option \<Rightarrow> nat option" where
  "budget_number m key old = (case Option.bind (tbl_get key m) as_u64 of None \<Rightarrow> old | Some v \<Rightarrow> Some v)"

definition parse_subagent_work_budget :: "json option \<Rightarrow> nat option \<Rightarrow> work_budget \<Rightarrow> bool \<Rightarrow> work_budget" where
  "parse_subagent_work_budget v max_steps_value default_budget dangerous_bypass =
     (let b0 = default_budget\<lparr>wb_max_steps := max_steps_value\<rparr>;
          explicit = (case Option.bind v as_object of None \<Rightarrow> False | Some m \<Rightarrow> tbl_has ''allowed_tools'' m);
          b = (if dangerous_bypass \<and> \<not> explicit then b0\<lparr>wb_allowed_tools := []\<rparr> else b0)
      in case Option.bind v as_object of
           None \<Rightarrow> b
         | Some m \<Rightarrow>
             b\<lparr>wb_max_tool_calls := budget_number m ''max_tool_calls'' (wb_max_tool_calls b),
               wb_max_read_bytes := budget_number m ''max_read_bytes'' (wb_max_read_bytes b),
               wb_max_output_bytes := budget_number m ''max_output_bytes'' (wb_max_output_bytes b),
               wb_allowed_tools :=
                 (case Option.bind (tbl_get ''allowed_tools'' m) as_array of
                    None \<Rightarrow> wb_allowed_tools b
                  | Some items \<Rightarrow> nonempty_trimmed (List.map_filter as_str items)),
               wb_notes :=
                 (case Option.bind (tbl_get ''notes'' m) as_str of None \<Rightarrow> wb_notes b | Some n \<Rightarrow> trim n)\<rparr>)"

definition budget_line :: "string \<Rightarrow> nat option \<Rightarrow> string list" where
  "budget_line label v = (case v of None \<Rightarrow> [] | Some n \<Rightarrow> [''- '' @ label @ '': '' @ show_nat n])"

definition apply_subagent_work_budget_to_goal :: "string \<Rightarrow> work_budget \<Rightarrow> string" where
  "apply_subagent_work_budget_to_goal goal b =
     join_with [CHR 0x0A]
       ([''[Vegvisir subagent work budget]'',
         ''This is a hard task-local budget envelope. Stay inside it and report if more budget is needed.''] @
        budget_line ''max_steps'' (wb_max_steps b) @
        budget_line ''max_tool_calls'' (wb_max_tool_calls b) @
        budget_line ''max_read_bytes_per_file'' (wb_max_read_bytes b) @
        budget_line ''max_final_output_bytes'' (wb_max_output_bytes b) @
        (if wb_allowed_tools b \<noteq> [] then [''- allowed_tools: '' @ join_with '', '' (wb_allowed_tools b)] else []) @
        (if trim (wb_notes b) \<noteq> [] then [''- notes: '' @ trim (wb_notes b)] else []) @
        [''- If the task cannot be completed within this budget, stop with a concise blocked/needs-more-budget report.'',
         ''[/Vegvisir subagent work budget]'', '''', ''[Vegvisir subagent final report contract]'',
         ''End with these sections: Task understood; Files inspected; Tools used; Findings; Changes made; Verification run; Risks/blockers.'',
         ''[/Vegvisir subagent final report contract]'']) @
     [CHR 0x0A, CHR 0x0A] @ ''Subagent task:'' @ [CHR 0x0A] @ trim goal"

definition shown_path :: "names \<Rightarrow> names \<Rightarrow> string" where
  "shown_path base p =
     (if take (length base) p = base then join_with ''/'' (drop (length base) p) else comps_text (root_comps p))"

definition apply_subagent_scope_to_goal :: "string \<Rightarrow> names \<Rightarrow> names list \<Rightarrow> string" where
  "apply_subagent_scope_to_goal goal workspace scope =
     (if scope = [] then goal
      else ''[Vegvisir subagent file scope]'' @ [CHR 0x0A] @
        ''Workspace: '' @ comps_text (root_comps workspace) @ [CHR 0x0A] @
        ''Assigned file_scope paths are workspace-relative unless shown absolute. Treat these as your coordination boundary; inspect or modify only within this scope unless explicitly asked for broader review.'' @ [CHR 0x0A] @
        join_with [CHR 0x0A] (map (shown_path workspace) scope) @ [CHR 0x0A] @
        ''[/Vegvisir subagent file scope]'' @ [CHR 0x0A, CHR 0x0A] @ trim goal)"

definition optional_nonempty_string :: "json option \<Rightarrow> string option" where
  "optional_nonempty_string v =
     Option.bind (Option.bind v as_str) (\<lambda>s.
       let t = trim s
       in if t \<noteq> [] \<and> to_ascii_lowercase t \<notin> {''default'', ''none'', ''null''} then Some t else None)"

section \<open>The provider and model of a child\<close>

definition repair_model_for_provider :: "string \<Rightarrow> string \<Rightarrow> string" where
  "repair_model_for_provider provider model =
     (if trim provider = ''openai-sso'' \<and> trim model = ''gpt-5.1-codex-mini'' then ''gpt-5.4-mini'' else trim model)"

record provider_defaults =
  pd_provider :: string
  pd_model :: string
  pd_current_provider :: "string option"
  pd_current_model :: "string option"

definition is_current_sentinel :: "string \<Rightarrow> bool" where
  "is_current_sentinel v = eq_ignore_ascii_case (trim v) ''current''"

definition nonempty_subagent_provider_value :: "string \<Rightarrow> string option" where
  "nonempty_subagent_provider_value v = (if trim v \<noteq> [] then Some (trim v) else None)"

definition provider_defaults_new :: "string \<Rightarrow> string \<Rightarrow> provider_defaults" where
  "provider_defaults_new provider model =
     \<lparr>pd_provider = trim provider, pd_model = repair_model_for_provider (trim provider) model,
      pd_current_provider = None, pd_current_model = None\<rparr>"

definition with_current_session :: "provider_defaults \<Rightarrow> string \<Rightarrow> string \<Rightarrow> provider_defaults" where
  "with_current_session d provider model =
     d\<lparr>pd_current_provider := nonempty_subagent_provider_value provider,
       pd_current_model := nonempty_subagent_provider_value model\<rparr>"

definition text_or_empty :: "string option \<Rightarrow> string" where
  "text_or_empty v = (case v of None \<Rightarrow> [] | Some s \<Rightarrow> s)"

definition resolve_for_spawn_request ::
    "provider_defaults \<Rightarrow> string option \<Rightarrow> string option \<Rightarrow> string + string \<times> string" where
  "resolve_for_spawn_request d requested_provider requested_model =
     (let rp = (case requested_provider of None \<Rightarrow> False | Some v \<Rightarrow> is_current_sentinel v);
          rm = (case requested_model of None \<Rightarrow> False | Some v \<Rightarrow> is_current_sentinel v);
          dp = is_current_sentinel (pd_provider d);
          dm = is_current_sentinel (pd_model d);
          needs_provider = (rp \<or> dp \<or> (requested_provider = None \<and> rm));
          needs_model = (rm \<or> dm \<or> rp \<or> (requested_provider = None \<and> rm) \<or> (requested_provider = None \<and> dp))
      in if (needs_provider \<or> needs_model) \<and> pd_current_provider d = None
         then Err ''spawn_subagent provider/model value `current` requires the parent session provider/model context, but this tool registry was built without it''
         else if (needs_model \<or> rm \<or> dm) \<and> pd_current_model d = None
         then Err ''spawn_subagent model value `current` requires the parent session model context, but this tool registry was built without it''
         else
           let provider =
                 (case requested_provider of
                    Some v \<Rightarrow> if rp then text_or_empty (pd_current_provider d) else trim v
                  | None \<Rightarrow> if rm \<or> dp then text_or_empty (pd_current_provider d) else pd_provider d)
           in if rm \<and> pd_current_provider d \<noteq> None \<and> trim provider \<noteq> [] \<and> provider \<noteq> text_or_empty (pd_current_provider d)
              then Err (''spawn_subagent model `current` belongs to provider `'' @ text_or_empty (pd_current_provider d) @
                     ''`, but requested provider was `'' @ provider @ ''`'')
              else
                let model =
                      (case requested_model of
                         Some v \<Rightarrow> if rm then text_or_empty (pd_current_model d) else trim v
                       | None \<Rightarrow>
                           if rp \<or> rm \<or> dp then text_or_empty (pd_current_model d)
                           else if dm then text_or_empty (pd_current_model d)
                           else pd_model d)
                in if is_current_sentinel provider \<or> is_current_sentinel model
                   then Err ''spawn_subagent provider/model resolved to literal `current`; this is a sentinel and must be materialized before launch''
                   else Ok (provider, repair_model_for_provider provider model))"

section \<open>The child process\<close>

record child_launch =
  cl_goal :: string
  cl_workspace :: names
  cl_max_steps :: string
  cl_provider :: string
  cl_model :: string
  cl_agent :: "string option"
  cl_bypass_sandbox :: bool
  cl_work_budget :: work_budget

definition limit_env :: "string \<Rightarrow> nat option \<Rightarrow> (string \<times> string) list" where
  "limit_env key v = (case v of None \<Rightarrow> [] | Some n \<Rightarrow> [(key, show_nat (max n 1))])"

definition subagent_child_env :: "child_launch \<Rightarrow> (string \<times> string) list" where
  "subagent_child_env l =
     (let b = cl_work_budget l
      in [(''VEGVISIR_SUBAGENT_RUN'', ''1'')] @
         limit_env ''VEGVISIR_MAX_TOOL_ROUNDS''
           (case wb_max_tool_calls b of None \<Rightarrow> wb_max_steps b | Some n \<Rightarrow> Some n) @
         limit_env ''VEGVISIR_SUBAGENT_MAX_READ_BYTES'' (wb_max_read_bytes b) @
         limit_env ''VEGVISIR_SUBAGENT_MAX_OUTPUT_BYTES'' (wb_max_output_bytes b) @
         (if wb_allowed_tools b \<noteq> []
          then [(''VEGVISIR_SUBAGENT_ALLOWED_TOOLS'', join_with '','' (wb_allowed_tools b))] else []))"

definition subagent_child_argv :: "child_launch \<Rightarrow> string list" where
  "subagent_child_argv l =
     [''--json'', ''--isolated-session''] @
     (if cl_bypass_sandbox l then [''--dangerously-bypass-approvals-and-sandbox''] else []) @
     (if cl_agent l = None then [''--provider'', cl_provider l, ''--model'', cl_model l] else []) @
     [''run'', cl_goal l, ''--workspace'', comps_text (root_comps (cl_workspace l)), ''--max-steps'', cl_max_steps l] @
     (case cl_agent l of None \<Rightarrow> [] | Some a \<Rightarrow> [''--agent'', a])"

section \<open>What is observed of it\<close>

definition json_text_of :: "string \<Rightarrow> json \<Rightarrow> string option" where
  "json_text_of k v = Option.bind (json_get k v) as_str"

definition parse_subagent_event :: "json \<Rightarrow> observed_event option" where
  "parse_subagent_event e =
     Option.bind (json_text_of ''kind'' e) (\<lambda>kind.
       if kind = ''tool_start'' then
         Some \<lparr>oe_kind = ObToolStart, oe_name = json_text_of ''name'' e, oe_args = json_text_of ''args'' e,
               oe_ok = None, oe_summary = None, oe_detail = None\<rparr>
       else if kind = ''tool_end'' then
         Some \<lparr>oe_kind = ObToolEnd, oe_name = json_text_of ''name'' e, oe_args = None,
               oe_ok = Option.bind (json_get ''ok'' e) as_bool, oe_summary = json_text_of ''summary'' e,
               oe_detail = json_text_of ''detail'' e\<rparr>
       else if kind = ''activity'' then
         Some \<lparr>oe_kind = ObActivity, oe_name = None, oe_args = None, oe_ok = None,
               oe_summary = json_text_of ''activity'' e, oe_detail = None\<rparr>
       else None)"

definition parse_subagent_json_observability :: "(string \<Rightarrow> json option) \<Rightarrow> string \<Rightarrow> observed_event list" where
  "parse_subagent_json_observability json_parse output =
     (case Option.bind (Option.bind (json_parse (trim output)) (json_get ''events'')) as_array of
        None \<Rightarrow> []
      | Some events \<Rightarrow> List.map_filter parse_subagent_event events)"

text \<open>The snapshot of a workspace: the files by relative path, in path order.\<close>

record file_snapshot =
  sn_bytes :: nat
  sn_hash :: nat
  sn_content :: "string option"

definition changed_file ::
    "(names \<times> file_snapshot) list \<Rightarrow> names \<times> file_snapshot \<Rightarrow> observed_file_change option" where
  "changed_file before = (\<lambda>(path, new).
     case map_of before path of
       None \<Rightarrow> Some \<lparr>fc_path = path, fc_change = FcCreated, fc_before_bytes = None, fc_after_bytes = Some (sn_bytes new),
           fc_diff = map_option (simple_unified_diff (join_with ''/'' path) []) (sn_content new)\<rparr>
     | Some old \<Rightarrow>
         if old \<noteq> new
         then Some \<lparr>fc_path = path, fc_change = FcModified, fc_before_bytes = Some (sn_bytes old),
             fc_after_bytes = Some (sn_bytes new),
             fc_diff = (case (sn_content old, sn_content new) of
                 (Some a, Some b) \<Rightarrow> Some (simple_unified_diff (join_with ''/'' path) a b)
               | _ \<Rightarrow> None)\<rparr>
         else None)"

definition deleted_file ::
    "(names \<times> file_snapshot) list \<Rightarrow> names \<times> file_snapshot \<Rightarrow> observed_file_change option" where
  "deleted_file after = (\<lambda>(path, old).
     if map_of after path = None
     then Some \<lparr>fc_path = path, fc_change = FcDeleted, fc_before_bytes = Some (sn_bytes old), fc_after_bytes = None,
         fc_diff = map_option (\<lambda>c. simple_unified_diff (join_with ''/'' path) c []) (sn_content old)\<rparr>
     else None)"

definition diff_workspace_snapshots ::
    "(names \<times> file_snapshot) list option \<Rightarrow> (names \<times> file_snapshot) list option \<Rightarrow> observed_file_change list" where
  "diff_workspace_snapshots before after =
     (case (before, after) of
        (Some b, Some a) \<Rightarrow> List.map_filter (changed_file b) a @ List.map_filter (deleted_file a) b
      | _ \<Rightarrow> [])"

section \<open>Facts\<close>

text \<open>The steps a child gets are within the configured bounds, whatever was asked.\<close>

lemma effective_max_steps_bounds:
  "max 1 (sd_min_max_steps d) \<le> effective_max_steps d requested"
  "effective_max_steps d requested \<le> max (sd_max_max_steps d) (max 1 (sd_min_max_steps d))"
  using clamp_bounds [of "max (sd_min_max_steps d) 1" "max (sd_max_max_steps d) (max (sd_min_max_steps d) 1)"]
  by (auto simp: effective_max_steps_def spawn_defaults_normalized_def Let_def max.commute)

text \<open>A child never runs under the literal \<open>current\<close>.\<close>

lemma resolved_is_not_sentinel:
  "resolve_for_spawn_request d rp rm = Ok (p, m) \<Longrightarrow> \<not> is_current_sentinel p"
  unfolding resolve_for_spawn_request_def Let_def by (simp split: if_splits)

text \<open>
  The default model \<open>current\<close> is taken from the session even where another provider is asked
  for: the child runs that provider with a model of the session's.
\<close>

lemma current_model_for_other_provider:
  "resolve_for_spawn_request
     (with_current_session (provider_defaults_new ''current'' ''current'') ''openai'' ''gpt'')
     (Some ''anthropic'') None = Ok (''anthropic'', ''gpt'')"
  by code_simp

text \<open>Two snapshots give a change for a path exactly where they differ on it.\<close>

lemma diff_paths:
  assumes "distinct (map fst b)" and "distinct (map fst a)"
  shows "fc_path ` set (diff_workspace_snapshots (Some b) (Some a)) = {p. map_of b p \<noteq> map_of a p}"
proof -
  have new: "fc_path ` set (List.map_filter (changed_file b) a) = {p. map_of a p \<noteq> None \<and> map_of b p \<noteq> map_of a p}"
    (is "?l = ?r")
  proof
    show "?l \<subseteq> ?r" using assms(2)
      by (force simp: List.map_filter_def changed_file_def split: option.splits if_splits)
    show "?r \<subseteq> ?l"
    proof
      fix p assume "p \<in> ?r"
      then obtain v where v: "map_of a p = Some v" "map_of b p \<noteq> Some v" by auto
      then have "(p, v) \<in> set a" by (simp add: map_of_SomeD)
      moreover obtain c where "changed_file b (p, v) = Some c" "fc_path c = p"
        using v by (cases "map_of b p") (auto simp: changed_file_def)
      ultimately show "p \<in> ?l" by (force simp: List.map_filter_def)
    qed
  qed
  have gone: "fc_path ` set (List.map_filter (deleted_file a) b) = {p. map_of a p = None \<and> map_of b p \<noteq> None}"
    (is "?l = ?r")
  proof
    show "?l \<subseteq> ?r" using assms(1)
      by (force simp: List.map_filter_def deleted_file_def split: if_splits)
    show "?r \<subseteq> ?l"
    proof
      fix p assume "p \<in> ?r"
      then obtain v where v: "map_of b p = Some v" "map_of a p = None" by auto
      then have "(p, v) \<in> set b" by (simp add: map_of_SomeD)
      then show "p \<in> ?l" using v(2) by (force simp: List.map_filter_def deleted_file_def)
    qed
  qed
  show ?thesis unfolding diff_workspace_snapshots_def by (simp only: prod.case option.case set_append image_Un new gone)
      (auto, metis not_None_eq)
qed

end
