(* ===== verification/Subagent_Board.thy ===== *)
theory Subagent_Board
  imports Subagent_Model
begin

text \<open>
  The board of delegated tasks, vegvisir/src/tools.rs: the board file with its bounds and its
  recovery from a damaged file, the checks a spawn makes, cancelling, and the writes of the
  worker that runs a child. Each section between taking and releasing the board lock is one
  step on the file. The JSON reader and printer are parameters.
\<close>

section \<open>The file\<close>

text \<open>
  The board file holds the text printed for some records, or text that is not such a list.
  \<open>bc_size\<close> is the length of the printed text.
\<close>

record board_codec =
  bc_size :: "subagent_record list \<Rightarrow> nat"
  bc_parse :: "string \<Rightarrow> subagent_record list option"
  bc_parse_one :: "string \<Rightarrow> subagent_record option"
  bc_json :: "subagent_record \<Rightarrow> json"
  bc_pretty :: "subagent_record \<Rightarrow> string"

datatype board_content = Printed "subagent_record list" | Damaged string

record board_file =
  bf_content :: "board_content option"
  bf_archives :: "board_content list"

definition content_size :: "board_codec \<Rightarrow> board_content \<Rightarrow> nat" where
  "content_size B c = (case c of Printed rs \<Rightarrow> bc_size B rs | Damaged s \<Rightarrow> length s)"

datatype board_error = BoardJson | BoardTooLarge | ScopeOverlap string string names names

definition board_max_bytes :: nat where "board_max_bytes = 32 * 1024 * 1024"
definition board_max_records :: nat where "board_max_records = 64"
definition event_field_max_bytes :: nat where "event_field_max_bytes = 2 * 1024"
definition text_field_max_bytes :: nat where "text_field_max_bytes = 32 * 1024"
definition diff_max_bytes :: nat where "diff_max_bytes = 16 * 1024"

definition truncate_string_bytes :: "nat \<Rightarrow> string \<Rightarrow> string" where
  "truncate_string_bytes max_bytes v =
     (if max_bytes < length v then compact_text_middle v max_bytes ''subagent board field'' else v)"

definition last_n :: "nat \<Rightarrow> 'a list \<Rightarrow> 'a list" where
  "last_n n xs = drop (length xs - n) xs"

definition compact_event :: "observed_event \<Rightarrow> observed_event" where
  "compact_event e =
     e\<lparr>oe_args := map_option (truncate_string_bytes event_field_max_bytes) (oe_args e),
       oe_summary := map_option (truncate_string_bytes event_field_max_bytes) (oe_summary e),
       oe_detail := map_option (truncate_string_bytes event_field_max_bytes) (oe_detail e)\<rparr>"

definition compact_observability :: "subagent_observability \<Rightarrow> subagent_observability" where
  "compact_observability s =
     s\<lparr>so_launch_argv := map (truncate_string_bytes event_field_max_bytes) (take 32 (so_launch_argv s)),
       so_notes := map (truncate_string_bytes event_field_max_bytes) (take 32 (so_notes s)),
       so_events := map compact_event (last_n 32 (so_events s)),
       so_file_changes :=
         map (\<lambda>c. c\<lparr>fc_diff := map_option (truncate_string_bytes diff_max_bytes) (fc_diff c)\<rparr>)
           (take 8 (so_file_changes s))\<rparr>"

definition compact_record :: "subagent_record \<Rightarrow> subagent_record" where
  "compact_record r =
     r\<lparr>sa_goal := truncate_string_bytes text_field_max_bytes (sa_goal r),
       sa_name := truncate_string_bytes event_field_max_bytes (sa_name r),
       sa_final_answer := map_option (truncate_string_bytes text_field_max_bytes) (sa_final_answer r),
       sa_error := map_option (truncate_string_bytes text_field_max_bytes) (sa_error r),
       sa_observability := compact_observability (sa_observability r)\<rparr>"

definition compact_subagent_board_records :: "subagent_record list \<Rightarrow> subagent_record list" where
  "compact_subagent_board_records rs = map compact_record (last_n board_max_records (sort_key sa_created_at rs))"

text \<open>
  The scan for one object: from its brace on, with the depth of braces, inside a text, after a
  backslash. It gives the text of the object, if it ends, and what follows.
\<close>

fun scan_object :: "int \<Rightarrow> bool \<Rightarrow> bool \<Rightarrow> string \<Rightarrow> string \<Rightarrow> string option \<times> string" where
  "scan_object depth in_string escaped seen [] = (None, [])"
| "scan_object depth in_string escaped seen (b # rest) =
     (if in_string then
        (if escaped then scan_object depth True False (b # seen) rest
         else if b = CHR 0x5C then scan_object depth True True (b # seen) rest
         else if b = CHR 0x22 then scan_object depth False False (b # seen) rest
         else scan_object depth True False (b # seen) rest)
      else if b = CHR 0x22 then scan_object depth True escaped (b # seen) rest
      else if b = CHR ''{'' then scan_object (depth + 1) False escaped (b # seen) rest
      else if b = CHR ''}'' then
        (if depth - 1 = 0 then (Some (rev (b # seen)), rest)
         else scan_object (depth - 1) False escaped (b # seen) rest)
      else if b = CHR '']'' \<and> depth = 0 then (None, rest)
      else scan_object depth False escaped (b # seen) rest)"

lemma scan_object_shorter: "length (snd (scan_object d i e seen s)) \<le> length s"
  by (induction d i e seen s rule: scan_object.induct) (simp_all add: le_SucI)

function partial_objects :: "string \<Rightarrow> string list" where
  "partial_objects [] = []"
| "partial_objects (b # rest) =
     (if b = CHR ''{''
      then (case scan_object 0 False False [] (b # rest) of (found, rest') \<Rightarrow>
              (case found of None \<Rightarrow> [] | Some t \<Rightarrow> [t]) @ (if length rest' \<le> length rest then partial_objects rest' else []))
      else partial_objects rest)"
  by pat_completeness auto
termination by (relation "measure length") auto

definition recover_from_partial_array :: "board_codec \<Rightarrow> string \<Rightarrow> subagent_record list option" where
  "recover_from_partial_array B candidate =
     (let records = List.map_filter (bc_parse_one B) (partial_objects candidate)
      in if records = [] then None else Some records)"

text \<open>The characters \<open>U+FEFF\<close>, \<open>U+200B\<close> and \<open>U+2060\<close> are skipped at the start.\<close>

fun skip_marks :: "string \<Rightarrow> string" where
  "skip_marks (a # b # c # s) =
     (if [a, b, c] \<in> {[CHR 0xEF, CHR 0xBB, CHR 0xBF], [CHR 0xE2, CHR 0x80, CHR 0x8B], [CHR 0xE2, CHR 0x81, CHR 0xA0]}
      then skip_marks s else a # b # c # s)"
| "skip_marks s = s"

definition recover_subagent_board_records :: "board_codec \<Rightarrow> string \<Rightarrow> subagent_record list option" where
  "recover_subagent_board_records B text =
     (case dropWhile (\<lambda>c. c \<noteq> CHR ''['') (skip_marks text) of
        [] \<Rightarrow> None
      | c # r \<Rightarrow>
          (case bc_parse B (c # r) of
             Some records \<Rightarrow> Some records
           | None \<Rightarrow> recover_from_partial_array B (c # r)))"

text \<open>The temporary file is renamed over the board only when it is within the bound.\<close>

definition save_subagent_board_records :: "board_codec \<Rightarrow> subagent_record list \<Rightarrow> (board_file, board_error, unit) sx" where
  "save_subagent_board_records B rs F =
     (let records = compact_subagent_board_records rs
      in if board_max_bytes < bc_size B records then (Err BoardTooLarge, F)
         else (Ok (), F\<lparr>bf_content := Some (Printed records)\<rparr>))"

definition load_subagent_board_records :: "board_codec \<Rightarrow> (board_file, board_error, subagent_record list) sx" where
  "load_subagent_board_records B F =
     (case bf_content F of
        None \<Rightarrow> (Ok [], F)
      | Some c \<Rightarrow>
          if board_max_bytes < content_size B c
          then (Ok [], F\<lparr>bf_content := None, bf_archives := bf_archives F @ [c]\<rparr>)
          else case c of
            Printed rs \<Rightarrow> (Ok (compact_subagent_board_records rs), F)
          | Damaged text \<Rightarrow>
              if trim text = [] then (Ok [], F)
              else case recover_subagent_board_records B text of
                None \<Rightarrow> (Err BoardJson, F)
              | Some rs \<Rightarrow>
                  let records = compact_subagent_board_records rs
                  in (Ok records, snd (save_subagent_board_records B records F)))"

fun upsert_in :: "subagent_record \<Rightarrow> subagent_record list \<Rightarrow> subagent_record list" where
  "upsert_in r [] = [r]"
| "upsert_in r (x # xs) = (if sa_id x = sa_id r then r # xs else x # upsert_in r xs)"

definition upsert_subagent_record :: "board_codec \<Rightarrow> subagent_record \<Rightarrow> (board_file, board_error, unit) sx" where
  "upsert_subagent_record B r =
     sx_bind (load_subagent_board_records B) (\<lambda>rs. save_subagent_board_records B (upsert_in r rs))"

section \<open>Checks of a spawn\<close>

definition scopes_overlap :: "names \<Rightarrow> names \<Rightarrow> bool" where
  "scopes_overlap l r \<longleftrightarrow> l = r \<or> take (length r) l = r \<or> take (length l) r = l"

definition active_subagent_count :: "board_codec \<Rightarrow> (board_file, board_error, nat) sx" where
  "active_subagent_count B =
     sx_bind (load_subagent_board_records B) (\<lambda>rs. sx_return (length (filter sa_active rs)))"

definition scope_conflict :: "names list \<Rightarrow> subagent_record list \<Rightarrow> (subagent_record \<times> names \<times> names) option" where
  "scope_conflict requested rs =
     List.find (\<lambda>(r, p, q). scopes_overlap p q)
       (concat (map (\<lambda>r. concat (map (\<lambda>p. map (\<lambda>q. (r, p, q)) (sa_file_scope r)) requested)) (filter sa_active rs)))"

definition validate_subagent_file_scope_available :: "board_codec \<Rightarrow> names list \<Rightarrow> (board_file, board_error, unit) sx" where
  "validate_subagent_file_scope_available B requested =
     (if requested = [] then sx_return ()
      else sx_bind (load_subagent_board_records B) (\<lambda>rs.
        case scope_conflict requested rs of
          None \<Rightarrow> sx_return ()
        | Some (r, p, q) \<Rightarrow> sx_raise (ScopeOverlap (sa_id r) (sa_name r) p q)))"

fun push_new :: "'a list \<Rightarrow> 'a list \<Rightarrow> 'a list" where
  "push_new acc [] = acc"
| "push_new acc (x # xs) = push_new (if x \<in> set acc then acc else acc @ [x]) xs"

datatype scope_error = ScopeType | ScopeSandbox sandbox_error

definition parse_subagent_file_scope ::
    "files \<Rightarrow> workspace_sandbox \<Rightarrow> json option \<Rightarrow> scope_error + names list" where
  "parse_subagent_file_scope F S v =
     (case v of
        None \<Rightarrow> Ok []
      | Some (JStr raw) \<Rightarrow>
          res_bind (res_map (\<lambda>i. map_err ScopeSandbox (sandbox_resolve F S i)) (nonempty_trimmed (split_on (CHR '','') raw)))
            (\<lambda>ps. Ok (push_new [] ps))
      | Some (JArr items) \<Rightarrow>
          res_bind (res_map (\<lambda>i. map_err ScopeSandbox (sandbox_resolve F S i)) (nonempty_trimmed (List.map_filter as_str items)))
            (\<lambda>ps. Ok (push_new [] ps))
      | Some _ \<Rightarrow> Err ScopeType)"

section \<open>The tools\<close>

fun subagent_status_label :: "subagent_status \<Rightarrow> string" where
  "subagent_status_label SaQueued = ''queued''"
| "subagent_status_label SaRunning = ''running''"
| "subagent_status_label SaCompleted = ''completed''"
| "subagent_status_label SaFailed = ''failed''"
| "subagent_status_label SaCancelled = ''cancelled''"

definition find_subagent_record_in :: "string \<Rightarrow> subagent_record list \<Rightarrow> subagent_record option" where
  "find_subagent_record_in id_or_name rs = List.find (\<lambda>r. sa_id r = id_or_name \<or> sa_name r = id_or_name) rs"

text \<open>What the surroundings of a spawn give it.\<close>

record spawn_env =
  sv_bypass :: bool
  sv_limit :: nat
  sv_root :: names
  sv_sandbox :: workspace_sandbox
  sv_defaults :: spawn_defaults
  sv_providers :: provider_defaults

datatype spawn_error =
    SpawnMissingGoal
  | SpawnEmptyGoal
  | SpawnSandbox sandbox_error
  | SpawnProvider string
  | SpawnScope scope_error
  | SpawnRequiresYolo
  | SpawnLimit nat
  | SpawnConflict board_error
  | SpawnBoard board_error

definition trimmed_arg :: "json table \<Rightarrow> string \<Rightarrow> string option" where
  "trimmed_arg args key = map_option trim (Option.bind (tbl_get key args) as_str)"

text \<open>The part before the board is looked at: the record and its launch.\<close>

definition prepare_subagent ::
    "spawn_env \<Rightarrow> files \<Rightarrow> json table \<Rightarrow> string \<Rightarrow> time \<Rightarrow> spawn_error + subagent_record \<times> child_launch" where
  "prepare_subagent V F args uuid now =
     (case trimmed_arg args ''goal'' of
        None \<Rightarrow> Err SpawnMissingGoal
      | Some goal \<Rightarrow>
        if goal = [] then Err SpawnEmptyGoal
        else
          let name = (case trimmed_arg args ''name'' of None \<Rightarrow> ''subagent'' | Some n \<Rightarrow> if n \<noteq> [] then n else ''subagent'')
          in res_bind (case Option.bind (tbl_get ''workspace'' args) as_str of
               None \<Rightarrow> Ok (sv_root V)
             | Some path \<Rightarrow> map_err SpawnSandbox (sandbox_resolve F (sv_sandbox V) path)) (\<lambda>workspace.
          let max_steps = effective_max_steps (sv_defaults V) (Option.bind (tbl_get ''max_steps'' args) as_u64)
          in res_bind (map_err SpawnProvider (resolve_for_spawn_request (sv_providers V)
                (optional_nonempty_string (tbl_get ''provider'' args)) (optional_nonempty_string (tbl_get ''model'' args)))) (\<lambda>(provider, model).
          let budget = parse_subagent_work_budget (tbl_get ''work_budget'' args) (Some max_steps)
                (sd_work_budget (sv_defaults V)) (sv_bypass V)
          in res_bind (map_err SpawnSandbox ((if sv_bypass V then workspace_new_unrestricted else workspace_new) F []
                (comps_text (root_comps workspace)))) (\<lambda>scope_sandbox.
          res_bind (map_err SpawnScope (parse_subagent_file_scope F scope_sandbox (tbl_get ''file_scope'' args))) (\<lambda>scope.
          if \<not> sv_bypass V then Err SpawnRequiresYolo
          else Ok
            (\<lparr>sa_id = uuid, sa_name = name, sa_workspace = workspace, sa_goal = goal, sa_parent_run_id = None,
              sa_child_run_id = None, sa_artifact_dir = None,
              sa_ownership = Some \<lparr>fo_read_scope = scope, fo_write_scope = [], fo_exclusive_write = True\<rparr>,
              sa_provider = Some provider, sa_model = Some model, sa_file_scope = scope, sa_work_budget = budget,
              sa_status = SaQueued, sa_created_at = now, sa_started_at = None, sa_finished_at = None,
              sa_checkpoint = None, sa_final_answer = None, sa_error = None,
              sa_observability = no_observability\<lparr>so_launch_env_keys := [''VEGVISIR_SUBAGENT_RUN'']\<rparr>\<rparr>,
             \<lparr>cl_goal = apply_subagent_scope_to_goal (apply_subagent_work_budget_to_goal goal budget) workspace scope,
              cl_workspace = workspace, cl_max_steps = show_nat max_steps, cl_provider = provider, cl_model = model,
              cl_agent = optional_nonempty_string (tbl_get ''agent'' args), cl_bypass_sandbox = sv_bypass V,
              cl_work_budget = budget\<rparr>))))))"

text \<open>The three sections on the board, one after the other.\<close>

definition check_active :: "board_codec \<Rightarrow> nat \<Rightarrow> (board_file, spawn_error, unit) sx" where
  "check_active B limit F =
     (case active_subagent_count B F of
        (Inl e, G) \<Rightarrow> (Err (SpawnBoard e), G)
      | (Inr n, G) \<Rightarrow> if limit \<le> n then (Err (SpawnLimit limit), G) else (Ok (), G))"

definition check_scope :: "board_codec \<Rightarrow> names list \<Rightarrow> (board_file, spawn_error, unit) sx" where
  "check_scope B scope F =
     (case validate_subagent_file_scope_available B scope F of (r, G) \<Rightarrow> (map_err SpawnConflict r, G))"

definition board_put_record :: "board_codec \<Rightarrow> subagent_record \<Rightarrow> (board_file, spawn_error, unit) sx" where
  "board_put_record B r F = (case upsert_subagent_record B r F of (r', G) \<Rightarrow> (map_err SpawnBoard r', G))"

definition spawn_subagent ::
    "board_codec \<Rightarrow> spawn_env \<Rightarrow> files \<Rightarrow> json table \<Rightarrow> string \<Rightarrow> time \<Rightarrow>
     (board_file, spawn_error, subagent_record \<times> child_launch) sx" where
  "spawn_subagent B V F args uuid now =
     sx_bind (sx_lift (prepare_subagent V F args uuid now)) (\<lambda>(r, launch).
     sx_bind (check_active B (sv_limit V)) (\<lambda>_.
     sx_bind (check_scope B (sa_file_scope r)) (\<lambda>_.
     sx_bind (board_put_record B r) (\<lambda>_. sx_return (r, launch)))))"

text \<open>Cancelling reads the board in one section and writes it back in another.\<close>

datatype cancel_answer = AlreadyFinished subagent_record | CancelledRecord subagent_record

definition cancel_in :: "string \<Rightarrow> time \<Rightarrow> subagent_record list \<Rightarrow> (cancel_answer \<times> subagent_record list) option" where
  "cancel_in id_or_name now rs =
     (case find_subagent_record_in id_or_name rs of
        None \<Rightarrow> None
      | Some r \<Rightarrow>
          if \<not> sa_active r then Some (AlreadyFinished r, rs)
          else
            let c = r\<lparr>sa_status := SaCancelled, sa_finished_at := Some now\<rparr>
            in Some (CancelledRecord c,
                 takeWhile (\<lambda>x. \<not> (sa_id x = id_or_name \<or> sa_name x = id_or_name)) rs @
                 c # tl (dropWhile (\<lambda>x. \<not> (sa_id x = id_or_name \<or> sa_name x = id_or_name)) rs)))"

datatype board_tool_error = ToolMissingId | ToolEmptyId | ToolNotFound string | ToolBoard board_error

definition subagents_cancel ::
    "board_codec \<Rightarrow> json table \<Rightarrow> time \<Rightarrow> (board_file, board_tool_error, cancel_answer) sx" where
  "subagents_cancel B args now F =
     (case trimmed_arg args ''id_or_name'' of
        None \<Rightarrow> (Err ToolMissingId, F)
      | Some i \<Rightarrow>
        if i = [] then (Err ToolEmptyId, F)
        else case load_subagent_board_records B F of
          (Inl e, G) \<Rightarrow> (Err (ToolBoard e), G)
        | (Inr rs, G) \<Rightarrow>
            (case cancel_in i now rs of
               None \<Rightarrow> (Err (ToolNotFound i), G)
             | Some (AlreadyFinished r, _) \<Rightarrow> (Ok (AlreadyFinished r), G)
             | Some (CancelledRecord r, rs') \<Rightarrow>
                 (case save_subagent_board_records B rs' G of
                    (Inl e, H) \<Rightarrow> (Err (ToolBoard e), H)
                  | (Inr _, H) \<Rightarrow> (Ok (CancelledRecord r), H))))"

definition format_subagent_record_summary :: "subagent_record \<Rightarrow> string" where
  "format_subagent_record_summary r =
     sa_id r @ ''  name='' @ sa_name r @ '' status='' @ subagent_status_label (sa_status r) @
     '' provider='' @ (case sa_provider r of None \<Rightarrow> ''-'' | Some p \<Rightarrow> p) @
     '' model='' @ (case sa_model r of None \<Rightarrow> ''-'' | Some m \<Rightarrow> m) @
     '' workspace='' @ comps_text (root_comps (sa_workspace r)) @
     '' scope='' @ join_with '','' (map (\<lambda>p. comps_text (root_comps p)) (sa_file_scope r)) @
     '' goal='' @ sa_goal r"

definition subagents_list ::
    "board_codec \<Rightarrow> string \<Rightarrow> (board_error \<Rightarrow> string) \<Rightarrow> json table \<Rightarrow> board_file \<Rightarrow> observation \<times> board_file" where
  "subagents_list B board_path et args F =
     (let filter_text = Option.bind (map_option to_ascii_lowercase (optional_nonempty_string (tbl_get ''status'' args)))
            (\<lambda>s. if s \<in> {''all'', ''any'', ''*''} then None else Some s);
          limit = clamp 1 500 (case Option.bind (tbl_get ''limit'' args) as_u64 of None \<Rightarrow> 50 | Some n \<Rightarrow> n)
      in case load_subagent_board_records B F of
        (Inl e, G) \<Rightarrow> (observation_err (et e) ''SubagentBoardError'', G)
      | (Inr rs, G) \<Rightarrow>
          let newest = sort_key (\<lambda>r. - sa_created_at r) rs;
              kept = (case filter_text of None \<Rightarrow> newest
                      | Some s \<Rightarrow> filter (\<lambda>r. subagent_status_label (sa_status r) = s) newest);
              shown = take limit kept
          in (\<lparr>ob_ok = True,
               ob_content = (if shown = [] then ''No subagent task records.''
                             else join_with [CHR 0x0A] (map format_subagent_record_summary shown)),
               ob_data = fold (\<lambda>(k, v). tbl_put k v)
                 [(''board_path'', JStr board_path), (''records'', JArr (map (bc_json B) shown)),
                  (''total_records'', JInt (int (length kept))), (''output_truncated'', JBool (limit < length kept))] [],
               ob_error = None\<rparr>, G))"

definition subagents_show ::
    "board_codec \<Rightarrow> string \<Rightarrow> (board_error \<Rightarrow> string) \<Rightarrow> json table \<Rightarrow> board_file \<Rightarrow> observation \<times> board_file" where
  "subagents_show B board_path et args F =
     (case trimmed_arg args ''id_or_name'' of
        None \<Rightarrow> (observation_err ''Missing id_or_name'' ''ValueError'', F)
      | Some i \<Rightarrow>
        if i = [] then (observation_err ''id_or_name must not be empty'' ''ValueError'', F)
        else case load_subagent_board_records B F of
          (Inl e, G) \<Rightarrow> (observation_err (et e) ''SubagentBoardError'', G)
        | (Inr rs, G) \<Rightarrow>
            (case find_subagent_record_in i rs of
               None \<Rightarrow> (observation_err (''Unknown subagent task: '' @ i) ''NotFound'', G)
             | Some r \<Rightarrow>
                 (\<lparr>ob_ok = True, ob_content = bc_pretty B r,
                   ob_data = fold (\<lambda>(k, v). tbl_put k v) [(''board_path'', JStr board_path), (''record'', bc_json B r)] [],
                   ob_error = None\<rparr>, G)))"

section \<open>The worker\<close>

text \<open>
  The thread of a child keeps its own copy of the record and writes it to the board, whatever
  the board says: when it starts, when it has the command line, when the child is done.
\<close>

definition worker_started :: "time \<Rightarrow> subagent_record \<Rightarrow> subagent_record" where
  "worker_started now r = r\<lparr>sa_status := SaRunning, sa_started_at := Some now\<rparr>"

definition worker_launched :: "string \<Rightarrow> child_launch \<Rightarrow> subagent_record \<Rightarrow> subagent_record" where
  "worker_launched executable launch r =
     r\<lparr>sa_observability := (sa_observability r)
        \<lparr>so_launch_argv := executable # subagent_child_argv launch,
         so_launch_env_keys := map fst (subagent_child_env launch)\<rparr>\<rparr>"


text \<open>What running the child came to.\<close>

datatype child_outcome =
    NotLaunched string
  | CaptureFailed string
  | Exited bool string

definition observe_child ::
    "(string \<Rightarrow> json option) \<Rightarrow> child_outcome \<Rightarrow> string + (names \<times> file_snapshot) list \<Rightarrow>
     string + (names \<times> file_snapshot) list \<Rightarrow> subagent_observability \<Rightarrow> subagent_observability" where
  "observe_child json_parse outcome before after s =
     s\<lparr>so_events := so_events s @
         (case outcome of Exited _ text \<Rightarrow> parse_subagent_json_observability json_parse text | _ \<Rightarrow> []),
       so_file_changes := diff_workspace_snapshots
         (case before of Inl _ \<Rightarrow> None | Inr b \<Rightarrow> Some b) (case after of Inl _ \<Rightarrow> None | Inr a \<Rightarrow> Some a),
       so_notes := so_notes s @
         (case before of Inl e \<Rightarrow> [''Could not snapshot workspace before subagent run: '' @ e] | Inr _ \<Rightarrow> []) @
         (case after of Inl e \<Rightarrow> [''Could not snapshot workspace after subagent run: '' @ e] | Inr _ \<Rightarrow> [])\<rparr>"

definition worker_done ::
    "(string \<Rightarrow> json option) \<Rightarrow> time \<Rightarrow> child_outcome \<Rightarrow> string + (names \<times> file_snapshot) list \<Rightarrow>
     string + (names \<times> file_snapshot) list \<Rightarrow> subagent_record \<Rightarrow> subagent_record" where
  "worker_done json_parse now outcome before after r =
     (let r1 = r\<lparr>sa_observability := observe_child json_parse outcome before after (sa_observability r),
               sa_finished_at := Some now\<rparr>;
          failed = (\<lambda>e. r1\<lparr>sa_status := SaFailed, sa_error := Some e\<rparr>)
      in case outcome of
           NotLaunched e \<Rightarrow> failed e
         | CaptureFailed e \<Rightarrow> failed (''subagent output capture failed: '' @ e)
         | Exited success text \<Rightarrow>
             if \<not> success then failed (trim text)
             else r1\<lparr>sa_status := SaCompleted, sa_error := None,
                sa_final_answer := Some
                  (case wb_max_output_bytes (sa_work_budget r) of
                     None \<Rightarrow> text
                   | Some limit \<Rightarrow> compact_text_middle text limit ''subagent output'')\<rparr>)"

text \<open>The result of a write is dropped.\<close>

definition worker_write :: "board_codec \<Rightarrow> subagent_record \<Rightarrow> board_file \<Rightarrow> board_file" where
  "worker_write B r F = snd (upsert_subagent_record B r F)"

end
