(* ===== verification/Subagent_Properties.thy ===== *)
theory Subagent_Properties
  imports Subagent_Board Workspace_Properties "HOL-Library.Multiset"
begin

text \<open>
  The task board over runs: which records the admission checks leave active together. A step is
  a spawn, a write of a worker, a cancellation or a read; the spawn is taken as one step.
\<close>

section \<open>Runs\<close>

record board_system =
  bs_file :: board_file
  bs_workers :: "subagent_record list"





definition empty_board :: board_system where
  "empty_board = \<lparr>bs_file = \<lparr>bf_content = None, bf_archives = []\<rparr>, bs_workers = []\<rparr>"

section \<open>What compaction keeps\<close>

definition sa_key :: "subagent_record \<Rightarrow> string \<times> bool \<times> names list" where
  "sa_key r = (sa_id r, sa_active r, sa_file_scope r)"

lemma key_compact [simp]: "sa_key (compact_record r) = sa_key r"
  by (simp add: sa_key_def compact_record_def sa_active_def)









lemma length_compact_le: "length (compact_subagent_board_records rs) \<le> board_max_records"
  by (simp add: compact_subagent_board_records_def last_n_def)

section \<open>Replacing a record\<close>





section \<open>The invariant\<close>














section \<open>Fair runs\<close>

lemma worker_keys [simp]:
  "sa_id (worker_started now w) = sa_id w" "sa_file_scope (worker_started now w) = sa_file_scope w"
  "sa_id (worker_launched exe l w) = sa_id w" "sa_file_scope (worker_launched exe l w) = sa_file_scope w"
  "sa_status (worker_launched exe l w) = sa_status w" "sa_active (worker_started now w)"
  by (simp_all add: worker_started_def worker_launched_def sa_active_def)

lemma worker_done_keys [simp]:
  "sa_id (worker_done jp now oc b a w) = sa_id w" "sa_file_scope (worker_done jp now oc b a w) = sa_file_scope w"
  "\<not> sa_active (worker_done jp now oc b a w)"
  by (simp_all add: worker_done_def sa_active_def Let_def split: child_outcome.split)







section \<open>A sample\<close>

definition sample_codec :: board_codec where
  "sample_codec = \<lparr>bc_size = \<lambda>rs. 0, bc_parse = \<lambda>s. None, bc_parse_one = \<lambda>s. None, bc_json = \<lambda>r. JNull, bc_pretty = \<lambda>r. []\<rparr>"

definition sample_budget :: work_budget where
  "sample_budget = \<lparr>wb_max_steps = None, wb_max_tool_calls = Some 2, wb_max_read_bytes = None, wb_max_output_bytes = None,
     wb_allowed_tools = [], wb_notes = []\<rparr>"

definition sample_spawn_env :: spawn_env where
  "sample_spawn_env =
     \<lparr>sv_bypass = True, sv_limit = 1, sv_root = [''w''],
      sv_sandbox = \<lparr>ws_root = [''w''], ws_allow_network = True, ws_bypass = True\<rparr>,
      sv_defaults = \<lparr>sd_default_max_steps = 2, sd_min_max_steps = 1, sd_max_max_steps = 3, sd_work_budget = sample_budget\<rparr>,
      sv_providers = provider_defaults_new ''p'' ''m''\<rparr>"


definition sample_subagent ::
    "string \<Rightarrow> time \<Rightarrow> subagent_status \<Rightarrow> time option \<Rightarrow> time option \<Rightarrow> subagent_record" where
  "sample_subagent i now st started finished =
     \<lparr>sa_id = i, sa_name = i, sa_workspace = [''w''], sa_goal = ''look'', sa_parent_run_id = None,
      sa_child_run_id = None, sa_artifact_dir = None, sa_ownership = None, sa_provider = None, sa_model = None,
      sa_file_scope = [[''w'', ''a'']], sa_work_budget = sample_budget, sa_status = st, sa_created_at = now,
      sa_started_at = started, sa_finished_at = finished, sa_checkpoint = None, sa_final_answer = None,
      sa_error = None, sa_observability = no_observability\<rparr>"




lemma sample_limits: "bc_size sample_codec rs = 0" "sv_limit sample_spawn_env = 1"
  by (simp_all add: sample_codec_def sample_spawn_env_def)



section \<open>Cancelling\<close>

text \<open>
  A cancelled task frees its scope and its place; its child runs on, and its worker's next write
  makes it active again, beside a task admitted meanwhile for the same scope and over the limit.
\<close>

lemma sample_subagent_fields [simp]:
  "sa_id (sample_subagent i now st a f) = i" "sa_name (sample_subagent i now st a f) = i"
  "sa_file_scope (sample_subagent i now st a f) = [[''w'', ''a'']]"
  "sa_created_at (sample_subagent i now st a f) = now"
  "sa_active (sample_subagent i now st a f) \<longleftrightarrow> st = SaQueued \<or> st = SaRunning"
  "(sample_subagent i now st a f)\<lparr>sa_status := st', sa_finished_at := f'\<rparr> = sample_subagent i now st' a f'"
  "worker_started t (sample_subagent i now st a f) = sample_subagent i now SaRunning (Some t) f"
  by (simp_all add: sample_subagent_def sa_active_def worker_started_def)

lemma sample_compact: "length i \<le> 9 \<Longrightarrow> compact_record (sample_subagent i now st a f) = sample_subagent i now st a f"
  by (simp add: compact_record_def sample_subagent_def compact_observability_def no_observability_def
      truncate_string_bytes_def event_field_max_bytes_def text_field_max_bytes_def last_n_def)

lemmas sample_board_simps =
  load_subagent_board_records_def save_subagent_board_records_def compact_subagent_board_records_def content_size_def
  sample_limits sample_compact last_n_def board_max_records_def sx_simps

definition sample_board :: "subagent_record list \<Rightarrow> board_file" where
  "sample_board rs = \<lparr>bf_content = Some (Printed rs), bf_archives = []\<rparr>"

text \<open>A child queued; cancelled; another queued beside it.\<close>

definition sample_board1 :: board_file where
  "sample_board1 = sample_board [sample_subagent ''i'' 1 SaQueued None None]"

definition sample_board2 :: board_file where
  "sample_board2 = sample_board [sample_subagent ''i'' 1 SaCancelled None (Some 3)]"

definition sample_board3 :: board_file where
  "sample_board3 = sample_board
     [sample_subagent ''i'' 1 SaCancelled None (Some 3), sample_subagent ''j'' 2 SaQueued None None]"

lemmas sample_boards = sample_board1_def sample_board2_def sample_board3_def sample_board_def

lemma cancelled_subagent_comes_back:
  "board_put_record sample_codec (sample_subagent ''i'' 1 SaQueued None None) (bs_file empty_board) = (Ok (), sample_board1)"
  "snd (subagents_cancel sample_codec [(''id_or_name'', JStr ''i'')] 3 sample_board1) = sample_board2"
  "check_active sample_codec 1 sample_board2 = (Ok (), sample_board2)"
  "check_scope sample_codec [[''w'', ''a'']] sample_board2 = (Ok (), sample_board2)"
  "board_put_record sample_codec (sample_subagent ''j'' 2 SaQueued None None) sample_board2 = (Ok (), sample_board3)"
  "active_subagent_count sample_codec
     (worker_write sample_codec (worker_started 4 (sample_subagent ''i'' 1 SaQueued None None)) sample_board3) =
     (Ok 2, sample_board [sample_subagent ''i'' 1 SaRunning (Some 4) None, sample_subagent ''j'' 2 SaQueued None None])"
proof -
  have arg: "trimmed_arg [(''id_or_name'', JStr ''i'')] ''id_or_name'' = Some ''i''" by code_simp
  show "board_put_record sample_codec (sample_subagent ''i'' 1 SaQueued None None) (bs_file empty_board) = (Ok (), sample_board1)"
    by (simp add: board_put_record_def upsert_subagent_record_def empty_board_def sample_boards sample_board_simps)
  show "snd (subagents_cancel sample_codec [(''id_or_name'', JStr ''i'')] 3 sample_board1) = sample_board2"
    by (simp add: subagents_cancel_def arg cancel_in_def find_subagent_record_in_def sample_boards sample_board_simps Let_def)
  show "check_active sample_codec 1 sample_board2 = (Ok (), sample_board2)"
    by (simp add: check_active_def active_subagent_count_def sample_boards sample_board_simps)
  show "check_scope sample_codec [[''w'', ''a'']] sample_board2 = (Ok (), sample_board2)"
    by (simp add: check_scope_def validate_subagent_file_scope_available_def scope_conflict_def sample_boards sample_board_simps)
  show "board_put_record sample_codec (sample_subagent ''j'' 2 SaQueued None None) sample_board2 = (Ok (), sample_board3)"
    by (simp add: board_put_record_def upsert_subagent_record_def sample_boards sample_board_simps)
  show "active_subagent_count sample_codec
     (worker_write sample_codec (worker_started 4 (sample_subagent ''i'' 1 SaQueued None None)) sample_board3) =
     (Ok 2, sample_board [sample_subagent ''i'' 1 SaRunning (Some 4) None, sample_subagent ''j'' 2 SaQueued None None])"
    by (simp add: worker_write_def active_subagent_count_def upsert_subagent_record_def sample_boards sample_board_simps)
qed

end
