(* ===== verification/Spec2Isabelle.thy ===== *)
theory Spec2Isabelle
  imports Sample_Env Hbse_Redaction Vegvisir_Properties Execution_Properties Msp_Properties Workspace_Properties Subagent_Properties
begin

text \<open>
  Vegvisir is a local agent harness: it connects a language model to a workspace through tools,
  behind approvals, a command sandbox and runtime policies; a vault, HBSE, keeps the secrets the
  agent may use but not read; a registry, MSP, holds the signed skills it may load. This
  development models the parts in Rust that decide: what is released, approved, run, trusted.

  \<^bold>\<open>Foundations.\<close> \<open>Harness_Prelude\<close>: results as sums (\<open>Err\<close>, \<open>Ok\<close>), state-and-error
  computations \<open>sx\<close>, ordered maps as sorted association lists (\<open>tbl_get\<close>, \<open>tbl_put\<close>), the
  collections \<open>sx_simps\<close>, \<open>tbl_simps\<close>, \<open>sx_keeps_intros\<close>. \<open>Rust_Strings\<close> and \<open>Rust_Paths\<close>:
  the functions of \<open>str\<close>, \<open>char\<close>, \<open>format!\<close> and \<open>std::path\<close> the sources call; a \<open>String\<close> is
  its UTF-8 bytes. \<open>Interfaces\<close>: the locales (a keyed store, an object sealed by a MAC, the life of
  an object over the runs of a step function) with the lemmas their clients use; each is interpreted on the model of the
  component that provides it. \<open>Runtime_Env\<close>: JSON values, the functions of other crates
  (the record \<open>rt\<close>), canonical serialization (HBSE/hbse/src/serialization.rs).

  \<^bold>\<open>The vault\<close>, components/HBSE/hbse/src. \<open>Hbse_Policy\<close> (policy.rs): the access policies and the
  engine, guard by guard. \<open>Hbse_Tickets\<close> (tickets.rs): issue, validate, consume, the MAC payload.
  \<open>Hbse_Audit\<close> (audit.rs): the hash chain. \<open>Hbse_Records\<close> (records.rs, rotation.rs), \<open>Hbse_Keys\<close>
  (keys.rs), \<open>Hbse_Crypto\<close> (crypto.rs), \<open>Hbse_Provider\<close> (provider.rs, provider_system.rs,
  recovery.rs), \<open>Hbse_Mfa\<close> (mfa.rs): secret records, key derivation, envelopes, the bindings that
  wrap the root key, one-time passwords. \<open>Hbse_Redaction\<close> (redaction.rs): masking known
  secrets in output. \<open>Hbse_Store\<close> (store.rs): the SQLite tables as ordered
  maps, every query a function. \<open>Hbse_Vault\<close>, \<open>Hbse_Secrets\<close>, \<open>Hbse_Access\<close> (vault.rs): the
  methods of the vault as \<open>sx\<close> computations on \<open>vault_store\<close>. \<open>Hbse_History\<close> and \<open>Hbse_Release\<close>:
  the vault invariant, the order between states (the audit log grows, tickets lose uses, rotation
  jobs move forward), the calls as \<open>vault_step\<close>, and what a release or an issue implies.
  \<open>Sample_Env\<close>: a concrete environment satisfying the assumptions, for the witnesses. The
  properties of this theory are about the vault.

  \<^bold>\<open>The harness\<close>, vegvisir/src. \<open>Command_Policy\<close>, \<open>Approval_Ledger\<close>, \<open>Guardrail\<close>
  (guardrails.rs): the analysis of command lines, the ledger with its file, and
  \<open>authorize_tool\<close>, gate by gate. \<open>Command_Sandbox\<close> (command_sandbox.rs): the configuration from
  the environment and the bubblewrap command line. \<open>Control_Requests\<close> (control_requests.rs) and
  \<open>Task_Manager\<close> (tasks.rs, core.rs): two registries as state machines. \<open>Runtime_Policy\<close>
  (policy.rs), \<open>Tool_Schema\<close> and \<open>Tool_Executor\<close> (tools.rs, environment.rs, types.rs): the schema
  check of arguments and the chain registry, budget, schema, guardrails, runtime gate, handler.
  \<open>Workspace_Sandbox\<close>, \<open>Workspace_Files\<close>, \<open>Workspace_Tools\<close>, \<open>Workspace_Properties\<close> (sandbox.rs,
  tools.rs): file access below the workspace root, over a model of a Unix file system with symbolic
  links (\<open>Unix_Files\<close>), what a write changes, bounded reads, the read and write tools.
  \<open>Subagent_Model\<close>, \<open>Subagent_Board\<close>, \<open>Subagent_Properties\<close> (subagents.rs, tools.rs): the records,
  budgets and launch of delegated agents, the board file, spawning and cancelling, and runs of
  spawns, worker writes and cancellations.
  \<open>Parallel_Pool\<close> (parallelism.rs): the thread pool as a step relation over the main thread, the
  workers and two bounded channels. \<open>Vegvisir_Properties\<close> and \<open>Execution_Properties\<close>: the
  properties about these.

  \<^bold>\<open>The skill protocol\<close>, components/msp/crates. \<open>Msp_Model\<close> (msp-core/src/manifest.rs, hash.rs,
  errors.rs): manifests, digests, the checks after reading, and the environment \<open>msp_env\<close>.
  \<open>Msp_Trust\<close> (signature.rs, trust_policy.rs): signatures, and the evaluation of a trust policy as
  decisions pushed in the order of the code. \<open>Msp_Registry\<close> (msp-registry/src/lib.rs): the index,
  the paths a manifest may name, loading, verification, policies on indexed skills and packs, the
  members of a pack. \<open>Msp_Semver\<close>: versions and requirements. \<open>Dependency_Walk\<close>: the depth-first
  walk two functions of the registry share, with the locale \<open>keyed_walk\<close>, in which the walk is
  proved to visit what is reachable and to report a cycle exactly where there is one;
  \<open>Msp_Dependencies\<close> interprets it for the resolution of dependencies and for their evaluation
  under a policy. \<open>Msp_Compat\<close> (lib.rs, protocol.rs): what a runtime must offer, and search.
  \<open>Msp_Verification\<close> (verification.rs): the verdict of an execution report. \<open>Msp_Properties\<close>: the
  properties about these, and a sample registry for the witnesses. The operations on \<open>f64\<close> are a
  parameter (\<open>float_ops\<close>) and no property needs a law of them.

  \<^bold>\<open>How the parts meet.\<close> \<open>execute\<close> calls \<open>authorize_tool\<close>, which reads the command analysis and
  the sandbox's network policy and consumes approvals of the ledger; then the runtime gate; then
  the handler. Releases go through \<open>consume_ticket_for_secret\<close>, which composes the ticket check,
  the policy engine, the store, the envelope and the audit log.

  \<^bold>\<open>Parameters.\<close> Other crates and the outside are arguments: HMAC, SHA, AES-GCM, scrypt, Ed25519,
  base64, the JSON printer and parser, the clock, random draws, environment variables, files. Where
  a property needs a law of one (decryption inverts encryption, base64 round-trips), it is a named
  hypothesis (\<open>aead_ok\<close>, \<open>codec_ok\<close>, \<open>env_ok\<close>, \<open>signing_ok\<close>) and a witness discharges it on a
  concrete function.

  \<^bold>\<open>Bounds and fuel.\<close> The counter-mode KDF loops with fuel 32, one unit per block, and stops once
  it has 32 bytes: an HMAC block adds 32, so one is enough (\<open>kdf_length\<close>). A run of the pool takes at most
  \<open>10 * length xs + 3 * n + 4\<close> steps, proved by a measure. The walks over dependencies run on fuel, one
  more than the number of indexed manifests: every level of the recursion enters an indexed id that
  is not on the stack (\<open>walk_returns_within\<close>, \<open>dependency_walks_return\<close>). The subagent
  board keeps 64 records, and its property is about runs with no more spawns than that. Counters that wrap in the code
  are words (ticket uses, base32 buffers); task numbers and lengths are \<open>nat\<close> below \<open>2 ^ 64\<close>.

  \<^bold>\<open>Not modelled.\<close> A poisoned mutex and failing writes inside SQLite; the tool handlers, model
  providers, terminal interface, bridges and servers, which are input and output around external
  programs and services; the TPM, YubiKey and broker processes; the text rankings of CMS-v2 and
  the document ingestion of Skiller; agent administration and linked skill libraries, which read,
  edit and print configuration files. PROJECT.json lists every part with its reason.
\<close>

section \<open>The secret vault over time\<close>







section \<open>Releasing and issuing\<close>

text \<open>C4: Plaintext leaves the vault through a ticket only if the ticket is genuine, live and
  issued for exactly this request, the policy it names is unchanged, the secret version it names
  is the latest and active, export is enabled where raw export is asked for, and what is released
  is the decryption of that version; the ticket loses one use and the release is logged.\<close>

theorem release_conditions:
  assumes "consume_ticket_for_secret X H D i r pass s = (Inr pt, s')"
  shows "\<exists>h k t u p x.
     unlock X H (Some pass) s = (Inr (h, k), s) \<and> read_ticket s i = Some t \<and>
     ticket_live X (ticket_mac_key X k) t (dr_clock D) \<and> ticket_context_ok t r \<and>
     find (\<lambda>p. ap_policy_id p = tk_policy_id t) (map snd (vs_policies s)) = Some p \<and>
     tk_policy_hash t = policy_hash X p \<and>
     (ar_raw_export_requested r \<longrightarrow> export_enabled s \<and> (totp_active s \<longrightarrow> ar_mfa_verified r)) \<and>
     record_for s t = Some x \<and> sr_status x = Active \<and> decrypt_secret X k x = Ok pt \<and>
     (tk_secret_version t \<noteq> 0 \<longrightarrow> (\<exists>y. latest_secret s (tk_secret_ref t) = Some y \<and>
        sr_secret_version y = unat (tk_secret_version t) \<and> sr_status y = Active)) \<and>
     read_ticket s' (tk_ticket_id t) = Some u \<and>
     unat (tk_uses_remaining u) + 1 = unat (tk_uses_remaining t) \<and>
     (\<exists>e. vs_audit s' = vs_audit s @ [e] \<and> ae_event_type e = ''secret.materialized'')"
proof -
  from consume_ticket_Ok [OF assms] obtain t u k where
    rel: "released_by X H D i r pass s pt s' t u k" by blast
  then have "unat (tk_uses_remaining u) + 1 = unat (tk_uses_remaining t)"
    by (auto simp: released_by_def consume_Ok_iff ticket_live_def uses_decrease unat_gt_0)
  moreover have "validate_policy t p (policy_hash X p) = Ok () \<Longrightarrow> tk_policy_hash t = policy_hash X p" for p
    by (simp add: validate_policy_def split: if_splits)
  ultimately show ?thesis
    using rel unfolding released_by_def ticket_accepted_def by blast
qed

theorem release_conditions_witness:
  "\<exists>s' t. consume_ticket_for_secret sample_rt sample_host (sample_draws ''u'' ''a1'' 5) ''t''
       (sample_request 5) ''pw'' sample_store = (Inr ''hunter2'', s') \<and>
     read_ticket sample_store ''t'' = Some t \<and> ticket_context_ok t (sample_request 5)"
  using sample_consume release_conditions by blast

text \<open>C5: A ticket is issued only for an active secret and only where some stored policy permits
  the request; it is sealed, carries that policy's budget and hash, and is bound to the request.\<close>

theorem issue_conditions:
  assumes "issue_ticket X H D r pass s = (Inr t, s')" and "clock_ok X"
  shows "\<exists>h k p x. unlock X H (Some pass) s = (Inr (h, k), s) \<and>
     latest_secret s (ar_secret_ref r) = Some x \<and> sr_status x = Active \<and>
     p \<in> set (map snd (vs_policies s)) \<and> policy_permits p r \<and>
     ticket_mac X (ticket_mac_key X k) (ticket_payload t) = tk_mac t \<and> ticket_context_ok t r \<and>
     tk_uses_remaining t = ap_max_uses p \<and> tk_policy_id t = ap_policy_id p \<and>
     tk_policy_hash t = policy_hash X p \<and> \<not> tk_revoked t \<and> read_ticket s' (tk_ticket_id t) = Some t"
proof -
  from issue_ticket_Ok [OF assms(1)] obtain h k p x where
    i: "issue X (ticket_mac_key X k) (dr_uuid D) (vh_vault_id h) (sr_secret_id x)
       (of_nat (sr_secret_version x)) r p (policy_hash X p) (ar_broker_session_id r) = Some t"
    and rest: "unlock X H (Some pass) s = (Inr (h, k), s)" "latest_secret s (ar_secret_ref r) = Some x"
      "sr_status x = Active" "p \<in> set (map snd (vs_policies s))" "policy_permits p r"
      "read_ticket s' (tk_ticket_id t) = Some t" by blast
  note f = issue_Some_D [OF i assms(2)]
  from f(1,2,4,6,7) f(12) [OF refl] rest show ?thesis by blast
qed

theorem issue_conditions_witness:
  "\<exists>t s' p. issue_ticket sample_rt sample_host (sample_draws ''u'' ''a1'' 5) (sample_request 5) ''pw''
       sample_store = (Inr t, s') \<and> policy_permits p (sample_request 5)"
  using sample_issue_ticket issue_conditions [OF _ sample_clock_ok] by blast

text \<open>Where no stored policy permits the request the call fails with that reason, no ticket is
  written, and one denial event is logged.\<close>

theorem issue_denied_and_logged:
  assumes "unlock X H (Some pass) s = (Inr (h, k), s)"
    and "latest_secret s (ar_secret_ref r) = Some x" and "sr_status x = Active"
    and "\<forall>p \<in> set (map snd (vs_policies s)). \<not> policy_permits p r"
    and "dr_audit_uuid D \<notin> ae_event_id ` set (vs_audit s)"
  shows "\<exists>e. issue_ticket X H D r pass s =
      (Err (PolicyDenied ''no matching allow policy''), s\<lparr>vs_audit := vs_audit s @ [e]\<rparr>) \<and>
      ae_event_type e = ''ticket.issue_denied'' \<and> ae_decision e = ''deny''"
  using assms by (rule issue_ticket_denied)

theorem issue_denied_and_logged_witness:
  "fst (issue_ticket sample_rt sample_host (sample_draws ''u'' ''a1'' 5) (sample_request 2000000000) ''pw''
     sample_store) = Err (PolicyDenied ''no matching allow policy'')"
proof -
  have "latest_secret sample_store (ar_secret_ref (sample_request 2000000000)) = Some sample_record"
    by (simp add: sample_request_def)
  then show ?thesis
    using issue_denied_and_logged [OF sample_unlock, of sample_store "sample_request 2000000000" sample_record
        "sample_draws ''u'' ''a1'' 5"] sample_expired [of 2000000000] by auto
qed


section \<open>Policies\<close>

text \<open>C7: The policy engine allows a request exactly where some policy permits it, and reports
  the first that does; a policy permits what its declarative condition says, every guard of the
  evaluator included.\<close>

theorem engine_decides_permission:
  "(ev_decision (evaluate ps r) = Allow \<longleftrightarrow> (\<exists>p \<in> set ps. policy_permits p r)) \<and>
   ev_policy (evaluate ps r) = find (\<lambda>p. policy_permits p r) ps \<and>
   (ev_decision (evaluate_policy p r) = Allow \<longleftrightarrow> policy_permits p r)"
proof (cases "find (\<lambda>p. policy_permits p r) ps")
  case None
  then have "\<not> (\<exists>p \<in> set ps. policy_permits p r)" by (auto simp: find_None_iff)
  with None show ?thesis by (simp add: evaluate_find evaluate_policy_Allow_iff)
next
  case (Some q)
  then have "policy_permits q r \<and> q \<in> set ps" by (rule find_member)
  with Some show ?thesis by (auto simp: evaluate_find evaluate_policy_Allow_iff)
qed

text \<open>Plaintext export through a policy needs the policy to be exportable, and for raw or
  terminal delivery either the explicit waiver or a request whose user, executable path or
  executable hash the policy lists.\<close>

theorem raw_export_is_bound:
  assumes "ev_decision (evaluate_policy p r) = Allow" and "ar_raw_export_requested r"
    and "ar_delivery_mode r \<in> {Raw, TerminalPrint}"
  shows "ap_exportable p \<and>
    (ap_allow_unbound_plaintext_export p \<or>
     (\<exists>u. ar_os_uid r = Some u \<and> u \<in> set (ap_allowed_os_uids p)) \<or>
     (\<exists>x. ar_executable_path r = Some x \<and> x \<in> set (ap_allowed_executable_paths p)) \<or>
     (\<exists>h. ar_executable_sha256 r = Some h \<and> h \<in> set (ap_allowed_executable_sha256 p)))"
  using assms permits_bound_peer [of p r]
  by (auto simp: evaluate_policy_Allow_iff policy_permits_def export_permits_def)

theorem raw_export_is_bound_witness:
  "let p = (default_policy ''p'')\<lparr>ap_secret_refs := [''*''], ap_allowed_consumers := [''*''],
          ap_allowed_purposes := [''*''], ap_allowed_delivery_modes := [Raw], ap_exportable := True,
          ap_allowed_os_uids := [1000]\<rparr>;
       r = (sample_request 0)\<lparr>ar_raw_export_requested := True, ar_delivery_mode := Raw,
          ar_os_uid := Some 1000\<rparr>
   in ap_exportable p \<and> ar_os_uid r = Some 1000"
proof -
  let ?p = "(default_policy ''p'')\<lparr>ap_secret_refs := [''*''], ap_allowed_consumers := [''*''],
          ap_allowed_purposes := [''*''], ap_allowed_delivery_modes := [Raw], ap_exportable := True,
          ap_allowed_os_uids := [1000]\<rparr>"
  let ?r = "(sample_request 0)\<lparr>ar_raw_export_requested := True, ar_delivery_mode := Raw,
          ar_os_uid := Some 1000\<rparr>"
  have "policy_permits ?p ?r"
    by (simp add: policy_permits_def default_policy_def sample_request_def covers_def
      not_denied_def is_some_and_def allow_list_ok_def export_permits_def assurance_rank_def
      default_minimum_provider_assurance_def policy_has_peer_binding_def)
  then have "ev_decision (evaluate_policy ?p ?r) = Allow" by (simp add: evaluate_policy_Allow_iff)
  from raw_export_is_bound [OF this] show ?thesis by (simp add: Let_def)
qed

text \<open>A minimum assurance outside A0 to A5 is no minimum: such a policy decides as one whose
  minimum is A0, for every request that states a known level.\<close>

theorem unknown_minimum_is_no_minimum:
  assumes "assurance_rank (ap_minimum_provider_assurance p) = -1"
    and "0 \<le> assurance_rank (ar_provider_assurance r)"
  shows "ev_decision (evaluate_policy p r) =
         ev_decision (evaluate_policy (p\<lparr>ap_minimum_provider_assurance := ''A0''\<rparr>) r)"
proof -
  have "policy_permits p r \<longleftrightarrow> policy_permits (p\<lparr>ap_minimum_provider_assurance := ''A0''\<rparr>) r"
  proof -
    let ?q = "p\<lparr>ap_minimum_provider_assurance := ''A0''\<rparr>"
    have parts: "http_permits ?q r = http_permits p r" "not_denied ?q r = not_denied p r"
      "export_permits ?q r = export_permits p r"
      by (cases p, simp only: http_permits_def access_policy.simps,
          cases p, simp only: not_denied_def access_policy.simps,
          cases p, simp only: export_permits_def policy_has_peer_binding_def access_policy.simps)
    have fields: "ap_secret_refs ?q = ap_secret_refs p" "ap_expires_at ?q = ap_expires_at p"
      "ap_allowed_consumers ?q = ap_allowed_consumers p" "ap_allowed_purposes ?q = ap_allowed_purposes p"
      "ap_allowed_delivery_modes ?q = ap_allowed_delivery_modes p"
      "ap_allowed_os_uids ?q = ap_allowed_os_uids p"
      "ap_allowed_executable_paths ?q = ap_allowed_executable_paths p"
      "ap_allowed_executable_sha256 ?q = ap_allowed_executable_sha256 p"
      "ap_minimum_provider_assurance ?q = ''A0''" "ap_require_mfa ?q = ap_require_mfa p"
      by simp_all
    have rank: "assurance_rank (ap_minimum_provider_assurance p) \<le> assurance_rank (ar_provider_assurance r)"
      "assurance_rank ''A0'' \<le> assurance_rank (ar_provider_assurance r)"
      using assms by (simp_all add: assurance_rank_def [of "''A0''"])
    show ?thesis unfolding policy_permits_def by (simp only: parts fields rank)
  qed
  moreover have "d = e" if "d = Allow \<longleftrightarrow> e = Allow" for d e
    using that by (cases d; cases e) simp_all
  ultimately show ?thesis by (simp only: evaluate_policy_Allow_iff)
qed

theorem unknown_minimum_is_no_minimum_witness:
  "ev_decision (evaluate_policy (sample_policy\<lparr>ap_minimum_provider_assurance := ''a3''\<rparr>)
     ((sample_request 0)\<lparr>ar_provider_assurance := ''A0''\<rparr>)) = Allow"
proof -
  let ?p = "sample_policy\<lparr>ap_minimum_provider_assurance := ''a3''\<rparr>"
  let ?r = "(sample_request 0)\<lparr>ar_provider_assurance := ''A0''\<rparr>"
  have "policy_permits (?p\<lparr>ap_minimum_provider_assurance := ''A0''\<rparr>) ?r"
    by (simp add: policy_permits_def sample_policy_def default_policy_def sample_request_def covers_def
      not_denied_def is_some_and_def allow_list_ok_def export_permits_def assurance_rank_def)
  then have "ev_decision (evaluate_policy (?p\<lparr>ap_minimum_provider_assurance := ''A0''\<rparr>) ?r) = Allow"
    by (rule evaluate_policy_Allow_iff [THEN iffD2])
  moreover have "ev_decision (evaluate_policy ?p ?r) =
      ev_decision (evaluate_policy (?p\<lparr>ap_minimum_provider_assurance := ''A0''\<rparr>) ?r)"
    by (rule unknown_minimum_is_no_minimum) (simp_all add: assurance_rank_def)
  ultimately show ?thesis by simp
qed

section \<open>Tickets\<close>

text \<open>C10: The MAC of a ticket is over all of its other fields: two tickets have the same MAC
  payload exactly where they differ in nothing but the MAC, and the payload always serializes.\<close>

theorem ticket_mac_covers_every_field:
  "(ticket_payload t = ticket_payload u \<longleftrightarrow> t\<lparr>tk_mac := []\<rparr> = u\<lparr>tk_mac := []\<rparr>) \<and>
   is_ok (canonical_json_bytes X (ticket_payload t))"
  by (simp add: ticket_payload_eq_iff ticket_payload_canonical)

text \<open>The policy hash is over every field of the policy: policies with the same hash input
  are equal, where times print differently.\<close>

theorem policy_hash_covers_every_field:
  assumes "inj (rt_rfc3339 X)"
  shows "json_obj (policy_fields X p) = json_obj (policy_fields X q) \<longleftrightarrow> p = q"
  using policy_fields_eq [OF assms] by blast

theorem policy_hash_covers_every_field_witness:
  "json_obj (policy_fields sample_rt sample_policy) \<noteq>
   json_obj (policy_fields sample_rt (sample_policy\<lparr>ap_require_mfa := True\<rparr>))"
proof -
  have "inj (rt_rfc3339 sample_rt)"
    by (rule inj_on_inverseI [where g = read_int]) (simp add: sample_rt_def)
  from policy_hash_covers_every_field [OF this] show ?thesis
    by (simp add: sample_policy_def default_policy_def)
qed

text \<open>C12: A ticket that validates is genuine, unrevoked, unspent, unexpired and matches the
  request in every bound field; consuming it yields the same ticket with one use less, resealed.\<close>

theorem validation_decides_ticket:
  "(validate X k t r now = Ok () \<longleftrightarrow> ticket_live X k t now \<and> ticket_context_ok t r) \<and>
   (consume X k t r now = Ok u \<longleftrightarrow> ticket_live X k t now \<and> ticket_context_ok t r \<and>
      u = ticket_seal X k (t\<lparr>tk_uses_remaining := tk_uses_remaining t - 1\<rparr>))"
  by (simp add: validate_Ok_iff consume_Ok_iff)

text \<open>Renewal asks no policy: a ticket that still validates is renewed with a full budget
  and a new expiry even where the engine denies the very request, for instance after the policy
  has expired.\<close>

theorem renewal_skips_policy:
  assumes "ev_decision (evaluate (map snd (vs_policies s)) r) = Deny"
    and "unlock X H (Some pass) s = (Inr (h, k), s)"
    and "read_ticket s i = Some t" and "ticket_accepted X (ticket_mac_key X k) (dr_clock D) r s t"
    and "find (\<lambda>p. ap_policy_id p = tk_policy_id t) (map snd (vs_policies s)) = Some p"
    and "rt_add_seconds X (ar_now r) (sint (ap_max_ticket_ttl_seconds p)) = Some e"
    and "dr_audit_uuid D \<notin> ae_event_id ` set (vs_audit s)"
  shows "\<exists>n s'. renew_ticket X H D i r pass s = (Inr n, s') \<and>
     tk_uses_remaining n = ap_max_uses p \<and> tk_expires_at n = rt_utc_millis X e"
  using renew_ticket_succeeds [OF assms(2-7)] by blast

theorem renewal_skips_policy_witness:
  "ap_expires_at sample_policy = Some 1000000000 \<and>
   (\<exists>n s'. renew_ticket sample_rt sample_host (sample_draws ''u'' ''a1'' 2000000000) ''t''
       (sample_request 2000000000) ''pw'' sample_store = (Inr n, s') \<and> tk_uses_remaining n = 2 \<and>
     tk_expires_at n = rt_utc_millis sample_rt 62000000000)"
proof -
  let ?D = "sample_draws ''u'' ''a1'' 2000000000" and ?r = "sample_request 2000000000"
  have "ev_decision (evaluate (map snd (vs_policies sample_store)) ?r) = Deny"
    using sample_expired [of 2000000000] by (simp add: evaluate_find del: evaluate.simps)
  moreover have "ticket_accepted sample_rt (ticket_mac_key sample_rt sample_keys) (dr_clock ?D) ?r
      sample_store sample_ticket"
    using sample_accepted [of 2000000000 2000000000] by (simp add: sample_draws_def)
  moreover have "find (\<lambda>p. ap_policy_id p = tk_policy_id sample_ticket) (map snd (vs_policies sample_store)) =
      Some sample_policy"
    using sample_ticket_facts(6) by simp
  moreover have "rt_add_seconds sample_rt (ar_now ?r) (sint (ap_max_ticket_ttl_seconds sample_policy)) =
      Some 62000000000"
    by (simp add: sample_rt_def sample_request_def)
  ultimately show ?thesis
    using renewal_skips_policy [OF _ sample_unlock, of sample_store ?r "''t''" sample_ticket ?D
        sample_policy 62000000000] by simp
qed


section \<open>Secrets and rotation\<close>

text \<open>C14: What is stored is what is read: after \<open>put_secret\<close> reports a version, \<open>get_secret\<close>
  returns the plaintext, the version is above all earlier ones, and no other reference changed.\<close>

theorem put_then_get:
  assumes "vault_inv X H K s" and "put_secret X H D ref pt pass ty s = (Inr ver, s')"
    and "seal_with X D" and "dr_audit_uuid D' \<notin> ae_event_id ` set (vs_audit s')"
  shows "fst (get_secret X H D' ref pass s') = Ok pt \<and>
     (\<forall>m. max_version s ref = Some m \<longrightarrow> m < ver) \<and>
     (\<forall>ref'. ref' \<noteq> ref \<longrightarrow> latest_secret s' ref' = latest_secret s ref')"
  using get_put [OF assms] put_then_latest [OF assms(1,2)] by blast

theorem put_then_get_witness:
  "\<exists>s'. put_secret sample_rt sample_host (sample_draws ''u'' ''a1'' 5) ''secret://a'' ''new'' ''pw'' ApiKey
       sample_store = (Inr 2, s') \<and>
     fst (get_secret sample_rt sample_host (sample_draws ''u'' ''a2'' 6) ''secret://a'' ''pw'' s') = Ok ''new''"
proof -
  obtain s' where p: "put_secret sample_rt sample_host (sample_draws ''u'' ''a1'' 5) ''secret://a'' ''new''
      ''pw'' ApiKey sample_store = (Inr 2, s')" and a: "ae_event_id ` set (vs_audit s') = {''a1''}"
    using sample_put by blast
  have "seal_with sample_rt (sample_draws ''u'' ''a1'' 5)"
    using sample_aead_ok sample_codec_ok
    by (simp add: seal_with_def sample_draws_def key_size_def nonce_size_def)
  moreover have "dr_audit_uuid (sample_draws ''u'' ''a2'' 6) \<notin> ae_event_id ` set (vs_audit s')"
    unfolding a by (simp add: sample_draws_def)
  ultimately show ?thesis using put_then_get [OF sample_inv p] p by blast
qed

text \<open>C15: A secret that was disabled or destroyed is unreadable: \<open>get_secret\<close> fails, and so does
  every ticket bound to a version of it.\<close>

theorem disabled_secret_is_unreadable:
  assumes "vault_inv X H K s"
    and "disable_secret X H D ref pass s = (Inr r, s') \<or> destroy_secret X H D ref pass s = (Inr r, s')"
  shows "\<not> is_ok (fst (get_secret X H D' ref pass' s')) \<and>
    (\<forall>i t req. read_ticket s' i = Some t \<and> tk_secret_ref t = ref \<and> tk_secret_version t \<noteq> 0 \<longrightarrow>
       \<not> is_ok (fst (consume_ticket_for_secret X H D' i req pass' s')))"
proof -
  from assms obtain m status where "m = disable_secret X H D ref pass \<and> status = Disabled \<or>
      m = destroy_secret X H D ref pass \<and> status = Destroyed" and "m s = (Inr r, s')" by metis
  from set_status_Ok [OF assms(1) this] assms(2)
  have l: "latest_secret s' ref = Some r" "sr_status r = status" "status \<noteq> Active"
    using \<open>m = _ \<and> _ \<or> _\<close> by auto
  have "\<not> is_ok (fst (consume_ticket_for_secret X H D' i req pass' s'))"
    if t: "read_ticket s' i = Some t" "tk_secret_ref t = ref" "tk_secret_version t \<noteq> 0" for i t req
  proof
    assume "is_ok (fst (consume_ticket_for_secret X H D' i req pass' s'))"
    then obtain pt s2 where "consume_ticket_for_secret X H D' i req pass' s' = (Inr pt, s2)"
      by (auto simp: is_ok_iff prod_eq_iff)
    from consume_ticket_Ok [OF this] t l show False
      by (auto simp: released_by_def ticket_accepted_def)
  qed
  with get_secret_inactive [OF l(1)] l show ?thesis by blast
qed

theorem disabled_secret_is_unreadable_witness:
  "\<exists>r s'. disable_secret sample_rt sample_host (sample_draws ''u'' ''a1'' 5) ''secret://a'' ''pw'' sample_store =
       (Inr r, s') \<and>
     \<not> is_ok (fst (get_secret sample_rt sample_host (sample_draws ''u'' ''a2'' 6) ''secret://a'' ''pw'' s'))"
  using sample_disable disabled_secret_is_unreadable [OF sample_inv] by blast



text \<open>Starting a rotation does not reserve its version: a secret stored between the start and
  the promotion gets the same version number, and the promotion replaces that newer record by the
  staged one, under the same version and as the latest.\<close>

theorem promotion_overwrites_newer_version:
  assumes "vault_inv X H K s" and "read_job s i = Some j" and "rj_secret_ref j = ref"
    and "rj_staged_version j = next_version (max_version s ref)"
    and "put_secret X H D ref pt pass ty s = (Inr ver, s1)"
    and "promote_rotation X H D' i pass' s1 = (Inr j', s2)"
  shows "ver = rj_staged_version j \<and>
     latest_secret s2 ref = Some ((rj_staged_record j)\<lparr>sr_status := Active\<rparr>) \<and>
     tbl_get ver (secret_versions s2 ref) = Some ((rj_staged_record j)\<lparr>sr_status := Active\<rparr>)"
proof -
  from put_secret_Ok [OF assms(5)] obtain r where ver: "ver = next_version (max_version s ref)"
    and s1: "vs_secrets s1 = vs_secrets (write_secret ref ver r s)" "vs_jobs s1 = vs_jobs s" by blast
  have inv: "vault_inv X H K s1"
    using sx_keeps_state [OF keeps_put_secret vault_hist_refl [OF assms(1)], of D ref pt pass ty] assms(5)
    by (simp add: vault_hist_def)
  have "max_version (write_secret ref ver r s) ref = Some ver"
    using next_version_above [of s ref] unfolding ver
    by (intro latest_after_write inv_versions [OF assms(1)]) (auto intro: less_imp_le)
  then have "\<forall>m. max_version s1 (rj_secret_ref j) = Some m \<longrightarrow> m \<le> rj_staged_version j"
    using secrets_cong [OF s1(1)] assms(3,4) ver by simp
  moreover have "read_job s1 i = Some j" using assms(2) s1(2) by (simp add: read_job_def)
  ultimately show ?thesis
    using promote_latest [OF inv assms(6)] assms(3,4) ver by simp
qed

theorem promotion_overwrites_newer_version_witness:
  "\<exists>s1 j s2. put_secret sample_rt sample_host (sample_draws ''u'' ''a1'' 5) ''secret://a'' ''new'' ''pw'' ApiKey
       sample_store = (Inr 2, s1) \<and>
     promote_rotation sample_rt sample_host (sample_draws ''u'' ''a5'' 5) ''j'' ''pw'' s1 = (Inr j, s2) \<and>
     latest_secret s2 ''secret://a'' = Some (sample_version 2 ''staged'')"
proof -
  obtain s1 where p: "put_secret sample_rt sample_host (sample_draws ''u'' ''a1'' 5) ''secret://a'' ''new'' ''pw''
      ApiKey sample_store = (Inr 2, s1)" and a: "ae_event_id ` set (vs_audit s1) = {''a1''}"
    using sample_put by blast
  from put_secret_Ok [OF p] have "vs_header s1 = Some sample_header" "read_job s1 ''j'' = Some sample_job"
    by (auto simp: read_job_def sample_store_def tbl_get_Cons)
  from sample_promote_from [OF this] a obtain j s2 where
    q: "promote_rotation sample_rt sample_host (sample_draws ''u'' ''a5'' 5) ''j'' ''pw'' s1 = (Inr j, s2)" by auto
  have "(sample_version 2 ''staged'')\<lparr>sr_status := Active\<rparr> = sample_version 2 ''staged''"
    by (simp add: sample_version_def encrypt_secret_def Let_def)
  with promotion_overwrites_newer_version [OF sample_inv _ _ _ p q, of sample_job] p q show ?thesis
    by (auto simp: next_version_def)
qed


section \<open>Audit log and keys\<close>

text \<open>C18: The audit log is tamper-evident up to its last hash: two logs that verify and end in
  the same event hash record the same events in every hashed field, where the hash separates the
  payloads involved and none hashes to the start value.\<close>

theorem audit_log_is_fixed_by_its_head:
  assumes "verify_audit_chain X es k = Ok ()" and "verify_audit_chain X fs k = Ok ()"
    and "chain_head zero_hash es = chain_head zero_hash fs"
    and "inj_on (audit_hash X) (hash_payload ` (set es \<union> set fs))"
    and "zero_hash \<notin> ae_event_hash ` (set es \<union> set fs)"
  shows "map hash_payload es = map hash_payload fs"
  using verified_histories [of X k es fs] assms by (simp add: verify_audit_chain_def)

theorem audit_log_is_fixed_by_its_head_witness:
  "let e = audit_append sample_rt ''k'' [] ''a0'' 0 ''v'' ''ns'' ''x'' ''info'' ''allow'' []
   in verify_audit_chain sample_rt [e] ''k'' = Ok () \<and>
      map hash_payload [e] = map hash_payload [e\<lparr>ae_event_mac := ae_event_mac e\<rparr>]"
proof -
  let ?e = "audit_append sample_rt ''k'' [] ''a0'' 0 ''v'' ''ns'' ''x'' ''info'' ''allow'' []"
  have v: "verify_audit_chain sample_rt [?e] ''k'' = Ok ()"
    using audit_append_first [of sample_rt "''k''"]
    by (simp add: verify_audit_chain_def verify_from_Cons del: verify_from.simps(2))
  have "ae_event_hash ?e \<noteq> zero_hash"
    by (simp add: audit_append_def Let_def audit_hash_def canonical_json_bytes_def json_obj_def
        zero_hash_def) (simp add: sample_rt_def)
  then have "map hash_payload [?e] = map hash_payload [?e\<lparr>ae_event_mac := ae_event_mac ?e\<rparr>]"
    by (intro audit_log_is_fixed_by_its_head [of sample_rt _ "''k''"])
      (simp_all add: v del: audit_append_type)
  with v show ?thesis by (simp add: Let_def)
qed

text \<open>Verification does not see a log cut short: every prefix of a log that verifies, the
  empty one included, verifies as well.\<close>

theorem truncated_audit_log_verifies:
  assumes "verify_audit_chain X es k = Ok ()"
  shows "verify_audit_chain X (take n es) k = Ok ()"
  using assms verify_prefix [of X "take n es" "drop n es" k] by simp

theorem truncated_audit_log_verifies_witness:
  "let e = audit_append sample_rt ''k'' [] ''a0'' 0 ''v'' ''ns'' ''x'' ''info'' ''allow'' []
   in verify_audit_chain sample_rt (take 0 [e]) ''k'' = Ok ()"
proof -
  let ?e = "audit_append sample_rt ''k'' [] ''a0'' 0 ''v'' ''ns'' ''x'' ''info'' ''allow'' []"
  have "verify_audit_chain sample_rt [?e] ''k'' = Ok ()"
    using audit_append_first [of sample_rt "''k''"]
    by (simp add: verify_audit_chain_def verify_from_Cons del: verify_from.simps(2))
  from truncated_audit_log_verifies [OF this, of 0] show ?thesis by (simp add: Let_def)
qed

text \<open>C20: Key derivation for the internal labels never fails and gives 32 bytes; keys of two
  secret versions come from different KDF blocks unless the secret and the version are the same.\<close>

theorem derived_keys_are_separate:
  assumes "codec_ok X" and "CHR '':'' \<notin> set sid" and "CHR '':'' \<notin> set sid'"
  shows "length (secret_kek X keys sid ver) = 32 \<and> length (ticket_mac_key X keys) = 32 \<and>
     (kdf_block (secret_kek_label keys sid ver) c = kdf_block (secret_kek_label keys sid' ver') c \<longleftrightarrow>
      sid = sid' \<and> ver = ver')"
proof -
  have "length (secret_kek X keys sid ver) = 32" "length (ticket_mac_key X keys) = 32"
    by (simp_all add: secret_kek_def ticket_mac_key_def expect_key_length [OF assms(1)] purpose_key_Ok
        secret_kek_Ok) (simp_all add: key_size_def)
  then show ?thesis using secret_kek_label_inj [OF assms(2,3)] by (auto simp: kdf_block_inj)
qed

theorem derived_keys_are_separate_witness:
  "kdf_block (secret_kek_label sample_keys ''a'' 1) 1 \<noteq> kdf_block (secret_kek_label sample_keys ''a'' 2) 1"
  using derived_keys_are_separate [OF sample_codec_ok, of "''a''" "''a''" sample_keys 1 1 2] by simp

section \<open>Encryption and wrapping\<close>

text \<open>C21: An encrypted secret decrypts to its plaintext under the vault's keys; a record that
  decrypts belongs to the vault and its stored hash binds its identity, version, type and policy;
  the status is not among what is bound.\<close>

theorem envelope_round_trip_and_binding:
  assumes "aead_ok X" and "codec_ok X"
    and "length dek = key_size" and "length sn = nonce_size" and "length dn = nonce_size"
  shows "decrypt_secret X keys
           (encrypt_secret X clock dek sn dn keys ns sid ref ver pt ty pid ph mh pph) = Ok pt \<and>
     (\<forall>r out. decrypt_secret X keys r = Ok out \<longrightarrow>
        sr_vault_id r = kh_vault_id keys \<and>
        (\<exists>created \<in> set (created_at_aad_candidates X (sr_created_at r)).
           sr_secret_aad_hash r = hash_bytes X (secret_aad X (sr_vault_id r) (sr_namespace_id r)
             (sr_secret_id r) (sr_secret_ref r) (sr_secret_version r) (sr_secret_type r)
             (sr_policy_id r) (sr_policy_hash r) (sr_metadata_hash r) created)) \<and>
        (\<forall>status. decrypt_secret X keys (r\<lparr>sr_status := status\<rparr>) = Ok out))"
  using decrypt_encrypt [OF assms] decrypt_bound by fastforce

theorem envelope_round_trip_and_binding_witness:
  "decrypt_secret sample_rt sample_keys
     (encrypt_secret sample_rt 0 (replicate 32 (CHR ''d'')) (replicate 12 (CHR ''s''))
       (replicate 12 (CHR ''k'')) sample_keys ''ns'' ''id'' ''secret://a'' 1 ''hunter2'' ApiKey ''p'' ''h''
       ''m'' ''q'') = Ok ''hunter2''"
  using envelope_round_trip_and_binding [OF sample_aead_ok sample_codec_ok,
      of "replicate 32 (CHR ''d'')" "replicate 12 (CHR ''s'')" "replicate 12 (CHR ''k'')"]
  by (simp add: key_size_def nonce_size_def)

text \<open>The root key comes back from each binding it was wrapped in: with the same passphrase,
  on the same host, and from a recovery package with its secret.\<close>

theorem root_key_unwraps:
  assumes "aead_ok X" and "codec_ok X" and "length nonce = 12"
  shows "(wrap_root_key X params salt nonce vid root pass = Ok b \<longrightarrow>
            unwrap_root_key X vid b pass = Ok root) \<and>
     (system_wrap_root_key X files params salt nonce vid root = Ok sb \<longrightarrow>
            system_unwrap_root_key X files vid sb = Ok root) \<and>
     (create_package X rid clock salt nonce vid root secret = Ok p \<longrightarrow>
            package_unwrap_root_key X p secret = Ok root) \<and>
     binding_of_json (binding_json b) = Some b \<and>
     system_binding_of_json (system_binding_json sb) = Some sb"
  using unwrap_wrap [OF assms] system_unwrap_wrap [OF assms] package_unwrap_create [OF assms] by simp

theorem root_key_unwraps_witness:
  "unwrap_root_key sample_rt ''v'' sample_binding ''pw'' = Ok sample_root"
  using root_key_unwraps [OF sample_aead_ok sample_codec_ok, of "replicate 12 (CHR ''n'')"
      default_scrypt "''salt''" "''v''" sample_root "''pw''" sample_binding] sample_wrap by simp

text \<open>Recovery does not check whose key a package holds: a package that names the vault but
  wraps any other root key is accepted, the header is rewritten, and the vault then unlocks to
  that other key.\<close>

theorem recovery_accepts_any_root_key:
  assumes "aead_ok X" and "codec_ok X" and "length (dr_wrap_nonce D) = 12" and "length nonce = 12"
    and "vs_header s = Some h" and "length root_key = key_size"
    and "create_package X rid clock salt nonce (vh_vault_id h) root_key secret = Ok package"
    and "passphrase_derive X default_scrypt new_pass (dr_salt D) = Ok wk"
    and "dr_audit_uuid D \<notin> ae_event_id ` set (vs_audit s)"
  shows "\<exists>h' s'. recover_provider_from_package X H D package secret ''passphrase'' (Some new_pass) dev s = (Inr h', s') \<and>
     unlock X H (Some new_pass) s' =
       (Inr (h', \<lparr>kh_vault_id = vh_vault_id h, kh_root_key = root_key\<rparr>), s')"
  using assms by (rule recover_takes_any_key)

theorem recovery_accepts_any_root_key_witness:
  "\<exists>package h' s' k. recover_provider_from_package sample_rt sample_host (sample_draws ''u'' ''a1'' 5) package
       ''rec'' ''passphrase'' (Some ''new'') '''' sample_store = (Inr h', s') \<and>
     unlock sample_rt sample_host (Some ''new'') s' = (Inr (h', k), s') \<and> kh_root_key k \<noteq> sample_root"
proof -
  let ?root = "replicate 32 (CHR ''e'')" and ?D = "sample_draws ''u'' ''a1'' 5"
  obtain package where p: "create_package sample_rt ''r'' 0 ''s'' (replicate 12 (CHR ''n''))
      (vh_vault_id sample_header) ?root ''rec'' = Ok package"
    by (simp add: create_package_def wrap_root_key_def passphrase_derive_def default_scrypt_derive key_size_def)
      (simp add: sample_rt_def)
  have d: "passphrase_derive sample_rt default_scrypt ''new'' (dr_salt ?D) = Ok (pad 32 ''new'')"
    by (simp add: passphrase_derive_def default_scrypt_derive) (simp add: sample_rt_def)
  have "?root \<noteq> sample_root" by (simp add: sample_root_def)
  with recovery_accepts_any_root_key [OF sample_aead_ok sample_codec_ok _ _ sample_reads(1) _ p d]
  show ?thesis by (fastforce simp: sample_draws_def key_size_def)
qed

section \<open>One-time passwords and serialization\<close>

text \<open>C24: Base32 decodes what it encoded, for every non-empty seed, with 32-bit buffers that lose
  the bits shifted out.\<close>

theorem base32_round_trip:
  assumes "seed \<noteq> []"
  shows "base32_decode_no_padding (base32_encode_no_padding seed) = Ok seed"
  using assms by (rule b32_round_trip)

theorem base32_round_trip_witness:
  "base32_decode_no_padding (base32_encode_no_padding ''foobar'') = Ok ''foobar''"
  by (rule base32_round_trip) simp

text \<open>A code is accepted exactly in the window of one step before to one step after the
  current one.\<close>

theorem totp_window_is_three_steps:
  assumes "seed \<noteq> []" and "normalize_code code = Ok code'"
  shows "verify_totp_code X (new_totp_config seed issuer account) code now 1 = Ok True \<longleftrightarrow>
     (\<exists>offset \<in> {-1, 0, 1}. 0 \<le> int (now div 30) + offset \<and>
        totp_at_step X seed (nat (int (now div 30) + offset)) 6 = Ok code')"
  using assms by (rule verify_totp_iff)

theorem totp_window_is_three_steps_witness:
  "verify_totp_code sample_rt (new_totp_config sample_seed ''HBSE'' ''me'') sample_code 60 1 = Ok True"
proof -
  from totp_window_is_three_steps [OF sample_seed_nonempty normalize_totp_code [OF sample_code_step]]
  show ?thesis using sample_code_step [of 2] by force
qed

text \<open>After enrollment the code of the current step, or of a neighbouring one, verifies.\<close>

theorem enrolled_code_is_accepted:
  assumes "vault_inv X H K s" and "enroll_totp_mfa X H D pass issuer account s = (Inr res, s')"
    and "seal_with X D" and "dr_seed D \<noteq> []"
    and "rt_json_parse X (rt_struct_text X (totp_fields (new_totp_config (dr_seed D) issuer account))) =
         Some (json_obj (totp_fields (new_totp_config (dr_seed D) issuer account)))"
    and "0 \<le> dr_clock D'" and "totp_at_step X (dr_seed D) step 6 = Ok code"
    and "\<bar>int step - dr_clock D' div 30000000000\<bar> \<le> 1"
    and "dr_audit_uuid D' \<notin> ae_event_id ` set (vs_audit s')"
  shows "fst (verify_totp_mfa X H D' pass code s') = Ok ()"
  using assms by (rule enrolled_code_verifies)

theorem enrolled_code_is_accepted_witness:
  "\<exists>s'. fst (verify_totp_mfa sample_rt sample_host (sample_draws ''u'' ''a2'' 60000000000) ''pw'' sample_code s') = Ok () \<and>
     totp_active s'"
proof -
  from sample_enroll obtain res s' where
    e: "enroll_totp_mfa sample_rt sample_host (sample_draws ''u'' ''a1'' 5) ''pw'' ''HBSE'' ''me''
      sample_store = (Inr res, s')" and a: "ae_event_id ` set (vs_audit s') = {''a1''}"
    by (elim exE conjE)
  have "fst (verify_totp_mfa sample_rt sample_host (sample_draws ''u'' ''a2'' 60000000000) ''pw'' sample_code s') = Ok ()"
  proof -
    note accepted = enrolled_code_is_accepted [OF sample_inv e sample_seal_with,
        where D' = "sample_draws ''u'' ''a2'' 60000000000" and step = 2 and code = sample_code,
        unfolded sample_draw_fields, OF sample_seed_nonempty sample_totp_text _ sample_code_step]
    have near: "\<bar>int 2 - 60000000000 div 30000000000\<bar> \<le> 1" by simp
    have "''a2'' \<notin> ae_event_id ` set (vs_audit s')" unfolding a by simp
    from accepted [OF _ near this] show ?thesis by simp
  qed
  moreover from enroll_totp_Ok [OF sample_inv e] have "totp_active s'"
    by (auto simp: totp_active_def dest: seal_version_fields(3))
  ultimately show ?thesis by blast
qed

text \<open>C27: Canonical serialization refuses every value with a float anywhere inside and leaves every
  other well-formed value as it is, so that bytes depend on the value alone.\<close>

theorem canonical_form:
  "(\<not> float_free v \<longrightarrow> \<not> is_ok (canonical_json_bytes X v)) \<and>
   (float_free (JObj m) \<and> json_ok (JObj m) \<longrightarrow>
      canonical_json_bytes X (JObj m) = Ok (rt_json_text X (JObj m)))"
proof -
  have "\<not> is_ok (canonical_json_bytes X v)" if "\<not> float_free v"
    using normalize_float [OF that] by (cases v) (auto simp: canonical_json_bytes_def is_ok_def
        res_bind_def split: sum.splits)
  moreover have "canonical_json_bytes X (JObj m) = Ok (rt_json_text X (JObj m))"
    if "float_free (JObj m)" "json_ok (JObj m)"
    using normalize_ok [OF that] by (simp add: canonical_json_bytes_def del: normalize_value.simps)
  ultimately show ?thesis by blast
qed

theorem canonical_form_witness:
  "\<not> is_ok (canonical_json_bytes sample_rt (JObj [(''a'', JArr [JFloat ''0.5''])]))"
  using canonical_form [of "JObj [(''a'', JArr [JFloat ''0.5''])]" sample_rt] by simp

end
